(* ===== verification/Prelude.thy ===== *)
theory Prelude
  imports Main "HOL-Library.Word"
begin

text \<open>
  Prelude of the libartnet development: the names of the machine types, byte memories with
  bounded copies, the integer truncation of C, and the collections of facts the components
  share.  Nothing in this theory is specific to one source file.
\<close>

unbundle bit_operations_syntax

named_theorems layout "sizes and field offsets of the wire structures"
named_theorems frame "what an operation leaves unchanged"
named_theorems mem_simps "reading a byte memory after a write"
named_theorems cconst "constants of the C source"

type_synonym u8 = "8 word"
type_synonym u16 = "16 word"
type_synonym u32 = "32 word"
type_synonym u64 = "64 word"

text \<open>An IPv4 address as the code keeps it: the \<open>s_addr\<close> word, in network byte order.\<close>

type_synonym ip = "32 word"

section \<open>Byte memories\<close>

text \<open>
  A C byte array is a total function from offsets to bytes.  Its capacity is not part of the
  value: every write of the model states the capacity of its target, and a write past it is
  recorded (see \<open>Node_State\<close>), so that staying inside is something to prove.
\<close>

type_synonym mem = "nat \<Rightarrow> u8"

definition zero_mem :: mem where
  "zero_mem = (\<lambda>_. 0)"

definition memcpy :: "mem \<Rightarrow> nat \<Rightarrow> mem \<Rightarrow> nat \<Rightarrow> nat \<Rightarrow> mem" where
  "memcpy d doff s soff k =
     (\<lambda>i. if doff \<le> i \<and> i < doff + k then s (soff + (i - doff)) else d i)"

definition memset :: "mem \<Rightarrow> u8 \<Rightarrow> nat \<Rightarrow> mem" where
  "memset d v k = (\<lambda>i. if i < k then v else d i)"

definition put_bytes :: "mem \<Rightarrow> nat \<Rightarrow> u8 list \<Rightarrow> mem" where
  "put_bytes m off bs = (\<lambda>i. if off \<le> i \<and> i < off + length bs then bs ! (i - off) else m i)"

definition get_bytes :: "mem \<Rightarrow> nat \<Rightarrow> nat \<Rightarrow> u8 list" where
  "get_bytes m off k = map (\<lambda>i. m (off + i)) [0..<k]"

lemma zero_mem_apply [simp]: "zero_mem i = 0"
  by (simp add: zero_mem_def)

lemma memcpy_in [mem_simps]:
  "doff \<le> i \<Longrightarrow> i < doff + k \<Longrightarrow> memcpy d doff s soff k i = s (soff + (i - doff))"
  by (simp add: memcpy_def)

lemma memcpy_out [mem_simps]:
  "i < doff \<or> doff + k \<le> i \<Longrightarrow> memcpy d doff s soff k i = d i"
  by (auto simp: memcpy_def)

lemma memcpy_0 [simp]: "memcpy d doff s soff 0 = d"
  by (auto simp: memcpy_def fun_eq_iff)

lemma memset_apply [mem_simps]: "memset d v k i = (if i < k then v else d i)"
  by (simp add: memset_def)

lemma length_get_bytes [simp]: "length (get_bytes m off k) = k"
  by (simp add: get_bytes_def)

lemma nth_get_bytes [simp]: "i < k \<Longrightarrow> get_bytes m off k ! i = m (off + i)"
  by (simp add: get_bytes_def)

lemma get_bytes_eqI:
  "(\<And>i. i < k \<Longrightarrow> m (off + i) = m' (off' + i)) \<Longrightarrow> get_bytes m off k = get_bytes m' off' k"
  by (simp add: get_bytes_def)

lemma get_bytes_append:
  "get_bytes m off (j + k) = get_bytes m off j @ get_bytes m (off + j) k"
proof (rule nth_equalityI)
  show "length (get_bytes m off (j + k)) = length (get_bytes m off j @ get_bytes m (off + j) k)"
    by simp
next
  fix i assume "i < length (get_bytes m off (j + k))"
  then show "get_bytes m off (j + k) ! i =
      (get_bytes m off j @ get_bytes m (off + j) k) ! i"
    by (cases "i < j") (auto simp: nth_append add.assoc)
qed

lemma put_bytes_in [mem_simps]:
  "off \<le> i \<Longrightarrow> i < off + length bs \<Longrightarrow> put_bytes m off bs i = bs ! (i - off)"
  by (simp add: put_bytes_def)

lemma put_bytes_out [mem_simps]:
  "i < off \<or> off + length bs \<le> i \<Longrightarrow> put_bytes m off bs i = m i"
  by (auto simp: put_bytes_def)

lemma put_bytes_Nil [simp]: "put_bytes m off [] = m"
  by (auto simp: put_bytes_def fun_eq_iff)

lemma get_bytes_put_bytes_same [mem_simps]:
  "k = length bs \<Longrightarrow> get_bytes (put_bytes m off bs) off k = bs"
  by (auto simp: put_bytes_def intro!: nth_equalityI)

lemma get_bytes_put_bytes_other [mem_simps]:
  "off' + k \<le> off \<or> off + length bs \<le> off' \<Longrightarrow>
     get_bytes (put_bytes m off bs) off' k = get_bytes m off' k"
  by (rule get_bytes_eqI) (auto simp: put_bytes_def)

section \<open>Truncation to a C int\<close>

text \<open>
  The value of an expression whose type is wider than \<open>int\<close>, assigned to an \<open>int\<close>: the
  low 32 bits, read as two's complement (what every target of the build does).
\<close>

definition to_int32 :: "int \<Rightarrow> int" where
  "to_int32 x = (x + 2 ^ 31) mod 2 ^ 32 - 2 ^ 31"

lemma to_int32_id: "- (2 ^ 31) \<le> x \<Longrightarrow> x < 2 ^ 31 \<Longrightarrow> to_int32 x = x"
  by (simp add: to_int32_def)

lemma to_int32_range: "- (2 ^ 31) \<le> to_int32 x \<and> to_int32 x < 2 ^ 31"
proof -
  have "0 \<le> (x + 2 ^ 31) mod 2 ^ 32 \<and> (x + 2 ^ 31) mod 2 ^ 32 < (2 ^ 32 :: int)"
    by (intro conjI pos_mod_sign pos_mod_bound) simp_all
  then show ?thesis by (simp add: to_int32_def)
qed

text \<open>Truth values the code keeps in \<open>uint8_t\<close> and \<open>int\<close> fields.\<close>

definition c_bool :: "bool \<Rightarrow> int" where
  "c_bool b = (if b then 1 else 0)"

text \<open>Folding an index loop \<open>for (i = 0; i < k; i++)\<close> over a state.\<close>

definition for_upto :: "nat \<Rightarrow> (nat \<Rightarrow> 's \<Rightarrow> 's) \<Rightarrow> 's \<Rightarrow> 's" where
  "for_upto k body s = fold body [0..<k] s"

lemma for_upto_0 [simp]: "for_upto 0 body s = s"
  by (simp add: for_upto_def)

lemma for_upto_Suc: "for_upto (Suc k) body s = body k (for_upto k body s)"
  by (simp add: for_upto_def)

lemma for_upto_4: "for_upto 4 body s = body 3 (body 2 (body 1 (body 0 s)))"
proof -
  have "[0..<4] = [0, 1, 2, 3 :: nat]" by (simp add: upt_rec)
  then show ?thesis by (simp add: for_upto_def)
qed

text \<open>The invariant rule for such a loop.\<close>

lemma for_upto_invariant:
  assumes "P s" and "\<And>i s. i < k \<Longrightarrow> P s \<Longrightarrow> P (body i s)"
  shows "P (for_upto k body s)"
proof -
  have "j \<le> k \<Longrightarrow> P (for_upto j body s)" for j
    by (induction j) (auto simp: assms for_upto_Suc)
  then show ?thesis by simp
qed

text \<open>A loop whose body leaves an observation of the state unchanged leaves it unchanged.\<close>

lemma for_upto_frame:
  assumes "\<And>i s. i < k \<Longrightarrow> f (body i s) = f s"
  shows "f (for_upto k body s) = f s"
  by (rule for_upto_invariant [where P = "\<lambda>t. f t = f s"]) (simp_all add: assms)

section \<open>Runs that cannot branch\<close>

text \<open>From \<open>s\<close> there is only one next state, \<open>n\<close> times, and the last is \<open>t\<close>.\<close>

fun runs_to :: "('s \<Rightarrow> 's \<Rightarrow> bool) \<Rightarrow> nat \<Rightarrow> 's \<Rightarrow> 's \<Rightarrow> bool" where
  "runs_to R 0 s t \<longleftrightarrow> s = t"
| "runs_to R (Suc n) s t \<longleftrightarrow> (\<exists>u. (\<forall>x. R s x = (x = u)) \<and> runs_to R n u t)"

lemma runs_to_trans: "runs_to R k s t \<Longrightarrow> runs_to R n t u \<Longrightarrow> runs_to R (k + n) s u"
  by (induction k arbitrary: s) auto

lemma runs_to_two: "(\<And>z. R s z = (z = t)) \<Longrightarrow> (\<And>z. R t z = (z = u)) \<Longrightarrow> runs_to R 2 s u"
  by (simp add: numeral_2_eq_2) blast

lemma runs_to_reaches: "runs_to R n s t \<Longrightarrow> R\<^sup>*\<^sup>* s t"
  by (induction n arbitrary: s) (auto intro: converse_rtranclp_into_rtranclp)

text \<open>So every run passes through the last state, or is still before it.\<close>

lemma runs_to_passes:
  assumes "runs_to R n s t" "R\<^sup>*\<^sup>* s x"
  shows "R\<^sup>*\<^sup>* x t \<or> R\<^sup>*\<^sup>* t x"
  using assms
proof (induction n arbitrary: s)
  case (Suc n)
  show ?case
  proof (cases "s = x")
    case True
    then show ?thesis using runs_to_reaches [OF Suc.prems(1)] by simp
  next
    case False
    from Suc.prems(1) obtain u where u: "\<And>y. R s y = (y = u)" "runs_to R n u t" by auto
    from Suc.prems(2) False obtain y where "R s y" "R\<^sup>*\<^sup>* y x" by (auto elim: converse_rtranclpE)
    with u(1) Suc.IH [OF u(2)] show ?thesis by simp
  qed
qed auto

end
