(* ===== verification/Util.thy ===== *)
theory Util
  imports Prelude
begin

text \<open>
  The byte and time helpers: \<open>artnet/misc.c\<close>, \<open>artnet/time_util.c\<close> and the macros and
  inline functions of \<open>artnet/private.h\<close> that split and join 16-bit values and 15-bit
  universe addresses.  The host is little endian, as on every platform the build names
  (\<open>htols\<close> is then the identity).  The codecs are instances of one locale, which states the
  round trip they share and derives that no two values have the same encoding.
\<close>

section \<open>The contract of a codec\<close>

locale byte_codec =
  fixes enc :: "'v \<Rightarrow> 'b"
    and dec :: "'b \<Rightarrow> 'v"
    and ok :: "'v \<Rightarrow> bool"
  assumes dec_enc: "ok v \<Longrightarrow> dec (enc v) = v"
begin

lemma enc_inject: "ok v \<Longrightarrow> ok w \<Longrightarrow> enc v = enc w \<longleftrightarrow> v = w"
  by (metis dec_enc)

lemma dec_surj: "ok v \<Longrightarrow> \<exists>b. dec b = v"
  using dec_enc by blast

lemma enc_map_inject:
  "list_all ok vs \<Longrightarrow> list_all ok ws \<Longrightarrow> map enc vs = map enc ws \<longleftrightarrow> vs = ws"
  by (metis (mono_tags, lifting) dec_enc list_all_iff map_idI map_map o_apply)

end

section \<open>Bits out of range\<close>

lemma bit_u8_out [simp]: "8 \<le> n \<Longrightarrow> \<not> bit (b :: u8) n"
  and bit_u16_out [simp]: "16 \<le> n \<Longrightarrow> \<not> bit (c :: u16) n"
  and bit_u32_out [simp]: "32 \<le> n \<Longrightarrow> \<not> bit (d :: u32) n"
  by (auto dest: bit_imp_le_length)

lemma bit_shift_back: "bit d n \<Longrightarrow> \<not> bit d (k + (n - k)) \<Longrightarrow> n < k"
  by (cases "k \<le> n") auto

section \<open>Bytes and 16-bit values (private.h)\<close>

definition short_get_high_byte :: "u16 \<Rightarrow> u8" where
  "short_get_high_byte x = ucast (drop_bit 8 (0xFF00 AND x))"

definition short_get_low_byte :: "u16 \<Rightarrow> u8" where
  "short_get_low_byte x = ucast (0x00FF AND x)"

definition bytes_to_short :: "u8 \<Rightarrow> u8 \<Rightarrow> int" where
  "bytes_to_short h l = uint ((push_bit 8 (ucast h) AND 0xFF00) OR (ucast l AND 0x00FF) :: u16)"

lemma mask_8_u16: "(0xFF :: u16) = mask 8"
  by (simp add: mask_eq_exp_minus_1)

lemma mask_hi_u16: "(0xFF00 :: u16) = push_bit 8 (mask 8)"
  by (simp add: mask_eq_exp_minus_1 push_bit_eq_mult)

lemma short_get_high_byte_eq: "short_get_high_byte x = ucast (drop_bit 8 x)"
  by (rule bit_word_eqI) (auto simp: short_get_high_byte_def mask_hi_u16 bit_simps)

lemma short_get_low_byte_eq: "short_get_low_byte x = ucast x"
  by (rule bit_word_eqI) (auto simp: short_get_low_byte_def mask_8_u16 bit_simps)

lemma bytes_to_short_or:
  "bytes_to_short h l = uint (push_bit 8 (ucast h) OR ucast l :: u16)"
proof -
  have "(push_bit 8 (ucast h) AND 0xFF00) OR (ucast l AND 0x00FF)
      = (push_bit 8 (ucast h) OR ucast l :: u16)"
    by (rule bit_word_eqI)
      (auto simp: mask_8_u16 mask_hi_u16 bit_simps dest: bit_imp_le_length)
  then show ?thesis by (simp only: bytes_to_short_def)
qed

lemma bytes_to_short_eq: "bytes_to_short h l = 256 * uint h + uint l"
proof -
  have "push_bit 8 (ucast h) OR ucast l = (push_bit 8 (ucast h) + ucast l :: u16)"
    by (rule disjunctive_add [symmetric]) (auto simp: bit_simps dest: bit_imp_le_length)
  moreover have "uint h < 256" "uint l < 256"
    using uint_lt2p [of h] uint_lt2p [of l] by simp_all
  ultimately show ?thesis
    unfolding bytes_to_short_or
    by (simp add: push_bit_eq_mult uint_word_ariths unsigned_ucast_eq take_bit_eq_mod)
qed

lemma bytes_to_short_bounds: "0 \<le> bytes_to_short h l \<and> bytes_to_short h l < 65536"
  using uint_lt2p [of h] uint_lt2p [of l] by (simp add: bytes_to_short_eq)

lemma bytes_to_short_split:
  "bytes_to_short (short_get_high_byte x) (short_get_low_byte x) = uint x"
proof -
  have "push_bit 8 (ucast (short_get_high_byte x)) OR ucast (short_get_low_byte x) = x"
    by (rule bit_word_eqI)
      (auto simp: short_get_high_byte_eq short_get_low_byte_eq bit_simps
        dest: bit_imp_le_length)
  then show ?thesis by (simp add: bytes_to_short_or)
qed

text \<open>The length fields of the wire format: a C \<open>int\<close> between 0 and 65535, high byte first.\<close>

lemma bytes_to_short_split_int:
  "0 \<le> k \<Longrightarrow> k < 65536 \<Longrightarrow>
     bytes_to_short (short_get_high_byte (word_of_int k)) (short_get_low_byte (word_of_int k)) = k"
  by (simp add: bytes_to_short_split uint_word_of_int)

interpretation short_codec: byte_codec
  "\<lambda>k. (short_get_high_byte (word_of_int k), short_get_low_byte (word_of_int k))"
  "\<lambda>(h, l). bytes_to_short h l" "\<lambda>k. 0 \<le> k \<and> k < 65536"
  by unfold_locales (simp add: bytes_to_short_split_int)

text \<open>A \<open>uint16_t\<close> field of a packed structure, as the little-endian host stores it.\<close>

definition le16_bytes :: "u16 \<Rightarrow> u8 list" where
  "le16_bytes x = [ucast x, ucast (drop_bit 8 x)]"

definition le16 :: "u8 \<Rightarrow> u8 \<Rightarrow> u16" where
  "le16 lo hi = push_bit 8 (ucast hi) OR ucast lo"

lemma le16_split: "le16 (ucast x) (ucast (drop_bit 8 x)) = x"
  by (rule bit_word_eqI) (auto simp: le16_def bit_simps dest: bit_imp_le_length)

interpretation le16_codec: byte_codec le16_bytes "\<lambda>bs. le16 (bs ! 0) (bs ! 1)" "\<lambda>_. True"
  by unfold_locales (simp add: le16_bytes_def le16_split)

section \<open>32-bit values (misc.c)\<close>

text \<open>
  \<open>artnet_misc_nbytes_to_32\<close> returns an \<open>int32_t\<close>; the model returns its 32 bits, and a
  use that reads it as signed says \<open>sint\<close>.
\<close>

definition artnet_misc_nbytes_to_32 :: "u8 list \<Rightarrow> u32" where
  "artnet_misc_nbytes_to_32 b =
     push_bit 24 (ucast (b ! 0)) OR push_bit 16 (ucast (b ! 1)) OR
     push_bit 8 (ucast (b ! 2)) OR ucast (b ! 3)"

definition artnet_misc_int_to_bytes :: "u32 \<Rightarrow> u8 list" where
  "artnet_misc_int_to_bytes d =
     [ucast (drop_bit 24 (d AND 0xFF000000)), ucast (drop_bit 16 (d AND 0x00FF0000)),
      ucast (drop_bit 8 (d AND 0x0000FF00)), ucast (d AND 0x000000FF)]"

lemma masks_u32:
  "(0xFF :: u32) = mask 8" "(0xFF00 :: u32) = push_bit 8 (mask 8)"
  "(0xFF0000 :: u32) = push_bit 16 (mask 8)" "(0xFF000000 :: u32) = push_bit 24 (mask 8)"
  by (simp_all add: mask_eq_exp_minus_1 push_bit_eq_mult)

lemma artnet_misc_int_to_bytes_eq:
  "artnet_misc_int_to_bytes d =
     [ucast (drop_bit 24 d), ucast (drop_bit 16 d), ucast (drop_bit 8 d), ucast d]"
  unfolding artnet_misc_int_to_bytes_def masks_u32
  by (auto intro!: bit_word_eqI simp: bit_simps)

lemma nbytes_to_32_int_to_bytes:
  "artnet_misc_nbytes_to_32 (artnet_misc_int_to_bytes d) = d"
  by (rule bit_word_eqI)
    (auto simp: artnet_misc_nbytes_to_32_def artnet_misc_int_to_bytes_eq bit_simps
      dest: bit_shift_back)

lemma int_to_bytes_nbytes_to_32:
  "artnet_misc_int_to_bytes (artnet_misc_nbytes_to_32 [a, b, c, d]) = [a, b, c, d]"
  by (simp add: artnet_misc_nbytes_to_32_def artnet_misc_int_to_bytes_eq)
    (auto intro!: bit_word_eqI simp: bit_simps)

lemma length_int_to_bytes [simp]: "length (artnet_misc_int_to_bytes d) = 4"
  by (simp add: artnet_misc_int_to_bytes_def)

interpretation be32_codec:
  byte_codec artnet_misc_int_to_bytes artnet_misc_nbytes_to_32 "\<lambda>_. True"
  by unfold_locales (rule nbytes_to_32_int_to_bytes)

text \<open>
  An \<open>in_addr\<close> in memory (little-endian host), and the two views of its word:
  \<open>ntohl\<close> swaps the bytes, so that the first octet of the address is the top byte.
\<close>

definition ip_bytes :: "ip \<Rightarrow> u8 list" where
  "ip_bytes a = [ucast a, ucast (drop_bit 8 a), ucast (drop_bit 16 a), ucast (drop_bit 24 a)]"

definition ntohl :: "u32 \<Rightarrow> u32" where
  "ntohl a = artnet_misc_nbytes_to_32 (ip_bytes a)"

definition octets_to_ip :: "u8 \<Rightarrow> u8 \<Rightarrow> u8 \<Rightarrow> u8 \<Rightarrow> ip" where
  "octets_to_ip a b c d = ntohl (artnet_misc_nbytes_to_32 [a, b, c, d])"

lemma length_ip_bytes [simp]: "length (ip_bytes a) = 4"
  by (simp add: ip_bytes_def)

lemma ip_bytes_rev: "ip_bytes a = rev (artnet_misc_int_to_bytes a)"
  by (simp add: ip_bytes_def artnet_misc_int_to_bytes_eq)

lemma int_to_bytes_ntohl: "artnet_misc_int_to_bytes (ntohl a) = ip_bytes a"
  by (simp add: ntohl_def ip_bytes_def int_to_bytes_nbytes_to_32)

lemma ntohl_ntohl: "ntohl (ntohl a) = a"
proof -
  have "ip_bytes (ntohl a) = artnet_misc_int_to_bytes a"
    by (simp add: ip_bytes_rev int_to_bytes_ntohl)
  then show ?thesis
    by (simp only: ntohl_def [of "ntohl a"] nbytes_to_32_int_to_bytes)
qed

lemma ip_bytes_octets: "ip_bytes (octets_to_ip a b c d) = [a, b, c, d]"
  by (simp only: octets_to_ip_def int_to_bytes_ntohl [symmetric] ntohl_ntohl
      int_to_bytes_nbytes_to_32)

section \<open>Universe addresses (private.h)\<close>

definition make_addr :: "u8 \<Rightarrow> u8 \<Rightarrow> u8 \<Rightarrow> u16" where
  "make_addr net subnet addr =
     push_bit 8 (ucast (net AND 0x7F)) OR push_bit 4 (ucast (subnet AND 0x0F)) OR
     ucast (addr AND 0x0F)"

definition addr_port :: "u16 \<Rightarrow> u8" where
  "addr_port a = ucast (a AND 0x0F)"

definition addr_subnet :: "u16 \<Rightarrow> u8" where
  "addr_subnet a = ucast (drop_bit 4 a AND 0x0F)"

definition addr_net :: "u16 \<Rightarrow> u8" where
  "addr_net a = ucast (drop_bit 8 a AND 0x7F)"

lemma addr_masks:
  "(0x0F :: u16) = mask 4" "(0x7F :: u16) = mask 7" "(0x0F :: u8) = mask 4" "(0x7F :: u8) = mask 7"
  by (simp_all add: mask_eq_exp_minus_1)

lemmas addr_bits = make_addr_def addr_port_def addr_subnet_def addr_net_def addr_masks bit_simps

lemma addr_port_make_addr [simp]: "addr_port (make_addr net subnet addr) = addr AND 0x0F"
  by (rule bit_word_eqI) (auto simp: addr_bits)

lemma addr_subnet_make_addr [simp]: "addr_subnet (make_addr net subnet addr) = subnet AND 0x0F"
  by (rule bit_word_eqI) (auto simp: addr_bits)

lemma addr_net_make_addr [simp]: "addr_net (make_addr net subnet addr) = net AND 0x7F"
  by (rule bit_word_eqI) (auto simp: addr_bits)

lemma addr_port_nibble [simp]: "addr_port a AND 0x0F = addr_port a"
  by (rule bit_word_eqI) (auto simp: addr_bits)

lemma make_addr_nibble [simp]:
  "make_addr net subnet (addr AND 0x0F) = make_addr net subnet addr"
  "make_addr net (subnet AND 0x0F) addr = make_addr net subnet addr"
  "make_addr (net AND 0x7F) subnet addr = make_addr net subnet addr"
  by (auto simp: make_addr_def intro!: bit_word_eqI simp: bit_simps)

text \<open>An address is 15 bits wide: the code never sets its top bit.\<close>

definition addr15 :: "u16 \<Rightarrow> bool" where
  "addr15 a \<longleftrightarrow> a < 0x8000"

lemma addr15_iff: "addr15 a \<longleftrightarrow> take_bit 15 a = a"
proof -
  have "take_bit 15 a = a \<longleftrightarrow> uint a mod 2 ^ 15 = uint a"
    by (metis take_bit_eq_mod unsigned_take_bit_eq word_uint_eq_iff)
  then show ?thesis by (auto simp: addr15_def word_less_alt mod_pos_pos_trivial)
qed

lemma addr15_make_addr [simp, intro]: "addr15 (make_addr net subnet addr)"
  unfolding addr15_iff by (rule bit_word_eqI) (auto simp: addr_bits)

lemma make_addr_split: "addr15 a \<Longrightarrow> make_addr (addr_net a) (addr_subnet a) (addr_port a) = a"
proof -
  assume "addr15 a"
  then have "take_bit 15 a = a" by (simp add: addr15_iff)
  moreover have "make_addr (addr_net a) (addr_subnet a) (addr_port a) = take_bit 15 a"
    by (rule bit_word_eqI) (auto simp: addr_bits dest: bit_shift_back)
  ultimately show ?thesis by simp
qed

interpretation addr_codec: byte_codec
  "\<lambda>a. (addr_net a, addr_subnet a, addr_port a)" "\<lambda>(n, s, p). make_addr n s p" addr15
  by unfold_locales (simp add: make_addr_split)

text \<open>
  RDM packets carry an address as a net byte and a byte with the subnet in its high nibble
  (the expressions of \<open>handle_tod_control\<close>, \<open>artnet_tx_tod_data\<close> and their kin).
\<close>

definition addr_low_byte :: "u16 \<Rightarrow> u8" where
  "addr_low_byte a = push_bit 4 (addr_subnet a) OR addr_port a"

definition addr_from_bytes :: "u8 \<Rightarrow> u8 \<Rightarrow> u16" where
  "addr_from_bytes net low = make_addr net (drop_bit 4 low AND 0x0F) (low AND 0x0F)"

lemma addr_from_bytes_split:
  "addr15 a \<Longrightarrow> addr_from_bytes (addr_net a) (addr_low_byte a) = a"
proof -
  have "drop_bit 4 (addr_low_byte a) AND 0x0F = addr_subnet a"
    "addr_low_byte a AND 0x0F = addr_port a"
    by (rule bit_word_eqI; auto simp: addr_low_byte_def addr_bits)+
  then show "addr15 a \<Longrightarrow> ?thesis"
    by (simp only: addr_from_bytes_def make_addr_split)
qed

interpretation rdm_addr_codec: byte_codec
  "\<lambda>a. (addr_net a, addr_low_byte a)" "\<lambda>(n, l). addr_from_bytes n l" addr15
  by unfold_locales (simp add: addr_from_bytes_split)

section \<open>Time (time_util.c)\<close>

definition artnet_time_diff_ms :: "u64 \<Rightarrow> u64 \<Rightarrow> int" where
  "artnet_time_diff_ms a b = sint (a - b)"

definition artnet_is_timeout :: "u64 \<Rightarrow> u64 \<Rightarrow> int \<Rightarrow> bool" where
  "artnet_is_timeout now since timeout_ms \<longleftrightarrow> timeout_ms \<le> sint (now - since)"

text \<open>Below the range where the signed difference wraps, a timeout is the plain comparison.\<close>

lemma sint_diff_eq:
  fixes a b :: u64
  assumes "uint a < 2 ^ 63" "uint b < 2 ^ 63"
  shows "sint (a - b) = uint a - uint b"
proof -
  have "- (2 ^ 63) \<le> uint a - uint b" "uint a - uint b < 2 ^ 63"
    using assms uint_ge_0 [of a] uint_ge_0 [of b] by linarith+
  moreover have "sint (word_of_int x :: u64) = x"
    if "- (2 ^ 63) \<le> x" "x < 2 ^ 63" for x :: int
    using that by (simp add: signed_of_int signed_take_bit_int_eq_self_iff)
  ultimately show ?thesis by (metis word_sub_wi)
qed

lemma artnet_is_timeout_iff:
  "uint now < 2 ^ 63 \<Longrightarrow> uint since < 2 ^ 63 \<Longrightarrow>
     artnet_is_timeout now since t \<longleftrightarrow> uint since + t \<le> uint now"
  by (auto simp: artnet_is_timeout_def sint_diff_eq)

lemma artnet_is_timeout_mono:
  "artnet_is_timeout now since t \<Longrightarrow> t' \<le> t \<Longrightarrow> artnet_is_timeout now since t'"
  by (simp add: artnet_is_timeout_def)

end
