(* ===== verification/Packets.thy ===== *)
theory Packets
  imports Util
begin

text \<open>
  The wire format: \<open>artnet/packets.h\<close> and the size constants of \<open>artnet/common.h\<close>.
  Every packed structure is a layout, the list of its fields with their sizes in the order
  the header declares them; \<open>sizeof\<close> and \<open>offset\<close> compute what the compiler does for a
  structure without padding.  A packet's payload is the byte memory of the union, so that the
  same bytes are read through whichever structure the code selects.
\<close>

section \<open>Sizes (common.h, packets.h)\<close>

definition ARTNET_MAX_PORTS :: "'a::numeral" where
  [simp]: "ARTNET_MAX_PORTS = 4"

definition ARTNET_SHORT_NAME_LENGTH :: "'a::numeral" where
  [simp]: "ARTNET_SHORT_NAME_LENGTH = 18"

definition ARTNET_LONG_NAME_LENGTH :: "'a::numeral" where
  [simp]: "ARTNET_LONG_NAME_LENGTH = 64"

definition ARTNET_REPORT_LENGTH :: "'a::numeral" where
  [simp]: "ARTNET_REPORT_LENGTH = 64"

definition ARTNET_DMX_LENGTH :: "'a::numeral" where
  [simp]: "ARTNET_DMX_LENGTH = 512"

definition ARTNET_RDM_UID_WIDTH :: "'a::numeral" where
  [simp]: "ARTNET_RDM_UID_WIDTH = 6"

definition ARTNET_MAC_SIZE :: "'a::numeral" where
  [simp]: "ARTNET_MAC_SIZE = 6"

definition ARTNET_IP_SIZE :: "'a::numeral" where
  [simp]: "ARTNET_IP_SIZE = 4"

definition ARTNET_MAX_RDM_ADCOUNT :: "'a::numeral" where
  [simp]: "ARTNET_MAX_RDM_ADCOUNT = 32"

definition ARTNET_MAX_UID_COUNT :: "'a::numeral" where
  [simp]: "ARTNET_MAX_UID_COUNT = 200"

definition ARTNET_MAX_RDM_DATA :: "'a::numeral" where
  [simp]: "ARTNET_MAX_RDM_DATA = 512"

definition ARTNET_FIRMWARE_SIZE :: "'a::numeral" where
  [simp]: "ARTNET_FIRMWARE_SIZE = 512"

text \<open>Error codes of \<open>common.h\<close>.\<close>

definition ARTNET_EOK :: int where
  [simp]: "ARTNET_EOK = 0"

definition ARTNET_ENET :: int where
  [simp]: "ARTNET_ENET = - 1"

definition ARTNET_EMEM :: int where
  [simp]: "ARTNET_EMEM = - 2"

definition ARTNET_EARG :: int where
  [simp]: "ARTNET_EARG = - 3"

definition ARTNET_ESTATE :: int where
  [simp]: "ARTNET_ESTATE = - 4"

definition ARTNET_EACTION :: int where
  [simp]: "ARTNET_EACTION = - 5"

section \<open>Layouts\<close>

type_synonym layout = "(string \<times> nat) list"

fun offset :: "layout \<Rightarrow> string \<Rightarrow> nat" where
  "offset [] f = 0"
| "offset ((g, k) # L) f = (if g = f then 0 else k + offset L f)"

definition sizeof :: "layout \<Rightarrow> nat" where
  "sizeof L = sum_list (map snd L)"

lemma offset_le_sizeof: "offset L f \<le> sizeof L"
  by (induction L f rule: offset.induct) (auto simp: sizeof_def)

text \<open>A declared field lies inside its structure.\<close>

lemma offset_field: "(f, k) \<in> set L \<Longrightarrow> distinct (map fst L) \<Longrightarrow> offset L f + k \<le> sizeof L"
  by (induction L f rule: offset.induct) (auto simp: sizeof_def rev_image_eqI)

definition artnet_poll_s :: layout where
  "artnet_poll_s =
    [(''id'', 8), (''opCode'', 2), (''verH'', 1), (''ver'', 1), (''flags'', 1),
     (''diagPriority'', 1), (''targetPortAddressTopHi'', 1), (''targetPortAddressTopLo'', 1),
     (''targetPortAddressBottomHi'', 1), (''targetPortAddressBottomLo'', 1), (''estaMan'', 2),
     (''oem'', 2)]"

definition artnet_reply_s :: layout where
  "artnet_reply_s =
    [(''id'', 8), (''opCode'', 2), (''ip'', 4), (''port'', 2), (''verH'', 1), (''ver'', 1),
     (''netSwitch'', 1), (''subSwitch'', 1), (''oemH'', 1), (''oem'', 1), (''ubea'', 1),
     (''status'', 1), (''estaMan'', 2), (''shortName'', ARTNET_SHORT_NAME_LENGTH),
     (''longName'', ARTNET_LONG_NAME_LENGTH), (''nodeReport'', ARTNET_REPORT_LENGTH),
     (''numbportsH'', 1), (''numbports'', 1), (''portTypes'', ARTNET_MAX_PORTS),
     (''goodInput'', ARTNET_MAX_PORTS), (''goodOutputA'', ARTNET_MAX_PORTS),
     (''swIn'', ARTNET_MAX_PORTS), (''swOut'', ARTNET_MAX_PORTS), (''acnPriority'', 1),
     (''swMacro'', 1), (''swRemote'', 1), (''sp1'', 1), (''sp2'', 1), (''sp3'', 1),
     (''style'', 1), (''mac'', ARTNET_MAC_SIZE), (''bindIp'', ARTNET_IP_SIZE),
     (''bindIndex'', 1), (''status2'', 1), (''goodOutputB'', ARTNET_MAX_PORTS),
     (''status3'', 1), (''defaultRespUid'', ARTNET_RDM_UID_WIDTH), (''userHi'', 1),
     (''userLo'', 1), (''refreshRateHi'', 1), (''refreshRateLo'', 1), (''bgQueuePolicy'', 1),
     (''filler'', 10)]"

definition artnet_ipprog_s :: layout where
  "artnet_ipprog_s =
    [(''id'', 8), (''OpCode'', 2), (''ProVerHi'', 1), (''ProVerLo'', 1), (''Filler1'', 1),
     (''Filler2'', 1), (''Command'', 1), (''Filler4'', 1), (''ProgIpHi'', 1), (''ProgIp2'', 1),
     (''ProgIp1'', 1), (''ProgIpLo'', 1), (''ProgSmHi'', 1), (''ProgSm2'', 1),
     (''ProgSm1'', 1), (''ProgSmLo'', 1), (''ProgPortHi'', 1), (''ProgPortLo'', 1),
     (''ProgDgHi'', 1), (''ProgDg2'', 1), (''ProgDg1'', 1), (''ProgDgLo'', 1), (''Spare1'', 1),
     (''Spare2'', 1), (''Spare3'', 1), (''Spare4'', 1)]"

definition artnet_ipprog_reply_s :: layout where
  "artnet_ipprog_reply_s =
    [(''id'', 8), (''OpCode'', 2), (''ProVerHi'', 1), (''ProVerLo'', 1), (''Filler1'', 1),
     (''Filler2'', 1), (''Filler3'', 1), (''Filler4'', 1), (''ProgIpHi'', 1), (''ProgIp2'', 1),
     (''ProgIp1'', 1), (''ProgIpLo'', 1), (''ProgSmHi'', 1), (''ProgSm2'', 1),
     (''ProgSm1'', 1), (''ProgSmLo'', 1), (''ProgPortHi'', 1), (''ProgPortLo'', 1),
     (''Status'', 1), (''Spare2'', 1), (''ProgDgHi'', 1), (''ProgDg2'', 1), (''ProgDg1'', 1),
     (''ProgDgLo'', 1), (''Spare7'', 1), (''Spare8'', 1)]"

definition artnet_data_request_s :: layout where
  "artnet_data_request_s =
    [(''id'', 8), (''opCode'', 2), (''verH'', 1), (''ver'', 1), (''estaManHi'', 1),
     (''estaManLo'', 1), (''oemHi'', 1), (''oemLo'', 1), (''requestHi'', 1),
     (''requestLo'', 1), (''spare'', 22)]"

definition artnet_data_reply_s :: layout where
  "artnet_data_reply_s =
    [(''id'', 8), (''opCode'', 2), (''verH'', 1), (''ver'', 1), (''estaManHi'', 1),
     (''estaManLo'', 1), (''oemHi'', 1), (''oemLo'', 1), (''requestHi'', 1),
     (''requestLo'', 1), (''payLenHi'', 1), (''payLenLo'', 1), (''payLoad'', 512)]"

definition artnet_address_s :: layout where
  "artnet_address_s =
    [(''id'', 8), (''opCode'', 2), (''verH'', 1), (''ver'', 1), (''netSwitch'', 1),
     (''bindIndex'', 1), (''shortName'', ARTNET_SHORT_NAME_LENGTH),
     (''longName'', ARTNET_LONG_NAME_LENGTH), (''swIn'', ARTNET_MAX_PORTS),
     (''swOut'', ARTNET_MAX_PORTS), (''subSwitch'', 1), (''acnPriority'', 1),
     (''command'', 1)]"

definition artnet_dmx_s :: layout where
  "artnet_dmx_s =
    [(''id'', 8), (''opCode'', 2), (''verH'', 1), (''ver'', 1), (''sequence'', 1),
     (''physical'', 1), (''universe'', 2), (''lengthHi'', 1), (''length'', 1),
     (''data'', ARTNET_DMX_LENGTH)]"

definition artnet_input_s :: layout where
  "artnet_input_s =
    [(''id'', 8), (''opCode'', 2), (''verH'', 1), (''ver'', 1), (''filler1'', 1),
     (''bindIndex'', 1), (''numbportsH'', 1), (''numbports'', 1),
     (''input'', ARTNET_MAX_PORTS)]"

definition artnet_todrequest_s :: layout where
  "artnet_todrequest_s =
    [(''id'', 8), (''opCode'', 2), (''verH'', 1), (''ver'', 1), (''filler1'', 1),
     (''filler2'', 1), (''spare1'', 1), (''spare2'', 1), (''spare3'', 1), (''spare4'', 1),
     (''spare5'', 1), (''spare6'', 1), (''spare7'', 1), (''net'', 1), (''command'', 1),
     (''adCount'', 1), (''address'', ARTNET_MAX_RDM_ADCOUNT)]"

definition artnet_toddata_s :: layout where
  "artnet_toddata_s =
    [(''id'', 8), (''opCode'', 2), (''verH'', 1), (''ver'', 1), (''rdmVer'', 1), (''port'', 1),
     (''spare1'', 1), (''spare2'', 1), (''spare3'', 1), (''spare4'', 1), (''spare5'', 1),
     (''spare6'', 1), (''bindIndex'', 1), (''net'', 1), (''cmdRes'', 1), (''address'', 1),
     (''uidTotalHi'', 1), (''uidTotal'', 1), (''blockCount'', 1), (''uidCount'', 1),
     (''tod'', ARTNET_MAX_UID_COUNT * ARTNET_RDM_UID_WIDTH)]"

definition artnet_firmware_s :: layout where
  "artnet_firmware_s =
    [(''id'', 8), (''opCode'', 2), (''verH'', 1), (''ver'', 1), (''filler1'', 1),
     (''filler2'', 1), (''type'', 1), (''blockId'', 1), (''length'', 4), (''spare'', 20),
     (''data'', ARTNET_FIRMWARE_SIZE * 2)]"

definition artnet_todcontrol_s :: layout where
  "artnet_todcontrol_s =
    [(''id'', 8), (''opCode'', 2), (''verH'', 1), (''ver'', 1), (''filler1'', 1),
     (''filler2'', 1), (''spare1'', 1), (''spare2'', 1), (''spare3'', 1), (''spare4'', 1),
     (''spare5'', 1), (''spare6'', 1), (''spare7'', 1), (''net'', 1), (''cmd'', 1),
     (''address'', 1)]"

definition artnet_rdm_s :: layout where
  "artnet_rdm_s =
    [(''id'', 8), (''opCode'', 2), (''verH'', 1), (''ver'', 1), (''rdmVer'', 1),
     (''filler2'', 1), (''spare1'', 1), (''spare2'', 1), (''spare3'', 1), (''spare4'', 1),
     (''spare5'', 1), (''fifoAvail'', 1), (''fifoMax'', 1), (''net'', 1), (''cmd'', 1),
     (''address'', 1), (''data'', ARTNET_MAX_RDM_DATA)]"

definition artnet_rdm_sub_s :: layout where
  "artnet_rdm_sub_s =
    [(''id'', 8), (''opCode'', 2), (''verH'', 1), (''ver'', 1), (''rdmVer'', 1),
     (''filler2'', 1), (''uid'', ARTNET_RDM_UID_WIDTH), (''spare1'', 1), (''commandClass'', 1),
     (''paramIdHi'', 1), (''paramId'', 1), (''subDeviceHi'', 1), (''subDevice'', 1),
     (''subCountHi'', 1), (''subCount'', 1), (''spare2'', 1), (''spare3'', 1), (''spare4'', 1),
     (''spare5'', 1), (''data'', ARTNET_MAX_RDM_DATA)]"

definition artnet_diagdata_s :: layout where
  "artnet_diagdata_s =
    [(''id'', 8), (''opCode'', 2), (''verH'', 1), (''ver'', 1), (''filler1'', 1),
     (''diagPriority'', 1), (''logicalPort'', 1), (''filler3'', 1), (''lengthHi'', 1),
     (''length'', 1), (''data'', ARTNET_DMX_LENGTH)]"

definition artnet_firmware_reply_s :: layout where
  "artnet_firmware_reply_s =
    [(''id'', 8), (''opCode'', 2), (''verH'', 1), (''ver'', 1), (''filler1'', 1),
     (''filler2'', 1), (''type'', 1), (''spare'', 21)]"

definition artnet_sync_s :: layout where
  "artnet_sync_s =
    [(''id'', 8), (''opCode'', 2), (''verH'', 1), (''ver'', 1), (''aux1'', 1), (''aux2'', 1)]"

definition artnet_nzs_s :: layout where
  "artnet_nzs_s =
    [(''id'', 8), (''opCode'', 2), (''verH'', 1), (''ver'', 1), (''sequence'', 1),
     (''startCode'', 1), (''universe'', 2), (''lengthHi'', 1), (''length'', 1),
     (''data'', ARTNET_DMX_LENGTH)]"

definition artnet_command_s :: layout where
  "artnet_command_s =
    [(''id'', 8), (''opCode'', 2), (''verH'', 1), (''ver'', 1), (''estaManHi'', 1),
     (''estaManLo'', 1), (''lengthHi'', 1), (''lengthLo'', 1), (''data'', ARTNET_DMX_LENGTH)]"

definition artnet_timecode_s :: layout where
  "artnet_timecode_s =
    [(''id'', 8), (''opCode'', 2), (''verH'', 1), (''ver'', 1), (''filler1'', 1),
     (''streamId'', 1), (''frames'', 1), (''seconds'', 1), (''minutes'', 1), (''hours'', 1),
     (''type'', 1)]"

definition artnet_timesync_s :: layout where
  "artnet_timesync_s =
    [(''id'', 8), (''opCode'', 2), (''verH'', 1), (''ver'', 1), (''filler1'', 1),
     (''filler2'', 1), (''tm_sec'', 1), (''tm_min'', 1), (''tm_hour'', 1), (''tm_mday'', 1),
     (''tm_mon'', 1), (''tm_year'', 1), (''filler3'', 1), (''filler4'', 1), (''filler5'', 1),
     (''filler6'', 1)]"

definition artnet_trigger_s :: layout where
  "artnet_trigger_s =
    [(''id'', 8), (''opCode'', 2), (''verH'', 1), (''ver'', 1), (''filler1'', 1),
     (''filler2'', 1), (''oemCodeHi'', 1), (''oemCodeLo'', 1), (''key'', 1), (''subKey'', 1),
     (''data'', ARTNET_DMX_LENGTH)]"

definition artnet_directory_s :: layout where
  "artnet_directory_s =
    [(''id'', 8), (''opCode'', 2), (''verH'', 1), (''ver'', 1), (''filler1'', 1),
     (''filler2'', 1), (''spare'', 11)]"

definition artnet_directory_reply_s :: layout where
  "artnet_directory_reply_s =
    [(''id'', 8), (''opCode'', 2), (''verH'', 1), (''ver'', 1), (''spare'', 4),
     (''dirCountHi'', 1), (''dirCountLo'', 1), (''dirTotalHi'', 1), (''dirTotalLo'', 1),
     (''dirEntry'', 2048)]"

definition artnet_file_tn_master_s :: layout where
  "artnet_file_tn_master_s =
    [(''id'', 8), (''opCode'', 2), (''verH'', 1), (''ver'', 1), (''filler1'', 1),
     (''filler2'', 1), (''type'', 1), (''blockId'', 1), (''length'', 4), (''spare'', 20),
     (''data'', ARTNET_FIRMWARE_SIZE * 2)]"

definition artnet_file_fn_master_s :: layout where
  "artnet_file_fn_master_s =
    [(''id'', 8), (''opCode'', 2), (''verH'', 1), (''ver'', 1), (''filler1'', 1),
     (''filler2'', 1), (''spare'', 11), (''lengthHi'', 1), (''lengthLo'', 1),
     (''filename'', 256)]"

definition artnet_file_fn_reply_s :: layout where
  "artnet_file_fn_reply_s =
    [(''id'', 8), (''opCode'', 2), (''verH'', 1), (''ver'', 1), (''filler1'', 1),
     (''filler2'', 1), (''spare'', 11), (''fileLengthHi'', 1), (''fileLengthLo'', 1),
     (''blockId'', 1), (''data'', ARTNET_FIRMWARE_SIZE * 2)]"

definition artnet_media_patch_s :: layout where
  "artnet_media_patch_s =
    [(''id'', 8), (''opCode'', 2), (''verH'', 1), (''ver'', 1), (''physical'', 1),
     (''universe'', 2), (''lengthHi'', 1), (''length'', 1), (''data'', ARTNET_DMX_LENGTH)]"

definition artnet_media_control_s :: layout where
  "artnet_media_control_s =
    [(''id'', 8), (''opCode'', 2), (''verH'', 1), (''ver'', 1), (''filler1'', 1),
     (''filler2'', 1), (''spare'', 12), (''data'', ARTNET_DMX_LENGTH)]"

section \<open>Sizes and offsets\<close>

lemma artnet_poll_s_layout [layout]:
  "sizeof artnet_poll_s = 22"
  "offset artnet_poll_s ''id'' = 0"
  "offset artnet_poll_s ''opCode'' = 8"
  "offset artnet_poll_s ''verH'' = 10"
  "offset artnet_poll_s ''ver'' = 11"
  "offset artnet_poll_s ''flags'' = 12"
  "offset artnet_poll_s ''diagPriority'' = 13"
  "offset artnet_poll_s ''targetPortAddressTopHi'' = 14"
  "offset artnet_poll_s ''targetPortAddressTopLo'' = 15"
  "offset artnet_poll_s ''targetPortAddressBottomHi'' = 16"
  "offset artnet_poll_s ''targetPortAddressBottomLo'' = 17"
  "offset artnet_poll_s ''estaMan'' = 18"
  "offset artnet_poll_s ''oem'' = 20"
  by (simp_all add: artnet_poll_s_def sizeof_def)

lemma artnet_reply_s_layout [layout]:
  "sizeof artnet_reply_s = 239"
  "offset artnet_reply_s ''id'' = 0"
  "offset artnet_reply_s ''opCode'' = 8"
  "offset artnet_reply_s ''ip'' = 10"
  "offset artnet_reply_s ''port'' = 14"
  "offset artnet_reply_s ''verH'' = 16"
  "offset artnet_reply_s ''ver'' = 17"
  "offset artnet_reply_s ''netSwitch'' = 18"
  "offset artnet_reply_s ''subSwitch'' = 19"
  "offset artnet_reply_s ''oemH'' = 20"
  "offset artnet_reply_s ''oem'' = 21"
  "offset artnet_reply_s ''ubea'' = 22"
  "offset artnet_reply_s ''status'' = 23"
  "offset artnet_reply_s ''estaMan'' = 24"
  "offset artnet_reply_s ''shortName'' = 26"
  "offset artnet_reply_s ''longName'' = 44"
  "offset artnet_reply_s ''nodeReport'' = 108"
  "offset artnet_reply_s ''numbportsH'' = 172"
  "offset artnet_reply_s ''numbports'' = 173"
  "offset artnet_reply_s ''portTypes'' = 174"
  "offset artnet_reply_s ''goodInput'' = 178"
  "offset artnet_reply_s ''goodOutputA'' = 182"
  "offset artnet_reply_s ''swIn'' = 186"
  "offset artnet_reply_s ''swOut'' = 190"
  "offset artnet_reply_s ''acnPriority'' = 194"
  "offset artnet_reply_s ''swMacro'' = 195"
  "offset artnet_reply_s ''swRemote'' = 196"
  "offset artnet_reply_s ''sp1'' = 197"
  "offset artnet_reply_s ''sp2'' = 198"
  "offset artnet_reply_s ''sp3'' = 199"
  "offset artnet_reply_s ''style'' = 200"
  "offset artnet_reply_s ''mac'' = 201"
  "offset artnet_reply_s ''bindIp'' = 207"
  "offset artnet_reply_s ''bindIndex'' = 211"
  "offset artnet_reply_s ''status2'' = 212"
  "offset artnet_reply_s ''goodOutputB'' = 213"
  "offset artnet_reply_s ''status3'' = 217"
  "offset artnet_reply_s ''defaultRespUid'' = 218"
  "offset artnet_reply_s ''userHi'' = 224"
  "offset artnet_reply_s ''userLo'' = 225"
  "offset artnet_reply_s ''refreshRateHi'' = 226"
  "offset artnet_reply_s ''refreshRateLo'' = 227"
  "offset artnet_reply_s ''bgQueuePolicy'' = 228"
  "offset artnet_reply_s ''filler'' = 229"
  by (simp_all add: artnet_reply_s_def sizeof_def)

lemma artnet_ipprog_s_layout [layout]:
  "sizeof artnet_ipprog_s = 34"
  "offset artnet_ipprog_s ''id'' = 0"
  "offset artnet_ipprog_s ''OpCode'' = 8"
  "offset artnet_ipprog_s ''ProVerHi'' = 10"
  "offset artnet_ipprog_s ''ProVerLo'' = 11"
  "offset artnet_ipprog_s ''Filler1'' = 12"
  "offset artnet_ipprog_s ''Filler2'' = 13"
  "offset artnet_ipprog_s ''Command'' = 14"
  "offset artnet_ipprog_s ''Filler4'' = 15"
  "offset artnet_ipprog_s ''ProgIpHi'' = 16"
  "offset artnet_ipprog_s ''ProgIp2'' = 17"
  "offset artnet_ipprog_s ''ProgIp1'' = 18"
  "offset artnet_ipprog_s ''ProgIpLo'' = 19"
  "offset artnet_ipprog_s ''ProgSmHi'' = 20"
  "offset artnet_ipprog_s ''ProgSm2'' = 21"
  "offset artnet_ipprog_s ''ProgSm1'' = 22"
  "offset artnet_ipprog_s ''ProgSmLo'' = 23"
  "offset artnet_ipprog_s ''ProgPortHi'' = 24"
  "offset artnet_ipprog_s ''ProgPortLo'' = 25"
  "offset artnet_ipprog_s ''ProgDgHi'' = 26"
  "offset artnet_ipprog_s ''ProgDg2'' = 27"
  "offset artnet_ipprog_s ''ProgDg1'' = 28"
  "offset artnet_ipprog_s ''ProgDgLo'' = 29"
  "offset artnet_ipprog_s ''Spare1'' = 30"
  "offset artnet_ipprog_s ''Spare2'' = 31"
  "offset artnet_ipprog_s ''Spare3'' = 32"
  "offset artnet_ipprog_s ''Spare4'' = 33"
  by (simp_all add: artnet_ipprog_s_def sizeof_def)

lemma artnet_ipprog_reply_s_layout [layout]:
  "sizeof artnet_ipprog_reply_s = 34"
  "offset artnet_ipprog_reply_s ''id'' = 0"
  "offset artnet_ipprog_reply_s ''OpCode'' = 8"
  "offset artnet_ipprog_reply_s ''ProVerHi'' = 10"
  "offset artnet_ipprog_reply_s ''ProVerLo'' = 11"
  "offset artnet_ipprog_reply_s ''Filler1'' = 12"
  "offset artnet_ipprog_reply_s ''Filler2'' = 13"
  "offset artnet_ipprog_reply_s ''Filler3'' = 14"
  "offset artnet_ipprog_reply_s ''Filler4'' = 15"
  "offset artnet_ipprog_reply_s ''ProgIpHi'' = 16"
  "offset artnet_ipprog_reply_s ''ProgIp2'' = 17"
  "offset artnet_ipprog_reply_s ''ProgIp1'' = 18"
  "offset artnet_ipprog_reply_s ''ProgIpLo'' = 19"
  "offset artnet_ipprog_reply_s ''ProgSmHi'' = 20"
  "offset artnet_ipprog_reply_s ''ProgSm2'' = 21"
  "offset artnet_ipprog_reply_s ''ProgSm1'' = 22"
  "offset artnet_ipprog_reply_s ''ProgSmLo'' = 23"
  "offset artnet_ipprog_reply_s ''ProgPortHi'' = 24"
  "offset artnet_ipprog_reply_s ''ProgPortLo'' = 25"
  "offset artnet_ipprog_reply_s ''Status'' = 26"
  "offset artnet_ipprog_reply_s ''Spare2'' = 27"
  "offset artnet_ipprog_reply_s ''ProgDgHi'' = 28"
  "offset artnet_ipprog_reply_s ''ProgDg2'' = 29"
  "offset artnet_ipprog_reply_s ''ProgDg1'' = 30"
  "offset artnet_ipprog_reply_s ''ProgDgLo'' = 31"
  "offset artnet_ipprog_reply_s ''Spare7'' = 32"
  "offset artnet_ipprog_reply_s ''Spare8'' = 33"
  by (simp_all add: artnet_ipprog_reply_s_def sizeof_def)

lemma artnet_data_request_s_layout [layout]:
  "sizeof artnet_data_request_s = 40"
  "offset artnet_data_request_s ''id'' = 0"
  "offset artnet_data_request_s ''opCode'' = 8"
  "offset artnet_data_request_s ''verH'' = 10"
  "offset artnet_data_request_s ''ver'' = 11"
  "offset artnet_data_request_s ''estaManHi'' = 12"
  "offset artnet_data_request_s ''estaManLo'' = 13"
  "offset artnet_data_request_s ''oemHi'' = 14"
  "offset artnet_data_request_s ''oemLo'' = 15"
  "offset artnet_data_request_s ''requestHi'' = 16"
  "offset artnet_data_request_s ''requestLo'' = 17"
  "offset artnet_data_request_s ''spare'' = 18"
  by (simp_all add: artnet_data_request_s_def sizeof_def)

lemma artnet_data_reply_s_layout [layout]:
  "sizeof artnet_data_reply_s = 532"
  "offset artnet_data_reply_s ''id'' = 0"
  "offset artnet_data_reply_s ''opCode'' = 8"
  "offset artnet_data_reply_s ''verH'' = 10"
  "offset artnet_data_reply_s ''ver'' = 11"
  "offset artnet_data_reply_s ''estaManHi'' = 12"
  "offset artnet_data_reply_s ''estaManLo'' = 13"
  "offset artnet_data_reply_s ''oemHi'' = 14"
  "offset artnet_data_reply_s ''oemLo'' = 15"
  "offset artnet_data_reply_s ''requestHi'' = 16"
  "offset artnet_data_reply_s ''requestLo'' = 17"
  "offset artnet_data_reply_s ''payLenHi'' = 18"
  "offset artnet_data_reply_s ''payLenLo'' = 19"
  "offset artnet_data_reply_s ''payLoad'' = 20"
  by (simp_all add: artnet_data_reply_s_def sizeof_def)

lemma artnet_address_s_layout [layout]:
  "sizeof artnet_address_s = 107"
  "offset artnet_address_s ''id'' = 0"
  "offset artnet_address_s ''opCode'' = 8"
  "offset artnet_address_s ''verH'' = 10"
  "offset artnet_address_s ''ver'' = 11"
  "offset artnet_address_s ''netSwitch'' = 12"
  "offset artnet_address_s ''bindIndex'' = 13"
  "offset artnet_address_s ''shortName'' = 14"
  "offset artnet_address_s ''longName'' = 32"
  "offset artnet_address_s ''swIn'' = 96"
  "offset artnet_address_s ''swOut'' = 100"
  "offset artnet_address_s ''subSwitch'' = 104"
  "offset artnet_address_s ''acnPriority'' = 105"
  "offset artnet_address_s ''command'' = 106"
  by (simp_all add: artnet_address_s_def sizeof_def)

lemma artnet_dmx_s_layout [layout]:
  "sizeof artnet_dmx_s = 530"
  "offset artnet_dmx_s ''id'' = 0"
  "offset artnet_dmx_s ''opCode'' = 8"
  "offset artnet_dmx_s ''verH'' = 10"
  "offset artnet_dmx_s ''ver'' = 11"
  "offset artnet_dmx_s ''sequence'' = 12"
  "offset artnet_dmx_s ''physical'' = 13"
  "offset artnet_dmx_s ''universe'' = 14"
  "offset artnet_dmx_s ''lengthHi'' = 16"
  "offset artnet_dmx_s ''length'' = 17"
  "offset artnet_dmx_s ''data'' = 18"
  by (simp_all add: artnet_dmx_s_def sizeof_def)

lemma artnet_input_s_layout [layout]:
  "sizeof artnet_input_s = 20"
  "offset artnet_input_s ''id'' = 0"
  "offset artnet_input_s ''opCode'' = 8"
  "offset artnet_input_s ''verH'' = 10"
  "offset artnet_input_s ''ver'' = 11"
  "offset artnet_input_s ''filler1'' = 12"
  "offset artnet_input_s ''bindIndex'' = 13"
  "offset artnet_input_s ''numbportsH'' = 14"
  "offset artnet_input_s ''numbports'' = 15"
  "offset artnet_input_s ''input'' = 16"
  by (simp_all add: artnet_input_s_def sizeof_def)

lemma artnet_todrequest_s_layout [layout]:
  "sizeof artnet_todrequest_s = 56"
  "offset artnet_todrequest_s ''id'' = 0"
  "offset artnet_todrequest_s ''opCode'' = 8"
  "offset artnet_todrequest_s ''verH'' = 10"
  "offset artnet_todrequest_s ''ver'' = 11"
  "offset artnet_todrequest_s ''filler1'' = 12"
  "offset artnet_todrequest_s ''filler2'' = 13"
  "offset artnet_todrequest_s ''spare1'' = 14"
  "offset artnet_todrequest_s ''spare2'' = 15"
  "offset artnet_todrequest_s ''spare3'' = 16"
  "offset artnet_todrequest_s ''spare4'' = 17"
  "offset artnet_todrequest_s ''spare5'' = 18"
  "offset artnet_todrequest_s ''spare6'' = 19"
  "offset artnet_todrequest_s ''spare7'' = 20"
  "offset artnet_todrequest_s ''net'' = 21"
  "offset artnet_todrequest_s ''command'' = 22"
  "offset artnet_todrequest_s ''adCount'' = 23"
  "offset artnet_todrequest_s ''address'' = 24"
  by (simp_all add: artnet_todrequest_s_def sizeof_def)

lemma artnet_toddata_s_layout [layout]:
  "sizeof artnet_toddata_s = 1228"
  "offset artnet_toddata_s ''id'' = 0"
  "offset artnet_toddata_s ''opCode'' = 8"
  "offset artnet_toddata_s ''verH'' = 10"
  "offset artnet_toddata_s ''ver'' = 11"
  "offset artnet_toddata_s ''rdmVer'' = 12"
  "offset artnet_toddata_s ''port'' = 13"
  "offset artnet_toddata_s ''spare1'' = 14"
  "offset artnet_toddata_s ''spare2'' = 15"
  "offset artnet_toddata_s ''spare3'' = 16"
  "offset artnet_toddata_s ''spare4'' = 17"
  "offset artnet_toddata_s ''spare5'' = 18"
  "offset artnet_toddata_s ''spare6'' = 19"
  "offset artnet_toddata_s ''bindIndex'' = 20"
  "offset artnet_toddata_s ''net'' = 21"
  "offset artnet_toddata_s ''cmdRes'' = 22"
  "offset artnet_toddata_s ''address'' = 23"
  "offset artnet_toddata_s ''uidTotalHi'' = 24"
  "offset artnet_toddata_s ''uidTotal'' = 25"
  "offset artnet_toddata_s ''blockCount'' = 26"
  "offset artnet_toddata_s ''uidCount'' = 27"
  "offset artnet_toddata_s ''tod'' = 28"
  by (simp_all add: artnet_toddata_s_def sizeof_def)

lemma artnet_firmware_s_layout [layout]:
  "sizeof artnet_firmware_s = 1064"
  "offset artnet_firmware_s ''id'' = 0"
  "offset artnet_firmware_s ''opCode'' = 8"
  "offset artnet_firmware_s ''verH'' = 10"
  "offset artnet_firmware_s ''ver'' = 11"
  "offset artnet_firmware_s ''filler1'' = 12"
  "offset artnet_firmware_s ''filler2'' = 13"
  "offset artnet_firmware_s ''type'' = 14"
  "offset artnet_firmware_s ''blockId'' = 15"
  "offset artnet_firmware_s ''length'' = 16"
  "offset artnet_firmware_s ''spare'' = 20"
  "offset artnet_firmware_s ''data'' = 40"
  by (simp_all add: artnet_firmware_s_def sizeof_def)

lemma artnet_todcontrol_s_layout [layout]:
  "sizeof artnet_todcontrol_s = 24"
  "offset artnet_todcontrol_s ''id'' = 0"
  "offset artnet_todcontrol_s ''opCode'' = 8"
  "offset artnet_todcontrol_s ''verH'' = 10"
  "offset artnet_todcontrol_s ''ver'' = 11"
  "offset artnet_todcontrol_s ''filler1'' = 12"
  "offset artnet_todcontrol_s ''filler2'' = 13"
  "offset artnet_todcontrol_s ''spare1'' = 14"
  "offset artnet_todcontrol_s ''spare2'' = 15"
  "offset artnet_todcontrol_s ''spare3'' = 16"
  "offset artnet_todcontrol_s ''spare4'' = 17"
  "offset artnet_todcontrol_s ''spare5'' = 18"
  "offset artnet_todcontrol_s ''spare6'' = 19"
  "offset artnet_todcontrol_s ''spare7'' = 20"
  "offset artnet_todcontrol_s ''net'' = 21"
  "offset artnet_todcontrol_s ''cmd'' = 22"
  "offset artnet_todcontrol_s ''address'' = 23"
  by (simp_all add: artnet_todcontrol_s_def sizeof_def)

lemma artnet_rdm_s_layout [layout]:
  "sizeof artnet_rdm_s = 536"
  "offset artnet_rdm_s ''id'' = 0"
  "offset artnet_rdm_s ''opCode'' = 8"
  "offset artnet_rdm_s ''verH'' = 10"
  "offset artnet_rdm_s ''ver'' = 11"
  "offset artnet_rdm_s ''rdmVer'' = 12"
  "offset artnet_rdm_s ''filler2'' = 13"
  "offset artnet_rdm_s ''spare1'' = 14"
  "offset artnet_rdm_s ''spare2'' = 15"
  "offset artnet_rdm_s ''spare3'' = 16"
  "offset artnet_rdm_s ''spare4'' = 17"
  "offset artnet_rdm_s ''spare5'' = 18"
  "offset artnet_rdm_s ''fifoAvail'' = 19"
  "offset artnet_rdm_s ''fifoMax'' = 20"
  "offset artnet_rdm_s ''net'' = 21"
  "offset artnet_rdm_s ''cmd'' = 22"
  "offset artnet_rdm_s ''address'' = 23"
  "offset artnet_rdm_s ''data'' = 24"
  by (simp_all add: artnet_rdm_s_def sizeof_def)

lemma artnet_rdm_sub_s_layout [layout]:
  "sizeof artnet_rdm_sub_s = 544"
  "offset artnet_rdm_sub_s ''id'' = 0"
  "offset artnet_rdm_sub_s ''opCode'' = 8"
  "offset artnet_rdm_sub_s ''verH'' = 10"
  "offset artnet_rdm_sub_s ''ver'' = 11"
  "offset artnet_rdm_sub_s ''rdmVer'' = 12"
  "offset artnet_rdm_sub_s ''filler2'' = 13"
  "offset artnet_rdm_sub_s ''uid'' = 14"
  "offset artnet_rdm_sub_s ''spare1'' = 20"
  "offset artnet_rdm_sub_s ''commandClass'' = 21"
  "offset artnet_rdm_sub_s ''paramIdHi'' = 22"
  "offset artnet_rdm_sub_s ''paramId'' = 23"
  "offset artnet_rdm_sub_s ''subDeviceHi'' = 24"
  "offset artnet_rdm_sub_s ''subDevice'' = 25"
  "offset artnet_rdm_sub_s ''subCountHi'' = 26"
  "offset artnet_rdm_sub_s ''subCount'' = 27"
  "offset artnet_rdm_sub_s ''spare2'' = 28"
  "offset artnet_rdm_sub_s ''spare3'' = 29"
  "offset artnet_rdm_sub_s ''spare4'' = 30"
  "offset artnet_rdm_sub_s ''spare5'' = 31"
  "offset artnet_rdm_sub_s ''data'' = 32"
  by (simp_all add: artnet_rdm_sub_s_def sizeof_def)

lemma artnet_diagdata_s_layout [layout]:
  "sizeof artnet_diagdata_s = 530"
  "offset artnet_diagdata_s ''id'' = 0"
  "offset artnet_diagdata_s ''opCode'' = 8"
  "offset artnet_diagdata_s ''verH'' = 10"
  "offset artnet_diagdata_s ''ver'' = 11"
  "offset artnet_diagdata_s ''filler1'' = 12"
  "offset artnet_diagdata_s ''diagPriority'' = 13"
  "offset artnet_diagdata_s ''logicalPort'' = 14"
  "offset artnet_diagdata_s ''filler3'' = 15"
  "offset artnet_diagdata_s ''lengthHi'' = 16"
  "offset artnet_diagdata_s ''length'' = 17"
  "offset artnet_diagdata_s ''data'' = 18"
  by (simp_all add: artnet_diagdata_s_def sizeof_def)

lemma artnet_firmware_reply_s_layout [layout]:
  "sizeof artnet_firmware_reply_s = 36"
  "offset artnet_firmware_reply_s ''id'' = 0"
  "offset artnet_firmware_reply_s ''opCode'' = 8"
  "offset artnet_firmware_reply_s ''verH'' = 10"
  "offset artnet_firmware_reply_s ''ver'' = 11"
  "offset artnet_firmware_reply_s ''filler1'' = 12"
  "offset artnet_firmware_reply_s ''filler2'' = 13"
  "offset artnet_firmware_reply_s ''type'' = 14"
  "offset artnet_firmware_reply_s ''spare'' = 15"
  by (simp_all add: artnet_firmware_reply_s_def sizeof_def)

lemma artnet_sync_s_layout [layout]:
  "sizeof artnet_sync_s = 14"
  "offset artnet_sync_s ''id'' = 0"
  "offset artnet_sync_s ''opCode'' = 8"
  "offset artnet_sync_s ''verH'' = 10"
  "offset artnet_sync_s ''ver'' = 11"
  "offset artnet_sync_s ''aux1'' = 12"
  "offset artnet_sync_s ''aux2'' = 13"
  by (simp_all add: artnet_sync_s_def sizeof_def)

lemma artnet_nzs_s_layout [layout]:
  "sizeof artnet_nzs_s = 530"
  "offset artnet_nzs_s ''id'' = 0"
  "offset artnet_nzs_s ''opCode'' = 8"
  "offset artnet_nzs_s ''verH'' = 10"
  "offset artnet_nzs_s ''ver'' = 11"
  "offset artnet_nzs_s ''sequence'' = 12"
  "offset artnet_nzs_s ''startCode'' = 13"
  "offset artnet_nzs_s ''universe'' = 14"
  "offset artnet_nzs_s ''lengthHi'' = 16"
  "offset artnet_nzs_s ''length'' = 17"
  "offset artnet_nzs_s ''data'' = 18"
  by (simp_all add: artnet_nzs_s_def sizeof_def)

lemma artnet_command_s_layout [layout]:
  "sizeof artnet_command_s = 528"
  "offset artnet_command_s ''id'' = 0"
  "offset artnet_command_s ''opCode'' = 8"
  "offset artnet_command_s ''verH'' = 10"
  "offset artnet_command_s ''ver'' = 11"
  "offset artnet_command_s ''estaManHi'' = 12"
  "offset artnet_command_s ''estaManLo'' = 13"
  "offset artnet_command_s ''lengthHi'' = 14"
  "offset artnet_command_s ''lengthLo'' = 15"
  "offset artnet_command_s ''data'' = 16"
  by (simp_all add: artnet_command_s_def sizeof_def)

lemma artnet_timecode_s_layout [layout]:
  "sizeof artnet_timecode_s = 19"
  "offset artnet_timecode_s ''id'' = 0"
  "offset artnet_timecode_s ''opCode'' = 8"
  "offset artnet_timecode_s ''verH'' = 10"
  "offset artnet_timecode_s ''ver'' = 11"
  "offset artnet_timecode_s ''filler1'' = 12"
  "offset artnet_timecode_s ''streamId'' = 13"
  "offset artnet_timecode_s ''frames'' = 14"
  "offset artnet_timecode_s ''seconds'' = 15"
  "offset artnet_timecode_s ''minutes'' = 16"
  "offset artnet_timecode_s ''hours'' = 17"
  "offset artnet_timecode_s ''type'' = 18"
  by (simp_all add: artnet_timecode_s_def sizeof_def)

lemma artnet_timesync_s_layout [layout]:
  "sizeof artnet_timesync_s = 24"
  "offset artnet_timesync_s ''id'' = 0"
  "offset artnet_timesync_s ''opCode'' = 8"
  "offset artnet_timesync_s ''verH'' = 10"
  "offset artnet_timesync_s ''ver'' = 11"
  "offset artnet_timesync_s ''filler1'' = 12"
  "offset artnet_timesync_s ''filler2'' = 13"
  "offset artnet_timesync_s ''tm_sec'' = 14"
  "offset artnet_timesync_s ''tm_min'' = 15"
  "offset artnet_timesync_s ''tm_hour'' = 16"
  "offset artnet_timesync_s ''tm_mday'' = 17"
  "offset artnet_timesync_s ''tm_mon'' = 18"
  "offset artnet_timesync_s ''tm_year'' = 19"
  "offset artnet_timesync_s ''filler3'' = 20"
  "offset artnet_timesync_s ''filler4'' = 21"
  "offset artnet_timesync_s ''filler5'' = 22"
  "offset artnet_timesync_s ''filler6'' = 23"
  by (simp_all add: artnet_timesync_s_def sizeof_def)

lemma artnet_trigger_s_layout [layout]:
  "sizeof artnet_trigger_s = 530"
  "offset artnet_trigger_s ''id'' = 0"
  "offset artnet_trigger_s ''opCode'' = 8"
  "offset artnet_trigger_s ''verH'' = 10"
  "offset artnet_trigger_s ''ver'' = 11"
  "offset artnet_trigger_s ''filler1'' = 12"
  "offset artnet_trigger_s ''filler2'' = 13"
  "offset artnet_trigger_s ''oemCodeHi'' = 14"
  "offset artnet_trigger_s ''oemCodeLo'' = 15"
  "offset artnet_trigger_s ''key'' = 16"
  "offset artnet_trigger_s ''subKey'' = 17"
  "offset artnet_trigger_s ''data'' = 18"
  by (simp_all add: artnet_trigger_s_def sizeof_def)

lemma artnet_directory_s_layout [layout]:
  "sizeof artnet_directory_s = 25"
  "offset artnet_directory_s ''id'' = 0"
  "offset artnet_directory_s ''opCode'' = 8"
  "offset artnet_directory_s ''verH'' = 10"
  "offset artnet_directory_s ''ver'' = 11"
  "offset artnet_directory_s ''filler1'' = 12"
  "offset artnet_directory_s ''filler2'' = 13"
  "offset artnet_directory_s ''spare'' = 14"
  by (simp_all add: artnet_directory_s_def sizeof_def)

lemma artnet_directory_reply_s_layout [layout]:
  "sizeof artnet_directory_reply_s = 2068"
  "offset artnet_directory_reply_s ''id'' = 0"
  "offset artnet_directory_reply_s ''opCode'' = 8"
  "offset artnet_directory_reply_s ''verH'' = 10"
  "offset artnet_directory_reply_s ''ver'' = 11"
  "offset artnet_directory_reply_s ''spare'' = 12"
  "offset artnet_directory_reply_s ''dirCountHi'' = 16"
  "offset artnet_directory_reply_s ''dirCountLo'' = 17"
  "offset artnet_directory_reply_s ''dirTotalHi'' = 18"
  "offset artnet_directory_reply_s ''dirTotalLo'' = 19"
  "offset artnet_directory_reply_s ''dirEntry'' = 20"
  by (simp_all add: artnet_directory_reply_s_def sizeof_def)

lemma artnet_file_tn_master_s_layout [layout]:
  "sizeof artnet_file_tn_master_s = 1064"
  "offset artnet_file_tn_master_s ''id'' = 0"
  "offset artnet_file_tn_master_s ''opCode'' = 8"
  "offset artnet_file_tn_master_s ''verH'' = 10"
  "offset artnet_file_tn_master_s ''ver'' = 11"
  "offset artnet_file_tn_master_s ''filler1'' = 12"
  "offset artnet_file_tn_master_s ''filler2'' = 13"
  "offset artnet_file_tn_master_s ''type'' = 14"
  "offset artnet_file_tn_master_s ''blockId'' = 15"
  "offset artnet_file_tn_master_s ''length'' = 16"
  "offset artnet_file_tn_master_s ''spare'' = 20"
  "offset artnet_file_tn_master_s ''data'' = 40"
  by (simp_all add: artnet_file_tn_master_s_def sizeof_def)

lemma artnet_file_fn_master_s_layout [layout]:
  "sizeof artnet_file_fn_master_s = 283"
  "offset artnet_file_fn_master_s ''id'' = 0"
  "offset artnet_file_fn_master_s ''opCode'' = 8"
  "offset artnet_file_fn_master_s ''verH'' = 10"
  "offset artnet_file_fn_master_s ''ver'' = 11"
  "offset artnet_file_fn_master_s ''filler1'' = 12"
  "offset artnet_file_fn_master_s ''filler2'' = 13"
  "offset artnet_file_fn_master_s ''spare'' = 14"
  "offset artnet_file_fn_master_s ''lengthHi'' = 25"
  "offset artnet_file_fn_master_s ''lengthLo'' = 26"
  "offset artnet_file_fn_master_s ''filename'' = 27"
  by (simp_all add: artnet_file_fn_master_s_def sizeof_def)

lemma artnet_file_fn_reply_s_layout [layout]:
  "sizeof artnet_file_fn_reply_s = 1052"
  "offset artnet_file_fn_reply_s ''id'' = 0"
  "offset artnet_file_fn_reply_s ''opCode'' = 8"
  "offset artnet_file_fn_reply_s ''verH'' = 10"
  "offset artnet_file_fn_reply_s ''ver'' = 11"
  "offset artnet_file_fn_reply_s ''filler1'' = 12"
  "offset artnet_file_fn_reply_s ''filler2'' = 13"
  "offset artnet_file_fn_reply_s ''spare'' = 14"
  "offset artnet_file_fn_reply_s ''fileLengthHi'' = 25"
  "offset artnet_file_fn_reply_s ''fileLengthLo'' = 26"
  "offset artnet_file_fn_reply_s ''blockId'' = 27"
  "offset artnet_file_fn_reply_s ''data'' = 28"
  by (simp_all add: artnet_file_fn_reply_s_def sizeof_def)

lemma artnet_media_patch_s_layout [layout]:
  "sizeof artnet_media_patch_s = 529"
  "offset artnet_media_patch_s ''id'' = 0"
  "offset artnet_media_patch_s ''opCode'' = 8"
  "offset artnet_media_patch_s ''verH'' = 10"
  "offset artnet_media_patch_s ''ver'' = 11"
  "offset artnet_media_patch_s ''physical'' = 12"
  "offset artnet_media_patch_s ''universe'' = 13"
  "offset artnet_media_patch_s ''lengthHi'' = 15"
  "offset artnet_media_patch_s ''length'' = 16"
  "offset artnet_media_patch_s ''data'' = 17"
  by (simp_all add: artnet_media_patch_s_def sizeof_def)

lemma artnet_media_control_s_layout [layout]:
  "sizeof artnet_media_control_s = 538"
  "offset artnet_media_control_s ''id'' = 0"
  "offset artnet_media_control_s ''opCode'' = 8"
  "offset artnet_media_control_s ''verH'' = 10"
  "offset artnet_media_control_s ''ver'' = 11"
  "offset artnet_media_control_s ''filler1'' = 12"
  "offset artnet_media_control_s ''filler2'' = 13"
  "offset artnet_media_control_s ''spare'' = 14"
  "offset artnet_media_control_s ''data'' = 26"
  by (simp_all add: artnet_media_control_s_def sizeof_def)

section \<open>Opcodes\<close>

datatype artnet_packet_type =
    ARTNET_POLL | ARTNET_REPLY | ARTNET_DIAGDATA | ARTNET_COMMAND | ARTNET_DMX |
    ARTNET_NZS | ARTNET_SYNC | ARTNET_DATAREQUEST | ARTNET_DATAREPLY | ARTNET_ADDRESS |
    ARTNET_INPUT | ARTNET_TODREQUEST | ARTNET_TODDATA | ARTNET_TODCONTROL | ARTNET_RDM |
    ARTNET_RDMSUB | ARTNET_MEDIA | ARTNET_MEDIAPATCH | ARTNET_MEDIACONTROL |
    ARTNET_MEDIACONTROLREPLY | ARTNET_TIMECODE | ARTNET_TIMESYNC | ARTNET_TRIGGER |
    ARTNET_DIRECTORY | ARTNET_DIRECTORYREPLY | ARTNET_VIDEOSETUP | ARTNET_VIDEOPALETTE |
    ARTNET_VIDEODATA | ARTNET_MACMASTER | ARTNET_MACSLAVE | ARTNET_FIRMWAREMASTER |
    ARTNET_FIRMWAREREPLY | ARTNET_FILETNMASTER | ARTNET_FILEFNMASTER | ARTNET_FILEFNREPLY |
    ARTNET_IPPROG | ARTNET_IPREPLY

fun opcode :: "artnet_packet_type \<Rightarrow> u16" where
  "opcode ARTNET_POLL = 0x2000"
| "opcode ARTNET_REPLY = 0x2100"
| "opcode ARTNET_DIAGDATA = 0x2300"
| "opcode ARTNET_COMMAND = 0x2400"
| "opcode ARTNET_DMX = 0x5000"
| "opcode ARTNET_NZS = 0x5100"
| "opcode ARTNET_SYNC = 0x5200"
| "opcode ARTNET_DATAREQUEST = 0x2700"
| "opcode ARTNET_DATAREPLY = 0x2800"
| "opcode ARTNET_ADDRESS = 0x6000"
| "opcode ARTNET_INPUT = 0x7000"
| "opcode ARTNET_TODREQUEST = 0x8000"
| "opcode ARTNET_TODDATA = 0x8100"
| "opcode ARTNET_TODCONTROL = 0x8200"
| "opcode ARTNET_RDM = 0x8300"
| "opcode ARTNET_RDMSUB = 0x8400"
| "opcode ARTNET_MEDIA = 0x9000"
| "opcode ARTNET_MEDIAPATCH = 0x9100"
| "opcode ARTNET_MEDIACONTROL = 0x9200"
| "opcode ARTNET_MEDIACONTROLREPLY = 0x9300"
| "opcode ARTNET_TIMECODE = 0x9700"
| "opcode ARTNET_TIMESYNC = 0x9800"
| "opcode ARTNET_TRIGGER = 0x9900"
| "opcode ARTNET_DIRECTORY = 0x9a00"
| "opcode ARTNET_DIRECTORYREPLY = 0x9b00"
| "opcode ARTNET_VIDEOSETUP = 0xa010"
| "opcode ARTNET_VIDEOPALETTE = 0xa020"
| "opcode ARTNET_VIDEODATA = 0xa040"
| "opcode ARTNET_MACMASTER = 0xf000"
| "opcode ARTNET_MACSLAVE = 0xf100"
| "opcode ARTNET_FIRMWAREMASTER = 0xf200"
| "opcode ARTNET_FIRMWAREREPLY = 0xf300"
| "opcode ARTNET_FILETNMASTER = 0xf400"
| "opcode ARTNET_FILEFNMASTER = 0xf500"
| "opcode ARTNET_FILEFNREPLY = 0xf600"
| "opcode ARTNET_IPPROG = 0xf800"
| "opcode ARTNET_IPREPLY = 0xf900"

definition packet_types :: "artnet_packet_type list" where
  "packet_types =
    [ARTNET_POLL, ARTNET_REPLY, ARTNET_DIAGDATA, ARTNET_COMMAND, ARTNET_DMX, ARTNET_NZS,
     ARTNET_SYNC, ARTNET_DATAREQUEST, ARTNET_DATAREPLY, ARTNET_ADDRESS, ARTNET_INPUT,
     ARTNET_TODREQUEST, ARTNET_TODDATA, ARTNET_TODCONTROL, ARTNET_RDM, ARTNET_RDMSUB,
     ARTNET_MEDIA, ARTNET_MEDIAPATCH, ARTNET_MEDIACONTROL, ARTNET_MEDIACONTROLREPLY,
     ARTNET_TIMECODE, ARTNET_TIMESYNC, ARTNET_TRIGGER, ARTNET_DIRECTORY,
     ARTNET_DIRECTORYREPLY, ARTNET_VIDEOSETUP, ARTNET_VIDEOPALETTE, ARTNET_VIDEODATA,
     ARTNET_MACMASTER, ARTNET_MACSLAVE, ARTNET_FIRMWAREMASTER, ARTNET_FIRMWAREREPLY,
     ARTNET_FILETNMASTER, ARTNET_FILEFNMASTER, ARTNET_FILEFNREPLY, ARTNET_IPPROG,
     ARTNET_IPREPLY]"

definition type_of_code :: "u16 \<Rightarrow> artnet_packet_type option" where
  "type_of_code c = find (\<lambda>t. opcode t = c) packet_types"

lemma set_packet_types: "t \<in> set packet_types"
  by (cases t) (simp_all add: packet_types_def)

lemma type_of_code_Some: "type_of_code c = Some t \<Longrightarrow> opcode t = c"
  by (auto simp: type_of_code_def find_Some_iff)

lemma type_of_code_opcode [simp]: "type_of_code (opcode t) = Some t"
  by (cases t) (simp_all add: type_of_code_def packet_types_def)

lemma opcode_inject [simp]: "opcode s = opcode t \<longleftrightarrow> s = t"
  by (metis option.inject type_of_code_opcode)

text \<open>Opcodes are ordered as their codes; the table above lists each of them once.\<close>

instantiation artnet_packet_type :: linorder
begin

definition less_eq_artnet_packet_type where
  "s \<le> t \<longleftrightarrow> opcode s \<le> opcode t"

definition less_artnet_packet_type where
  "s < t \<longleftrightarrow> opcode s < opcode t"

instance
proof
  fix s t u :: artnet_packet_type
  show "s < t \<longleftrightarrow> s \<le> t \<and> \<not> t \<le> s"
    by (simp add: less_eq_artnet_packet_type_def less_artnet_packet_type_def less_le_not_le)
  show "s \<le> s" "s \<le> t \<Longrightarrow> t \<le> u \<Longrightarrow> s \<le> u" "s \<le> t \<or> t \<le> s"
    by (auto simp: less_eq_artnet_packet_type_def)
  show "s \<le> t \<Longrightarrow> t \<le> s \<Longrightarrow> s = t"
    by (metis less_eq_artnet_packet_type_def opcode_inject order.antisym)
qed

end

lemma distinct_packet_types: "distinct packet_types"
  by (simp add: packet_types_def)

section \<open>Packets\<close>

record packet =
  p_length :: int
  p_from :: ip
  p_to :: ip
  p_type :: u16
  p_data :: mem

definition get8 :: "layout \<Rightarrow> string \<Rightarrow> packet \<Rightarrow> u8" where
  "get8 L f p = p_data p (offset L f)"

definition get_at :: "layout \<Rightarrow> string \<Rightarrow> nat \<Rightarrow> packet \<Rightarrow> u8" where
  "get_at L f i p = p_data p (offset L f + i)"

definition get16 :: "layout \<Rightarrow> string \<Rightarrow> packet \<Rightarrow> u16" where
  "get16 L f p = le16 (p_data p (offset L f)) (p_data p (offset L f + 1))"

definition get_n :: "layout \<Rightarrow> string \<Rightarrow> nat \<Rightarrow> packet \<Rightarrow> u8 list" where
  "get_n L f k p = get_bytes (p_data p) (offset L f) k"

definition put :: "layout \<Rightarrow> string \<Rightarrow> u8 list \<Rightarrow> mem \<Rightarrow> mem" where
  "put L f bs m = put_bytes m (offset L f) bs"

definition fill :: "layout \<Rightarrow> (string \<times> u8 list) list \<Rightarrow> mem \<Rightarrow> mem" where
  "fill L xs m = fold (\<lambda>(f, bs). put L f bs) xs m"

lemma fill_simps [simp]:
  "fill L [] m = m"
  "fill L ((f, bs) # xs) m = fill L xs (put L f bs m)"
  by (simp_all add: fill_def)

lemmas field_defs = get8_def get_at_def get16_def get_n_def put_def

text \<open>The size of the union \<open>artnet_packet_union_t\<close>: that of its largest member.\<close>

definition artnet_packet_union_layouts :: "layout list" where
  "artnet_packet_union_layouts =
    [artnet_poll_s, artnet_reply_s, artnet_ipprog_s, artnet_ipprog_reply_s,
     artnet_data_request_s, artnet_data_reply_s, artnet_address_s, artnet_dmx_s,
     artnet_input_s, artnet_todrequest_s, artnet_toddata_s, artnet_firmware_s,
     artnet_firmware_reply_s, artnet_todcontrol_s, artnet_rdm_s, artnet_rdm_sub_s,
     artnet_diagdata_s, artnet_sync_s, artnet_nzs_s, artnet_command_s, artnet_timecode_s,
     artnet_timesync_s, artnet_trigger_s, artnet_directory_s, artnet_directory_reply_s,
     artnet_file_tn_master_s, artnet_file_fn_master_s, artnet_file_fn_reply_s,
     artnet_media_patch_s, artnet_media_control_s]"

definition sizeof_union :: nat where
  "sizeof_union = fold max (map sizeof artnet_packet_union_layouts) 0"

lemma sizeof_union_eq: "sizeof_union = 2068"
  by (simp add: sizeof_union_def artnet_packet_union_layouts_def layout)

section \<open>Headers and opcodes of a datagram\<close>

definition ARTNET_STRING :: "u8 list" where
  "ARTNET_STRING = [0x41, 0x72, 0x74, 0x2D, 0x4E, 0x65, 0x74, 0x00]"

definition ARTNET_VERSION :: "'a::numeral" where
  [simp]: "ARTNET_VERSION = 14"

text \<open>
  The four assignments every function of \<open>transmit.c\<close> starts with, on the zeroed union: id,
  opcode (low byte first) and protocol version.  All structures but \<open>artnet_reply_s\<close>
  share these twelve bytes.
\<close>

definition header :: "artnet_packet_type \<Rightarrow> mem" where
  "header t = put_bytes zero_mem 0 (ARTNET_STRING @ le16_bytes (opcode t) @ [0, ARTNET_VERSION])"

lemma header_bytes:
  "get_bytes (header t) 0 8 = ARTNET_STRING"
  "le16 (header t 8) (header t 9) = opcode t"
  "header t 10 = 0" "header t 11 = 14"
  "12 \<le> i \<Longrightarrow> header t i = 0"
proof -
  let ?bs = "ARTNET_STRING @ le16_bytes (opcode t) @ [0, 14]"
  have len: "length ?bs = 12" by (simp add: ARTNET_STRING_def le16_bytes_def)
  have h: "header t = put_bytes zero_mem 0 ?bs" by (simp add: header_def)
  show "get_bytes (header t) 0 8 = ARTNET_STRING"
    by (simp add: h put_bytes_def get_bytes_def ARTNET_STRING_def le16_bytes_def upt_rec)
  show "le16 (header t 8) (header t 9) = opcode t"
    by (simp add: h put_bytes_def ARTNET_STRING_def le16_bytes_def nth_append le16_split)
  show "header t 10 = 0" "header t 11 = 14"
    by (simp_all add: h put_bytes_def ARTNET_STRING_def le16_bytes_def nth_append)
  show "12 \<le> i \<Longrightarrow> header t i = 0" by (simp only: h put_bytes_def len) simp
qed

definition get_type :: "packet \<Rightarrow> u16 \<times> packet" where
  "get_type p =
     (if p_length p < 10 then (0, p)
      else if get_bytes (p_data p) 0 8 = ARTNET_STRING then
        (let t = le16 (p_data p 8) (p_data p 9) in (t, p\<lparr>p_type := t\<rparr>))
      else (0, p))"

lemma get_type_header:
  "10 \<le> p_length p \<Longrightarrow> get_bytes (p_data p) 0 8 = ARTNET_STRING \<Longrightarrow>
   le16 (p_data p 8) (p_data p 9) = opcode t \<Longrightarrow>
     get_type p = (opcode t, p\<lparr>p_type := opcode t\<rparr>)"
  by (simp add: get_type_def Let_def)

end
