(* ===== verification/Tod.thy ===== *)
theory Tod
  imports Packets "HOL-Library.Multiset"
begin

text \<open>
  The RDM table of devices: \<open>artnet/tod.c\<close> and \<open>artnet/tod.h\<close>.  The flat byte array is the
  function from an entry's position to its UID, \<open>None\<close> for the NULL pointer; how many of
  them lie in the allocation is \<open>tod_max_length\<close>.  The contract that the rest of the code
  relies on (a bag of UIDs) is the locale \<open>uid_table\<close>, interpreted on the operations below.
\<close>

section \<open>The contract\<close>

locale uid_table =
  fixes inv :: "'t \<Rightarrow> bool"
    and entries :: "'t \<Rightarrow> 'u list"
    and add :: "'u \<Rightarrow> 't \<Rightarrow> 't"
    and remove :: "'u \<Rightarrow> 't \<Rightarrow> 't"
    and flush :: "'t \<Rightarrow> 't"
  assumes inv_add: "inv t \<Longrightarrow> inv (add u t)"
    and entries_add: "inv t \<Longrightarrow> entries (add u t) = entries t @ [u]"
    and inv_remove: "inv t \<Longrightarrow> inv (remove u t)"
    and mset_remove: "inv t \<Longrightarrow> mset (entries (remove u t)) = mset (entries t) - {#u#}"
    and inv_flush: "inv t \<Longrightarrow> inv (flush t)"
    and entries_flush: "inv t \<Longrightarrow> entries (flush t) = []"
begin

lemma add_all: "inv t \<Longrightarrow> inv (fold add us t) \<and> entries (fold add us t) = entries t @ us"
  by (induction us arbitrary: t) (simp_all add: inv_add entries_add)

lemma remove_all:
  "inv t \<Longrightarrow> inv (fold remove us t) \<and> mset (entries (fold remove us t)) = mset (entries t) - mset us"
  by (induction us arbitrary: t) (simp_all add: inv_remove mset_remove)

lemma add_remove: "inv t \<Longrightarrow> mset (entries (remove u (add u t))) = mset (entries t)"
  by (simp add: inv_add entries_add mset_remove)

lemma discovery_cycle:
  "inv t \<Longrightarrow> entries (fold add us (flush t)) = us"
  using add_all [of "flush t" us] by (simp add: inv_flush entries_flush)

lemma add_all_remove_all:
  "inv t \<Longrightarrow> mset (entries (fold remove us (fold add us t))) = mset (entries t)"
  using add_all [of t us] remove_all [of "fold add us t" us] by simp

end

section \<open>The operations\<close>

type_synonym uid = "u8 list"

record tod =
  tod_data :: "(nat \<Rightarrow> uid) option"
  tod_length :: int
  tod_max_length :: int

definition ARTNET_TOD_INITIAL_SIZE :: int where
  [simp]: "ARTNET_TOD_INITIAL_SIZE = 100"

definition ARTNET_TOD_INCREMENT :: int where
  [simp]: "ARTNET_TOD_INCREMENT = 50"

text \<open>
  \<open>ok\<close> is the outcome of the allocation, where the call makes one; \<open>fresh\<close> is what the
  allocated memory holds.  The table pointer itself is never NULL: every caller passes the
  address of a port's table.
\<close>

definition add_tod_uid :: "bool \<Rightarrow> (nat \<Rightarrow> uid) \<Rightarrow> tod \<Rightarrow> uid \<Rightarrow> int \<times> tod" where
  "add_tod_uid ok fresh t u =
     (case tod_data t of
        None \<Rightarrow>
          if \<not> ok then (ARTNET_EMEM, t)
          else (0, t\<lparr>tod_data := Some (fresh(0 := u)), tod_length := 1,
                     tod_max_length := ARTNET_TOD_INITIAL_SIZE\<rparr>)
      | Some d \<Rightarrow>
          if tod_length t = tod_max_length t then
            (if \<not> ok then (ARTNET_EMEM, t)
             else
               (let size = tod_max_length t + ARTNET_TOD_INCREMENT;
                    new_data = (\<lambda>i. if i < nat (tod_max_length t) then d i else fresh i)
                in (0, t\<lparr>tod_data := Some (new_data(nat (tod_length t) := u)),
                         tod_max_length := size, tod_length := tod_length t + 1\<rparr>)))
          else (0, t\<lparr>tod_data := Some (d(nat (tod_length t) := u)),
                     tod_length := tod_length t + 1\<rparr>))"

text \<open>The search loop: the first position from \<open>i\<close> on that holds \<open>u\<close>, or \<open>n\<close>.\<close>

function tod_search :: "(nat \<Rightarrow> uid) \<Rightarrow> uid \<Rightarrow> nat \<Rightarrow> nat \<Rightarrow> nat" where
  "tod_search d u n i = (if i < n \<and> d i \<noteq> u then tod_search d u n (Suc i) else i)"
  by pat_completeness auto
termination
  by (relation "measure (\<lambda>(d, u, n, i). n - i)") auto

declare tod_search.simps [simp del]

definition remove_tod_uid :: "tod \<Rightarrow> uid \<Rightarrow> int \<times> tod" where
  "remove_tod_uid t u =
     (case tod_data t of
        None \<Rightarrow> (- 1, t)
      | Some d \<Rightarrow>
          let i = tod_search d u (nat (tod_length t)) 0 in
          if int i = tod_length t then (- 1, t)
          else (0, t\<lparr>tod_data := Some (d(i := d (nat (tod_length t - 1)))),
                     tod_length := tod_length t - 1\<rparr>))"

definition flush_tod :: "tod \<Rightarrow> int \<times> tod" where
  "flush_tod t = (0, t\<lparr>tod_data := None, tod_length := 0, tod_max_length := 0\<rparr>)"

definition reset_tod :: "tod \<Rightarrow> int \<times> tod" where
  "reset_tod t = (0, t\<lparr>tod_data := None, tod_length := 0, tod_max_length := 0\<rparr>)"

section \<open>Invariant and abstraction\<close>

definition wf_tod :: "tod \<Rightarrow> bool" where
  "wf_tod t \<longleftrightarrow>
     (case tod_data t of
        None \<Rightarrow> tod_length t = 0 \<and> tod_max_length t = 0
      | Some d \<Rightarrow> 0 \<le> tod_length t \<and> tod_length t \<le> tod_max_length t \<and> 100 \<le> tod_max_length t)"

definition tod_uids :: "tod \<Rightarrow> uid list" where
  "tod_uids t = (case tod_data t of None \<Rightarrow> [] | Some d \<Rightarrow> map d [0..<nat (tod_length t)])"

lemma length_tod_uids: "wf_tod t \<Longrightarrow> int (length (tod_uids t)) = tod_length t"
  by (auto simp: wf_tod_def tod_uids_def split: option.splits)

lemma wf_tod_flush [simp]: "wf_tod (snd (flush_tod t))" "wf_tod (snd (reset_tod t))"
  by (simp_all add: flush_tod_def reset_tod_def wf_tod_def)

lemma tod_uids_flush [simp]: "tod_uids (snd (flush_tod t)) = []" "tod_uids (snd (reset_tod t)) = []"
  by (simp_all add: flush_tod_def reset_tod_def tod_uids_def)

lemma wf_tod_add: "wf_tod t \<Longrightarrow> wf_tod (snd (add_tod_uid ok fresh t u))"
  by (auto simp: add_tod_uid_def wf_tod_def Let_def split: option.splits)

lemma map_upt_update: "map (d(n := u)) [0..<n] = map d [0..<n]"
  by simp

lemma tod_uids_add:
  assumes "wf_tod t" and "fst (add_tod_uid ok fresh t u) = 0"
  shows "tod_uids (snd (add_tod_uid ok fresh t u)) = tod_uids t @ [u]"
proof (cases "tod_data t")
  case None
  with assms show ?thesis
    by (auto simp: add_tod_uid_def tod_uids_def split: if_splits)
next
  case (Some d)
  with assms(1) have bounds: "0 \<le> tod_length t" "tod_length t \<le> tod_max_length t"
    by (simp_all add: wf_tod_def)
  then have suc: "nat (tod_length t + 1) = Suc (nat (tod_length t))" by simp
  have old: "\<forall>i \<in> set [0..<nat (tod_length t)]. i < nat (tod_max_length t)"
    using bounds by auto
  show ?thesis
    using Some assms(2) suc old
    by (auto simp: add_tod_uid_def tod_uids_def Let_def split: if_splits)
qed

lemma add_tod_uid_fails:
  "fst (add_tod_uid ok fresh t u) \<noteq> 0 \<Longrightarrow>
     fst (add_tod_uid ok fresh t u) = ARTNET_EMEM \<and> snd (add_tod_uid ok fresh t u) = t"
  by (auto simp: add_tod_uid_def Let_def split: option.splits if_splits)

lemma add_tod_uid_ok: "fst (add_tod_uid True fresh t u) = 0"
  by (auto simp: add_tod_uid_def Let_def split: option.splits)

text \<open>The search returns the first match.\<close>

lemma tod_search_spec:
  "i \<le> n \<Longrightarrow>
     i \<le> tod_search d u n i \<and> tod_search d u n i \<le> n \<and>
     (tod_search d u n i < n \<longrightarrow> d (tod_search d u n i) = u) \<and>
     (\<forall>j. i \<le> j \<and> j < tod_search d u n i \<longrightarrow> d j \<noteq> u)"
proof (induction d u n i rule: tod_search.induct)
  case (1 d u n i)
  show ?case
  proof (cases "i < n \<and> d i \<noteq> u")
    case True
    then have eq: "tod_search d u n i = tod_search d u n (Suc i)"
      by (subst tod_search.simps) simp
    have "d j \<noteq> u" if "i \<le> j" "j < tod_search d u n (Suc i)" for j
      using 1 True that by (cases "j = i") auto
    with 1 True eq show ?thesis by auto
  next
    case False
    then have "tod_search d u n i = i" by (subst tod_search.simps) auto
    with 1 False show ?thesis by auto
  qed
qed

lemma tod_search_found:
  "tod_search d u n 0 < n \<longleftrightarrow> u \<in> set (map d [0..<n])"
proof
  assume "tod_search d u n 0 < n"
  with tod_search_spec [of 0 n d u] show "u \<in> set (map d [0..<n])"
    by (auto simp: image_iff intro!: bexI [of _ "tod_search d u n 0"])
next
  assume "u \<in> set (map d [0..<n])"
  then obtain j where "j < n" "d j = u" by auto
  with tod_search_spec [of 0 n d u] show "tod_search d u n 0 < n"
    by (metis leI le_less_trans zero_le)
qed

text \<open>Copying the last entry over one entry and shortening the list removes that entry.\<close>

lemma mset_overwrite_last:
  assumes "i < Suc m"
  shows "mset (map (d(i := d m)) [0..<m]) = mset (map d [0..<Suc m]) - {#d i#}"
proof (cases "i = m")
  case True
  then show ?thesis by simp
next
  case False
  with assms have i: "i < m" by simp
  then have "[0..<m] = [0..<i] @ i # [Suc i..<m]"
    using upt_add_eq_append [of 0 i "m - i"] by (simp add: upt_conv_Cons)
  then show ?thesis by simp
qed

lemma remove_tod_uid_absent:
  assumes "wf_tod t" and "u \<notin> set (tod_uids t)"
  shows "remove_tod_uid t u = (- 1, t)"
proof (cases "tod_data t")
  case None
  then show ?thesis by (simp add: remove_tod_uid_def)
next
  case (Some d)
  let ?n = "nat (tod_length t)"
  from Some assms have "\<not> tod_search d u ?n 0 < ?n"
    by (simp add: tod_search_found tod_uids_def)
  with tod_search_spec [of 0 ?n d u] have "tod_search d u ?n 0 = ?n" by simp
  with Some assms(1) show ?thesis by (simp add: remove_tod_uid_def wf_tod_def)
qed

lemma remove_tod_uid_present:
  assumes "wf_tod t" and "u \<in> set (tod_uids t)"
  shows "fst (remove_tod_uid t u) = 0"
    and "mset (tod_uids (snd (remove_tod_uid t u))) = mset (tod_uids t) - {#u#}"
    and "wf_tod (snd (remove_tod_uid t u))"
proof -
  from assms(2) obtain d where d: "tod_data t = Some d"
    by (cases "tod_data t") (simp_all add: tod_uids_def)
  let ?n = "nat (tod_length t)"
  let ?i = "tod_search d u ?n 0"
  from assms d have "?i < ?n" by (simp add: tod_search_found tod_uids_def)
  then obtain m where m: "?n = Suc m" and im: "?i < Suc m" by (cases ?n) auto
  have hit: "d ?i = u" using tod_search_spec [of 0 ?n d u] \<open>?i < ?n\<close> by simp
  from m have len: "tod_length t = int m + 1" by simp
  have res: "remove_tod_uid t u =
      (0, t\<lparr>tod_data := Some (d(?i := d m)), tod_length := int m\<rparr>)"
    using d im m len by (simp add: remove_tod_uid_def Let_def)
  show "fst (remove_tod_uid t u) = 0" by (simp add: res)
  show "mset (tod_uids (snd (remove_tod_uid t u))) = mset (tod_uids t) - {#u#}"
    using mset_overwrite_last [OF im, of d] hit d m
    by (simp add: res tod_uids_def)
  show "wf_tod (snd (remove_tod_uid t u))"
    using assms(1) d len by (simp add: res wf_tod_def)
qed

lemma wf_tod_remove: "wf_tod t \<Longrightarrow> wf_tod (snd (remove_tod_uid t u))"
  by (cases "u \<in> set (tod_uids t)")
    (simp_all add: remove_tod_uid_absent remove_tod_uid_present(3))

lemma mset_tod_remove:
  "wf_tod t \<Longrightarrow> mset (tod_uids (snd (remove_tod_uid t u))) = mset (tod_uids t) - {#u#}"
  by (cases "u \<in> set (tod_uids t)")
    (simp_all add: remove_tod_uid_absent remove_tod_uid_present(2) diff_single_trivial)

interpretation tod_table: uid_table wf_tod tod_uids
  "\<lambda>u t. snd (add_tod_uid True fresh t u)" "\<lambda>u t. snd (remove_tod_uid t u)"
  "\<lambda>t. snd (flush_tod t)" for fresh
  by unfold_locales
    (simp_all add: wf_tod_add tod_uids_add add_tod_uid_ok wf_tod_remove mset_tod_remove)

end
