(* ===== verification/Node_State.thy ===== *)
theory Node_State
  imports Tod
begin

text \<open>
  The state of a node and what it exchanges with its surroundings: the constants at the top of
  \<open>artnet/artnet.c\<close>, the enumerations of \<open>artnet/artnet.h\<close>, the structures of
  \<open>artnet/private.h\<close>, and the calls into the C library, the socket and the application
  (\<open>env\<close>).  The inner structure \<open>state\<close> is the parent record of \<open>node\<close>, so that
  \<open>n->state.mode\<close> reads \<open>mode n\<close>; the generic port is the parent record of the two kinds
  of ports in the same way.
\<close>

section \<open>Constants\<close>

definition OEM_HI :: u8 where [simp]: "OEM_HI = 0x04"
definition OEM_LO :: u8 where [simp]: "OEM_LO = 0x30"
definition ESTA_HI :: u8 where [simp]: "ESTA_HI = 0x7A"
definition ESTA_LO :: u8 where [simp]: "ESTA_LO = 0x70"
definition TTM_BEHAVIOUR_MASK :: u8 where [simp]: "TTM_BEHAVIOUR_MASK = 0x02"
definition TTM_REPLY_MASK :: u8 where [simp]: "TTM_REPLY_MASK = 0x01"
definition PROGRAM_NO_CHANGE :: u8 where [simp]: "PROGRAM_NO_CHANGE = 0x7f"
definition PROGRAM_DEFAULTS :: u8 where [simp]: "PROGRAM_DEFAULTS = 0x00"
definition PROGRAM_CHANGE_MASK :: u8 where [simp]: "PROGRAM_CHANGE_MASK = 0x80"
definition HIGH_NIBBLE :: u8 where [simp]: "HIGH_NIBBLE = 0xF0"
definition LOW_NIBBLE :: u8 where [simp]: "LOW_NIBBLE = 0x0F"
definition STATUS_PROG_AUTH_MASK :: u8 where [simp]: "STATUS_PROG_AUTH_MASK = 0x30"
definition PORT_STATUS_LPT_MODE :: u8 where [simp]: "PORT_STATUS_LPT_MODE = 0x02"
definition PORT_STATUS_MERGE :: u8 where [simp]: "PORT_STATUS_MERGE = 0x08"
definition PORT_STATUS_INPUT_DISABLED :: u8 where [simp]: "PORT_STATUS_INPUT_DISABLED = 0x08"
definition PORT_STATUS_DMX_TEXT :: u8 where [simp]: "PORT_STATUS_DMX_TEXT = 0x10"
definition PORT_STATUS_DMX_SIP :: u8 where [simp]: "PORT_STATUS_DMX_SIP = 0x20"
definition PORT_STATUS_DMX_TEST :: u8 where [simp]: "PORT_STATUS_DMX_TEST = 0x40"
definition PORT_STATUS_ACT_MASK :: u8 where [simp]: "PORT_STATUS_ACT_MASK = 0x80"
definition PORT_DISABLE_MASK :: u8 where [simp]: "PORT_DISABLE_MASK = 0x01"
definition TOD_RESPONSE_FULL :: u8 where [simp]: "TOD_RESPONSE_FULL = 0x00"
definition TOD_RESPONSE_NAK :: u8 where [simp]: "TOD_RESPONSE_NAK = 0xff"
definition MIN_PACKET_SIZE :: int where [simp]: "MIN_PACKET_SIZE = 10"
definition MERGE_TIMEOUT_MS :: int where [simp]: "MERGE_TIMEOUT_MS = 10000"
definition NODELIST_TIMEOUT_MS :: int where [simp]: "NODELIST_TIMEOUT_MS = 15000"
definition DMX_FAILSAFE_TIMEOUT_MS :: int where [simp]: "DMX_FAILSAFE_TIMEOUT_MS = 800"
definition FIRMWARE_TIMEOUT_MS :: int where [simp]: "FIRMWARE_TIMEOUT_MS = 30000"
definition ARTSYNC_TIMEOUT_MS :: int where [simp]: "ARTSYNC_TIMEOUT_MS = 4000"
definition DMX_KEEPALIVE_INTERVAL_MS :: int where [simp]: "DMX_KEEPALIVE_INTERVAL_MS = 1000"
definition RECV_NO_DATA :: int where [simp]: "RECV_NO_DATA = 1"
definition MAX_NODE_BCAST_LIMIT :: int where [simp]: "MAX_NODE_BCAST_LIMIT = 30"
definition ARTNET_VLC_START_CODE :: u8 where [simp]: "ARTNET_VLC_START_CODE = 0x91"
definition ARTNET_VLC_MIN_LENGTH :: int where [simp]: "ARTNET_VLC_MIN_LENGTH = 22"
definition ARTNET_VLC_MAGIC :: "u8 list" where "ARTNET_VLC_MAGIC = [0x41, 0x4c, 0x45]"

definition ARTNET_RC_POWER_OK :: int where [simp]: "ARTNET_RC_POWER_OK = 1"
definition ARTNET_RC_SOCKET_WR1 :: int where [simp]: "ARTNET_RC_SOCKET_WR1 = 3"
definition ARTNET_RC_PARSE_FAIL :: int where [simp]: "ARTNET_RC_PARSE_FAIL = 4"
definition ARTNET_RC_UDP_FAIL :: int where [simp]: "ARTNET_RC_UDP_FAIL = 5"
definition ARTNET_RC_SHNAME_OK :: int where [simp]: "ARTNET_RC_SHNAME_OK = 6"
definition ARTNET_RC_LONAME_OK :: int where [simp]: "ARTNET_RC_LONAME_OK = 7"
definition ARTNET_RC_FIRMWARE_FAIL :: int where [simp]: "ARTNET_RC_FIRMWARE_FAIL = 14"
definition ARTNET_RC_USER_FAIL :: int where [simp]: "ARTNET_RC_USER_FAIL = 15"

definition ARTNET_FAILSAFE_HOLD :: u8 where [simp]: "ARTNET_FAILSAFE_HOLD = 0x00"
definition ARTNET_FAILSAFE_ZERO :: u8 where [simp]: "ARTNET_FAILSAFE_ZERO = 0x40"
definition ARTNET_FAILSAFE_FULL :: u8 where [simp]: "ARTNET_FAILSAFE_FULL = 0x80"
definition ARTNET_FAILSAFE_SCENE :: u8 where [simp]: "ARTNET_FAILSAFE_SCENE = 0xC0"

definition ARTNET_ENABLE_INPUT :: u8 where [simp]: "ARTNET_ENABLE_INPUT = 0x40"
definition ARTNET_ENABLE_OUTPUT :: u8 where [simp]: "ARTNET_ENABLE_OUTPUT = 0x80"

definition ARTNET_FIRMWARE_BLOCKGOOD :: u8 where [simp]: "ARTNET_FIRMWARE_BLOCKGOOD = 0x00"
definition ARTNET_FIRMWARE_ALLGOOD :: u8 where [simp]: "ARTNET_FIRMWARE_ALLGOOD = 0x01"
definition ARTNET_FIRMWARE_FAIL :: u8 where [simp]: "ARTNET_FIRMWARE_FAIL = 0xff"

definition ARTNET_TTM_DEFAULT :: u8 where [simp]: "ARTNET_TTM_DEFAULT = 0xFF"
definition ARTNET_TTM_PRIVATE :: u8 where [simp]: "ARTNET_TTM_PRIVATE = 0xFE"
definition ARTNET_TTM_AUTO :: u8 where [simp]: "ARTNET_TTM_AUTO = 0xFD"

section \<open>Enumerations\<close>

datatype artnet_node_type =
  ARTNET_SRV | ARTNET_NODE | ARTNET_MSRV | ARTNET_ROUTE | ARTNET_BACKUP | ARTNET_RAW

datatype node_status = ARTNET_OFF | ARTNET_STANDBY | ARTNET_ON

datatype merge = ARTNET_MERGE_HTP | ARTNET_MERGE_LTP

datatype artnet_handler_name =
    ARTNET_RECV_HANDLER | ARTNET_SEND_HANDLER | ARTNET_POLL_HANDLER | ARTNET_REPLY_HANDLER
  | ARTNET_DMX_HANDLER | ARTNET_ADDRESS_HANDLER | ARTNET_INPUT_HANDLER
  | ARTNET_TOD_REQUEST_HANDLER | ARTNET_TOD_DATA_HANDLER | ARTNET_TOD_CONTROL_HANDLER
  | ARTNET_RDM_HANDLER | ARTNET_IPPROG_HANDLER | ARTNET_FIRMWARE_HANDLER
  | ARTNET_FIRMWARE_REPLY_HANDLER | ARTNET_SYNC_HANDLER | ARTNET_NZS_HANDLER
  | ARTNET_DIAGDATA_HANDLER | ARTNET_COMMAND_HANDLER | ARTNET_TIMECODE_HANDLER
  | ARTNET_TIMESYNC_HANDLER | ARTNET_TRIGGER_HANDLER | ARTNET_DIRECTORY_HANDLER
  | ARTNET_DIRECTORY_REPLY_HANDLER | ARTNET_FILE_TN_MASTER_HANDLER
  | ARTNET_FILE_FN_MASTER_HANDLER | ARTNET_FILE_FN_REPLY_HANDLER | ARTNET_MEDIAPATCH_HANDLER
  | ARTNET_MEDIA_HANDLER | ARTNET_MEDIACONTROL_HANDLER | ARTNET_MEDIACONTROL_REPLY_HANDLER
  | ARTNET_DATAREQUEST_HANDLER | ARTNET_DATAREPLY_HANDLER | ARTNET_RDMSUB_HANDLER

text \<open>
  The entries of \<open>node_callbacks_t\<close>: one per packet handler, and six with signatures of
  their own.  A function pointer and a \<open>void *\<close> are opaque numbers.
\<close>

datatype callback_name =
    Packet_Cb artnet_handler_name
  | dmx_c | firmware_c | program_c | rdm_c | rdm_init_c | rdm_tod_c

type_synonym fnptr = nat
type_synonym userdata = nat

record callback =
  fh :: "fnptr option"
  cb_data :: userdata

section \<open>Ports, remote nodes and transfers\<close>

record g_port =
  port_addr :: u16
  port_default_addr :: u8
  port_net_ctl :: u8
  port_status :: u8
  port_enabled :: bool
  port_tod :: tod

record input_port = g_port +
  seq :: u8
  last_dmx_data :: mem
  last_dmx_length :: int
  last_dmx_send_time :: u64

record output_port = g_port +
  out_length :: int
  out_data :: mem
  merge_mode :: merge
  proto_sel :: u8
  output_style :: u8
  rdm_enabled :: u8
  dataA :: mem
  dataB :: mem
  physicalA :: u8
  physicalB :: u8
  timeA :: u64
  timeB :: u64
  last_dmx_time :: u64
  failsafe_triggered :: bool
  failsafe_data :: mem
  failsafe_length :: int
  nzs_start_code :: u8
  sync_data :: mem
  sync_length :: int
  sync_pending :: bool
  cancel_merge_pending :: bool
  port_dmx_source :: ip
  ipA :: ip
  ipB :: ip

text \<open>A firmware buffer is the number of bytes allocated and their values.\<close>

record firmware_transfer =
  fw_data :: "(int \<times> mem) option"
  bytes_current :: int
  bytes_total :: int
  fw_peer :: ip
  fw_ubea :: int
  last_time :: u64
  expected_block :: int
  fw_callback :: "fnptr option"
  fw_user_data :: userdata

definition no_firmware :: firmware_transfer where
  "no_firmware = \<lparr>fw_data = None, bytes_current = 0, bytes_total = 0, fw_peer = 0, fw_ubea = 0,
     last_time = 0, expected_block = 0, fw_callback = None, fw_user_data = 0\<rparr>"

record node_entry =
  e_ip :: "u8 list"
  e_ver :: int
  e_netSwitch :: u8
  e_subSwitch :: u8
  e_oem :: int
  e_ubea :: u8
  e_status :: u8
  e_estaMan :: "u8 list"
  e_shortName :: "u8 list"
  e_longName :: "u8 list"
  e_nodeReport :: "u8 list"
  e_numbports :: int
  e_portTypes :: "u8 list"
  e_goodInput :: "u8 list"
  e_goodOutputA :: "u8 list"
  e_swIn :: "u8 list"
  e_swOut :: "u8 list"
  e_acnPriority :: u8
  e_swMacro :: u8
  e_swRemote :: u8
  e_style :: u8
  e_mac :: "u8 list"
  e_bindIp :: "u8 list"
  e_bindIndex :: u8
  e_status2 :: u8
  e_goodOutputB :: "u8 list"
  e_status3 :: u8
  e_defaultRespUid :: "u8 list"
  e_userHi :: u8
  e_userLo :: u8
  e_refreshRate :: int
  e_bgQueuePolicy :: u8

record node_entry_private =
  pub :: node_entry
  firmware :: firmware_transfer
  ent_ip :: ip
  last_seen :: u64

text \<open>
  The linked list is the list of its entries in order, \<open>last\<close> being the last of them and
  \<open>current\<close> a position in it (\<open>None\<close> for NULL).
\<close>

record node_list =
  entries :: "node_entry_private list"
  current :: "nat option"
  nl_length :: int

section \<open>The node\<close>

record node_state =
  node_type :: artnet_node_type
  mode :: node_status
  reply_addr :: ip
  ip_addr :: ip
  bcast_addr :: ip
  subnet_mask :: ip
  gateway :: ip
  hw_addr :: mem
  default_netSwitch :: u8
  netSwitch_net_ctl :: u8
  default_subSwitch :: u8
  subSwitch_net_ctl :: u8
  send_apr_on_change :: bool
  ar_count :: int
  shortName :: mem
  longName :: mem
  report :: mem
  netSwitch :: u8
  subSwitch :: u8
  oem_hi :: u8
  oem_lo :: u8
  esta_hi :: u8
  esta_lo :: u8
  bcast_limit :: int
  report_code :: int
  led_state :: u8
  style_code :: u8
  status2 :: u8
  status3 :: u8
  failsafe_mode :: u8
  rdm_reply_addr :: ip
  tod_reply_addr :: ip
  acn_priority :: u8
  default_resp_uid :: mem
  bind_index :: u8
  vlc_disabled :: bool
  diag_enabled :: bool
  diag_unicast :: bool
  diag_controller_count :: int
  diag_controller_ips :: "nat \<Rightarrow> ip"
  tod_requester_count :: int
  tod_requester_ips :: "nat \<Rightarrow> ip"
  diag_priority :: u8
  bqp_policy :: u8
  refresh_rate :: u16
  sync_mode :: bool
  last_sync_time :: u64
  last_dmx_source :: ip
  nl_seq :: u32
  apr_pending_time :: u64
  apr_pending :: bool

text \<open>
  \<open>node\<close> adds the rest of \<open>artnet_node_s\<close> and a record of the node's exchanges: how many
  clock readings, random numbers, allocations and sends it has made, the datagrams given to the
  socket, in order, and whether an access to memory has been out of bounds.
\<close>

record node = node_state +
  callbacks :: "callback_name \<Rightarrow> callback"
  port_types :: "nat \<Rightarrow> u8"
  in_ports :: "nat \<Rightarrow> input_port"
  out_ports :: "nat \<Rightarrow> output_port"
  ar_temp :: mem
  nodes :: node_list
  node_fw :: firmware_transfer
  peer :: "nat option"
  master :: bool
  clk :: nat
  rnd :: nat
  mallocs :: nat
  sends :: nat
  sent :: "packet list"
  oob :: bool

end
