(* ===== verification/Environment.thy ===== *)
theory Environment
  imports Node_State
begin

text \<open>
  The surroundings of a node and the primitives that use them: the clock, \<open>rand\<close>, \<open>malloc\<close>,
  the socket (\<open>artnet/network.c\<close>) and the application's callbacks.  Each of them is a field
  of \<open>env\<close>, the argument of every operation that needs one; the counters of the node say
  which reading, number or allocation is the next.  A callback is a function of its argument and
  the node: it may call the library on the node it is given, so it returns a node too.  It
  does not write through the packet it is shown.
\<close>

section \<open>The surroundings\<close>

datatype call_arg =
    No_Arg
  | Packet_Arg packet
  | Port_Arg int
  | Address_Arg int
  | Firmware_Arg int "int \<times> mem" int
  | Rdm_Arg int "u8 list" int
  | Status_Arg u8

record env =
  env_time :: "nat \<Rightarrow> u64"
  env_rand :: "nat \<Rightarrow> nat"
  env_malloc :: "nat \<Rightarrow> bool"
  env_garbage :: "nat \<Rightarrow> mem"
  env_sendto :: "nat \<Rightarrow> packet \<Rightarrow> int"
  env_call :: "fnptr \<Rightarrow> call_arg \<Rightarrow> userdata \<Rightarrow> node \<Rightarrow> int \<times> node"
  env_aton :: "string \<Rightarrow> ip option"

definition artnet_gettime_ms :: "env \<Rightarrow> node \<Rightarrow> u64 \<times> node" where
  "artnet_gettime_ms e n = (env_time e (clk n), n\<lparr>clk := Suc (clk n)\<rparr>)"

definition c_rand :: "env \<Rightarrow> node \<Rightarrow> nat \<times> node" where
  "c_rand e n = (env_rand e (rnd n), n\<lparr>rnd := Suc (rnd n)\<rparr>)"

text \<open>An allocation: whether it succeeds, and what the memory holds.\<close>

definition c_malloc :: "env \<Rightarrow> node \<Rightarrow> (bool \<times> mem) \<times> node" where
  "c_malloc e n =
     ((env_malloc e (mallocs n), env_garbage e (mallocs n)), n\<lparr>mallocs := Suc (mallocs n)\<rparr>)"

text \<open>An access to memory that must satisfy \<open>c\<close> to be inside its object.\<close>

definition inside :: "bool \<Rightarrow> node \<Rightarrow> node" where
  "inside c n = (if c then n else n\<lparr>oob := True\<rparr>)"

lemma inside_True [simp]: "inside True n = n"
  by (simp add: inside_def)

section \<open>Callbacks\<close>

definition run_callback :: "env \<Rightarrow> callback \<Rightarrow> call_arg \<Rightarrow> node \<Rightarrow> int \<times> node" where
  "run_callback e cb a n =
     (case fh cb of None \<Rightarrow> (0, n) | Some f \<Rightarrow> env_call e f a (cb_data cb) n)"

definition check_callback ::
    "env \<Rightarrow> node \<Rightarrow> packet \<Rightarrow> artnet_handler_name \<Rightarrow> int \<times> node" where
  "check_callback e n p h = run_callback e (callbacks n (Packet_Cb h)) (Packet_Arg p) n"

text \<open>A callback whose result the caller ignores.\<close>

definition notify :: "env \<Rightarrow> callback_name \<Rightarrow> call_arg \<Rightarrow> node \<Rightarrow> node" where
  "notify e c a n = snd (run_callback e (callbacks n c) a n)"

text \<open>
  The node has no callback at all; the callbacks of an application that only observes; and those
  of one that at most sends packets while it is called.
\<close>

definition no_callback :: callback where
  "no_callback = \<lparr>fh = None, cb_data = 0\<rparr>"

definition observer :: "env \<Rightarrow> bool" where
  "observer e \<longleftrightarrow> (\<forall>f a d n. snd (env_call e f a d n) = n)"

definition only_sends :: "env \<Rightarrow> bool" where
  "only_sends e \<longleftrightarrow>
     (\<forall>f a d n. \<exists>k s r. snd (env_call e f a d n) = n\<lparr>sends := k, sent := s, report_code := r\<rparr>)"

lemma sends_nothing: "\<exists>k s r. n = n\<lparr>sends := k, sent := s, report_code := r\<rparr>"
  by (intro exI [of _ "sends n"] exI [of _ "sent n"] exI [of _ "report_code n"]) simp

lemma observer_only_sends [simp]:
  assumes "observer e"
  shows "only_sends e"
  unfolding only_sends_def
proof (intro allI)
  fix f a d n
  have same: "snd (env_call e f a d n) = n" using assms by (simp add: observer_def)
  show "\<exists>k s r. snd (env_call e f a d n) = n\<lparr>sends := k, sent := s, report_code := r\<rparr>"
    unfolding same by (rule sends_nothing)
qed

lemma run_callback_None [simp]: "fh cb = None \<Longrightarrow> run_callback e cb a n = (0, n)"
  by (simp add: run_callback_def)

lemma observer_run [simp]: "observer e \<Longrightarrow> snd (run_callback e cb a n) = n"
  by (simp add: run_callback_def observer_def split: option.splits)

lemma observer_check [simp]: "observer e \<Longrightarrow> snd (check_callback e n p h) = n"
  by (simp add: check_callback_def)

lemma observer_notify [simp]: "observer e \<Longrightarrow> notify e c a n = n"
  by (simp add: notify_def)

section \<open>The socket (network.c)\<close>

definition artnet_net_send :: "env \<Rightarrow> node \<Rightarrow> packet \<Rightarrow> int \<times> node" where
  "artnet_net_send e n p =
     (if mode n \<noteq> ARTNET_ON then (ARTNET_EACTION, n)
      else
        (let p = p\<lparr>p_from := ip_addr n\<rparr>;
             ret = env_sendto e (sends n) p;
             n = n\<lparr>sends := Suc (sends n), sent := sent n @ [p]\<rparr>
         in if ret = - 1 then (ARTNET_ENET, n\<lparr>report_code := ARTNET_RC_UDP_FAIL\<rparr>)
            else if p_length p \<noteq> ret then (ARTNET_ENET, n\<lparr>report_code := ARTNET_RC_SOCKET_WR1\<rparr>)
            else (ARTNET_EOK,
              if fh (callbacks n (Packet_Cb ARTNET_SEND_HANDLER)) = None then n
              else notify e (Packet_Cb ARTNET_SEND_HANDLER) (Packet_Arg (snd (get_type p))) n)))"

text \<open>What one call of \<open>select\<close> and \<open>recvfrom\<close> can bring.\<close>

datatype arrival =
    Quiet
  | Interrupted
  | Select_Error
  | Recv_Error
  | Datagram ip "u8 list"

definition LOOPBACK_IP :: u32 where
  [simp]: "LOOPBACK_IP = 0x7F000001"

text \<open>The receive buffer is the union: \<open>recvfrom\<close> cuts a longer datagram.\<close>

definition artnet_net_recv :: "node \<Rightarrow> arrival \<Rightarrow> packet \<Rightarrow> int \<times> packet" where
  "artnet_net_recv n a p =
     (let p = p\<lparr>p_length := 0\<rparr>
      in case a of
           Quiet \<Rightarrow> (RECV_NO_DATA, p)
         | Interrupted \<Rightarrow> (ARTNET_EOK, p)
         | Select_Error \<Rightarrow> (ARTNET_ENET, p)
         | Recv_Error \<Rightarrow> (ARTNET_ENET, p\<lparr>p_data := zero_mem\<rparr>)
         | Datagram src bs \<Rightarrow>
             (let bs = take sizeof_union bs;
                  p = p\<lparr>p_data := put_bytes zero_mem 0 bs\<rparr>
              in if src = ip_addr n \<or> ntohl src = LOOPBACK_IP then (ARTNET_EOK, p)
                 else (ARTNET_EOK, p\<lparr>p_length := int (length bs), p_from := src\<rparr>)))"

definition artnet_net_inet_aton :: "env \<Rightarrow> string \<Rightarrow> int \<times> ip option" where
  "artnet_net_inet_aton e s =
     (case env_aton e s of None \<Rightarrow> (ARTNET_EARG, None) | Some a \<Rightarrow> (ARTNET_EOK, Some a))"

section \<open>Updating ports\<close>

definition upd_out :: "nat \<Rightarrow> (output_port \<Rightarrow> output_port) \<Rightarrow> node \<Rightarrow> node" where
  "upd_out i f n = n\<lparr>out_ports := (out_ports n)(i := f (out_ports n i))\<rparr>"

definition upd_in :: "nat \<Rightarrow> (input_port \<Rightarrow> input_port) \<Rightarrow> node \<Rightarrow> node" where
  "upd_in i f n = n\<lparr>in_ports := (in_ports n)(i := f (in_ports n i))\<rparr>"

lemma out_ports_upd_out [simp]:
  "out_ports (upd_out i f n) j = (if j = i then f (out_ports n i) else out_ports n j)"
  by (simp add: upd_out_def)

lemma in_ports_upd_in [simp]:
  "in_ports (upd_in i f n) j = (if j = i then f (in_ports n i) else in_ports n j)"
  by (simp add: upd_in_def)

lemma upd_out_same: "out_ports (upd_out i f n) i = f (out_ports n i)"
  by simp

end
