(* ===== verification/Node_List.thy ===== *)
theory Node_List
  imports Environment
begin

text \<open>
  The list of remote nodes: \<open>artnet_nl_update\<close>, the searches, the iteration and the removal
  of silent nodes (\<open>artnet/artnet.c\<close>).  The linked list is the Isabelle list of its entries;
  a pointer into it is a position.  Its contract, a registry that holds one entry for each pair of
  sender and first output port, is the locale \<open>registry\<close>, interpreted below.
\<close>

section \<open>The contract\<close>

locale registry =
  fixes inv :: "'s \<Rightarrow> bool"
    and look :: "'s \<Rightarrow> 'k \<Rightarrow> 'v option"
    and key :: "'v \<Rightarrow> 'k"
    and put :: "'v \<Rightarrow> 's \<Rightarrow> 's"
    and keep :: "('v \<Rightarrow> bool) \<Rightarrow> 's \<Rightarrow> 's"
  assumes inv_put: "inv s \<Longrightarrow> inv (put v s)"
    and look_put: "inv s \<Longrightarrow> look (put v s) = (look s)(key v \<mapsto> v)"
    and inv_keep: "inv s \<Longrightarrow> inv (keep P s)"
    and look_keep: "inv s \<Longrightarrow> look (keep P s) k =
      (case look s k of None \<Rightarrow> None | Some v \<Rightarrow> if P v then Some v else None)"
begin

lemma inv_puts: "inv s \<Longrightarrow> inv (fold put vs s)"
  by (induction vs arbitrary: s) (simp_all add: inv_put)

lemma look_puts: "inv s \<Longrightarrow> look (fold put vs s) = look s ++ map_of (rev (map (\<lambda>v. (key v, v)) vs))"
proof (induction vs arbitrary: s)
  case (Cons v vs)
  then show ?case by (auto simp: look_put inv_put map_add_def fun_eq_iff split: option.splits)
qed simp

lemma put_last_wins: "inv s \<Longrightarrow> look (put w (put v s)) (key w) = Some w"
  by (simp add: look_put inv_put)

lemma keep_put: "inv s \<Longrightarrow> P v \<Longrightarrow> look (keep P (put v s)) (key v) = Some v"
  by (simp add: look_keep look_put inv_put)

lemma keep_all: "inv s \<Longrightarrow> (\<And>v. P v) \<Longrightarrow> look (keep P s) = look s"
  by (auto simp: look_keep fun_eq_iff split: option.splits)

end

section \<open>Positions in a list\<close>

primrec find_pos :: "('a \<Rightarrow> bool) \<Rightarrow> 'a list \<Rightarrow> nat option" where
  "find_pos P [] = None"
| "find_pos P (x # xs) = (if P x then Some 0 else map_option Suc (find_pos P xs))"

lemma find_pos_None: "find_pos P xs = None \<longleftrightarrow> (\<forall>x \<in> set xs. \<not> P x)"
  by (induction xs) auto

lemma find_pos_Some:
  "find_pos P xs = Some i \<Longrightarrow> i < length xs \<and> P (xs ! i) \<and> (\<forall>j < i. \<not> P (xs ! j))"
proof (induction xs arbitrary: i)
  case (Cons x xs)
  show ?case
  proof (cases "P x")
    case False
    with Cons.prems obtain k where k: "find_pos P xs = Some k" "i = Suc k" by auto
    from Cons.IH [OF k(1)] False k(2) show ?thesis by (auto simp: less_Suc_eq_0_disj)
  qed (use Cons.prems in auto)
qed simp

section \<open>Operations\<close>

definition to_int16 :: "int \<Rightarrow> int" where
  "to_int16 x = sint (word_of_int x :: u16)"

abbreviation "apr \<equiv> artnet_reply_s"

definition copy_apr_to_node_entry :: "packet \<Rightarrow> node_entry" where
  "copy_apr_to_node_entry p = \<lparr>
     e_ip = get_n apr ''ip'' 4 p,
     e_ver = to_int16 (bytes_to_short (get8 apr ''verH'' p) (get8 apr ''ver'' p)),
     e_netSwitch = get8 apr ''netSwitch'' p,
     e_subSwitch = get8 apr ''subSwitch'' p,
     e_oem = to_int16 (bytes_to_short (get8 apr ''oemH'' p) (get8 apr ''oem'' p)),
     e_ubea = get8 apr ''ubea'' p,
     e_status = get8 apr ''status'' p,
     e_estaMan = get_n apr ''estaMan'' 2 p,
     e_shortName = get_n apr ''shortName'' ARTNET_SHORT_NAME_LENGTH p,
     e_longName = get_n apr ''longName'' ARTNET_LONG_NAME_LENGTH p,
     e_nodeReport = get_n apr ''nodeReport'' ARTNET_REPORT_LENGTH p,
     e_numbports = to_int16 (bytes_to_short (get8 apr ''numbportsH'' p) (get8 apr ''numbports'' p)),
     e_portTypes = get_n apr ''portTypes'' ARTNET_MAX_PORTS p,
     e_goodInput = get_n apr ''goodInput'' ARTNET_MAX_PORTS p,
     e_goodOutputA = get_n apr ''goodOutputA'' ARTNET_MAX_PORTS p,
     e_swIn = get_n apr ''swIn'' ARTNET_MAX_PORTS p,
     e_swOut = get_n apr ''swOut'' ARTNET_MAX_PORTS p,
     e_acnPriority = get8 apr ''acnPriority'' p,
     e_swMacro = get8 apr ''swMacro'' p,
     e_swRemote = get8 apr ''swRemote'' p,
     e_style = get8 apr ''style'' p,
     e_mac = get_n apr ''mac'' ARTNET_MAC_SIZE p,
     e_bindIp = get_n apr ''bindIp'' ARTNET_IP_SIZE p,
     e_bindIndex = get8 apr ''bindIndex'' p,
     e_status2 = get8 apr ''status2'' p,
     e_goodOutputB = get_n apr ''goodOutputB'' ARTNET_MAX_PORTS p,
     e_status3 = get8 apr ''status3'' p,
     e_defaultRespUid = get_n apr ''defaultRespUid'' ARTNET_RDM_UID_WIDTH p,
     e_userHi = get8 apr ''userHi'' p,
     e_userLo = get8 apr ''userLo'' p,
     e_refreshRate = bytes_to_short (get8 apr ''refreshRateHi'' p) (get8 apr ''refreshRateLo'' p),
     e_bgQueuePolicy = get8 apr ''bgQueuePolicy'' p\<rparr>"

definition find_entry_from_ip :: "node_list \<Rightarrow> ip \<Rightarrow> nat option" where
  "find_entry_from_ip nl ip = find_pos (\<lambda>tmp. ip = ent_ip tmp) (entries nl)"

definition find_entry_from_ip_and_swout0 :: "node_list \<Rightarrow> ip \<Rightarrow> u8 \<Rightarrow> nat option" where
  "find_entry_from_ip_and_swout0 nl ip swout0 =
     find_pos (\<lambda>tmp. ip = ent_ip tmp \<and> e_swOut (pub tmp) ! 0 = swout0) (entries nl)"

definition find_private_entry :: "node \<Rightarrow> node_entry option \<Rightarrow> nat option" where
  "find_private_entry n e =
     (case e of None \<Rightarrow> None
      | Some e \<Rightarrow> find_pos (\<lambda>tmp. e_ip e = e_ip (pub tmp)) (entries (nodes n)))"

definition NL_WRITE_BEGIN :: "node \<Rightarrow> node" where
  "NL_WRITE_BEGIN n = n\<lparr>nl_seq := nl_seq n + 1\<rparr>"

definition NL_WRITE_END :: "node \<Rightarrow> node" where
  "NL_WRITE_END n = n\<lparr>nl_seq := nl_seq n + 1\<rparr>"

definition NL_READ_RETRY :: "node \<Rightarrow> u32 \<Rightarrow> bool" where
  "NL_READ_RETRY n seq1 \<longleftrightarrow> seq1 \<noteq> nl_seq n \<or> seq1 AND 1 \<noteq> 0"

definition artnet_nl_update :: "env \<Rightarrow> node \<Rightarrow> packet \<Rightarrow> int \<times> node" where
  "artnet_nl_update e n reply =
     (let swOut0 = get_at apr ''swOut'' 0 reply;
          n = NL_WRITE_BEGIN n
      in case find_entry_from_ip_and_swout0 (nodes n) (p_from reply) swOut0 of
           None \<Rightarrow>
             (let (m, n) = c_malloc e n
              in if \<not> fst m then (ARTNET_EMEM, n)
                 else
                   (let (now, n) = artnet_gettime_ms e n;
                        entry = \<lparr>pub = copy_apr_to_node_entry reply, firmware = no_firmware,
                                 ent_ip = p_from reply, last_seen = now\<rparr>;
                        n = n\<lparr>nodes := (nodes n)\<lparr>entries := entries (nodes n) @ [entry],
                                                   nl_length := nl_length (nodes n) + 1\<rparr>\<rparr>
                    in (ARTNET_EOK, NL_WRITE_END n)))
         | Some i \<Rightarrow>
             (let (now, n) = artnet_gettime_ms e n;
                  entry = (entries (nodes n) ! i)\<lparr>pub := copy_apr_to_node_entry reply,
                                                    last_seen := now\<rparr>;
                  n = n\<lparr>nodes := (nodes n)\<lparr>entries := (entries (nodes n))[i := entry]\<rparr>\<rparr>
              in (ARTNET_EOK, NL_WRITE_END n)))"

text \<open>
  One pass of the search for the nodes of a universe: how many ports match, the addresses stored,
  and whether every port inspected was one of the four an entry holds.
\<close>

definition port_matches :: "node_entry \<Rightarrow> u16 \<Rightarrow> nat \<Rightarrow> bool" where
  "port_matches t uni i =
     (let output_enabled = e_portTypes t ! i AND ARTNET_ENABLE_OUTPUT \<noteq> 0;
          input_enabled = e_portTypes t ! i AND ARTNET_ENABLE_INPUT \<noteq> 0;
          matches = output_enabled \<and>
            make_addr (e_netSwitch t) (e_subSwitch t AND 0x0F) (e_swOut t ! i AND 0x0F) = uni
      in matches \<or>
         (input_enabled \<and>
          make_addr (e_netSwitch t) (e_subSwitch t AND 0x0F) (e_swIn t ! i AND 0x0F) = uni))"

definition matching_ports :: "node_entry \<Rightarrow> u16 \<Rightarrow> nat" where
  "matching_ports t uni =
     length (filter (port_matches t uni) [0..<min (nat (e_numbports t)) ARTNET_MAX_PORTS])"

primrec scan_uni ::
    "u16 \<Rightarrow> nat \<Rightarrow> node_entry_private list \<Rightarrow> int \<times> ip list \<times> bool \<Rightarrow> int \<times> ip list \<times> bool" where
  "scan_uni uni cap [] r = r"
| "scan_uni uni cap (t # ts) r =
     (case r of (cnt, ips, ok) \<Rightarrow>
        let k = matching_ports (pub t) uni
        in scan_uni uni cap ts
             (cnt + int k,
              (if 0 < k \<and> length ips < cap then ips @ [ent_ip t] else ips),
              ok \<and> e_numbports (pub t) \<le> ARTNET_MAX_PORTS))"

text \<open>
  The seqlock loop reads again until the counter is even and unchanged; nothing changes it while
  one thread is in the loop, so an odd counter is a loop that never ends (\<open>None\<close>).
\<close>

partial_function (option) find_nodes_from_uni ::
    "node \<Rightarrow> u16 \<Rightarrow> nat \<Rightarrow> (int \<times> ip list \<times> bool) option" where
  "find_nodes_from_uni n uni cap =
     (let seq = nl_seq n
      in if seq AND 1 \<noteq> 0 then find_nodes_from_uni n uni cap
         else
           (let r = scan_uni uni cap (entries (nodes n)) (0, [], True)
            in if NL_READ_RETRY n seq then find_nodes_from_uni n uni cap else Some r))"

definition silent :: "u64 \<Rightarrow> node_entry_private \<Rightarrow> bool" where
  "silent now t \<longleftrightarrow> NODELIST_TIMEOUT_MS < sint (now - last_seen t)"

primrec drop_silent :: "u64 \<Rightarrow> node_entry_private list \<Rightarrow> int \<Rightarrow> node_entry_private list \<times> int" where
  "drop_silent now [] len = ([], len)"
| "drop_silent now (t # ts) len =
     (if silent now t then drop_silent now ts (len - 1)
      else (case drop_silent now ts len of (ts', len') \<Rightarrow> (t # ts', len')))"

text \<open>The cleanup step of \<open>check_timeouts\<close>.\<close>

definition nl_cleanup :: "u64 \<Rightarrow> node \<Rightarrow> node" where
  "nl_cleanup now n =
     (let n = NL_WRITE_BEGIN n;
          (ts, len) = drop_silent now (entries (nodes n)) (nl_length (nodes n));
          n = n\<lparr>nodes := \<lparr>entries = ts, current = (if ts = [] then None else Some 0),
                           nl_length = len\<rparr>\<rparr>
      in NL_WRITE_END n)"

section \<open>Iteration\<close>

definition nl_entry :: "node_list \<Rightarrow> node_entry option" where
  "nl_entry nl =
     (case current nl of None \<Rightarrow> None
      | Some i \<Rightarrow> if i < length (entries nl) then Some (pub (entries nl ! i)) else None)"

definition artnet_nl_first :: "node_list \<Rightarrow> node_entry option \<times> node_list" where
  "artnet_nl_first nl =
     (let nl = nl\<lparr>current := (if entries nl = [] then None else Some 0)\<rparr> in (nl_entry nl, nl))"

definition artnet_nl_next :: "node_list \<Rightarrow> node_entry option \<times> node_list" where
  "artnet_nl_next nl =
     (case current nl of
        None \<Rightarrow> (None, nl)
      | Some i \<Rightarrow>
          (let nl = nl\<lparr>current := (if Suc i < length (entries nl) then Some (Suc i) else None)\<rparr>
           in (nl_entry nl, nl)))"

definition artnet_nl_get_length :: "node_list \<Rightarrow> int" where
  "artnet_nl_get_length nl = nl_length nl"

text \<open>The callback of the iteration is a function on its own state and each copied entry.\<close>

fun foreach_pass ::
    "(node_entry \<Rightarrow> 'd \<Rightarrow> int \<times> 'd) \<Rightarrow> node_entry_private list \<Rightarrow> 'd \<Rightarrow> int \<times> 'd" where
  "foreach_pass cb [] d = (0, d)"
| "foreach_pass cb (t # ts) d =
     (case cb (pub t) d of (ret, d') \<Rightarrow> if ret \<noteq> 0 then (ret, d') else foreach_pass cb ts d')"

partial_function (option) artnet_nl_foreach ::
    "node \<Rightarrow> (node_entry \<Rightarrow> 'd \<Rightarrow> int \<times> 'd) \<Rightarrow> 'd \<Rightarrow> (int \<times> 'd) option" where
  "artnet_nl_foreach n cb d =
     (let seq = nl_seq n
      in if seq AND 1 \<noteq> 0 then artnet_nl_foreach n cb d
         else
           (case foreach_pass cb (entries (nodes n)) d of (ret, d') \<Rightarrow>
              if ret \<noteq> 0 then Some (ret, d')
              else if NL_READ_RETRY n seq then artnet_nl_foreach n cb d'
              else Some (ARTNET_EOK, d')))"

section \<open>The loops of readers\<close>

lemma NL_READ_RETRY_self: "NL_READ_RETRY n (nl_seq n) \<longleftrightarrow> nl_seq n AND 1 \<noteq> 0"
  by (simp add: NL_READ_RETRY_def)

lemma find_nodes_from_uni_even:
  "nl_seq n AND 1 = 0 \<Longrightarrow>
     find_nodes_from_uni n uni cap = Some (scan_uni uni cap (entries (nodes n)) (0, [], True))"
  by (subst find_nodes_from_uni.simps) (simp add: Let_def NL_READ_RETRY_self)

lemma find_nodes_from_uni_returns_aux:
  "find_nodes_from_uni n uni cap = Some r \<Longrightarrow> nl_seq n AND 1 = 0"
  by (erule find_nodes_from_uni.raw_induct [rotated])
    (auto simp: Let_def NL_READ_RETRY_def split: if_splits)

lemma find_nodes_from_uni_odd: "nl_seq n AND 1 \<noteq> 0 \<Longrightarrow> find_nodes_from_uni n uni cap = None"
  using find_nodes_from_uni_returns_aux by (metis not_None_eq)

lemma artnet_nl_foreach_even:
  "nl_seq n AND 1 = 0 \<Longrightarrow>
     artnet_nl_foreach n cb d = Some (foreach_pass cb (entries (nodes n)) d)"
  by (subst artnet_nl_foreach.simps)
    (simp add: Let_def NL_READ_RETRY_self split: prod.splits)

section \<open>The invariant\<close>

definition entry_key :: "node_entry_private \<Rightarrow> ip \<times> u8" where
  "entry_key t = (ent_ip t, e_swOut (pub t) ! 0)"

definition entry_wf :: "node_entry_private \<Rightarrow> bool" where
  "entry_wf t \<longleftrightarrow>
     length (e_ip (pub t)) = 4 \<and> length (e_portTypes (pub t)) = 4 \<and>
     length (e_swIn (pub t)) = 4 \<and> length (e_swOut (pub t)) = 4"

definition wf_nl :: "node_list \<Rightarrow> bool" where
  "wf_nl nl \<longleftrightarrow>
     nl_length nl = int (length (entries nl)) \<and>
     (\<forall>i. current nl = Some i \<longrightarrow> i < length (entries nl)) \<and>
     list_all entry_wf (entries nl) \<and> distinct (map entry_key (entries nl))"

definition nl_even :: "node \<Rightarrow> bool" where
  "nl_even n \<longleftrightarrow> nl_seq n AND 1 = 0"

lemma and_one_plus_2: "(2 + x) AND 1 = (x :: u32) AND 1"
  by (simp add: and_one_eq mod2_eq_if)

lemma get_n_length [simp]: "length (get_n L f k p) = k"
  by (simp add: get_n_def)

lemma copy_apr_wf [simp]: "entry_wf \<lparr>pub = copy_apr_to_node_entry p, firmware = f, ent_ip = a, last_seen = t\<rparr>"
  by (simp add: entry_wf_def copy_apr_to_node_entry_def)

lemma copy_apr_swOut0 [simp]:
  "e_swOut (copy_apr_to_node_entry p) ! 0 = get_at apr ''swOut'' 0 p"
  by (simp add: copy_apr_to_node_entry_def get_n_def get_at_def)

lemma drop_silent_eq:
  "drop_silent now ts len =
     (filter (\<lambda>t. \<not> silent now t) ts, len - int (length (filter (silent now) ts)))"
  by (induction ts arbitrary: len) (simp_all split: prod.splits)

lemma drop_silent_length:
  "len = int (length ts) \<Longrightarrow> snd (drop_silent now ts len) = int (length (fst (drop_silent now ts len)))"
  using sum_length_filter_compl [of "silent now" ts]
  by (simp add: drop_silent_eq)

section \<open>The list as a registry\<close>

text \<open>What a reader sees of an entry: the transfer in progress is the node's own business.\<close>

type_synonym sighting = "ip \<times> node_entry \<times> u64"

definition entry_view :: "node_entry_private \<Rightarrow> sighting" where
  "entry_view t = (ent_ip t, pub t, last_seen t)"

definition view_key :: "sighting \<Rightarrow> ip \<times> u8" where
  "view_key v = (case v of (a, e, _) \<Rightarrow> (a, e_swOut e ! 0))"

definition nl_look :: "node_entry_private list \<Rightarrow> ip \<times> u8 \<Rightarrow> sighting option" where
  "nl_look ts = map_of (map (\<lambda>t. (entry_key t, entry_view t)) ts)"

definition nl_put :: "sighting \<Rightarrow> node_entry_private list \<Rightarrow> node_entry_private list" where
  "nl_put v ts =
     (case v of (a, e, t) \<Rightarrow>
        (case find_pos (\<lambda>x. entry_key x = view_key v) ts of
           None \<Rightarrow> ts @ [\<lparr>pub = e, firmware = no_firmware, ent_ip = a, last_seen = t\<rparr>]
         | Some i \<Rightarrow> ts[i := (ts ! i)\<lparr>pub := e, last_seen := t\<rparr>]))"

definition nl_keep :: "(sighting \<Rightarrow> bool) \<Rightarrow> node_entry_private list \<Rightarrow> node_entry_private list" where
  "nl_keep P = filter (\<lambda>t. P (entry_view t))"

definition nl_distinct :: "node_entry_private list \<Rightarrow> bool" where
  "nl_distinct ts \<longleftrightarrow> distinct (map entry_key ts)"

lemma map_of_update_nth:
  "distinct (map fst xs) \<Longrightarrow> i < length xs \<Longrightarrow> fst (xs ! i) = k \<Longrightarrow>
     map_of (xs[i := (k, v)]) = (map_of xs)(k \<mapsto> v)"
proof (induction xs arbitrary: i)
  case (Cons x xs)
  show ?case
  proof (cases i)
    case 0
    with Cons.prems show ?thesis by (cases x) (auto simp: fun_eq_iff)
  next
    case (Suc j)
    with Cons.prems have j: "j < length xs" "fst (xs ! j) = k" by simp_all
    then have "k \<in> set (map fst xs)" by (metis length_map nth_map nth_mem)
    with Cons.prems(1) have "fst x \<noteq> k" by (metis distinct.simps(2) list.simps(9))
    with Cons.IH [OF _ j] Cons.prems(1) Suc show ?thesis
      by (cases x) (auto simp: fun_upd_twist)
  qed
qed simp

lemma map_of_filter_distinct:
  "distinct (map fst xs) \<Longrightarrow>
     map_of (filter (\<lambda>(_, v). P v) xs) k =
       (case map_of xs k of None \<Rightarrow> None | Some v \<Rightarrow> if P v then Some v else None)"
proof (induction xs)
  case (Cons x xs)
  obtain a b where x: "x = (a, b)" by (cases x)
  have "map_of xs a = None" using Cons.prems x by (simp add: map_of_eq_None_iff image_iff)
  with Cons x show ?case by (auto split: option.splits)
qed simp

lemma entry_key_update:
  "entry_key (t\<lparr>pub := e, last_seen := s\<rparr>) = (ent_ip t, e_swOut e ! 0)"
  by (simp add: entry_key_def)

lemma nl_put_hit:
  assumes "find_pos (\<lambda>x. entry_key x = view_key (a, e, t)) ts = Some i"
  shows "i < length ts" "entry_key (ts ! i) = (a, e_swOut e ! 0)" "ent_ip (ts ! i) = a"
  using find_pos_Some [OF assms] by (auto simp: view_key_def entry_key_def)

lemma map_entry_key_put:
  "map entry_key (nl_put v ts) =
     (if view_key v \<in> set (map entry_key ts) then map entry_key ts
      else map entry_key ts @ [view_key v])"
proof -
  obtain a e t where v: "v = (a, e, t)" by (metis prod.exhaust)
  show ?thesis
  proof (cases "find_pos (\<lambda>x. entry_key x = view_key v) ts")
    case None
    then have "view_key v \<notin> set (map entry_key ts)" by (auto simp: find_pos_None)
    with None v show ?thesis by (simp add: nl_put_def entry_key_def view_key_def)
  next
    case (Some i)
    note hit = nl_put_hit [OF Some [unfolded v]]
    have "entry_key (ts ! i) \<in> set (map entry_key ts)" using hit(1) by simp
    then have "view_key v \<in> set (map entry_key ts)" using hit(2) v by (simp add: view_key_def)
    moreover have "map entry_key (ts[i := (ts ! i)\<lparr>pub := e, last_seen := t\<rparr>]) = map entry_key ts"
      using hit by (simp add: map_update entry_key_update list_update_same_conv)
    ultimately show ?thesis using Some v by (simp add: nl_put_def)
  qed
qed

lemma nl_distinct_put: "nl_distinct ts \<Longrightarrow> nl_distinct (nl_put v ts)"
  by (simp add: nl_distinct_def map_entry_key_put)

lemma nl_distinct_keep: "nl_distinct ts \<Longrightarrow> nl_distinct (nl_keep P ts)"
  by (simp add: nl_distinct_def nl_keep_def distinct_map_filter)

lemma nl_look_put:
  assumes "nl_distinct ts"
  shows "nl_look (nl_put v ts) = (nl_look ts)(view_key v \<mapsto> v)"
proof -
  obtain a e t where v: "v = (a, e, t)" by (metis prod.exhaust)
  let ?kv = "\<lambda>t. (entry_key t, entry_view t)"
  show ?thesis
  proof (cases "find_pos (\<lambda>x. entry_key x = view_key v) ts")
    case None
    then have "map_of (map ?kv ts) (view_key v) = None"
      by (auto simp: find_pos_None map_of_eq_None_iff)
    with None v show ?thesis
      by (auto simp: nl_look_def nl_put_def entry_key_def entry_view_def view_key_def map_add_def
          fun_eq_iff split: option.splits)
  next
    case (Some i)
    note hit = nl_put_hit [OF Some [unfolded v]]
    have "nl_look (nl_put v ts) = map_of ((map ?kv ts)[i := (view_key v, v)])"
      using Some v hit
      by (simp add: nl_look_def nl_put_def map_update entry_key_update view_key_def entry_view_def)
    also have "\<dots> = (map_of (map ?kv ts))(view_key v \<mapsto> v)"
      using assms hit v
      by (intro map_of_update_nth) (simp_all add: nl_distinct_def view_key_def o_def)
    finally show ?thesis by (simp add: nl_look_def)
  qed
qed

lemma nl_look_keep:
  "nl_distinct ts \<Longrightarrow> nl_look (nl_keep P ts) k =
     (case nl_look ts k of None \<Rightarrow> None | Some v \<Rightarrow> if P v then Some v else None)"
  using map_of_filter_distinct [of "map (\<lambda>t. (entry_key t, entry_view t)) ts" P k]
  by (simp add: nl_look_def nl_keep_def nl_distinct_def filter_map o_def)

interpretation nl_registry: registry nl_distinct nl_look view_key nl_put nl_keep
  by unfold_locales (simp_all add: nl_distinct_put nl_look_put nl_distinct_keep nl_look_keep)

section \<open>What the operations do to the registry\<close>

lemma find_entry_key:
  "find_entry_from_ip_and_swout0 nl a w = find_pos (\<lambda>x. entry_key x = (a, w)) (entries nl)"
  by (auto simp: find_entry_from_ip_and_swout0_def entry_key_def intro!: arg_cong2 [of _ _ _ _ find_pos])

lemmas nl_update_simps =
  artnet_nl_update_def NL_WRITE_BEGIN_def NL_WRITE_END_def c_malloc_def artnet_gettime_ms_def
  find_entry_key

text \<open>The allocation an update makes succeeds, or the update needs none.\<close>

definition nl_update_ok :: "env \<Rightarrow> node \<Rightarrow> packet \<Rightarrow> bool" where
  "nl_update_ok e n p \<longleftrightarrow> fst (artnet_nl_update e n p) = ARTNET_EOK"

lemma artnet_nl_update_entries:
  assumes "nl_update_ok e n p"
  shows "entries (nodes (snd (artnet_nl_update e n p))) =
    nl_put (p_from p, copy_apr_to_node_entry p, env_time e (clk n)) (entries (nodes n))"
  using assms
  by (auto simp: nl_update_ok_def nl_update_simps nl_put_def view_key_def Let_def
      split: option.splits if_splits)

lemma artnet_nl_update_even:
  "nl_update_ok e n p \<Longrightarrow> nl_even (snd (artnet_nl_update e n p)) = nl_even n"
  by (auto simp: nl_update_ok_def nl_update_simps nl_even_def Let_def and_one_plus_2
      split: option.splits if_splits)

lemma artnet_nl_update_length:
  assumes "nl_update_ok e n p" "nl_length (nodes n) = int (length (entries (nodes n)))"
  shows "nl_length (nodes (snd (artnet_nl_update e n p))) =
    int (length (entries (nodes (snd (artnet_nl_update e n p)))))"
  using assms
  by (auto simp: nl_update_ok_def nl_update_simps Let_def split: option.splits if_splits)

lemma artnet_nl_update_current:
  assumes "nl_update_ok e n p" "current (nodes n) = Some i" "i < length (entries (nodes n))"
  shows "i < length (entries (nodes (snd (artnet_nl_update e n p))))"
  using assms
  by (auto simp: nl_update_ok_def nl_update_simps Let_def split: option.splits if_splits)

lemma artnet_nl_update_current_same [simp]:
  "current (nodes (snd (artnet_nl_update e n p))) = current (nodes n)"
  by (auto simp: nl_update_simps Let_def split: option.splits if_splits)

lemma entry_wf_copy: "entry_wf t \<Longrightarrow> entry_wf (t\<lparr>pub := copy_apr_to_node_entry p, last_seen := s\<rparr>)"
  by (simp add: entry_wf_def copy_apr_to_node_entry_def)

lemma nl_put_entry_wf:
  "list_all entry_wf ts \<Longrightarrow> list_all entry_wf (nl_put (a, copy_apr_to_node_entry p, s) ts)"
  by (auto simp: nl_put_def list_all_length nth_append nth_list_update entry_wf_copy
      split: option.splits dest: find_pos_Some)

lemma wf_nl_update:
  assumes "wf_nl (nodes n)" "nl_update_ok e n p"
  shows "wf_nl (nodes (snd (artnet_nl_update e n p)))"
  using assms artnet_nl_update_length [OF assms(2)] artnet_nl_update_current [OF assms(2)]
    nl_distinct_put [of "entries (nodes n)"]
  by (simp add: wf_nl_def artnet_nl_update_entries nl_put_entry_wf nl_distinct_def)

lemma nl_cleanup_entries:
  "entries (nodes (nl_cleanup now n)) = filter (\<lambda>t. \<not> silent now t) (entries (nodes n))"
  by (simp add: nl_cleanup_def NL_WRITE_BEGIN_def NL_WRITE_END_def drop_silent_eq Let_def)

lemma nl_cleanup_keep:
  "entries (nodes (nl_cleanup now n)) =
     nl_keep (\<lambda>(_, _, t). sint (now - t) \<le> NODELIST_TIMEOUT_MS) (entries (nodes n))"
  by (auto simp: nl_cleanup_entries nl_keep_def silent_def entry_view_def not_less
      intro!: filter_cong)

lemma nl_cleanup_even [simp]: "nl_even (nl_cleanup now n) = nl_even n"
  by (simp add: nl_cleanup_def NL_WRITE_BEGIN_def NL_WRITE_END_def drop_silent_eq Let_def
      nl_even_def and_one_plus_2)

lemma wf_nl_cleanup:
  assumes "wf_nl (nodes n)"
  shows "wf_nl (nodes (nl_cleanup now n))"
proof -
  have "nl_length (nodes (nl_cleanup now n)) = int (length (entries (nodes (nl_cleanup now n))))"
    using assms drop_silent_length [of _ "entries (nodes n)" now]
    by (simp add: wf_nl_def nl_cleanup_def NL_WRITE_BEGIN_def NL_WRITE_END_def Let_def
        case_prod_beta)
  moreover have "current (nodes (nl_cleanup now n)) =
      (if entries (nodes (nl_cleanup now n)) = [] then None else Some 0)"
    by (simp add: nl_cleanup_def NL_WRITE_BEGIN_def NL_WRITE_END_def Let_def split: prod.splits)
  ultimately show ?thesis
    using assms
    by (simp add: wf_nl_def nl_cleanup_entries list_all_iff distinct_map_filter)
qed

end
