(* ===== verification/Transmit.thy ===== *)
theory Transmit
  imports Node_List
begin

text \<open>
  Building and sending packets: \<open>artnet/transmit.c\<close>.  Every function fills the zeroed union
  field by field (\<open>fill\<close>, by the layout of the packet's structure) and hands it to
  \<open>artnet_net_send\<close>.  A \<open>const char *\<close> is a string option (\<open>None\<close> for NULL), a pointer
  to data an optional memory.  A function that searches the node list returns an option, as the
  search does.  The messages printed in verbose mode are not modelled.
\<close>

section \<open>Helpers\<close>

definition new_packet :: "ip \<Rightarrow> u16 \<Rightarrow> int \<Rightarrow> mem \<Rightarrow> packet" where
  "new_packet to t len d = \<lparr>p_length = len, p_from = 0, p_to = to, p_type = t, p_data = d\<rparr>"

definition send_new ::
    "env \<Rightarrow> node \<Rightarrow> ip \<Rightarrow> artnet_packet_type \<Rightarrow> int \<Rightarrow> mem \<Rightarrow> int \<times> node" where
  "send_new e n to t len d = artnet_net_send e n (new_packet to (opcode t) len d)"

abbreviation size_of :: "layout \<Rightarrow> int" where
  "size_of L \<equiv> int (sizeof L)"

definition hi_byte :: "int \<Rightarrow> u8" where
  "hi_byte x = short_get_high_byte (word_of_int x)"

definition lo_byte :: "int \<Rightarrow> u8" where
  "lo_byte x = short_get_low_byte (word_of_int x)"

text \<open>The assignment \<open>ret = ret || artnet_net_send(...)\<close>, whose result is 0 or 1.\<close>

definition or_send :: "env \<Rightarrow> int \<Rightarrow> packet \<Rightarrow> node \<Rightarrow> int \<times> node" where
  "or_send e ret p n =
     (if ret \<noteq> 0 then (1, n)
      else (case artnet_net_send e n p of (r, n) \<Rightarrow> (c_bool (r \<noteq> 0), n)))"

definition bytes_of :: "string \<Rightarrow> u8 list" where
  "bytes_of s = map of_char s"

text \<open>Decimal and hexadecimal digits, and the fields \<open>%04x\<close> and \<open>%04i\<close> of \<open>snprintf\<close>.\<close>

fun digits :: "nat \<Rightarrow> nat \<Rightarrow> nat list" where
  "digits b x = (if b \<le> 1 \<or> x < b then [x] else digits b (x div b) @ [x mod b])"

declare digits.simps [simp del]

definition digit_char :: "nat \<Rightarrow> u8" where
  "digit_char d = (if d < 10 then of_nat (48 + d) else of_nat (87 + d))"

definition pad_zeros :: "nat \<Rightarrow> u8 list \<Rightarrow> u8 list" where
  "pad_zeros w s = replicate (w - length s) 48 @ s"

definition fmt_04x :: "int \<Rightarrow> u8 list" where
  "fmt_04x x = pad_zeros 4 (map digit_char (digits 16 (nat (x mod 2 ^ 32))))"

definition fmt_04i :: "int \<Rightarrow> u8 list" where
  "fmt_04i x =
     (if x < 0 then 45 # pad_zeros 3 (map digit_char (digits 10 (nat (- x))))
      else pad_zeros 4 (map digit_char (digits 10 (nat x))))"

definition node_report :: "int \<Rightarrow> int \<Rightarrow> u8 list" where
  "node_report code cnt =
     take 63 (bytes_of ''#'' @ fmt_04x code @ bytes_of '' ['' @ fmt_04i cnt @
              bytes_of ''] libartnet'') @ [0]"

section \<open>ArtPoll and ArtPollReply\<close>

definition ARTNET_DIAG_LOW :: u8 where [simp]: "ARTNET_DIAG_LOW = 0x10"

definition artnet_tx_poll_ex ::
    "env \<Rightarrow> node \<Rightarrow> string option \<Rightarrow> u8 \<Rightarrow> u8 \<Rightarrow> u16 \<Rightarrow> u16 \<Rightarrow> u16 \<Rightarrow> u16 \<Rightarrow> int \<times> node" where
  "artnet_tx_poll_ex e n ip flags priority target_top target_bottom esta_man oem =
     (if mode n \<noteq> ARTNET_ON then (ARTNET_EACTION, n)
      else if node_type n = ARTNET_SRV \<or> node_type n = ARTNET_RAW then
        (let (ret, to) =
           (case ip of Some s \<Rightarrow> artnet_net_inet_aton e s | None \<Rightarrow> (ARTNET_EOK, Some (bcast_addr n)))
         in case to of
              None \<Rightarrow> (ret, n)
            | Some to \<Rightarrow>
                artnet_net_send e n (new_packet to 0 (size_of artnet_poll_s)
                  (fill artnet_poll_s
                    [(''flags'', [flags]),
                     (''diagPriority'', [priority]),
                     (''targetPortAddressTopHi'', [short_get_high_byte target_top]),
                     (''targetPortAddressTopLo'', [short_get_low_byte target_top]),
                     (''targetPortAddressBottomHi'', [short_get_high_byte target_bottom]),
                     (''targetPortAddressBottomLo'', [short_get_low_byte target_bottom]),
                     (''estaMan'', [short_get_high_byte esta_man, short_get_low_byte esta_man]),
                     (''oem'', [short_get_high_byte oem, short_get_low_byte oem])]
                    (header ARTNET_POLL))))
      else (ARTNET_EACTION, n))"

definition artnet_tx_poll :: "env \<Rightarrow> node \<Rightarrow> string option \<Rightarrow> u8 \<Rightarrow> int \<times> node" where
  "artnet_tx_poll e n ip ttm =
     artnet_tx_poll_ex e n ip (NOT ttm) ARTNET_DIAG_LOW 0 0
       (push_bit 8 (ucast (esta_hi n)) OR ucast (esta_lo n))
       (push_bit 8 (ucast (oem_hi n)) OR ucast (oem_lo n))"

definition artnet_tx_poll_reply :: "env \<Rightarrow> node \<Rightarrow> int \<times> node" where
  "artnet_tx_poll_reply e n =
     (let n = n\<lparr>ar_count := (ar_count n + 1) mod 10000\<rparr>
      in if reply_addr n = 0 then (ARTNET_EACTION, n)
         else send_new e n (reply_addr n) ARTNET_REPLY (size_of artnet_reply_s)
           (fill artnet_reply_s
             [(''goodInput'', map (\<lambda>i. port_status (in_ports n i)) [0..<4]),
              (''goodOutputA'',
                 map (\<lambda>i. port_status (out_ports n i) OR proto_sel (out_ports n i)) [0..<4]),
              (''nodeReport'', node_report (report_code n) (ar_count n))]
             (memcpy zero_mem 0 (ar_temp n) 0 (sizeof artnet_reply_s))))"

definition ARTNET_PORT :: u16 where "ARTNET_PORT = 6454"

definition ARTNET_BQP_DISABLED :: u8 where "ARTNET_BQP_DISABLED = 0x04"

text \<open>The highest enabled port, counted from 1.\<close>

definition used_ports :: "node \<Rightarrow> nat" where
  "used_ports n =
     (let on = \<lambda>i. port_enabled (out_ports n i) \<or> port_enabled (in_ports n i)
      in if on 3 then 4 else if on 2 then 3 else if on 1 then 2 else if on 0 then 1 else 0)"

definition network_programmed :: "node \<Rightarrow> bool" where
  "network_programmed n \<longleftrightarrow>
     netSwitch_net_ctl n \<noteq> 0 \<or> subSwitch_net_ctl n \<noteq> 0 \<or>
     list_ex (\<lambda>i. port_net_ctl (in_ports n i) \<noteq> 0 \<or> port_net_ctl (out_ports n i) \<noteq> 0) [0..<4]"

definition good_output_b :: "node \<Rightarrow> output_port \<Rightarrow> u8" where
  "good_output_b n port =
     (if rdm_enabled port = 0 then 0x80 else 0) OR
     (if output_style port \<noteq> 0 then 0x40 else 0) OR
     (if rdm_enabled port \<noteq> 0
      then 0x20 OR (if bqp_policy n = ARTNET_BQP_DISABLED then 0x10 else 0) else 0)"

definition bind_index_of :: "node \<Rightarrow> u8" where
  "bind_index_of n = (if bind_index n \<noteq> 0 then bind_index n else 1)"

definition poll_reply_template :: "node \<Rightarrow> mem" where
  "poll_reply_template n =
     fill artnet_reply_s
       [(''id'', ARTNET_STRING),
        (''opCode'', le16_bytes (opcode ARTNET_REPLY)),
        (''ip'', ip_bytes (ip_addr n)),
        (''port'', le16_bytes ARTNET_PORT),
        (''verH'', [0]),
        (''ver'', [ARTNET_VERSION]),
        (''netSwitch'', [netSwitch n]),
        (''subSwitch'', [subSwitch n]),
        (''oemH'', [oem_hi n]),
        (''oem'', [oem_lo n]),
        (''ubea'', [0]),
        (''estaMan'', [esta_lo n, esta_hi n]),
        (''shortName'', get_bytes (shortName n) 0 ARTNET_SHORT_NAME_LENGTH),
        (''longName'', get_bytes (longName n) 0 ARTNET_LONG_NAME_LENGTH),
        (''numbportsH'', [0]),
        (''numbports'', [of_nat (used_ports n)]),
        (''portTypes'', map (port_types n) [0..<4]),
        (''goodInput'', map (\<lambda>i. port_status (in_ports n i)) [0..<4]),
        (''goodOutputA'',
           map (\<lambda>i. port_status (out_ports n i) OR proto_sel (out_ports n i)) [0..<4]),
        (''swIn'', map (\<lambda>i. addr_port (port_addr (in_ports n i))) [0..<4]),
        (''swOut'', map (\<lambda>i. addr_port (port_addr (out_ports n i))) [0..<4]),
        (''acnPriority'', [acn_priority n]),
        (''style'', [style_code n]),
        (''mac'', get_bytes (hw_addr n) 0 ARTNET_MAC_SIZE),
        (''bindIndex'', [bind_index_of n]),
        (''bindIp'', ip_bytes (ip_addr n)),
        (''status'',
           [push_bit 6 (led_state n) OR (if network_programmed n then 0x20 else 0x10) OR 0x02]),
        (''status3'', [failsafe_mode n OR status3 n]),
        (''status2'', [status2 n]),
        (''goodOutputB'', map (\<lambda>i. good_output_b n (out_ports n i)) [0..<4]),
        (''defaultRespUid'', get_bytes (default_resp_uid n) 0 ARTNET_RDM_UID_WIDTH),
        (''refreshRateHi'', [short_get_high_byte (refresh_rate n)]),
        (''refreshRateLo'', [short_get_low_byte (refresh_rate n)]),
        (''bgQueuePolicy'', [bqp_policy n])]
       zero_mem"

definition artnet_tx_build_art_poll_reply :: "node \<Rightarrow> int \<times> node" where
  "artnet_tx_build_art_poll_reply n = (ARTNET_EOK, n\<lparr>ar_temp := poll_reply_template n\<rparr>)"

section \<open>RDM\<close>

definition ARTNET_RDM_VERSION :: u8 where [simp]: "ARTNET_RDM_VERSION = 0x01"
definition ARTNET_TOD_FULL :: u8 where [simp]: "ARTNET_TOD_FULL = 0x00"
definition ARTNET_TOD_FLUSH :: u8 where [simp]: "ARTNET_TOD_FLUSH = 0x01"
definition ARTNET_TOD_END :: u8 where [simp]: "ARTNET_TOD_END = 0x02"
definition ARTNET_TOD_INC_ON :: u8 where [simp]: "ARTNET_TOD_INC_ON = 0x03"
definition ARTNET_TOD_INC_OFF :: u8 where [simp]: "ARTNET_TOD_INC_OFF = 0x04"

definition output_nets :: "node \<Rightarrow> u8 list" where
  "output_nets n =
     fold (\<lambda>i nets.
       if \<not> port_enabled (out_ports n i) then nets
       else (let net = addr_net (port_addr (out_ports n i))
             in if net \<in> set nets then nets else nets @ [net])) [0..<4] []"

definition ports_of_net :: "node \<Rightarrow> u8 \<Rightarrow> u8 list" where
  "ports_of_net n net =
     map (\<lambda>p. addr_low_byte (port_addr (out_ports n p)))
       (filter (\<lambda>p. port_enabled (out_ports n p) \<and> addr_net (port_addr (out_ports n p)) = net)
         [0..<4])"

primrec send_tod_requests :: "env \<Rightarrow> u8 list \<Rightarrow> int \<Rightarrow> node \<Rightarrow> int \<times> node" where
  "send_tod_requests e [] ret n = (ret, n)"
| "send_tod_requests e (net # nets) ret n =
     (let adrs = ports_of_net n net;
          d = fill artnet_todrequest_s
                [(''command'', [ARTNET_TOD_FULL]), (''net'', [net]),
                 (''adCount'', [of_nat (length adrs)]), (''address'', adrs)]
                (header ARTNET_TODREQUEST)
      in case or_send e ret (new_packet (bcast_addr n) (opcode ARTNET_TODREQUEST)
                (size_of artnet_todrequest_s) d) n of
           (ret, n) \<Rightarrow> send_tod_requests e nets ret n)"

definition artnet_tx_tod_request :: "env \<Rightarrow> node \<Rightarrow> int \<times> node" where
  "artnet_tx_tod_request e n = send_tod_requests e (output_nets n) ARTNET_EOK n"

definition tod_page_bytes :: "tod \<Rightarrow> nat \<Rightarrow> nat \<Rightarrow> u8 list" where
  "tod_page_bytes t k lim =
     (case tod_data t of None \<Rightarrow> [] | Some d \<Rightarrow> concat (map d [k..<k + lim]))"

text \<open>One page: where its entries lie in the table, and the packet that carries them.\<close>

definition tod_page_limit :: "int \<Rightarrow> int" where
  "tod_page_limit remaining = min ARTNET_MAX_UID_COUNT remaining"

definition tod_page_inside :: "tod \<Rightarrow> int \<Rightarrow> bool" where
  "tod_page_inside t remaining \<longleftrightarrow>
     tod_data t = None \<or>
     0 \<le> tod_length t - remaining \<and> 0 \<le> tod_page_limit remaining \<and>
     tod_length t - remaining + tod_page_limit remaining \<le> tod_max_length t"

definition tod_page_packet :: "tod \<Rightarrow> ip \<Rightarrow> mem \<Rightarrow> int \<Rightarrow> int \<Rightarrow> packet" where
  "tod_page_packet t to d remaining bloc =
     (let lim = tod_page_limit remaining
      in new_packet to (opcode ARTNET_TODDATA) (size_of artnet_toddata_s)
           (fill artnet_toddata_s
             [(''blockCount'', [word_of_int bloc]), (''uidCount'', [word_of_int lim]),
              (''tod'', tod_page_bytes t (nat (tod_length t - remaining)) (nat lim))] d))"

function tod_data_loop ::
    "env \<Rightarrow> nat \<Rightarrow> ip \<Rightarrow> mem \<Rightarrow> int \<Rightarrow> int \<Rightarrow> int \<Rightarrow> node \<Rightarrow> int \<times> node" where
  "tod_data_loop e pid to d remaining bloc ret n =
     (let t = port_tod (out_ports n pid);
          (ret, n) = or_send e ret (tod_page_packet t to d remaining bloc)
                       (inside (tod_page_inside t remaining) n);
          remaining = remaining - tod_page_limit remaining
      in if 0 < remaining then tod_data_loop e pid to d remaining (bloc + 1) ret n
         else (ret, n))"
  by pat_completeness auto
termination
  by (relation "measure (\<lambda>(_, _, _, _, remaining, _). nat remaining)") (auto simp: tod_page_limit_def min_def split: if_splits)

declare tod_data_loop.simps [simp del]

definition artnet_tx_tod_data :: "env \<Rightarrow> node \<Rightarrow> nat \<Rightarrow> int \<times> node" where
  "artnet_tx_tod_data e n pid =
     (if tod_reply_addr n = 0 then (ARTNET_EACTION, n)
      else
        (let port = out_ports n pid;
             len = tod_length (port_tod port);
             d = fill artnet_toddata_s
                   [(''rdmVer'', [ARTNET_RDM_VERSION]), (''port'', [of_nat (pid + 1)]),
                    (''bindIndex'', [bind_index_of n]), (''cmdRes'', [ARTNET_TOD_FULL]),
                    (''address'', [addr_low_byte (port_addr port)]),
                    (''net'', [addr_net (port_addr port)]),
                    (''uidTotalHi'', [hi_byte len]), (''uidTotal'', [lo_byte len])]
                   (header ARTNET_TODDATA)
         in tod_data_loop e pid (tod_reply_addr n) d len 0 ARTNET_EOK n))"

primrec tod_data_to_each :: "env \<Rightarrow> nat \<Rightarrow> nat list \<Rightarrow> int \<Rightarrow> node \<Rightarrow> int \<times> node" where
  "tod_data_to_each e pid [] ret n = (ret, n)"
| "tod_data_to_each e pid (i # is) ret n =
     (if \<not> int i < tod_requester_count n then (ret, n)
      else
        (case artnet_tx_tod_data e (n\<lparr>tod_reply_addr := tod_requester_ips n i\<rparr>) pid of
           (tx_ret, n) \<Rightarrow>
             tod_data_to_each e pid is (if tx_ret \<noteq> ARTNET_EOK then tx_ret else ret) n))"

text \<open>The array of requesters has eight elements; a count above that would leave it.\<close>

definition artnet_tx_tod_data_to_requesters :: "env \<Rightarrow> node \<Rightarrow> nat \<Rightarrow> int \<times> node" where
  "artnet_tx_tod_data_to_requesters e n pid =
     (let original_reply_addr = tod_reply_addr n
      in if tod_requester_count n \<le> 0 then artnet_tx_tod_data e n pid
         else
           (case tod_data_to_each e pid [0..<8] ARTNET_EOK
                   (inside (tod_requester_count n \<le> 8) n) of
              (ret, n) \<Rightarrow> (ret, n\<lparr>tod_reply_addr := original_reply_addr\<rparr>)))"

definition artnet_tx_tod_control :: "env \<Rightarrow> node \<Rightarrow> u16 \<Rightarrow> u8 \<Rightarrow> int \<times> node" where
  "artnet_tx_tod_control e n address action =
     send_new e n (bcast_addr n) ARTNET_TODCONTROL (size_of artnet_todcontrol_s)
       (fill artnet_todcontrol_s
         [(''cmd'', [action]), (''address'', [addr_low_byte address]), (''net'', [addr_net address])]
         (header ARTNET_TODCONTROL))"

text \<open>The first \<open>len\<close> bytes that a pointer leads to.\<close>

definition bytes_at :: "mem option \<Rightarrow> int \<Rightarrow> u8 list" where
  "bytes_at data len = (case data of None \<Rightarrow> [] | Some d \<Rightarrow> get_bytes d 0 (nat len))"

definition artnet_tx_rdm :: "env \<Rightarrow> node \<Rightarrow> u16 \<Rightarrow> mem option \<Rightarrow> int \<Rightarrow> int \<times> node" where
  "artnet_tx_rdm e n address data len =
     (if rdm_reply_addr n = 0 then (ARTNET_EACTION, n)
      else if len < 0 \<or> (0 < len \<and> data = None) then (ARTNET_EARG, n)
      else
        (let l = min len ARTNET_MAX_RDM_DATA
         in send_new e n (rdm_reply_addr n) ARTNET_RDM
              (size_of artnet_rdm_s - ARTNET_MAX_RDM_DATA + l)
              (fill artnet_rdm_s
                [(''rdmVer'', [ARTNET_RDM_VERSION]), (''cmd'', [0x00]),
                 (''address'', [addr_low_byte address]), (''net'', [addr_net address]),
                 (''data'', bytes_at data l)]
                (header ARTNET_RDM))))"

definition artnet_tx_rdmsub ::
    "env \<Rightarrow> node \<Rightarrow> u8 list option \<Rightarrow> u8 \<Rightarrow> u16 \<Rightarrow> u16 \<Rightarrow> u16 \<Rightarrow> mem option \<Rightarrow> int \<Rightarrow> int \<times> node" where
  "artnet_tx_rdmsub e n uid command_class param_id sub_device sub_count data len =
     (if rdm_reply_addr n = 0 then (ARTNET_EACTION, n)
      else
        (case uid of
           None \<Rightarrow> (ARTNET_EARG, n)
         | Some uid \<Rightarrow>
             if sub_count = 0 \<or> len < 0 \<or> (0 < len \<and> data = None) then (ARTNET_EARG, n)
             else
               (let l = min len ARTNET_MAX_RDM_DATA
                in send_new e n (rdm_reply_addr n) ARTNET_RDMSUB
                     (size_of artnet_rdm_sub_s - ARTNET_MAX_RDM_DATA + l)
                     (fill artnet_rdm_sub_s
                       [(''rdmVer'', [ARTNET_RDM_VERSION]),
                        (''uid'', take ARTNET_RDM_UID_WIDTH uid),
                        (''commandClass'', [command_class]),
                        (''paramIdHi'', [short_get_high_byte param_id]),
                        (''paramId'', [short_get_low_byte param_id]),
                        (''subDeviceHi'', [short_get_high_byte sub_device]),
                        (''subDevice'', [short_get_low_byte sub_device]),
                        (''subCountHi'', [short_get_high_byte sub_count]),
                        (''subCount'', [short_get_low_byte sub_count]),
                        (''data'', bytes_at data l)]
                       (header ARTNET_RDMSUB)))))"

end
