(* ===== verification/Transmit_Data.thy ===== *)
theory Transmit_Data
  imports Transmit
begin

text \<open>
  The rest of \<open>artnet/transmit.c\<close>: diagnostics, firmware and file blocks, synchronisation,
  non-zero start codes, requests and replies, time, triggers and media.
\<close>

section \<open>Diagnostics\<close>

definition artnet_tx_diagdata :: "env \<Rightarrow> node \<Rightarrow> u8 \<Rightarrow> u8 \<Rightarrow> string option \<Rightarrow> int \<times> node" where
  "artnet_tx_diagdata e n priority logical_port text =
     (if mode n \<noteq> ARTNET_ON then (ARTNET_EACTION, n)
      else
        (case text of
           None \<Rightarrow> (ARTNET_EARG, n)
         | Some text \<Rightarrow>
             if \<not> diag_enabled n then (ARTNET_EACTION, n)
             else if priority < diag_priority n then (ARTNET_EOK, n)
             else
               (let text_len = min (int (length text)) (ARTNET_DMX_LENGTH - 1);
                    len = size_of artnet_diagdata_s - (ARTNET_DMX_LENGTH - text_len - 1);
                    d = fill artnet_diagdata_s
                          [(''diagPriority'', [priority]), (''logicalPort'', [logical_port]),
                           (''lengthHi'', [hi_byte (text_len + 1)]),
                           (''length'', [lo_byte (text_len + 1)]),
                           (''data'', take (nat text_len) (bytes_of text))]
                          (header ARTNET_DIAGDATA)
                in if diag_unicast n then
                     (if reply_addr n = 0 then (ARTNET_EACTION, n)
                      else send_new e n (reply_addr n) ARTNET_DIAGDATA len d)
                   else send_new e n (bcast_addr n) ARTNET_DIAGDATA len d)))"

section \<open>Firmware\<close>

definition artnet_tx_firmware_reply :: "env \<Rightarrow> node \<Rightarrow> ip \<Rightarrow> u8 \<Rightarrow> int \<times> node" where
  "artnet_tx_firmware_reply e n ip code =
     send_new e n ip ARTNET_FIRMWAREREPLY (size_of artnet_firmware_reply_s)
       (fill artnet_firmware_reply_s [(''type'', [code])] (header ARTNET_FIRMWAREREPLY))"

text \<open>The codes of a block: first, continuation and last, for firmware and for UBEA.\<close>

definition ARTNET_FIRMWARE_FIRMFIRST :: u8 where [simp]: "ARTNET_FIRMWARE_FIRMFIRST = 0x00"
definition ARTNET_FIRMWARE_FIRMCONT :: u8 where [simp]: "ARTNET_FIRMWARE_FIRMCONT = 0x01"
definition ARTNET_FIRMWARE_FIRMLAST :: u8 where [simp]: "ARTNET_FIRMWARE_FIRMLAST = 0x02"
definition ARTNET_FIRMWARE_UBEAFIRST :: u8 where [simp]: "ARTNET_FIRMWARE_UBEAFIRST = 0x03"
definition ARTNET_FIRMWARE_UBEACONT :: u8 where [simp]: "ARTNET_FIRMWARE_UBEACONT = 0x04"
definition ARTNET_FIRMWARE_UBEALAST :: u8 where [simp]: "ARTNET_FIRMWARE_UBEALAST = 0x05"

definition firmware_block_type :: "int \<Rightarrow> int \<Rightarrow> int \<Rightarrow> int \<Rightarrow> u8" where
  "firmware_block_type ubea cur data_len max_len =
     (if ubea \<noteq> 0 then
        (if cur = 0 then ARTNET_FIRMWARE_UBEAFIRST
         else if data_len = max_len then ARTNET_FIRMWARE_UBEACONT
         else if data_len < max_len then ARTNET_FIRMWARE_UBEALAST
         else 0)
      else
        (if cur = 0 then ARTNET_FIRMWARE_FIRMFIRST
         else if data_len = max_len then ARTNET_FIRMWARE_FIRMCONT
         else if data_len < max_len then ARTNET_FIRMWARE_FIRMLAST
         else 0))"

definition fw_bytes :: "firmware_transfer \<Rightarrow> nat \<Rightarrow> nat \<Rightarrow> u8 list" where
  "fw_bytes firm off k =
     (case fw_data firm of None \<Rightarrow> [] | Some (_, m) \<Rightarrow> get_bytes m off k)"

definition fw_capacity :: "firmware_transfer \<Rightarrow> int" where
  "fw_capacity firm = (case fw_data firm of None \<Rightarrow> 0 | Some (sz, _) \<Rightarrow> sz)"

definition firmware_packet_data :: "firmware_transfer \<Rightarrow> mem" where
  "firmware_packet_data firm =
     (let max_len = ARTNET_FIRMWARE_SIZE * 2;
          data_len = min (bytes_total firm - bytes_current firm) max_len
      in fill artnet_firmware_s
           [(''type'', [firmware_block_type (fw_ubea firm) (bytes_current firm) data_len max_len]),
            (''blockId'', [word_of_int (expected_block firm)]),
            (''length'', artnet_misc_int_to_bytes (word_of_int (bytes_total firm div 2))),
            (''data'', fw_bytes firm (2 * nat (bytes_current firm div 2)) (nat data_len))]
           (header ARTNET_FIRMWAREMASTER))"

text \<open>The transfer is that of an entry of the node list, named by its position.\<close>

definition upd_entry :: "nat \<Rightarrow> (node_entry_private \<Rightarrow> node_entry_private) \<Rightarrow> node \<Rightarrow> node" where
  "upd_entry i f n =
     n\<lparr>nodes := (nodes n)\<lparr>entries := (entries (nodes n))[i := f (entries (nodes n) ! i)]\<rparr>\<rparr>"

definition entry_fw :: "node \<Rightarrow> nat \<Rightarrow> firmware_transfer" where
  "entry_fw n i = firmware (entries (nodes n) ! i)"

definition upd_fw :: "nat \<Rightarrow> (firmware_transfer \<Rightarrow> firmware_transfer) \<Rightarrow> node \<Rightarrow> node" where
  "upd_fw i f = upd_entry i (\<lambda>t. t\<lparr>firmware := f (firmware t)\<rparr>)"

definition artnet_tx_firmware_packet :: "env \<Rightarrow> node \<Rightarrow> nat \<Rightarrow> int \<times> node" where
  "artnet_tx_firmware_packet e n i =
     (let firm = entry_fw n i;
          data_len = min (bytes_total firm - bytes_current firm) (ARTNET_FIRMWARE_SIZE * 2);
          n = inside (0 \<le> data_len \<and> 0 \<le> bytes_current firm \<and>
                2 * (bytes_current firm div 2) + data_len \<le> fw_capacity firm) n;
          (ret, n) = send_new e n (fw_peer firm) ARTNET_FIRMWAREMASTER
                       (size_of artnet_firmware_s) (firmware_packet_data firm)
      in if ret \<noteq> 0 then (ret, n)
         else
           (let n = upd_fw i (\<lambda>f. f\<lparr>bytes_current := bytes_current f + data_len\<rparr>) n;
                (now, n) = artnet_gettime_ms e n
            in (ARTNET_EOK,
                upd_fw i (\<lambda>f. f\<lparr>last_time := now,
                                  expected_block := (expected_block f + 1) mod 256\<rparr>) n)))"

section \<open>Synchronisation and non-zero start codes\<close>

definition artnet_tx_sync :: "env \<Rightarrow> node \<Rightarrow> int \<times> node" where
  "artnet_tx_sync e n =
     (if mode n \<noteq> ARTNET_ON then (ARTNET_EACTION, n)
      else send_new e n (bcast_addr n) ARTNET_SYNC (size_of artnet_sync_s) (header ARTNET_SYNC))"

primrec send_to_each :: "env \<Rightarrow> packet \<Rightarrow> ip list \<Rightarrow> node \<Rightarrow> int \<times> node" where
  "send_to_each e p [] n = (ARTNET_EOK, n)"
| "send_to_each e p (to # tos) n =
     (case artnet_net_send e n (p\<lparr>p_to := to\<rparr>) of
        (ret, n) \<Rightarrow> if ret \<noteq> ARTNET_EOK then (ret, n) else send_to_each e p tos n)"

text \<open>
  Both users of \<open>find_nodes_from_uni\<close> allocate an array of addresses, search, and send to as
  many of its elements as the search counted.  An element the search did not store is outside
  what the array holds: its value is whatever the allocation contained.
\<close>

definition search_limit :: "node \<Rightarrow> nat" where
  "search_limit n =
     (if 0 < bcast_limit n then nat (bcast_limit n)
      else if nl_length (nodes n) \<noteq> 0 then nat (nl_length (nodes n)) else 1)"

definition ip_targets :: "mem \<Rightarrow> int \<Rightarrow> ip list \<Rightarrow> ip list" where
  "ip_targets garbage cnt ips =
     map (\<lambda>i. if i < length ips then ips ! i
              else octets_to_ip (garbage (4 * i)) (garbage (4 * i + 1))
                     (garbage (4 * i + 2)) (garbage (4 * i + 3))) [0..<nat cnt]"

definition send_to_universe :: "env \<Rightarrow> node \<Rightarrow> u16 \<Rightarrow> packet \<Rightarrow> (int \<times> node) option" where
  "send_to_universe e n uni p =
     (let lim = search_limit n;
          ((ok, garbage), n) = c_malloc e n
      in if \<not> ok then Some (ARTNET_EACTION, n)
         else
           (case find_nodes_from_uni n uni lim of
              None \<Rightarrow> None
            | Some (cnt, ips, in_bounds) \<Rightarrow>
                Some (send_to_each e p (ip_targets garbage cnt ips)
                        (inside (in_bounds \<and> cnt \<le> int (length ips)) n))))"

definition next_seq :: "u8 \<Rightarrow> u8" where
  "next_seq s = (if s + 1 = 0 then 1 else s + 1)"

definition artnet_tx_nzs ::
    "env \<Rightarrow> node \<Rightarrow> int \<Rightarrow> u8 \<Rightarrow> int \<Rightarrow> mem \<Rightarrow> (int \<times> node) option" where
  "artnet_tx_nzs e n port_id start_code len data =
     (if mode n \<noteq> ARTNET_ON then Some (ARTNET_EACTION, n)
      else if port_id < 0 \<or> ARTNET_MAX_PORTS \<le> port_id then Some (ARTNET_EARG, n)
      else if len < 1 \<or> ARTNET_DMX_LENGTH < len then Some (ARTNET_EARG, n)
      else if port_status (in_ports n (nat port_id)) AND PORT_STATUS_INPUT_DISABLED \<noteq> 0
        then Some (ARTNET_EARG, n)
      else
        (let i = nat port_id;
             n = upd_in i (\<lambda>p. p\<lparr>port_status := port_status p OR PORT_STATUS_ACT_MASK\<rparr>) n;
             port = in_ports n i;
             p = new_packet 0 0 (size_of artnet_nzs_s - (ARTNET_DMX_LENGTH - len))
                   (fill artnet_nzs_s
                     [(''sequence'', [seq port]), (''startCode'', [start_code]),
                      (''universe'', le16_bytes (port_addr port)),
                      (''lengthHi'', [hi_byte len]), (''length'', [lo_byte len]),
                      (''data'', get_bytes data 0 (nat len))]
                     (header ARTNET_NZS))
         in case send_to_universe e n (port_addr port) p of
              None \<Rightarrow> None
            | Some (ret, n) \<Rightarrow>
                if ret \<noteq> ARTNET_EOK then Some (ret, n)
                else Some (ARTNET_EOK, upd_in i (\<lambda>p. p\<lparr>seq := next_seq (seq p)\<rparr>) n)))"

section \<open>Requests and replies\<close>

definition id_codes :: "node \<Rightarrow> (string \<times> u8 list) list" where
  "id_codes n =
     [(''estaManHi'', [esta_hi n]), (''estaManLo'', [esta_lo n]),
      (''oemHi'', [oem_hi n]), (''oemLo'', [oem_lo n])]"

definition artnet_tx_data_request :: "env \<Rightarrow> node \<Rightarrow> string option \<Rightarrow> u16 \<Rightarrow> int \<times> node" where
  "artnet_tx_data_request e n ip request_code =
     (if mode n \<noteq> ARTNET_ON then (ARTNET_EACTION, n)
      else
        (case Option.bind ip (\<lambda>s. snd (artnet_net_inet_aton e s)) of
           None \<Rightarrow> (ARTNET_EARG, n)
         | Some to \<Rightarrow>
             send_new e n to ARTNET_DATAREQUEST (size_of artnet_data_request_s)
               (fill artnet_data_request_s
                 (id_codes n @
                  [(''requestHi'', [short_get_high_byte request_code]),
                   (''requestLo'', [short_get_low_byte request_code])])
                 (header ARTNET_DATAREQUEST))))"

definition artnet_tx_data_reply ::
    "env \<Rightarrow> node \<Rightarrow> string option \<Rightarrow> u16 \<Rightarrow> mem option \<Rightarrow> int \<Rightarrow> int \<times> node" where
  "artnet_tx_data_reply e n ip request_code payload len =
     (if mode n \<noteq> ARTNET_ON then (ARTNET_EACTION, n)
      else if len < 0 \<or> (0 < len \<and> payload = None) then (ARTNET_EARG, n)
      else
        (let len = min len 512
         in case Option.bind ip (\<lambda>s. snd (artnet_net_inet_aton e s)) of
              None \<Rightarrow> (ARTNET_EARG, n)
            | Some to \<Rightarrow>
                send_new e n to ARTNET_DATAREPLY (size_of artnet_data_reply_s)
                  (fill artnet_data_reply_s
                    (id_codes n @
                     [(''requestHi'', [short_get_high_byte request_code]),
                      (''requestLo'', [short_get_low_byte request_code]),
                      (''payLenHi'', [hi_byte len]), (''payLenLo'', [lo_byte len]),
                      (''payLoad'', bytes_at payload len)])
                    (header ARTNET_DATAREPLY))))"

text \<open>The four bytes of an address from the most significant on: they fill four fields in a row.\<close>

definition be_bytes :: "u32 \<Rightarrow> u8 list" where
  "be_bytes a =
     [ucast (drop_bit 24 a AND 0xFF), ucast (drop_bit 16 a AND 0xFF),
      ucast (drop_bit 8 a AND 0xFF), ucast (a AND 0xFF)]"

definition ipprog_field :: "env \<Rightarrow> bool \<Rightarrow> string option \<Rightarrow> string \<Rightarrow> mem option \<Rightarrow> mem option" where
  "ipprog_field e wanted s f d =
     (case d of None \<Rightarrow> None
      | Some d \<Rightarrow>
          (case s of
             None \<Rightarrow> Some d
           | Some s \<Rightarrow>
               if \<not> wanted then Some d
               else
                 (case snd (artnet_net_inet_aton e s) of
                    None \<Rightarrow> None
                  | Some a \<Rightarrow> Some (put artnet_ipprog_s f (be_bytes (ntohl a)) d))))"

definition artnet_tx_ipprog ::
    "env \<Rightarrow> node \<Rightarrow> ip \<Rightarrow> u8 \<Rightarrow> string option \<Rightarrow> string option \<Rightarrow> string option \<Rightarrow> int \<times> node" where
  "artnet_tx_ipprog e n ip command prog_ip mask_ip gateway_ip =
     (if mode n \<noteq> ARTNET_ON then (ARTNET_EACTION, n)
      else
        (let d = put artnet_ipprog_s ''Command'' [command] (header ARTNET_IPPROG);
             d = ipprog_field e (command AND 0x04 \<noteq> 0) prog_ip ''ProgIpHi'' (Some d);
             d = ipprog_field e (command AND 0x02 \<noteq> 0) mask_ip ''ProgSmHi'' d;
             d = ipprog_field e (command AND 0x10 \<noteq> 0) gateway_ip ''ProgDgHi'' d
         in case d of
              None \<Rightarrow> (ARTNET_EARG, n)
            | Some d \<Rightarrow> send_new e n ip ARTNET_IPPROG (size_of artnet_ipprog_s) d))"

definition artnet_tx_ipprog_reply :: "env \<Rightarrow> node \<Rightarrow> int \<times> node" where
  "artnet_tx_ipprog_reply e n =
     (if mode n \<noteq> ARTNET_ON then (ARTNET_EACTION, n)
      else if reply_addr n = 0 then (ARTNET_EACTION, n)
      else send_new e n (reply_addr n) ARTNET_IPREPLY (size_of artnet_ipprog_reply_s)
        (fill artnet_ipprog_reply_s
          [(''Status'', [0x00]),
           (''ProgIpHi'', be_bytes (ntohl (ip_addr n))),
           (''ProgSmHi'', be_bytes (ntohl (subnet_mask n))),
           (''ProgDgHi'', be_bytes (ntohl (gateway n)))]
          (header ARTNET_IPREPLY)))"

definition artnet_tx_command ::
    "env \<Rightarrow> node \<Rightarrow> u16 \<Rightarrow> mem option \<Rightarrow> int \<Rightarrow> string option \<Rightarrow> int \<times> node" where
  "artnet_tx_command e n esta_man text len ip =
     (if mode n \<noteq> ARTNET_ON then (ARTNET_EACTION, n)
      else if len < 0 \<or> ARTNET_DMX_LENGTH < len \<or> (0 < len \<and> text = None) then (ARTNET_EARG, n)
      else
        (case (case ip of None \<Rightarrow> Some (bcast_addr n) | Some s \<Rightarrow> snd (artnet_net_inet_aton e s)) of
           None \<Rightarrow> (ARTNET_EARG, n)
         | Some to \<Rightarrow>
             send_new e n to ARTNET_COMMAND (size_of artnet_command_s - ARTNET_DMX_LENGTH + len)
               (fill artnet_command_s
                 [(''estaManHi'', [short_get_high_byte esta_man]),
                  (''estaManLo'', [short_get_low_byte esta_man]),
                  (''lengthHi'', [hi_byte len]), (''lengthLo'', [lo_byte len]),
                  (''data'', bytes_at text len)]
                 (header ARTNET_COMMAND))))"

section \<open>Time and triggers\<close>

definition ARTNET_TIMECODE_SMPTE :: u32 where [simp]: "ARTNET_TIMECODE_SMPTE = 3"
definition ARTNET_TRIGGER_KEY_SHOW :: u8 where [simp]: "ARTNET_TRIGGER_KEY_SHOW = 3"

definition artnet_tx_timecode ::
    "env \<Rightarrow> node \<Rightarrow> u8 \<Rightarrow> u8 \<Rightarrow> u8 \<Rightarrow> u8 \<Rightarrow> u32 \<Rightarrow> u8 \<Rightarrow> int \<times> node" where
  "artnet_tx_timecode e n frames seconds minutes hours type stream_id =
     (if mode n \<noteq> ARTNET_ON then (ARTNET_EACTION, n)
      else if 29 < frames \<or> 59 < seconds \<or> 59 < minutes \<or> 23 < hours \<or> ARTNET_TIMECODE_SMPTE < type
        then (ARTNET_EARG, n)
      else send_new e n (bcast_addr n) ARTNET_TIMECODE (size_of artnet_timecode_s)
        (fill artnet_timecode_s
          [(''streamId'', [stream_id]), (''frames'', [frames]), (''seconds'', [seconds]),
           (''minutes'', [minutes]), (''hours'', [hours]), (''type'', [ucast type])]
          (header ARTNET_TIMECODE)))"

definition artnet_tx_timesync ::
    "env \<Rightarrow> node \<Rightarrow> u8 \<Rightarrow> u8 \<Rightarrow> u8 \<Rightarrow> u8 \<Rightarrow> u8 \<Rightarrow> u8 \<Rightarrow> int \<times> node" where
  "artnet_tx_timesync e n tm_sec tm_min tm_hour tm_mday tm_mon tm_year =
     (if mode n \<noteq> ARTNET_ON then (ARTNET_EACTION, n)
      else if 59 < tm_sec \<or> 59 < tm_min \<or> 23 < tm_hour \<or> tm_mday < 1 \<or> 31 < tm_mday \<or> 11 < tm_mon
        then (ARTNET_EARG, n)
      else send_new e n (bcast_addr n) ARTNET_TIMESYNC (size_of artnet_timesync_s)
        (fill artnet_timesync_s
          [(''tm_sec'', [tm_sec]), (''tm_min'', [tm_min]), (''tm_hour'', [tm_hour]),
           (''tm_mday'', [tm_mday]), (''tm_mon'', [tm_mon]), (''tm_year'', [tm_year])]
          (header ARTNET_TIMESYNC)))"

definition artnet_tx_trigger ::
    "env \<Rightarrow> node \<Rightarrow> u8 \<Rightarrow> u8 \<Rightarrow> u8 \<Rightarrow> u8 \<Rightarrow> mem option \<Rightarrow> int \<Rightarrow> int \<times> node" where
  "artnet_tx_trigger e n hi lo key sub_key data len =
     (if mode n \<noteq> ARTNET_ON then (ARTNET_EACTION, n)
      else if ARTNET_TRIGGER_KEY_SHOW < key \<or> len < 0 \<or> ARTNET_DMX_LENGTH < len \<or>
              (0 < len \<and> data = None)
        then (ARTNET_EARG, n)
      else send_new e n (bcast_addr n) ARTNET_TRIGGER (size_of artnet_trigger_s)
        (fill artnet_trigger_s
          [(''oemCodeHi'', [hi]), (''oemCodeLo'', [lo]), (''key'', [key]), (''subKey'', [sub_key]),
           (''data'', bytes_at data len)]
          (header ARTNET_TRIGGER)))"

section \<open>Directories, files and media\<close>

primrec send_directory :: "env \<Rightarrow> packet \<Rightarrow> node_entry_private list \<Rightarrow> bool \<Rightarrow> node \<Rightarrow> int \<times> node" where
  "send_directory e p [] any n = (if any then ARTNET_EOK else ARTNET_EACTION, n)"
| "send_directory e p (t # ts) any n =
     (if ent_ip t = 0 then send_directory e p ts any n
      else
        (case artnet_net_send e n (p\<lparr>p_to := ent_ip t\<rparr>) of
           (ret, n) \<Rightarrow>
             if ret \<noteq> ARTNET_EOK then (ret, n) else send_directory e p ts True n))"

definition artnet_tx_directory :: "env \<Rightarrow> node \<Rightarrow> int \<times> node" where
  "artnet_tx_directory e n =
     (if mode n \<noteq> ARTNET_ON then (ARTNET_EACTION, n)
      else if nl_length (nodes n) = 0 \<or> entries (nodes n) = [] then (ARTNET_EACTION, n)
      else send_directory e
        (new_packet 0 (opcode ARTNET_DIRECTORY) (size_of artnet_directory_s)
          (header ARTNET_DIRECTORY)) (entries (nodes n)) False n)"

definition artnet_tx_directory_reply :: "env \<Rightarrow> node \<Rightarrow> int \<times> node" where
  "artnet_tx_directory_reply e n =
     (if mode n \<noteq> ARTNET_ON then (ARTNET_EACTION, n)
      else if reply_addr n = 0 then (ARTNET_EACTION, n)
      else send_new e n (reply_addr n) ARTNET_DIRECTORYREPLY (size_of artnet_directory_reply_s)
        (header ARTNET_DIRECTORYREPLY))"

definition artnet_tx_media_patch ::
    "env \<Rightarrow> node \<Rightarrow> ip \<Rightarrow> u8 \<Rightarrow> u16 \<Rightarrow> mem option \<Rightarrow> int \<Rightarrow> int \<times> node" where
  "artnet_tx_media_patch e n ip physical universe data len =
     (if mode n \<noteq> ARTNET_ON then (ARTNET_EACTION, n)
      else if len < 1 \<or> ARTNET_DMX_LENGTH < len \<or> data = None then (ARTNET_EARG, n)
      else send_new e n ip ARTNET_MEDIAPATCH (size_of artnet_media_patch_s - ARTNET_DMX_LENGTH + len)
        (fill artnet_media_patch_s
          [(''physical'', [physical]), (''universe'', le16_bytes universe),
           (''lengthHi'', [hi_byte len]), (''length'', [lo_byte len]),
           (''data'', bytes_at data len)]
          (header ARTNET_MEDIAPATCH)))"

definition artnet_tx_media_control ::
    "env \<Rightarrow> node \<Rightarrow> ip \<Rightarrow> artnet_packet_type \<Rightarrow> mem option \<Rightarrow> int \<Rightarrow> int \<times> node" where
  "artnet_tx_media_control e n ip type data len =
     (if mode n \<noteq> ARTNET_ON then (ARTNET_EACTION, n)
      else if type \<noteq> ARTNET_MEDIACONTROL \<and> type \<noteq> ARTNET_MEDIACONTROLREPLY then (ARTNET_EARG, n)
      else if len < 0 \<or> ARTNET_DMX_LENGTH < len \<or> (0 < len \<and> data = None) then (ARTNET_EARG, n)
      else send_new e n ip type (size_of artnet_media_control_s - ARTNET_DMX_LENGTH + len)
        (fill artnet_media_control_s [(''data'', bytes_at data len)] (header type)))"

definition artnet_tx_file_tn_master ::
    "env \<Rightarrow> node \<Rightarrow> ip \<Rightarrow> u8 \<Rightarrow> u8 \<Rightarrow> u32 \<Rightarrow> mem option \<Rightarrow> int \<Rightarrow> int \<times> node" where
  "artnet_tx_file_tn_master e n ip type blockId totalLength data dataLen =
     (if mode n \<noteq> ARTNET_ON then (ARTNET_EACTION, n)
      else if dataLen < 0 \<or> (0 < dataLen \<and> data = None) then (ARTNET_EARG, n)
      else
        (let len = min dataLen ARTNET_FIRMWARE_SIZE
         in send_new e n ip ARTNET_FILETNMASTER
              (size_of artnet_file_tn_master_s - ARTNET_FIRMWARE_SIZE * 2 + len * 2)
              (fill artnet_file_tn_master_s
                [(''type'', [type]), (''blockId'', [blockId]), (''length'', be_bytes totalLength),
                 (''data'', bytes_at data (2 * len))]
                (header ARTNET_FILETNMASTER))))"

definition artnet_tx_file_fn_master :: "env \<Rightarrow> node \<Rightarrow> ip \<Rightarrow> string option \<Rightarrow> int \<times> node" where
  "artnet_tx_file_fn_master e n ip filename =
     (if mode n \<noteq> ARTNET_ON then (ARTNET_EACTION, n)
      else
        (case filename of
           None \<Rightarrow> (ARTNET_EARG, n)
         | Some s \<Rightarrow>
             if s = [] then (ARTNET_EARG, n)
             else
               (let flen = min (int (length s)) 255
                in send_new e n ip ARTNET_FILEFNMASTER (size_of artnet_file_fn_master_s)
                     (fill artnet_file_fn_master_s
                       [(''lengthHi'', [hi_byte flen]), (''lengthLo'', [lo_byte flen]),
                        (''filename'', take (nat flen) (bytes_of s) @ [0x00])]
                       (header ARTNET_FILEFNMASTER)))))"

definition artnet_tx_file_fn_reply ::
    "env \<Rightarrow> node \<Rightarrow> u8 \<Rightarrow> u16 \<Rightarrow> mem option \<Rightarrow> int \<Rightarrow> int \<times> node" where
  "artnet_tx_file_fn_reply e n blockId totalLength data dataLen =
     (if mode n \<noteq> ARTNET_ON then (ARTNET_EACTION, n)
      else if reply_addr n = 0 then (ARTNET_EACTION, n)
      else if dataLen < 0 \<or> (0 < dataLen \<and> data = None) then (ARTNET_EARG, n)
      else
        (let len = min dataLen (ARTNET_FIRMWARE_SIZE * 2)
         in send_new e n (reply_addr n) ARTNET_FILEFNREPLY
              (size_of artnet_file_fn_reply_s - ARTNET_FIRMWARE_SIZE * 2 + len)
              (fill artnet_file_fn_reply_s
                [(''blockId'', [blockId]),
                 (''fileLengthHi'', [short_get_high_byte totalLength]),
                 (''fileLengthLo'', [short_get_low_byte totalLength]),
                 (''data'', bytes_at data len)]
                (header ARTNET_FILEFNREPLY))))"

end
