(* ===== verification/Invariant.thy ===== *)
theory Invariant
  imports Transmit_Data
begin

text \<open>
  What every operation of a node keeps true, and that sending keeps it.  An operation that can
  leave a buffer records that in \<open>oob\<close>, which the invariant excludes: keeping it is memory
  safety.  The application's callbacks are assumed to keep it as well (\<open>cb_ok\<close>); a callback
  that only calls the library on its node does.
\<close>

section \<open>The invariant\<close>

definition in_512 :: "int \<Rightarrow> bool" where
  "in_512 x \<longleftrightarrow> 0 \<le> x \<and> x \<le> ARTNET_DMX_LENGTH"

definition tod_ok :: "tod \<Rightarrow> bool" where
  "tod_ok t \<longleftrightarrow> wf_tod t \<and> (\<forall>u \<in> set (tod_uids t). length u = ARTNET_RDM_UID_WIDTH)"

definition out_ok :: "output_port \<Rightarrow> bool" where
  "out_ok p \<longleftrightarrow>
     in_512 (out_length p) \<and> in_512 (failsafe_length p) \<and> in_512 (sync_length p) \<and>
     tod_ok (port_tod p)"

definition in_ok :: "input_port \<Rightarrow> bool" where
  "in_ok p \<longleftrightarrow> seq p \<noteq> 0 \<and> in_512 (last_dmx_length p) \<and> tod_ok (port_tod p)"

text \<open>A port's address is that of the node's net and subnet.\<close>

definition addr_ok :: "u8 \<Rightarrow> u8 \<Rightarrow> u16 \<Rightarrow> bool" where
  "addr_ok net subnet a \<longleftrightarrow> a = make_addr net subnet (addr_port a)"

definition ports_ok :: "node \<Rightarrow> bool" where
  "ports_ok n \<longleftrightarrow>
     (\<forall>i < 4. out_ok (out_ports n i) \<and> in_ok (in_ports n i) \<and>
       addr_ok (netSwitch n) (subSwitch n) (port_addr (out_ports n i)) \<and>
       addr_ok (netSwitch n) (subSwitch n) (port_addr (in_ports n i)))"

text \<open>The transfer the node receives, and a transfer it sends to an entry of its list.\<close>

definition fw_ok :: "firmware_transfer \<Rightarrow> bool" where
  "fw_ok f \<longleftrightarrow>
     (case fw_data f of
        None \<Rightarrow> bytes_total f = 0
      | Some (sz, _) \<Rightarrow> sz = bytes_total f \<and> 0 < bytes_total f \<and> fw_peer f \<noteq> 0) \<and>
     0 \<le> expected_block f"

definition tx_ok :: "firmware_transfer \<Rightarrow> bool" where
  "tx_ok f \<longleftrightarrow>
     0 \<le> bytes_current f \<and> bytes_current f \<le> bytes_total f \<and> bytes_total f \<le> fw_capacity f"

definition list_ok :: "node \<Rightarrow> bool" where
  "list_ok n \<longleftrightarrow>
     wf_nl (nodes n) \<and> list_all (\<lambda>t. tx_ok (firmware t)) (entries (nodes n)) \<and> nl_even n"

definition counts_ok :: "node \<Rightarrow> bool" where
  "counts_ok n \<longleftrightarrow>
     0 \<le> ar_count n \<and> ar_count n < 10000 \<and>
     0 \<le> tod_requester_count n \<and> tod_requester_count n \<le> 8 \<and>
     0 \<le> diag_controller_count n \<and> diag_controller_count n \<le> 4"

definition node_ok :: "node \<Rightarrow> bool" where
  "node_ok n \<longleftrightarrow> ports_ok n \<and> fw_ok (node_fw n) \<and> list_ok n \<and> counts_ok n \<and> \<not> oob n"

text \<open>
  The application's callbacks keep the invariant, and one that is shown a packet leaves the RDM
  tables alone: \<open>artnet_tx_tod_data\<close> sends a table page by page, and each send may run one.
\<close>

definition cb_ok :: "env \<Rightarrow> bool" where
  "cb_ok e \<longleftrightarrow>
     (\<forall>f a d n. node_ok n \<longrightarrow> node_ok (snd (env_call e f a d n))) \<and>
     (\<forall>f p d n i. port_tod (out_ports (snd (env_call e f (Packet_Arg p) d n)) i) =
        port_tod (out_ports n i))"

lemma observer_cb_ok: "observer e \<Longrightarrow> cb_ok e"
  by (simp add: observer_def cb_ok_def)

text \<open>
  Callbacks that, besides, leave the list of remote nodes alone while they are shown a packet: an
  upload sends from an entry of the list and then updates it.
\<close>

definition cb_safe :: "env \<Rightarrow> bool" where
  "cb_safe e \<longleftrightarrow> cb_ok e \<and>
     (\<forall>f p d n. entries (nodes (snd (env_call e f (Packet_Arg p) d n))) = entries (nodes n))"

lemma observer_cb_safe: "observer e \<Longrightarrow> cb_safe e"
  by (simp add: cb_safe_def observer_cb_ok) (simp add: observer_def)

lemma cb_safe_ok: "cb_safe e \<Longrightarrow> cb_ok e"
  by (simp add: cb_safe_def)

lemmas node_ok_parts = node_ok_def ports_ok_def list_ok_def counts_ok_def nl_even_def

text \<open>The fields the invariant does not speak of.\<close>

lemma node_ok_frame [simp]:
  "node_ok (n\<lparr>node_type := x0\<rparr>) = node_ok n"
  "node_ok (n\<lparr>mode := x1\<rparr>) = node_ok n"
  "node_ok (n\<lparr>reply_addr := x2\<rparr>) = node_ok n"
  "node_ok (n\<lparr>ip_addr := x3\<rparr>) = node_ok n"
  "node_ok (n\<lparr>bcast_addr := x4\<rparr>) = node_ok n"
  "node_ok (n\<lparr>subnet_mask := x5\<rparr>) = node_ok n"
  "node_ok (n\<lparr>gateway := x6\<rparr>) = node_ok n"
  "node_ok (n\<lparr>hw_addr := x7\<rparr>) = node_ok n"
  "node_ok (n\<lparr>default_netSwitch := x8\<rparr>) = node_ok n"
  "node_ok (n\<lparr>netSwitch_net_ctl := x9\<rparr>) = node_ok n"
  "node_ok (n\<lparr>default_subSwitch := x10\<rparr>) = node_ok n"
  "node_ok (n\<lparr>subSwitch_net_ctl := x11\<rparr>) = node_ok n"
  "node_ok (n\<lparr>send_apr_on_change := x12\<rparr>) = node_ok n"
  "node_ok (n\<lparr>shortName := x13\<rparr>) = node_ok n"
  "node_ok (n\<lparr>longName := x14\<rparr>) = node_ok n"
  "node_ok (n\<lparr>report := x15\<rparr>) = node_ok n"
  "node_ok (n\<lparr>oem_hi := x16\<rparr>) = node_ok n"
  "node_ok (n\<lparr>oem_lo := x17\<rparr>) = node_ok n"
  "node_ok (n\<lparr>esta_hi := x18\<rparr>) = node_ok n"
  "node_ok (n\<lparr>esta_lo := x19\<rparr>) = node_ok n"
  "node_ok (n\<lparr>bcast_limit := x20\<rparr>) = node_ok n"
  "node_ok (n\<lparr>report_code := x21\<rparr>) = node_ok n"
  "node_ok (n\<lparr>led_state := x22\<rparr>) = node_ok n"
  "node_ok (n\<lparr>style_code := x23\<rparr>) = node_ok n"
  "node_ok (n\<lparr>status2 := x24\<rparr>) = node_ok n"
  "node_ok (n\<lparr>status3 := x25\<rparr>) = node_ok n"
  "node_ok (n\<lparr>failsafe_mode := x26\<rparr>) = node_ok n"
  "node_ok (n\<lparr>rdm_reply_addr := x27\<rparr>) = node_ok n"
  "node_ok (n\<lparr>tod_reply_addr := x28\<rparr>) = node_ok n"
  "node_ok (n\<lparr>acn_priority := x29\<rparr>) = node_ok n"
  "node_ok (n\<lparr>default_resp_uid := x30\<rparr>) = node_ok n"
  "node_ok (n\<lparr>bind_index := x31\<rparr>) = node_ok n"
  "node_ok (n\<lparr>vlc_disabled := x32\<rparr>) = node_ok n"
  "node_ok (n\<lparr>diag_enabled := x33\<rparr>) = node_ok n"
  "node_ok (n\<lparr>diag_unicast := x34\<rparr>) = node_ok n"
  "node_ok (n\<lparr>diag_controller_ips := x35\<rparr>) = node_ok n"
  "node_ok (n\<lparr>tod_requester_ips := x36\<rparr>) = node_ok n"
  "node_ok (n\<lparr>diag_priority := x37\<rparr>) = node_ok n"
  "node_ok (n\<lparr>bqp_policy := x38\<rparr>) = node_ok n"
  "node_ok (n\<lparr>refresh_rate := x39\<rparr>) = node_ok n"
  "node_ok (n\<lparr>sync_mode := x40\<rparr>) = node_ok n"
  "node_ok (n\<lparr>last_sync_time := x41\<rparr>) = node_ok n"
  "node_ok (n\<lparr>last_dmx_source := x42\<rparr>) = node_ok n"
  "node_ok (n\<lparr>apr_pending_time := x43\<rparr>) = node_ok n"
  "node_ok (n\<lparr>apr_pending := x44\<rparr>) = node_ok n"
  "node_ok (n\<lparr>callbacks := x45\<rparr>) = node_ok n"
  "node_ok (n\<lparr>port_types := x46\<rparr>) = node_ok n"
  "node_ok (n\<lparr>ar_temp := x47\<rparr>) = node_ok n"
  "node_ok (n\<lparr>peer := x48\<rparr>) = node_ok n"
  "node_ok (n\<lparr>master := x49\<rparr>) = node_ok n"
  "node_ok (n\<lparr>clk := x50\<rparr>) = node_ok n"
  "node_ok (n\<lparr>rnd := x51\<rparr>) = node_ok n"
  "node_ok (n\<lparr>mallocs := x52\<rparr>) = node_ok n"
  "node_ok (n\<lparr>sends := x53\<rparr>) = node_ok n"
  "node_ok (n\<lparr>sent := x54\<rparr>) = node_ok n"
  by (simp_all add: node_ok_parts)

lemma node_ok_update_seq: "node_ok n \<Longrightarrow> node_ok (n\<lparr>ar_count := x\<rparr>) = (0 \<le> x \<and> x < 10000)"
  by (auto simp: node_ok_parts)

lemma node_ok_inside [simp]: "c \<Longrightarrow> node_ok (inside c n) = node_ok n"
  by simp

section \<open>Ports\<close>

lemma node_ok_out: "node_ok n \<Longrightarrow> i < 4 \<Longrightarrow> out_ok (out_ports n i)"
  and node_ok_in: "node_ok n \<Longrightarrow> i < 4 \<Longrightarrow> in_ok (in_ports n i)"
  and node_ok_out_addr:
    "node_ok n \<Longrightarrow> i < 4 \<Longrightarrow> addr_ok (netSwitch n) (subSwitch n) (port_addr (out_ports n i))"
  and node_ok_in_addr:
    "node_ok n \<Longrightarrow> i < 4 \<Longrightarrow> addr_ok (netSwitch n) (subSwitch n) (port_addr (in_ports n i))"
  by (simp_all add: node_ok_parts)

lemma addr_ok_make [simp]: "addr_ok net subnet (make_addr net subnet a)"
  by (simp add: addr_ok_def)

lemma node_ok_upd_out:
  assumes "node_ok n"
    and "i < 4 \<Longrightarrow> out_ok (f (out_ports n i))"
    and "i < 4 \<Longrightarrow> addr_ok (netSwitch n) (subSwitch n) (port_addr (f (out_ports n i)))"
  shows "node_ok (upd_out i f n)"
  using assms by (auto simp: node_ok_parts upd_out_def)

lemma node_ok_upd_in:
  assumes "node_ok n"
    and "i < 4 \<Longrightarrow> in_ok (f (in_ports n i))"
    and "i < 4 \<Longrightarrow> addr_ok (netSwitch n) (subSwitch n) (port_addr (f (in_ports n i)))"
  shows "node_ok (upd_in i f n)"
  using assms by (auto simp: node_ok_parts upd_in_def)

text \<open>An update of a port that leaves its address and what \<open>out_ok\<close> speaks of alone.\<close>

lemma node_ok_upd_out_frame:
  assumes "node_ok n" and "\<And>p. out_ok (f p) = out_ok p" and "\<And>p. port_addr (f p) = port_addr p"
  shows "node_ok (upd_out i f n)"
  using assms(1) by (rule node_ok_upd_out) (simp_all add: assms node_ok_out node_ok_out_addr)

lemma node_ok_upd_in_frame:
  assumes "node_ok n" and "\<And>p. in_ok (f p) = in_ok p" and "\<And>p. port_addr (f p) = port_addr p"
  shows "node_ok (upd_in i f n)"
  using assms(1) by (rule node_ok_upd_in) (simp_all add: assms node_ok_in node_ok_in_addr)

section \<open>Callbacks and sending\<close>

lemma only_sends_safe:
  assumes "only_sends e"
  shows "cb_safe e" "cb_ok e"
proof -
  have "node_ok n \<longrightarrow> node_ok (snd (env_call e f a d n))"
    "port_tod (out_ports (snd (env_call e f a d n)) i) = port_tod (out_ports n i)"
    "entries (nodes (snd (env_call e f a d n))) = entries (nodes n)" for f a d n i
  proof -
    obtain k s r where "snd (env_call e f a d n) = n\<lparr>sends := k, sent := s, report_code := r\<rparr>"
      using assms unfolding only_sends_def by blast
    then show "node_ok n \<longrightarrow> node_ok (snd (env_call e f a d n))"
      "port_tod (out_ports (snd (env_call e f a d n)) i) = port_tod (out_ports n i)"
      "entries (nodes (snd (env_call e f a d n))) = entries (nodes n)" by simp_all
  qed
  then show "cb_safe e" "cb_ok e" by (simp_all add: cb_safe_def cb_ok_def)
qed

lemma node_ok_run [intro]: "cb_ok e \<Longrightarrow> node_ok n \<Longrightarrow> node_ok (snd (run_callback e cb a n))"
  by (simp add: run_callback_def cb_ok_def split: option.splits)

lemma node_ok_check [intro]: "cb_ok e \<Longrightarrow> node_ok n \<Longrightarrow> node_ok (snd (check_callback e n p h))"
  by (simp add: check_callback_def node_ok_run)

lemma node_ok_notify [intro]: "cb_ok e \<Longrightarrow> node_ok n \<Longrightarrow> node_ok (notify e c a n)"
  by (simp add: notify_def node_ok_run)

lemma node_ok_net_send [intro]:
  assumes "cb_ok e" "node_ok n"
  shows "node_ok (snd (artnet_net_send e n p))"
proof -
  let ?n = "n\<lparr>sends := Suc (sends n), sent := sent n @ [p\<lparr>p_from := ip_addr n\<rparr>]\<rparr>"
  have "node_ok ?n" using assms(2) by simp
  then show ?thesis
    using assms by (simp add: artnet_net_send_def Let_def node_ok_notify)
qed

lemma node_ok_send_new [intro]:
  "cb_ok e \<Longrightarrow> node_ok n \<Longrightarrow> node_ok (snd (send_new e n to t len d))"
  by (simp add: send_new_def node_ok_net_send)

lemma node_ok_time [intro]: "node_ok n \<Longrightarrow> node_ok (snd (artnet_gettime_ms e n))"
  by (simp add: artnet_gettime_ms_def)

lemma node_ok_or_send [intro]:
  "cb_ok e \<Longrightarrow> node_ok n \<Longrightarrow> node_ok (snd (or_send e ret p n))"
  using node_ok_net_send [of e n p] by (simp add: or_send_def case_prod_beta)

lemma node_ok_poll_reply [intro]:
  assumes "cb_ok e" "node_ok n"
  shows "node_ok (snd (artnet_tx_poll_reply e n))"
proof -
  have "node_ok (n\<lparr>ar_count := (ar_count n + 1) mod 10000\<rparr>)"
    using assms(2) by (simp add: node_ok_update_seq)
  with assms(1) show ?thesis
    by (auto simp add: artnet_tx_poll_reply_def Let_def node_ok_send_new)
qed

lemma node_ok_build [intro]: "node_ok n \<Longrightarrow> node_ok (snd (artnet_tx_build_art_poll_reply n))"
  by (simp add: artnet_tx_build_art_poll_reply_def)

section \<open>The functions of transmit.c\<close>

lemmas tx_defs =
  artnet_tx_tod_control_def artnet_tx_rdm_def artnet_tx_rdmsub_def artnet_tx_diagdata_def
  artnet_tx_firmware_reply_def artnet_tx_sync_def artnet_tx_data_request_def
  artnet_tx_data_reply_def artnet_tx_ipprog_def artnet_tx_ipprog_reply_def artnet_tx_command_def
  artnet_tx_timecode_def artnet_tx_timesync_def artnet_tx_trigger_def
  artnet_tx_directory_reply_def artnet_tx_media_patch_def artnet_tx_media_control_def
  artnet_tx_file_tn_master_def artnet_tx_file_fn_master_def artnet_tx_file_fn_reply_def

lemma node_ok_tx:
  assumes "cb_ok e" "node_ok n"
  shows "node_ok (snd (artnet_tx_tod_control e n a c))"
    "node_ok (snd (artnet_tx_rdm e n a d l))"
    "node_ok (snd (artnet_tx_rdmsub e n u cc pid sd sc d l))"
    "node_ok (snd (artnet_tx_diagdata e n c cc txt))"
    "node_ok (snd (artnet_tx_firmware_reply e n ip c))"
    "node_ok (snd (artnet_tx_sync e n))"
    "node_ok (snd (artnet_tx_data_request e n s a))"
    "node_ok (snd (artnet_tx_data_reply e n s a d l))"
    "node_ok (snd (artnet_tx_ipprog e n ip c s txt gw))"
    "node_ok (snd (artnet_tx_ipprog_reply e n))"
    "node_ok (snd (artnet_tx_command e n a d l s))"
    "node_ok (snd (artnet_tx_timecode e n b1 b2 b3 b4 tc b5))"
    "node_ok (snd (artnet_tx_timesync e n b1 b2 b3 b4 b5 b6))"
    "node_ok (snd (artnet_tx_trigger e n b1 b2 b3 b4 d l))"
    "node_ok (snd (artnet_tx_directory_reply e n))"
    "node_ok (snd (artnet_tx_media_patch e n ip c a d l))"
    "node_ok (snd (artnet_tx_media_control e n ip t d l))"
    "node_ok (snd (artnet_tx_file_tn_master e n ip c cc wl d l))"
    "node_ok (snd (artnet_tx_file_fn_master e n ip s))"
    "node_ok (snd (artnet_tx_file_fn_reply e n c a d l))"
  using assms
  by (simp_all add: tx_defs Let_def node_ok_send_new split: option.splits)

lemma node_ok_tx_poll [intro]:
  "cb_ok e \<Longrightarrow> node_ok n \<Longrightarrow> node_ok (snd (artnet_tx_poll_ex e n s f d t b m oem))"
  "cb_ok e \<Longrightarrow> node_ok n \<Longrightarrow> node_ok (snd (artnet_tx_poll e n s ttm))"
  by (simp_all add: artnet_tx_poll_def artnet_tx_poll_ex_def case_prod_beta node_ok_net_send
      split: option.splits)

lemma node_ok_send_tod_requests:
  "cb_ok e \<Longrightarrow> node_ok n \<Longrightarrow> node_ok (snd (send_tod_requests e nets ret n))"
  by (induction nets arbitrary: ret n) (simp_all add: Let_def case_prod_beta node_ok_or_send)

lemma node_ok_tx_tod_request [intro]:
  "cb_ok e \<Longrightarrow> node_ok n \<Longrightarrow> node_ok (snd (artnet_tx_tod_request e n))"
  by (simp add: artnet_tx_tod_request_def node_ok_send_tod_requests)

lemma node_ok_send_to_each:
  "cb_ok e \<Longrightarrow> node_ok n \<Longrightarrow> node_ok (snd (send_to_each e p tos n))"
proof (induction tos arbitrary: n)
  case (Cons to tos)
  have "node_ok (snd (artnet_net_send e n (p\<lparr>p_to := to\<rparr>)))" using Cons.prems by auto
  with Cons show ?case by (simp add: case_prod_beta)
qed simp

lemma node_ok_send_directory:
  "cb_ok e \<Longrightarrow> node_ok n \<Longrightarrow> node_ok (snd (send_directory e p ts any n))"
proof (induction ts arbitrary: n any)
  case (Cons t ts)
  have "node_ok (snd (artnet_net_send e n (p\<lparr>p_to := ent_ip t\<rparr>)))" using Cons.prems by auto
  with Cons show ?case by (simp add: case_prod_beta)
qed simp

lemma node_ok_tx_directory [intro]:
  "cb_ok e \<Longrightarrow> node_ok n \<Longrightarrow> node_ok (snd (artnet_tx_directory e n))"
  by (simp add: artnet_tx_directory_def node_ok_send_directory)

section \<open>Paged tables\<close>

lemma net_send_tod [simp]:
  "cb_ok e \<Longrightarrow> port_tod (out_ports (snd (artnet_net_send e n p)) i) = port_tod (out_ports n i)"
  by (simp add: artnet_net_send_def Let_def notify_def run_callback_def cb_ok_def
      split: option.splits)

lemma or_send_tod [simp]:
  "cb_ok e \<Longrightarrow> port_tod (out_ports (snd (or_send e ret p n)) i) = port_tod (out_ports n i)"
  by (simp add: or_send_def case_prod_beta)

lemma node_ok_tod_data_loop:
  assumes "cb_ok e" "node_ok n" "pid < 4"
    and "0 \<le> remaining" "remaining \<le> tod_length (port_tod (out_ports n pid))"
  shows "node_ok (snd (tod_data_loop e pid to d remaining bloc ret n))"
  using assms
proof (induction e pid to d remaining bloc ret n rule: tod_data_loop.induct)
  case (1 e pid to d remaining bloc ret n)
  let ?t = "port_tod (out_ports n pid)"
  let ?s = "or_send e ret (tod_page_packet ?t to d remaining bloc)
    (inside (tod_page_inside ?t remaining) n)"
  have "wf_tod ?t" using node_ok_out [OF "1.prems"(2,3)] by (simp add: out_ok_def tod_ok_def)
  then have here: "tod_page_inside ?t remaining"
    using "1.prems" by (auto simp: wf_tod_def tod_page_inside_def tod_page_limit_def min_def
        split: option.splits)
  then have ok: "node_ok (snd ?s)" using "1.prems" by (simp add: node_ok_or_send)
  have same: "port_tod (out_ports (snd ?s) pid) = ?t" using "1.prems"(1) here by simp
  show ?case
  proof (cases "0 < remaining - tod_page_limit remaining")
    case True
    have lim: "0 \<le> tod_page_limit remaining" using "1.prems"(4) by (simp add: tod_page_limit_def)
    show ?thesis
      using "1.IH" [OF refl refl prod.collapse refl True "1.prems"(1) ok "1.prems"(3)] same True lim
        "1.prems"(5)
      by (subst tod_data_loop.simps) (simp add: Let_def case_prod_beta)
  next
    case False
    then show ?thesis using ok by (subst tod_data_loop.simps) (simp add: Let_def case_prod_beta)
  qed
qed

lemma out_ok_tod_length: "out_ok p \<Longrightarrow> 0 \<le> tod_length (port_tod p)"
  by (auto simp: out_ok_def tod_ok_def wf_tod_def split: option.splits)

lemma node_ok_tx_tod_data [intro]:
  "cb_ok e \<Longrightarrow> node_ok n \<Longrightarrow> pid < 4 \<Longrightarrow> node_ok (snd (artnet_tx_tod_data e n pid))"
  by (simp add: artnet_tx_tod_data_def Let_def node_ok_tod_data_loop out_ok_tod_length node_ok_out)

lemma node_ok_tod_data_to_each:
  "cb_ok e \<Longrightarrow> node_ok n \<Longrightarrow> pid < 4 \<Longrightarrow> node_ok (snd (tod_data_to_each e pid is ret n))"
proof (induction "is" arbitrary: n ret)
  case (Cons i "is")
  have "node_ok (snd (artnet_tx_tod_data e (n\<lparr>tod_reply_addr := tod_requester_ips n i\<rparr>) pid))"
    using Cons.prems by (intro node_ok_tx_tod_data) simp_all
  with Cons show ?case by (simp add: case_prod_beta)
qed simp

lemma node_ok_tx_tod_data_to_requesters [intro]:
  assumes "cb_ok e" "node_ok n" "pid < 4"
  shows "node_ok (snd (artnet_tx_tod_data_to_requesters e n pid))"
proof -
  have "tod_requester_count n \<le> 8" using assms(2) by (simp add: node_ok_parts)
  with assms show ?thesis
    by (simp add: artnet_tx_tod_data_to_requesters_def Let_def case_prod_beta
        node_ok_tx_tod_data node_ok_tod_data_to_each)
qed

section \<open>Firmware blocks\<close>

lemma tx_ok_no_firmware [simp]: "tx_ok no_firmware"
  by (simp add: tx_ok_def no_firmware_def fw_capacity_def)

lemma node_ok_entry:
  "node_ok n \<Longrightarrow> i < length (entries (nodes n)) \<Longrightarrow> tx_ok (entry_fw n i)"
  by (simp add: node_ok_parts list_all_length entry_fw_def)

lemma map_entry_key_upd:
  "(\<And>t. entry_key (f t) = entry_key t) \<Longrightarrow> i < length ts \<Longrightarrow>
     map entry_key (ts[i := f (ts ! i)]) = map entry_key ts"
  by (simp add: map_update list_update_same_conv)

lemma node_ok_upd_fw:
  assumes "node_ok n" and "i < length (entries (nodes n)) \<Longrightarrow> tx_ok (f (entry_fw n i))"
  shows "node_ok (upd_fw i f n)"
proof (cases "i < length (entries (nodes n))")
  case True
  let ?g = "\<lambda>t. t\<lparr>firmware := f (firmware t)\<rparr>"
  have "map entry_key ((entries (nodes n))[i := ?g (entries (nodes n) ! i)]) =
      map entry_key (entries (nodes n))"
    using True by (intro map_entry_key_upd) (simp_all add: entry_key_def)
  with assms True show ?thesis
    by (auto simp: node_ok_parts wf_nl_def upd_fw_def upd_entry_def entry_fw_def list_all_length
        nth_list_update entry_wf_def)
next
  case False
  with assms(1) show ?thesis by (simp add: upd_fw_def upd_entry_def node_ok_parts list_update_beyond wf_nl_def)
qed

lemma node_ok_upd_fw_frame:
  "node_ok n \<Longrightarrow> (\<And>f. tx_ok (g f) = tx_ok f) \<Longrightarrow> node_ok (upd_fw i g n)"
  by (rule node_ok_upd_fw) (simp_all add: node_ok_entry)

lemma send_new_entries:
  "cb_safe e \<Longrightarrow> entries (nodes (snd (send_new e n to t len d))) = entries (nodes n)"
  by (simp add: send_new_def artnet_net_send_def Let_def notify_def run_callback_def cb_safe_def
      split: option.split)

lemma node_ok_tx_firmware_packet:
  assumes "cb_safe e" "node_ok n" "i < length (entries (nodes n))"
  shows "node_ok (snd (artnet_tx_firmware_packet e n i))"
proof -
  let ?firm = "entry_fw n i"
  let ?len = "min (bytes_total ?firm - bytes_current ?firm) 1024"
  have tx: "0 \<le> bytes_current ?firm" "bytes_current ?firm \<le> bytes_total ?firm"
      "bytes_total ?firm \<le> fw_capacity ?firm"
    using node_ok_entry [OF assms(2,3)] by (simp_all add: tx_ok_def)
  then have here: "0 \<le> ?len" "2 * (bytes_current ?firm div 2) + ?len \<le> fw_capacity ?firm"
    by auto
  let ?s = "send_new e n (fw_peer ?firm) ARTNET_FIRMWAREMASTER (size_of artnet_firmware_s)
    (firmware_packet_data ?firm)"
  have ok: "node_ok (snd ?s)" using assms by (simp add: node_ok_send_new cb_safe_ok)
  have same: "entries (nodes (snd ?s)) = entries (nodes n)"
    using assms(1) by (simp add: send_new_entries)
  let ?u = "upd_fw i (\<lambda>f. f\<lparr>bytes_current := bytes_current f + ?len\<rparr>) (snd ?s)"
  have u: "node_ok ?u"
    using ok same tx
    by (intro node_ok_upd_fw) (simp_all add: entry_fw_def tx_ok_def fw_capacity_def)
  show ?thesis
    using ok here tx u
    by (auto simp: artnet_tx_firmware_packet_def Let_def case_prod_beta artnet_gettime_ms_def
        tx_ok_def fw_capacity_def intro!: node_ok_upd_fw_frame)
qed

section \<open>Sending to the nodes of a universe\<close>

text \<open>
  The search counts ports, not nodes, so it stays in its array when no entry matches twice and
  the array has room for all (\<open>scan_fits\<close>).
\<close>

definition scan_fits :: "node \<Rightarrow> u16 \<Rightarrow> bool" where
  "scan_fits n uni \<longleftrightarrow>
     (\<forall>t \<in> set (entries (nodes n)). matching_ports (pub t) uni \<le> 1 \<and> e_numbports (pub t) \<le> 4) \<and>
     length (filter (\<lambda>t. 0 < matching_ports (pub t) uni) (entries (nodes n))) \<le> search_limit n"

lemma scan_uni_fits:
  assumes "\<forall>t \<in> set ts. matching_ports (pub t) uni \<le> 1 \<and> e_numbports (pub t) \<le> 4"
    and "length ips + length (filter (\<lambda>t. 0 < matching_ports (pub t) uni) ts) \<le> cap"
  shows "scan_uni uni cap ts (int (length ips), ips, True) =
    (int (length (ips @ map ent_ip (filter (\<lambda>t. 0 < matching_ports (pub t) uni) ts))),
     ips @ map ent_ip (filter (\<lambda>t. 0 < matching_ports (pub t) uni) ts), True)"
  using assms
proof (induction ts arbitrary: ips)
  case (Cons t ts)
  show ?case
  proof (cases "0 < matching_ports (pub t) uni")
    case True
    with Cons.prems have one: "matching_ports (pub t) uni = 1" by simp
    with Cons.IH [of "ips @ [ent_ip t]"] Cons.prems show ?thesis by (simp add: ac_simps)
  next
    case False
    with Cons show ?thesis by simp
  qed
qed simp

end
