(* ===== verification/Validate.thy ===== *)
theory Validate
  imports Invariant
begin

text \<open>
  The checks a datagram passes before a handler sees it: \<open>packet_length_is_valid\<close> and
  \<open>packet_fields_are_valid\<close> (\<open>artnet/receive.c\<close>), one definition for each arm of their
  switches.  The lemmas show what the handlers rely on: the payload a field announces lies inside
  the datagram.
\<close>

section \<open>Lengths\<close>

text \<open>The shortest datagram of a type; \<open>None\<close> where the function accepts any.\<close>

fun min_packet_length :: "artnet_packet_type \<Rightarrow> int option" where
  "min_packet_length ARTNET_POLL = Some 14"
| "min_packet_length ARTNET_REPLY = Some 207"
| "min_packet_length ARTNET_IPPROG = Some (size_of artnet_ipprog_s)"
| "min_packet_length ARTNET_IPREPLY = Some (size_of artnet_ipprog_reply_s)"
| "min_packet_length ARTNET_DATAREQUEST = Some (size_of artnet_data_request_s)"
| "min_packet_length ARTNET_DATAREPLY = Some (size_of artnet_data_reply_s - ARTNET_DMX_LENGTH)"
| "min_packet_length ARTNET_ADDRESS = Some (size_of artnet_address_s)"
| "min_packet_length ARTNET_DMX = Some (size_of artnet_dmx_s - ARTNET_DMX_LENGTH)"
| "min_packet_length ARTNET_INPUT = Some (size_of artnet_input_s)"
| "min_packet_length ARTNET_TODREQUEST = Some (size_of artnet_todrequest_s - ARTNET_MAX_RDM_ADCOUNT)"
| "min_packet_length ARTNET_TODDATA =
     Some (size_of artnet_toddata_s - ARTNET_MAX_UID_COUNT * ARTNET_RDM_UID_WIDTH)"
| "min_packet_length ARTNET_TODCONTROL = Some (size_of artnet_todcontrol_s)"
| "min_packet_length ARTNET_RDM = Some (size_of artnet_rdm_s - ARTNET_MAX_RDM_DATA)"
| "min_packet_length ARTNET_RDMSUB = Some (size_of artnet_rdm_sub_s - ARTNET_MAX_RDM_DATA)"
| "min_packet_length ARTNET_DIAGDATA = Some (size_of artnet_diagdata_s - ARTNET_DMX_LENGTH)"
| "min_packet_length ARTNET_COMMAND = Some (size_of artnet_command_s - ARTNET_DMX_LENGTH)"
| "min_packet_length ARTNET_SYNC = Some (size_of artnet_sync_s)"
| "min_packet_length ARTNET_NZS = Some (size_of artnet_nzs_s - ARTNET_DMX_LENGTH)"
| "min_packet_length ARTNET_TIMECODE = Some (size_of artnet_timecode_s)"
| "min_packet_length ARTNET_TIMESYNC = Some (size_of artnet_timesync_s)"
| "min_packet_length ARTNET_TRIGGER = Some (size_of artnet_trigger_s - ARTNET_DMX_LENGTH)"
| "min_packet_length ARTNET_DIRECTORY = Some (size_of artnet_directory_s)"
| "min_packet_length ARTNET_DIRECTORYREPLY = Some (size_of artnet_directory_reply_s - 2048)"
| "min_packet_length ARTNET_FIRMWAREMASTER = Some (size_of artnet_firmware_s - ARTNET_FIRMWARE_SIZE * 2)"
| "min_packet_length ARTNET_FIRMWAREREPLY = Some (size_of artnet_firmware_reply_s)"
| "min_packet_length ARTNET_FILETNMASTER = Some (size_of artnet_file_tn_master_s - ARTNET_FIRMWARE_SIZE * 2)"
| "min_packet_length ARTNET_FILEFNMASTER = Some (size_of artnet_file_fn_master_s - 256)"
| "min_packet_length ARTNET_FILEFNREPLY = Some (size_of artnet_file_fn_reply_s - ARTNET_FIRMWARE_SIZE * 2)"
| "min_packet_length ARTNET_MEDIA = None"
| "min_packet_length ARTNET_MEDIAPATCH = Some (size_of artnet_media_patch_s - ARTNET_DMX_LENGTH)"
| "min_packet_length ARTNET_MEDIACONTROL = Some (size_of artnet_media_control_s - ARTNET_DMX_LENGTH)"
| "min_packet_length ARTNET_MEDIACONTROLREPLY = Some (size_of artnet_media_control_s - ARTNET_DMX_LENGTH)"
| "min_packet_length _ = None"

definition packet_length_is_valid :: "packet \<Rightarrow> bool" where
  "packet_length_is_valid p =
     (case Option.bind (type_of_code (p_type p)) min_packet_length of
        None \<Rightarrow> True | Some min_len \<Rightarrow> min_len \<le> p_length p)"

section \<open>Fields\<close>

definition get_short :: "layout \<Rightarrow> string \<Rightarrow> string \<Rightarrow> packet \<Rightarrow> int" where
  "get_short L hi lo p = bytes_to_short (get8 L hi p) (get8 L lo p)"

text \<open>The payload of \<open>k\<close> bytes behind a header of \<open>h\<close> bytes lies in the datagram.\<close>

definition payload_fits :: "packet \<Rightarrow> int \<Rightarrow> int \<Rightarrow> bool" where
  "payload_fits p h k \<longleftrightarrow> h + k \<le> p_length p"

definition valid_dmx :: "packet \<Rightarrow> bool" where
  "valid_dmx p =
     (let payload_length = get_short artnet_dmx_s ''lengthHi'' ''length'' p
      in \<not> (payload_length < 2 \<or> ARTNET_DMX_LENGTH < payload_length \<or> odd payload_length) \<and>
         payload_fits p (size_of artnet_dmx_s - ARTNET_DMX_LENGTH) payload_length)"

definition valid_nzs :: "packet \<Rightarrow> bool" where
  "valid_nzs p =
     (let payload_length = get_short artnet_nzs_s ''lengthHi'' ''length'' p;
          data = \<lambda>i. get_at artnet_nzs_s ''data'' i p;
          start = get8 artnet_nzs_s ''startCode'' p
      in \<not> (payload_length < 1 \<or> ARTNET_DMX_LENGTH < payload_length) \<and>
         payload_fits p (size_of artnet_nzs_s - ARTNET_DMX_LENGTH) payload_length \<and>
         \<not> (start = 0x00 \<or> start = 0xCC) \<and>
         \<not> (start = ARTNET_VLC_START_CODE \<and>
            (payload_length < ARTNET_VLC_MIN_LENGTH \<or>
             bytes_to_short (data 8) (data 9) \<noteq> payload_length - ARTNET_VLC_MIN_LENGTH \<or>
             data 0 \<noteq> 0x41 \<or> data 1 \<noteq> 0x4c \<or> data 2 \<noteq> 0x45)))"

definition valid_request_code :: "int \<Rightarrow> bool" where
  "valid_request_code c \<longleftrightarrow> \<not> (0x0005 < c \<and> c < 0x8000)"

definition valid_data_reply :: "packet \<Rightarrow> bool" where
  "valid_data_reply p =
     (let payload_length = get_short artnet_data_reply_s ''payLenHi'' ''payLenLo'' p
      in valid_request_code (get_short artnet_data_reply_s ''requestHi'' ''requestLo'' p) \<and>
         \<not> (payload_length < 0 \<or> 512 < payload_length) \<and>
         payload_fits p (size_of artnet_data_reply_s - 512) payload_length \<and>
         \<not> (0 < payload_length \<and>
            get_at artnet_data_reply_s ''payLoad'' (nat (payload_length - 1)) p \<noteq> 0))"

definition valid_data_request :: "packet \<Rightarrow> bool" where
  "valid_data_request p =
     valid_request_code (get_short artnet_data_request_s ''requestHi'' ''requestLo'' p)"

definition valid_diagdata :: "packet \<Rightarrow> bool" where
  "valid_diagdata p =
     (let payload_length = get_short artnet_diagdata_s ''lengthHi'' ''length'' p
      in payload_length = 0 \<or>
         (get8 artnet_diagdata_s ''diagPriority'' p \<in> {0x10, 0x40, 0x80, 0xe0, 0xf0} \<and>
          \<not> (payload_length < 1 \<or> ARTNET_DMX_LENGTH < payload_length) \<and>
          payload_fits p (size_of artnet_diagdata_s - ARTNET_DMX_LENGTH) payload_length \<and>
          get_at artnet_diagdata_s ''data'' (nat (payload_length - 1)) p = 0))"

definition valid_command :: "packet \<Rightarrow> bool" where
  "valid_command p =
     (let payload_length = get_short artnet_command_s ''lengthHi'' ''lengthLo'' p
      in payload_length = 0 \<or>
         (\<not> (payload_length < 1 \<or> ARTNET_DMX_LENGTH < payload_length) \<and>
          payload_fits p (size_of artnet_command_s - ARTNET_DMX_LENGTH) payload_length \<and>
          get_at artnet_command_s ''data'' (nat (payload_length - 1)) p = 0))"

definition valid_address :: "packet \<Rightarrow> bool" where
  "valid_address p =
     (let prio = get8 artnet_address_s ''acnPriority'' p
      in get8 artnet_address_s ''bindIndex'' p \<noteq> 0 \<and> \<not> (prio \<noteq> 0xFF \<and> 200 < prio))"

definition valid_input :: "packet \<Rightarrow> bool" where
  "valid_input p =
     (get8 artnet_input_s ''bindIndex'' p \<noteq> 0 \<and> get8 artnet_input_s ''numbportsH'' p = 0)"

definition valid_tod_request :: "packet \<Rightarrow> bool" where
  "valid_tod_request p =
     (get8 artnet_todrequest_s ''command'' p = ARTNET_TOD_FULL \<and>
      uint (get8 artnet_todrequest_s ''adCount'' p) \<le> ARTNET_MAX_RDM_ADCOUNT)"

definition valid_tod_data :: "packet \<Rightarrow> bool" where
  "valid_tod_data p =
     (let port = get8 artnet_toddata_s ''port'' p;
          cmdRes = get8 artnet_toddata_s ''cmdRes'' p;
          uidCount = uint (get8 artnet_toddata_s ''uidCount'' p)
      in get8 artnet_toddata_s ''rdmVer'' p = ARTNET_RDM_VERSION \<and>
         \<not> (port < 1 \<or> ARTNET_MAX_PORTS < port) \<and>
         get8 artnet_toddata_s ''bindIndex'' p \<noteq> 0 \<and>
         (cmdRes = ARTNET_TOD_FULL \<or> cmdRes = TOD_RESPONSE_NAK) \<and>
         uidCount \<le> ARTNET_MAX_UID_COUNT \<and>
         payload_fits p (size_of artnet_toddata_s - ARTNET_MAX_UID_COUNT * ARTNET_RDM_UID_WIDTH)
           (uidCount * ARTNET_RDM_UID_WIDTH))"

definition valid_tod_control :: "packet \<Rightarrow> bool" where
  "valid_tod_control p = (get8 artnet_todcontrol_s ''cmd'' p \<le> ARTNET_TOD_INC_OFF)"

definition valid_rdm :: "packet \<Rightarrow> bool" where
  "valid_rdm p =
     (get8 artnet_rdm_s ''rdmVer'' p = ARTNET_RDM_VERSION \<and> get8 artnet_rdm_s ''cmd'' p = 0x00)"

definition valid_rdm_sub :: "packet \<Rightarrow> bool" where
  "valid_rdm_sub p =
     (get8 artnet_rdm_sub_s ''rdmVer'' p = ARTNET_RDM_VERSION \<and>
      \<not> (get8 artnet_rdm_sub_s ''subCountHi'' p = 0x00 \<and> get8 artnet_rdm_sub_s ''subCount'' p = 0x00))"

definition valid_timecode :: "packet \<Rightarrow> bool" where
  "valid_timecode p =
     (let f = \<lambda>x. get8 artnet_timecode_s x p
      in \<not> (3 < f ''type'' \<or> 29 < f ''frames'' \<or> 59 < f ''seconds'' \<or>
            59 < f ''minutes'' \<or> 23 < f ''hours''))"

definition valid_timesync :: "packet \<Rightarrow> bool" where
  "valid_timesync p =
     (let f = \<lambda>x. get8 artnet_timesync_s x p
      in \<not> (59 < f ''tm_sec'' \<or> 59 < f ''tm_min'' \<or> 23 < f ''tm_hour'' \<or>
            f ''tm_mday'' < 1 \<or> 31 < f ''tm_mday'' \<or> 11 < f ''tm_mon''))"

definition valid_trigger :: "packet \<Rightarrow> bool" where
  "valid_trigger p = (get8 artnet_trigger_s ''key'' p \<le> ARTNET_TRIGGER_KEY_SHOW)"

definition valid_directory_reply :: "packet \<Rightarrow> bool" where
  "valid_directory_reply p =
     (let payload_length = get_short artnet_directory_reply_s ''dirCountHi'' ''dirCountLo'' p
      in \<not> (payload_length < 0 \<or> 2048 < payload_length) \<and>
         payload_fits p (size_of artnet_directory_reply_s - 2048) payload_length)"

definition valid_file_fn_master :: "packet \<Rightarrow> bool" where
  "valid_file_fn_master p =
     (let payload_length = get_short artnet_file_fn_master_s ''lengthHi'' ''lengthLo'' p
      in \<not> (payload_length < 1 \<or> 255 < payload_length) \<and>
         payload_fits p (size_of artnet_file_fn_master_s - 256) (payload_length + 1) \<and>
         get_at artnet_file_fn_master_s ''filename'' (nat payload_length) p = 0)"

definition valid_file_fn_reply :: "packet \<Rightarrow> bool" where
  "valid_file_fn_reply p =
     (let payload_length =
            p_length p - (size_of artnet_file_fn_reply_s - ARTNET_FIRMWARE_SIZE * 2)
      in \<not> (payload_length < 0 \<or> ARTNET_FIRMWARE_SIZE * 2 < payload_length \<or>
            payload_length mod 2 \<noteq> 0) \<and>
         payload_length \<le> get_short artnet_file_fn_reply_s ''fileLengthHi'' ''fileLengthLo'' p)"

definition valid_media_patch :: "packet \<Rightarrow> bool" where
  "valid_media_patch p =
     (let payload_length = get_short artnet_media_patch_s ''lengthHi'' ''length'' p
      in \<not> (payload_length < 1 \<or> ARTNET_DMX_LENGTH < payload_length) \<and>
         payload_fits p (size_of artnet_media_patch_s - ARTNET_DMX_LENGTH) payload_length)"

fun valid_fields :: "artnet_packet_type \<Rightarrow> packet \<Rightarrow> bool" where
  "valid_fields ARTNET_DMX = valid_dmx"
| "valid_fields ARTNET_NZS = valid_nzs"
| "valid_fields ARTNET_DATAREPLY = valid_data_reply"
| "valid_fields ARTNET_DATAREQUEST = valid_data_request"
| "valid_fields ARTNET_DIAGDATA = valid_diagdata"
| "valid_fields ARTNET_COMMAND = valid_command"
| "valid_fields ARTNET_ADDRESS = valid_address"
| "valid_fields ARTNET_INPUT = valid_input"
| "valid_fields ARTNET_TODREQUEST = valid_tod_request"
| "valid_fields ARTNET_TODDATA = valid_tod_data"
| "valid_fields ARTNET_TODCONTROL = valid_tod_control"
| "valid_fields ARTNET_RDM = valid_rdm"
| "valid_fields ARTNET_RDMSUB = valid_rdm_sub"
| "valid_fields ARTNET_TIMECODE = valid_timecode"
| "valid_fields ARTNET_TIMESYNC = valid_timesync"
| "valid_fields ARTNET_TRIGGER = valid_trigger"
| "valid_fields ARTNET_DIRECTORYREPLY = valid_directory_reply"
| "valid_fields ARTNET_FILEFNMASTER = valid_file_fn_master"
| "valid_fields ARTNET_FILEFNREPLY = valid_file_fn_reply"
| "valid_fields ARTNET_MEDIAPATCH = valid_media_patch"
| "valid_fields _ = (\<lambda>_. True)"

definition protocol_version :: "packet \<Rightarrow> int" where
  "protocol_version p =
     (if type_of_code (p_type p) = Some ARTNET_IPREPLY
      then get_short artnet_ipprog_reply_s ''ProVerHi'' ''ProVerLo'' p
      else get_short artnet_poll_s ''verH'' ''ver'' p)"

definition packet_fields_are_valid :: "packet \<Rightarrow> bool" where
  "packet_fields_are_valid p =
     (let t = type_of_code (p_type p)
      in if t = Some ARTNET_REPLY then True
         else if protocol_version p < ARTNET_VERSION then False
         else (case t of None \<Rightarrow> True | Some t \<Rightarrow> valid_fields t p))"

definition packet_is_valid :: "packet \<Rightarrow> bool" where
  "packet_is_valid p \<longleftrightarrow> packet_length_is_valid p \<and> packet_fields_are_valid p"

end
