(* ===== verification/Observed.thy ===== *)
theory Observed
  imports Validate
begin

text \<open>
  What the shared steps leave alone, field by field: an update of a port, a bounds check, and,
  with callbacks that do no more than send, a callback and a send.  The functional properties of
  the handlers are stated for callbacks that only observe; the invariant is not.
\<close>

lemma upd_out_fields [simp]:
  "node_type (upd_out i g n) = node_type n"
  "mode (upd_out i g n) = mode n"
  "reply_addr (upd_out i g n) = reply_addr n"
  "ip_addr (upd_out i g n) = ip_addr n"
  "bcast_addr (upd_out i g n) = bcast_addr n"
  "subnet_mask (upd_out i g n) = subnet_mask n"
  "gateway (upd_out i g n) = gateway n"
  "hw_addr (upd_out i g n) = hw_addr n"
  "default_netSwitch (upd_out i g n) = default_netSwitch n"
  "netSwitch_net_ctl (upd_out i g n) = netSwitch_net_ctl n"
  "default_subSwitch (upd_out i g n) = default_subSwitch n"
  "subSwitch_net_ctl (upd_out i g n) = subSwitch_net_ctl n"
  "send_apr_on_change (upd_out i g n) = send_apr_on_change n"
  "ar_count (upd_out i g n) = ar_count n"
  "shortName (upd_out i g n) = shortName n"
  "longName (upd_out i g n) = longName n"
  "report (upd_out i g n) = report n"
  "netSwitch (upd_out i g n) = netSwitch n"
  "subSwitch (upd_out i g n) = subSwitch n"
  "oem_hi (upd_out i g n) = oem_hi n"
  "oem_lo (upd_out i g n) = oem_lo n"
  "esta_hi (upd_out i g n) = esta_hi n"
  "esta_lo (upd_out i g n) = esta_lo n"
  "bcast_limit (upd_out i g n) = bcast_limit n"
  "report_code (upd_out i g n) = report_code n"
  "led_state (upd_out i g n) = led_state n"
  "style_code (upd_out i g n) = style_code n"
  "status2 (upd_out i g n) = status2 n"
  "status3 (upd_out i g n) = status3 n"
  "failsafe_mode (upd_out i g n) = failsafe_mode n"
  "rdm_reply_addr (upd_out i g n) = rdm_reply_addr n"
  "tod_reply_addr (upd_out i g n) = tod_reply_addr n"
  "acn_priority (upd_out i g n) = acn_priority n"
  "default_resp_uid (upd_out i g n) = default_resp_uid n"
  "bind_index (upd_out i g n) = bind_index n"
  "vlc_disabled (upd_out i g n) = vlc_disabled n"
  "diag_enabled (upd_out i g n) = diag_enabled n"
  "diag_unicast (upd_out i g n) = diag_unicast n"
  "diag_controller_count (upd_out i g n) = diag_controller_count n"
  "diag_controller_ips (upd_out i g n) = diag_controller_ips n"
  "tod_requester_count (upd_out i g n) = tod_requester_count n"
  "tod_requester_ips (upd_out i g n) = tod_requester_ips n"
  "diag_priority (upd_out i g n) = diag_priority n"
  "bqp_policy (upd_out i g n) = bqp_policy n"
  "refresh_rate (upd_out i g n) = refresh_rate n"
  "sync_mode (upd_out i g n) = sync_mode n"
  "last_sync_time (upd_out i g n) = last_sync_time n"
  "last_dmx_source (upd_out i g n) = last_dmx_source n"
  "nl_seq (upd_out i g n) = nl_seq n"
  "apr_pending_time (upd_out i g n) = apr_pending_time n"
  "apr_pending (upd_out i g n) = apr_pending n"
  "callbacks (upd_out i g n) = callbacks n"
  "port_types (upd_out i g n) = port_types n"
  "in_ports (upd_out i g n) = in_ports n"
  "ar_temp (upd_out i g n) = ar_temp n"
  "nodes (upd_out i g n) = nodes n"
  "node_fw (upd_out i g n) = node_fw n"
  "peer (upd_out i g n) = peer n"
  "master (upd_out i g n) = master n"
  "clk (upd_out i g n) = clk n"
  "rnd (upd_out i g n) = rnd n"
  "mallocs (upd_out i g n) = mallocs n"
  "sends (upd_out i g n) = sends n"
  "sent (upd_out i g n) = sent n"
  "oob (upd_out i g n) = oob n"
  by (simp_all add: upd_out_def)

lemma upd_in_fields [simp]:
  "node_type (upd_in i g n) = node_type n"
  "mode (upd_in i g n) = mode n"
  "reply_addr (upd_in i g n) = reply_addr n"
  "ip_addr (upd_in i g n) = ip_addr n"
  "bcast_addr (upd_in i g n) = bcast_addr n"
  "subnet_mask (upd_in i g n) = subnet_mask n"
  "gateway (upd_in i g n) = gateway n"
  "hw_addr (upd_in i g n) = hw_addr n"
  "default_netSwitch (upd_in i g n) = default_netSwitch n"
  "netSwitch_net_ctl (upd_in i g n) = netSwitch_net_ctl n"
  "default_subSwitch (upd_in i g n) = default_subSwitch n"
  "subSwitch_net_ctl (upd_in i g n) = subSwitch_net_ctl n"
  "send_apr_on_change (upd_in i g n) = send_apr_on_change n"
  "ar_count (upd_in i g n) = ar_count n"
  "shortName (upd_in i g n) = shortName n"
  "longName (upd_in i g n) = longName n"
  "report (upd_in i g n) = report n"
  "netSwitch (upd_in i g n) = netSwitch n"
  "subSwitch (upd_in i g n) = subSwitch n"
  "oem_hi (upd_in i g n) = oem_hi n"
  "oem_lo (upd_in i g n) = oem_lo n"
  "esta_hi (upd_in i g n) = esta_hi n"
  "esta_lo (upd_in i g n) = esta_lo n"
  "bcast_limit (upd_in i g n) = bcast_limit n"
  "report_code (upd_in i g n) = report_code n"
  "led_state (upd_in i g n) = led_state n"
  "style_code (upd_in i g n) = style_code n"
  "status2 (upd_in i g n) = status2 n"
  "status3 (upd_in i g n) = status3 n"
  "failsafe_mode (upd_in i g n) = failsafe_mode n"
  "rdm_reply_addr (upd_in i g n) = rdm_reply_addr n"
  "tod_reply_addr (upd_in i g n) = tod_reply_addr n"
  "acn_priority (upd_in i g n) = acn_priority n"
  "default_resp_uid (upd_in i g n) = default_resp_uid n"
  "bind_index (upd_in i g n) = bind_index n"
  "vlc_disabled (upd_in i g n) = vlc_disabled n"
  "diag_enabled (upd_in i g n) = diag_enabled n"
  "diag_unicast (upd_in i g n) = diag_unicast n"
  "diag_controller_count (upd_in i g n) = diag_controller_count n"
  "diag_controller_ips (upd_in i g n) = diag_controller_ips n"
  "tod_requester_count (upd_in i g n) = tod_requester_count n"
  "tod_requester_ips (upd_in i g n) = tod_requester_ips n"
  "diag_priority (upd_in i g n) = diag_priority n"
  "bqp_policy (upd_in i g n) = bqp_policy n"
  "refresh_rate (upd_in i g n) = refresh_rate n"
  "sync_mode (upd_in i g n) = sync_mode n"
  "last_sync_time (upd_in i g n) = last_sync_time n"
  "last_dmx_source (upd_in i g n) = last_dmx_source n"
  "nl_seq (upd_in i g n) = nl_seq n"
  "apr_pending_time (upd_in i g n) = apr_pending_time n"
  "apr_pending (upd_in i g n) = apr_pending n"
  "callbacks (upd_in i g n) = callbacks n"
  "port_types (upd_in i g n) = port_types n"
  "out_ports (upd_in i g n) = out_ports n"
  "ar_temp (upd_in i g n) = ar_temp n"
  "nodes (upd_in i g n) = nodes n"
  "node_fw (upd_in i g n) = node_fw n"
  "peer (upd_in i g n) = peer n"
  "master (upd_in i g n) = master n"
  "clk (upd_in i g n) = clk n"
  "rnd (upd_in i g n) = rnd n"
  "mallocs (upd_in i g n) = mallocs n"
  "sends (upd_in i g n) = sends n"
  "sent (upd_in i g n) = sent n"
  "oob (upd_in i g n) = oob n"
  by (simp_all add: upd_in_def)

lemma inside_fields [simp]:
  "node_type (inside c n) = node_type n"
  "mode (inside c n) = mode n"
  "reply_addr (inside c n) = reply_addr n"
  "ip_addr (inside c n) = ip_addr n"
  "bcast_addr (inside c n) = bcast_addr n"
  "subnet_mask (inside c n) = subnet_mask n"
  "gateway (inside c n) = gateway n"
  "hw_addr (inside c n) = hw_addr n"
  "default_netSwitch (inside c n) = default_netSwitch n"
  "netSwitch_net_ctl (inside c n) = netSwitch_net_ctl n"
  "default_subSwitch (inside c n) = default_subSwitch n"
  "subSwitch_net_ctl (inside c n) = subSwitch_net_ctl n"
  "send_apr_on_change (inside c n) = send_apr_on_change n"
  "ar_count (inside c n) = ar_count n"
  "shortName (inside c n) = shortName n"
  "longName (inside c n) = longName n"
  "report (inside c n) = report n"
  "netSwitch (inside c n) = netSwitch n"
  "subSwitch (inside c n) = subSwitch n"
  "oem_hi (inside c n) = oem_hi n"
  "oem_lo (inside c n) = oem_lo n"
  "esta_hi (inside c n) = esta_hi n"
  "esta_lo (inside c n) = esta_lo n"
  "bcast_limit (inside c n) = bcast_limit n"
  "report_code (inside c n) = report_code n"
  "led_state (inside c n) = led_state n"
  "style_code (inside c n) = style_code n"
  "status2 (inside c n) = status2 n"
  "status3 (inside c n) = status3 n"
  "failsafe_mode (inside c n) = failsafe_mode n"
  "rdm_reply_addr (inside c n) = rdm_reply_addr n"
  "tod_reply_addr (inside c n) = tod_reply_addr n"
  "acn_priority (inside c n) = acn_priority n"
  "default_resp_uid (inside c n) = default_resp_uid n"
  "bind_index (inside c n) = bind_index n"
  "vlc_disabled (inside c n) = vlc_disabled n"
  "diag_enabled (inside c n) = diag_enabled n"
  "diag_unicast (inside c n) = diag_unicast n"
  "diag_controller_count (inside c n) = diag_controller_count n"
  "diag_controller_ips (inside c n) = diag_controller_ips n"
  "tod_requester_count (inside c n) = tod_requester_count n"
  "tod_requester_ips (inside c n) = tod_requester_ips n"
  "diag_priority (inside c n) = diag_priority n"
  "bqp_policy (inside c n) = bqp_policy n"
  "refresh_rate (inside c n) = refresh_rate n"
  "sync_mode (inside c n) = sync_mode n"
  "last_sync_time (inside c n) = last_sync_time n"
  "last_dmx_source (inside c n) = last_dmx_source n"
  "nl_seq (inside c n) = nl_seq n"
  "apr_pending_time (inside c n) = apr_pending_time n"
  "apr_pending (inside c n) = apr_pending n"
  "callbacks (inside c n) = callbacks n"
  "port_types (inside c n) = port_types n"
  "in_ports (inside c n) = in_ports n"
  "out_ports (inside c n) = out_ports n"
  "ar_temp (inside c n) = ar_temp n"
  "nodes (inside c n) = nodes n"
  "node_fw (inside c n) = node_fw n"
  "peer (inside c n) = peer n"
  "master (inside c n) = master n"
  "clk (inside c n) = clk n"
  "rnd (inside c n) = rnd n"
  "mallocs (inside c n) = mallocs n"
  "sends (inside c n) = sends n"
  "sent (inside c n) = sent n"
  by (simp_all add: inside_def)

lemma run_moves:
  assumes "only_sends e"
  shows "\<exists>k s r. snd (run_callback e cb a n) = n\<lparr>sends := k, sent := s, report_code := r\<rparr>"
proof (cases "fh cb")
  case None
  then have same: "snd (run_callback e cb a n) = n" by simp
  show ?thesis unfolding same by (rule sends_nothing)
next
  case (Some f)
  with assms show ?thesis by (simp add: run_callback_def only_sends_def)
qed

lemma run_fields [simp]:
  "only_sends e \<Longrightarrow> node_type (snd (run_callback e cb a n)) = node_type n"
  "only_sends e \<Longrightarrow> mode (snd (run_callback e cb a n)) = mode n"
  "only_sends e \<Longrightarrow> reply_addr (snd (run_callback e cb a n)) = reply_addr n"
  "only_sends e \<Longrightarrow> ip_addr (snd (run_callback e cb a n)) = ip_addr n"
  "only_sends e \<Longrightarrow> bcast_addr (snd (run_callback e cb a n)) = bcast_addr n"
  "only_sends e \<Longrightarrow> subnet_mask (snd (run_callback e cb a n)) = subnet_mask n"
  "only_sends e \<Longrightarrow> gateway (snd (run_callback e cb a n)) = gateway n"
  "only_sends e \<Longrightarrow> hw_addr (snd (run_callback e cb a n)) = hw_addr n"
  "only_sends e \<Longrightarrow> default_netSwitch (snd (run_callback e cb a n)) = default_netSwitch n"
  "only_sends e \<Longrightarrow> netSwitch_net_ctl (snd (run_callback e cb a n)) = netSwitch_net_ctl n"
  "only_sends e \<Longrightarrow> default_subSwitch (snd (run_callback e cb a n)) = default_subSwitch n"
  "only_sends e \<Longrightarrow> subSwitch_net_ctl (snd (run_callback e cb a n)) = subSwitch_net_ctl n"
  "only_sends e \<Longrightarrow> send_apr_on_change (snd (run_callback e cb a n)) = send_apr_on_change n"
  "only_sends e \<Longrightarrow> ar_count (snd (run_callback e cb a n)) = ar_count n"
  "only_sends e \<Longrightarrow> shortName (snd (run_callback e cb a n)) = shortName n"
  "only_sends e \<Longrightarrow> longName (snd (run_callback e cb a n)) = longName n"
  "only_sends e \<Longrightarrow> report (snd (run_callback e cb a n)) = report n"
  "only_sends e \<Longrightarrow> netSwitch (snd (run_callback e cb a n)) = netSwitch n"
  "only_sends e \<Longrightarrow> subSwitch (snd (run_callback e cb a n)) = subSwitch n"
  "only_sends e \<Longrightarrow> oem_hi (snd (run_callback e cb a n)) = oem_hi n"
  "only_sends e \<Longrightarrow> oem_lo (snd (run_callback e cb a n)) = oem_lo n"
  "only_sends e \<Longrightarrow> esta_hi (snd (run_callback e cb a n)) = esta_hi n"
  "only_sends e \<Longrightarrow> esta_lo (snd (run_callback e cb a n)) = esta_lo n"
  "only_sends e \<Longrightarrow> bcast_limit (snd (run_callback e cb a n)) = bcast_limit n"
  "only_sends e \<Longrightarrow> led_state (snd (run_callback e cb a n)) = led_state n"
  "only_sends e \<Longrightarrow> style_code (snd (run_callback e cb a n)) = style_code n"
  "only_sends e \<Longrightarrow> status2 (snd (run_callback e cb a n)) = status2 n"
  "only_sends e \<Longrightarrow> status3 (snd (run_callback e cb a n)) = status3 n"
  "only_sends e \<Longrightarrow> failsafe_mode (snd (run_callback e cb a n)) = failsafe_mode n"
  "only_sends e \<Longrightarrow> rdm_reply_addr (snd (run_callback e cb a n)) = rdm_reply_addr n"
  "only_sends e \<Longrightarrow> tod_reply_addr (snd (run_callback e cb a n)) = tod_reply_addr n"
  "only_sends e \<Longrightarrow> acn_priority (snd (run_callback e cb a n)) = acn_priority n"
  "only_sends e \<Longrightarrow> default_resp_uid (snd (run_callback e cb a n)) = default_resp_uid n"
  "only_sends e \<Longrightarrow> bind_index (snd (run_callback e cb a n)) = bind_index n"
  "only_sends e \<Longrightarrow> vlc_disabled (snd (run_callback e cb a n)) = vlc_disabled n"
  "only_sends e \<Longrightarrow> diag_enabled (snd (run_callback e cb a n)) = diag_enabled n"
  "only_sends e \<Longrightarrow> diag_unicast (snd (run_callback e cb a n)) = diag_unicast n"
  "only_sends e \<Longrightarrow> diag_controller_count (snd (run_callback e cb a n)) = diag_controller_count n"
  "only_sends e \<Longrightarrow> diag_controller_ips (snd (run_callback e cb a n)) = diag_controller_ips n"
  "only_sends e \<Longrightarrow> tod_requester_count (snd (run_callback e cb a n)) = tod_requester_count n"
  "only_sends e \<Longrightarrow> tod_requester_ips (snd (run_callback e cb a n)) = tod_requester_ips n"
  "only_sends e \<Longrightarrow> diag_priority (snd (run_callback e cb a n)) = diag_priority n"
  "only_sends e \<Longrightarrow> bqp_policy (snd (run_callback e cb a n)) = bqp_policy n"
  "only_sends e \<Longrightarrow> refresh_rate (snd (run_callback e cb a n)) = refresh_rate n"
  "only_sends e \<Longrightarrow> sync_mode (snd (run_callback e cb a n)) = sync_mode n"
  "only_sends e \<Longrightarrow> last_sync_time (snd (run_callback e cb a n)) = last_sync_time n"
  "only_sends e \<Longrightarrow> last_dmx_source (snd (run_callback e cb a n)) = last_dmx_source n"
  "only_sends e \<Longrightarrow> nl_seq (snd (run_callback e cb a n)) = nl_seq n"
  "only_sends e \<Longrightarrow> apr_pending_time (snd (run_callback e cb a n)) = apr_pending_time n"
  "only_sends e \<Longrightarrow> apr_pending (snd (run_callback e cb a n)) = apr_pending n"
  "only_sends e \<Longrightarrow> callbacks (snd (run_callback e cb a n)) = callbacks n"
  "only_sends e \<Longrightarrow> port_types (snd (run_callback e cb a n)) = port_types n"
  "only_sends e \<Longrightarrow> in_ports (snd (run_callback e cb a n)) = in_ports n"
  "only_sends e \<Longrightarrow> out_ports (snd (run_callback e cb a n)) = out_ports n"
  "only_sends e \<Longrightarrow> ar_temp (snd (run_callback e cb a n)) = ar_temp n"
  "only_sends e \<Longrightarrow> nodes (snd (run_callback e cb a n)) = nodes n"
  "only_sends e \<Longrightarrow> node_fw (snd (run_callback e cb a n)) = node_fw n"
  "only_sends e \<Longrightarrow> peer (snd (run_callback e cb a n)) = peer n"
  "only_sends e \<Longrightarrow> master (snd (run_callback e cb a n)) = master n"
  "only_sends e \<Longrightarrow> clk (snd (run_callback e cb a n)) = clk n"
  "only_sends e \<Longrightarrow> rnd (snd (run_callback e cb a n)) = rnd n"
  "only_sends e \<Longrightarrow> mallocs (snd (run_callback e cb a n)) = mallocs n"
  "only_sends e \<Longrightarrow> oob (snd (run_callback e cb a n)) = oob n"
  by (auto dest!: run_moves [of e cb a n])

lemma check_fields [simp]:
  "only_sends e \<Longrightarrow> node_type (snd (check_callback e n p h)) = node_type n"
  "only_sends e \<Longrightarrow> mode (snd (check_callback e n p h)) = mode n"
  "only_sends e \<Longrightarrow> reply_addr (snd (check_callback e n p h)) = reply_addr n"
  "only_sends e \<Longrightarrow> ip_addr (snd (check_callback e n p h)) = ip_addr n"
  "only_sends e \<Longrightarrow> bcast_addr (snd (check_callback e n p h)) = bcast_addr n"
  "only_sends e \<Longrightarrow> subnet_mask (snd (check_callback e n p h)) = subnet_mask n"
  "only_sends e \<Longrightarrow> gateway (snd (check_callback e n p h)) = gateway n"
  "only_sends e \<Longrightarrow> hw_addr (snd (check_callback e n p h)) = hw_addr n"
  "only_sends e \<Longrightarrow> default_netSwitch (snd (check_callback e n p h)) = default_netSwitch n"
  "only_sends e \<Longrightarrow> netSwitch_net_ctl (snd (check_callback e n p h)) = netSwitch_net_ctl n"
  "only_sends e \<Longrightarrow> default_subSwitch (snd (check_callback e n p h)) = default_subSwitch n"
  "only_sends e \<Longrightarrow> subSwitch_net_ctl (snd (check_callback e n p h)) = subSwitch_net_ctl n"
  "only_sends e \<Longrightarrow> send_apr_on_change (snd (check_callback e n p h)) = send_apr_on_change n"
  "only_sends e \<Longrightarrow> ar_count (snd (check_callback e n p h)) = ar_count n"
  "only_sends e \<Longrightarrow> shortName (snd (check_callback e n p h)) = shortName n"
  "only_sends e \<Longrightarrow> longName (snd (check_callback e n p h)) = longName n"
  "only_sends e \<Longrightarrow> report (snd (check_callback e n p h)) = report n"
  "only_sends e \<Longrightarrow> netSwitch (snd (check_callback e n p h)) = netSwitch n"
  "only_sends e \<Longrightarrow> subSwitch (snd (check_callback e n p h)) = subSwitch n"
  "only_sends e \<Longrightarrow> oem_hi (snd (check_callback e n p h)) = oem_hi n"
  "only_sends e \<Longrightarrow> oem_lo (snd (check_callback e n p h)) = oem_lo n"
  "only_sends e \<Longrightarrow> esta_hi (snd (check_callback e n p h)) = esta_hi n"
  "only_sends e \<Longrightarrow> esta_lo (snd (check_callback e n p h)) = esta_lo n"
  "only_sends e \<Longrightarrow> bcast_limit (snd (check_callback e n p h)) = bcast_limit n"
  "only_sends e \<Longrightarrow> led_state (snd (check_callback e n p h)) = led_state n"
  "only_sends e \<Longrightarrow> style_code (snd (check_callback e n p h)) = style_code n"
  "only_sends e \<Longrightarrow> status2 (snd (check_callback e n p h)) = status2 n"
  "only_sends e \<Longrightarrow> status3 (snd (check_callback e n p h)) = status3 n"
  "only_sends e \<Longrightarrow> failsafe_mode (snd (check_callback e n p h)) = failsafe_mode n"
  "only_sends e \<Longrightarrow> rdm_reply_addr (snd (check_callback e n p h)) = rdm_reply_addr n"
  "only_sends e \<Longrightarrow> tod_reply_addr (snd (check_callback e n p h)) = tod_reply_addr n"
  "only_sends e \<Longrightarrow> acn_priority (snd (check_callback e n p h)) = acn_priority n"
  "only_sends e \<Longrightarrow> default_resp_uid (snd (check_callback e n p h)) = default_resp_uid n"
  "only_sends e \<Longrightarrow> bind_index (snd (check_callback e n p h)) = bind_index n"
  "only_sends e \<Longrightarrow> vlc_disabled (snd (check_callback e n p h)) = vlc_disabled n"
  "only_sends e \<Longrightarrow> diag_enabled (snd (check_callback e n p h)) = diag_enabled n"
  "only_sends e \<Longrightarrow> diag_unicast (snd (check_callback e n p h)) = diag_unicast n"
  "only_sends e \<Longrightarrow> diag_controller_count (snd (check_callback e n p h)) = diag_controller_count n"
  "only_sends e \<Longrightarrow> diag_controller_ips (snd (check_callback e n p h)) = diag_controller_ips n"
  "only_sends e \<Longrightarrow> tod_requester_count (snd (check_callback e n p h)) = tod_requester_count n"
  "only_sends e \<Longrightarrow> tod_requester_ips (snd (check_callback e n p h)) = tod_requester_ips n"
  "only_sends e \<Longrightarrow> diag_priority (snd (check_callback e n p h)) = diag_priority n"
  "only_sends e \<Longrightarrow> bqp_policy (snd (check_callback e n p h)) = bqp_policy n"
  "only_sends e \<Longrightarrow> refresh_rate (snd (check_callback e n p h)) = refresh_rate n"
  "only_sends e \<Longrightarrow> sync_mode (snd (check_callback e n p h)) = sync_mode n"
  "only_sends e \<Longrightarrow> last_sync_time (snd (check_callback e n p h)) = last_sync_time n"
  "only_sends e \<Longrightarrow> last_dmx_source (snd (check_callback e n p h)) = last_dmx_source n"
  "only_sends e \<Longrightarrow> nl_seq (snd (check_callback e n p h)) = nl_seq n"
  "only_sends e \<Longrightarrow> apr_pending_time (snd (check_callback e n p h)) = apr_pending_time n"
  "only_sends e \<Longrightarrow> apr_pending (snd (check_callback e n p h)) = apr_pending n"
  "only_sends e \<Longrightarrow> callbacks (snd (check_callback e n p h)) = callbacks n"
  "only_sends e \<Longrightarrow> port_types (snd (check_callback e n p h)) = port_types n"
  "only_sends e \<Longrightarrow> in_ports (snd (check_callback e n p h)) = in_ports n"
  "only_sends e \<Longrightarrow> out_ports (snd (check_callback e n p h)) = out_ports n"
  "only_sends e \<Longrightarrow> ar_temp (snd (check_callback e n p h)) = ar_temp n"
  "only_sends e \<Longrightarrow> nodes (snd (check_callback e n p h)) = nodes n"
  "only_sends e \<Longrightarrow> node_fw (snd (check_callback e n p h)) = node_fw n"
  "only_sends e \<Longrightarrow> peer (snd (check_callback e n p h)) = peer n"
  "only_sends e \<Longrightarrow> master (snd (check_callback e n p h)) = master n"
  "only_sends e \<Longrightarrow> clk (snd (check_callback e n p h)) = clk n"
  "only_sends e \<Longrightarrow> rnd (snd (check_callback e n p h)) = rnd n"
  "only_sends e \<Longrightarrow> mallocs (snd (check_callback e n p h)) = mallocs n"
  "only_sends e \<Longrightarrow> oob (snd (check_callback e n p h)) = oob n"
  by (simp_all add: check_callback_def)

lemma notify_fields [simp]:
  "only_sends e \<Longrightarrow> node_type (notify e c a n) = node_type n"
  "only_sends e \<Longrightarrow> mode (notify e c a n) = mode n"
  "only_sends e \<Longrightarrow> reply_addr (notify e c a n) = reply_addr n"
  "only_sends e \<Longrightarrow> ip_addr (notify e c a n) = ip_addr n"
  "only_sends e \<Longrightarrow> bcast_addr (notify e c a n) = bcast_addr n"
  "only_sends e \<Longrightarrow> subnet_mask (notify e c a n) = subnet_mask n"
  "only_sends e \<Longrightarrow> gateway (notify e c a n) = gateway n"
  "only_sends e \<Longrightarrow> hw_addr (notify e c a n) = hw_addr n"
  "only_sends e \<Longrightarrow> default_netSwitch (notify e c a n) = default_netSwitch n"
  "only_sends e \<Longrightarrow> netSwitch_net_ctl (notify e c a n) = netSwitch_net_ctl n"
  "only_sends e \<Longrightarrow> default_subSwitch (notify e c a n) = default_subSwitch n"
  "only_sends e \<Longrightarrow> subSwitch_net_ctl (notify e c a n) = subSwitch_net_ctl n"
  "only_sends e \<Longrightarrow> send_apr_on_change (notify e c a n) = send_apr_on_change n"
  "only_sends e \<Longrightarrow> ar_count (notify e c a n) = ar_count n"
  "only_sends e \<Longrightarrow> shortName (notify e c a n) = shortName n"
  "only_sends e \<Longrightarrow> longName (notify e c a n) = longName n"
  "only_sends e \<Longrightarrow> report (notify e c a n) = report n"
  "only_sends e \<Longrightarrow> netSwitch (notify e c a n) = netSwitch n"
  "only_sends e \<Longrightarrow> subSwitch (notify e c a n) = subSwitch n"
  "only_sends e \<Longrightarrow> oem_hi (notify e c a n) = oem_hi n"
  "only_sends e \<Longrightarrow> oem_lo (notify e c a n) = oem_lo n"
  "only_sends e \<Longrightarrow> esta_hi (notify e c a n) = esta_hi n"
  "only_sends e \<Longrightarrow> esta_lo (notify e c a n) = esta_lo n"
  "only_sends e \<Longrightarrow> bcast_limit (notify e c a n) = bcast_limit n"
  "only_sends e \<Longrightarrow> led_state (notify e c a n) = led_state n"
  "only_sends e \<Longrightarrow> style_code (notify e c a n) = style_code n"
  "only_sends e \<Longrightarrow> status2 (notify e c a n) = status2 n"
  "only_sends e \<Longrightarrow> status3 (notify e c a n) = status3 n"
  "only_sends e \<Longrightarrow> failsafe_mode (notify e c a n) = failsafe_mode n"
  "only_sends e \<Longrightarrow> rdm_reply_addr (notify e c a n) = rdm_reply_addr n"
  "only_sends e \<Longrightarrow> tod_reply_addr (notify e c a n) = tod_reply_addr n"
  "only_sends e \<Longrightarrow> acn_priority (notify e c a n) = acn_priority n"
  "only_sends e \<Longrightarrow> default_resp_uid (notify e c a n) = default_resp_uid n"
  "only_sends e \<Longrightarrow> bind_index (notify e c a n) = bind_index n"
  "only_sends e \<Longrightarrow> vlc_disabled (notify e c a n) = vlc_disabled n"
  "only_sends e \<Longrightarrow> diag_enabled (notify e c a n) = diag_enabled n"
  "only_sends e \<Longrightarrow> diag_unicast (notify e c a n) = diag_unicast n"
  "only_sends e \<Longrightarrow> diag_controller_count (notify e c a n) = diag_controller_count n"
  "only_sends e \<Longrightarrow> diag_controller_ips (notify e c a n) = diag_controller_ips n"
  "only_sends e \<Longrightarrow> tod_requester_count (notify e c a n) = tod_requester_count n"
  "only_sends e \<Longrightarrow> tod_requester_ips (notify e c a n) = tod_requester_ips n"
  "only_sends e \<Longrightarrow> diag_priority (notify e c a n) = diag_priority n"
  "only_sends e \<Longrightarrow> bqp_policy (notify e c a n) = bqp_policy n"
  "only_sends e \<Longrightarrow> refresh_rate (notify e c a n) = refresh_rate n"
  "only_sends e \<Longrightarrow> sync_mode (notify e c a n) = sync_mode n"
  "only_sends e \<Longrightarrow> last_sync_time (notify e c a n) = last_sync_time n"
  "only_sends e \<Longrightarrow> last_dmx_source (notify e c a n) = last_dmx_source n"
  "only_sends e \<Longrightarrow> nl_seq (notify e c a n) = nl_seq n"
  "only_sends e \<Longrightarrow> apr_pending_time (notify e c a n) = apr_pending_time n"
  "only_sends e \<Longrightarrow> apr_pending (notify e c a n) = apr_pending n"
  "only_sends e \<Longrightarrow> callbacks (notify e c a n) = callbacks n"
  "only_sends e \<Longrightarrow> port_types (notify e c a n) = port_types n"
  "only_sends e \<Longrightarrow> in_ports (notify e c a n) = in_ports n"
  "only_sends e \<Longrightarrow> out_ports (notify e c a n) = out_ports n"
  "only_sends e \<Longrightarrow> ar_temp (notify e c a n) = ar_temp n"
  "only_sends e \<Longrightarrow> nodes (notify e c a n) = nodes n"
  "only_sends e \<Longrightarrow> node_fw (notify e c a n) = node_fw n"
  "only_sends e \<Longrightarrow> peer (notify e c a n) = peer n"
  "only_sends e \<Longrightarrow> master (notify e c a n) = master n"
  "only_sends e \<Longrightarrow> clk (notify e c a n) = clk n"
  "only_sends e \<Longrightarrow> rnd (notify e c a n) = rnd n"
  "only_sends e \<Longrightarrow> mallocs (notify e c a n) = mallocs n"
  "only_sends e \<Longrightarrow> oob (notify e c a n) = oob n"
  by (simp_all add: notify_def)

lemma net_send_fields [simp]:
  "only_sends e \<Longrightarrow> node_type (snd (artnet_net_send e n p)) = node_type n"
  "only_sends e \<Longrightarrow> mode (snd (artnet_net_send e n p)) = mode n"
  "only_sends e \<Longrightarrow> reply_addr (snd (artnet_net_send e n p)) = reply_addr n"
  "only_sends e \<Longrightarrow> ip_addr (snd (artnet_net_send e n p)) = ip_addr n"
  "only_sends e \<Longrightarrow> bcast_addr (snd (artnet_net_send e n p)) = bcast_addr n"
  "only_sends e \<Longrightarrow> subnet_mask (snd (artnet_net_send e n p)) = subnet_mask n"
  "only_sends e \<Longrightarrow> gateway (snd (artnet_net_send e n p)) = gateway n"
  "only_sends e \<Longrightarrow> hw_addr (snd (artnet_net_send e n p)) = hw_addr n"
  "only_sends e \<Longrightarrow> default_netSwitch (snd (artnet_net_send e n p)) = default_netSwitch n"
  "only_sends e \<Longrightarrow> netSwitch_net_ctl (snd (artnet_net_send e n p)) = netSwitch_net_ctl n"
  "only_sends e \<Longrightarrow> default_subSwitch (snd (artnet_net_send e n p)) = default_subSwitch n"
  "only_sends e \<Longrightarrow> subSwitch_net_ctl (snd (artnet_net_send e n p)) = subSwitch_net_ctl n"
  "only_sends e \<Longrightarrow> send_apr_on_change (snd (artnet_net_send e n p)) = send_apr_on_change n"
  "only_sends e \<Longrightarrow> ar_count (snd (artnet_net_send e n p)) = ar_count n"
  "only_sends e \<Longrightarrow> shortName (snd (artnet_net_send e n p)) = shortName n"
  "only_sends e \<Longrightarrow> longName (snd (artnet_net_send e n p)) = longName n"
  "only_sends e \<Longrightarrow> report (snd (artnet_net_send e n p)) = report n"
  "only_sends e \<Longrightarrow> netSwitch (snd (artnet_net_send e n p)) = netSwitch n"
  "only_sends e \<Longrightarrow> subSwitch (snd (artnet_net_send e n p)) = subSwitch n"
  "only_sends e \<Longrightarrow> oem_hi (snd (artnet_net_send e n p)) = oem_hi n"
  "only_sends e \<Longrightarrow> oem_lo (snd (artnet_net_send e n p)) = oem_lo n"
  "only_sends e \<Longrightarrow> esta_hi (snd (artnet_net_send e n p)) = esta_hi n"
  "only_sends e \<Longrightarrow> esta_lo (snd (artnet_net_send e n p)) = esta_lo n"
  "only_sends e \<Longrightarrow> bcast_limit (snd (artnet_net_send e n p)) = bcast_limit n"
  "only_sends e \<Longrightarrow> led_state (snd (artnet_net_send e n p)) = led_state n"
  "only_sends e \<Longrightarrow> style_code (snd (artnet_net_send e n p)) = style_code n"
  "only_sends e \<Longrightarrow> status2 (snd (artnet_net_send e n p)) = status2 n"
  "only_sends e \<Longrightarrow> status3 (snd (artnet_net_send e n p)) = status3 n"
  "only_sends e \<Longrightarrow> failsafe_mode (snd (artnet_net_send e n p)) = failsafe_mode n"
  "only_sends e \<Longrightarrow> rdm_reply_addr (snd (artnet_net_send e n p)) = rdm_reply_addr n"
  "only_sends e \<Longrightarrow> tod_reply_addr (snd (artnet_net_send e n p)) = tod_reply_addr n"
  "only_sends e \<Longrightarrow> acn_priority (snd (artnet_net_send e n p)) = acn_priority n"
  "only_sends e \<Longrightarrow> default_resp_uid (snd (artnet_net_send e n p)) = default_resp_uid n"
  "only_sends e \<Longrightarrow> bind_index (snd (artnet_net_send e n p)) = bind_index n"
  "only_sends e \<Longrightarrow> vlc_disabled (snd (artnet_net_send e n p)) = vlc_disabled n"
  "only_sends e \<Longrightarrow> diag_enabled (snd (artnet_net_send e n p)) = diag_enabled n"
  "only_sends e \<Longrightarrow> diag_unicast (snd (artnet_net_send e n p)) = diag_unicast n"
  "only_sends e \<Longrightarrow> diag_controller_count (snd (artnet_net_send e n p)) = diag_controller_count n"
  "only_sends e \<Longrightarrow> diag_controller_ips (snd (artnet_net_send e n p)) = diag_controller_ips n"
  "only_sends e \<Longrightarrow> tod_requester_count (snd (artnet_net_send e n p)) = tod_requester_count n"
  "only_sends e \<Longrightarrow> tod_requester_ips (snd (artnet_net_send e n p)) = tod_requester_ips n"
  "only_sends e \<Longrightarrow> diag_priority (snd (artnet_net_send e n p)) = diag_priority n"
  "only_sends e \<Longrightarrow> bqp_policy (snd (artnet_net_send e n p)) = bqp_policy n"
  "only_sends e \<Longrightarrow> refresh_rate (snd (artnet_net_send e n p)) = refresh_rate n"
  "only_sends e \<Longrightarrow> sync_mode (snd (artnet_net_send e n p)) = sync_mode n"
  "only_sends e \<Longrightarrow> last_sync_time (snd (artnet_net_send e n p)) = last_sync_time n"
  "only_sends e \<Longrightarrow> last_dmx_source (snd (artnet_net_send e n p)) = last_dmx_source n"
  "only_sends e \<Longrightarrow> nl_seq (snd (artnet_net_send e n p)) = nl_seq n"
  "only_sends e \<Longrightarrow> apr_pending_time (snd (artnet_net_send e n p)) = apr_pending_time n"
  "only_sends e \<Longrightarrow> apr_pending (snd (artnet_net_send e n p)) = apr_pending n"
  "only_sends e \<Longrightarrow> callbacks (snd (artnet_net_send e n p)) = callbacks n"
  "only_sends e \<Longrightarrow> port_types (snd (artnet_net_send e n p)) = port_types n"
  "only_sends e \<Longrightarrow> in_ports (snd (artnet_net_send e n p)) = in_ports n"
  "only_sends e \<Longrightarrow> out_ports (snd (artnet_net_send e n p)) = out_ports n"
  "only_sends e \<Longrightarrow> ar_temp (snd (artnet_net_send e n p)) = ar_temp n"
  "only_sends e \<Longrightarrow> nodes (snd (artnet_net_send e n p)) = nodes n"
  "only_sends e \<Longrightarrow> node_fw (snd (artnet_net_send e n p)) = node_fw n"
  "only_sends e \<Longrightarrow> peer (snd (artnet_net_send e n p)) = peer n"
  "only_sends e \<Longrightarrow> master (snd (artnet_net_send e n p)) = master n"
  "only_sends e \<Longrightarrow> clk (snd (artnet_net_send e n p)) = clk n"
  "only_sends e \<Longrightarrow> rnd (snd (artnet_net_send e n p)) = rnd n"
  "only_sends e \<Longrightarrow> mallocs (snd (artnet_net_send e n p)) = mallocs n"
  "only_sends e \<Longrightarrow> oob (snd (artnet_net_send e n p)) = oob n"
  by (simp_all add: artnet_net_send_def Let_def)

lemma send_new_fields [simp]:
  "only_sends e \<Longrightarrow> node_type (snd (send_new e n to t len d)) = node_type n"
  "only_sends e \<Longrightarrow> mode (snd (send_new e n to t len d)) = mode n"
  "only_sends e \<Longrightarrow> reply_addr (snd (send_new e n to t len d)) = reply_addr n"
  "only_sends e \<Longrightarrow> ip_addr (snd (send_new e n to t len d)) = ip_addr n"
  "only_sends e \<Longrightarrow> bcast_addr (snd (send_new e n to t len d)) = bcast_addr n"
  "only_sends e \<Longrightarrow> subnet_mask (snd (send_new e n to t len d)) = subnet_mask n"
  "only_sends e \<Longrightarrow> gateway (snd (send_new e n to t len d)) = gateway n"
  "only_sends e \<Longrightarrow> hw_addr (snd (send_new e n to t len d)) = hw_addr n"
  "only_sends e \<Longrightarrow> default_netSwitch (snd (send_new e n to t len d)) = default_netSwitch n"
  "only_sends e \<Longrightarrow> netSwitch_net_ctl (snd (send_new e n to t len d)) = netSwitch_net_ctl n"
  "only_sends e \<Longrightarrow> default_subSwitch (snd (send_new e n to t len d)) = default_subSwitch n"
  "only_sends e \<Longrightarrow> subSwitch_net_ctl (snd (send_new e n to t len d)) = subSwitch_net_ctl n"
  "only_sends e \<Longrightarrow> send_apr_on_change (snd (send_new e n to t len d)) = send_apr_on_change n"
  "only_sends e \<Longrightarrow> ar_count (snd (send_new e n to t len d)) = ar_count n"
  "only_sends e \<Longrightarrow> shortName (snd (send_new e n to t len d)) = shortName n"
  "only_sends e \<Longrightarrow> longName (snd (send_new e n to t len d)) = longName n"
  "only_sends e \<Longrightarrow> report (snd (send_new e n to t len d)) = report n"
  "only_sends e \<Longrightarrow> netSwitch (snd (send_new e n to t len d)) = netSwitch n"
  "only_sends e \<Longrightarrow> subSwitch (snd (send_new e n to t len d)) = subSwitch n"
  "only_sends e \<Longrightarrow> oem_hi (snd (send_new e n to t len d)) = oem_hi n"
  "only_sends e \<Longrightarrow> oem_lo (snd (send_new e n to t len d)) = oem_lo n"
  "only_sends e \<Longrightarrow> esta_hi (snd (send_new e n to t len d)) = esta_hi n"
  "only_sends e \<Longrightarrow> esta_lo (snd (send_new e n to t len d)) = esta_lo n"
  "only_sends e \<Longrightarrow> bcast_limit (snd (send_new e n to t len d)) = bcast_limit n"
  "only_sends e \<Longrightarrow> led_state (snd (send_new e n to t len d)) = led_state n"
  "only_sends e \<Longrightarrow> style_code (snd (send_new e n to t len d)) = style_code n"
  "only_sends e \<Longrightarrow> status2 (snd (send_new e n to t len d)) = status2 n"
  "only_sends e \<Longrightarrow> status3 (snd (send_new e n to t len d)) = status3 n"
  "only_sends e \<Longrightarrow> failsafe_mode (snd (send_new e n to t len d)) = failsafe_mode n"
  "only_sends e \<Longrightarrow> rdm_reply_addr (snd (send_new e n to t len d)) = rdm_reply_addr n"
  "only_sends e \<Longrightarrow> tod_reply_addr (snd (send_new e n to t len d)) = tod_reply_addr n"
  "only_sends e \<Longrightarrow> acn_priority (snd (send_new e n to t len d)) = acn_priority n"
  "only_sends e \<Longrightarrow> default_resp_uid (snd (send_new e n to t len d)) = default_resp_uid n"
  "only_sends e \<Longrightarrow> bind_index (snd (send_new e n to t len d)) = bind_index n"
  "only_sends e \<Longrightarrow> vlc_disabled (snd (send_new e n to t len d)) = vlc_disabled n"
  "only_sends e \<Longrightarrow> diag_enabled (snd (send_new e n to t len d)) = diag_enabled n"
  "only_sends e \<Longrightarrow> diag_unicast (snd (send_new e n to t len d)) = diag_unicast n"
  "only_sends e \<Longrightarrow> diag_controller_count (snd (send_new e n to t len d)) = diag_controller_count n"
  "only_sends e \<Longrightarrow> diag_controller_ips (snd (send_new e n to t len d)) = diag_controller_ips n"
  "only_sends e \<Longrightarrow> tod_requester_count (snd (send_new e n to t len d)) = tod_requester_count n"
  "only_sends e \<Longrightarrow> tod_requester_ips (snd (send_new e n to t len d)) = tod_requester_ips n"
  "only_sends e \<Longrightarrow> diag_priority (snd (send_new e n to t len d)) = diag_priority n"
  "only_sends e \<Longrightarrow> bqp_policy (snd (send_new e n to t len d)) = bqp_policy n"
  "only_sends e \<Longrightarrow> refresh_rate (snd (send_new e n to t len d)) = refresh_rate n"
  "only_sends e \<Longrightarrow> sync_mode (snd (send_new e n to t len d)) = sync_mode n"
  "only_sends e \<Longrightarrow> last_sync_time (snd (send_new e n to t len d)) = last_sync_time n"
  "only_sends e \<Longrightarrow> last_dmx_source (snd (send_new e n to t len d)) = last_dmx_source n"
  "only_sends e \<Longrightarrow> nl_seq (snd (send_new e n to t len d)) = nl_seq n"
  "only_sends e \<Longrightarrow> apr_pending_time (snd (send_new e n to t len d)) = apr_pending_time n"
  "only_sends e \<Longrightarrow> apr_pending (snd (send_new e n to t len d)) = apr_pending n"
  "only_sends e \<Longrightarrow> callbacks (snd (send_new e n to t len d)) = callbacks n"
  "only_sends e \<Longrightarrow> port_types (snd (send_new e n to t len d)) = port_types n"
  "only_sends e \<Longrightarrow> in_ports (snd (send_new e n to t len d)) = in_ports n"
  "only_sends e \<Longrightarrow> out_ports (snd (send_new e n to t len d)) = out_ports n"
  "only_sends e \<Longrightarrow> ar_temp (snd (send_new e n to t len d)) = ar_temp n"
  "only_sends e \<Longrightarrow> nodes (snd (send_new e n to t len d)) = nodes n"
  "only_sends e \<Longrightarrow> node_fw (snd (send_new e n to t len d)) = node_fw n"
  "only_sends e \<Longrightarrow> peer (snd (send_new e n to t len d)) = peer n"
  "only_sends e \<Longrightarrow> master (snd (send_new e n to t len d)) = master n"
  "only_sends e \<Longrightarrow> clk (snd (send_new e n to t len d)) = clk n"
  "only_sends e \<Longrightarrow> rnd (snd (send_new e n to t len d)) = rnd n"
  "only_sends e \<Longrightarrow> mallocs (snd (send_new e n to t len d)) = mallocs n"
  "only_sends e \<Longrightarrow> oob (snd (send_new e n to t len d)) = oob n"
  by (simp_all add: send_new_def)

lemma poll_reply_fields [simp]:
  "only_sends e \<Longrightarrow> node_type (snd (artnet_tx_poll_reply e n)) = node_type n"
  "only_sends e \<Longrightarrow> mode (snd (artnet_tx_poll_reply e n)) = mode n"
  "only_sends e \<Longrightarrow> reply_addr (snd (artnet_tx_poll_reply e n)) = reply_addr n"
  "only_sends e \<Longrightarrow> ip_addr (snd (artnet_tx_poll_reply e n)) = ip_addr n"
  "only_sends e \<Longrightarrow> bcast_addr (snd (artnet_tx_poll_reply e n)) = bcast_addr n"
  "only_sends e \<Longrightarrow> subnet_mask (snd (artnet_tx_poll_reply e n)) = subnet_mask n"
  "only_sends e \<Longrightarrow> gateway (snd (artnet_tx_poll_reply e n)) = gateway n"
  "only_sends e \<Longrightarrow> hw_addr (snd (artnet_tx_poll_reply e n)) = hw_addr n"
  "only_sends e \<Longrightarrow> default_netSwitch (snd (artnet_tx_poll_reply e n)) = default_netSwitch n"
  "only_sends e \<Longrightarrow> netSwitch_net_ctl (snd (artnet_tx_poll_reply e n)) = netSwitch_net_ctl n"
  "only_sends e \<Longrightarrow> default_subSwitch (snd (artnet_tx_poll_reply e n)) = default_subSwitch n"
  "only_sends e \<Longrightarrow> subSwitch_net_ctl (snd (artnet_tx_poll_reply e n)) = subSwitch_net_ctl n"
  "only_sends e \<Longrightarrow> send_apr_on_change (snd (artnet_tx_poll_reply e n)) = send_apr_on_change n"
  "only_sends e \<Longrightarrow> shortName (snd (artnet_tx_poll_reply e n)) = shortName n"
  "only_sends e \<Longrightarrow> longName (snd (artnet_tx_poll_reply e n)) = longName n"
  "only_sends e \<Longrightarrow> report (snd (artnet_tx_poll_reply e n)) = report n"
  "only_sends e \<Longrightarrow> netSwitch (snd (artnet_tx_poll_reply e n)) = netSwitch n"
  "only_sends e \<Longrightarrow> subSwitch (snd (artnet_tx_poll_reply e n)) = subSwitch n"
  "only_sends e \<Longrightarrow> oem_hi (snd (artnet_tx_poll_reply e n)) = oem_hi n"
  "only_sends e \<Longrightarrow> oem_lo (snd (artnet_tx_poll_reply e n)) = oem_lo n"
  "only_sends e \<Longrightarrow> esta_hi (snd (artnet_tx_poll_reply e n)) = esta_hi n"
  "only_sends e \<Longrightarrow> esta_lo (snd (artnet_tx_poll_reply e n)) = esta_lo n"
  "only_sends e \<Longrightarrow> bcast_limit (snd (artnet_tx_poll_reply e n)) = bcast_limit n"
  "only_sends e \<Longrightarrow> led_state (snd (artnet_tx_poll_reply e n)) = led_state n"
  "only_sends e \<Longrightarrow> style_code (snd (artnet_tx_poll_reply e n)) = style_code n"
  "only_sends e \<Longrightarrow> status2 (snd (artnet_tx_poll_reply e n)) = status2 n"
  "only_sends e \<Longrightarrow> status3 (snd (artnet_tx_poll_reply e n)) = status3 n"
  "only_sends e \<Longrightarrow> failsafe_mode (snd (artnet_tx_poll_reply e n)) = failsafe_mode n"
  "only_sends e \<Longrightarrow> rdm_reply_addr (snd (artnet_tx_poll_reply e n)) = rdm_reply_addr n"
  "only_sends e \<Longrightarrow> tod_reply_addr (snd (artnet_tx_poll_reply e n)) = tod_reply_addr n"
  "only_sends e \<Longrightarrow> acn_priority (snd (artnet_tx_poll_reply e n)) = acn_priority n"
  "only_sends e \<Longrightarrow> default_resp_uid (snd (artnet_tx_poll_reply e n)) = default_resp_uid n"
  "only_sends e \<Longrightarrow> bind_index (snd (artnet_tx_poll_reply e n)) = bind_index n"
  "only_sends e \<Longrightarrow> vlc_disabled (snd (artnet_tx_poll_reply e n)) = vlc_disabled n"
  "only_sends e \<Longrightarrow> diag_enabled (snd (artnet_tx_poll_reply e n)) = diag_enabled n"
  "only_sends e \<Longrightarrow> diag_unicast (snd (artnet_tx_poll_reply e n)) = diag_unicast n"
  "only_sends e \<Longrightarrow> diag_controller_count (snd (artnet_tx_poll_reply e n)) = diag_controller_count n"
  "only_sends e \<Longrightarrow> diag_controller_ips (snd (artnet_tx_poll_reply e n)) = diag_controller_ips n"
  "only_sends e \<Longrightarrow> tod_requester_count (snd (artnet_tx_poll_reply e n)) = tod_requester_count n"
  "only_sends e \<Longrightarrow> tod_requester_ips (snd (artnet_tx_poll_reply e n)) = tod_requester_ips n"
  "only_sends e \<Longrightarrow> diag_priority (snd (artnet_tx_poll_reply e n)) = diag_priority n"
  "only_sends e \<Longrightarrow> bqp_policy (snd (artnet_tx_poll_reply e n)) = bqp_policy n"
  "only_sends e \<Longrightarrow> refresh_rate (snd (artnet_tx_poll_reply e n)) = refresh_rate n"
  "only_sends e \<Longrightarrow> sync_mode (snd (artnet_tx_poll_reply e n)) = sync_mode n"
  "only_sends e \<Longrightarrow> last_sync_time (snd (artnet_tx_poll_reply e n)) = last_sync_time n"
  "only_sends e \<Longrightarrow> last_dmx_source (snd (artnet_tx_poll_reply e n)) = last_dmx_source n"
  "only_sends e \<Longrightarrow> nl_seq (snd (artnet_tx_poll_reply e n)) = nl_seq n"
  "only_sends e \<Longrightarrow> apr_pending_time (snd (artnet_tx_poll_reply e n)) = apr_pending_time n"
  "only_sends e \<Longrightarrow> apr_pending (snd (artnet_tx_poll_reply e n)) = apr_pending n"
  "only_sends e \<Longrightarrow> callbacks (snd (artnet_tx_poll_reply e n)) = callbacks n"
  "only_sends e \<Longrightarrow> port_types (snd (artnet_tx_poll_reply e n)) = port_types n"
  "only_sends e \<Longrightarrow> in_ports (snd (artnet_tx_poll_reply e n)) = in_ports n"
  "only_sends e \<Longrightarrow> out_ports (snd (artnet_tx_poll_reply e n)) = out_ports n"
  "only_sends e \<Longrightarrow> ar_temp (snd (artnet_tx_poll_reply e n)) = ar_temp n"
  "only_sends e \<Longrightarrow> nodes (snd (artnet_tx_poll_reply e n)) = nodes n"
  "only_sends e \<Longrightarrow> node_fw (snd (artnet_tx_poll_reply e n)) = node_fw n"
  "only_sends e \<Longrightarrow> peer (snd (artnet_tx_poll_reply e n)) = peer n"
  "only_sends e \<Longrightarrow> master (snd (artnet_tx_poll_reply e n)) = master n"
  "only_sends e \<Longrightarrow> clk (snd (artnet_tx_poll_reply e n)) = clk n"
  "only_sends e \<Longrightarrow> rnd (snd (artnet_tx_poll_reply e n)) = rnd n"
  "only_sends e \<Longrightarrow> mallocs (snd (artnet_tx_poll_reply e n)) = mallocs n"
  "only_sends e \<Longrightarrow> oob (snd (artnet_tx_poll_reply e n)) = oob n"
  by (simp_all add: artnet_tx_poll_reply_def Let_def)

lemma or_send_fields [simp]:
  "only_sends e \<Longrightarrow> out_ports (snd (or_send e ret p n)) = out_ports n"
  "only_sends e \<Longrightarrow> mode (snd (or_send e ret p n)) = mode n"
  by (simp_all add: or_send_def case_prod_beta)

text \<open>
  A send as the socket sees it: nothing unless the node is on, else exactly one datagram.
\<close>

lemma net_send_sent:
  "observer e \<Longrightarrow> sent (snd (artnet_net_send e n p)) =
     (if mode n = ARTNET_ON then sent n @ [p\<lparr>p_from := ip_addr n\<rparr>] else sent n)"
  by (simp add: artnet_net_send_def Let_def)

text \<open>Ports whose validity an update does not touch.\<close>

lemma out_ok_frame [simp]:
  "out_ok (q\<lparr>port_default_addr := x0\<rparr>) = out_ok q"
  "out_ok (q\<lparr>port_net_ctl := x1\<rparr>) = out_ok q"
  "out_ok (q\<lparr>port_status := x2\<rparr>) = out_ok q"
  "out_ok (q\<lparr>port_enabled := x3\<rparr>) = out_ok q"
  "out_ok (q\<lparr>port_addr := x4\<rparr>) = out_ok q"
  "out_ok (q\<lparr>out_data := x5\<rparr>) = out_ok q"
  "out_ok (q\<lparr>merge_mode := x6\<rparr>) = out_ok q"
  "out_ok (q\<lparr>proto_sel := x7\<rparr>) = out_ok q"
  "out_ok (q\<lparr>output_style := x8\<rparr>) = out_ok q"
  "out_ok (q\<lparr>rdm_enabled := x9\<rparr>) = out_ok q"
  "out_ok (q\<lparr>dataA := x10\<rparr>) = out_ok q"
  "out_ok (q\<lparr>dataB := x11\<rparr>) = out_ok q"
  "out_ok (q\<lparr>physicalA := x12\<rparr>) = out_ok q"
  "out_ok (q\<lparr>physicalB := x13\<rparr>) = out_ok q"
  "out_ok (q\<lparr>timeA := x14\<rparr>) = out_ok q"
  "out_ok (q\<lparr>timeB := x15\<rparr>) = out_ok q"
  "out_ok (q\<lparr>last_dmx_time := x16\<rparr>) = out_ok q"
  "out_ok (q\<lparr>failsafe_triggered := x17\<rparr>) = out_ok q"
  "out_ok (q\<lparr>failsafe_data := x18\<rparr>) = out_ok q"
  "out_ok (q\<lparr>nzs_start_code := x19\<rparr>) = out_ok q"
  "out_ok (q\<lparr>sync_data := x20\<rparr>) = out_ok q"
  "out_ok (q\<lparr>sync_pending := x21\<rparr>) = out_ok q"
  "out_ok (q\<lparr>cancel_merge_pending := x22\<rparr>) = out_ok q"
  "out_ok (q\<lparr>port_dmx_source := x23\<rparr>) = out_ok q"
  "out_ok (q\<lparr>ipA := x24\<rparr>) = out_ok q"
  "out_ok (q\<lparr>ipB := x25\<rparr>) = out_ok q"
  by (simp_all add: out_ok_def)

lemma in_ok_frame [simp]:
  "in_ok (q\<lparr>port_default_addr := x0\<rparr>) = in_ok q"
  "in_ok (q\<lparr>port_net_ctl := x1\<rparr>) = in_ok q"
  "in_ok (q\<lparr>port_status := x2\<rparr>) = in_ok q"
  "in_ok (q\<lparr>port_enabled := x3\<rparr>) = in_ok q"
  "in_ok (q\<lparr>port_addr := x4\<rparr>) = in_ok q"
  "in_ok (q\<lparr>last_dmx_data := x5\<rparr>) = in_ok q"
  "in_ok (q\<lparr>last_dmx_send_time := x6\<rparr>) = in_ok q"
  by (simp_all add: in_ok_def)

lemma out_ok_lengths [simp]:
  "out_ok q \<Longrightarrow> out_ok (q\<lparr>out_length := k\<rparr>) = in_512 k"
  "out_ok q \<Longrightarrow> out_ok (q\<lparr>sync_length := k\<rparr>) = in_512 k"
  "out_ok q \<Longrightarrow> out_ok (q\<lparr>failsafe_length := k\<rparr>) = in_512 k"
  by (simp_all add: out_ok_def)

lemma get_short_range: "0 \<le> get_short L hi lo p \<and> get_short L hi lo p < 65536"
  by (simp add: get_short_def bytes_to_short_bounds)

text \<open>
  An update of an output port that keeps its address and its validity, given the rest: the shape
  of every step below.
\<close>

lemma node_ok_step:
  assumes "node_ok n" and "\<And>q. out_ok q \<Longrightarrow> out_ok (f q)" and "\<And>q. port_addr (f q) = port_addr q"
  shows "node_ok (upd_out i f n)"
  using assms(1) by (rule node_ok_upd_out) (simp_all add: assms node_ok_out node_ok_out_addr)

text \<open>What one round of a loop does to an observation that the other rounds leave alone.\<close>

lemma for_upto_at_within:
  assumes "i < k" "Q 0 s"
    and "\<And>j s. j < k \<Longrightarrow> j \<noteq> i \<Longrightarrow> f (body j s) = f s" "\<And>j s. Q j s \<Longrightarrow> Q (Suc j) (body j s)"
  shows "\<exists>s'. f s' = f s \<and> Q i s' \<and> f (for_upto k body s) = f (body i s')"
  using assms
proof (induction k)
  case (Suc k)
  have reach: "Q j (for_upto j body s)" for j
    using Suc.prems by (induction j) (simp_all add: for_upto_Suc)
  show ?case
  proof (cases "i = k")
    case True
    have "f (for_upto k body s) = f s"
      using Suc.prems(3) True by (intro for_upto_frame) simp
    with True reach show ?thesis by (auto simp: for_upto_Suc)
  next
    case False
    with Suc.prems have "i < k" by simp
    with Suc show ?thesis by (auto simp: for_upto_Suc False)
  qed
qed simp

lemma for_upto_at:
  assumes "i < k" and "\<And>j s. j < k \<Longrightarrow> j \<noteq> i \<Longrightarrow> f (body j s) = f s"
  shows "\<exists>s'. f s' = f s \<and> f (for_upto k body s) = f (body i s')"
  using assms
proof (induction k)
  case (Suc k)
  show ?case
  proof (cases "i = k")
    case True
    have "f (for_upto k body s) = f s"
      using Suc.prems(2) True by (intro for_upto_frame) simp
    with True show ?thesis by (auto simp: for_upto_Suc)
  next
    case False
    with Suc.prems have "i < k" by simp
    with Suc show ?thesis by (auto simp: for_upto_Suc False)
  qed
qed simp

lemma node_ok_step_in:
  assumes "node_ok n" and "\<And>q. in_ok q \<Longrightarrow> in_ok (f q)" and "\<And>q. port_addr (f q) = port_addr q"
  shows "node_ok (upd_in i f n)"
  using assms(1) by (rule node_ok_upd_in) (simp_all add: assms node_ok_in node_ok_in_addr)

lemma node_ok_for_upto:
  "node_ok n \<Longrightarrow> (\<And>i n. i < k \<Longrightarrow> node_ok n \<Longrightarrow> node_ok (body i n)) \<Longrightarrow> node_ok (for_upto k body n)"
  by (rule for_upto_invariant)

end
