(* ===== verification/Interfaces.thy ===== *)
theory Interfaces
  imports Environment
begin

text \<open>
  The interfaces of the host (\<open>artnet/network.c\<close>): the three versions of \<open>get_ifaces\<close>, for
  hosts with \<open>getifaddrs\<close>, for those with the \<open>ioctl\<close> calls only, and for Windows.  What the
  operating system answers is an argument: the list of addresses or adapters, the answers to each
  \<open>ioctl\<close>, and which allocations succeed.
\<close>

section \<open>The list that is built\<close>

record iface =
  if_ip :: ip
  if_bcast :: ip
  if_mask :: ip
  if_hw :: mem
  if_name :: string

definition zero_iface :: iface where
  "zero_iface = \<lparr>if_ip = 0, if_bcast = 0, if_mask = 0, if_hw = zero_mem, if_name = []\<rparr>"

definition IFNAME_SIZE :: nat where
  [simp]: "IFNAME_SIZE = 32"

text \<open>A new element at the end of the list, \<open>None\<close> when \<open>calloc\<close> fails.\<close>

definition new_iface :: "bool \<Rightarrow> iface list \<Rightarrow> iface list option" where
  "new_iface granted ifs = (if granted then Some (ifs @ [zero_iface]) else None)"

definition set_last :: "iface \<Rightarrow> iface list \<Rightarrow> iface list" where
  "set_last i ifs = butlast ifs @ [i]"

section \<open>With getifaddrs\<close>

text \<open>
  The socket addresses that matter: an IPv4 address, a hardware address in Linux' and in BSD's
  form (with its length), and any other family.
\<close>

datatype sock_addr = Inet ip | Packet_Addr mem | Link_Addr nat mem | Other_Family

record if_flags =
  iff_up :: bool
  iff_loopback :: bool
  iff_broadcast :: bool

record ifaddr =
  ifa_name :: string
  ifa_flags :: if_flags
  ifa_addr :: "sock_addr option"
  ifa_netmask :: "ip option"
  ifa_broadaddr :: ip

definition usable :: "ifaddr \<Rightarrow> bool" where
  "usable ifa \<longleftrightarrow>
     iff_up (ifa_flags ifa) \<and> \<not> iff_loopback (ifa_flags ifa) \<and> (\<exists>a. ifa_addr ifa = Some (Inet a))"

definition iface_of :: "ifaddr \<Rightarrow> ip \<Rightarrow> iface" where
  "iface_of ifa a =
     \<lparr>if_ip = a,
      if_bcast = (if iff_broadcast (ifa_flags ifa) then ifa_broadaddr ifa else 0),
      if_mask = (case ifa_netmask ifa of None \<Rightarrow> 0 | Some m \<Rightarrow> m),
      if_hw = zero_mem,
      if_name = take (IFNAME_SIZE - 1) (ifa_name ifa)\<rparr>"

text \<open>
  The result of \<open>calloc\<close> is not checked: a failed one is a write through NULL.  The second
  component says that there was none, and nothing is added after one.
\<close>

definition add_iface_if_needed ::
    "(nat \<Rightarrow> bool) \<Rightarrow> ifaddr \<Rightarrow> iface list \<times> bool \<Rightarrow> iface list \<times> bool" where
  "add_iface_if_needed callocs ifa s =
     (case s of (ifs, ok) \<Rightarrow>
        (case ifa_addr ifa of
           None \<Rightarrow> s
         | Some sa \<Rightarrow>
             if \<not> iff_up (ifa_flags ifa) then s
             else if iff_loopback (ifa_flags ifa) then s
             else
               (case sa of
                  Inet a \<Rightarrow>
                    (case new_iface (callocs (length ifs)) ifs of
                       None \<Rightarrow> (ifs, False)
                     | Some ifs' \<Rightarrow> (set_last (iface_of ifa a) ifs', ok))
                | _ \<Rightarrow> s)))"

text \<open>The hardware address: that of the first link-level entry of the same physical interface.\<close>

definition link_address :: "string \<Rightarrow> ifaddr \<Rightarrow> mem option" where
  "link_address name ifa =
     (case ifa_addr ifa of
        Some (Packet_Addr m) \<Rightarrow>
          if take IFNAME_SIZE name = take IFNAME_SIZE (ifa_name ifa) then Some m else None
      | Some (Link_Addr len m) \<Rightarrow>
          if len = ARTNET_MAC_SIZE \<and> take IFNAME_SIZE name = take IFNAME_SIZE (ifa_name ifa)
          then Some m else None
      | _ \<Rightarrow> None)"

definition physical_name :: "string \<Rightarrow> string" where
  "physical_name name = takeWhile (\<lambda>c. c \<noteq> CHR '':'') name"

primrec first_link :: "string \<Rightarrow> ifaddr list \<Rightarrow> mem option" where
  "first_link name [] = None"
| "first_link name (ifa # rest) =
     (case link_address name ifa of Some m \<Rightarrow> Some m | None \<Rightarrow> first_link name rest)"

definition set_hw :: "ifaddr list \<Rightarrow> iface \<Rightarrow> iface" where
  "set_hw l ift =
     (case first_link (physical_name (if_name ift)) l of
        None \<Rightarrow> ift
      | Some m \<Rightarrow> ift\<lparr>if_hw := memcpy (if_hw ift) 0 m 0 ARTNET_MAC_SIZE\<rparr>)"

text \<open>The code, the list, and whether no NULL was written through.\<close>

definition get_ifaces ::
    "(nat \<Rightarrow> bool) \<Rightarrow> ifaddr list option \<Rightarrow> int \<times> iface list \<times> bool" where
  "get_ifaces callocs answer =
     (case answer of
        None \<Rightarrow> (ARTNET_ENET, [], True)
      | Some l \<Rightarrow>
          (case fold (add_iface_if_needed callocs) l ([], True) of
             (ifs, ok) \<Rightarrow> (0, map (set_hw l) ifs, ok)))"

section \<open>With ioctl\<close>

text \<open>What the calls answer for one element of the configuration, \<open>None\<close> for an error.\<close>

record ifreq =
  ifr_inet :: bool
  ifr_ip :: ip
  ifr_flags :: "if_flags option"
  ifr_broadaddr :: "ip option"
  ifr_netmask :: "ip option"
  ifr_asks_hw :: bool
  ifr_hwaddr :: "mem option"

text \<open>An answer to \<open>SIOCGIFCONF\<close>: an error (\<open>EINVAL\<close> or another), or a length and the elements.\<close>

datatype conf_answer = Conf_Error bool | Conf nat "ifreq list"

text \<open>
  The buffer grows until two answers have the same length, so the loop has no bound of its own.
\<close>

partial_function (option) get_conf ::
    "(nat \<Rightarrow> bool) \<Rightarrow> (nat \<Rightarrow> conf_answer) \<Rightarrow> nat \<Rightarrow> nat \<Rightarrow> (int + ifreq list) option" where
  "get_conf granted answers k lastlen =
     (if \<not> granted k then Some (Inl ARTNET_EMEM)
      else
        (case answers k of
           Conf_Error einval \<Rightarrow>
             if \<not> einval \<or> lastlen \<noteq> 0 then Some (Inl ARTNET_ENET)
             else get_conf granted answers (Suc k) lastlen
         | Conf len l \<Rightarrow>
             if len = lastlen then Some (Inr l) else get_conf granted answers (Suc k) len))"

declare get_conf.simps [code]

text \<open>
  One element: \<open>Inl\<close> ends the search with a code, \<open>Inr\<close> goes on.  The hardware address is asked
  for only when the flags have a bit in common with the number of the \<open>ioctl\<close>.
\<close>

definition add_ifreq ::
    "(nat \<Rightarrow> bool) \<Rightarrow> ifreq \<Rightarrow> iface list \<Rightarrow> int + iface list" where
  "add_ifreq callocs r ifs =
     (if \<not> ifr_inet r then Inr ifs
      else
        (case ifr_flags r of
           None \<Rightarrow> Inl ARTNET_ENET
         | Some fl \<Rightarrow>
             if \<not> iff_up fl then Inr ifs
             else if iff_loopback fl then Inr ifs
             else
               (case new_iface (callocs (length ifs)) ifs of
                  None \<Rightarrow> Inl ARTNET_EOK
                | Some ifs' \<Rightarrow>
                    (let i = zero_iface\<lparr>if_ip := ifr_ip r\<rparr>
                     in if iff_broadcast fl \<and> ifr_broadaddr r = None then Inl ARTNET_ENET
                        else
                          (let i = (case ifr_broadaddr r of
                                      Some b \<Rightarrow> if iff_broadcast fl then i\<lparr>if_bcast := b\<rparr> else i
                                    | None \<Rightarrow> i);
                               i = (case ifr_netmask r of Some m \<Rightarrow> i\<lparr>if_mask := m\<rparr> | None \<Rightarrow> i)
                           in if \<not> ifr_asks_hw r then Inr (set_last i ifs')
                              else
                                (case ifr_hwaddr r of
                                   None \<Rightarrow> Inl ARTNET_ENET
                                 | Some m \<Rightarrow>
                                     Inr (set_last
                                       (i\<lparr>if_hw := memcpy (if_hw i) 0 m 0 ARTNET_MAC_SIZE\<rparr>) ifs')))))))"

primrec add_ifreqs :: "(nat \<Rightarrow> bool) \<Rightarrow> ifreq list \<Rightarrow> iface list \<Rightarrow> int + iface list" where
  "add_ifreqs callocs [] ifs = Inr ifs"
| "add_ifreqs callocs (r # rs) ifs =
     (case add_ifreq callocs r ifs of Inl c \<Rightarrow> Inl c | Inr ifs \<Rightarrow> add_ifreqs callocs rs ifs)"

text \<open>
  After \<open>e_free_list\<close> the head still points to the list that was freed: the second component of
  the result is then \<open>None\<close>.
\<close>

definition get_ifaces_ioctl ::
    "bool \<Rightarrow> (nat \<Rightarrow> bool) \<Rightarrow> (nat \<Rightarrow> conf_answer) \<Rightarrow> (nat \<Rightarrow> bool) \<Rightarrow>
     (int \<times> iface list option) option" where
  "get_ifaces_ioctl has_socket granted answers callocs =
     (if \<not> has_socket then Some (ARTNET_ENET, Some [])
      else
        (case get_conf granted answers 0 0 of
           None \<Rightarrow> None
         | Some (Inl c) \<Rightarrow> Some (c, Some [])
         | Some (Inr l) \<Rightarrow>
             (case add_ifreqs callocs l [] of
                Inl c \<Rightarrow> Some (c, None)
              | Inr ifs \<Rightarrow> Some (ARTNET_EOK, Some ifs))))"

section \<open>On Windows\<close>

text \<open>An adapter with its addresses and their masks, and the answers of \<open>GetAdaptersInfo\<close>.  The
  adapters are a list: that the loop stops at the end of its buffer never ends it earlier.\<close>

record adapter =
  ad_ethernet :: bool
  ad_name :: string
  ad_address :: mem
  ad_addresses :: "(ip \<times> ip) list"

datatype adapters_answer = Adapters "adapter list" | Buffer_Overflow | Adapters_Error

partial_function (option) get_adapters ::
    "(nat \<Rightarrow> bool) \<Rightarrow> (nat \<Rightarrow> adapters_answer) \<Rightarrow> nat \<Rightarrow> (int + adapter list) option" where
  "get_adapters granted answers k =
     (if \<not> granted k then Some (Inl ARTNET_EMEM)
      else
        (case answers k of
           Adapters l \<Rightarrow> Some (Inr l)
         | Buffer_Overflow \<Rightarrow> get_adapters granted answers (Suc k)
         | Adapters_Error \<Rightarrow> Some (Inl ARTNET_ENET)))"

definition directed_broadcast :: "ip \<Rightarrow> ip \<Rightarrow> ip" where
  "directed_broadcast net m = (net AND m) OR (0xFFFFFFFF XOR m)"

definition adapter_iface :: "adapter \<Rightarrow> ip \<times> ip \<Rightarrow> iface" where
  "adapter_iface ad a =
     \<lparr>if_ip = fst a, if_bcast = directed_broadcast (fst a) (snd a), if_mask = snd a,
      if_hw = memcpy zero_mem 0 (ad_address ad) 0 ARTNET_MAC_SIZE,
      if_name = take IFNAME_SIZE (ad_name ad)\<rparr>"

definition adapter_addresses :: "adapter list \<Rightarrow> (adapter \<times> ip \<times> ip) list" where
  "adapter_addresses l =
     concat (map (\<lambda>ad. if ad_ethernet ad
                      then map (Pair ad) (filter (\<lambda>a. fst a \<noteq> 0) (ad_addresses ad)) else []) l)"

text \<open>An address for which \<open>calloc\<close> fails is left out.\<close>

definition adapter_ifaces :: "(nat \<Rightarrow> bool) \<Rightarrow> adapter list \<Rightarrow> iface list" where
  "adapter_ifaces callocs l =
     map (\<lambda>(k, ad, a). adapter_iface ad a)
       (filter (\<lambda>(k, x). callocs k) (enumerate 0 (adapter_addresses l)))"

definition get_ifaces_windows ::
    "(nat \<Rightarrow> bool) \<Rightarrow> (nat \<Rightarrow> adapters_answer) \<Rightarrow> (nat \<Rightarrow> bool) \<Rightarrow>
     (int \<times> iface list) option" where
  "get_ifaces_windows granted answers callocs =
     (case get_adapters granted answers 0 of
        None \<Rightarrow> None
      | Some (Inl c) \<Rightarrow> Some (c, [])
      | Some (Inr l) \<Rightarrow> Some (ARTNET_EOK, adapter_ifaces callocs l))"

section \<open>What is found\<close>

text \<open>The interfaces of the first version are those of the usable addresses, in their order.\<close>

definition addr_of :: "ifaddr \<Rightarrow> ip" where
  "addr_of ifa = (case ifa_addr ifa of Some (Inet a) \<Rightarrow> a | _ \<Rightarrow> 0)"

lemma add_iface_step:
  assumes "\<And>k. callocs k"
  shows "add_iface_if_needed callocs ifa (ifs, ok) =
    (if usable ifa then ifs @ [iface_of ifa (addr_of ifa)] else ifs, ok)"
  using assms
  by (auto simp: add_iface_if_needed_def usable_def new_iface_def set_last_def addr_of_def
      split: option.splits sock_addr.splits)

lemma add_ifaces:
  assumes "\<And>k. callocs k"
  shows "fold (add_iface_if_needed callocs) l (ifs, ok) =
    (ifs @ map (\<lambda>ifa. iface_of ifa (addr_of ifa)) (filter usable l), ok)"
  by (induction l arbitrary: ifs) (simp_all add: add_iface_step [OF assms])

lemma get_ifaces_found:
  assumes "\<And>k. callocs k"
  shows "get_ifaces callocs (Some l) =
    (0, map (\<lambda>ifa. set_hw l (iface_of ifa (addr_of ifa))) (filter usable l), True)"
  by (simp add: get_ifaces_def add_ifaces [OF assms] o_def)

lemma set_hw_fields [simp]:
  "if_ip (set_hw l i) = if_ip i" "if_bcast (set_hw l i) = if_bcast i"
  "if_mask (set_hw l i) = if_mask i" "if_name (set_hw l i) = if_name i"
  by (simp_all add: set_hw_def split: option.split)

lemma null_write_stays:
  "\<not> ok \<Longrightarrow> \<not> snd (fold (add_iface_if_needed callocs) l (ifs, ok))"
proof (induction l arbitrary: ifs ok)
  case (Cons a l)
  have "\<not> snd (add_iface_if_needed callocs a (ifs, ok))"
    using Cons.prems
    by (simp add: add_iface_if_needed_def split: option.split sock_addr.split)
  then show ?case using Cons.IH by (cases "add_iface_if_needed callocs a (ifs, ok)") simp
qed simp

end
