(* ===== verification/Node_New.thy ===== *)
theory Node_New
  imports Observed Interfaces
begin

text \<open>
  Creating a node: \<open>artnet_new\<close> (\<open>artnet/artnet.c\<close>) and \<open>artnet_net_init\<close>
  (\<open>artnet/network.c\<close>).  What \<open>get_ifaces\<close> returned, a code and the list of interfaces, is an
  argument.  The theory ends with the surroundings that the witnesses run in.
\<close>

section \<open>The chosen interface\<close>

definition use_iface :: "iface \<Rightarrow> node \<Rightarrow> node" where
  "use_iface ift n =
     n\<lparr>ip_addr := if_ip ift, bcast_addr := if_bcast ift, subnet_mask := if_mask ift,
       hw_addr := memcpy (hw_addr n) 0 (if_hw ift) 0 ARTNET_MAC_SIZE\<rparr>"

definition artnet_net_init ::
    "env \<Rightarrow> int \<times> iface list \<Rightarrow> node \<Rightarrow> string option \<Rightarrow> int \<times> node" where
  "artnet_net_init e ifaces n preferred_ip =
     (case ifaces of
        (ret, ifts) \<Rightarrow>
          if ret \<noteq> 0 then (ret, n)
          else
          (case preferred_ip of
             Some s \<Rightarrow>
               (case artnet_net_inet_aton e s of
                  (ret, None) \<Rightarrow> (ret, n)
                | (_, Some wanted_ip) \<Rightarrow>
                    (case find (\<lambda>ift. if_ip ift = wanted_ip) ifts of
                       None \<Rightarrow> (ARTNET_ENET, n)
                     | Some ift \<Rightarrow> (ARTNET_EOK, use_iface ift n)))
           | None \<Rightarrow>
               (case ifts of [] \<Rightarrow> (ARTNET_ENET, n) | ift # _ \<Rightarrow> (ARTNET_EOK, use_iface ift n))))"

section \<open>The zeroed node\<close>

definition zero_tod :: tod where
  "zero_tod = \<lparr>tod_data = None, tod_length = 0, tod_max_length = 0\<rparr>"

definition zero_in_port :: input_port where
  "zero_in_port = \<lparr>port_addr = 0, port_default_addr = 0, port_net_ctl = 0, port_status = 0,
     port_enabled = False, port_tod = zero_tod, seq = 0, last_dmx_data = zero_mem,
     last_dmx_length = 0, last_dmx_send_time = 0\<rparr>"

definition zero_out_port :: output_port where
  "zero_out_port = \<lparr>port_addr = 0, port_default_addr = 0, port_net_ctl = 0, port_status = 0,
     port_enabled = False, port_tod = zero_tod, out_length = 0, out_data = zero_mem,
     merge_mode = ARTNET_MERGE_HTP, proto_sel = 0, output_style = 0, rdm_enabled = 0,
     dataA = zero_mem, dataB = zero_mem, physicalA = 0, physicalB = 0, timeA = 0, timeB = 0,
     last_dmx_time = 0, failsafe_triggered = False, failsafe_data = zero_mem,
     failsafe_length = 0, nzs_start_code = 0, sync_data = zero_mem, sync_length = 0,
     sync_pending = False, cancel_merge_pending = False, port_dmx_source = 0, ipA = 0, ipB = 0\<rparr>"

definition zero_node :: node where
  "zero_node = \<lparr>node_type = ARTNET_SRV, mode = ARTNET_OFF, reply_addr = 0, ip_addr = 0,
     bcast_addr = 0, subnet_mask = 0, gateway = 0, hw_addr = zero_mem, default_netSwitch = 0,
     netSwitch_net_ctl = 0, default_subSwitch = 0, subSwitch_net_ctl = 0,
     send_apr_on_change = False, ar_count = 0, shortName = zero_mem, longName = zero_mem,
     report = zero_mem, netSwitch = 0, subSwitch = 0, oem_hi = 0, oem_lo = 0, esta_hi = 0,
     esta_lo = 0, bcast_limit = 0, report_code = 0, led_state = 0, style_code = 0, status2 = 0,
     status3 = 0, failsafe_mode = 0, rdm_reply_addr = 0, tod_reply_addr = 0, acn_priority = 0,
     default_resp_uid = zero_mem, bind_index = 0, vlc_disabled = False, diag_enabled = False,
     diag_unicast = False, diag_controller_count = 0, diag_controller_ips = (\<lambda>_. 0),
     tod_requester_count = 0, tod_requester_ips = (\<lambda>_. 0), diag_priority = 0, bqp_policy = 0,
     refresh_rate = 0, sync_mode = False, last_sync_time = 0, last_dmx_source = 0, nl_seq = 0,
     apr_pending_time = 0, apr_pending = False, callbacks = (\<lambda>_. no_callback),
     port_types = (\<lambda>_. 0), in_ports = (\<lambda>_. zero_in_port), out_ports = (\<lambda>_. zero_out_port),
     ar_temp = zero_mem, nodes = \<lparr>entries = [], current = None, nl_length = 0\<rparr>,
     node_fw = no_firmware, peer = None, master = False, clk = 0, rnd = 0, mallocs = 0,
     sends = 0, sent = [], oob = False\<rparr>"

section \<open>artnet_new\<close>

definition new_ports :: "nat \<Rightarrow> node \<Rightarrow> node" where
  "new_ports i n =
     upd_in i (\<lambda>p. p\<lparr>port_enabled := False, seq := 1, last_dmx_send_time := 0,
                       last_dmx_length := 0, last_dmx_data := memset (last_dmx_data p) 0 ARTNET_DMX_LENGTH,
                       port_tod := snd (reset_tod (port_tod p))\<rparr>)
       (upd_out i (\<lambda>p. p\<lparr>merge_mode := ARTNET_MERGE_HTP, port_enabled := False,
                           last_dmx_time := 0, port_dmx_source := 0, failsafe_triggered := False,
                           failsafe_length := 0, sync_length := 0, sync_pending := False,
                           failsafe_data := memset (failsafe_data p) 0 ARTNET_DMX_LENGTH,
                           sync_data := memset (sync_data p) 0 ARTNET_DMX_LENGTH,
                           port_tod := snd (reset_tod (port_tod p))\<rparr>) n)"

text \<open>\<open>None\<close> is the NULL that the function returns when it fails.\<close>

definition artnet_new :: "env \<Rightarrow> bool \<Rightarrow> int \<times> iface list \<Rightarrow> string option \<Rightarrow> node option" where
  "artnet_new e allocated ifaces ip =
     (if \<not> allocated then None
      else
        (let n = zero_node\<lparr>oem_hi := OEM_HI, oem_lo := OEM_LO, esta_hi := ESTA_HI,
                   esta_lo := ESTA_LO, bcast_limit := 0, peer := None, master := True\<rparr>
         in case artnet_net_init e ifaces n ip of
              (ret, n) \<Rightarrow>
                if ret \<noteq> 0 then None
                else
                  (let n = n\<lparr>send_apr_on_change := False, ar_count := 0,
                             report_code := ARTNET_RC_POWER_OK, reply_addr := 0,
                             mode := ARTNET_STANDBY, status2 := 0x08 OR 0x80,
                             status3 := 0x20 OR 0x08, acn_priority := 0xFF,
                             diag_priority := 0xFF, refresh_rate := 0, bind_index := 1,
                             vlc_disabled := False,
                             default_resp_uid := memset (default_resp_uid n) 0 ARTNET_RDM_UID_WIDTH\<rparr>
                   in Some (for_upto ARTNET_MAX_PORTS new_ports n))))"

section \<open>A new node is well formed\<close>

lemma tod_ok_reset [simp]: "tod_ok (snd (reset_tod t))" "tod_ok (snd (flush_tod t))"
  by (simp_all add: tod_ok_def)

lemma zero_ports_ok [simp]: "out_ok zero_out_port"
  by (simp add: out_ok_def zero_out_port_def in_512_def tod_ok_def zero_tod_def wf_tod_def
      tod_uids_def)

lemma use_iface_fields [simp]:
  "in_ports (use_iface ift n) = in_ports n" "out_ports (use_iface ift n) = out_ports n"
  "nodes (use_iface ift n) = nodes n" "node_fw (use_iface ift n) = node_fw n"
  "netSwitch (use_iface ift n) = netSwitch n" "subSwitch (use_iface ift n) = subSwitch n"
  "nl_seq (use_iface ift n) = nl_seq n" "oob (use_iface ift n) = oob n"
  "tod_requester_count (use_iface ift n) = tod_requester_count n"
  "diag_controller_count (use_iface ift n) = diag_controller_count n"
  by (simp_all add: use_iface_def)

lemma net_init_cases:
  "artnet_net_init e ifaces n ip = (ret, n') \<Longrightarrow> (\<exists>ift. n' = use_iface ift n) \<or> n' = n"
  by (auto simp: artnet_net_init_def split: option.splits list.splits prod.splits if_splits)

lemma artnet_new_ok:
  assumes "artnet_new e allocated ifaces ip = Some n"
  shows "node_ok n" and "mode n = ARTNET_STANDBY"
proof -
  let ?z = "zero_node\<lparr>oem_hi := OEM_HI, oem_lo := OEM_LO, esta_hi := ESTA_HI,
    esta_lo := ESTA_LO, bcast_limit := 0, peer := None, master := True\<rparr>"
  obtain ret m where init: "artnet_net_init e ifaces ?z ip = (ret, m)"
    by (cases "artnet_net_init e ifaces ?z ip")
  let ?m = "m\<lparr>send_apr_on_change := False, ar_count := 0, report_code := ARTNET_RC_POWER_OK,
    reply_addr := 0, mode := ARTNET_STANDBY, status2 := 0x08 OR 0x80, status3 := 0x20 OR 0x08,
    acn_priority := 0xFF, diag_priority := 0xFF, refresh_rate := 0, bind_index := 1,
    vlc_disabled := False,
    default_resp_uid := memset (default_resp_uid m) 0 ARTNET_RDM_UID_WIDTH\<rparr>"
  from assms init have n: "n = for_upto 4 new_ports ?m"
    by (simp add: artnet_new_def Let_def split: if_splits)
  have z: "out_ports ?z = (\<lambda>_. zero_out_port)" "in_ports ?z = (\<lambda>_. zero_in_port)"
    "nodes ?z = \<lparr>entries = [], current = None, nl_length = 0\<rparr>" "node_fw ?z = no_firmware"
    "netSwitch ?z = 0" "subSwitch ?z = 0" "nl_seq ?z = 0" "\<not> oob ?z"
    "tod_requester_count ?z = 0" "diag_controller_count ?z = 0"
    by (simp_all add: zero_node_def)
  from net_init_cases [OF init]
  have m: "out_ports m = (\<lambda>_. zero_out_port)" "in_ports m = (\<lambda>_. zero_in_port)"
    "nodes m = \<lparr>entries = [], current = None, nl_length = 0\<rparr>" "node_fw m = no_firmware"
    "netSwitch m = 0" "subSwitch m = 0" "nl_seq m = 0" "\<not> oob m"
    "tod_requester_count m = 0" "diag_controller_count m = 0"
    using z by auto
  have addr: "addr_ok 0 0 0" by (simp add: addr_ok_def make_addr_def addr_port_def)
  have ports: "i < 4 \<Longrightarrow> i = 0 \<or> i = 1 \<or> i = 2 \<or> i = 3" for i :: nat by auto
  show "node_ok n"
    using addr m
    by (auto simp: n node_ok_parts for_upto_4 new_ports_def wf_nl_def fw_ok_def no_firmware_def
        in_ok_def in_512_def zero_in_port_def out_ok_def zero_out_port_def dest!: ports)
  show "mode n = ARTNET_STANDBY"
    by (simp add: n for_upto_4 new_ports_def)
qed

section \<open>Surroundings for the witnesses\<close>

text \<open>
  A clock that stands at one second, a socket that takes every datagram, memory that is always
  granted, callbacks that do nothing, and a node that is on, with its first output port enabled.
\<close>

definition quiet_env :: env where
  "quiet_env = \<lparr>env_time = (\<lambda>_. 1000), env_rand = (\<lambda>_. 0), env_malloc = (\<lambda>_. True),
     env_garbage = (\<lambda>_. zero_mem), env_sendto = (\<lambda>_ p. p_length p),
     env_call = (\<lambda>_ _ _ n. (0, n)), env_aton = (\<lambda>_. Some 0x0300000A)\<rparr>"

definition demo_out_port :: output_port where
  "demo_out_port = zero_out_port\<lparr>port_enabled := True\<rparr>"

definition demo_node :: node where
  "demo_node = zero_node\<lparr>node_type := ARTNET_NODE, mode := ARTNET_ON, ip_addr := 0x0200000A,
     bcast_addr := 0xFF00000A, reply_addr := 0x0100000A, tod_reply_addr := 0x0100000A,
     bind_index := 1, master := True,
     in_ports := (\<lambda>_. zero_in_port\<lparr>seq := 1\<rparr>),
     out_ports := (\<lambda>_. zero_out_port)(0 := demo_out_port)\<rparr>"

lemma observer_quiet [simp]: "observer quiet_env"
  by (simp add: observer_def quiet_env_def)

lemma cb_ok_quiet [simp]: "cb_ok quiet_env"
  by (simp add: observer_cb_ok)

lemma quiet_time [simp]: "env_time quiet_env k = 1000"
  by (simp add: quiet_env_def)

lemma demo_fields [simp]:
  "callbacks demo_node = (\<lambda>_. no_callback)" "mode demo_node = ARTNET_ON"
  "out_ports demo_node 0 = demo_out_port" "\<not> sync_mode demo_node"
  "node_type demo_node = ARTNET_NODE"
  by (simp_all add: demo_node_def zero_node_def)

lemma node_ok_demo [simp]: "node_ok demo_node"
proof -
  have "addr_ok 0 0 0" by (simp add: addr_ok_def make_addr_def addr_port_def)
  then show ?thesis
    by (simp add: demo_node_def zero_node_def node_ok_parts demo_out_port_def wf_nl_def fw_ok_def
        no_firmware_def zero_in_port_def in_ok_def in_512_def tod_ok_def zero_tod_def wf_tod_def
        tod_uids_def) (simp add: zero_out_port_def)
qed

end
