(* ===== verification/Output.thy ===== *)
theory Output
  imports Node_New
begin

text \<open>
  DMX output: staging, merging of two sources, and the handlers of ArtDmx, ArtSync and ArtNzs
  (\<open>artnet/receive.c\<close>).  The array a pointer leads to is a memory; each copy into one of the
  512-byte arrays of a port says so with \<open>inside\<close>.
\<close>

section \<open>Committing, staging and flushing\<close>

definition dmx_copy_length :: "int \<Rightarrow> int" where
  "dmx_copy_length len =
     (let copy_length = min len ARTNET_DMX_LENGTH in if copy_length < 0 then 0 else copy_length)"

definition commit_output_data :: "nat \<Rightarrow> mem \<Rightarrow> int \<Rightarrow> node \<Rightarrow> node" where
  "commit_output_data i data len n =
     (let copy_length = dmx_copy_length len
      in upd_out i (\<lambda>port. port\<lparr>out_data := memcpy (out_data port) 0 data 0 (nat copy_length),
                                 out_length := copy_length\<rparr>) n)"

definition stage_output_data :: "nat \<Rightarrow> mem \<Rightarrow> int \<Rightarrow> node \<Rightarrow> node" where
  "stage_output_data i data len n =
     (let copy_length = dmx_copy_length len
      in if sync_mode n then
           upd_out i (\<lambda>port. port\<lparr>sync_data := memcpy (sync_data port) 0 data 0 (nat copy_length),
                                    sync_length := copy_length, sync_pending := True\<rparr>) n
         else commit_output_data i data copy_length n)"

definition flush_sync_output :: "env \<Rightarrow> nat \<Rightarrow> node \<Rightarrow> node" where
  "flush_sync_output e i n =
     (let port = out_ports n i
      in if \<not> sync_pending port then n
         else notify e dmx_c (Port_Arg (int i))
           (upd_out i (\<lambda>port. port\<lparr>sync_pending := False\<rparr>)
             (commit_output_data i (sync_data port) (sync_length port) n)))"

section \<open>Merging\<close>

definition clear_status :: "u8 \<Rightarrow> u8 \<Rightarrow> u8" where
  "clear_status s m = s AND NOT m"

definition both_sources :: "output_port \<Rightarrow> bool" where
  "both_sources port \<longleftrightarrow> ipA port \<noteq> 0 \<and> ipB port \<noteq> 0"

definition expire_sources :: "u64 \<Rightarrow> output_port \<Rightarrow> output_port" where
  "expire_sources now port =
     port\<lparr>ipA := (if MERGE_TIMEOUT_MS < sint (now - timeA port) then 0 else ipA port),
          ipB := (if MERGE_TIMEOUT_MS < sint (now - timeB port) then 0 else ipB port)\<rparr>"

definition check_merge_timeouts :: "env \<Rightarrow> nat \<Rightarrow> node \<Rightarrow> node" where
  "check_merge_timeouts e i n =
     (let (now, n) = artnet_gettime_ms e n;
          port = out_ports n i;
          was_merging = port_status port AND PORT_STATUS_MERGE \<noteq> 0 \<and> both_sources port;
          n = upd_out i (expire_sources now) n
      in if was_merging \<and> \<not> both_sources (out_ports n i) then
           (let n = upd_out i (\<lambda>port. port\<lparr>port_status :=
                      clear_status (port_status port) PORT_STATUS_MERGE\<rparr>) n
            in if send_apr_on_change n then snd (artnet_tx_poll_reply e n) else n)
         else n)"

definition merged_data :: "output_port \<Rightarrow> nat \<Rightarrow> mem \<Rightarrow> mem" where
  "merged_data port k latest =
     (case merge_mode port of
        ARTNET_MERGE_HTP \<Rightarrow>
          (\<lambda>j. if j < k then max (dataA port j) (dataB port j) else sync_data port j)
      | ARTNET_MERGE_LTP \<Rightarrow> memcpy (sync_data port) 0 latest 0 k)"

definition merge :: "env \<Rightarrow> nat \<Rightarrow> int \<Rightarrow> mem \<Rightarrow> node \<Rightarrow> node" where
  "merge e i len latest n =
     (let n = upd_out i (\<lambda>port. port\<lparr>sync_data := merged_data port (nat len) latest,
                                      sync_length := len, sync_pending := True\<rparr>)
                (inside (len \<le> ARTNET_DMX_LENGTH) n)
      in if \<not> sync_mode n then flush_sync_output e i n else n)"

section \<open>ArtDmx\<close>

definition dmx_payload :: "packet \<Rightarrow> mem" where
  "dmx_payload p = (\<lambda>j. get_at artnet_dmx_s ''data'' j p)"

definition dmx_length :: "packet \<Rightarrow> int" where
  "dmx_length p = min (get_short artnet_dmx_s ''lengthHi'' ''length'' p) ARTNET_DMX_LENGTH"

text \<open>The packet's data and time go to buffer A or B; a new source is recorded with them.\<close>

definition store_A :: "env \<Rightarrow> packet \<Rightarrow> nat \<Rightarrow> node \<Rightarrow> node" where
  "store_A e p i n =
     (let (now, n) = artnet_gettime_ms e n
      in upd_out i (\<lambda>port. port\<lparr>timeA := now,
           dataA := memcpy (dataA port) 0 (dmx_payload p) 0 (nat (dmx_length p))\<rparr>)
           (inside (dmx_length p \<le> ARTNET_DMX_LENGTH) n))"

definition store_B :: "env \<Rightarrow> packet \<Rightarrow> nat \<Rightarrow> node \<Rightarrow> node" where
  "store_B e p i n =
     (let (now, n) = artnet_gettime_ms e n
      in upd_out i (\<lambda>port. port\<lparr>timeB := now,
           dataB := memcpy (dataB port) 0 (dmx_payload p) 0 (nat (dmx_length p))\<rparr>)
           (inside (dmx_length p \<le> ARTNET_DMX_LENGTH) n))"

definition new_A :: "packet \<Rightarrow> nat \<Rightarrow> node \<Rightarrow> node" where
  "new_A p i = upd_out i (\<lambda>port. port\<lparr>ipA := p_from p,
     physicalA := get8 artnet_dmx_s ''physical'' p\<rparr>)"

definition new_B :: "packet \<Rightarrow> nat \<Rightarrow> node \<Rightarrow> node" where
  "new_B p i = upd_out i (\<lambda>port. port\<lparr>ipB := p_from p,
     physicalB := get8 artnet_dmx_s ''physical'' p\<rparr>)"

definition merge_started :: "env \<Rightarrow> nat \<Rightarrow> node \<Rightarrow> node" where
  "merge_started e i n =
     (let n = upd_out i (\<lambda>port. port\<lparr>port_status := port_status port OR PORT_STATUS_MERGE\<rparr>) n
      in if send_apr_on_change n then snd (artnet_tx_poll_reply e n) else n)"

definition stage_packet :: "packet \<Rightarrow> nat \<Rightarrow> node \<Rightarrow> node" where
  "stage_packet p i = stage_output_data i (dmx_payload p) (dmx_length p)"

definition merge_A :: "env \<Rightarrow> packet \<Rightarrow> nat \<Rightarrow> node \<Rightarrow> node" where
  "merge_A e p i n = merge e i (dmx_length p) (dataA (out_ports n i)) n"

definition merge_B :: "env \<Rightarrow> packet \<Rightarrow> nat \<Rightarrow> node \<Rightarrow> node" where
  "merge_B e p i n = merge e i (dmx_length p) (dataB (out_ports n i)) n"

text \<open>
  The cases of the truth table.  The addresses \<open>ip_a\<close> and \<open>ip_b\<close> are those read before
  the merge timeouts were checked.
\<close>

definition dmx_cases :: "env \<Rightarrow> packet \<Rightarrow> nat \<Rightarrow> ip \<Rightarrow> ip \<Rightarrow> node \<Rightarrow> node" where
  "dmx_cases e p i ip_a ip_b n =
     (let port = out_ports n i;
          from = p_from p;
          physical = get8 artnet_dmx_s ''physical'' p;
          is_A = ip_a = from \<and> physicalA port = physical;
          is_B = ip_b = from \<and> physicalB port = physical
      in if ip_a = 0 \<and> ip_b = 0 then stage_packet p i (store_A e p i (new_A p i n))
         else if is_A \<and> ip_b = 0 then stage_packet p i (store_A e p i n)
         else if ip_a = 0 \<and> is_B then stage_packet p i (store_B e p i n)
         else if \<not> is_A \<and> ip_b = 0 then
           merge_started e i (merge_B e p i (store_B e p i (new_B p i n)))
         else if ip_a = 0 \<and> \<not> is_B then
           merge_started e i (merge_A e p i (store_A e p i (new_A p i n)))
         else if is_A \<and> \<not> is_B then merge_A e p i (store_A e p i n)
         else if \<not> is_A \<and> is_B then merge_B e p i (store_B e p i n)
         else n)"

definition dmx_cancel_merge :: "env \<Rightarrow> packet \<Rightarrow> nat \<Rightarrow> node \<Rightarrow> node" where
  "dmx_cancel_merge e p i n =
     (if cancel_merge_pending (out_ports n i) then
        (let n = upd_out i (\<lambda>port. port\<lparr>cancel_merge_pending := False,
                   port_status := clear_status (port_status port) PORT_STATUS_MERGE\<rparr>) n
         in upd_out i (\<lambda>port. port\<lparr>ipB := 0, physicalB := 0, timeB := 0,
              dataB := memset (dataB port) 0 ARTNET_DMX_LENGTH\<rparr>)
              (store_A e p i (new_A p i n)))
      else n)"

definition handle_dmx_port :: "env \<Rightarrow> packet \<Rightarrow> nat \<Rightarrow> node \<Rightarrow> node" where
  "handle_dmx_port e p i n =
     (let port = out_ports n i
      in if \<not> (get16 artnet_dmx_s ''universe'' p = port_addr port \<and> port_enabled port) then n
         else
           (let ip_a = ipA port;
                ip_b = ipB port;
                n = upd_out i (\<lambda>port. port\<lparr>
                      port_status := port_status port OR PORT_STATUS_ACT_MASK,
                      nzs_start_code := 0, port_dmx_source := p_from p\<rparr>) n;
                n = check_merge_timeouts e i n;
                n = dmx_cases e p i ip_a ip_b n;
                n = dmx_cancel_merge e p i n;
                n = (if \<not> sync_mode n then notify e dmx_c (Port_Arg (int i)) n else n);
                (now, n) = artnet_gettime_ms e n
            in upd_out i (\<lambda>port. port\<lparr>last_dmx_time := now, failsafe_triggered := False\<rparr>) n))"

definition handle_dmx :: "env \<Rightarrow> node \<Rightarrow> packet \<Rightarrow> node" where
  "handle_dmx e n p =
     (case check_callback e n p ARTNET_DMX_HANDLER of
        (ret, n) \<Rightarrow>
          if ret \<noteq> 0 then n
          else for_upto ARTNET_MAX_PORTS (handle_dmx_port e p) (n\<lparr>last_dmx_source := p_from p\<rparr>))"

section \<open>ArtSync\<close>

definition sync_accepts :: "packet \<Rightarrow> output_port \<Rightarrow> bool" where
  "sync_accepts p port \<longleftrightarrow>
     port_enabled port \<and>
     \<not> (port_status port AND PORT_STATUS_MERGE \<noteq> 0 \<and> both_sources port \<and> ipA port \<noteq> ipB port) \<and>
     \<not> (port_dmx_source port \<noteq> 0 \<and> port_dmx_source port \<noteq> p_from p)"

definition handle_sync :: "env \<Rightarrow> node \<Rightarrow> packet \<Rightarrow> node" where
  "handle_sync e n p =
     (case check_callback e n p ARTNET_SYNC_HANDLER of
        (ret, n) \<Rightarrow>
          if ret \<noteq> 0 then n
          else
            (case for_upto ARTNET_MAX_PORTS
                    (\<lambda>i (accepted, n).
                       if sync_accepts p (out_ports n i) then (True, flush_sync_output e i n)
                       else (accepted, n)) (False, n) of
               (accepted, n) \<Rightarrow>
                 if accepted then
                   (case artnet_gettime_ms e (n\<lparr>sync_mode := True\<rparr>) of
                      (now, n) \<Rightarrow> n\<lparr>last_sync_time := now\<rparr>)
                 else n))"

section \<open>ArtNzs\<close>

definition nzs_length :: "packet \<Rightarrow> int" where
  "nzs_length p = min (get_short artnet_nzs_s ''lengthHi'' ''length'' p) ARTNET_DMX_LENGTH"

definition nzs_payload :: "packet \<Rightarrow> mem" where
  "nzs_payload p = (\<lambda>j. get_at artnet_nzs_s ''data'' j p)"

definition handle_nzs :: "env \<Rightarrow> node \<Rightarrow> packet \<Rightarrow> node" where
  "handle_nzs e n p =
     (case check_callback e n p ARTNET_NZS_HANDLER of
        (ret, n) \<Rightarrow>
          if ret \<noteq> 0 then n
          else
            (case find (\<lambda>i. port_enabled (out_ports n i) \<and>
                          get16 artnet_nzs_s ''universe'' p = port_addr (out_ports n i))
                    [0..<ARTNET_MAX_PORTS] of
               None \<Rightarrow> n
             | Some i \<Rightarrow>
                 (let n = upd_out i (\<lambda>port. port\<lparr>
                            out_data := memcpy (out_data port) 0 (nzs_payload p) 0 (nat (nzs_length p)),
                            out_length := nzs_length p,
                            nzs_start_code := get8 artnet_nzs_s ''startCode'' p,
                            port_status := port_status port OR PORT_STATUS_ACT_MASK\<rparr>) n;
                      (now, n) = artnet_gettime_ms e n;
                      n = upd_out i (\<lambda>port. port\<lparr>last_dmx_time := now\<rparr>) n
                  in notify e dmx_c (Port_Arg (int i)) n)))"

section \<open>The invariant\<close>

lemma dmx_copy_length_512 [simp]: "in_512 (dmx_copy_length k)"
  by (auto simp: dmx_copy_length_def in_512_def Let_def)

lemma dmx_copy_length_id: "in_512 k \<Longrightarrow> dmx_copy_length k = k"
  by (simp add: dmx_copy_length_def in_512_def Let_def)

lemma dmx_length_512 [simp]: "in_512 (dmx_length p)"
  using get_short_range [of artnet_dmx_s] by (simp add: dmx_length_def in_512_def)

lemma nzs_length_512 [simp]: "in_512 (nzs_length p)"
  using get_short_range [of artnet_nzs_s] by (simp add: nzs_length_def in_512_def)

lemma dmx_length_le [simp]: "dmx_length p \<le> 512"
  by (simp add: dmx_length_def)

lemma node_ok_commit: "node_ok n \<Longrightarrow> node_ok (commit_output_data i d k n)"
  by (simp add: commit_output_data_def Let_def node_ok_step)

lemma node_ok_stage: "node_ok n \<Longrightarrow> node_ok (stage_output_data i d k n)"
  by (simp add: stage_output_data_def Let_def node_ok_step node_ok_commit)

lemma node_ok_flush: "cb_ok e \<Longrightarrow> node_ok n \<Longrightarrow> node_ok (flush_sync_output e i n)"
  by (auto simp: flush_sync_output_def Let_def intro!: node_ok_notify node_ok_step node_ok_commit)

lemma node_ok_merge_timeouts:
  "cb_ok e \<Longrightarrow> node_ok n \<Longrightarrow> node_ok (check_merge_timeouts e i n)"
  by (auto simp: check_merge_timeouts_def Let_def artnet_gettime_ms_def expire_sources_def
      intro!: node_ok_poll_reply node_ok_step)

lemma node_ok_merge:
  "cb_ok e \<Longrightarrow> node_ok n \<Longrightarrow> in_512 k \<Longrightarrow> node_ok (merge e i k d n)"
  by (auto simp: merge_def Let_def in_512_def intro!: node_ok_flush node_ok_step)

lemma node_ok_store:
  "node_ok n \<Longrightarrow> node_ok (store_A e p i n)" "node_ok n \<Longrightarrow> node_ok (store_B e p i n)"
  by (simp_all add: store_A_def store_B_def artnet_gettime_ms_def node_ok_step)

lemma node_ok_new_source:
  "node_ok n \<Longrightarrow> node_ok (new_A p i n)" "node_ok n \<Longrightarrow> node_ok (new_B p i n)"
  by (simp_all add: new_A_def new_B_def node_ok_step)

lemma node_ok_merge_started:
  "cb_ok e \<Longrightarrow> node_ok n \<Longrightarrow> node_ok (merge_started e i n)"
  by (auto simp: merge_started_def Let_def intro!: node_ok_poll_reply node_ok_step)

lemmas node_ok_dmx_steps =
  node_ok_store node_ok_new_source node_ok_merge_started node_ok_merge node_ok_stage
  node_ok_merge_timeouts

lemma node_ok_dmx_cases:
  "cb_ok e \<Longrightarrow> node_ok n \<Longrightarrow> node_ok (dmx_cases e p i a b n)"
  by (simp add: dmx_cases_def Let_def stage_packet_def merge_A_def merge_B_def node_ok_dmx_steps)

lemma node_ok_cancel: "node_ok n \<Longrightarrow> node_ok (dmx_cancel_merge e p i n)"
  by (simp add: dmx_cancel_merge_def Let_def node_ok_step node_ok_store node_ok_new_source)

lemma node_ok_dmx_port:
  assumes "cb_ok e" "node_ok n"
  shows "node_ok (handle_dmx_port e p i n)"
proof -
  let ?n1 = "upd_out i (\<lambda>port. port\<lparr>port_status := port_status port OR PORT_STATUS_ACT_MASK,
    nzs_start_code := 0, port_dmx_source := p_from p\<rparr>) n"
  let ?n2 = "dmx_cancel_merge e p i
    (dmx_cases e p i (ipA (out_ports n i)) (ipB (out_ports n i)) (check_merge_timeouts e i ?n1))"
  have "node_ok ?n1" using assms(2) by (simp add: node_ok_step)
  then have ok: "node_ok ?n2"
    using assms(1) by (simp add: node_ok_cancel node_ok_dmx_cases node_ok_merge_timeouts)
  then have "node_ok (notify e dmx_c (Port_Arg (int i)) ?n2)" using assms(1) by blast
  with ok assms(2) show ?thesis
    by (simp add: handle_dmx_port_def Let_def artnet_gettime_ms_def node_ok_step)
qed

lemma node_ok_handle_dmx:
  assumes "cb_ok e" "node_ok n"
  shows "node_ok (handle_dmx e n p)"
proof -
  have ok: "node_ok (snd (check_callback e n p ARTNET_DMX_HANDLER))" using assms by blast
  have "node_ok (for_upto 4 (handle_dmx_port e p)
      ((snd (check_callback e n p ARTNET_DMX_HANDLER))\<lparr>last_dmx_source := p_from p\<rparr>))"
    by (rule for_upto_invariant) (simp_all add: ok assms(1) node_ok_dmx_port)
  with ok show ?thesis by (simp add: handle_dmx_def case_prod_beta)
qed

lemma node_ok_handle_sync:
  assumes "cb_ok e" "node_ok n"
  shows "node_ok (handle_sync e n p)"
proof -
  let ?c = "snd (check_callback e n p ARTNET_SYNC_HANDLER)"
  let ?body = "\<lambda>i (accepted, n). if sync_accepts p (out_ports n i)
    then (True, flush_sync_output e i n) else (accepted, n)"
  have ok: "node_ok ?c" using assms by blast
  have "node_ok (snd (for_upto 4 ?body (False, ?c)))"
  proof (rule for_upto_invariant [where P = "\<lambda>s. node_ok (snd s)"])
    show "node_ok (snd (False, ?c))" using ok by simp
    show "node_ok (snd (?body i s))" if "node_ok (snd s)" for i s
      using node_ok_flush [OF assms(1) that, of i] that by (cases s) simp
  qed
  with ok show ?thesis
    by (simp add: handle_sync_def case_prod_beta artnet_gettime_ms_def)
qed

lemma node_ok_handle_nzs:
  assumes "cb_ok e" "node_ok n"
  shows "node_ok (handle_nzs e n p)"
proof -
  have ok: "node_ok (snd (check_callback e n p ARTNET_NZS_HANDLER))" using assms by blast
  with assms(1) show ?thesis
    by (simp add: handle_nzs_def case_prod_beta artnet_gettime_ms_def Let_def node_ok_step
        node_ok_notify split: option.splits)
qed

section \<open>What each step does to its port\<close>

text \<open>With callbacks that only observe, a step changes its own port and little else.\<close>

lemma commit_out:
  "out_ports (commit_output_data i d k n) = (out_ports n)
     (i := (out_ports n i)\<lparr>out_data := memcpy (out_data (out_ports n i)) 0 d 0 (nat (dmx_copy_length k)),
                             out_length := dmx_copy_length k\<rparr>)"
  by (simp add: commit_output_data_def Let_def upd_out_def)

lemma stage_out:
  "out_ports (stage_output_data i d k n) = (out_ports n)
     (i := if sync_mode n
       then (out_ports n i)\<lparr>sync_data := memcpy (sync_data (out_ports n i)) 0 d 0 (nat (dmx_copy_length k)),
                              sync_length := dmx_copy_length k, sync_pending := True\<rparr>
       else (out_ports n i)\<lparr>out_data := memcpy (out_data (out_ports n i)) 0 d 0 (nat (dmx_copy_length k)),
                              out_length := dmx_copy_length k\<rparr>)"
  by (simp add: stage_output_data_def Let_def commit_out dmx_copy_length_id) (simp add: upd_out_def)

lemma flush_out:
  "observer e \<Longrightarrow> out_ports (flush_sync_output e i n) = (out_ports n)
     (i := if sync_pending (out_ports n i)
       then (out_ports n i)\<lparr>
         out_data := memcpy (out_data (out_ports n i)) 0 (sync_data (out_ports n i)) 0
           (nat (dmx_copy_length (sync_length (out_ports n i)))),
         out_length := dmx_copy_length (sync_length (out_ports n i)), sync_pending := False\<rparr>
       else out_ports n i)"
  by (simp add: flush_sync_output_def Let_def commit_out) (simp add: upd_out_def commit_out)

lemma sync_mode_steps [simp]:
  "sync_mode (commit_output_data i d k n) = sync_mode n"
  "sync_mode (stage_output_data i d k n) = sync_mode n"
  "observer e \<Longrightarrow> sync_mode (flush_sync_output e i n) = sync_mode n"
  "sync_mode (store_A e p i n) = sync_mode n" "sync_mode (store_B e p i n) = sync_mode n"
  "sync_mode (new_A p i n) = sync_mode n" "sync_mode (new_B p i n) = sync_mode n"
  "observer e \<Longrightarrow> sync_mode (merge_started e i n) = sync_mode n"
  "observer e \<Longrightarrow> sync_mode (merge e i k d n) = sync_mode n"
  "observer e \<Longrightarrow> sync_mode (check_merge_timeouts e i n) = sync_mode n"
  by (simp_all add: commit_output_data_def stage_output_data_def flush_sync_output_def store_A_def
      store_B_def new_A_def new_B_def merge_started_def merge_def check_merge_timeouts_def
      artnet_gettime_ms_def Let_def)

lemma store_out:
  "out_ports (store_A e p i n) = (out_ports n)(i := (out_ports n i)\<lparr>timeA := env_time e (clk n),
     dataA := memcpy (dataA (out_ports n i)) 0 (dmx_payload p) 0 (nat (dmx_length p))\<rparr>)"
  "out_ports (store_B e p i n) = (out_ports n)(i := (out_ports n i)\<lparr>timeB := env_time e (clk n),
     dataB := memcpy (dataB (out_ports n i)) 0 (dmx_payload p) 0 (nat (dmx_length p))\<rparr>)"
  by (simp_all add: store_A_def store_B_def artnet_gettime_ms_def upd_out_def)

lemma new_out:
  "out_ports (new_A p i n) = (out_ports n)(i := (out_ports n i)\<lparr>ipA := p_from p,
     physicalA := get8 artnet_dmx_s ''physical'' p\<rparr>)"
  "out_ports (new_B p i n) = (out_ports n)(i := (out_ports n i)\<lparr>ipB := p_from p,
     physicalB := get8 artnet_dmx_s ''physical'' p\<rparr>)"
  by (simp_all add: new_A_def new_B_def upd_out_def)

lemma merge_started_out:
  "observer e \<Longrightarrow> out_ports (merge_started e i n) = (out_ports n)
     (i := (out_ports n i)\<lparr>port_status := port_status (out_ports n i) OR PORT_STATUS_MERGE\<rparr>)"
  by (simp add: merge_started_def Let_def upd_out_def)

lemma merge_out:
  "observer e \<Longrightarrow> in_512 k \<Longrightarrow> out_ports (merge e i k d n) = (out_ports n)
     (i := let port = out_ports n i; md = merged_data port (nat k) d
       in if sync_mode n
          then port\<lparr>sync_data := md, sync_length := k, sync_pending := True\<rparr>
          else port\<lparr>sync_data := md, sync_length := k,
                    out_data := memcpy (out_data port) 0 md 0 (nat k), out_length := k,
                    sync_pending := False\<rparr>)"
  by (simp add: merge_def Let_def flush_out dmx_copy_length_id in_512_def) (simp add: upd_out_def)

text \<open>Neither of the port's sources is silent for longer than the merge timeout.\<close>

definition sources_live :: "env \<Rightarrow> nat \<Rightarrow> output_port \<Rightarrow> bool" where
  "sources_live e k port \<longleftrightarrow>
     (ipA port \<noteq> 0 \<longrightarrow> sint (env_time e k - timeA port) \<le> MERGE_TIMEOUT_MS) \<and>
     (ipB port \<noteq> 0 \<longrightarrow> sint (env_time e k - timeB port) \<le> MERGE_TIMEOUT_MS)"

lemma expire_sources_live: "sources_live e k port \<Longrightarrow> expire_sources (env_time e k) port = port"
  by (cases port) (auto simp: sources_live_def expire_sources_def)

lemma merge_timeouts_out:
  "observer e \<Longrightarrow> sources_live e (clk n) (out_ports n i) \<Longrightarrow>
     out_ports (check_merge_timeouts e i n) = out_ports n"
  by (simp add: check_merge_timeouts_def Let_def artnet_gettime_ms_def expire_sources_live)
    (simp add: upd_out_def expire_sources_live)

section \<open>The truth table\<close>

text \<open>
  The specification of the merge, on the sources of a port: which of the two buffers a packet
  from \<open>me\<close> feeds, and whether it merges.
\<close>

type_synonym source = "ip \<times> u8"

datatype merge_role = First | Only_A | Only_B | Joins_A | Joins_B | Merges_A | Merges_B | Ignored

fun dmx_role :: "source option \<Rightarrow> source option \<Rightarrow> source \<Rightarrow> merge_role" where
  "dmx_role None None me = First"
| "dmx_role (Some a) None me = (if a = me then Only_A else Joins_B)"
| "dmx_role None (Some b) me = (if b = me then Only_B else Joins_A)"
| "dmx_role (Some a) (Some b) me =
     (if a = me then (if b = me then Ignored else Merges_A)
      else if b = me then Merges_B else Ignored)"

definition source_A :: "output_port \<Rightarrow> source option" where
  "source_A port = (if ipA port = 0 then None else Some (ipA port, physicalA port))"

definition source_B :: "output_port \<Rightarrow> source option" where
  "source_B port = (if ipB port = 0 then None else Some (ipB port, physicalB port))"

definition dmx_source :: "packet \<Rightarrow> source" where
  "dmx_source p = (p_from p, get8 artnet_dmx_s ''physical'' p)"

definition port_role :: "output_port \<Rightarrow> packet \<Rightarrow> merge_role" where
  "port_role port p = dmx_role (source_A port) (source_B port) (dmx_source p)"

text \<open>The byte a merge of the packet with the other source's buffer yields.\<close>

definition mixed :: "merge \<Rightarrow> u8 \<Rightarrow> u8 \<Rightarrow> u8" where
  "mixed m mine other = (case m of ARTNET_MERGE_HTP \<Rightarrow> max mine other | ARTNET_MERGE_LTP \<Rightarrow> mine)"

definition dmx_output :: "output_port \<Rightarrow> packet \<Rightarrow> nat \<Rightarrow> u8" where
  "dmx_output port p j =
     (let mine = dmx_payload p j
      in case port_role port p of
           First \<Rightarrow> mine | Only_A \<Rightarrow> mine | Only_B \<Rightarrow> mine
         | Joins_A \<Rightarrow> mixed (merge_mode port) mine (dataB port j)
         | Merges_A \<Rightarrow> mixed (merge_mode port) mine (dataB port j)
         | Joins_B \<Rightarrow> mixed (merge_mode port) mine (dataA port j)
         | Merges_B \<Rightarrow> mixed (merge_mode port) mine (dataA port j)
         | Ignored \<Rightarrow> out_data port j)"

lemmas role_defs = port_role_def source_A_def source_B_def dmx_source_def

lemmas step_outs = stage_out store_out new_out merge_started_out merge_out merge_A_def merge_B_def
  stage_packet_def dmx_copy_length_id

lemma merged_data_HTP_LTP:
  "j < k \<Longrightarrow> merged_data port k latest j =
     (case merge_mode port of ARTNET_MERGE_HTP \<Rightarrow> max (dataA port j) (dataB port j)
      | ARTNET_MERGE_LTP \<Rightarrow> latest j)"
  by (simp add: merged_data_def memcpy_def split: merge.splits)

lemma dmx_cases_out:
  assumes "observer e" "\<not> sync_mode n" "p_from p \<noteq> 0"
    and role: "port_role (out_ports n i) p \<noteq> Ignored"
  shows "j < nat (dmx_length p) \<Longrightarrow>
      out_data (out_ports (dmx_cases e p i (ipA (out_ports n i)) (ipB (out_ports n i)) n) i) j =
        dmx_output (out_ports n i) p j"
    and "out_length (out_ports (dmx_cases e p i (ipA (out_ports n i)) (ipB (out_ports n i)) n) i) =
      dmx_length p"
  using assms
  by (auto simp: dmx_cases_def dmx_output_def role_defs step_outs Let_def memcpy_def
      merged_data_HTP_LTP mixed_def max.commute split: merge.splits)

lemma dmx_cases_ignored:
  "port_role (out_ports n i) p = Ignored \<Longrightarrow> p_from p \<noteq> 0 \<Longrightarrow>
     dmx_cases e p i (ipA (out_ports n i)) (ipB (out_ports n i)) n = n"
  by (auto simp: dmx_cases_def role_defs Let_def split: if_splits)

lemma dmx_cases_sync:
  assumes "observer e" "sync_mode n" "p_from p \<noteq> 0"
    and role: "port_role (out_ports n i) p \<noteq> Ignored"
  shows "out_data (out_ports (dmx_cases e p i (ipA (out_ports n i)) (ipB (out_ports n i)) n) i) =
      out_data (out_ports n i)"
    and "out_length (out_ports (dmx_cases e p i (ipA (out_ports n i)) (ipB (out_ports n i)) n) i) =
      out_length (out_ports n i)"
    and "sync_pending (out_ports (dmx_cases e p i (ipA (out_ports n i)) (ipB (out_ports n i)) n) i)"
    and "sync_length (out_ports (dmx_cases e p i (ipA (out_ports n i)) (ipB (out_ports n i)) n) i) =
      dmx_length p"
    and "j < nat (dmx_length p) \<Longrightarrow>
      sync_data (out_ports (dmx_cases e p i (ipA (out_ports n i)) (ipB (out_ports n i)) n) i) j =
        dmx_output (out_ports n i) p j"
  using assms
  by (auto simp: dmx_cases_def dmx_output_def role_defs step_outs Let_def memcpy_def
      merged_data_HTP_LTP mixed_def max.commute split: merge.splits)

section \<open>From one port to the handler\<close>

lemma dmx_cases_frame:
  assumes "observer e"
  shows "k \<noteq> i \<Longrightarrow> out_ports (dmx_cases e p k a b n) i = out_ports n i"
    and "sync_mode (dmx_cases e p k a b n) = sync_mode n"
  using assms
  by (simp_all add: dmx_cases_def Let_def step_outs)

lemma cancel_frame:
  "k \<noteq> i \<Longrightarrow> out_ports (dmx_cancel_merge e p k n) i = out_ports n i"
  "sync_mode (dmx_cancel_merge e p k n) = sync_mode n"
  "\<not> cancel_merge_pending (out_ports n k) \<Longrightarrow> dmx_cancel_merge e p k n = n"
  by (simp_all add: dmx_cancel_merge_def Let_def step_outs)

lemma merge_timeouts_frame:
  "observer e \<Longrightarrow> k \<noteq> i \<Longrightarrow> out_ports (check_merge_timeouts e k n) i = out_ports n i"
  by (simp add: check_merge_timeouts_def artnet_gettime_ms_def Let_def)

lemma dmx_port_frame:
  assumes "observer e"
  shows "k \<noteq> i \<Longrightarrow> out_ports (handle_dmx_port e p k n) i = out_ports n i"
    and "sync_mode (handle_dmx_port e p k n) = sync_mode n"
  using assms
  by (simp_all add: handle_dmx_port_def Let_def artnet_gettime_ms_def dmx_cases_frame cancel_frame
      merge_timeouts_frame)

definition dmx_accepted :: "env \<Rightarrow> node \<Rightarrow> packet \<Rightarrow> nat \<Rightarrow> bool" where
  "dmx_accepted e n p i \<longleftrightarrow>
     i < 4 \<and> fst (check_callback e n p ARTNET_DMX_HANDLER) = 0 \<and>
     get16 artnet_dmx_s ''universe'' p = port_addr (out_ports n i) \<and> port_enabled (out_ports n i)"

text \<open>How often the steps look at the clock: a port takes at most four readings.\<close>

lemma clk_output_steps [simp]:
  "clk (commit_output_data i d k n) = clk n" "clk (stage_output_data i d k n) = clk n"
  "clk (new_A p i n) = clk n" "clk (new_B p i n) = clk n"
  "clk (store_A e p i n) = Suc (clk n)" "clk (store_B e p i n) = Suc (clk n)"
  "clk (stage_packet p i n) = clk n"
  by (simp_all add: commit_output_data_def stage_output_data_def new_A_def new_B_def store_A_def
      store_B_def stage_packet_def artnet_gettime_ms_def Let_def)

lemma clk_output_sends [simp]:
  assumes "observer e"
  shows "clk (flush_sync_output e i n) = clk n" "clk (merge e i k d n) = clk n"
    "clk (merge_A e p i n) = clk n" "clk (merge_B e p i n) = clk n"
    "clk (snd (artnet_tx_poll_reply e n)) = clk n" "clk (merge_started e i n) = clk n"
    "clk (check_merge_timeouts e i n) = Suc (clk n)"
proof -
  show flush: "clk (flush_sync_output e i n) = clk n" for n
    using assms by (simp add: flush_sync_output_def Let_def)
  then show m: "clk (merge e i k d n) = clk n" for k d n by (simp add: merge_def Let_def)
  show "clk (merge_A e p i n) = clk n" "clk (merge_B e p i n) = clk n"
    by (simp_all add: merge_A_def merge_B_def m)
  show r: "clk (snd (artnet_tx_poll_reply e n)) = clk n" for n
    using assms by (simp add: artnet_tx_poll_reply_def send_new_def artnet_net_send_def Let_def)
  show "clk (merge_started e i n) = clk n" by (simp add: merge_started_def r Let_def)
  show "clk (check_merge_timeouts e i n) = Suc (clk n)"
    by (simp add: check_merge_timeouts_def artnet_gettime_ms_def r Let_def)
qed

lemma clk_dmx_port:
  assumes "observer e"
  shows "clk n \<le> clk (handle_dmx_port e p i n) \<and> clk (handle_dmx_port e p i n) \<le> clk n + 4"
proof -
  have cases: "clk n \<le> clk (dmx_cases e p i a b n) \<and> clk (dmx_cases e p i a b n) \<le> Suc (clk n)" for a b n
    using assms by (simp add: dmx_cases_def Let_def)
  have cancel: "clk n \<le> clk (dmx_cancel_merge e p i n) \<and> clk (dmx_cancel_merge e p i n) \<le> Suc (clk n)" for n
    by (simp add: dmx_cancel_merge_def Let_def)
  let ?port = "out_ports n i"
  let ?m = "check_merge_timeouts e i (upd_out i (\<lambda>port. port\<lparr>
      port_status := port_status port OR PORT_STATUS_ACT_MASK,
      nzs_start_code := 0, port_dmx_source := p_from p\<rparr>) n)"
  show ?thesis
    using assms cases [of ?m "ipA ?port" "ipB ?port"]
      cancel [of "dmx_cases e p i (ipA ?port) (ipB ?port) ?m"]
    by (simp add: handle_dmx_port_def Let_def artnet_gettime_ms_def)
qed

lemma handle_dmx_at:
  assumes "observer e" "i < 4" "fst (check_callback e n p ARTNET_DMX_HANDLER) = 0"
  shows "\<exists>m. out_ports m i = out_ports n i \<and> sync_mode m = sync_mode n \<and>
    clk n \<le> clk m \<and> clk m \<le> clk n + 12 \<and>
    out_ports (handle_dmx e n p) i = out_ports (handle_dmx_port e p i m) i"
proof -
  let ?f = "\<lambda>m. (out_ports m i, sync_mode m)"
  let ?n = "n\<lparr>last_dmx_source := p_from p\<rparr>"
  have "\<exists>m. ?f m = ?f ?n \<and> (clk n \<le> clk m \<and> clk m \<le> clk n + 4 * i) \<and>
      ?f (for_upto 4 (handle_dmx_port e p) ?n) = ?f (handle_dmx_port e p i m)"
  proof (rule for_upto_at_within [where Q = "\<lambda>j m. clk n \<le> clk m \<and> clk m \<le> clk n + 4 * j"])
    show "clk n \<le> clk (handle_dmx_port e p j m) \<and> clk (handle_dmx_port e p j m) \<le> clk n + 4 * Suc j"
      if "clk n \<le> clk m \<and> clk m \<le> clk n + 4 * j" for j m
      using that clk_dmx_port [OF assms(1), of m p j] by auto
  qed (use assms in \<open>simp_all add: dmx_port_frame\<close>)
  moreover have "handle_dmx e n p = for_upto 4 (handle_dmx_port e p) ?n"
    using assms by (simp add: handle_dmx_def case_prod_beta)
  moreover have "4 * i \<le> 12" using assms(2) by simp
  ultimately show ?thesis by fastforce
qed

end
