(* ===== verification/Dmx_Properties.thy ===== *)
theory Dmx_Properties
  imports Output
begin

text \<open>
  The properties of DMX output, for callbacks that only observe: what a frame from one source, from
  two and from a third does to a port, what changes in sync mode, and what ArtSync releases.
\<close>

section \<open>From the port to the packet\<close>

text \<open>The port as it is when the truth table is consulted.\<close>

definition accepted_port :: "packet \<Rightarrow> output_port \<Rightarrow> output_port" where
  "accepted_port p port =
     port\<lparr>port_status := port_status port OR PORT_STATUS_ACT_MASK, nzs_start_code := 0,
          port_dmx_source := p_from p\<rparr>"

lemma accepted_port_same [simp]:
  "out_data (accepted_port p q) = out_data q" "out_length (accepted_port p q) = out_length q"
  "dataA (accepted_port p q) = dataA q" "dataB (accepted_port p q) = dataB q"
  "source_A (accepted_port p q) = source_A q" "source_B (accepted_port p q) = source_B q"
  "port_role (accepted_port p q) p' = port_role q p'"
  "dmx_output (accepted_port p q) p' = dmx_output q p'"
  "cancel_merge_pending (accepted_port p q) = cancel_merge_pending q"
  by (simp_all add: accepted_port_def port_role_def source_A_def source_B_def dmx_output_def
      fun_eq_iff)

lemma dmx_cases_pending:
  "observer e \<Longrightarrow> cancel_merge_pending (out_ports (dmx_cases e p i a b n) i) =
     cancel_merge_pending (out_ports n i)"
  by (simp add: dmx_cases_def Let_def step_outs)

lemma dmx_port_result:
  assumes "observer e" "sources_live e (clk m) (out_ports m i)"
    and "get16 artnet_dmx_s ''universe'' p = port_addr (out_ports m i)" "port_enabled (out_ports m i)"
    and "\<not> cancel_merge_pending (out_ports m i)"
  shows "\<exists>m' now. out_ports m' i = accepted_port p (out_ports m i) \<and> sync_mode m' = sync_mode m \<and>
    out_ports (handle_dmx_port e p i m) i =
      (out_ports (dmx_cases e p i (ipA (out_ports m' i)) (ipB (out_ports m' i)) m') i)
        \<lparr>last_dmx_time := now, failsafe_triggered := False\<rparr>"
proof -
  let ?n1 = "upd_out i (accepted_port p) m"
  have live: "sources_live e (clk ?n1) (out_ports ?n1 i)"
    using assms(2) by (simp add: sources_live_def accepted_port_def)
  let ?m = "check_merge_timeouts e i ?n1"
  have out: "out_ports ?m i = accepted_port p (out_ports m i)"
    using merge_timeouts_out [OF assms(1) live] by simp
  have sync: "sync_mode ?m = sync_mode m" using assms(1) by simp
  have n1: "upd_out i (\<lambda>port. port\<lparr>port_status := port_status port OR PORT_STATUS_ACT_MASK,
      nzs_start_code := 0, port_dmx_source := p_from p\<rparr>) m = ?n1"
    by (simp add: accepted_port_def [abs_def])
  have ips: "ipA (out_ports m i) = ipA (out_ports ?m i)" "ipB (out_ports m i) = ipB (out_ports ?m i)"
    by (simp_all add: out) (simp_all add: accepted_port_def)
  let ?d = "dmx_cases e p i (ipA (out_ports ?m i)) (ipB (out_ports ?m i)) ?m"
  have "\<not> cancel_merge_pending (out_ports ?d i)"
    using assms out by (simp add: dmx_cases_pending)
  then have "dmx_cancel_merge e p i ?d = ?d" by (rule cancel_frame)
  then have "\<exists>now. out_ports (handle_dmx_port e p i m) i =
      (out_ports ?d i)\<lparr>last_dmx_time := now, failsafe_triggered := False\<rparr>"
    using assms
    by (simp only: handle_dmx_port_def Let_def n1 ips)
      (simp add: artnet_gettime_ms_def, blast)
  with out sync show ?thesis by blast
qed

text \<open>
  What the theorems ask of the frame and the port: the frame is for this port and comes from a
  real address, no source of the port is overdue when the clock is read, and no cancellation is
  pending.  A packet takes at most twelve readings before it comes to the last port.
\<close>

definition dmx_ready :: "env \<Rightarrow> node \<Rightarrow> packet \<Rightarrow> nat \<Rightarrow> bool" where
  "dmx_ready e n p i \<longleftrightarrow>
     dmx_accepted e n p i \<and> p_from p \<noteq> 0 \<and>
     (\<forall>k \<in> {clk n..clk n + 12}. sources_live e k (out_ports n i)) \<and>
     \<not> cancel_merge_pending (out_ports n i)"

lemma handle_dmx_result:
  assumes "observer e" "dmx_ready e n p i"
  obtains m now where "out_ports m i = accepted_port p (out_ports n i)" "sync_mode m = sync_mode n"
    and "out_ports (handle_dmx e n p) i =
      (out_ports (dmx_cases e p i (ipA (out_ports m i)) (ipB (out_ports m i)) m) i)
        \<lparr>last_dmx_time := now, failsafe_triggered := False\<rparr>"
proof -
  from assms have acc: "i < 4" "fst (check_callback e n p ARTNET_DMX_HANDLER) = 0"
    by (simp_all add: dmx_ready_def dmx_accepted_def)
  from handle_dmx_at [OF assms(1) acc]
  obtain m where m: "out_ports m i = out_ports n i" "sync_mode m = sync_mode n"
    "clk n \<le> clk m" "clk m \<le> clk n + 12"
    "out_ports (handle_dmx e n p) i = out_ports (handle_dmx_port e p i m) i" by blast
  from dmx_port_result [OF assms(1), of m i p] assms(2) m
  show thesis using that by (auto simp: dmx_ready_def dmx_accepted_def)
qed

section \<open>The properties\<close>

lemma dmx_levels:
  assumes "observer e" "dmx_ready e n p i" "\<not> sync_mode n"
    and "port_role (out_ports n i) p \<noteq> Ignored"
  shows "out_length (out_ports (handle_dmx e n p) i) = dmx_length p \<and>
    (\<forall>j < nat (dmx_length p).
       out_data (out_ports (handle_dmx e n p) i) j = dmx_output (out_ports n i) p j)"
proof -
  from handle_dmx_result [OF assms(1,2)]
  obtain m now where m: "out_ports m i = accepted_port p (out_ports n i)" "sync_mode m = sync_mode n"
    "out_ports (handle_dmx e n p) i =
      (out_ports (dmx_cases e p i (ipA (out_ports m i)) (ipB (out_ports m i)) m) i)
        \<lparr>last_dmx_time := now, failsafe_triggered := False\<rparr>" .
  have from0: "p_from p \<noteq> 0" using assms(2) by (simp add: dmx_ready_def)
  show ?thesis
    using dmx_cases_out [OF assms(1) _ from0, of m i] assms m by simp
qed

text \<open>C1: outside sync mode a frame for a port puts on its output, byte by byte, what the truth table
  of \<open>handle_dmx\<close> says: the frame itself when it comes from the only source, and the maximum
  with the other source's last frame (HTP) or the frame itself (LTP) when there are two.
\<close>

theorem dmx_truth_table:
  assumes "observer e" "dmx_ready e n p i" "\<not> sync_mode n"
    and "port_role (out_ports n i) p \<noteq> Ignored"
  shows "out_length (out_ports (handle_dmx e n p) i) = dmx_length p \<and>
    (\<forall>j < nat (dmx_length p).
       out_data (out_ports (handle_dmx e n p) i) j = dmx_output (out_ports n i) p j)"
  using assms by (rule dmx_levels)

definition demo_dmx :: packet where
  "demo_dmx = \<lparr>p_length = 20, p_from = 0x0500000A, p_to = 0, p_type = opcode ARTNET_DMX,
     p_data = fill artnet_dmx_s [(''length'', [2]), (''data'', [7, 9])] (header ARTNET_DMX)\<rparr>"

lemma demo_dmx_fields:
  "get16 artnet_dmx_s ''universe'' demo_dmx = 0" "p_from demo_dmx = 0x0500000A"
  "get8 artnet_dmx_s ''physical'' demo_dmx = 0" "dmx_length demo_dmx = 2"
  "dmx_payload demo_dmx 0 = 7" "dmx_payload demo_dmx (Suc 0) = 9"
  by (simp_all add: demo_dmx_def field_defs layout put_bytes_def header_bytes le16_def
      dmx_length_def get_short_def bytes_to_short_eq dmx_payload_def)

lemma demo_dmx_ready: "dmx_ready quiet_env demo_node demo_dmx 0"
  by (simp add: dmx_ready_def dmx_accepted_def check_callback_def no_callback_def
      demo_out_port_def zero_out_port_def sources_live_def demo_dmx_fields)

theorem dmx_truth_table_witness:
  "out_data (out_ports (handle_dmx quiet_env demo_node demo_dmx) 0) 1 = 9"
  using dmx_truth_table [OF observer_quiet demo_dmx_ready]
  by (simp add: demo_dmx_fields dmx_output_def role_defs demo_out_port_def zero_out_port_def)

text \<open>A frame from a third source, while two are merging, leaves the output, the two buffers and
  the two sources of the port as they were, and is not staged for ArtSync.
\<close>

theorem dmx_third_source:
  assumes "observer e" "dmx_ready e n p i" "port_role (out_ports n i) p = Ignored"
  shows "out_data (out_ports (handle_dmx e n p) i) = out_data (out_ports n i) \<and>
    out_length (out_ports (handle_dmx e n p) i) = out_length (out_ports n i) \<and>
    dataA (out_ports (handle_dmx e n p) i) = dataA (out_ports n i) \<and>
    dataB (out_ports (handle_dmx e n p) i) = dataB (out_ports n i) \<and>
    source_A (out_ports (handle_dmx e n p) i) = source_A (out_ports n i) \<and>
    source_B (out_ports (handle_dmx e n p) i) = source_B (out_ports n i) \<and>
    sync_data (out_ports (handle_dmx e n p) i) = sync_data (out_ports n i)"
proof -
  from handle_dmx_result [OF assms(1,2)]
  obtain m now where m: "out_ports m i = accepted_port p (out_ports n i)" "sync_mode m = sync_mode n"
    "out_ports (handle_dmx e n p) i =
      (out_ports (dmx_cases e p i (ipA (out_ports m i)) (ipB (out_ports m i)) m) i)
        \<lparr>last_dmx_time := now, failsafe_triggered := False\<rparr>" .
  have from0: "p_from p \<noteq> 0" using assms(2) by (simp add: dmx_ready_def)
  have "dmx_cases e p i (ipA (out_ports m i)) (ipB (out_ports m i)) m = m"
    using assms(3) m from0 by (intro dmx_cases_ignored) simp_all
  with m show ?thesis by (simp add: accepted_port_def source_A_def source_B_def)
qed

definition merging_node :: node where
  "merging_node = upd_out 0 (\<lambda>q. q\<lparr>ipA := 1, ipB := 2, timeA := 900, timeB := 950\<rparr>) demo_node"

theorem dmx_third_source_witness:
  "source_B (out_ports (handle_dmx quiet_env merging_node demo_dmx) 0) = Some (2, 0)"
proof -
  have port: "out_ports merging_node 0 = demo_out_port\<lparr>ipA := 1, ipB := 2, timeA := 900, timeB := 950\<rparr>"
    by (simp add: merging_node_def)
  have "callbacks merging_node = (\<lambda>_. no_callback)" by (simp add: merging_node_def)
  then have "dmx_ready quiet_env merging_node demo_dmx 0"
    by (simp add: dmx_ready_def dmx_accepted_def check_callback_def no_callback_def port
        demo_out_port_def zero_out_port_def sources_live_def demo_dmx_fields)
  moreover have "port_role (out_ports merging_node 0) demo_dmx = Ignored"
    by (simp add: role_defs port demo_dmx_fields)
  ultimately show ?thesis
    using dmx_third_source [OF observer_quiet]
    by (simp add: port source_B_def demo_out_port_def zero_out_port_def)
qed

text \<open>in sync mode a frame changes nothing on the output: the bytes the truth table yields are
  staged and wait for ArtSync.
\<close>

theorem dmx_sync_mode:
  assumes "observer e" "dmx_ready e n p i" "sync_mode n"
    and "port_role (out_ports n i) p \<noteq> Ignored"
  shows "out_data (out_ports (handle_dmx e n p) i) = out_data (out_ports n i) \<and>
    out_length (out_ports (handle_dmx e n p) i) = out_length (out_ports n i) \<and>
    sync_pending (out_ports (handle_dmx e n p) i) \<and>
    sync_length (out_ports (handle_dmx e n p) i) = dmx_length p \<and>
    (\<forall>j < nat (dmx_length p).
       sync_data (out_ports (handle_dmx e n p) i) j = dmx_output (out_ports n i) p j)"
proof -
  from handle_dmx_result [OF assms(1,2)]
  obtain m now where m: "out_ports m i = accepted_port p (out_ports n i)" "sync_mode m = sync_mode n"
    "out_ports (handle_dmx e n p) i =
      (out_ports (dmx_cases e p i (ipA (out_ports m i)) (ipB (out_ports m i)) m) i)
        \<lparr>last_dmx_time := now, failsafe_triggered := False\<rparr>" .
  have from0: "p_from p \<noteq> 0" using assms(2) by (simp add: dmx_ready_def)
  show ?thesis
    using dmx_cases_sync [OF assms(1) _ from0, of m i] assms m by simp
qed

theorem dmx_sync_mode_witness:
  "sync_data (out_ports (handle_dmx quiet_env (demo_node\<lparr>sync_mode := True\<rparr>) demo_dmx) 0) 0 = 7"
proof -
  have "dmx_ready quiet_env (demo_node\<lparr>sync_mode := True\<rparr>) demo_dmx 0"
    using demo_dmx_ready
    by (simp add: dmx_ready_def dmx_accepted_def check_callback_def no_callback_def)
  then show ?thesis
    using dmx_sync_mode [OF observer_quiet]
    by (simp add: demo_dmx_fields dmx_output_def role_defs demo_out_port_def zero_out_port_def)
qed

text \<open>A frame leaves every port alone that is disabled or has another universe.
\<close>

theorem dmx_other_ports:
  assumes "observer e" "i < 4"
    and "\<not> port_enabled (out_ports n i) \<or>
         get16 artnet_dmx_s ''universe'' p \<noteq> port_addr (out_ports n i)"
  shows "out_ports (handle_dmx e n p) i = out_ports n i"
proof (cases "fst (check_callback e n p ARTNET_DMX_HANDLER) = 0")
  case True
  from handle_dmx_at [OF assms(1,2) True] assms(3) show ?thesis
    by (auto simp: handle_dmx_port_def)
next
  case False
  then show ?thesis using assms(1) by (simp add: handle_dmx_def case_prod_beta)
qed

theorem dmx_other_ports_witness:
  "out_ports (handle_dmx quiet_env demo_node demo_dmx) 2 = out_ports demo_node 2"
  by (rule dmx_other_ports) (simp_all add: demo_node_def zero_out_port_def)

lemma sync_port:
  assumes "observer e" "i < 4" "fst (check_callback e n p ARTNET_SYNC_HANDLER) = 0"
  shows "out_ports (handle_sync e n p) i =
    (if sync_accepts p (out_ports n i) then out_ports (flush_sync_output e i n) i else out_ports n i)"
proof -
  let ?body = "\<lambda>i (accepted, n). if sync_accepts p (out_ports n i)
    then (True, flush_sync_output e i n) else (accepted, n)"
  let ?f = "\<lambda>s. out_ports (snd s) i"
  have "\<exists>s. ?f s = ?f (False, n) \<and> ?f (for_upto 4 ?body (False, n)) = ?f (?body i s)"
    using assms(1,2) by (intro for_upto_at) (simp_all add: case_prod_beta flush_out)
  then obtain s where s: "out_ports (snd s) i = out_ports n i"
    "out_ports (snd (for_upto 4 ?body (False, n))) i = out_ports (snd (?body i s)) i" by auto
  have "out_ports (snd (?body i s)) i =
      (if sync_accepts p (out_ports n i) then out_ports (flush_sync_output e i n) i
       else out_ports n i)"
    using s(1) assms(1) by (cases s) (simp add: flush_out)
  then show ?thesis
    using s(2) assms
    by (simp add: handle_sync_def case_prod_beta artnet_gettime_ms_def)
qed

text \<open>C2: an ArtSync that a port accepts puts the staged frame on its output and ends the wait; one it
  does not accept leaves the port alone.
\<close>

theorem sync_releases:
  assumes "observer e" "i < 4" "fst (check_callback e n p ARTNET_SYNC_HANDLER) = 0"
    and "sync_pending (out_ports n i)" "in_512 (sync_length (out_ports n i))"
  shows "if sync_accepts p (out_ports n i) then
      \<not> sync_pending (out_ports (handle_sync e n p) i) \<and>
      out_length (out_ports (handle_sync e n p) i) = sync_length (out_ports n i) \<and>
      (\<forall>j < nat (sync_length (out_ports n i)).
         out_data (out_ports (handle_sync e n p) i) j = sync_data (out_ports n i) j)
    else out_ports (handle_sync e n p) i = out_ports n i"
  using assms sync_port [OF assms(1-3)]
  by (simp add: flush_out dmx_copy_length_id memcpy_def)

definition staged_node :: node where
  "staged_node = upd_out 0 (\<lambda>q. q\<lparr>sync_pending := True, sync_length := 2, sync_data := (\<lambda>_. 5)\<rparr>)
     demo_node"

theorem sync_releases_witness:
  "out_data (out_ports (handle_sync quiet_env staged_node demo_dmx) 0) 1 = 5"
proof -
  have port: "out_ports staged_node 0 =
      demo_out_port\<lparr>sync_pending := True, sync_length := 2, sync_data := (\<lambda>_. 5)\<rparr>"
    by (simp add: staged_node_def)
  have "sync_accepts demo_dmx (out_ports staged_node 0)"
    by (simp add: port sync_accepts_def demo_out_port_def zero_out_port_def)
  moreover have "fst (check_callback quiet_env staged_node demo_dmx ARTNET_SYNC_HANDLER) = 0"
    by (simp add: check_callback_def staged_node_def no_callback_def)
  ultimately show ?thesis
    using sync_releases [OF observer_quiet, of 0 staged_node demo_dmx]
    by (simp add: port in_512_def)
qed

end
