(* ===== verification/Poll.thy ===== *)
theory Poll
  imports Node_New
begin

text \<open>
  Discovery as a node sees it (\<open>artnet/receive.c\<close>): ArtPoll, which sets up when and where the
  node replies and who receives diagnostics, and ArtPollReply, which feeds the node list.
\<close>

section \<open>ArtPoll\<close>

definition ARTNET_POLL_FLAG_REPLY_ON_CHANGE :: u8 where [simp]: "ARTNET_POLL_FLAG_REPLY_ON_CHANGE = 0x02"
definition ARTNET_POLL_FLAG_DIAG_ENABLE :: u8 where [simp]: "ARTNET_POLL_FLAG_DIAG_ENABLE = 0x04"
definition ARTNET_POLL_FLAG_DIAG_UNICAST :: u8 where [simp]: "ARTNET_POLL_FLAG_DIAG_UNICAST = 0x08"
definition ARTNET_POLL_FLAG_VLC_DISABLE :: u8 where [simp]: "ARTNET_POLL_FLAG_VLC_DISABLE = 0x10"
definition ARTNET_POLL_FLAG_TARGET_MODE :: u8 where [simp]: "ARTNET_POLL_FLAG_TARGET_MODE = 0x20"

definition poll_flag :: "packet \<Rightarrow> u8 \<Rightarrow> bool" where
  "poll_flag p f \<longleftrightarrow> get8 artnet_poll_s ''flags'' p AND f \<noteq> 0"

definition poll_top :: "packet \<Rightarrow> int" where
  "poll_top p = get_short artnet_poll_s ''targetPortAddressTopHi'' ''targetPortAddressTopLo'' p"

definition poll_bottom :: "packet \<Rightarrow> int" where
  "poll_bottom p = get_short artnet_poll_s ''targetPortAddressBottomHi'' ''targetPortAddressBottomLo'' p"

text \<open>The address a port is polled by: the output's, or the input's when the output is off.\<close>

definition polled_addr :: "node \<Rightarrow> nat \<Rightarrow> int" where
  "polled_addr n i =
     uint (if port_enabled (out_ports n i) then port_addr (out_ports n i)
           else port_addr (in_ports n i))"

definition poll_targets :: "node \<Rightarrow> packet \<Rightarrow> bool" where
  "poll_targets n p \<longleftrightarrow>
     (poll_bottom p = 0 \<and> poll_top p = 0) \<or>
     list_ex (\<lambda>i. poll_bottom p \<le> polled_addr n i \<and> polled_addr n i \<le> poll_top p)
       [0..<ARTNET_MAX_PORTS]"

definition poll_diagnostics :: "packet \<Rightarrow> node \<Rightarrow> node" where
  "poll_diagnostics p n =
     (let poller_ip = p_from p;
          known = list_ex (\<lambda>i. diag_controller_ips n i = poller_ip)
                    [0..<nat (min (diag_controller_count n) 4)];
          n = (if \<not> known \<and> diag_controller_count n < 4
               then n\<lparr>diag_controller_ips :=
                        (diag_controller_ips n)(nat (diag_controller_count n) := poller_ip),
                      diag_controller_count := diag_controller_count n + 1\<rparr>
               else n);
          n = n\<lparr>diag_enabled := True,
                diag_unicast := (if 1 < diag_controller_count n then False
                                 else poll_flag p ARTNET_POLL_FLAG_DIAG_UNICAST)\<rparr>
      in if get8 artnet_poll_s ''diagPriority'' p < diag_priority n
         then n\<lparr>diag_priority := get8 artnet_poll_s ''diagPriority'' p\<rparr>
         else n)"

definition handle_poll :: "env \<Rightarrow> node \<Rightarrow> packet \<Rightarrow> int \<times> node" where
  "handle_poll e n p =
     (case check_callback e n p ARTNET_POLL_HANDLER of
        (ret, n) \<Rightarrow>
          if ret \<noteq> 0 then (ARTNET_EOK, n)
          else if node_type n = ARTNET_RAW then (ARTNET_EOK, n)
          else
            (let n = n\<lparr>reply_addr := p_from p,
                       send_apr_on_change := poll_flag p ARTNET_POLL_FLAG_REPLY_ON_CHANGE,
                       vlc_disabled := poll_flag p ARTNET_POLL_FLAG_VLC_DISABLE\<rparr>
             in if poll_flag p ARTNET_POLL_FLAG_TARGET_MODE \<and> \<not> poll_targets n p
                then (ARTNET_EOK, n)
                else
                  (let n = (if poll_flag p ARTNET_POLL_FLAG_DIAG_ENABLE then poll_diagnostics p n
                            else n);
                       (now, n) = artnet_gettime_ms e n;
                       (r, n) = c_rand e n
                   in (ARTNET_EOK, n\<lparr>apr_pending := True, apr_pending_time := now + of_nat (r mod 1000)\<rparr>))))"

section \<open>ArtPollReply\<close>

definition handle_reply :: "env \<Rightarrow> node \<Rightarrow> packet \<Rightarrow> node" where
  "handle_reply e n p =
     snd (check_callback e (snd (artnet_nl_update e n p)) p ARTNET_REPLY_HANDLER)"

section \<open>Helpers of the handlers\<close>

definition bind_index_matches :: "node \<Rightarrow> u8 \<Rightarrow> bool" where
  "bind_index_matches n i \<longleftrightarrow> i = (if bind_index n \<noteq> 0 then bind_index n else 1)"

definition remember_tod_requester :: "ip \<Rightarrow> node \<Rightarrow> node" where
  "remember_tod_requester requester n =
     (if requester = 0 then n
      else if list_ex (\<lambda>i. tod_requester_ips n i = requester) [0..<nat (tod_requester_count n)]
        then n
      else if tod_requester_count n < 8 then
        n\<lparr>tod_requester_ips := (tod_requester_ips n)(nat (tod_requester_count n) := requester),
          tod_requester_count := tod_requester_count n + 1\<rparr>
      else n)"

section \<open>The invariant\<close>

lemma node_ok_diag_count:
  "node_ok n \<Longrightarrow> node_ok (n\<lparr>diag_controller_count := x\<rparr>) = (0 \<le> x \<and> x \<le> 4)"
  by (simp add: node_ok_parts)

lemma node_ok_tod_count:
  "node_ok n \<Longrightarrow> node_ok (n\<lparr>tod_requester_count := x\<rparr>) = (0 \<le> x \<and> x \<le> 8)"
  by (simp add: node_ok_parts)

lemma node_ok_poll_diagnostics: "node_ok n \<Longrightarrow> node_ok (poll_diagnostics p n)"
  by (simp add: poll_diagnostics_def Let_def node_ok_diag_count) (simp add: node_ok_parts)

lemma node_ok_handle_poll:
  assumes "cb_ok e" "node_ok n"
  shows "node_ok (snd (handle_poll e n p))"
proof -
  have "node_ok (snd (check_callback e n p ARTNET_POLL_HANDLER))" using assms by blast
  then show ?thesis
    by (simp add: handle_poll_def case_prod_beta Let_def artnet_gettime_ms_def c_rand_def
        node_ok_poll_diagnostics)
qed

lemma node_ok_remember [intro]: "node_ok n \<Longrightarrow> node_ok (remember_tod_requester a n)"
  by (simp add: remember_tod_requester_def node_ok_tod_count) (simp add: node_ok_parts)

lemma nl_update_tx_ok:
  assumes "list_all (\<lambda>t. tx_ok (firmware t)) (entries (nodes n))" "nl_update_ok e n p"
  shows "list_all (\<lambda>t. tx_ok (firmware t)) (entries (nodes (snd (artnet_nl_update e n p))))"
  using assms
  by (auto simp: artnet_nl_update_entries nl_put_def list_all_length nth_append nth_list_update
      split: option.splits dest: find_pos_Some)

lemma nl_update_fields [simp]:
  "in_ports (snd (artnet_nl_update e n p)) = in_ports n"
  "out_ports (snd (artnet_nl_update e n p)) = out_ports n"
  "netSwitch (snd (artnet_nl_update e n p)) = netSwitch n"
  "subSwitch (snd (artnet_nl_update e n p)) = subSwitch n"
  "node_fw (snd (artnet_nl_update e n p)) = node_fw n"
  "ar_count (snd (artnet_nl_update e n p)) = ar_count n"
  "tod_requester_count (snd (artnet_nl_update e n p)) = tod_requester_count n"
  "diag_controller_count (snd (artnet_nl_update e n p)) = diag_controller_count n"
  "oob (snd (artnet_nl_update e n p)) = oob n"
  by (simp_all add: nl_update_simps Let_def split: option.splits)

lemma node_ok_nl_update:
  assumes "node_ok n" "nl_update_ok e n p"
  shows "node_ok (snd (artnet_nl_update e n p))"
  using assms wf_nl_update [of n e p] nl_update_tx_ok [of n e p] artnet_nl_update_even [of e n p]
  by (simp add: node_ok_def ports_ok_def list_ok_def counts_ok_def)

lemma nl_update_ok_malloc: "(\<And>k. env_malloc e k) \<Longrightarrow> nl_update_ok e n p"
  by (simp add: nl_update_ok_def nl_update_simps Let_def split: option.splits)

lemma node_ok_handle_reply:
  assumes "cb_ok e" "node_ok n" "\<And>k. env_malloc e k"
  shows "node_ok (handle_reply e n p)"
  using node_ok_nl_update [OF assms(2) nl_update_ok_malloc [OF assms(3)]] assms(1)
  by (simp add: handle_reply_def node_ok_check)

end
