(* ===== verification/Address.thy ===== *)
theory Address
  imports Poll
begin

text \<open>
  Remote configuration: ArtAddress, ArtInput and ArtIpProg (\<open>artnet/receive.c\<close>).  The long
  handler of ArtAddress is the composition of its sections, in their order.
\<close>

section \<open>ArtAddress\<close>

abbreviation "adr \<equiv> artnet_address_s"

definition wants_name :: "u8 \<Rightarrow> bool" where
  "wants_name c \<longleftrightarrow> c \<noteq> PROGRAM_DEFAULTS \<and> c \<noteq> PROGRAM_NO_CHANGE"

definition address_names :: "packet \<Rightarrow> node \<Rightarrow> node" where
  "address_names p n =
     (let n = (if wants_name (get_at adr ''shortName'' 0 p)
               then n\<lparr>shortName := put_bytes (shortName n) 0
                        (get_n adr ''shortName'' ARTNET_SHORT_NAME_LENGTH p),
                      report_code := ARTNET_RC_SHNAME_OK\<rparr>
               else n)
      in if wants_name (get_at adr ''longName'' 0 p)
         then n\<lparr>longName := put_bytes (longName n) 0
                  (get_n adr ''longName'' ARTNET_LONG_NAME_LENGTH p),
                report_code := ARTNET_RC_LONAME_OK\<rparr>
         else n)"

text \<open>A switch after programming: its value, and whether the network set it.\<close>

definition program_switch :: "u8 \<Rightarrow> u8 \<Rightarrow> u8 \<Rightarrow> u8 \<times> u8 \<Rightarrow> u8 \<times> u8" where
  "program_switch sw dflt m cur =
     (if sw = PROGRAM_DEFAULTS then (dflt, 0)
      else if sw AND PROGRAM_CHANGE_MASK \<noteq> 0 then (sw AND m, 1)
      else cur)"

definition address_switches :: "packet \<Rightarrow> node \<Rightarrow> node" where
  "address_switches p n =
     (let (s, sc) = program_switch (get8 adr ''subSwitch'' p) (default_subSwitch n) 0x0F
                      (subSwitch n, subSwitch_net_ctl n);
          (t, tc) = program_switch (get8 adr ''netSwitch'' p) (default_netSwitch n)
                      (NOT PROGRAM_CHANGE_MASK) (netSwitch n, netSwitch_net_ctl n)
      in n\<lparr>subSwitch := s, subSwitch_net_ctl := sc, netSwitch := t, netSwitch_net_ctl := tc\<rparr>)"

text \<open>Every port keeps its own four bits and takes the node's net and subnet.\<close>

definition rebuild_addr :: "node \<Rightarrow> u16 \<Rightarrow> u16" where
  "rebuild_addr n a = make_addr (netSwitch n) (subSwitch n) (addr_port a)"

definition rebuild_ports :: "node \<Rightarrow> node" where
  "rebuild_ports n =
     for_upto ARTNET_MAX_PORTS
       (\<lambda>i n. upd_out i (\<lambda>q. q\<lparr>port_addr := rebuild_addr n (port_addr q)\<rparr>)
                (upd_in i (\<lambda>q. q\<lparr>port_addr := rebuild_addr n (port_addr q)\<rparr>) n)) n"

definition address_rebuild :: "u8 \<Rightarrow> u8 \<Rightarrow> node \<Rightarrow> node" where
  "address_rebuild old_net old_subnet n =
     (if old_net \<noteq> netSwitch n \<or> old_subnet \<noteq> subSwitch n then rebuild_ports n else n)"

definition address_swin :: "packet \<Rightarrow> nat \<Rightarrow> node \<Rightarrow> node" where
  "address_swin p i n =
     (let sw = get_at adr ''swIn'' i p
      in if sw = PROGRAM_NO_CHANGE then n
         else if sw = PROGRAM_DEFAULTS then
           upd_in i (\<lambda>q. q\<lparr>port_addr := make_addr (netSwitch n) (subSwitch n) (port_default_addr q),
                             port_net_ctl := 0\<rparr>) n
         else if sw AND PROGRAM_CHANGE_MASK \<noteq> 0 then
           upd_in i (\<lambda>q. q\<lparr>port_addr := make_addr (netSwitch n) (subSwitch n) sw,
                             port_net_ctl := 1\<rparr>) n
         else n)"

definition address_swout :: "packet \<Rightarrow> nat \<Rightarrow> node \<Rightarrow> node" where
  "address_swout p i n =
     (let sw = get_at adr ''swOut'' i p
      in if sw = PROGRAM_NO_CHANGE then n
         else if sw = PROGRAM_DEFAULTS then
           upd_out i (\<lambda>q. q\<lparr>port_addr := make_addr (netSwitch n) (subSwitch n) (port_default_addr q),
                              port_net_ctl := 0, port_enabled := True\<rparr>) n
         else if sw AND PROGRAM_CHANGE_MASK \<noteq> 0 then
           upd_out i (\<lambda>q. q\<lparr>port_addr := make_addr (netSwitch n) (subSwitch n) sw,
                              port_net_ctl := 1, port_enabled := True\<rparr>) n
         else n)"

definition address_seq :: "(nat \<Rightarrow> u16) \<Rightarrow> nat \<Rightarrow> node \<Rightarrow> node" where
  "address_seq addr i n =
     (if addr i \<noteq> port_addr (in_ports n i) then upd_in i (\<lambda>q. q\<lparr>seq := 1\<rparr>) n else n)"

text \<open>The commands, by their codes in \<open>artnet_port_command_t\<close>.\<close>

definition stop_merge :: "output_port \<Rightarrow> output_port" where
  "stop_merge q = q\<lparr>ipA := 0, ipB := 0, physicalA := 0, physicalB := 0, timeA := 0, timeB := 0,
     cancel_merge_pending := False, port_status := port_status q AND NOT PORT_STATUS_MERGE\<rparr>"

definition set_direction :: "nat \<Rightarrow> u8 \<Rightarrow> u8 \<Rightarrow> node \<Rightarrow> node" where
  "set_direction i on off n =
     upd_out i stop_merge
       (n\<lparr>port_types := (port_types n)(i := (port_types n i OR on) AND NOT off)\<rparr>)"

definition address_node_command :: "u8 \<Rightarrow> node \<Rightarrow> node" where
  "address_node_command cmd n =
     (if cmd = 0x01 then
        for_upto ARTNET_MAX_PORTS
          (\<lambda>i n. if port_status (out_ports n i) AND PORT_STATUS_MERGE \<noteq> 0
                 then upd_out i (\<lambda>q. q\<lparr>cancel_merge_pending := True\<rparr>) n else n) n
      else if cmd = 0x02 then n\<lparr>led_state := 0x03\<rparr>
      else if cmd = 0x03 then n\<lparr>led_state := 0x02\<rparr>
      else if cmd = 0x04 then n\<lparr>led_state := 0x01\<rparr>
      else if cmd = 0x05 then
        for_upto ARTNET_MAX_PORTS
          (\<lambda>i. upd_out i (\<lambda>q. q\<lparr>port_status := port_status q AND NOT PORT_STATUS_DMX_SIP AND
                 NOT PORT_STATUS_DMX_TEST AND NOT PORT_STATUS_DMX_TEXT\<rparr>)) n
      else if cmd = 0x08 then n\<lparr>failsafe_mode := ARTNET_FAILSAFE_HOLD\<rparr>
      else if cmd = 0x09 then n\<lparr>failsafe_mode := ARTNET_FAILSAFE_ZERO\<rparr>
      else if cmd = 0x0a then n\<lparr>failsafe_mode := ARTNET_FAILSAFE_FULL\<rparr>
      else if cmd = 0x0b then n\<lparr>failsafe_mode := ARTNET_FAILSAFE_SCENE\<rparr>
      else if cmd = 0x0c then
        for_upto ARTNET_MAX_PORTS
          (\<lambda>i. upd_out i (\<lambda>q. q\<lparr>failsafe_data := memcpy (failsafe_data q) 0 (out_data q) 0 ARTNET_DMX_LENGTH,
                 failsafe_length := out_length q\<rparr>)) n
      else if 0xe0 \<le> cmd \<and> cmd \<le> 0xef then n\<lparr>bqp_policy := cmd\<rparr>
      else n)"

definition address_port_command :: "u8 \<Rightarrow> node \<Rightarrow> node" where
  "address_port_command cmd n =
     (let i = unat (cmd AND 0x03)
      in if cmd = 0x10 then
           upd_out i (\<lambda>q. q\<lparr>merge_mode := ARTNET_MERGE_LTP,
                              port_status := port_status q OR PORT_STATUS_LPT_MODE\<rparr>) n
         else if cmd = 0x20 then set_direction i ARTNET_ENABLE_OUTPUT ARTNET_ENABLE_INPUT n
         else if cmd = 0x30 then set_direction i ARTNET_ENABLE_INPUT ARTNET_ENABLE_OUTPUT n
         else if cmd = 0x50 then
           upd_out i (\<lambda>q. q\<lparr>merge_mode := ARTNET_MERGE_HTP,
                              port_status := port_status q AND NOT PORT_STATUS_LPT_MODE\<rparr>) n
         else if cmd = 0x60 then upd_out i (\<lambda>q. q\<lparr>proto_sel := 0\<rparr>) n
         else if cmd = 0x70 then upd_out i (\<lambda>q. q\<lparr>proto_sel := 1\<rparr>) n
         else if cmd = 0x90 then
           upd_out i (\<lambda>q. q\<lparr>out_data := memset (out_data q) 0x00 ARTNET_DMX_LENGTH, out_length := 0\<rparr>) n
         else if cmd = 0xa0 then upd_out i (\<lambda>q. q\<lparr>output_style := 0\<rparr>) n
         else if cmd = 0xb0 then upd_out i (\<lambda>q. q\<lparr>output_style := 1\<rparr>) n
         else if cmd = 0xc0 then upd_out i (\<lambda>q. q\<lparr>rdm_enabled := 1\<rparr>) n
         else if cmd = 0xd0 then upd_out i (\<lambda>q. q\<lparr>rdm_enabled := 0\<rparr>) n
         else n)"

definition address_command :: "packet \<Rightarrow> node \<Rightarrow> node" where
  "address_command p n =
     (let cmd = get8 adr ''command'' p in address_port_command cmd (address_node_command cmd n))"

definition address_priority :: "packet \<Rightarrow> node \<Rightarrow> node" where
  "address_priority p n =
     (if get8 adr ''acnPriority'' p \<noteq> 0xFF
      then n\<lparr>acn_priority := get8 adr ''acnPriority'' p\<rparr> else n)"

text \<open>The programming part, from the names to the sequence numbers.\<close>

definition address_program :: "packet \<Rightarrow> node \<Rightarrow> node" where
  "address_program p n =
     (let n = address_names p n;
          old_net = netSwitch n;
          old_subnet = subSwitch n;
          addr = (\<lambda>i. port_addr (in_ports n i));
          n = address_switches p n;
          n = address_rebuild old_net old_subnet n;
          n = for_upto ARTNET_MAX_PORTS (address_swin p) n;
          n = for_upto ARTNET_MAX_PORTS (address_swout p) n
      in for_upto ARTNET_MAX_PORTS (address_seq addr) n)"

definition handle_address :: "env \<Rightarrow> node \<Rightarrow> packet \<Rightarrow> int \<times> node" where
  "handle_address e n p =
     (case check_callback e n p ARTNET_ADDRESS_HANDLER of
        (ret, n) \<Rightarrow>
          if ret \<noteq> 0 then (ARTNET_EOK, n)
          else if node_type n = ARTNET_SRV \<or> node_type n = ARTNET_RAW then (ARTNET_EOK, n)
          else if \<not> bind_index_matches n (get8 adr ''bindIndex'' p) then (ARTNET_EOK, n)
          else
            (let n = address_program p (n\<lparr>reply_addr := p_from p\<rparr>);
                 n = address_priority p (address_command p n);
                 n = notify e program_c No_Arg n;
                 (ret, n) = artnet_tx_build_art_poll_reply n
             in if ret \<noteq> 0 then (ret, n) else artnet_tx_poll_reply e n))"

section \<open>ArtInput\<close>

definition input_port_switch :: "packet \<Rightarrow> nat \<Rightarrow> node \<Rightarrow> node" where
  "input_port_switch p i n =
     upd_in i (\<lambda>q. q\<lparr>port_status :=
       (if get_at artnet_input_s ''input'' i p AND PORT_DISABLE_MASK \<noteq> 0
        then port_status q OR PORT_STATUS_INPUT_DISABLED
        else port_status q AND NOT PORT_STATUS_INPUT_DISABLED)\<rparr>) n"

definition artnet_handle_input :: "env \<Rightarrow> node \<Rightarrow> packet \<Rightarrow> int \<times> node" where
  "artnet_handle_input e n p =
     (case check_callback e n p ARTNET_INPUT_HANDLER of
        (ret, n) \<Rightarrow>
          if ret \<noteq> 0 then (ARTNET_EOK, n)
          else if node_type n \<noteq> ARTNET_NODE \<and> node_type n \<noteq> ARTNET_MSRV then (ARTNET_EOK, n)
          else if \<not> bind_index_matches n (get8 artnet_input_s ''bindIndex'' p) then (ARTNET_EOK, n)
          else
            (let n = n\<lparr>reply_addr := p_from p\<rparr>;
                 ports = min (unat (get8 artnet_input_s ''numbports'' p)) ARTNET_MAX_PORTS;
                 n = for_upto ports (input_port_switch p) n;
                 (ret, n) = artnet_tx_build_art_poll_reply n
             in if ret \<noteq> 0 then (ret, n) else artnet_tx_poll_reply e n))"

section \<open>ArtIpProg\<close>

definition ARTNET_RC_DEBUG :: int where [simp]: "ARTNET_RC_DEBUG = 0"

abbreviation "aip \<equiv> artnet_ipprog_s"

definition set_report :: "u8 list \<Rightarrow> node \<Rightarrow> node" where
  "set_report s n = n\<lparr>report := put_bytes (report n) 0 (take (ARTNET_REPORT_LENGTH - 1) s @ [0])\<rparr>"

definition fmt_d :: "u8 \<Rightarrow> u8 list" where
  "fmt_d b = map digit_char (digits 10 (unat b))"

definition dotted :: "string \<Rightarrow> u8 list \<Rightarrow> u8 list" where
  "dotted s bs =
     bytes_of s @ bytes_of '' Programmed ['' @ fmt_d (bs ! 0) @ bytes_of ''.'' @ fmt_d (bs ! 1) @
     bytes_of ''.'' @ fmt_d (bs ! 2) @ bytes_of ''.'' @ fmt_d (bs ! 3) @ bytes_of '']''"

definition ipprog_bytes :: "string \<Rightarrow> packet \<Rightarrow> u8 list" where
  "ipprog_bytes f p = get_n aip f 4 p"

definition ipprog_addr :: "string \<Rightarrow> packet \<Rightarrow> ip" where
  "ipprog_addr f p =
     (let b = ipprog_bytes f p in octets_to_ip (b ! 0) (b ! 1) (b ! 2) (b ! 3))"

definition ipprog_set_ip :: "packet \<Rightarrow> node \<Rightarrow> node" where
  "ipprog_set_ip p n =
     (let new_ip = ipprog_addr ''ProgIpHi'' p
      in set_report (dotted ''IP'' (ipprog_bytes ''ProgIpHi'' p))
           (n\<lparr>ip_addr := new_ip,
              bcast_addr := (new_ip AND subnet_mask n) OR NOT (subnet_mask n),
              report_code := ARTNET_RC_DEBUG\<rparr>))"

definition ipprog_set_mask :: "packet \<Rightarrow> node \<Rightarrow> node" where
  "ipprog_set_mask p n =
     (let new_mask = ipprog_addr ''ProgSmHi'' p
      in set_report (dotted ''Subnet'' (ipprog_bytes ''ProgSmHi'' p))
           (n\<lparr>subnet_mask := new_mask,
              bcast_addr := (ip_addr n AND new_mask) OR NOT new_mask,
              report_code := ARTNET_RC_DEBUG\<rparr>))"

definition ipprog_set_gateway :: "packet \<Rightarrow> node \<Rightarrow> node" where
  "ipprog_set_gateway p n =
     set_report (dotted ''Gateway'' (ipprog_bytes ''ProgDgHi'' p))
       (n\<lparr>gateway := ipprog_addr ''ProgDgHi'' p, report_code := ARTNET_RC_DEBUG\<rparr>)"

definition ipprog_program :: "packet \<Rightarrow> node \<Rightarrow> node" where
  "ipprog_program p n =
     (let cmd = get8 aip ''Command'' p
      in if cmd AND 0x40 \<noteq> 0 then
           set_report (bytes_of ''DHCP Enable requested (not supported in software)'')
             (n\<lparr>report_code := ARTNET_RC_DEBUG\<rparr>)
         else if cmd AND 0x08 \<noteq> 0 then
           set_report (bytes_of ''Reset to defaults requested'') (n\<lparr>report_code := ARTNET_RC_DEBUG\<rparr>)
         else
           (let n = (if cmd AND 0x04 \<noteq> 0 then ipprog_set_ip p n else n);
                n = (if cmd AND 0x02 \<noteq> 0 then ipprog_set_mask p n else n)
            in if cmd AND 0x10 \<noteq> 0 then ipprog_set_gateway p n else n))"

definition handle_ipprog :: "env \<Rightarrow> node \<Rightarrow> packet \<Rightarrow> node" where
  "handle_ipprog e n p =
     (case check_callback e (n\<lparr>reply_addr := p_from p\<rparr>) p ARTNET_IPPROG_HANDLER of
        (ret, n) \<Rightarrow>
          if ret \<noteq> 0 then n
          else if get8 aip ''Command'' p AND 0x80 = 0 then
            snd (artnet_tx_ipprog_reply e (snd (artnet_tx_build_art_poll_reply n)))
          else
            (let n = notify e program_c No_Arg (ipprog_program p n);
                 n = snd (artnet_tx_build_art_poll_reply n);
                 n = snd (artnet_tx_poll_reply e n)
             in snd (artnet_tx_ipprog_reply e n)))"

section \<open>The invariant\<close>

lemma ports_4: "i < (4 :: nat) \<Longrightarrow> i = 0 \<or> i = 1 \<or> i = 2 \<or> i = 3"
  by auto

lemma rebuild_addr_upd [simp]:
  "rebuild_addr (upd_out i f n) = rebuild_addr n" "rebuild_addr (upd_in i g n) = rebuild_addr n"
  by (simp_all add: rebuild_addr_def fun_eq_iff)

lemma rebuild_ports_at:
  "i < 4 \<Longrightarrow> out_ports (rebuild_ports n) i =
     (out_ports n i)\<lparr>port_addr := rebuild_addr n (port_addr (out_ports n i))\<rparr>"
  "i < 4 \<Longrightarrow> in_ports (rebuild_ports n) i =
     (in_ports n i)\<lparr>port_addr := rebuild_addr n (port_addr (in_ports n i))\<rparr>"
  by (auto simp: rebuild_ports_def for_upto_4 dest!: ports_4)

lemma rebuild_ports_fields [simp]:
  "netSwitch (rebuild_ports n) = netSwitch n" "subSwitch (rebuild_ports n) = subSwitch n"
  "nodes (rebuild_ports n) = nodes n" "node_fw (rebuild_ports n) = node_fw n"
  "nl_seq (rebuild_ports n) = nl_seq n" "oob (rebuild_ports n) = oob n"
  "ar_count (rebuild_ports n) = ar_count n"
  "tod_requester_count (rebuild_ports n) = tod_requester_count n"
  "diag_controller_count (rebuild_ports n) = diag_controller_count n"
  by (simp_all add: rebuild_ports_def for_upto_4)

text \<open>
  Rebuilding makes the addresses right whatever they were: a change of net or subnet followed by it
  keeps the invariant.
\<close>

lemma node_ok_rebuild:
  assumes "node_ok n"
  shows "node_ok (rebuild_ports (n\<lparr>subSwitch := s, subSwitch_net_ctl := c, netSwitch := t,
    netSwitch_net_ctl := d\<rparr>))"
proof -
  have ports: "out_ok (out_ports n i)" "in_ok (in_ports n i)" if "i < 4" for i
    using assms that by (simp_all add: node_ok_out node_ok_in)
  show ?thesis
    using assms ports
    by (simp add: node_ok_parts rebuild_ports_at rebuild_addr_def)
qed

lemma node_ok_switches_rebuild:
  assumes "node_ok n"
  shows "node_ok (address_rebuild (netSwitch n) (subSwitch n) (address_switches p n))"
proof -
  obtain s t c d where eq: "address_switches p n =
      n\<lparr>subSwitch := s, subSwitch_net_ctl := c, netSwitch := t, netSwitch_net_ctl := d\<rparr>"
    by (simp add: address_switches_def case_prod_beta)
  show ?thesis
  proof (cases "netSwitch n \<noteq> t \<or> subSwitch n \<noteq> s")
    case True
    then show ?thesis using node_ok_rebuild [OF assms] eq by (simp add: address_rebuild_def)
  next
    case False
    then show ?thesis using assms eq by (auto simp: address_rebuild_def node_ok_parts)
  qed
qed

lemma node_ok_swin: "node_ok n \<Longrightarrow> node_ok (address_swin p i n)"
  by (auto simp: address_swin_def Let_def node_ok_in intro!: node_ok_upd_in)

lemma node_ok_swout: "node_ok n \<Longrightarrow> node_ok (address_swout p i n)"
  by (auto simp: address_swout_def Let_def node_ok_out intro!: node_ok_upd_out)

lemma node_ok_seq: "node_ok n \<Longrightarrow> node_ok (address_seq a i n)"
  by (auto simp: address_seq_def in_ok_def intro!: node_ok_step_in)

lemma node_ok_names: "node_ok n \<Longrightarrow> node_ok (address_names p n)"
  by (simp add: address_names_def Let_def)

lemma node_ok_program:
  assumes "node_ok n"
  shows "node_ok (address_program p n)"
  unfolding address_program_def Let_def
  by (intro node_ok_for_upto node_ok_switches_rebuild node_ok_names node_ok_swin node_ok_swout
      node_ok_seq assms)

lemma node_ok_node_command: "node_ok n \<Longrightarrow> node_ok (address_node_command cmd n)"
  unfolding address_node_command_def
  by (auto simp: out_ok_def intro!: node_ok_for_upto node_ok_step)

lemma node_ok_port_command: "node_ok n \<Longrightarrow> node_ok (address_port_command cmd n)"
  unfolding address_port_command_def set_direction_def Let_def
  by (auto simp: stop_merge_def in_512_def intro!: node_ok_step)

lemma node_ok_handle_address:
  assumes "cb_ok e" "node_ok n"
  shows "node_ok (snd (handle_address e n p))"
proof -
  let ?c = "snd (check_callback e n p ARTNET_ADDRESS_HANDLER)"
  have c: "node_ok ?c" using assms by blast
  then have "node_ok (address_priority p (address_command p
      (address_program p (?c\<lparr>reply_addr := p_from p\<rparr>))))"
    by (simp add: address_priority_def address_command_def Let_def node_ok_port_command
        node_ok_node_command node_ok_program)
  with c assms(1) show ?thesis
    by (simp add: handle_address_def case_prod_beta Let_def node_ok_poll_reply node_ok_build
        node_ok_notify)
qed

lemma node_ok_handle_input:
  assumes "cb_ok e" "node_ok n"
  shows "node_ok (snd (artnet_handle_input e n p))"
proof -
  let ?c = "snd (check_callback e n p ARTNET_INPUT_HANDLER)"
  have c: "node_ok ?c" using assms by blast
  then have "node_ok (for_upto k (input_port_switch p) (?c\<lparr>reply_addr := p_from p\<rparr>))" for k
    by (intro node_ok_for_upto) (simp_all add: input_port_switch_def node_ok_step_in)
  with c assms(1) show ?thesis
    by (simp add: artnet_handle_input_def case_prod_beta Let_def node_ok_poll_reply node_ok_build)
qed

lemma node_ok_ipprog_program: "node_ok n \<Longrightarrow> node_ok (ipprog_program p n)"
  by (simp add: ipprog_program_def Let_def set_report_def ipprog_set_ip_def ipprog_set_mask_def
      ipprog_set_gateway_def)

lemma node_ok_handle_ipprog:
  assumes "cb_ok e" "node_ok n"
  shows "node_ok (handle_ipprog e n p)"
proof -
  let ?c = "snd (check_callback e (n\<lparr>reply_addr := p_from p\<rparr>) p ARTNET_IPPROG_HANDLER)"
  have c: "node_ok ?c" using assms by (intro node_ok_check) simp_all
  with assms(1) show ?thesis
    by (simp add: handle_ipprog_def case_prod_beta Let_def node_ok_tx node_ok_build node_ok_notify
        node_ok_poll_reply node_ok_ipprog_program)
qed

end
