(* ===== verification/Rdm.thy ===== *)
theory Rdm
  imports Poll
begin

text \<open>
  RDM on the receiving side (\<open>artnet/receive.c\<close>): requests for the table of devices, its
  control, and RDM messages, which the application answers.
\<close>

section \<open>Tables of devices\<close>

definition todreq_addr :: "packet \<Rightarrow> nat \<Rightarrow> u16" where
  "todreq_addr p i =
     addr_from_bytes (get8 artnet_todrequest_s ''net'' p) (get_at artnet_todrequest_s ''address'' i p)"

text \<open>The reply for one address: a table for each enabled port that has it.\<close>

definition tod_reply_port :: "env \<Rightarrow> u16 \<Rightarrow> nat \<Rightarrow> int \<times> node \<Rightarrow> int \<times> node" where
  "tod_reply_port e a j s =
     (case s of (ret, n) \<Rightarrow>
        if port_addr (out_ports n j) = a \<and> port_enabled (out_ports n j) then
          (case artnet_tx_tod_data e n j of
             (tx_ret, n) \<Rightarrow> (if tx_ret \<noteq> 0 then tx_ret else ret, n))
        else (ret, n))"

definition handle_tod_request :: "env \<Rightarrow> node \<Rightarrow> packet \<Rightarrow> int \<times> node" where
  "handle_tod_request e n p =
     (let n = remember_tod_requester (p_from p) (n\<lparr>tod_reply_addr := p_from p\<rparr>)
      in case check_callback e n p ARTNET_TOD_REQUEST_HANDLER of
           (ret, n) \<Rightarrow>
             if ret \<noteq> 0 then (ARTNET_EOK, n)
             else if node_type n \<noteq> ARTNET_NODE \<and> node_type n \<noteq> ARTNET_MSRV then (ARTNET_EOK, n)
             else
               (let limit = min ARTNET_MAX_RDM_ADCOUNT (unat (get8 artnet_todrequest_s ''adCount'' p))
                in if get8 artnet_todrequest_s ''command'' p = 0x00 then
                     for_upto limit
                       (\<lambda>i. for_upto ARTNET_MAX_PORTS (tod_reply_port e (todreq_addr p i)))
                       (ARTNET_EOK, n)
                   else (ARTNET_EOK, n)))"

definition handle_tod_data :: "env \<Rightarrow> node \<Rightarrow> packet \<Rightarrow> node" where
  "handle_tod_data e n p =
     (case check_callback e n p ARTNET_TOD_DATA_HANDLER of
        (ret, n) \<Rightarrow>
          if ret \<noteq> 0 then n
          else notify e rdm_tod_c
            (Address_Arg (uint (addr_from_bytes (get8 artnet_toddata_s ''net'' p)
                                  (get8 artnet_toddata_s ''address'' p)))) n)"

definition todcontrol_addr :: "packet \<Rightarrow> u16" where
  "todcontrol_addr p =
     addr_from_bytes (get8 artnet_todcontrol_s ''net'' p) (get8 artnet_todcontrol_s ''address'' p)"

definition tod_control_port :: "env \<Rightarrow> packet \<Rightarrow> nat \<Rightarrow> node \<Rightarrow> node" where
  "tod_control_port e p i n =
     (let cmd = get8 artnet_todcontrol_s ''cmd'' p
      in if cmd = ARTNET_TOD_FLUSH then
           notify e rdm_init_c (Port_Arg (int i))
             (upd_out i (\<lambda>q. q\<lparr>port_tod := snd (flush_tod (port_tod q))\<rparr>) n)
         else if cmd = ARTNET_TOD_INC_ON then notify e rdm_init_c (Port_Arg (int i)) n
         else n)"

definition tod_control_step :: "env \<Rightarrow> packet \<Rightarrow> nat \<Rightarrow> int \<times> node \<Rightarrow> int \<times> node" where
  "tod_control_step e p i s =
     (case s of (ret, n) \<Rightarrow>
        if port_addr (out_ports n i) = todcontrol_addr p \<and> port_enabled (out_ports n i) then
          (let n = tod_control_port e p i n
           in if ret \<noteq> 0 then (1, n)
              else (case artnet_tx_tod_data e n i of (r, n) \<Rightarrow> (c_bool (r \<noteq> 0), n)))
        else (ret, n))"

definition handle_tod_control :: "env \<Rightarrow> node \<Rightarrow> packet \<Rightarrow> int \<times> node" where
  "handle_tod_control e n p =
     (case check_callback e n p ARTNET_TOD_CONTROL_HANDLER of
        (ret, n) \<Rightarrow>
          if ret \<noteq> 0 then (ARTNET_EOK, n)
          else
            (let n = remember_tod_requester (p_from p) (n\<lparr>tod_reply_addr := p_from p\<rparr>)
             in for_upto ARTNET_MAX_PORTS (tod_control_step e p) (ARTNET_EOK, n)))"

section \<open>Messages\<close>

definition rdm_data_length :: "packet \<Rightarrow> int" where
  "rdm_data_length p =
     (let len = p_length p - (size_of artnet_rdm_s - ARTNET_MAX_RDM_DATA)
      in if len < 0 then 0 else len)"

definition handle_rdm :: "env \<Rightarrow> node \<Rightarrow> packet \<Rightarrow> node" where
  "handle_rdm e n p =
     (case check_callback e (n\<lparr>rdm_reply_addr := p_from p\<rparr>) p ARTNET_RDM_HANDLER of
        (ret, n) \<Rightarrow>
          if ret \<noteq> 0 then n
          else notify e rdm_c
            (Rdm_Arg (uint (addr_from_bytes (get8 artnet_rdm_s ''net'' p)
                              (get8 artnet_rdm_s ''address'' p)))
               (get_n artnet_rdm_s ''data'' (nat (rdm_data_length p)) p) (rdm_data_length p)) n)"

definition handle_rdm_sub :: "env \<Rightarrow> node \<Rightarrow> packet \<Rightarrow> node" where
  "handle_rdm_sub e n p =
     snd (check_callback e (n\<lparr>rdm_reply_addr := p_from p\<rparr>) p ARTNET_RDMSUB_HANDLER)"

section \<open>The invariant\<close>

lemma node_ok_tod_reply_port:
  "cb_ok e \<Longrightarrow> node_ok (snd s) \<Longrightarrow> j < 4 \<Longrightarrow> node_ok (snd (tod_reply_port e a j s))"
  by (simp add: tod_reply_port_def case_prod_beta node_ok_tx_tod_data)

lemma node_ok_handle_tod_request:
  assumes "cb_ok e" "node_ok n"
  shows "node_ok (snd (handle_tod_request e n p))"
proof -
  let ?r = "remember_tod_requester (p_from p) (n\<lparr>tod_reply_addr := p_from p\<rparr>)"
  let ?c = "snd (check_callback e ?r p ARTNET_TOD_REQUEST_HANDLER)"
  have c: "node_ok ?c" using assms by (intro node_ok_check node_ok_remember) simp_all
  have inner: "node_ok (snd (for_upto 4 (tod_reply_port e a) s))" if "node_ok (snd s)" for a s
    by (rule for_upto_invariant [where P = "\<lambda>s. node_ok (snd s)"])
      (simp_all add: that assms(1) node_ok_tod_reply_port)
  have "node_ok (snd (for_upto k (\<lambda>i. for_upto 4 (tod_reply_port e (todreq_addr p i))) (0, ?c)))" for k
    by (rule for_upto_invariant [where P = "\<lambda>s. node_ok (snd s)"]) (simp_all add: c inner)
  with c show ?thesis by (simp add: handle_tod_request_def case_prod_beta Let_def)
qed

lemma node_ok_handle_tod_data:
  assumes "cb_ok e" "node_ok n"
  shows "node_ok (handle_tod_data e n p)"
  using node_ok_check [OF assms] assms(1)
  by (simp add: handle_tod_data_def case_prod_beta node_ok_notify)

lemma node_ok_tod_control_port:
  "cb_ok e \<Longrightarrow> node_ok n \<Longrightarrow> node_ok (tod_control_port e p i n)"
  by (auto simp: tod_control_port_def Let_def out_ok_def intro!: node_ok_notify node_ok_step)

lemma node_ok_tod_control_step:
  "cb_ok e \<Longrightarrow> node_ok (snd s) \<Longrightarrow> i < 4 \<Longrightarrow> node_ok (snd (tod_control_step e p i s))"
  by (simp add: tod_control_step_def case_prod_beta Let_def node_ok_tod_control_port
      node_ok_tx_tod_data)

lemma node_ok_handle_tod_control:
  assumes "cb_ok e" "node_ok n"
  shows "node_ok (snd (handle_tod_control e n p))"
proof -
  let ?c = "snd (check_callback e n p ARTNET_TOD_CONTROL_HANDLER)"
  let ?r = "remember_tod_requester (p_from p) (?c\<lparr>tod_reply_addr := p_from p\<rparr>)"
  have c: "node_ok ?c" using assms by blast
  then have r: "node_ok ?r" by (intro node_ok_remember) simp
  have "node_ok (snd (for_upto 4 (tod_control_step e p) (0, ?r)))"
    by (rule for_upto_invariant [where P = "\<lambda>s. node_ok (snd s)"])
      (simp_all add: r assms(1) node_ok_tod_control_step)
  with c show ?thesis by (simp add: handle_tod_control_def case_prod_beta Let_def)
qed

lemma node_ok_handle_rdm:
  assumes "cb_ok e" "node_ok n"
  shows "node_ok (handle_rdm e n p)" "node_ok (handle_rdm_sub e n p)"
proof -
  have "node_ok (snd (check_callback e (n\<lparr>rdm_reply_addr := p_from p\<rparr>) p h))" for h
    using assms by (intro node_ok_check) simp_all
  then show "node_ok (handle_rdm e n p)" "node_ok (handle_rdm_sub e n p)"
    using assms(1) by (simp_all add: handle_rdm_def handle_rdm_sub_def case_prod_beta node_ok_notify)
qed

end
