(* ===== verification/Firmware.thy ===== *)
theory Firmware
  imports Poll
begin

text \<open>
  Firmware and file transfers (\<open>artnet/receive.c\<close>): the receiving state machine of
  \<open>handle_firmware\<close>, the sending one of \<open>handle_firmware_reply\<close>, and single file blocks.
  A transfer's buffer is the number of bytes allocated and their values; every copy into it says
  that it stays inside.
\<close>

section \<open>Receiving\<close>

abbreviation "fwp \<equiv> artnet_firmware_s"

definition reset_firmware_upload :: "node \<Rightarrow> node" where
  "reset_firmware_upload n =
     n\<lparr>node_fw := (node_fw n)\<lparr>bytes_current := 0, bytes_total := 0, fw_peer := 0, fw_ubea := 0,
                                last_time := 0, fw_data := None\<rparr>\<rparr>"

text \<open>
  The total length in bytes: 32 bits of the packet read as \<open>int32_t\<close>, times
  \<open>sizeof(uint16_t)\<close>, cut to an \<open>int\<close>.
\<close>

definition fw_length :: "packet \<Rightarrow> int" where
  "fw_length p = to_int32 (sint (artnet_misc_nbytes_to_32 (get_n fwp ''length'' 4 p)) * 2)"

definition fw_max_payload :: int where
  [simp]: "fw_max_payload = ARTNET_FIRMWARE_SIZE * 2"

definition fw_payload :: "packet \<Rightarrow> int" where
  "fw_payload p = min (p_length p - (size_of fwp - ARTNET_FIRMWARE_SIZE * 2)) fw_max_payload"

definition fw_block_bytes :: "packet \<Rightarrow> mem" where
  "fw_block_bytes p = (\<lambda>j. get_at fwp ''data'' j p)"

text \<open>The check that all three kinds of blocks begin with.\<close>

definition fw_malformed :: "packet \<Rightarrow> bool" where
  "fw_malformed p \<longleftrightarrow> fw_length p \<le> 0 \<or> fw_payload p \<le> 0 \<or> fw_payload p mod 2 \<noteq> 0"

definition upd_node_fw :: "(firmware_transfer \<Rightarrow> firmware_transfer) \<Rightarrow> node \<Rightarrow> node" where
  "upd_node_fw f n = n\<lparr>node_fw := f (node_fw n)\<rparr>"

text \<open>A copy of \<open>k\<close> bytes of the packet to offset \<open>off\<close> of the buffer.\<close>

definition fw_copy :: "packet \<Rightarrow> int \<Rightarrow> int \<Rightarrow> node \<Rightarrow> node" where
  "fw_copy p off k n =
     upd_node_fw (\<lambda>f. f\<lparr>fw_data :=
         map_option (\<lambda>(sz, m). (sz, memcpy m (nat off) (fw_block_bytes p) 0 (nat k))) (fw_data f)\<rparr>)
       (inside (0 \<le> off \<and> 0 \<le> k \<and> off + k \<le> fw_capacity (node_fw n)) n)"

definition fw_done :: "env \<Rightarrow> node \<Rightarrow> node" where
  "fw_done e n =
     (let f = node_fw n
      in notify e firmware_c
           (Firmware_Arg (fw_ubea f) (case fw_data f of None \<Rightarrow> (0, zero_mem) | Some d \<Rightarrow> d)
              (bytes_total f div 2)) n)"

definition fw_type :: "packet \<Rightarrow> u8" where
  "fw_type p = get8 fwp ''type'' p"

definition fw_reply :: "env \<Rightarrow> packet \<Rightarrow> u8 \<Rightarrow> node \<Rightarrow> int \<times> node" where
  "fw_reply e p code n = artnet_tx_firmware_reply e n (p_from p) code"

definition fw_begin :: "packet \<Rightarrow> mem \<Rightarrow> u64 \<Rightarrow> firmware_transfer \<Rightarrow> firmware_transfer" where
  "fw_begin p garbage now f =
     f\<lparr>fw_data := Some (fw_length p, garbage), bytes_total := fw_length p, last_time := now,
       expected_block := 1,
       fw_ubea := (if fw_type p = ARTNET_FIRMWARE_FIRMFIRST then 0 else 1)\<rparr>"

definition fw_first_block :: "packet \<Rightarrow> int \<Rightarrow> node \<Rightarrow> node" where
  "fw_first_block p block_length n =
     upd_node_fw (\<lambda>f. f\<lparr>bytes_current := block_length\<rparr>) (fw_copy p 0 block_length n)"

definition handle_firmware_first :: "env \<Rightarrow> node \<Rightarrow> packet \<Rightarrow> int \<times> node" where
  "handle_firmware_first e n p =
     (if fw_peer (node_fw n) \<noteq> 0 then fw_reply e p ARTNET_FIRMWARE_FAIL n
      else if fw_malformed p then fw_reply e p ARTNET_FIRMWARE_FAIL n
      else
        (let len = fw_length p;
             ((ok, garbage), n) = c_malloc e (upd_node_fw (\<lambda>f. f\<lparr>fw_peer := p_from p\<rparr>) n)
         in if \<not> ok then (ARTNET_EMEM, upd_node_fw (\<lambda>f. f\<lparr>fw_data := None\<rparr>) n)
            else
              (let (now, n) = artnet_gettime_ms e n;
                   n = upd_node_fw (fw_begin p garbage now) n;
                   block_length = min len (fw_payload p)
               in if fw_payload p < block_length then fw_reply e p ARTNET_FIRMWARE_FAIL n
                  else
                    (let n = fw_first_block p block_length n
                     in if block_length = len
                        then fw_reply e p ARTNET_FIRMWARE_ALLGOOD (fw_done e n)
                        else fw_reply e p ARTNET_FIRMWARE_BLOCKGOOD n))))"

text \<open>The block number, of which the packet carries only the low eight bits.\<close>

definition fw_block_id :: "firmware_transfer \<Rightarrow> packet \<Rightarrow> int" where
  "fw_block_id f p =
     (let b = uint (get8 fwp ''blockId'' p)
      in if 255 < expected_block f \<and> expected_block f mod 256 = b then expected_block f else b)"

definition fw_offset :: "firmware_transfer \<Rightarrow> packet \<Rightarrow> int" where
  "fw_offset f p = fw_block_id f p * ARTNET_FIRMWARE_SIZE * 2"

definition fw_total_blocks :: "packet \<Rightarrow> int" where
  "fw_total_blocks p = fw_length p div ARTNET_FIRMWARE_SIZE div 2 + 1"

definition handle_firmware_cont :: "env \<Rightarrow> node \<Rightarrow> packet \<Rightarrow> int \<times> node" where
  "handle_firmware_cont e n p =
     (if fw_malformed p then fw_reply e p ARTNET_FIRMWARE_FAIL n
      else
        (let f = node_fw n;
             block_length = fw_max_payload;
             block_id = fw_block_id f p;
             off = fw_offset f p
         in if fw_peer f = p_from p \<and> fw_length p = bytes_total f \<and>
               block_id < fw_total_blocks p - 1 \<and> 0 \<le> off \<and>
               off + block_length \<le> bytes_total f \<and> block_length \<le> fw_payload p
            then fw_reply e p ARTNET_FIRMWARE_BLOCKGOOD
                   (upd_node_fw (\<lambda>f. f\<lparr>bytes_current := bytes_current f + block_length,
                                         expected_block := expected_block f + 1\<rparr>)
                     (fw_copy p off block_length n))
            else fw_reply e p ARTNET_FIRMWARE_FAIL n))"

definition fw_last_length :: "firmware_transfer \<Rightarrow> int" where
  "fw_last_length f =
     (let k = bytes_total f mod (ARTNET_FIRMWARE_SIZE * 2)
      in if k = 0 then ARTNET_FIRMWARE_SIZE * 2 else k)"

definition handle_firmware_last :: "env \<Rightarrow> node \<Rightarrow> packet \<Rightarrow> int \<times> node" where
  "handle_firmware_last e n p =
     (if fw_malformed p then fw_reply e p ARTNET_FIRMWARE_FAIL n
      else
        (let f = node_fw n;
             block_length = fw_last_length f;
             block_id = fw_block_id f p;
             off = fw_offset f p
         in if fw_payload p < block_length then fw_reply e p ARTNET_FIRMWARE_FAIL n
            else if fw_peer f = p_from p \<and> fw_length p = bytes_total f \<and>
                    block_id = fw_total_blocks p - 1 \<and> 0 \<le> off \<and>
                    off + block_length \<le> bytes_total f
            then fw_reply e p ARTNET_FIRMWARE_ALLGOOD
                   (reset_firmware_upload (fw_done e
                     (upd_node_fw (\<lambda>f. f\<lparr>bytes_current := bytes_current f + block_length\<rparr>)
                       (fw_copy p off block_length n))))
            else fw_reply e p ARTNET_FIRMWARE_FAIL n))"

definition handle_firmware :: "env \<Rightarrow> node \<Rightarrow> packet \<Rightarrow> int \<times> node" where
  "handle_firmware e n p =
     (case check_callback e n p ARTNET_FIRMWARE_HANDLER of
        (ret, n) \<Rightarrow>
          if ret \<noteq> 0 then (ARTNET_EOK, n)
          else if fw_type p = ARTNET_FIRMWARE_FIRMFIRST \<or> fw_type p = ARTNET_FIRMWARE_UBEAFIRST
            then handle_firmware_first e n p
          else if fw_type p = ARTNET_FIRMWARE_FIRMCONT \<or> fw_type p = ARTNET_FIRMWARE_UBEACONT
            then handle_firmware_cont e n p
          else if fw_type p = ARTNET_FIRMWARE_FIRMLAST \<or> fw_type p = ARTNET_FIRMWARE_UBEALAST
            then handle_firmware_last e n p
          else fw_reply e p ARTNET_FIRMWARE_FAIL n)"

section \<open>Sending\<close>

text \<open>The sender's callback, and the end of a transfer.\<close>

definition fw_tx_end :: "env \<Rightarrow> nat \<Rightarrow> u8 \<Rightarrow> node \<Rightarrow> node" where
  "fw_tx_end e i code n =
     (let f = entry_fw n i;
          n = snd (run_callback e \<lparr>fh = fw_callback f, cb_data = fw_user_data f\<rparr> (Status_Arg code) n)
      in upd_fw i (\<lambda>_. no_firmware) n)"

definition handle_firmware_reply :: "env \<Rightarrow> node \<Rightarrow> packet \<Rightarrow> int \<times> node" where
  "handle_firmware_reply e n p =
     (case check_callback e n p ARTNET_FIRMWARE_REPLY_HANDLER of
        (ret, n) \<Rightarrow>
          if ret \<noteq> 0 then (ARTNET_EOK, n)
          else
            (case find_entry_from_ip (nodes n) (p_from p) of
               None \<Rightarrow> (ARTNET_EOK, n)
             | Some i \<Rightarrow>
                 (let f = entry_fw n i;
                      code = get8 artnet_firmware_reply_s ''type'' p
                  in if bytes_total f = 0 then (ARTNET_EOK, n)
                     else if code = ARTNET_FIRMWARE_ALLGOOD then
                       (ARTNET_EOK,
                        if bytes_total f = bytes_current f
                        then fw_tx_end e i ARTNET_FIRMWARE_ALLGOOD n else n)
                     else if code = ARTNET_FIRMWARE_FAIL then
                       (ARTNET_EOK, fw_tx_end e i ARTNET_FIRMWARE_FAIL n)
                     else if code = ARTNET_FIRMWARE_BLOCKGOOD \<and> bytes_total f \<noteq> bytes_current f
                       then artnet_tx_firmware_packet e n i
                     else (ARTNET_EOK, n))))"

section \<open>File blocks\<close>

abbreviation "ftn \<equiv> artnet_file_tn_master_s"

definition tn_payload :: "packet \<Rightarrow> int" where
  "tn_payload p = min (p_length p - (size_of ftn - ARTNET_FIRMWARE_SIZE * 2)) (ARTNET_FIRMWARE_SIZE * 2)"

definition tn_words :: "packet \<Rightarrow> u32" where
  "tn_words p = artnet_misc_nbytes_to_32 (get_n ftn ''length'' 4 p)"

definition tn_malformed :: "packet \<Rightarrow> bool" where
  "tn_malformed p \<longleftrightarrow>
     tn_words p = 0 \<or> tn_payload p \<le> 0 \<or> tn_payload p mod 2 \<noteq> 0 \<or>
     uint (tn_words p) < tn_payload p div 2"

definition handle_file_tn_master :: "env \<Rightarrow> node \<Rightarrow> packet \<Rightarrow> int \<times> node" where
  "handle_file_tn_master e n p =
     (case check_callback e n p ARTNET_FILE_TN_MASTER_HANDLER of
        (ret, n) \<Rightarrow>
          if ret \<noteq> 0 then (ARTNET_EOK, n)
          else if tn_malformed p then fw_reply e p ARTNET_FIRMWARE_FAIL n
          else
            (let payload_bytes = tn_payload p;
                 data = memcpy zero_mem 0 (\<lambda>j. get_at ftn ''data'' j p) 0 (nat payload_bytes)
             in if fh (callbacks n firmware_c) = None
                then fw_reply e p ARTNET_FIRMWARE_ALLGOOD n
                else
                  (case run_callback e (callbacks n firmware_c)
                          (Firmware_Arg 0 (ARTNET_FIRMWARE_SIZE * 2, data) (payload_bytes div 2)) n of
                     (r, n) \<Rightarrow>
                       fw_reply e p (if r = 0 then ARTNET_FIRMWARE_ALLGOOD else ARTNET_FIRMWARE_FAIL) n)))"

section \<open>Memory safety\<close>

lemma node_ok_upd_node_fw: "node_ok n \<Longrightarrow> node_ok (upd_node_fw f n) = fw_ok (f (node_fw n))"
  by (simp add: upd_node_fw_def node_ok_parts)

lemma node_ok_fw: "node_ok n \<Longrightarrow> fw_ok (node_fw n)"
  by (simp add: node_ok_def)

lemma fw_ok_frame [simp]:
  "fw_ok (f\<lparr>bytes_current := x\<rparr>) = fw_ok f"
  "fw_ok (f\<lparr>last_time := y\<rparr>) = fw_ok f"
  "fw_ok f \<Longrightarrow> fw_ok (f\<lparr>expected_block := z\<rparr>) = (0 \<le> z)"
  by (auto simp: fw_ok_def split: option.splits)

lemma fw_ok_expected: "fw_ok f \<Longrightarrow> 0 \<le> expected_block f"
  by (simp add: fw_ok_def)

lemma node_fw_inside [simp]: "node_fw (inside c n) = node_fw n"
  by simp

lemma fw_capacity_ok: "fw_ok f \<Longrightarrow> fw_capacity f = bytes_total f"
  by (auto simp: fw_ok_def fw_capacity_def split: option.splits prod.splits)

text \<open>A copy that stays inside the announced length stays inside the buffer.\<close>

lemma node_ok_fw_copy:
  assumes "node_ok n" "0 \<le> off" "0 \<le> k" "off + k \<le> bytes_total (node_fw n)"
  shows "node_ok (fw_copy p off k n)"
proof -
  have "fw_ok (node_fw n)" using assms(1) by (rule node_ok_fw)
  moreover have "fw_capacity (node_fw n) = bytes_total (node_fw n)"
    using calculation by (rule fw_capacity_ok)
  ultimately show ?thesis
    using assms by (auto simp: fw_copy_def node_ok_upd_node_fw fw_ok_def split: option.splits)
qed

lemma fw_copy_fields [simp]:
  "bytes_total (node_fw (fw_copy p off k n)) = bytes_total (node_fw n)"
  "fw_peer (node_fw (fw_copy p off k n)) = fw_peer (node_fw n)"
  by (simp_all add: fw_copy_def upd_node_fw_def)

lemma node_ok_reset_firmware [intro]: "node_ok n \<Longrightarrow> node_ok (reset_firmware_upload n)"
  by (simp add: reset_firmware_upload_def node_ok_parts fw_ok_def)

lemma node_ok_fw_done [intro]: "cb_ok e \<Longrightarrow> node_ok n \<Longrightarrow> node_ok (fw_done e n)"
  by (simp add: fw_done_def Let_def node_ok_notify)

lemma node_ok_fw_reply: "cb_ok e \<Longrightarrow> node_ok n \<Longrightarrow> node_ok (snd (fw_reply e p c n))"
  by (simp add: fw_reply_def node_ok_tx)

lemma fw_payload_le: "fw_payload p \<le> 1024"
  by (simp add: fw_payload_def)

lemma node_ok_begin:
  assumes "node_ok n" "0 < fw_length p" "p_from p \<noteq> 0"
  shows "node_ok (upd_node_fw (fw_begin p g now)
    ((upd_node_fw (\<lambda>f. f\<lparr>fw_peer := p_from p\<rparr>) n)\<lparr>mallocs := k, clk := c\<rparr>))"
  using assms by (simp add: upd_node_fw_def node_ok_parts fw_ok_def fw_begin_def)

lemma node_ok_first_block:
  assumes "node_ok n" "0 \<le> k" "k \<le> bytes_total (node_fw n)"
  shows "node_ok (fw_first_block p k n)"
proof -
  have ok: "node_ok (fw_copy p 0 k n)" using assms by (intro node_ok_fw_copy) simp_all
  then show ?thesis
    using node_ok_fw [OF ok] by (simp add: fw_first_block_def node_ok_upd_node_fw)
qed

lemma node_ok_firmware_first:
  assumes cb: "cb_ok e" and n: "node_ok n" and from0: "p_from p \<noteq> 0"
  shows "node_ok (snd (handle_firmware_first e n p))"
proof (cases "fw_peer (node_fw n) \<noteq> 0 \<or> fw_malformed p")
  case True
  then show ?thesis using cb n by (auto simp: handle_firmware_first_def node_ok_fw_reply)
next
  case False
  then have idle: "fw_peer (node_fw n) = 0" and pos: "0 < fw_length p" "0 < fw_payload p"
    by (auto simp: fw_malformed_def)
  have empty: "fw_data (node_fw n) = None" "bytes_total (node_fw n) = 0"
    "0 \<le> expected_block (node_fw n)"
    using node_ok_fw [OF n] idle by (auto simp: fw_ok_def split: option.splits)
  let ?peer = "\<lambda>k. (upd_node_fw (\<lambda>f. f\<lparr>fw_peer := p_from p\<rparr>) n)\<lparr>mallocs := k\<rparr>"
  let ?begun = "\<lambda>g now k c. upd_node_fw (fw_begin p g now) ((?peer k)\<lparr>clk := c\<rparr>)"
  have begun: "node_ok (?begun g now k c)" for g now k c
    using node_ok_begin [OF n pos(1) from0] by simp
  have total: "bytes_total (node_fw (?begun g now k c)) = fw_length p" for g now k c
    by (simp add: upd_node_fw_def fw_begin_def)
  have block: "node_ok (fw_first_block p j (?begun g now k c))"
    if "0 \<le> j" "j \<le> fw_length p" for j g now k c
    using that by (intro node_ok_first_block begun) (simp_all add: total)
  have failed: "node_ok (upd_node_fw (\<lambda>f. f\<lparr>fw_data := None\<rparr>) (?peer k))" for k
    using n empty by (simp add: upd_node_fw_def node_ok_parts fw_ok_def)
  show ?thesis
    using False cb pos block begun failed node_ok_fw_reply [OF cb] node_ok_fw_done [OF cb]
    by (simp add: handle_firmware_first_def Let_def c_malloc_def artnet_gettime_ms_def min_def)
qed

lemma node_ok_firmware_cont:
  assumes "cb_ok e" "node_ok n"
  shows "node_ok (snd (handle_firmware_cont e n p))"
proof -
  have "node_ok (upd_node_fw (\<lambda>f. f\<lparr>bytes_current := bytes_current f + 1024,
      expected_block := expected_block f + 1\<rparr>) (fw_copy p off 1024 n))"
    if "0 \<le> off" "off + 1024 \<le> bytes_total (node_fw n)" for off
  proof -
    have ok: "node_ok (fw_copy p off 1024 n)" using assms that by (intro node_ok_fw_copy) simp_all
    then show ?thesis
      using node_ok_fw [OF ok] fw_ok_expected [OF node_ok_fw [OF ok]]
      by (simp add: node_ok_upd_node_fw)
  qed
  then show ?thesis
    using assms by (simp add: handle_firmware_cont_def Let_def node_ok_fw_reply)
qed

lemma fw_last_length_pos: "0 < fw_last_length f"
  using pos_mod_sign [of 1024 "bytes_total f"] by (simp add: fw_last_length_def Let_def) linarith

lemma node_ok_firmware_last:
  assumes "cb_ok e" "node_ok n"
  shows "node_ok (snd (handle_firmware_last e n p))"
proof -
  let ?k = "fw_last_length (node_fw n)"
  have "node_ok (reset_firmware_upload (fw_done e
      (upd_node_fw (\<lambda>f. f\<lparr>bytes_current := bytes_current f + ?k\<rparr>) (fw_copy p off ?k n))))"
    if "0 \<le> off" "off + ?k \<le> bytes_total (node_fw n)" for off
  proof -
    have ok: "node_ok (fw_copy p off ?k n)"
      using assms that fw_last_length_pos [of "node_fw n"] by (intro node_ok_fw_copy) simp_all
    have "node_ok (upd_node_fw (\<lambda>f. f\<lparr>bytes_current := bytes_current f + ?k\<rparr>) (fw_copy p off ?k n))"
      using node_ok_fw [OF ok] by (simp add: node_ok_upd_node_fw [OF ok])
    then show ?thesis using assms(1) by blast
  qed
  then show ?thesis
    using assms by (simp add: handle_firmware_last_def Let_def node_ok_fw_reply)
qed

lemma node_ok_handle_firmware:
  assumes "cb_ok e" "node_ok n" "p_from p \<noteq> 0"
  shows "node_ok (snd (handle_firmware e n p))"
  using node_ok_check [OF assms(1,2), of p ARTNET_FIRMWARE_HANDLER] assms
  by (simp add: handle_firmware_def case_prod_beta node_ok_firmware_first node_ok_firmware_cont
      node_ok_firmware_last node_ok_fw_reply)

lemma node_ok_file_tn_master:
  assumes "cb_ok e" "node_ok n"
  shows "node_ok (snd (handle_file_tn_master e n p))"
  using node_ok_check [OF assms, of p ARTNET_FILE_TN_MASTER_HANDLER] assms(1)
  by (simp add: handle_file_tn_master_def case_prod_beta Let_def node_ok_fw_reply node_ok_run)

lemma node_ok_fw_tx_end:
  assumes "cb_ok e" "node_ok n"
  shows "node_ok (fw_tx_end e i code n)"
  using node_ok_run [OF assms] by (simp add: fw_tx_end_def Let_def node_ok_upd_fw)

lemma find_entry_from_ip_bound:
  "find_entry_from_ip nl a = Some i \<Longrightarrow> i < length (entries nl)"
  by (auto simp: find_entry_from_ip_def dest: find_pos_Some)

lemma node_ok_firmware_reply:
  assumes "cb_safe e" "node_ok n"
  shows "node_ok (snd (handle_firmware_reply e n p))"
  using assms node_ok_check [OF cb_safe_ok [OF assms(1)] assms(2), of p ARTNET_FIRMWARE_REPLY_HANDLER]
  by (simp add: handle_firmware_reply_def case_prod_beta Let_def node_ok_fw_tx_end cb_safe_ok
      node_ok_tx_firmware_packet find_entry_from_ip_bound split: option.splits)

end
