(* ===== verification/Receive.thy ===== *)
theory Receive
  imports Output Address Rdm Firmware
begin

text \<open>
  The dispatcher (\<open>handle\<close>, \<open>artnet/receive.c\<close>) and the handlers that leave their packet to
  the application: commands, time codes, triggers, directories, file blocks, media and data.
\<close>

section \<open>Packets for the application\<close>

text \<open>An ArtCommand is for one manufacturer, an ArtTrigger for one OEM code, or for all (0xFFFF).\<close>

definition handle_command :: "env \<Rightarrow> node \<Rightarrow> packet \<Rightarrow> node" where
  "handle_command e n p =
     (let esta = get_short artnet_command_s ''estaManHi'' ''estaManLo'' p
      in if esta \<noteq> 0xFFFF \<and> esta \<noteq> bytes_to_short (esta_hi n) (esta_lo n) then n
         else snd (check_callback e n p ARTNET_COMMAND_HANDLER))"

definition handle_timecode :: "env \<Rightarrow> node \<Rightarrow> packet \<Rightarrow> node" where
  "handle_timecode e n p = snd (check_callback e n p ARTNET_TIMECODE_HANDLER)"

definition handle_timesync :: "env \<Rightarrow> node \<Rightarrow> packet \<Rightarrow> node" where
  "handle_timesync e n p = snd (check_callback e n p ARTNET_TIMESYNC_HANDLER)"

definition handle_trigger :: "env \<Rightarrow> node \<Rightarrow> packet \<Rightarrow> node" where
  "handle_trigger e n p =
     (let oem = get_short artnet_trigger_s ''oemCodeHi'' ''oemCodeLo'' p
      in if oem \<noteq> 0xFFFF \<and> oem \<noteq> bytes_to_short (oem_hi n) (oem_lo n) then n
         else snd (check_callback e n p ARTNET_TRIGGER_HANDLER))"

definition handle_directory :: "env \<Rightarrow> node \<Rightarrow> packet \<Rightarrow> node" where
  "handle_directory e n p =
     (case check_callback e (n\<lparr>reply_addr := p_from p\<rparr>) p ARTNET_DIRECTORY_HANDLER of
        (ret, n) \<Rightarrow> if ret \<noteq> 0 then n else snd (artnet_tx_directory_reply e n))"

definition handle_directory_reply :: "env \<Rightarrow> node \<Rightarrow> packet \<Rightarrow> node" where
  "handle_directory_reply e n p = snd (check_callback e n p ARTNET_DIRECTORY_REPLY_HANDLER)"

definition handle_file_fn_master :: "env \<Rightarrow> node \<Rightarrow> packet \<Rightarrow> node" where
  "handle_file_fn_master e n p =
     snd (check_callback e (n\<lparr>reply_addr := p_from p\<rparr>) p ARTNET_FILE_FN_MASTER_HANDLER)"

definition handle_file_fn_reply :: "env \<Rightarrow> node \<Rightarrow> packet \<Rightarrow> node" where
  "handle_file_fn_reply e n p = snd (check_callback e n p ARTNET_FILE_FN_REPLY_HANDLER)"

definition handle_media_patch :: "env \<Rightarrow> node \<Rightarrow> packet \<Rightarrow> node" where
  "handle_media_patch e n p = snd (check_callback e n p ARTNET_MEDIAPATCH_HANDLER)"

definition handle_media_control :: "env \<Rightarrow> node \<Rightarrow> packet \<Rightarrow> node" where
  "handle_media_control e n p = snd (check_callback e n p ARTNET_MEDIACONTROL_HANDLER)"

definition handle_diagdata :: "env \<Rightarrow> node \<Rightarrow> packet \<Rightarrow> node" where
  "handle_diagdata e n p = snd (check_callback e n p ARTNET_DIAGDATA_HANDLER)"

definition handle_data_request :: "env \<Rightarrow> node \<Rightarrow> packet \<Rightarrow> node" where
  "handle_data_request e n p = snd (check_callback e n p ARTNET_DATAREQUEST_HANDLER)"

definition handle_data_reply :: "env \<Rightarrow> node \<Rightarrow> packet \<Rightarrow> node" where
  "handle_data_reply e n p = snd (check_callback e n p ARTNET_DATAREPLY_HANDLER)"

definition handle_media :: "env \<Rightarrow> node \<Rightarrow> packet \<Rightarrow> node" where
  "handle_media e n p = snd (check_callback e n p ARTNET_MEDIA_HANDLER)"

definition handle_media_control_reply :: "env \<Rightarrow> node \<Rightarrow> packet \<Rightarrow> node" where
  "handle_media_control_reply e n p = snd (check_callback e n p ARTNET_MEDIACONTROL_REPLY_HANDLER)"

section \<open>The dispatcher\<close>

fun dispatch :: "artnet_packet_type \<Rightarrow> env \<Rightarrow> node \<Rightarrow> packet \<Rightarrow> node" where
  "dispatch ARTNET_POLL e n p = snd (handle_poll e n p)"
| "dispatch ARTNET_REPLY e n p = handle_reply e n p"
| "dispatch ARTNET_DMX e n p = handle_dmx e n p"
| "dispatch ARTNET_ADDRESS e n p = snd (handle_address e n p)"
| "dispatch ARTNET_INPUT e n p = snd (artnet_handle_input e n p)"
| "dispatch ARTNET_TODREQUEST e n p = snd (handle_tod_request e n p)"
| "dispatch ARTNET_TODDATA e n p = handle_tod_data e n p"
| "dispatch ARTNET_TODCONTROL e n p = snd (handle_tod_control e n p)"
| "dispatch ARTNET_RDM e n p = handle_rdm e n p"
| "dispatch ARTNET_RDMSUB e n p = handle_rdm_sub e n p"
| "dispatch ARTNET_DIAGDATA e n p = handle_diagdata e n p"
| "dispatch ARTNET_DATAREQUEST e n p = handle_data_request e n p"
| "dispatch ARTNET_DATAREPLY e n p = handle_data_reply e n p"
| "dispatch ARTNET_SYNC e n p = handle_sync e n p"
| "dispatch ARTNET_NZS e n p = handle_nzs e n p"
| "dispatch ARTNET_COMMAND e n p = handle_command e n p"
| "dispatch ARTNET_TIMECODE e n p = handle_timecode e n p"
| "dispatch ARTNET_TIMESYNC e n p = handle_timesync e n p"
| "dispatch ARTNET_TRIGGER e n p = handle_trigger e n p"
| "dispatch ARTNET_DIRECTORY e n p = handle_directory e n p"
| "dispatch ARTNET_DIRECTORYREPLY e n p = handle_directory_reply e n p"
| "dispatch ARTNET_FILETNMASTER e n p = snd (handle_file_tn_master e n p)"
| "dispatch ARTNET_FILEFNMASTER e n p = handle_file_fn_master e n p"
| "dispatch ARTNET_FILEFNREPLY e n p = handle_file_fn_reply e n p"
| "dispatch ARTNET_MEDIA e n p = handle_media e n p"
| "dispatch ARTNET_MEDIAPATCH e n p = handle_media_patch e n p"
| "dispatch ARTNET_MEDIACONTROL e n p = handle_media_control e n p"
| "dispatch ARTNET_MEDIACONTROLREPLY e n p = handle_media_control_reply e n p"
| "dispatch ARTNET_VIDEOSETUP e n p = n"
| "dispatch ARTNET_VIDEOPALETTE e n p = n"
| "dispatch ARTNET_VIDEODATA e n p = n"
| "dispatch ARTNET_MACMASTER e n p = n"
| "dispatch ARTNET_MACSLAVE e n p = n"
| "dispatch ARTNET_FIRMWAREMASTER e n p = snd (handle_firmware e n p)"
| "dispatch ARTNET_FIRMWAREREPLY e n p = snd (handle_firmware_reply e n p)"
| "dispatch ARTNET_IPPROG e n p = handle_ipprog e n p"
| "dispatch ARTNET_IPREPLY e n p = n"

definition parse_failed :: "node \<Rightarrow> node" where
  "parse_failed n = n\<lparr>report_code := ARTNET_RC_PARSE_FAIL\<rparr>"

definition handle :: "env \<Rightarrow> node \<Rightarrow> packet \<Rightarrow> int \<times> node" where
  "handle e n p =
     (case check_callback e n p ARTNET_RECV_HANDLER of
        (ret, n) \<Rightarrow>
          (0, if ret \<noteq> 0 then n
              else if \<not> packet_length_is_valid p then parse_failed n
              else if \<not> packet_fields_are_valid p then parse_failed n
              else (case type_of_code (p_type p) of
                      None \<Rightarrow> parse_failed n
                    | Some t \<Rightarrow> dispatch t e n p)))"

section \<open>The invariant\<close>

lemma node_ok_parse_failed [simp]: "node_ok (parse_failed n) = node_ok n"
  by (simp add: parse_failed_def)

lemmas application_handlers =
  handle_command_def handle_timecode_def handle_timesync_def handle_trigger_def
  handle_directory_reply_def handle_file_fn_master_def handle_file_fn_reply_def
  handle_media_patch_def handle_media_control_def handle_diagdata_def handle_data_request_def
  handle_data_reply_def handle_media_def handle_media_control_reply_def

lemma node_ok_handle_directory:
  assumes "cb_ok e" "node_ok n"
  shows "node_ok (handle_directory e n p)"
proof -
  have "node_ok (snd (check_callback e (n\<lparr>reply_addr := p_from p\<rparr>) p ARTNET_DIRECTORY_HANDLER))"
    using assms by (intro node_ok_check) simp_all
  then show ?thesis using assms(1) by (simp add: handle_directory_def case_prod_beta node_ok_tx)
qed

text \<open>
  Every packet of a known type: the allocations of the list succeed (see \<open>Node_List\<close> for what
  happens when one fails), the sender has an address, and the application's callbacks keep the
  invariant and leave the list alone.
\<close>

lemma node_ok_dispatch:
  assumes "cb_safe e" "node_ok n" "\<And>k. env_malloc e k" "p_from p \<noteq> 0"
  shows "node_ok (dispatch t e n p)"
proof -
  note cb = cb_safe_ok [OF assms(1)]
  have ask: "node_ok (snd (check_callback e (n\<lparr>reply_addr := p_from p\<rparr>) p h))" for h
    using assms(2) cb by (intro node_ok_check) simp_all
  show ?thesis
    using assms(1,2,4) cb ask
    by (cases t)
       (simp_all add: application_handlers Let_def node_ok_check node_ok_handle_directory
         node_ok_handle_poll node_ok_handle_reply [OF cb assms(2,3)] node_ok_handle_dmx
         node_ok_handle_address node_ok_handle_input node_ok_handle_tod_request
         node_ok_handle_tod_data node_ok_handle_tod_control node_ok_handle_rdm
         node_ok_handle_sync node_ok_handle_nzs node_ok_file_tn_master
         node_ok_handle_firmware node_ok_firmware_reply node_ok_handle_ipprog)
qed

lemma node_ok_handle:
  assumes "cb_safe e" "node_ok n" "\<And>k. env_malloc e k" "p_from p \<noteq> 0"
  shows "node_ok (snd (handle e n p))"
  using assms node_ok_check [OF cb_safe_ok [OF assms(1)] assms(2), of p ARTNET_RECV_HANDLER] by (auto simp: handle_def case_prod_beta node_ok_dispatch split: option.splits)

text \<open>A packet that fails a check only leaves its mark in the node report.\<close>

lemma handle_invalid:
  assumes "observer e" "\<not> packet_is_valid p"
  shows "snd (handle e n p) = n \<or> snd (handle e n p) = parse_failed n"
  using assms by (auto simp: handle_def case_prod_beta packet_is_valid_def)

end
