(* ===== verification/Dmx_Send.thy ===== *)
theory Dmx_Send
  imports Observed
begin

text \<open>
  Sending levels (\<open>artnet/artnet.c\<close>): ArtDmx from an input port or, on a raw node, for any
  universe, and ArtNzs with its VLC form.  The data is a memory; a length is an \<open>int16_t\<close>.
\<close>

section \<open>ArtDmx\<close>

definition bad_dmx_length :: "int \<Rightarrow> bool" where
  "bad_dmx_length len \<longleftrightarrow> len < 2 \<or> ARTNET_DMX_LENGTH < len \<or> len mod 2 = 1"

definition dmx_packet :: "u8 \<Rightarrow> u8 \<Rightarrow> u16 \<Rightarrow> int \<Rightarrow> mem \<Rightarrow> packet" where
  "dmx_packet sequence phys uni len data =
     new_packet 0 0 (size_of artnet_dmx_s - (ARTNET_DMX_LENGTH - len))
       (fill artnet_dmx_s
         [(''sequence'', [sequence]), (''physical'', [phys]), (''universe'', le16_bytes uni),
          (''lengthHi'', [hi_byte len]), (''length'', [lo_byte len]),
          (''data'', get_bytes data 0 (nat len))]
         (header ARTNET_DMX))"

text \<open>The size of the array for the search, and the two loops over its result.\<close>

definition dmx_search_limit :: "node \<Rightarrow> nat" where
  "dmx_search_limit n = (if bcast_limit n = 0 then search_limit n else nat (bcast_limit n))"

primrec unicast_all :: "env \<Rightarrow> packet \<Rightarrow> ip list \<Rightarrow> node \<Rightarrow> node" where
  "unicast_all e p [] n = n"
| "unicast_all e p (to # tos) n =
     unicast_all e p tos (snd (artnet_net_send e n (p\<lparr>p_to := to\<rparr>)))"

primrec unicast_limited :: "env \<Rightarrow> packet \<Rightarrow> int \<Rightarrow> ip list \<Rightarrow> node \<Rightarrow> node" where
  "unicast_limited e p i [] n = n"
| "unicast_limited e p i (to # tos) n =
     (if bcast_limit n \<le> i then n
      else unicast_limited e p (i + 1) tos (snd (artnet_net_send e n (p\<lparr>p_to := to\<rparr>))))"

definition unicast_dmx :: "env \<Rightarrow> node \<Rightarrow> u16 \<Rightarrow> packet \<Rightarrow> (bool \<times> node) option" where
  "unicast_dmx e n uni p =
     (let unlimited = (bcast_limit n = 0);
          lim = dmx_search_limit n;
          ((ok, garbage), n) = c_malloc e n
      in if \<not> ok then Some (False, n)
         else
           (case find_nodes_from_uni n uni lim of
              None \<Rightarrow> None
            | Some (cnt, ips, in_bounds) \<Rightarrow>
                (let tos = ip_targets garbage cnt ips
                 in Some (True,
                   if unlimited
                   then unicast_all e p tos (inside (in_bounds \<and> cnt \<le> int (length ips)) n)
                   else unicast_limited e p 0 tos
                          (inside (in_bounds \<and> min cnt (bcast_limit n) \<le> int (length ips)) n)))))"

definition mark_sent :: "mem \<Rightarrow> int \<Rightarrow> u64 \<Rightarrow> input_port \<Rightarrow> input_port" where
  "mark_sent data len now port =
     port\<lparr>seq := next_seq (seq port),
          last_dmx_data := memcpy (last_dmx_data port) 0 data 0 (nat len),
          last_dmx_length := len, last_dmx_send_time := now\<rparr>"

definition artnet_send_dmx :: "env \<Rightarrow> node \<Rightarrow> int \<Rightarrow> int \<Rightarrow> mem \<Rightarrow> (int \<times> node) option" where
  "artnet_send_dmx e n port_id len data =
     (if mode n \<noteq> ARTNET_ON then Some (ARTNET_EACTION, n)
      else if port_id < 0 \<or> ARTNET_MAX_PORTS \<le> port_id then Some (ARTNET_EARG, n)
      else if bad_dmx_length len then Some (ARTNET_EARG, n)
      else if port_status (in_ports n (nat port_id)) AND PORT_STATUS_INPUT_DISABLED \<noteq> 0
        then Some (ARTNET_EARG, n)
      else
        (let i = nat port_id;
             n = upd_in i (\<lambda>p. p\<lparr>port_status := port_status p OR PORT_STATUS_ACT_MASK\<rparr>) n;
             port = in_ports n i;
             p = dmx_packet (seq port) (word_of_int port_id) (port_addr port) len data
         in case unicast_dmx e n (port_addr port) p of
              None \<Rightarrow> None
            | Some (False, n) \<Rightarrow> Some (ARTNET_EACTION, n)
            | Some (True, n) \<Rightarrow>
                (let (now, n) = artnet_gettime_ms e n
                 in Some (ARTNET_EOK, upd_in i (mark_sent data len now) n))))"

definition artnet_raw_send_dmx :: "env \<Rightarrow> node \<Rightarrow> u16 \<Rightarrow> int \<Rightarrow> mem \<Rightarrow> (int \<times> node) option" where
  "artnet_raw_send_dmx e n uni len data =
     (if mode n \<noteq> ARTNET_ON then Some (ARTNET_EACTION, n)
      else if node_type n \<noteq> ARTNET_RAW then Some (ARTNET_ESTATE, n)
      else if bad_dmx_length len then Some (ARTNET_EARG, n)
      else
        (let uni = uni AND 0x7FFF
         in send_to_universe e n uni (dmx_packet 0 0 uni len data)))"

section \<open>ArtNzs and VLC\<close>

definition artnet_send_nzs ::
    "env \<Rightarrow> node \<Rightarrow> u16 \<Rightarrow> u8 \<Rightarrow> int \<Rightarrow> mem \<Rightarrow> (int \<times> node) option" where
  "artnet_send_nzs e n uni start_code len data =
     (if mode n \<noteq> ARTNET_ON then Some (ARTNET_EACTION, n)
      else if start_code = 0x00 \<or> start_code = 0xCC then Some (ARTNET_EARG, n)
      else if len < 1 \<or> ARTNET_DMX_LENGTH < len then Some (ARTNET_EARG, n)
      else
        (let uni = uni AND 0x7FFF
         in if node_type n = ARTNET_SRV then
              (case find (\<lambda>i. port_enabled (in_ports n i) \<and> port_addr (in_ports n i) = uni)
                      [0..<ARTNET_MAX_PORTS] of
                 None \<Rightarrow> Some (ARTNET_EARG, n)
               | Some i \<Rightarrow> artnet_tx_nzs e n (int i) start_code len data)
            else if node_type n \<noteq> ARTNET_RAW then Some (ARTNET_ESTATE, n)
            else
              send_to_universe e n uni
                (new_packet 0 0 (size_of artnet_nzs_s - (ARTNET_DMX_LENGTH - len))
                   (fill artnet_nzs_s
                     [(''sequence'', [0]), (''startCode'', [start_code]),
                      (''universe'', le16_bytes uni),
                      (''lengthHi'', [hi_byte len]), (''length'', [lo_byte len]),
                      (''data'', get_bytes data 0 (nat len))]
                     (header ARTNET_NZS)))))"

definition artnet_send_vlc ::
    "env \<Rightarrow> node \<Rightarrow> u16 \<Rightarrow> int \<Rightarrow> mem option \<Rightarrow> (int \<times> node) option" where
  "artnet_send_vlc e n uni len data =
     (if vlc_disabled n then Some (ARTNET_EACTION, n)
      else
        (case data of
           None \<Rightarrow> Some (ARTNET_EARG, n)
         | Some d \<Rightarrow>
             if len < ARTNET_VLC_MIN_LENGTH \<or> ARTNET_DMX_LENGTH < len \<or>
                get_bytes d 0 3 \<noteq> ARTNET_VLC_MAGIC then Some (ARTNET_EARG, n)
             else
               (let payload_count = bytes_to_short (d 8) (d 9)
                in if payload_count \<noteq> len - ARTNET_VLC_MIN_LENGTH \<or>
                      ARTNET_DMX_LENGTH - ARTNET_VLC_MIN_LENGTH < payload_count
                   then Some (ARTNET_EARG, n)
                   else artnet_send_nzs e n uni ARTNET_VLC_START_CODE len d)))"

section \<open>The invariant\<close>

text \<open>
  The search stays in its array when \<open>scan_fits\<close>; the version for ArtDmx, whose array has its
  own size.
\<close>

definition dmx_scan_fits :: "node \<Rightarrow> u16 \<Rightarrow> bool" where
  "dmx_scan_fits n uni \<longleftrightarrow>
     (\<forall>t \<in> set (entries (nodes n)). matching_ports (pub t) uni \<le> 1 \<and> e_numbports (pub t) \<le> 4) \<and>
     length (filter (\<lambda>t. 0 < matching_ports (pub t) uni) (entries (nodes n))) \<le> dmx_search_limit n"

text \<open>The addresses of the nodes that have an enabled port on the universe, in list order.\<close>

definition subscribers :: "node \<Rightarrow> u16 \<Rightarrow> ip list" where
  "subscribers n uni =
     map ent_ip (filter (\<lambda>t. 0 < matching_ports (pub t) uni) (entries (nodes n)))"

lemma ip_targets_full [simp]: "ip_targets garbage (int (length ips)) ips = ips"
  by (rule nth_equalityI) (simp_all add: ip_targets_def)

lemma find_nodes_fits:
  assumes "nl_seq n AND 1 = 0"
    and "\<forall>t \<in> set (entries (nodes n)). matching_ports (pub t) uni \<le> 1 \<and> e_numbports (pub t) \<le> 4"
    and "length (subscribers n uni) \<le> cap"
  shows "find_nodes_from_uni n uni cap =
    Some (int (length (subscribers n uni)), subscribers n uni, True)"
  using scan_uni_fits [of "entries (nodes n)" uni "[]" cap] assms
  by (simp add: find_nodes_from_uni_even subscribers_def)

lemma malloc_fields [simp]:
  "entries (nodes (snd (c_malloc e n))) = entries (nodes n)"
  "nl_seq (snd (c_malloc e n)) = nl_seq n"
  "bcast_limit (snd (c_malloc e n)) = bcast_limit n"
  "fst (c_malloc e n) = (env_malloc e (mallocs n), env_garbage e (mallocs n))"
  "subscribers (snd (c_malloc e n)) uni = subscribers n uni"
  by (simp_all add: c_malloc_def subscribers_def)

lemma node_ok_malloc [simp]: "node_ok (snd (c_malloc e n)) = node_ok n"
  by (simp add: c_malloc_def)

lemma node_ok_even: "node_ok n \<Longrightarrow> nl_seq n AND 1 = 0"
  by (simp add: node_ok_parts)

lemma node_ok_unicast_all: "cb_ok e \<Longrightarrow> node_ok n \<Longrightarrow> node_ok (unicast_all e p tos n)"
  by (induction tos arbitrary: n) (simp_all add: node_ok_net_send)

lemma node_ok_unicast_limited:
  "cb_ok e \<Longrightarrow> node_ok n \<Longrightarrow> node_ok (unicast_limited e p i tos n)"
  by (induction tos arbitrary: n i) (simp_all add: node_ok_net_send)

lemma unicast_dmx_fits:
  assumes "nl_seq n AND 1 = 0" "dmx_scan_fits n uni" "env_malloc e (mallocs n)"
  shows "unicast_dmx e n uni p =
    Some (True,
      if bcast_limit n = 0 then unicast_all e p (subscribers n uni) (snd (c_malloc e n))
      else unicast_limited e p 0 (subscribers n uni) (snd (c_malloc e n)))"
proof -
  have "find_nodes_from_uni (snd (c_malloc e n)) uni (dmx_search_limit n) =
      Some (int (length (subscribers n uni)), subscribers n uni, True)"
    using assms find_nodes_fits [of "snd (c_malloc e n)" uni "dmx_search_limit n"]
    by (simp add: dmx_scan_fits_def subscribers_def [of n])
  then show ?thesis using assms(3) by (simp add: unicast_dmx_def Let_def case_prod_beta)
qed

lemma next_seq_nonzero [simp]: "next_seq s \<noteq> 0"
  by (simp add: next_seq_def)

lemma in_ok_mark_sent: "in_ok q \<Longrightarrow> in_512 len \<Longrightarrow> in_ok (mark_sent data len now q)"
  by (simp add: in_ok_def mark_sent_def)

lemma dmx_scan_fits_upd_in [simp]: "dmx_scan_fits (upd_in i f n) uni = dmx_scan_fits n uni"
  by (simp add: dmx_scan_fits_def dmx_search_limit_def search_limit_def)

lemma bad_dmx_length_512: "\<not> bad_dmx_length len \<Longrightarrow> in_512 len"
  by (simp add: bad_dmx_length_def in_512_def)

lemma node_ok_unicast_dmx:
  assumes "cb_ok e" "node_ok n" "dmx_scan_fits n uni" "unicast_dmx e n uni p = Some (b, n')"
  shows "node_ok n'"
proof (cases "env_malloc e (mallocs n)")
  case True
  with assms(4) unicast_dmx_fits [OF node_ok_even [OF assms(2)] assms(3) True] show ?thesis
    using assms(1,2) by (auto simp: node_ok_unicast_all node_ok_unicast_limited)
next
  case False
  with assms show ?thesis by (auto simp: unicast_dmx_def Let_def case_prod_beta)
qed

lemma node_ok_send_dmx:
  assumes "cb_ok e" "node_ok n"
    and fits: "\<And>i. dmx_scan_fits n (port_addr (in_ports n i))"
    and sent: "artnet_send_dmx e n port_id len data = Some (ret, n')"
  shows "node_ok n'"
proof -
  let ?i = "nat port_id"
  let ?n = "upd_in ?i (\<lambda>p. p\<lparr>port_status := port_status p OR PORT_STATUS_ACT_MASK\<rparr>) n"
  let ?p = "dmx_packet (seq (in_ports n ?i)) (word_of_int port_id) (port_addr (in_ports n ?i)) len data"
  let ?u = "unicast_dmx e ?n (port_addr (in_ports n ?i)) ?p"
  show ?thesis
  proof (cases "n' = n")
    case False
    with sent have len: "in_512 len"
      by (auto simp: artnet_send_dmx_def bad_dmx_length_512 split: if_splits)
    have n1: "node_ok ?n" using assms(2) by (rule node_ok_step_in) simp_all
    from False sent obtain b m where u: "?u = Some (b, m)"
      and n': "n' = (if b then upd_in ?i (mark_sent data len (fst (artnet_gettime_ms e m)))
                              (snd (artnet_gettime_ms e m)) else m)"
      by (auto simp: artnet_send_dmx_def Let_def case_prod_beta split: if_splits option.splits bool.splits)
    have m: "node_ok m" using node_ok_unicast_dmx [OF assms(1) n1 _ u] fits by simp
    show ?thesis
      unfolding n' using m len
      by (auto intro!: node_ok_step_in in_ok_mark_sent simp: node_ok_time mark_sent_def)
  qed (simp add: assms(2))
qed

end
