(* ===== verification/Timeouts.thy ===== *)
theory Timeouts
  imports Dmx_Send Receive
begin

text \<open>
  \<open>check_timeouts\<close> (\<open>artnet/artnet.c\<close>), which \<open>artnet_read\<close> runs first: fail-safe levels, the
  end of synchronous mode, repeated input, silent nodes, abandoned uploads and the delayed
  ArtPollReply, in this order, on one reading of the clock.
\<close>

section \<open>Fail-safe\<close>

definition failsafe_due :: "u64 \<Rightarrow> output_port \<Rightarrow> bool" where
  "failsafe_due now p \<longleftrightarrow>
     port_enabled p \<and> last_dmx_time p \<noteq> 0 \<and> \<not> failsafe_triggered p \<and>
     artnet_is_timeout now (last_dmx_time p) DMX_FAILSAFE_TIMEOUT_MS"

definition failsafe_output :: "u8 \<Rightarrow> output_port \<Rightarrow> output_port" where
  "failsafe_output how p =
     (if how = ARTNET_FAILSAFE_ZERO then
        p\<lparr>out_length := ARTNET_DMX_LENGTH, out_data := memset (out_data p) 0x00 ARTNET_DMX_LENGTH\<rparr>
      else if how = ARTNET_FAILSAFE_FULL then
        p\<lparr>out_length := ARTNET_DMX_LENGTH, out_data := memset (out_data p) 0xFF ARTNET_DMX_LENGTH\<rparr>
      else if how = ARTNET_FAILSAFE_SCENE \<and> 0 < failsafe_length p then
        p\<lparr>out_length := failsafe_length p,
          out_data := memcpy (out_data p) 0 (failsafe_data p) 0 ARTNET_DMX_LENGTH\<rparr>
      else p)"

definition failsafe_port :: "u64 \<Rightarrow> nat \<Rightarrow> node \<Rightarrow> node" where
  "failsafe_port now i n =
     (if failsafe_due now (out_ports n i)
      then upd_out i (\<lambda>p. (failsafe_output (failsafe_mode n) p)\<lparr>failsafe_triggered := True\<rparr>) n
      else n)"

section \<open>The other timeouts\<close>

definition sync_release :: "output_port \<Rightarrow> output_port" where
  "sync_release p =
     p\<lparr>out_length := sync_length p,
       out_data := memcpy (out_data p) 0 (sync_data p) 0 (nat (sync_length p)),
       sync_pending := False\<rparr>"

definition sync_timeout_port :: "env \<Rightarrow> nat \<Rightarrow> node \<Rightarrow> node" where
  "sync_timeout_port e i n =
     (if sync_pending (out_ports n i) then
        notify e dmx_c (Port_Arg (int i))
          (upd_out i sync_release (inside (0 \<le> sync_length (out_ports n i) \<and>
             sync_length (out_ports n i) \<le> ARTNET_DMX_LENGTH) n))
      else n)"

definition check_sync_timeout :: "env \<Rightarrow> u64 \<Rightarrow> node \<Rightarrow> node" where
  "check_sync_timeout e now n =
     (if sync_mode n \<and> artnet_is_timeout now (last_sync_time n) ARTSYNC_TIMEOUT_MS
      then (for_upto ARTNET_MAX_PORTS (sync_timeout_port e) n)\<lparr>sync_mode := False\<rparr>
      else n)"

definition keepalive_due :: "u64 \<Rightarrow> input_port \<Rightarrow> bool" where
  "keepalive_due now p \<longleftrightarrow>
     port_enabled p \<and> last_dmx_send_time p \<noteq> 0 \<and>
     artnet_is_timeout now (last_dmx_send_time p) DMX_KEEPALIVE_INTERVAL_MS \<and>
     0 < last_dmx_length p"

definition keepalive_port :: "env \<Rightarrow> u64 \<Rightarrow> nat \<Rightarrow> node option \<Rightarrow> node option" where
  "keepalive_port e now i s =
     (case s of None \<Rightarrow> None
      | Some n \<Rightarrow>
          (let p = in_ports n i
           in if keepalive_due now p
              then map_option snd (artnet_send_dmx e n (int i) (last_dmx_length p) (last_dmx_data p))
              else Some n))"

definition check_firmware_timeout :: "u64 \<Rightarrow> node \<Rightarrow> node" where
  "check_firmware_timeout now n =
     (if fw_peer (node_fw n) \<noteq> 0 \<and>
         artnet_is_timeout now (last_time (node_fw n)) FIRMWARE_TIMEOUT_MS
      then (reset_firmware_upload n)\<lparr>report_code := ARTNET_RC_FIRMWARE_FAIL\<rparr>
      else n)"

definition check_pending_reply :: "env \<Rightarrow> u64 \<Rightarrow> node \<Rightarrow> node" where
  "check_pending_reply e now n =
     (if apr_pending n \<and> apr_pending_time n \<le> now
      then snd (artnet_tx_poll_reply e (n\<lparr>apr_pending := False\<rparr>))
      else n)"

definition check_timeouts :: "env \<Rightarrow> node \<Rightarrow> node option" where
  "check_timeouts e n =
     (let (now, n) = artnet_gettime_ms e n;
          n = for_upto ARTNET_MAX_PORTS (failsafe_port now) n;
          n = check_sync_timeout e now n
      in map_option
           (\<lambda>n. check_pending_reply e now (check_firmware_timeout now (nl_cleanup now n)))
           (for_upto ARTNET_MAX_PORTS (keepalive_port e now) (Some n)))"

section \<open>The invariant\<close>

text \<open>
  No entry matches a universe twice or claims more than four ports, and the array is allocated
  for the whole list: then a search never leaves its array.
\<close>

definition list_fits :: "node \<Rightarrow> bool" where
  "list_fits n \<longleftrightarrow>
     bcast_limit n = 0 \<and>
     (\<forall>t \<in> set (entries (nodes n)).
        e_numbports (pub t) \<le> 4 \<and> (\<forall>uni. matching_ports (pub t) uni \<le> 1))"

lemma list_fits_cong:
  "bcast_limit m = bcast_limit n \<Longrightarrow> nodes m = nodes n \<Longrightarrow> list_fits m = list_fits n"
  by (simp add: list_fits_def)

lemma list_fits_scan:
  assumes "node_ok n" "list_fits n"
  shows "dmx_scan_fits n uni"
proof -
  have "nl_length (nodes n) = int (length (entries (nodes n)))"
    using assms(1) by (simp add: node_ok_parts wf_nl_def)
  then have "length (filter q (entries (nodes n))) \<le> dmx_search_limit n" for q
    using assms(2) le_trans [OF length_filter_le [of q "entries (nodes n)"]]
    by (cases "entries (nodes n)")
       (auto simp: list_fits_def dmx_search_limit_def search_limit_def nat_add_distrib)
  with assms(2) show ?thesis by (simp add: dmx_scan_fits_def list_fits_def)
qed

lemma malloc_nodes [simp]: "nodes (snd (c_malloc e n)) = nodes n"
  by (simp add: c_malloc_def)

lemma unicast_observed [simp]:
  "only_sends e \<Longrightarrow> nodes (unicast_all e p tos n) = nodes n"
  "only_sends e \<Longrightarrow> bcast_limit (unicast_all e p tos n) = bcast_limit n"
  "only_sends e \<Longrightarrow> nodes (unicast_limited e p i tos n) = nodes n"
  "only_sends e \<Longrightarrow> bcast_limit (unicast_limited e p i tos n) = bcast_limit n"
  by (induction tos arbitrary: n i) simp_all

lemma unicast_dmx_observed:
  "only_sends e \<Longrightarrow> unicast_dmx e n uni p = Some (b, n') \<Longrightarrow>
     nodes n' = nodes n \<and> bcast_limit n' = bcast_limit n"
  by (auto simp: unicast_dmx_def Let_def case_prod_beta split: if_splits option.splits)

lemma send_dmx_observed:
  assumes "only_sends e" "artnet_send_dmx e n port_id len data = Some (ret, n')"
  shows "nodes n' = nodes n \<and> bcast_limit n' = bcast_limit n"
  using assms
  by (auto simp: artnet_send_dmx_def Let_def case_prod_beta artnet_gettime_ms_def
      dest!: unicast_dmx_observed split: if_splits option.splits bool.splits)

lemma unicast_dmx_returns: "nl_seq n AND 1 = 0 \<Longrightarrow> \<exists>b n'. unicast_dmx e n uni p = Some (b, n')"
  by (cases "env_malloc e (mallocs n)")
     (auto simp: unicast_dmx_def Let_def case_prod_beta find_nodes_from_uni_even)

lemma send_dmx_returns:
  assumes "node_ok n"
  shows "\<exists>ret n'. artnet_send_dmx e n port_id len data = Some (ret, n')"
proof -
  let ?i = "nat port_id"
  let ?n = "upd_in ?i (\<lambda>p. p\<lparr>port_status := port_status p OR PORT_STATUS_ACT_MASK\<rparr>) n"
  let ?p = "dmx_packet (seq (in_ports n ?i)) (word_of_int port_id) (port_addr (in_ports n ?i)) len data"
  have "nl_seq ?n AND 1 = 0" using node_ok_even [OF assms] by simp
  from unicast_dmx_returns [OF this, of e "port_addr (in_ports n ?i)" ?p] obtain b m
    where "unicast_dmx e ?n (port_addr (in_ports n ?i)) ?p = Some (b, m)" by blast
  then show ?thesis
    by (simp add: artnet_send_dmx_def Let_def case_prod_beta split: bool.splits)
qed

lemma node_ok_failsafe:
  assumes "node_ok n"
  shows "node_ok (failsafe_port now i n)"
proof -
  have "out_ok (failsafe_output how q)" if "out_ok q" for how q
    using that by (simp add: failsafe_output_def) (simp add: out_ok_def in_512_def)
  moreover have "port_addr (failsafe_output how q) = port_addr q" for how q
    by (simp add: failsafe_output_def)
  ultimately show ?thesis using assms by (simp add: failsafe_port_def node_ok_step)
qed



lemma node_ok_sync_timeout:
  assumes "cb_ok e" "node_ok n"
  shows "node_ok (check_sync_timeout e now n)"
proof -
  have "node_ok (sync_timeout_port e i m)" if "node_ok m" "i < 4" for i m
  proof -
    have "in_512 (sync_length (out_ports m i))"
      using node_ok_out [OF that] by (simp add: out_ok_def)
    moreover have "out_ok (sync_release q)" if "out_ok q" for q
      using that by (simp add: sync_release_def out_ok_def)
    ultimately show ?thesis
      using that(1) assms(1)
      by (auto simp: sync_timeout_port_def in_512_def sync_release_def intro!: node_ok_notify node_ok_step)
  qed
  then have "node_ok (for_upto 4 (sync_timeout_port e) n)"
    using assms(2) by (intro node_ok_for_upto)
  with assms(2) show ?thesis by (simp add: check_sync_timeout_def)
qed

lemma sync_timeout_observed [simp]:
  assumes "only_sends e"
  shows "nodes (check_sync_timeout e now n) = nodes n"
    "bcast_limit (check_sync_timeout e now n) = bcast_limit n"
proof -
  have "nodes (for_upto k (sync_timeout_port e) n) = nodes n"
    "bcast_limit (for_upto k (sync_timeout_port e) n) = bcast_limit n" for k
    by (rule for_upto_frame; simp add: sync_timeout_port_def assms)+
  then show "nodes (check_sync_timeout e now n) = nodes n"
    "bcast_limit (check_sync_timeout e now n) = bcast_limit n"
    by (simp_all add: check_sync_timeout_def)
qed

definition fits :: "node \<Rightarrow> bool" where
  "fits n \<longleftrightarrow> node_ok n \<and> list_fits n"

lemma keepalive_fits:
  assumes "only_sends e" "fits n"
  shows "\<exists>n'. keepalive_port e now i (Some n) = Some n' \<and> fits n' \<and> nodes n' = nodes n"
proof -
  obtain ret n' where sent: "artnet_send_dmx e n (int i) (last_dmx_length (in_ports n i))
      (last_dmx_data (in_ports n i)) = Some (ret, n')"
    using send_dmx_returns assms(2) unfolding fits_def by blast
  have "node_ok n'"
    using assms
    by (intro node_ok_send_dmx [OF only_sends_safe(2) _ _ sent]) (simp_all add: fits_def list_fits_scan)
  moreover have same: "nodes n' = nodes n" "bcast_limit n' = bcast_limit n"
    using send_dmx_observed [OF assms(1) sent] by auto
  ultimately have "fits n'" using assms(2) list_fits_cong [of n' n] by (simp add: fits_def)
  with sent same assms(2) show ?thesis by (simp add: keepalive_port_def Let_def)
qed

lemma keepalive_loop_fits:
  assumes "only_sends e" "fits n"
  shows "\<exists>n'. for_upto k (keepalive_port e now) (Some n) = Some n' \<and> fits n' \<and> nodes n' = nodes n"
proof (induction k)
  case (Suc k)
  with keepalive_fits [OF assms(1)] show ?case by (fastforce simp: for_upto_Suc)
qed (simp add: assms)

lemma nl_cleanup_fields [simp]:
  "out_ports (nl_cleanup now n) = out_ports n" "in_ports (nl_cleanup now n) = in_ports n"
  "netSwitch (nl_cleanup now n) = netSwitch n" "subSwitch (nl_cleanup now n) = subSwitch n"
  "node_fw (nl_cleanup now n) = node_fw n" "ar_count (nl_cleanup now n) = ar_count n"
  "tod_requester_count (nl_cleanup now n) = tod_requester_count n"
  "diag_controller_count (nl_cleanup now n) = diag_controller_count n"
  "oob (nl_cleanup now n) = oob n" "bcast_limit (nl_cleanup now n) = bcast_limit n"
  "sent (nl_cleanup now n) = sent n" "mode (nl_cleanup now n) = mode n"
  "apr_pending (nl_cleanup now n) = apr_pending n"
  "apr_pending_time (nl_cleanup now n) = apr_pending_time n"
  "reply_addr (nl_cleanup now n) = reply_addr n"
  by (simp_all add: nl_cleanup_def NL_WRITE_BEGIN_def NL_WRITE_END_def Let_def case_prod_beta)

lemma node_ok_cleanup: "node_ok n \<Longrightarrow> node_ok (nl_cleanup now n)"
  using wf_nl_cleanup [of n now]
  by (auto simp: node_ok_def ports_ok_def list_ok_def counts_ok_def nl_cleanup_entries list_all_iff)

lemma node_ok_firmware_timeout: "node_ok n \<Longrightarrow> node_ok (check_firmware_timeout now n)"
  by (simp add: check_firmware_timeout_def node_ok_reset_firmware)

lemma node_ok_pending_reply:
  "cb_ok e \<Longrightarrow> node_ok n \<Longrightarrow> node_ok (check_pending_reply e now n)"
  by (simp add: check_pending_reply_def node_ok_poll_reply)

text \<open>The clean-up, the uploads and the reply: the last three steps leave the list as it was.\<close>

lemma check_timeouts_returns:
  assumes "only_sends e" "fits n"
  shows "\<exists>n'. check_timeouts e n = Some n' \<and> fits n'"
proof -
  note cb = only_sends_safe(2) [OF assms(1)]
  let ?now = "env_time e (clk n)"
  let ?n1 = "n\<lparr>clk := Suc (clk n)\<rparr>"
  let ?n2 = "for_upto 4 (failsafe_port ?now) ?n1"
  let ?n3 = "check_sync_timeout e ?now ?n2"
  have ok: "node_ok ?n1" "list_fits ?n1"
    using assms(2) by (simp_all add: fits_def list_fits_def)
  have "node_ok ?n2" using ok(1) by (rule node_ok_for_upto) (rule node_ok_failsafe)
  then have n3: "node_ok ?n3" using cb by (simp add: node_ok_sync_timeout)
  have "nodes ?n2 = nodes ?n1" "bcast_limit ?n2 = bcast_limit ?n1"
    by (rule for_upto_frame; simp add: failsafe_port_def)+
  then have "list_fits ?n3" using ok(2) assms(1) list_fits_cong [of ?n3 ?n1] by simp
  with n3 have "fits ?n3" by (simp add: fits_def)
  from keepalive_loop_fits [OF assms(1) this] obtain m where
    m: "for_upto 4 (keepalive_port e ?now) (Some ?n3) = Some m" "fits m" by blast
  let ?m1 = "check_firmware_timeout ?now (nl_cleanup ?now m)"
  have "node_ok ?m1"
    using m(2) by (simp add: fits_def node_ok_firmware_timeout node_ok_cleanup)
  then have "node_ok (check_pending_reply e ?now ?m1)" using cb by (rule node_ok_pending_reply [rotated])
  moreover have "list_fits ?m1"
    using m(2) by (auto simp: fits_def list_fits_def check_firmware_timeout_def
        reset_firmware_upload_def nl_cleanup_entries)
  then have "list_fits (check_pending_reply e ?now ?m1)"
    using assms(1) by (simp add: check_pending_reply_def list_fits_def)
  ultimately show ?thesis
    using m(1) by (simp add: check_timeouts_def artnet_gettime_ms_def fits_def)
qed

end
