(* ===== verification/Api_Config.thy ===== *)
theory Api_Config
  imports Node_New
begin

text \<open>
  Configuring a node (\<open>artnet/artnet.c\<close>): starting and stopping, its identity, addresses,
  names and callbacks, and what the application reads back.  A null node, which every function
  rejects first, is not modelled; an enumeration that C passes as an integer is an option, with
  \<open>None\<close> for a value outside it.
\<close>

section \<open>Starting and stopping\<close>

text \<open>What the system calls of \<open>artnet_net_start\<close> answer, in their order.\<close>

record sockets =
  socket_ok :: bool
  broadcast_ok :: bool
  reuse_ok :: bool
  bind_ok :: bool

definition artnet_net_start :: "sockets \<Rightarrow> node \<Rightarrow> int" where
  "artnet_net_start so n =
     (if \<not> master n then ARTNET_EOK
      else if \<not> socket_ok so then ARTNET_ENET
      else if \<not> broadcast_ok so then ARTNET_ENET
      else if \<not> reuse_ok so then ARTNET_ENET
      else if \<not> bind_ok so then ARTNET_ENET
      else ARTNET_EOK)"

definition artnet_start :: "env \<Rightarrow> sockets \<Rightarrow> node \<Rightarrow> int \<times> node" where
  "artnet_start e so n =
     (if mode n \<noteq> ARTNET_STANDBY then (ARTNET_ESTATE, n)
      else if artnet_net_start so n \<noteq> 0 then (artnet_net_start so n, n)
      else
        (case artnet_tx_build_art_poll_reply (n\<lparr>mode := ARTNET_ON\<rparr>) of
           (ret, n) \<Rightarrow>
             if ret \<noteq> 0 then (ret, n)
             else if node_type n = ARTNET_SRV then
               (case artnet_tx_poll e n None ARTNET_TTM_AUTO of
                  (ret, n) \<Rightarrow> if ret \<noteq> 0 then (ret, n) else artnet_tx_tod_request e n)
             else (ret, n)))"

definition artnet_stop :: "node \<Rightarrow> int \<times> node" where
  "artnet_stop n =
     (if mode n \<noteq> ARTNET_ON then (ARTNET_EACTION, n)
      else (ARTNET_EOK, n\<lparr>mode := ARTNET_STANDBY\<rparr>))"

section \<open>Identity\<close>

definition artnet_setoem :: "node \<Rightarrow> u8 \<Rightarrow> u8 \<Rightarrow> int \<times> node" where
  "artnet_setoem n hi lo =
     (if mode n \<noteq> ARTNET_STANDBY then (ARTNET_ESTATE, n)
      else (ARTNET_EOK, n\<lparr>oem_hi := hi, oem_lo := lo\<rparr>))"

definition artnet_setesta :: "node \<Rightarrow> u8 \<Rightarrow> u8 \<Rightarrow> int \<times> node" where
  "artnet_setesta n hi lo =
     (if mode n \<noteq> ARTNET_STANDBY then (ARTNET_ESTATE, n)
      else (ARTNET_EOK, n\<lparr>esta_hi := hi, esta_lo := lo\<rparr>))"

definition artnet_set_bcast_limit :: "node \<Rightarrow> int \<Rightarrow> int \<times> node" where
  "artnet_set_bcast_limit n limit =
     (if MAX_NODE_BCAST_LIMIT < limit then (ARTNET_EARG, n)
      else (ARTNET_EOK, n\<lparr>bcast_limit := limit\<rparr>))"

definition artnet_set_node_type :: "node \<Rightarrow> artnet_node_type \<Rightarrow> int \<times> node" where
  "artnet_set_node_type n t = (ARTNET_EOK, n\<lparr>node_type := t\<rparr>)"

definition artnet_set_style_code :: "node \<Rightarrow> u8 \<Rightarrow> int \<times> node" where
  "artnet_set_style_code n style =
     (if mode n \<noteq> ARTNET_STANDBY then (ARTNET_ESTATE, n)
      else (ARTNET_EOK, n\<lparr>style_code := style\<rparr>))"

definition artnet_set_status2 :: "node \<Rightarrow> u8 \<Rightarrow> int \<times> node" where
  "artnet_set_status2 n s = (ARTNET_EOK, n\<lparr>status2 := s\<rparr>)"

definition artnet_set_status3 :: "node \<Rightarrow> u8 \<Rightarrow> int \<times> node" where
  "artnet_set_status3 n s = (ARTNET_EOK, n\<lparr>status3 := s\<rparr>)"

definition artnet_set_refresh_rate :: "node \<Rightarrow> u16 \<Rightarrow> int \<times> node" where
  "artnet_set_refresh_rate n r = (ARTNET_EOK, n\<lparr>refresh_rate := r\<rparr>)"

text \<open>Rebuild the reply and send it: what a change of configuration does on a running node.\<close>

definition announce :: "env \<Rightarrow> node \<Rightarrow> int \<times> node" where
  "announce e n =
     (if mode n = ARTNET_ON then
        (case artnet_tx_build_art_poll_reply n of
           (ret, n) \<Rightarrow> if ret \<noteq> 0 then (ret, n) else artnet_tx_poll_reply e n)
      else (ARTNET_EOK, n))"

definition artnet_set_bind_index :: "env \<Rightarrow> node \<Rightarrow> u8 \<Rightarrow> int \<times> node" where
  "artnet_set_bind_index e n i =
     (if i = 0 then (ARTNET_EARG, n) else announce e (n\<lparr>bind_index := i\<rparr>))"

definition artnet_set_default_resp_uid :: "node \<Rightarrow> mem \<Rightarrow> int \<times> node" where
  "artnet_set_default_resp_uid n uid =
     (let n = n\<lparr>default_resp_uid := memcpy (default_resp_uid n) 0 uid 0 ARTNET_RDM_UID_WIDTH\<rparr>
      in if mode n = ARTNET_ON then artnet_tx_build_art_poll_reply n else (ARTNET_EOK, n))"

definition artnet_set_gateway :: "env \<Rightarrow> node \<Rightarrow> string option \<Rightarrow> int \<times> node" where
  "artnet_set_gateway e n ip =
     (case Option.bind ip (\<lambda>s. snd (artnet_net_inet_aton e s)) of
        None \<Rightarrow> (ARTNET_EARG, n)
      | Some addr \<Rightarrow> (ARTNET_EOK, n\<lparr>gateway := addr\<rparr>))"

section \<open>Names\<close>

text \<open>\<open>k\<close> is the size of the field: at most \<open>k - 1\<close> bytes are copied, and its last is zero.\<close>

definition set_name :: "nat \<Rightarrow> string \<Rightarrow> mem \<Rightarrow> mem" where
  "set_name k name m = (put_bytes m 0 (take (k - 1) (bytes_of name)))(k - 1 := 0)"

definition artnet_set_short_name :: "node \<Rightarrow> string option \<Rightarrow> int \<times> node" where
  "artnet_set_short_name n name =
     (case name of
        None \<Rightarrow> (ARTNET_EARG, n)
      | Some s \<Rightarrow>
          artnet_tx_build_art_poll_reply
            (n\<lparr>shortName := set_name ARTNET_SHORT_NAME_LENGTH s (shortName n)\<rparr>))"

definition artnet_set_long_name :: "node \<Rightarrow> string option \<Rightarrow> int \<times> node" where
  "artnet_set_long_name n name =
     (case name of
        None \<Rightarrow> (ARTNET_EARG, n)
      | Some s \<Rightarrow>
          artnet_tx_build_art_poll_reply
            (n\<lparr>longName := set_name ARTNET_LONG_NAME_LENGTH s (longName n)\<rparr>))"

section \<open>Addresses\<close>

definition net_addr_port :: "u8 \<Rightarrow> nat \<Rightarrow> node \<Rightarrow> node" where
  "net_addr_port net i n =
     upd_out i (\<lambda>p. p\<lparr>port_addr := make_addr net (subSwitch n) (addr_port (port_addr p))\<rparr>)
       (upd_in i (\<lambda>p. p\<lparr>port_addr := make_addr net (subSwitch n) (addr_port (port_addr p))\<rparr>) n)"

definition artnet_set_net_addr :: "env \<Rightarrow> node \<Rightarrow> u8 \<Rightarrow> int \<times> node" where
  "artnet_set_net_addr e n net =
     (if 0x7F < net then (ARTNET_EARG, n\<lparr>report_code := ARTNET_RC_USER_FAIL\<rparr>)
      else
        (let n = n\<lparr>default_netSwitch := net\<rparr>
         in if netSwitch_net_ctl n = 0 \<and> net \<noteq> netSwitch n then
              announce e (for_upto ARTNET_MAX_PORTS (net_addr_port net) (n\<lparr>netSwitch := net\<rparr>))
            else if netSwitch_net_ctl n \<noteq> 0
              then (ARTNET_EOK, n\<lparr>report_code := ARTNET_RC_USER_FAIL\<rparr>)
            else (ARTNET_EOK, n)))"

definition subnet_addr_port :: "u8 \<Rightarrow> nat \<Rightarrow> node \<Rightarrow> node" where
  "subnet_addr_port subnet i n =
     upd_out i (\<lambda>p. p\<lparr>port_addr := make_addr (netSwitch n) subnet (addr_port (port_addr p))\<rparr>)
       (upd_in i (\<lambda>p. p\<lparr>port_addr := make_addr (netSwitch n) subnet (addr_port (port_addr p)),
                        seq := 1\<rparr>) n)"

definition artnet_set_subnet_addr :: "env \<Rightarrow> node \<Rightarrow> u8 \<Rightarrow> int \<times> node" where
  "artnet_set_subnet_addr e n subnet =
     (let n = n\<lparr>default_subSwitch := subnet\<rparr>
      in if subSwitch_net_ctl n = 0 \<and> subnet \<noteq> subSwitch n then
           announce e
             (for_upto ARTNET_MAX_PORTS (subnet_addr_port subnet) (n\<lparr>subSwitch := subnet\<rparr>))
         else if subSwitch_net_ctl n \<noteq> 0
           then (ARTNET_EOK, n\<lparr>report_code := ARTNET_RC_USER_FAIL\<rparr>)
         else (ARTNET_EOK, n))"

datatype artnet_port_dir = ARTNET_INPUT_PORT | ARTNET_OUTPUT_PORT

definition artnet_set_port_type :: "node \<Rightarrow> int \<Rightarrow> u8 \<Rightarrow> u8 \<Rightarrow> int \<times> node" where
  "artnet_set_port_type n port_id settings data =
     (if port_id < 0 \<or> ARTNET_MAX_PORTS \<le> port_id then (ARTNET_EARG, n)
      else (ARTNET_EOK, n\<lparr>port_types := (port_types n)(nat port_id := settings OR data)\<rparr>))"

text \<open>
  The address is set when the port has just been enabled or the address is a new one, unless the
  network controls it.
\<close>

definition addr_changes :: "u8 \<Rightarrow> 'a g_port_scheme \<Rightarrow> bool" where
  "addr_changes addr p \<longleftrightarrow>
     port_net_ctl p = 0 \<and> (\<not> port_enabled p \<or> addr AND LOW_NIBBLE \<noteq> addr_port (port_addr p))"

definition set_in_addr :: "node \<Rightarrow> u8 \<Rightarrow> input_port \<Rightarrow> input_port" where
  "set_in_addr n addr p =
     (if addr_changes addr p
      then p\<lparr>port_addr := make_addr (netSwitch n) (subSwitch n) addr, port_default_addr := addr,
             port_enabled := True, seq := 1\<rparr>
      else p\<lparr>port_default_addr := addr, port_enabled := True\<rparr>)"

definition set_out_addr :: "node \<Rightarrow> u8 \<Rightarrow> output_port \<Rightarrow> output_port" where
  "set_out_addr n addr p =
     (if addr_changes addr p
      then p\<lparr>port_addr := make_addr (netSwitch n) (subSwitch n) addr, port_default_addr := addr,
             port_enabled := True\<rparr>
      else p\<lparr>port_default_addr := addr, port_enabled := True\<rparr>)"

definition addr_result :: "env \<Rightarrow> bool \<Rightarrow> bool \<Rightarrow> node \<Rightarrow> int \<times> node" where
  "addr_result e changes net_ctl n =
     (if changes then announce e n
      else if net_ctl then (ARTNET_EOK, n\<lparr>report_code := ARTNET_RC_USER_FAIL\<rparr>)
      else (ARTNET_EOK, n))"

definition artnet_set_port_addr ::
    "env \<Rightarrow> node \<Rightarrow> int \<Rightarrow> artnet_port_dir option \<Rightarrow> u8 \<Rightarrow> int \<times> node" where
  "artnet_set_port_addr e n pid dir addr =
     (if pid < 0 \<or> ARTNET_MAX_PORTS \<le> pid then (ARTNET_EARG, n)
      else if 15 < addr then (ARTNET_EARG, n)
      else
        (let i = nat pid
         in case dir of
              None \<Rightarrow> (ARTNET_EARG, n)
            | Some ARTNET_INPUT_PORT \<Rightarrow>
                addr_result e (addr_changes addr (in_ports n i)) (port_net_ctl (in_ports n i) \<noteq> 0)
                  (upd_in i (set_in_addr n addr) n)
            | Some ARTNET_OUTPUT_PORT \<Rightarrow>
                addr_result e (addr_changes addr (out_ports n i)) (port_net_ctl (out_ports n i) \<noteq> 0)
                  (upd_out i (set_out_addr n addr) n)))"

definition artnet_get_universe_addr :: "node \<Rightarrow> int \<Rightarrow> artnet_port_dir option \<Rightarrow> int" where
  "artnet_get_universe_addr n pid dir =
     (if pid < 0 \<or> ARTNET_MAX_PORTS \<le> pid then ARTNET_EARG
      else
        (case dir of
           None \<Rightarrow> ARTNET_EARG
         | Some ARTNET_INPUT_PORT \<Rightarrow> uint (port_addr (in_ports n (nat pid)))
         | Some ARTNET_OUTPUT_PORT \<Rightarrow> uint (port_addr (out_ports n (nat pid)))))"

section \<open>Callbacks and what the application reads\<close>

definition artnet_set_handler ::
    "node \<Rightarrow> artnet_handler_name option \<Rightarrow> fnptr option \<Rightarrow> userdata \<Rightarrow> int \<times> node" where
  "artnet_set_handler n handler f data =
     (case handler of
        None \<Rightarrow> (ARTNET_EARG, n)
      | Some h \<Rightarrow>
          (ARTNET_EOK, n\<lparr>callbacks := (callbacks n)(Packet_Cb h := \<lparr>fh = f, cb_data = data\<rparr>)\<rparr>))"

text \<open>\<open>artnet_set_dmx_handler\<close> and its five siblings, which differ in the entry they set.\<close>

definition set_own_handler :: "callback_name \<Rightarrow> node \<Rightarrow> fnptr option \<Rightarrow> userdata \<Rightarrow> int \<times> node" where
  "set_own_handler c n f data =
     (ARTNET_EOK, n\<lparr>callbacks := (callbacks n)(c := \<lparr>fh = f, cb_data = data\<rparr>)\<rparr>)"

definition artnet_set_dmx_handler where
  "artnet_set_dmx_handler = set_own_handler dmx_c"

definition artnet_set_firmware_handler where
  "artnet_set_firmware_handler = set_own_handler firmware_c"

definition artnet_set_program_handler where
  "artnet_set_program_handler = set_own_handler program_c"

definition artnet_set_rdm_handler where
  "artnet_set_rdm_handler = set_own_handler rdm_c"

definition artnet_set_rdm_initiate_handler where
  "artnet_set_rdm_initiate_handler = set_own_handler rdm_init_c"

definition artnet_set_rdm_tod_handler where
  "artnet_set_rdm_tod_handler = set_own_handler rdm_tod_c"

text \<open>The pointer that \<open>artnet_read_dmx\<close> returns is the port's array; \<open>None\<close> is NULL.\<close>

definition artnet_read_dmx :: "node \<Rightarrow> int \<Rightarrow> (mem \<times> int) option" where
  "artnet_read_dmx n port_id =
     (if port_id < 0 \<or> ARTNET_MAX_PORTS \<le> port_id then None
      else Some (out_data (out_ports n (nat port_id)), out_length (out_ports n (nat port_id))))"

definition artnet_get_nzs_start_code :: "node \<Rightarrow> int \<Rightarrow> int" where
  "artnet_get_nzs_start_code n port_id =
     (if port_id < 0 \<or> ARTNET_MAX_PORTS \<le> port_id then ARTNET_EARG
      else uint (nzs_start_code (out_ports n (nat port_id))))"

record artnet_node_config =
  c_shortName :: "u8 list"
  c_longName :: "u8 list"
  c_netSwitch :: u8
  c_subSwitch :: u8
  c_inPorts :: "u8 list"
  c_outPorts :: "u8 list"

definition artnet_get_config :: "node \<Rightarrow> artnet_node_config" where
  "artnet_get_config n =
     \<lparr>c_shortName = get_bytes (shortName n) 0 ARTNET_SHORT_NAME_LENGTH,
      c_longName = get_bytes (longName n) 0 ARTNET_LONG_NAME_LENGTH,
      c_netSwitch = netSwitch n, c_subSwitch = subSwitch n,
      c_inPorts = map (\<lambda>i. ucast (port_addr (in_ports n i)) AND LOW_NIBBLE) [0..<ARTNET_MAX_PORTS],
      c_outPorts = map (\<lambda>i. ucast (port_addr (out_ports n i)) AND LOW_NIBBLE) [0..<ARTNET_MAX_PORTS]\<rparr>"

section \<open>The invariant\<close>

lemma node_ok_announce [intro]: "cb_ok e \<Longrightarrow> node_ok n \<Longrightarrow> node_ok (snd (announce e n))"
  by (simp add: announce_def case_prod_beta node_ok_build node_ok_poll_reply)

lemma node_ok_start:
  assumes "cb_ok e" "node_ok n"
  shows "node_ok (snd (artnet_start e so n))"
proof -
  let ?b = "snd (artnet_tx_build_art_poll_reply (n\<lparr>mode := ARTNET_ON\<rparr>))"
  have "node_ok ?b" using assms(2) by (intro node_ok_build) simp
  with assms show ?thesis
    by (simp add: artnet_start_def case_prod_beta node_ok_tx_poll node_ok_tx_tod_request)
qed

lemma node_ok_identity:
  assumes "node_ok n"
  shows "node_ok (snd (artnet_stop n))" "node_ok (snd (artnet_setoem n hi lo))"
    "node_ok (snd (artnet_setesta n hi lo))" "node_ok (snd (artnet_set_bcast_limit n limit))"
    "node_ok (snd (artnet_set_node_type n t))" "node_ok (snd (artnet_set_style_code n b))"
    "node_ok (snd (artnet_set_status2 n b))" "node_ok (snd (artnet_set_status3 n b))"
    "node_ok (snd (artnet_set_refresh_rate n r))" "node_ok (snd (artnet_set_gateway e n ip))"
    "node_ok (snd (artnet_set_default_resp_uid n uid))"
    "node_ok (snd (artnet_set_short_name n name))" "node_ok (snd (artnet_set_long_name n name))"
    "node_ok (snd (artnet_set_port_type n port_id settings data))"
    "node_ok (snd (artnet_set_handler n handler f d))" "node_ok (snd (set_own_handler c n f d))"
  using assms
  by (simp_all add: artnet_stop_def artnet_setoem_def artnet_setesta_def artnet_set_bcast_limit_def
      artnet_set_node_type_def artnet_set_style_code_def artnet_set_status2_def
      artnet_set_status3_def artnet_set_refresh_rate_def artnet_set_gateway_def
      artnet_set_default_resp_uid_def artnet_set_short_name_def artnet_set_long_name_def
      artnet_set_port_type_def artnet_set_handler_def set_own_handler_def Let_def
      artnet_tx_build_art_poll_reply_def split: option.splits)

lemma ports_below_4: "i < (4 :: nat) \<Longrightarrow> i = 0 \<or> i = 1 \<or> i = 2 \<or> i = 3"
  by auto

text \<open>The new addresses are right for the new net and subnet, whatever they were before.\<close>

lemma node_ok_net_ports:
  "node_ok n \<Longrightarrow> node_ok (for_upto 4 (net_addr_port net) (n\<lparr>netSwitch := net\<rparr>))"
  by (auto simp: node_ok_parts for_upto_4 net_addr_port_def in_ok_def out_ok_def dest!: ports_below_4)

lemma node_ok_subnet_ports:
  "node_ok n \<Longrightarrow> node_ok (for_upto 4 (subnet_addr_port subnet) (n\<lparr>subSwitch := subnet\<rparr>))"
  by (auto simp: node_ok_parts for_upto_4 subnet_addr_port_def in_ok_def out_ok_def
      dest!: ports_below_4)

lemma node_ok_net_addr:
  assumes "cb_ok e" "node_ok n"
  shows "node_ok (snd (artnet_set_net_addr e n net))"
proof -
  have "node_ok (n\<lparr>default_netSwitch := net\<rparr>)" using assms(2) by simp
  from node_ok_net_ports [OF this, of net] assms show ?thesis
    by (simp add: artnet_set_net_addr_def Let_def node_ok_announce)
qed

lemma node_ok_subnet_addr:
  assumes "cb_ok e" "node_ok n"
  shows "node_ok (snd (artnet_set_subnet_addr e n subnet))"
proof -
  have "node_ok (n\<lparr>default_subSwitch := subnet\<rparr>)" using assms(2) by simp
  from node_ok_subnet_ports [OF this, of subnet] assms show ?thesis
    by (simp add: artnet_set_subnet_addr_def Let_def node_ok_announce)
qed

lemma node_ok_bind_index:
  "cb_ok e \<Longrightarrow> node_ok n \<Longrightarrow> node_ok (snd (artnet_set_bind_index e n i))"
  by (auto simp: artnet_set_bind_index_def intro!: node_ok_announce)

lemma node_ok_port_addr:
  assumes "cb_ok e" "node_ok n"
  shows "node_ok (snd (artnet_set_port_addr e n pid dir addr))"
proof -
  have "node_ok (upd_in i (set_in_addr n addr) n)" for i
    using assms(2)
    by (intro node_ok_upd_in)
       (auto simp: set_in_addr_def in_ok_def dest: node_ok_in node_ok_in_addr)
  moreover have "node_ok (upd_out i (set_out_addr n addr) n)" for i
    using assms(2)
    by (intro node_ok_upd_out)
       (auto simp: set_out_addr_def out_ok_def dest: node_ok_out node_ok_out_addr)
  ultimately show ?thesis
    using assms
    by (simp add: artnet_set_port_addr_def addr_result_def Let_def node_ok_announce
        split: option.splits artnet_port_dir.splits)
qed

end
