(* ===== verification/Api_Send.thy ===== *)
theory Api_Send
  imports Dmx_Send Api_Config
begin

text \<open>
  The sending half of \<open>artnet/artnet.c\<close>: each function checks its arguments and the state and
  calls one of \<open>artnet/transmit.c\<close> (or builds its packet itself), to a node of the list where
  it takes an entry; and the tables of RDM devices, whose changes are sent to every controller
  that has asked for them.
\<close>

section \<open>Polls and diagnostics\<close>

definition is_controller :: "node \<Rightarrow> bool" where
  "is_controller n \<longleftrightarrow> node_type n = ARTNET_SRV \<or> node_type n = ARTNET_RAW"

definition artnet_send_poll :: "env \<Rightarrow> node \<Rightarrow> string option \<Rightarrow> u8 \<Rightarrow> int \<times> node" where
  "artnet_send_poll e n ip talk_to_me =
     (if mode n \<noteq> ARTNET_ON then (ARTNET_EACTION, n)
      else if is_controller n then artnet_tx_poll e n ip talk_to_me
      else (ARTNET_ESTATE, n))"

definition artnet_send_poll_flags ::
    "env \<Rightarrow> node \<Rightarrow> string option \<Rightarrow> u8 \<Rightarrow> u8 \<Rightarrow> u16 \<Rightarrow> u16 \<Rightarrow> u16 \<Rightarrow> u16 \<Rightarrow> int \<times> node" where
  "artnet_send_poll_flags e n ip flags prio target_top target_bottom esta_man oem =
     (if mode n \<noteq> ARTNET_ON then (ARTNET_EACTION, n)
      else if is_controller n
        then artnet_tx_poll_ex e n ip flags prio target_top target_bottom esta_man oem
      else (ARTNET_ESTATE, n))"

definition artnet_send_poll_reply :: "env \<Rightarrow> node \<Rightarrow> int \<times> node" where
  "artnet_send_poll_reply e n =
     (if mode n \<noteq> ARTNET_ON then (ARTNET_EACTION, n) else artnet_tx_poll_reply e n)"

definition artnet_send_diagnostic ::
    "env \<Rightarrow> node \<Rightarrow> u8 \<Rightarrow> u8 \<Rightarrow> string option \<Rightarrow> int \<times> node" where
  "artnet_send_diagnostic e n prio port txt = artnet_tx_diagdata e n prio port txt"

section \<open>Remote programming\<close>

text \<open>A name as ArtAddress carries it: padded with zeros, or all 0x7f to leave it alone.\<close>

definition address_name :: "nat \<Rightarrow> string option \<Rightarrow> u8 list" where
  "address_name k name =
     (case name of
        None \<Rightarrow> replicate k PROGRAM_NO_CHANGE
      | Some s \<Rightarrow> take k (bytes_of s) @ replicate (k - length s) 0)"

definition address_ports :: "u8 list option \<Rightarrow> u8 list" where
  "address_ports ports =
     (case ports of None \<Rightarrow> replicate ARTNET_MAX_PORTS PROGRAM_NO_CHANGE
      | Some a \<Rightarrow> take ARTNET_MAX_PORTS a)"

definition artnet_send_address ::
    "env \<Rightarrow> node \<Rightarrow> node_entry option \<Rightarrow> string option \<Rightarrow> string option \<Rightarrow> u8 list option \<Rightarrow>
     u8 list option \<Rightarrow> u8 \<Rightarrow> u8 \<Rightarrow> u8 \<Rightarrow> u8 \<Rightarrow> int \<times> node" where
  "artnet_send_address e n ent short long inAddr outAddr netAddr subAddr cmd acn =
     (case find_private_entry n ent of
        None \<Rightarrow> (ARTNET_EARG, n)
      | Some i \<Rightarrow>
          if mode n \<noteq> ARTNET_ON then (ARTNET_EACTION, n)
          else if is_controller n then
            artnet_net_send e n
              (new_packet (ent_ip (entries (nodes n) ! i)) (opcode ARTNET_ADDRESS)
                 (size_of artnet_address_s)
                 (fill artnet_address_s
                   [(''netSwitch'', [if netAddr \<noteq> PROGRAM_NO_CHANGE
                                     then netAddr OR PROGRAM_CHANGE_MASK else netAddr]),
                    (''bindIndex'', [1]),
                    (''shortName'', address_name ARTNET_SHORT_NAME_LENGTH short),
                    (''longName'', address_name ARTNET_LONG_NAME_LENGTH long),
                    (''swIn'', address_ports inAddr), (''swOut'', address_ports outAddr),
                    (''subSwitch'', [if subAddr \<noteq> PROGRAM_NO_CHANGE
                                     then (subAddr AND 0x0F) OR PROGRAM_CHANGE_MASK else subAddr]),
                    (''acnPriority'', [acn]), (''command'', [cmd])]
                   (header ARTNET_ADDRESS)))
          else (ARTNET_ESTATE, n))"

text \<open>
  The function dereferences the entry it looked up without a check: an entry that is not in the
  list any more is recorded as an access out of bounds.
\<close>

definition artnet_send_input ::
    "env \<Rightarrow> node \<Rightarrow> node_entry option \<Rightarrow> u8 list \<Rightarrow> int \<times> node" where
  "artnet_send_input e n ent settings =
     (case ent of
        None \<Rightarrow> (ARTNET_EARG, n)
      | Some t \<Rightarrow>
          if mode n \<noteq> ARTNET_ON then (ARTNET_EACTION, n)
          else if is_controller n then
            (case find_private_entry n ent of
               None \<Rightarrow> (ARTNET_EARG, inside False n)
             | Some i \<Rightarrow>
                 artnet_net_send e n
                   (new_packet (ent_ip (entries (nodes n) ! i)) (opcode ARTNET_INPUT)
                      (size_of artnet_input_s)
                      (fill artnet_input_s
                        [(''filler1'', [0]), (''bindIndex'', [1]),
                         (''numbportsH'', [hi_byte (e_numbports t)]),
                         (''numbports'', [lo_byte (e_numbports t)]),
                         (''input'', take ARTNET_MAX_PORTS settings)]
                        (header ARTNET_INPUT))))
          else (ARTNET_ESTATE, n))"

section \<open>Firmware\<close>

definition begin_upload ::
    "mem \<Rightarrow> int \<Rightarrow> ip \<Rightarrow> int \<Rightarrow> fnptr option \<Rightarrow> userdata \<Rightarrow> firmware_transfer \<Rightarrow> firmware_transfer"
  where
  "begin_upload m blen to is_ubea f data fw =
     fw\<lparr>fw_data := Some (blen, m), bytes_current := 0, bytes_total := blen, fw_peer := to,
        fw_ubea := is_ubea, expected_block := 0, fw_callback := f, fw_user_data := data\<rparr>"

definition artnet_send_firmware ::
    "env \<Rightarrow> node \<Rightarrow> node_entry option \<Rightarrow> int \<Rightarrow> mem \<Rightarrow> int \<Rightarrow> fnptr option \<Rightarrow> userdata \<Rightarrow>
     int \<times> node" where
  "artnet_send_firmware e n ent is_ubea data len f user =
     (case find_private_entry n ent of
        None \<Rightarrow> (ARTNET_EARG, n)
      | Some i \<Rightarrow>
          if mode n \<noteq> ARTNET_ON then (ARTNET_EACTION, n)
          else if is_controller n then
            (let blen = to_int32 (len * 2);
                 ((ok, garbage), n) = c_malloc e n
             in if \<not> ok then (ARTNET_EMEM, upd_fw i (\<lambda>fw. fw\<lparr>fw_data := None\<rparr>) n)
                else
                  artnet_tx_firmware_packet e
                    (upd_fw i (begin_upload (memcpy garbage 0 data 0 (nat blen)) blen
                                 (ent_ip (entries (nodes n) ! i)) is_ubea f user) n) i)
          else (ARTNET_ESTATE, n))"

definition artnet_send_firmware_reply ::
    "env \<Rightarrow> node \<Rightarrow> node_entry option \<Rightarrow> u8 \<Rightarrow> int \<times> node" where
  "artnet_send_firmware_reply e n ent code =
     (case find_private_entry n ent of
        None \<Rightarrow> (ARTNET_EARG, n)
      | Some i \<Rightarrow>
          if mode n \<noteq> ARTNET_ON then (ARTNET_EACTION, n)
          else artnet_tx_firmware_reply e n (ent_ip (entries (nodes n) ! i)) code)"

section \<open>Calls to a node of the list\<close>

text \<open>The functions that only look the entry up and pass its address on.\<close>

definition to_entry ::
    "node \<Rightarrow> node_entry option \<Rightarrow> (ip \<Rightarrow> int \<times> node) \<Rightarrow> int \<times> node" where
  "to_entry n ent tx =
     (case find_private_entry n ent of
        None \<Rightarrow> (ARTNET_EARG, n)
      | Some i \<Rightarrow> tx (ent_ip (entries (nodes n) ! i)))"

definition artnet_send_ipprog where
  "artnet_send_ipprog e n ent command prog_ip mask_ip gateway_ip =
     to_entry n ent (\<lambda>ip. artnet_tx_ipprog e n ip command prog_ip mask_ip gateway_ip)"

definition artnet_send_media_patch where
  "artnet_send_media_patch e n ent phys universe data len =
     to_entry n ent (\<lambda>ip. artnet_tx_media_patch e n ip phys universe data len)"

definition artnet_send_media_control where
  "artnet_send_media_control e n ent data len =
     to_entry n ent (\<lambda>ip. artnet_tx_media_control e n ip ARTNET_MEDIACONTROL data len)"

definition artnet_send_media_control_reply where
  "artnet_send_media_control_reply e n ent data len =
     to_entry n ent (\<lambda>ip. artnet_tx_media_control e n ip ARTNET_MEDIACONTROLREPLY data len)"

definition artnet_send_file_tn_master where
  "artnet_send_file_tn_master e n ent type blockId totalLength data dataLen =
     to_entry n ent (\<lambda>ip. artnet_tx_file_tn_master e n ip type blockId totalLength data dataLen)"

definition artnet_send_file_fn_master where
  "artnet_send_file_fn_master e n ent filename =
     to_entry n ent (\<lambda>ip. artnet_tx_file_fn_master e n ip filename)"

section \<open>Directories\<close>

definition artnet_send_directory_reply ::
    "env \<Rightarrow> node \<Rightarrow> mem option \<Rightarrow> int \<Rightarrow> int \<Rightarrow> int \<times> node" where
  "artnet_send_directory_reply e n files entry_count entry_total =
     (if mode n \<noteq> ARTNET_ON then (ARTNET_EACTION, n)
      else if reply_addr n = 0 then (ARTNET_EACTION, n)
      else
        (let len = min entry_count 2048
         in artnet_net_send e n
              (new_packet (reply_addr n) (opcode ARTNET_DIRECTORYREPLY)
                 (size_of artnet_directory_reply_s - 2048 + len)
                 (fill artnet_directory_reply_s
                   [(''dirCountHi'', [hi_byte len]), (''dirCountLo'', [lo_byte len]),
                    (''dirTotalHi'', [hi_byte entry_total]), (''dirTotalLo'', [lo_byte entry_total]),
                    (''dirEntry'', case files of None \<Rightarrow> [] | Some m \<Rightarrow> get_bytes m 0 (nat len))]
                   (header ARTNET_DIRECTORYREPLY)))))"

section \<open>Tables of devices\<close>

definition artnet_send_tod_data :: "env \<Rightarrow> node \<Rightarrow> int \<Rightarrow> int \<times> node" where
  "artnet_send_tod_data e n port =
     (if port < 0 \<or> ARTNET_MAX_PORTS \<le> port then (ARTNET_EARG, n)
      else artnet_tx_tod_data e n (nat port))"

text \<open>What a new allocation holds, seen as a table of UIDs.\<close>

definition uids_of :: "mem \<Rightarrow> nat \<Rightarrow> uid" where
  "uids_of m = (\<lambda>i. get_bytes m (ARTNET_RDM_UID_WIDTH * i) ARTNET_RDM_UID_WIDTH)"

definition tod_allocates :: "tod \<Rightarrow> bool" where
  "tod_allocates t \<longleftrightarrow> tod_data t = None \<or> tod_length t = tod_max_length t"

definition add_port_uid :: "env \<Rightarrow> nat \<Rightarrow> uid \<Rightarrow> node \<Rightarrow> node" where
  "add_port_uid e i u n =
     (if tod_allocates (port_tod (out_ports n i)) then
        (case c_malloc e n of
           ((ok, garbage), n) \<Rightarrow>
             upd_out i (\<lambda>p. p\<lparr>port_tod := snd (add_tod_uid ok (uids_of garbage) (port_tod p) u)\<rparr>) n)
      else upd_out i (\<lambda>p. p\<lparr>port_tod := snd (add_tod_uid True (\<lambda>_. []) (port_tod p) u)\<rparr>) n)"

definition artnet_add_rdm_device :: "env \<Rightarrow> node \<Rightarrow> int \<Rightarrow> uid \<Rightarrow> int \<times> node" where
  "artnet_add_rdm_device e n port u =
     (if port < 0 \<or> ARTNET_MAX_PORTS \<le> port then (ARTNET_EARG, n)
      else artnet_tx_tod_data_to_requesters e (add_port_uid e (nat port) u n) (nat port))"

definition artnet_add_rdm_devices :: "env \<Rightarrow> node \<Rightarrow> int \<Rightarrow> mem \<Rightarrow> int \<Rightarrow> int \<times> node" where
  "artnet_add_rdm_devices e n port us cnt =
     (if port < 0 \<or> ARTNET_MAX_PORTS \<le> port then (ARTNET_EARG, n)
      else if cnt < 0 then (ARTNET_EARG, n)
      else
        artnet_tx_tod_data_to_requesters e
          (for_upto (nat cnt) (\<lambda>k. add_port_uid e (nat port) (uids_of us k)) n) (nat port))"

definition artnet_remove_rdm_device :: "env \<Rightarrow> node \<Rightarrow> int \<Rightarrow> uid \<Rightarrow> int \<times> node" where
  "artnet_remove_rdm_device e n port u =
     (if port < 0 \<or> ARTNET_MAX_PORTS \<le> port then (ARTNET_EARG, n)
      else
        artnet_tx_tod_data_to_requesters e
          (upd_out (nat port) (\<lambda>p. p\<lparr>port_tod := snd (remove_tod_uid (port_tod p) u)\<rparr>) n)
          (nat port))"

section \<open>Calls that pass their arguments on\<close>

definition artnet_send_tod_request :: "env \<Rightarrow> node \<Rightarrow> int \<times> node" where
  "artnet_send_tod_request e n = artnet_tx_tod_request e n"

definition artnet_send_tod_control :: "env \<Rightarrow> node \<Rightarrow> u16 \<Rightarrow> u8 \<Rightarrow> int \<times> node" where
  "artnet_send_tod_control e n address action = artnet_tx_tod_control e n address action"

definition artnet_send_sync :: "env \<Rightarrow> node \<Rightarrow> int \<times> node" where
  "artnet_send_sync e n = artnet_tx_sync e n"

definition artnet_send_timecode ::
    "env \<Rightarrow> node \<Rightarrow> u8 \<Rightarrow> u8 \<Rightarrow> u8 \<Rightarrow> u8 \<Rightarrow> u32 \<Rightarrow> u8 \<Rightarrow> int \<times> node" where
  "artnet_send_timecode e n frames seconds minutes hours type stream_id =
     artnet_tx_timecode e n frames seconds minutes hours type stream_id"

definition artnet_send_timesync ::
    "env \<Rightarrow> node \<Rightarrow> u8 \<Rightarrow> u8 \<Rightarrow> u8 \<Rightarrow> u8 \<Rightarrow> u8 \<Rightarrow> u8 \<Rightarrow> int \<times> node" where
  "artnet_send_timesync e n tm_sec tm_min tm_hour tm_mday tm_mon tm_year =
     artnet_tx_timesync e n tm_sec tm_min tm_hour tm_mday tm_mon tm_year"

definition artnet_send_trigger ::
    "env \<Rightarrow> node \<Rightarrow> u8 \<Rightarrow> u8 \<Rightarrow> u8 \<Rightarrow> u8 \<Rightarrow> mem option \<Rightarrow> int \<Rightarrow> int \<times> node" where
  "artnet_send_trigger e n hi lo key sub_key data len =
     artnet_tx_trigger e n hi lo key sub_key data len"

definition artnet_send_data_request :: "env \<Rightarrow> node \<Rightarrow> string option \<Rightarrow> u16 \<Rightarrow> int \<times> node" where
  "artnet_send_data_request e n ip request_code = artnet_tx_data_request e n ip request_code"

definition artnet_send_data_reply ::
    "env \<Rightarrow> node \<Rightarrow> string option \<Rightarrow> u16 \<Rightarrow> mem option \<Rightarrow> int \<Rightarrow> int \<times> node" where
  "artnet_send_data_reply e n ip request_code payload len =
     artnet_tx_data_reply e n ip request_code payload len"

definition artnet_send_command ::
    "env \<Rightarrow> node \<Rightarrow> u16 \<Rightarrow> mem option \<Rightarrow> int \<Rightarrow> string option \<Rightarrow> int \<times> node" where
  "artnet_send_command e n esta_man text len ip = artnet_tx_command e n esta_man text len ip"

definition artnet_send_directory :: "env \<Rightarrow> node \<Rightarrow> int \<times> node" where
  "artnet_send_directory e n = artnet_tx_directory e n"

definition artnet_send_file_fn_reply ::
    "env \<Rightarrow> node \<Rightarrow> u8 \<Rightarrow> u16 \<Rightarrow> mem option \<Rightarrow> int \<Rightarrow> int \<times> node" where
  "artnet_send_file_fn_reply e n blockId totalLength data dataLen =
     artnet_tx_file_fn_reply e n blockId totalLength data dataLen"

definition artnet_send_rdm :: "env \<Rightarrow> node \<Rightarrow> u16 \<Rightarrow> mem option \<Rightarrow> int \<Rightarrow> int \<times> node" where
  "artnet_send_rdm e n address data len = artnet_tx_rdm e n address data len"

definition artnet_send_rdmsub ::
    "env \<Rightarrow> node \<Rightarrow> u8 list option \<Rightarrow> u8 \<Rightarrow> u16 \<Rightarrow> u16 \<Rightarrow> u16 \<Rightarrow> mem option \<Rightarrow> int \<Rightarrow> int \<times> node" where
  "artnet_send_rdmsub e n u command_class param_id sub_device sub_count data len =
     artnet_tx_rdmsub e n u command_class param_id sub_device sub_count data len"

definition artnet_get_nl :: "node \<Rightarrow> node_list" where
  "artnet_get_nl n = nodes n"

lemmas passed_on = artnet_send_tod_request_def artnet_send_tod_control_def artnet_send_sync_def
  artnet_send_timecode_def artnet_send_timesync_def artnet_send_trigger_def
  artnet_send_data_request_def artnet_send_data_reply_def artnet_send_command_def
  artnet_send_directory_def artnet_send_file_fn_reply_def artnet_send_rdm_def
  artnet_send_rdmsub_def

section \<open>The invariant\<close>

lemma node_ok_passed_on:
  assumes "cb_ok e" "node_ok n"
  shows "node_ok (snd (artnet_send_tod_request e n))"
    "node_ok (snd (artnet_send_tod_control e n w1 c1))"
    "node_ok (snd (artnet_send_sync e n))"
    "node_ok (snd (artnet_send_timecode e n c1 c2 c3 c4 t c5))"
    "node_ok (snd (artnet_send_timesync e n c1 c2 c3 c4 c5 c6))"
    "node_ok (snd (artnet_send_trigger e n c1 c2 c3 c4 d len))"
    "node_ok (snd (artnet_send_data_request e n s w1))"
    "node_ok (snd (artnet_send_data_reply e n s w1 d len))"
    "node_ok (snd (artnet_send_command e n w1 d len s))"
    "node_ok (snd (artnet_send_directory e n))"
    "node_ok (snd (artnet_send_file_fn_reply e n c1 w1 d len))"
    "node_ok (snd (artnet_send_rdm e n w1 d len))"
    "node_ok (snd (artnet_send_rdmsub e n u c1 w1 w2 w3 d len))"
  using assms
  by (simp_all add: passed_on node_ok_tx node_ok_tx_tod_request node_ok_tx_directory)

lemma node_ok_to_entry:
  "node_ok n \<Longrightarrow> (\<And>ip. node_ok (snd (tx ip))) \<Longrightarrow> node_ok (snd (to_entry n ent tx))"
  by (simp add: to_entry_def split: option.split)

lemma node_ok_send_to_entry:
  assumes "cb_ok e" "node_ok n"
  shows "node_ok (snd (artnet_send_ipprog e n ent c a1 a2 a3))"
    "node_ok (snd (artnet_send_media_patch e n ent c a d l))"
    "node_ok (snd (artnet_send_media_control e n ent d l))"
    "node_ok (snd (artnet_send_media_control_reply e n ent d l))"
    "node_ok (snd (artnet_send_file_tn_master e n ent c cc wl d l))"
    "node_ok (snd (artnet_send_file_fn_master e n ent s))"
  by (simp_all add: artnet_send_ipprog_def artnet_send_media_patch_def
      artnet_send_media_control_def artnet_send_media_control_reply_def
      artnet_send_file_tn_master_def artnet_send_file_fn_master_def
      node_ok_to_entry node_ok_tx assms)

lemma node_ok_send_simple:
  assumes "cb_ok e" "node_ok n"
  shows "node_ok (snd (artnet_send_poll e n ip ttm))"
    "node_ok (snd (artnet_send_poll_flags e n ip f prio t b m oem))"
    "node_ok (snd (artnet_send_poll_reply e n))"
    "node_ok (snd (artnet_send_diagnostic e n c cc txt))"
    "node_ok (snd (artnet_send_address e n ent sn ln ia oa na sa cmd acn))"
    "node_ok (snd (artnet_send_firmware_reply e n ent code))"
    "node_ok (snd (artnet_send_directory_reply e n files k kk))"
    "node_ok (snd (artnet_send_tod_data e n port))"
  using assms
  by (auto simp: artnet_send_poll_def artnet_send_poll_flags_def artnet_send_poll_reply_def
      artnet_send_diagnostic_def artnet_send_address_def artnet_send_firmware_reply_def
      artnet_send_directory_reply_def artnet_send_tod_data_def Let_def node_ok_tx
      node_ok_net_send node_ok_tx_poll node_ok_poll_reply node_ok_tx_tod_data split: option.split)

text \<open>ArtInput is safe when the entry is in the list.\<close>

lemma node_ok_send_input:
  assumes "cb_ok e" "node_ok n" "find_private_entry n ent \<noteq> None"
  shows "node_ok (snd (artnet_send_input e n ent settings))"
  using assms by (auto simp: artnet_send_input_def node_ok_net_send split: option.split)

lemma find_private_entry_bound:
  "find_private_entry n ent = Some i \<Longrightarrow> i < length (entries (nodes n))"
  by (auto simp: find_private_entry_def dest: find_pos_Some split: option.splits)

lemma node_ok_begin_upload:
  assumes "node_ok n" "0 \<le> blen"
  shows "node_ok (upd_fw i (begin_upload m blen to u f d) n)"
  using assms
  by (intro node_ok_upd_fw) (simp_all add: begin_upload_def tx_ok_def fw_capacity_def)

lemma entries_upd_fw [simp]: "length (entries (nodes (upd_fw i f n))) = length (entries (nodes n))"
  by (simp add: upd_fw_def upd_entry_def)

text \<open>
  A failed allocation leaves the entry without a buffer, which is safe when no upload to that
  node was under way.
\<close>

lemma node_ok_send_firmware:
  assumes "only_sends e" "node_ok n" "0 \<le> len" "len < 2 ^ 30" "\<And>k. env_malloc e k"
  shows "node_ok (snd (artnet_send_firmware e n ent u data len f user))"
proof (cases "find_private_entry n ent")
  case (Some i)
  have blen: "to_int32 (len * 2) = len * 2" using assms(3,4) by (intro to_int32_id) simp_all
  have "node_ok (snd (artnet_tx_firmware_packet e
      (upd_fw i (begin_upload m (len * 2) to u f user) (snd (c_malloc e n))) i))" for m to
    using assms(1-3) find_private_entry_bound [OF Some]
    by (intro node_ok_tx_firmware_packet) (simp_all add: node_ok_begin_upload only_sends_safe)
  with Some assms(2,5) blen show ?thesis
    by (simp add: artnet_send_firmware_def Let_def case_prod_beta)
qed (simp add: artnet_send_firmware_def assms(2))

lemma out_ok_tod: "out_ok p \<Longrightarrow> out_ok (p\<lparr>port_tod := t\<rparr>) = tod_ok t"
  by (simp add: out_ok_def)

lemma tod_ok_add:
  assumes "tod_ok t" "length u = ARTNET_RDM_UID_WIDTH"
  shows "tod_ok (snd (add_tod_uid ok fresh t u))"
proof (cases "fst (add_tod_uid ok fresh t u) = 0")
  case True
  with assms show ?thesis by (simp add: tod_ok_def wf_tod_add tod_uids_add)
next
  case False
  from add_tod_uid_fails [OF this] assms show ?thesis by simp
qed

lemma tod_ok_remove: "tod_ok t \<Longrightarrow> tod_ok (snd (remove_tod_uid t u))"
  using mset_tod_remove [of t u]
  by (auto simp: tod_ok_def wf_tod_remove simp flip: set_mset_mset dest: in_diffD)

lemma node_ok_tod_step:
  assumes "node_ok n" "\<And>t. tod_ok t \<Longrightarrow> tod_ok (f t)"
  shows "node_ok (upd_out i (\<lambda>p. p\<lparr>port_tod := f (port_tod p)\<rparr>) n)"
  using assms by (intro node_ok_step) (simp_all add: out_ok_tod, simp add: out_ok_def)

lemma node_ok_add_port_uid:
  "node_ok n \<Longrightarrow> length u = ARTNET_RDM_UID_WIDTH \<Longrightarrow> node_ok (add_port_uid e i u n)"
  by (auto simp: add_port_uid_def case_prod_beta intro!: node_ok_tod_step tod_ok_add)

lemma length_uids_of [simp]: "length (uids_of m k) = ARTNET_RDM_UID_WIDTH"
  by (simp add: uids_of_def)

lemma node_ok_rdm_devices:
  assumes "cb_ok e" "node_ok n"
  shows "length u = ARTNET_RDM_UID_WIDTH \<Longrightarrow> node_ok (snd (artnet_add_rdm_device e n port u))"
    "node_ok (snd (artnet_add_rdm_devices e n port us k))"
    "node_ok (snd (artnet_remove_rdm_device e n port u))"
proof -
  show "node_ok (snd (artnet_add_rdm_device e n port u))" if "length u = ARTNET_RDM_UID_WIDTH"
    using assms that
    by (auto simp: artnet_add_rdm_device_def
        intro!: node_ok_tx_tod_data_to_requesters node_ok_add_port_uid)
  have "node_ok (for_upto m (\<lambda>k. add_port_uid e i (uids_of us k)) n)" for m i
    using assms(2) by (rule node_ok_for_upto) (simp add: node_ok_add_port_uid)
  then show "node_ok (snd (artnet_add_rdm_devices e n port us k))"
    using assms
    by (auto simp: artnet_add_rdm_devices_def intro!: node_ok_tx_tod_data_to_requesters)
  show "node_ok (snd (artnet_remove_rdm_device e n port u))"
    using assms
    by (auto simp: artnet_remove_rdm_device_def
        intro!: node_ok_tx_tod_data_to_requesters node_ok_tod_step tod_ok_remove)
qed

end
