(* ===== verification/Listing.thy ===== *)
theory Listing
  imports Timeouts
begin

text \<open>
  Who is in the node list, how many nodes a universe may be sent to, the next node of the group
  and the type of the node: only an ArtPollReply changes the first while packets are handled, and none changes the
  others.  With it, the list that a search fits stays one as long as the replies received are
  polite.
\<close>

section \<open>What a search reads\<close>

definition wiring :: "node \<Rightarrow> int \<times> nat option \<times> artnet_node_type" where
  "wiring n = (bcast_limit n, peer n, node_type n)"

definition listing :: "node \<Rightarrow> (int \<times> nat option \<times> artnet_node_type) \<times> (node_entry \<times> ip \<times> u64) list" where
  "listing n =
     (wiring n, map (\<lambda>t. (pub t, ent_ip t, last_seen t)) (entries (nodes n)))"

lemma listing_frame [simp]:
  "listing (n\<lparr>mode := x1\<rparr>) = listing n"
  "listing (n\<lparr>reply_addr := x2\<rparr>) = listing n"
  "listing (n\<lparr>ip_addr := x3\<rparr>) = listing n"
  "listing (n\<lparr>bcast_addr := x4\<rparr>) = listing n"
  "listing (n\<lparr>subnet_mask := x5\<rparr>) = listing n"
  "listing (n\<lparr>gateway := x6\<rparr>) = listing n"
  "listing (n\<lparr>hw_addr := x7\<rparr>) = listing n"
  "listing (n\<lparr>default_netSwitch := x8\<rparr>) = listing n"
  "listing (n\<lparr>netSwitch_net_ctl := x9\<rparr>) = listing n"
  "listing (n\<lparr>default_subSwitch := x10\<rparr>) = listing n"
  "listing (n\<lparr>subSwitch_net_ctl := x11\<rparr>) = listing n"
  "listing (n\<lparr>send_apr_on_change := x12\<rparr>) = listing n"
  "listing (n\<lparr>ar_count := x13\<rparr>) = listing n"
  "listing (n\<lparr>shortName := x14\<rparr>) = listing n"
  "listing (n\<lparr>longName := x15\<rparr>) = listing n"
  "listing (n\<lparr>report := x16\<rparr>) = listing n"
  "listing (n\<lparr>netSwitch := x17\<rparr>) = listing n"
  "listing (n\<lparr>subSwitch := x18\<rparr>) = listing n"
  "listing (n\<lparr>oem_hi := x19\<rparr>) = listing n"
  "listing (n\<lparr>oem_lo := x20\<rparr>) = listing n"
  "listing (n\<lparr>esta_hi := x21\<rparr>) = listing n"
  "listing (n\<lparr>esta_lo := x22\<rparr>) = listing n"
  "listing (n\<lparr>report_code := x23\<rparr>) = listing n"
  "listing (n\<lparr>led_state := x24\<rparr>) = listing n"
  "listing (n\<lparr>style_code := x25\<rparr>) = listing n"
  "listing (n\<lparr>status2 := x26\<rparr>) = listing n"
  "listing (n\<lparr>status3 := x27\<rparr>) = listing n"
  "listing (n\<lparr>failsafe_mode := x28\<rparr>) = listing n"
  "listing (n\<lparr>rdm_reply_addr := x29\<rparr>) = listing n"
  "listing (n\<lparr>tod_reply_addr := x30\<rparr>) = listing n"
  "listing (n\<lparr>acn_priority := x31\<rparr>) = listing n"
  "listing (n\<lparr>default_resp_uid := x32\<rparr>) = listing n"
  "listing (n\<lparr>bind_index := x33\<rparr>) = listing n"
  "listing (n\<lparr>vlc_disabled := x34\<rparr>) = listing n"
  "listing (n\<lparr>diag_enabled := x35\<rparr>) = listing n"
  "listing (n\<lparr>diag_unicast := x36\<rparr>) = listing n"
  "listing (n\<lparr>diag_controller_count := x37\<rparr>) = listing n"
  "listing (n\<lparr>diag_controller_ips := x38\<rparr>) = listing n"
  "listing (n\<lparr>tod_requester_count := x39\<rparr>) = listing n"
  "listing (n\<lparr>tod_requester_ips := x40\<rparr>) = listing n"
  "listing (n\<lparr>diag_priority := x41\<rparr>) = listing n"
  "listing (n\<lparr>bqp_policy := x42\<rparr>) = listing n"
  "listing (n\<lparr>refresh_rate := x43\<rparr>) = listing n"
  "listing (n\<lparr>sync_mode := x44\<rparr>) = listing n"
  "listing (n\<lparr>last_sync_time := x45\<rparr>) = listing n"
  "listing (n\<lparr>last_dmx_source := x46\<rparr>) = listing n"
  "listing (n\<lparr>nl_seq := x47\<rparr>) = listing n"
  "listing (n\<lparr>apr_pending_time := x48\<rparr>) = listing n"
  "listing (n\<lparr>apr_pending := x49\<rparr>) = listing n"
  "listing (n\<lparr>callbacks := x50\<rparr>) = listing n"
  "listing (n\<lparr>port_types := x51\<rparr>) = listing n"
  "listing (n\<lparr>in_ports := x52\<rparr>) = listing n"
  "listing (n\<lparr>out_ports := x53\<rparr>) = listing n"
  "listing (n\<lparr>ar_temp := x54\<rparr>) = listing n"
  "listing (n\<lparr>node_fw := x55\<rparr>) = listing n"
  "listing (n\<lparr>master := x57\<rparr>) = listing n"
  "listing (n\<lparr>clk := x58\<rparr>) = listing n"
  "listing (n\<lparr>rnd := x59\<rparr>) = listing n"
  "listing (n\<lparr>mallocs := x60\<rparr>) = listing n"
  "listing (n\<lparr>sends := x61\<rparr>) = listing n"
  "listing (n\<lparr>sent := x62\<rparr>) = listing n"
  "listing (n\<lparr>oob := x63\<rparr>) = listing n"
  by (simp_all add: listing_def wiring_def)

lemma listing_ports [simp]:
  "listing (upd_out i f n) = listing n" "listing (upd_in i g n) = listing n"
  "listing (inside c n) = listing n"
  by (simp_all add: upd_out_def upd_in_def inside_def)

lemma listing_time [simp]:
  "listing (snd (artnet_gettime_ms e n)) = listing n" "listing (snd (c_rand e n)) = listing n"
  "listing (snd (c_malloc e n)) = listing n"
  by (simp_all add: artnet_gettime_ms_def c_rand_def c_malloc_def)

lemma listing_callback [simp]:
  "only_sends e \<Longrightarrow> listing (snd (run_callback e cb a n)) = listing n"
  "only_sends e \<Longrightarrow> listing (snd (check_callback e n p h)) = listing n"
  "only_sends e \<Longrightarrow> listing (notify e c a n) = listing n"
  by (simp_all add: listing_def wiring_def)

lemma listing_net_send [simp]: "only_sends e \<Longrightarrow> listing (snd (artnet_net_send e n p)) = listing n"
  by (simp add: listing_def wiring_def)

lemma listing_send_new [simp]:
  "only_sends e \<Longrightarrow> listing (snd (send_new e n to t len d)) = listing n"
  by (simp add: send_new_def)

lemma listing_or_send [simp]: "only_sends e \<Longrightarrow> listing (snd (or_send e ret p n)) = listing n"
  by (simp add: or_send_def case_prod_beta)

lemma listing_poll_reply [simp]:
  "only_sends e \<Longrightarrow> listing (snd (artnet_tx_poll_reply e n)) = listing n"
  by (simp add: artnet_tx_poll_reply_def Let_def)

lemma listing_build [simp]: "listing (snd (artnet_tx_build_art_poll_reply n)) = listing n"
  by (simp add: artnet_tx_build_art_poll_reply_def)

lemma listing_upd_fw [simp]: "listing (upd_fw i f n) = listing n"
  by (cases "i < length (entries (nodes n))")
     (simp_all add: listing_def wiring_def upd_fw_def upd_entry_def map_update list_update_same_conv
       list_update_beyond)

lemma listing_tx_firmware_packet [simp]:
  "only_sends e \<Longrightarrow> listing (snd (artnet_tx_firmware_packet e n i)) = listing n"
  by (simp add: artnet_tx_firmware_packet_def Let_def case_prod_beta)

lemma listing_for_upto:
  "(\<And>i n. listing (body i n) = listing n) \<Longrightarrow> listing (for_upto k body n) = listing n"
  by (rule for_upto_frame)

lemma listing_for_upto_pair:
  "(\<And>i s. listing (snd (body i s)) = listing (snd s)) \<Longrightarrow>
     listing (snd (for_upto k body s)) = listing (snd s)"
  by (rule for_upto_frame [where f = "\<lambda>s. listing (snd s)"])

section \<open>The handlers\<close>

lemma listing_poll: "only_sends e \<Longrightarrow> listing (snd (handle_poll e n p)) = listing n"
  by (simp add: handle_poll_def case_prod_beta Let_def poll_diagnostics_def)

lemma listing_remember [simp]: "listing (remember_tod_requester a n) = listing n"
  by (simp add: remember_tod_requester_def)

lemma listing_output [simp]:
  "listing (commit_output_data i d k n) = listing n"
  "listing (stage_output_data i d k n) = listing n"
  "only_sends e \<Longrightarrow> listing (flush_sync_output e i n) = listing n"
  "only_sends e \<Longrightarrow> listing (check_merge_timeouts e i n) = listing n"
  "listing (store_A e p i n) = listing n" "listing (store_B e p i n) = listing n"
  "listing (new_A p i n) = listing n" "listing (new_B p i n) = listing n"
  "only_sends e \<Longrightarrow> listing (merge_started e i n) = listing n"
  by (simp_all add: commit_output_data_def stage_output_data_def flush_sync_output_def
      check_merge_timeouts_def store_A_def store_B_def new_A_def new_B_def
      merge_started_def case_prod_beta Let_def)

lemma listing_merge [simp]:
  "only_sends e \<Longrightarrow> listing (merge e i len m n) = listing n"
  "listing (stage_packet p i n) = listing n"
  by (simp_all add: merge_def stage_packet_def Let_def)

lemma listing_dmx_port [simp]: "only_sends e \<Longrightarrow> listing (handle_dmx_port e p i n) = listing n"
  by (simp add: handle_dmx_port_def dmx_cases_def dmx_cancel_merge_def merge_A_def merge_B_def
      Let_def case_prod_beta)

lemma listing_dmx: "only_sends e \<Longrightarrow> listing (handle_dmx e n p) = listing n"
  by (simp add: handle_dmx_def case_prod_beta listing_for_upto)

lemma listing_sync:
  assumes "only_sends e"
  shows "listing (handle_sync e n p) = listing n"
proof -
  have "listing (snd (for_upto k (\<lambda>i (accepted, n).
      if sync_accepts p (out_ports n i) then (True, flush_sync_output e i n) else (accepted, n))
      s)) = listing (snd s)" for k s
    by (rule listing_for_upto_pair) (simp add: case_prod_beta assms)
  then show ?thesis using assms by (simp add: handle_sync_def case_prod_beta)
qed

lemma listing_nzs: "only_sends e \<Longrightarrow> listing (handle_nzs e n p) = listing n"
  by (simp add: handle_nzs_def case_prod_beta Let_def split: option.split)

lemma listing_address_steps [simp]:
  "listing (address_names p n) = listing n" "listing (address_switches p n) = listing n"
  "listing (rebuild_ports n) = listing n" "listing (address_rebuild a b n) = listing n"
  "listing (address_swin p i n) = listing n" "listing (address_swout p i n) = listing n"
  "listing (address_seq f i n) = listing n" "listing (set_direction i on off n) = listing n"
  "listing (address_priority p n) = listing n"
  by (simp_all add: address_names_def address_switches_def rebuild_ports_def address_rebuild_def
      address_swin_def address_swout_def address_seq_def set_direction_def address_priority_def
      Let_def case_prod_beta listing_for_upto)

lemma listing_address_command [simp]: "listing (address_command p n) = listing n"
  by (simp add: address_command_def address_node_command_def address_port_command_def Let_def
      listing_for_upto)

lemma listing_address: "only_sends e \<Longrightarrow> listing (snd (handle_address e n p)) = listing n"
  by (simp add: handle_address_def address_program_def case_prod_beta Let_def listing_for_upto)

lemma listing_input: "only_sends e \<Longrightarrow> listing (snd (artnet_handle_input e n p)) = listing n"
  by (simp add: artnet_handle_input_def input_port_switch_def case_prod_beta Let_def
      listing_for_upto)

lemma listing_ipprog_steps [simp]:
  "listing (set_report s n) = listing n" "listing (ipprog_program p n) = listing n"
  by (simp_all add: set_report_def ipprog_program_def ipprog_set_ip_def ipprog_set_mask_def
      ipprog_set_gateway_def Let_def)

lemma listing_ipprog: "only_sends e \<Longrightarrow> listing (handle_ipprog e n p) = listing n"
  by (simp add: handle_ipprog_def artnet_tx_ipprog_reply_def case_prod_beta Let_def)

lemma listing_tod_loop:
  "only_sends e \<Longrightarrow> listing (snd (tod_data_loop e pid to d remaining bloc ret n)) = listing n"
proof (induction e pid to d remaining bloc ret n rule: tod_data_loop.induct)
  case (1 e pid to d remaining bloc ret n)
  then show ?case
    by (subst tod_data_loop.simps) (simp add: Let_def case_prod_beta)
qed

lemma listing_tod_data [simp]:
  "only_sends e \<Longrightarrow> listing (snd (artnet_tx_tod_data e n pid)) = listing n"
  by (simp add: artnet_tx_tod_data_def Let_def listing_tod_loop)

lemma listing_tod_request:
  assumes "only_sends e"
  shows "listing (snd (handle_tod_request e n p)) = listing n"
proof -
  have port: "listing (snd (tod_reply_port e a j s)) = listing (snd s)" for a j s
    by (simp add: tod_reply_port_def case_prod_beta assms)
  have "listing (snd (for_upto k (tod_reply_port e a) s)) = listing (snd s)" for k a s
    by (rule listing_for_upto_pair) (rule port)
  then have "listing (snd (for_upto k (\<lambda>i. for_upto m (tod_reply_port e (todreq_addr p i))) s)) =
      listing (snd s)" for k m s
    by (intro listing_for_upto_pair port)
  then show ?thesis using assms by (simp add: handle_tod_request_def case_prod_beta Let_def)
qed

lemma listing_tod_control:
  assumes "only_sends e"
  shows "listing (snd (handle_tod_control e n p)) = listing n"
proof -
  have "listing (snd (tod_control_step e p i s)) = listing (snd s)" for i s
    by (simp add: tod_control_step_def tod_control_port_def case_prod_beta Let_def assms)
  then have "listing (snd (for_upto k (tod_control_step e p) s)) = listing (snd s)" for k s
    by (rule listing_for_upto_pair)
  then show ?thesis using assms by (simp add: handle_tod_control_def case_prod_beta Let_def)
qed

lemma listing_rdm:
  "only_sends e \<Longrightarrow> listing (handle_tod_data e n p) = listing n"
  "only_sends e \<Longrightarrow> listing (handle_rdm e n p) = listing n"
  "only_sends e \<Longrightarrow> listing (handle_rdm_sub e n p) = listing n"
  by (simp_all add: handle_tod_data_def handle_rdm_def handle_rdm_sub_def case_prod_beta)

lemma listing_firmware_steps [simp]:
  "listing (upd_node_fw g n) = listing n" "listing (reset_firmware_upload n) = listing n"
  "listing (fw_copy p off k n) = listing n" "listing (fw_first_block p len n) = listing n"
  "only_sends e \<Longrightarrow> listing (fw_done e n) = listing n"
  "only_sends e \<Longrightarrow> listing (snd (fw_reply e p c n)) = listing n"
  "only_sends e \<Longrightarrow> listing (fw_tx_end e i c n) = listing n"
  by (simp_all add: upd_node_fw_def reset_firmware_upload_def fw_copy_def fw_first_block_def
      fw_done_def fw_reply_def artnet_tx_firmware_reply_def fw_tx_end_def Let_def)

lemma listing_firmware: "only_sends e \<Longrightarrow> listing (snd (handle_firmware e n p)) = listing n"
  by (simp add: handle_firmware_def handle_firmware_first_def handle_firmware_cont_def
      handle_firmware_last_def case_prod_beta Let_def)

lemma listing_firmware_reply:
  "only_sends e \<Longrightarrow> listing (snd (handle_firmware_reply e n p)) = listing n"
  by (simp add: handle_firmware_reply_def case_prod_beta Let_def split: option.split)

lemma listing_file_tn: "only_sends e \<Longrightarrow> listing (snd (handle_file_tn_master e n p)) = listing n"
  by (simp add: handle_file_tn_master_def case_prod_beta Let_def)

lemma listing_directory: "only_sends e \<Longrightarrow> listing (handle_directory e n p) = listing n"
  by (simp add: handle_directory_def artnet_tx_directory_reply_def case_prod_beta)

lemma listing_dispatch:
  assumes "only_sends e" "t \<noteq> ARTNET_REPLY"
  shows "listing (dispatch t e n p) = listing n"
  using assms
  by (cases t)
     (simp_all add: application_handlers Let_def listing_poll listing_dmx listing_address
       listing_input listing_tod_request listing_tod_control listing_rdm listing_sync listing_nzs
       listing_directory listing_file_tn listing_firmware listing_firmware_reply listing_ipprog)


section \<open>Polite replies\<close>

text \<open>
  An entry that a search can handle: at most four ports, and no universe bound to two of them.
\<close>

definition polite_entry :: "node_entry \<Rightarrow> bool" where
  "polite_entry t \<longleftrightarrow> e_numbports t \<le> 4 \<and> (\<forall>uni. matching_ports t uni \<le> 1)"

definition polite :: "packet \<Rightarrow> bool" where
  "polite p \<longleftrightarrow>
     (type_of_code (p_type p) = Some ARTNET_REPLY \<longrightarrow> polite_entry (copy_apr_to_node_entry p))"

lemma list_fits_listing:
  "list_fits n \<longleftrightarrow> fst (fst (listing n)) = 0 \<and> (\<forall>x \<in> set (snd (listing n)). polite_entry (fst x))"
  by (simp add: list_fits_def listing_def wiring_def polite_entry_def)

lemma list_fits_listing_cong: "listing m = listing n \<Longrightarrow> list_fits m = list_fits n"
  by (simp add: list_fits_listing)

lemma list_fits_polite:
  "list_fits n \<longleftrightarrow> bcast_limit n = 0 \<and> (\<forall>t \<in> set (entries (nodes n)). polite_entry (pub t))"
  by (simp add: list_fits_def polite_entry_def)

lemma list_fits_nl_update:
  assumes "list_fits n" "polite_entry (copy_apr_to_node_entry p)"
  shows "list_fits (snd (artnet_nl_update e n p))"
proof -
  have "bcast_limit (snd (artnet_nl_update e n p)) = bcast_limit n"
    by (simp add: nl_update_simps Let_def split: option.splits)
  moreover have "set (entries (nodes (snd (artnet_nl_update e n p)))) \<subseteq>
      set (entries (nodes n)) \<union> {t. pub t = copy_apr_to_node_entry p}"
    by (auto simp: nl_update_simps Let_def split: option.splits if_splits
        dest!: set_mp [OF set_update_subset_insert])
  ultimately show ?thesis using assms by (auto simp: list_fits_polite)
qed

lemma handle_listing:
  assumes "only_sends e" "type_of_code (p_type p) \<noteq> Some ARTNET_REPLY"
  shows "listing (snd (handle e n p)) = listing n"
  using assms
  by (auto simp: handle_def case_prod_beta parse_failed_def listing_dispatch split: option.splits)

lemma list_fits_handle:
  assumes "only_sends e" "list_fits n" "polite p"
  shows "list_fits (snd (handle e n p))"
proof (cases "type_of_code (p_type p) = Some ARTNET_REPLY")
  case True
  have cb: "list_fits (snd (check_callback e m p h)) = list_fits m" for m h
    using assms(1) by (intro list_fits_listing_cong listing_callback)
  have "list_fits (parse_failed m) = list_fits m" for m
    by (intro list_fits_listing_cong) (simp add: parse_failed_def)
  moreover have "list_fits (handle_reply e m p)" if "list_fits m" for m
    using True assms(3) that by (simp add: handle_reply_def polite_def list_fits_nl_update cb)
  ultimately show ?thesis using True assms(2) by (simp add: handle_def case_prod_beta cb)
next
  case False
  with assms(1,2) list_fits_listing_cong handle_listing show ?thesis by blast
qed

lemma fits_handle:
  assumes "only_sends e" "fits n" "\<And>k. env_malloc e k" "p_from p \<noteq> 0" "polite p"
  shows "fits (snd (handle e n p))"
  using assms by (simp add: fits_def node_ok_handle only_sends_safe list_fits_handle)


section \<open>The place in the group\<close>

lemma wiring_listing: "listing m = listing n \<Longrightarrow> wiring m = wiring n"
  by (simp add: listing_def)

lemma wiring_handle:
  assumes "only_sends e"
  shows "wiring (snd (handle e n p)) = wiring n"
proof (cases "type_of_code (p_type p) = Some ARTNET_REPLY")
  case True
  have "wiring (snd (artnet_nl_update e m p)) = wiring m" for m
    by (simp add: wiring_def nl_update_simps Let_def split: option.splits)
  moreover have "wiring (snd (check_callback e m p h)) = wiring m" "wiring (parse_failed m) = wiring m"
    for m h
    using assms by (simp_all add: wiring_def parse_failed_def)
  ultimately show ?thesis
    using True by (simp add: handle_def case_prod_beta handle_reply_def)
next
  case False
  with assms handle_listing wiring_listing show ?thesis by blast
qed

lemma wiring_unicast [simp]:
  "only_sends e \<Longrightarrow> wiring (unicast_all e p tos n) = wiring n"
  "only_sends e \<Longrightarrow> wiring (unicast_limited e p i tos n) = wiring n"
  by (induction tos arbitrary: n i) (simp_all add: wiring_def)

lemma wiring_unicast_dmx:
  assumes "only_sends e" "unicast_dmx e n uni p = Some (b, n')"
  shows "wiring n' = wiring n"
proof -
  have "wiring (snd (c_malloc e n)) = wiring n" "wiring (inside c m) = wiring m" for c m
    by (simp_all add: c_malloc_def wiring_def inside_def)
  with assms show ?thesis
    by (auto simp: unicast_dmx_def Let_def case_prod_beta split: if_splits option.splits)
qed

lemma wiring_send_dmx:
  assumes "only_sends e" "artnet_send_dmx e n port_id len data = Some (ret, n')"
  shows "wiring n' = wiring n"
proof -
  let ?i = "nat port_id"
  let ?n = "upd_in ?i (\<lambda>p. p\<lparr>port_status := port_status p OR PORT_STATUS_ACT_MASK\<rparr>) n"
  let ?p = "dmx_packet (seq (in_ports n ?i)) (word_of_int port_id) (port_addr (in_ports n ?i)) len data"
  let ?u = "unicast_dmx e ?n (port_addr (in_ports n ?i)) ?p"
  show ?thesis
  proof (cases "n' = n")
    case False
    with assms(2) obtain b m where u: "?u = Some (b, m)"
      and n': "n' = (if b then upd_in ?i (mark_sent data len (fst (artnet_gettime_ms e m)))
                              (snd (artnet_gettime_ms e m)) else m)"
      by (auto simp: artnet_send_dmx_def Let_def case_prod_beta split: if_splits option.splits bool.splits)
    have "wiring m = wiring n" using wiring_unicast_dmx [OF assms(1) u] by (simp add: wiring_def)
    then show ?thesis by (simp add: n' artnet_gettime_ms_def wiring_def)
  qed simp
qed

lemma wiring_check_timeouts:
  assumes "only_sends e" "check_timeouts e n = Some n'"
  shows "wiring n' = wiring n"
proof -
  let ?now = "env_time e (clk n)"
  let ?n1 = "n\<lparr>clk := Suc (clk n)\<rparr>"
  let ?n3 = "check_sync_timeout e ?now (for_upto 4 (failsafe_port ?now) ?n1)"
  have one: "wiring m' = wiring m" if "keepalive_port e ?now i (Some m) = Some m'" for i m m'
  proof (cases "keepalive_due ?now (in_ports m i)")
    case True
    with that obtain ret where "artnet_send_dmx e m (int i) (last_dmx_length (in_ports m i))
        (last_dmx_data (in_ports m i)) = Some (ret, m')"
      by (auto simp: keepalive_port_def Let_def)
    then show ?thesis by (rule wiring_send_dmx [OF assms(1)])
  next
    case False
    with that show ?thesis by (simp add: keepalive_port_def Let_def)
  qed
  have keep: "\<forall>m'. keepalive_port e ?now i s = Some m' \<longrightarrow> wiring m' = wiring n"
    if "\<forall>m'. s = Some m' \<longrightarrow> wiring m' = wiring n" for i s
    using that one by (cases s) (simp add: keepalive_port_def, metis option.inject)
  have sync: "wiring (sync_timeout_port e i m) = wiring m" for i m
    using assms(1) by (simp add: sync_timeout_port_def wiring_def)
  have fail: "wiring (failsafe_port now i m) = wiring m" for now i m
    by (simp add: failsafe_port_def wiring_def)
  have "wiring (for_upto 4 (failsafe_port ?now) ?n1) = wiring ?n1"
    by (rule for_upto_frame) (rule fail)
  moreover have "wiring (for_upto 4 (sync_timeout_port e) m) = wiring m" for m
    by (rule for_upto_frame) (rule sync)
  then have "wiring (check_sync_timeout e ?now m) = wiring m" for m
    by (simp add: check_sync_timeout_def) (simp add: wiring_def)
  ultimately have n3: "wiring ?n3 = wiring n" by (simp add: wiring_def)
  have "\<forall>m. for_upto 4 (keepalive_port e ?now) (Some ?n3) = Some m \<longrightarrow> wiring m = wiring n"
  proof (rule for_upto_invariant [where P = "\<lambda>s. \<forall>m. s = Some m \<longrightarrow> wiring m = wiring n"])
    show "\<forall>m. Some ?n3 = Some m \<longrightarrow> wiring m = wiring n" using n3 by (metis option.inject)
  qed (rule keep)
  moreover obtain m where "for_upto 4 (keepalive_port e ?now) (Some ?n3) = Some m"
      and n': "n' = check_pending_reply e ?now (check_firmware_timeout ?now (nl_cleanup ?now m))"
    using assms(2) by (auto simp: check_timeouts_def artnet_gettime_ms_def)
  ultimately have "wiring m = wiring n" by simp
  moreover have "peer (nl_cleanup ?now m) = peer m" "node_type (nl_cleanup ?now m) = node_type m"
    by (simp_all add: nl_cleanup_def NL_WRITE_BEGIN_def NL_WRITE_END_def Let_def case_prod_beta)
  ultimately show ?thesis
    using assms(1)
    by (simp add: n' wiring_def check_pending_reply_def check_firmware_timeout_def
        reset_firmware_upload_def)
qed

end
