(* ===== verification/Group.thy ===== *)
theory Group
  imports Listing Api_Config
begin

text \<open>
  Nodes that share a socket (\<open>artnet_join\<close>) and the read loop (\<open>artnet_read\<close>), both in
  \<open>artnet/artnet.c\<close>.  A group maps numbers to nodes, \<open>peer\<close> being the number of the next
  node of the ring; a walk along the peers that comes to no end has no value.
\<close>

type_synonym group = "nat \<Rightarrow> node"

section \<open>Joining\<close>

text \<open>The last node of the ring of \<open>stop\<close>, before it closes or ends.\<close>

partial_function (option) last_peer :: "group \<Rightarrow> nat \<Rightarrow> nat \<Rightarrow> nat option" where
  "last_peer w stop i =
     (case peer (w i) of
        None \<Rightarrow> Some i
      | Some j \<Rightarrow> if j = stop then Some i else last_peer w stop j)"

definition set_peer :: "nat \<Rightarrow> nat \<Rightarrow> group \<Rightarrow> group" where
  "set_peer i j w = w(i := (w i)\<lparr>peer := Some j\<rparr>)"

text \<open>The walk that takes the mastership away; it would follow a NULL, which has no value either.\<close>

partial_function (option) clear_masters :: "nat \<Rightarrow> nat option \<Rightarrow> group \<Rightarrow> group option" where
  "clear_masters stop c w =
     (case c of
        None \<Rightarrow> None
      | Some i \<Rightarrow>
          if i = stop then Some w
          else clear_masters stop (peer (w i)) (w(i := (w i)\<lparr>master := False\<rparr>)))"

definition artnet_join :: "group \<Rightarrow> nat \<Rightarrow> nat \<Rightarrow> (int \<times> group) option" where
  "artnet_join w n1 n2 =
     (if mode (w n1) = ARTNET_ON \<or> mode (w n2) = ARTNET_ON then Some (ARTNET_EACTION, w)
      else
        (let tmp = (case peer (w n1) of None \<Rightarrow> n1 | Some t \<Rightarrow> t);
             w = set_peer n1 n2 w
         in case last_peer w n2 n2 of
              None \<Rightarrow> None
            | Some k \<Rightarrow>
                (let w = set_peer k tmp w
                 in case clear_masters n1 (peer (w n1)) w of
                      None \<Rightarrow> None
                    | Some w \<Rightarrow> Some (ARTNET_EOK, w(n1 := (w n1)\<lparr>master := True\<rparr>)))))"

section \<open>Reading\<close>

text \<open>One of the two loops over the other nodes of the group, with its body as an argument.\<close>

partial_function (option) each_peer ::
    "(nat \<Rightarrow> group \<Rightarrow> group option) \<Rightarrow> nat \<Rightarrow> nat option \<Rightarrow> group \<Rightarrow> group option" where
  "each_peer body self c w =
     (case c of
        None \<Rightarrow> Some w
      | Some i \<Rightarrow>
          if i = self then Some w
          else Option.bind (body i w) (\<lambda>w. each_peer body self (peer (w i)) w))"

definition timeouts_at :: "env \<Rightarrow> nat \<Rightarrow> group \<Rightarrow> group option" where
  "timeouts_at e i w = map_option (\<lambda>n. w(i := n)) (check_timeouts e (w i))"

definition handle_at :: "env \<Rightarrow> packet \<Rightarrow> nat \<Rightarrow> group \<Rightarrow> group option" where
  "handle_at e p i w = Some (w(i := snd (handle e (w i) p)))"

definition handle_all :: "env \<Rightarrow> nat \<Rightarrow> packet \<Rightarrow> group \<Rightarrow> group option" where
  "handle_all e i p w =
     Option.bind (handle_at e p i w) (\<lambda>w. each_peer (handle_at e p) i (peer (w i)) w)"

text \<open>What one round does with the packet, if it received one.\<close>

definition read_packet :: "env \<Rightarrow> nat \<Rightarrow> packet \<Rightarrow> group \<Rightarrow> (packet \<times> group) option" where
  "read_packet e i p w =
     Option.bind (each_peer (timeouts_at e) i (peer (w i)) w)
       (\<lambda>w. case get_type p of
              (t, p') \<Rightarrow>
                if MIN_PACKET_SIZE \<le> p_length p \<and> t \<noteq> 0
                then map_option (Pair p') (handle_all e i p' w)
                else Some (p', w))"

text \<open>
  The loop, on what successive calls of \<open>select\<close> and \<open>recvfrom\<close> bring; when nothing more is
  listed, nothing more arrives.
\<close>

fun read_loop ::
    "env \<Rightarrow> nat \<Rightarrow> arrival list \<Rightarrow> packet \<Rightarrow> group \<Rightarrow> (int \<times> group) option" where
  "read_loop e i [] p w = map_option (Pair ARTNET_EOK) (timeouts_at e i w)"
| "read_loop e i (a # as) p w =
     Option.bind (timeouts_at e i w)
       (\<lambda>w. case artnet_net_recv (w i) a (p\<lparr>p_data := zero_mem\<rparr>) of
              (ret, p) \<Rightarrow>
                if ret < 0 then Some (ret, w)
                else if ret = RECV_NO_DATA then Some (ARTNET_EOK, w)
                else if p_length p = 0 then read_loop e i as p w
                else Option.bind (read_packet e i p w) (\<lambda>(p, w). read_loop e i as p w))"

definition artnet_read :: "env \<Rightarrow> group \<Rightarrow> nat \<Rightarrow> arrival list \<Rightarrow> (int \<times> group) option" where
  "artnet_read e w i as =
     (if mode (w i) \<noteq> ARTNET_ON then Some (ARTNET_EACTION, w)
      else read_loop e i as
             \<lparr>p_length = 0, p_from = 0, p_to = 0, p_type = 0, p_data = zero_mem\<rparr> w)"

section \<open>Rings\<close>

text \<open>
  The walk from \<open>i\<close> goes through the nodes of \<open>ids\<close>, in order and once each, and comes back
  to \<open>self\<close> or to an end.
\<close>

fun path :: "group \<Rightarrow> nat \<Rightarrow> nat option \<Rightarrow> nat list \<Rightarrow> bool" where
  "path w self c [] \<longleftrightarrow> c = None \<or> c = Some self"
| "path w self c (i # is) \<longleftrightarrow> c = Some i \<and> i \<noteq> self \<and> path w self (peer (w i)) is"

definition ring :: "group \<Rightarrow> nat \<Rightarrow> nat list \<Rightarrow> bool" where
  "ring w i is \<longleftrightarrow> path w i (peer (w i)) is \<and> distinct is"

lemma path_cong:
  "(\<And>i. i \<in> set is \<Longrightarrow> peer (v i) = peer (w i)) \<Longrightarrow> path v self c is = path w self c is"
  by (induction "is" arbitrary: c) auto

text \<open>The loop over the peers: the body is run once for each node of the ring.\<close>

lemma each_peer_path:
  assumes "path w self c is"
    and "\<And>i v. i \<in> set is \<Longrightarrow> P v \<Longrightarrow> \<exists>v'. body i v = Some v' \<and> P v'"
    and "\<And>v i. P v \<Longrightarrow> peer (v i) = peer (w i)"
    and "P w"
  shows "\<exists>w'. each_peer body self c w = Some w' \<and> P w'"
proof -
  have "path w self c is \<Longrightarrow> P v \<Longrightarrow> set is \<subseteq> set js \<Longrightarrow>
      \<exists>w'. each_peer body self c v = Some w' \<and> P w'"
    if "\<And>i v. i \<in> set js \<Longrightarrow> P v \<Longrightarrow> \<exists>v'. body i v = Some v' \<and> P v'" for js v
  proof (induction "is" arbitrary: c v)
    case Nil
    then show ?case by (subst each_peer.simps) auto
  next
    case (Cons i "is")
    then have c: "c = Some i" "i \<noteq> self" "path w self (peer (w i)) is" by simp_all
    from that [of i v] Cons.prems obtain v' where v': "body i v = Some v'" "P v'" by auto
    with assms(3) c(3) have "path w self (peer (v' i)) is" by simp
    from Cons.IH [OF this v'(2)] Cons.prems(3) c v' show ?case
      by (subst each_peer.simps) auto
  qed
  from this [of "is" w] assms(1,2,4) show ?thesis by blast
qed

section \<open>Joined rings\<close>

text \<open>The walk from \<open>c\<close> goes through \<open>is\<close> and comes to \<open>d\<close>.\<close>

fun walk :: "group \<Rightarrow> nat option \<Rightarrow> nat list \<Rightarrow> nat option \<Rightarrow> bool" where
  "walk w c [] d \<longleftrightarrow> c = d"
| "walk w c (i # is) d \<longleftrightarrow> c = Some i \<and> walk w (peer (w i)) is d"

lemma walk_append: "walk w c (is @ js) d \<longleftrightarrow> (\<exists>m. walk w c is m \<and> walk w m js d)"
  by (induction "is" arbitrary: c) auto

lemma walk_cong:
  "(\<And>i. i \<in> set is \<Longrightarrow> peer (v i) = peer (w i)) \<Longrightarrow> walk v c is d = walk w c is d"
  by (induction "is" arbitrary: c) auto

lemma last_peer_walk:
  assumes "walk w (peer (w i)) is d" "d = None \<or> d = Some stop" "stop \<notin> set is"
  shows "last_peer w stop i = Some (last (i # is))"
  using assms
proof (induction "is" arbitrary: i)
  case Nil
  then show ?case by (subst last_peer.simps) auto
next
  case (Cons j js)
  then have "peer (w i) = Some j" "j \<noteq> stop" by auto
  with Cons show ?case by (subst last_peer.simps) auto
qed

lemma clear_masters_walk:
  assumes "walk w c is (Some stop)" "stop \<notin> set is" "distinct is"
  shows "clear_masters stop c w =
    Some (\<lambda>j. if j \<in> set is then (w j)\<lparr>master := False\<rparr> else w j)"
  using assms
proof (induction "is" arbitrary: c w)
  case Nil
  then show ?case by (subst clear_masters.simps) auto
next
  case (Cons i "is")
  let ?w = "w(i := (w i)\<lparr>master := False\<rparr>)"
  from Cons.prems have c: "c = Some i" "i \<noteq> stop" by auto
  have "walk ?w (peer (w i)) is (Some stop)"
    using Cons.prems walk_cong [of "is" ?w w] by auto
  then have rest: "clear_masters stop (peer (w i)) ?w =
      Some (\<lambda>j. if j \<in> set is then (?w j)\<lparr>master := False\<rparr> else ?w j)"
    using Cons.prems by (intro Cons.IH) (simp_all del: fun_upd_apply)
  have "(\<lambda>j. if j \<in> set is then (?w j)\<lparr>master := False\<rparr> else ?w j) =
      (\<lambda>j. if j \<in> set (i # is) then (w j)\<lparr>master := False\<rparr> else w j)"
    by (rule ext) auto
  with c rest show ?case
    by (subst clear_masters.simps) (simp del: fun_upd_apply)
qed

text \<open>A ring that is closed, or a node that has not been joined.\<close>

definition joined :: "group \<Rightarrow> nat \<Rightarrow> nat list \<Rightarrow> bool" where
  "joined w i is \<longleftrightarrow>
     (walk w (peer (w i)) is (Some i) \<or> (is = [] \<and> peer (w i) = None)) \<and> distinct (i # is)"

lemma set_peer_at: "peer (set_peer i j w k) = (if k = i then Some j else peer (w k))"
  by (simp add: set_peer_def)

text \<open>Redirecting the last node of a walk redirects the walk.\<close>

lemma walk_redirect:
  assumes "walk w (peer (w i)) is d" "distinct (i # is)"
  shows "walk (set_peer (last (i # is)) t w) (Some i) (i # is) (Some t)"
  using assms
proof (induction "is" arbitrary: i)
  case Nil
  then show ?case by (simp add: set_peer_at)
next
  case (Cons j js)
  then have j: "peer (w i) = Some j" "walk w (peer (w j)) js d" "distinct (j # js)" by auto
  have "i \<noteq> last (j # js)" using Cons.prems(2) last_in_set [of "j # js"] by auto
  with Cons.IH [OF j(2,3)] j(1) show ?case by (simp add: set_peer_at)
qed

lemma join_rings:
  assumes "mode (w a) \<noteq> ARTNET_ON" "mode (w b) \<noteq> ARTNET_ON"
    and "joined w a is" "joined w b js" "set (a # is) \<inter> set (b # js) = {}"
  shows "\<exists>v. artnet_join w a b = Some (ARTNET_EOK, v) \<and> joined v a (b # js @ is) \<and>
    (\<forall>i \<in> set (a # b # js @ is). master (v i) = (i = a))"
proof -
  define tmp where "tmp = (case peer (w a) of None \<Rightarrow> a | Some t \<Rightarrow> t)"
  let ?k = "last (b # js)"
  let ?u = "set_peer a b w"
  let ?v = "set_peer ?k tmp ?u"
  have dist: "distinct (b # js)" "distinct (a # is)" using assms(3,4) by (simp_all add: joined_def)
  have k: "?k \<in> set (b # js)" by (rule last_in_set) simp
  obtain d where d: "walk w (peer (w b)) js d" "d = None \<or> d = Some b"
    using assms(4) by (auto simp: joined_def)
  have "walk ?u (peer (w b)) js d"
    using d(1) assms(5) by (subst walk_cong [of js ?u w]) (auto simp: set_peer_at)
  then have u: "walk ?u (peer (?u b)) js d" using assms(5) by (simp add: set_peer_at)
  have last: "last_peer ?u b b = Some ?k"
    using dist(1) d(2) by (intro last_peer_walk [OF u]) simp_all
  have v2: "walk ?v (Some b) (b # js) (Some tmp)" using u dist(1) by (rule walk_redirect)
  have "walk w (Some tmp) is (Some a)"
    using assms(3) by (cases "is") (auto simp: joined_def tmp_def)
  then have v1: "walk ?v (Some tmp) is (Some a)"
    using dist(2) k assms(5) by (subst walk_cong [of "is" ?v w]) (auto simp: set_peer_at)
  have va: "peer (?v a) = Some b" using k assms(5) by (auto simp: set_peer_at)
  have all: "walk ?v (Some b) (b # js @ is) (Some a)"
    using v1 v2 by (auto simp: walk_append)
  have fresh: "a \<notin> set (b # js @ is)" "distinct (b # js @ is)"
    using assms(5) dist by auto
  let ?z = "\<lambda>j. if j \<in> set (b # js @ is) then (?v j)\<lparr>master := False\<rparr> else ?v j"
  let ?r = "?z(a := (?z a)\<lparr>master := True\<rparr>)"
  have clear: "clear_masters a (peer (?v a)) ?v = Some ?z"
    unfolding va by (rule clear_masters_walk [OF all fresh])
  have res: "artnet_join w a b = Some (ARTNET_EOK, ?r)"
    using assms(1,2) last clear by (simp add: artnet_join_def Let_def tmp_def)
  have peers: "peer (?r i) = peer (?v i)" for i by simp
  have "walk ?r (Some b) (b # js @ is) (Some a)"
    using all by (subst walk_cong [of "b # js @ is" ?r ?v]) (simp_all only: peers)
  then have "joined ?r a (b # js @ is)"
    using fresh va by (simp add: joined_def)
  moreover have "\<forall>i \<in> set (a # b # js @ is). master (?r i) = (i = a)" by auto
  ultimately show ?thesis using res by blast
qed

section \<open>The read loop returns\<close>

definition received :: "u8 list \<Rightarrow> packet" where
  "received bs =
     (let m = put_bytes zero_mem 0 (take sizeof_union bs)
      in \<lparr>p_length = 0, p_from = 0, p_to = 0, p_type = le16 (m 8) (m 9), p_data = m\<rparr>)"

text \<open>What a network of polite nodes sends: no null sender, no impossible reply.\<close>

definition polite_arrival :: "arrival \<Rightarrow> bool" where
  "polite_arrival a \<longleftrightarrow>
     (case a of Datagram src bs \<Rightarrow> src \<noteq> 0 \<and> polite (received bs) | _ \<Rightarrow> True)"

lemma polite_cong: "p_type p = p_type q \<Longrightarrow> p_data p = p_data q \<Longrightarrow> polite p = polite q"
  by (simp add: polite_def copy_apr_to_node_entry_def field_defs)

definition group_fits :: "nat set \<Rightarrow> group \<Rightarrow> group \<Rightarrow> bool" where
  "group_fits S w v \<longleftrightarrow> (\<forall>i \<in> S. fits (v i)) \<and> (\<forall>i. peer (v i) = peer (w i))"

lemma timeouts_at_fits:
  assumes "only_sends e" "i \<in> S" "group_fits S w v"
  shows "\<exists>v'. timeouts_at e i v = Some v' \<and> group_fits S w v'"
proof -
  obtain n where n: "check_timeouts e (v i) = Some n" "fits n"
    using check_timeouts_returns [OF assms(1), of "v i"] assms(2,3) by (auto simp: group_fits_def)
  moreover have "peer n = peer (v i)"
    using wiring_check_timeouts [OF assms(1) n(1)] by (simp add: wiring_def)
  ultimately show ?thesis using assms(3) by (auto simp: timeouts_at_def group_fits_def)
qed

lemma handle_at_fits:
  assumes "only_sends e" "\<And>k. env_malloc e k" "p_from p \<noteq> 0" "polite p"
    and "i \<in> S" "group_fits S w v"
  shows "\<exists>v'. handle_at e p i v = Some v' \<and> group_fits S w v'"
proof -
  have "fits (snd (handle e (v i) p))"
    using assms by (intro fits_handle) (simp_all add: group_fits_def)
  moreover have "peer (snd (handle e (v i) p)) = peer (v i)"
    using wiring_handle [OF assms(1), of "v i" p] by (simp add: wiring_def)
  ultimately show ?thesis using assms(6) by (auto simp: handle_at_def group_fits_def)
qed

lemma each_peer_fits:
  assumes "ring w i is" "insert i (set is) \<subseteq> S" "group_fits S w v"
    and "\<And>j u. j \<in> S \<Longrightarrow> group_fits S w u \<Longrightarrow> \<exists>u'. body j u = Some u' \<and> group_fits S w u'"
  shows "\<exists>v'. each_peer body i (peer (v i)) v = Some v' \<and> group_fits S w v'"
proof (rule each_peer_path [where P = "group_fits S w"])
  have same: "peer (v j) = peer (w j)" for j using assms(3) by (simp add: group_fits_def)
  then show "path v i (peer (v i)) is"
    using assms(1) path_cong [of "is" v w i] by (simp add: ring_def)
  show "\<exists>v'. body j u = Some v' \<and> group_fits S w v'" if "j \<in> set is" "group_fits S w u" for j u
    using assms(2,4) that by blast
  show "peer (u j) = peer (v j)" if "group_fits S w u" for u j
    using that same by (simp add: group_fits_def)
qed (rule assms(3))

lemma handle_all_fits:
  assumes "only_sends e" "\<And>k. env_malloc e k" "p_from p \<noteq> 0" "polite p"
    and "ring w i is" "insert i (set is) \<subseteq> S" "group_fits S w v"
  shows "\<exists>v'. handle_all e i p v = Some v' \<and> group_fits S w v'"
proof -
  note one = handle_at_fits [where S = S and w = w, OF assms(1-4)]
  obtain u where u: "handle_at e p i v = Some u" "group_fits S w u"
    using one [of i v] assms(6,7) by auto
  have "\<exists>v'. each_peer (handle_at e p) i (peer (u i)) u = Some v' \<and> group_fits S w v'"
    using one by (rule each_peer_fits [OF assms(5,6) u(2)])
  with u show ?thesis by (simp add: handle_all_def)
qed

lemma recv_cases:
  assumes "artnet_net_recv n a p = (ret, q)" "\<not> ret < 0" "ret \<noteq> RECV_NO_DATA" "p_length q \<noteq> 0"
  obtains src bs where "a = Datagram src bs" "p_from q = src" "p_data q = p_data (received bs)"
  using assms
  by (cases a) (auto simp: artnet_net_recv_def received_def Let_def split: if_splits)

lemma read_packet_fits:
  assumes "only_sends e" "\<And>k. env_malloc e k" "p_from p \<noteq> 0" "polite (received bs)"
    and "p_data p = p_data (received bs)"
    and "ring w i is" "insert i (set is) \<subseteq> S" "group_fits S w v"
  shows "\<exists>q v'. read_packet e i p v = Some (q, v') \<and> group_fits S w v'"
proof -
  obtain u where u: "each_peer (timeouts_at e) i (peer (v i)) v = Some u" "group_fits S w u"
    using each_peer_fits [OF assms(6-8), of "timeouts_at e"] timeouts_at_fits [OF assms(1)] by blast
  obtain t p' where g: "get_type p = (t, p')" by fastforce
  show ?thesis
  proof (cases "MIN_PACKET_SIZE \<le> p_length p \<and> t \<noteq> 0")
    case True
    then have q: "p_from p' = p_from p" "p_type p' = p_type (received bs)"
        "p_data p' = p_data (received bs)"
      using g assms(5) by (auto simp: get_type_def received_def Let_def split: if_splits)
    have pol: "polite p'" using polite_cong [OF q(2,3)] assms(4) by simp
    have sender: "p_from p' \<noteq> 0" using q(1) assms(3) by simp
    obtain v' where "handle_all e i p' u = Some v'" "group_fits S w v'"
      using handle_all_fits [OF assms(1,2) sender pol assms(6,7) u(2)] by blast
    with True u(1) g show ?thesis by (simp add: read_packet_def)
  next
    case False
    with u g show ?thesis by (auto simp: read_packet_def)
  qed
qed

lemma read_loop_returns:
  assumes "only_sends e" "\<And>k. env_malloc e k"
    and "ring w i is" "insert i (set is) \<subseteq> S"
    and "list_all polite_arrival as" "group_fits S w v"
  shows "\<exists>ret v'. read_loop e i as p v = Some (ret, v') \<and> group_fits S w v'"
  using assms(5,6)
proof (induction "as" arbitrary: p v)
  case Nil
  then show ?case using timeouts_at_fits [OF assms(1), of i S w v] assms(4) by fastforce
next
  case (Cons a "as")
  obtain u where u: "timeouts_at e i v = Some u" "group_fits S w u"
    using timeouts_at_fits [OF assms(1) _ Cons.prems(2), of i] assms(4) by blast
  obtain ret q where r: "artnet_net_recv (u i) a (p\<lparr>p_data := zero_mem\<rparr>) = (ret, q)" by fastforce
  note loop = Cons.IH [of _ q]
  show ?case
  proof (cases "ret < 0 \<or> ret = RECV_NO_DATA \<or> p_length q = 0")
    case True
    with u r Cons.IH [OF _ u(2), of q] Cons.prems(1) show ?thesis by auto
  next
    case False
    then obtain src bs where d: "a = Datagram src bs" "p_from q = src" "p_data q = p_data (received bs)"
      using recv_cases [OF r] by metis
    then have "p_from q \<noteq> 0" "polite (received bs)"
      using Cons.prems(1) by (simp_all add: polite_arrival_def)
    then obtain q' v' where "read_packet e i q u = Some (q', v')" "group_fits S w v'"
      using read_packet_fits [OF assms(1,2) _ _ d(3) assms(3,4) u(2)] by blast
    with False u r Cons.IH [of v' q'] Cons.prems(1) show ?thesis by auto
  qed
qed

end
