(* ===== verification/Calls.thy ===== *)
theory Calls
  imports Group Api_Send
begin

text \<open>
  What the calls of an application leave alone: none changes the list of remote nodes, so each
  keeps it one that a search fits.
\<close>

section \<open>What the calls leave alone\<close>

lemma listing_announce [simp]: "only_sends e \<Longrightarrow> listing (snd (announce e n)) = listing n"
  by (simp add: announce_def case_prod_beta)

lemma listing_tx_poll [simp]:
  "only_sends e \<Longrightarrow> listing (snd (artnet_tx_poll_ex e n a f d t b m oem)) = listing n"
  "only_sends e \<Longrightarrow> listing (snd (artnet_tx_poll e n a ttm)) = listing n"
  by (simp_all add: artnet_tx_poll_def artnet_tx_poll_ex_def case_prod_beta split: option.split)

lemma listing_send_tod_requests:
  "only_sends e \<Longrightarrow> listing (snd (send_tod_requests e nets ret n)) = listing n"
  by (induction nets arbitrary: ret n) (simp_all add: Let_def case_prod_beta)

lemma listing_start: "only_sends e \<Longrightarrow> listing (snd (artnet_start e so n)) = listing n"
  by (simp add: artnet_start_def case_prod_beta artnet_tx_tod_request_def listing_send_tod_requests)

lemma listing_config:
  "listing (snd (artnet_stop n)) = listing n"
  "listing (snd (artnet_setoem n hi lo)) = listing n"
  "listing (snd (artnet_setesta n hi lo)) = listing n"
  "listing (snd (artnet_set_style_code n b)) = listing n"
  "listing (snd (artnet_set_status2 n b)) = listing n"
  "listing (snd (artnet_set_status3 n b)) = listing n"
  "listing (snd (artnet_set_refresh_rate n rate)) = listing n"
  "listing (snd (artnet_set_default_resp_uid n du)) = listing n"
  "listing (snd (artnet_set_short_name n name)) = listing n"
  "listing (snd (artnet_set_long_name n name)) = listing n"
  "listing (snd (artnet_set_port_type n i settings data)) = listing n"
  "listing (snd (artnet_set_gateway e n a)) = listing n"
  "listing (snd (artnet_set_handler n handler f d)) = listing n"
  "listing (snd (set_own_handler c n f d)) = listing n"
  by (simp_all add: artnet_stop_def artnet_setoem_def artnet_setesta_def
      artnet_set_style_code_def artnet_set_status2_def artnet_set_status3_def
      artnet_set_refresh_rate_def artnet_set_default_resp_uid_def
      artnet_set_short_name_def artnet_set_long_name_def artnet_set_port_type_def
      artnet_set_gateway_def artnet_set_handler_def set_own_handler_def Let_def split: option.split)

lemma listing_look:
  "listing (n\<lparr>nodes := snd (artnet_nl_first (nodes n))\<rparr>) = listing n"
  "listing (n\<lparr>nodes := snd (artnet_nl_next (nodes n))\<rparr>) = listing n"
  by (simp_all add: listing_def wiring_def artnet_nl_first_def artnet_nl_next_def Let_def
      split: option.split)

lemma node_ok_look:
  assumes "node_ok n"
  shows "node_ok (n\<lparr>nodes := snd (artnet_nl_first (nodes n))\<rparr>)"
    "node_ok (n\<lparr>nodes := snd (artnet_nl_next (nodes n))\<rparr>)"
  using assms
  by (auto simp: node_ok_parts wf_nl_def artnet_nl_first_def artnet_nl_next_def Let_def
      split: option.split)

lemma listing_net_port [simp]:
  "listing (net_addr_port net i n) = listing n" "listing (subnet_addr_port net i n) = listing n"
  by (simp_all add: net_addr_port_def subnet_addr_port_def)

lemma listing_addresses:
  assumes "only_sends e"
  shows "listing (snd (artnet_set_port_addr e n i dir addr)) = listing n"
    "listing (snd (artnet_set_net_addr e n net)) = listing n"
    "listing (snd (artnet_set_subnet_addr e n subnet)) = listing n"
    "listing (snd (artnet_set_bind_index e n b)) = listing n"
  using assms
  by (simp_all add: artnet_set_port_addr_def addr_result_def artnet_set_net_addr_def
      artnet_set_subnet_addr_def artnet_set_bind_index_def Let_def listing_for_upto
      split: option.split artnet_port_dir.split)

lemma listing_sends:
  assumes "only_sends e"
  shows "listing (snd (artnet_send_poll e n a ttm)) = listing n"
    "listing (snd (artnet_send_poll_reply e n)) = listing n"
    "listing (snd (artnet_send_diagnostic e n prio port txt)) = listing n"
    "listing (snd (artnet_send_firmware e n ent u d len f user)) = listing n"
  using assms
  by (simp_all add: artnet_send_poll_def artnet_send_poll_reply_def artnet_send_diagnostic_def
      artnet_tx_diagdata_def artnet_send_firmware_def Let_def case_prod_beta split: option.split)

lemma listing_tx [simp]:
  assumes "only_sends e"
  shows "listing (snd (artnet_tx_tod_control e n w1 c1)) = listing n"
    "listing (snd (artnet_tx_tod_request e n)) = listing n"
    "listing (snd (artnet_tx_rdm e n w1 d len)) = listing n"
    "listing (snd (artnet_tx_rdmsub e n du c1 w1 w2 w3 d len)) = listing n"
    "listing (snd (artnet_tx_sync e n)) = listing n"
    "listing (snd (artnet_tx_timecode e n c1 c2 c3 c4 t c5)) = listing n"
    "listing (snd (artnet_tx_timesync e n c1 c2 c3 c4 c5 c6)) = listing n"
    "listing (snd (artnet_tx_trigger e n c1 c2 c3 c4 d len)) = listing n"
    "listing (snd (artnet_tx_data_request e n s w1)) = listing n"
    "listing (snd (artnet_tx_data_reply e n s w1 d len)) = listing n"
    "listing (snd (artnet_tx_command e n w1 d len s)) = listing n"
    "listing (snd (artnet_tx_file_fn_reply e n c1 w1 d len)) = listing n"
    "listing (snd (artnet_tx_ipprog e n ip c1 a1 a2 a3)) = listing n"
    "listing (snd (artnet_tx_media_patch e n ip c1 w1 d len)) = listing n"
    "listing (snd (artnet_tx_media_control e n ip ty d len)) = listing n"
    "listing (snd (artnet_tx_file_tn_master e n ip c1 c2 wl d len)) = listing n"
    "listing (snd (artnet_tx_file_fn_master e n ip s)) = listing n"
    "listing (snd (artnet_tx_firmware_reply e n ip c1)) = listing n"
  using assms
  by (simp_all add: artnet_tx_tod_control_def artnet_tx_tod_request_def listing_send_tod_requests
      artnet_tx_rdm_def artnet_tx_rdmsub_def artnet_tx_sync_def artnet_tx_timecode_def
      artnet_tx_timesync_def artnet_tx_trigger_def artnet_tx_data_request_def
      artnet_tx_data_reply_def artnet_tx_command_def artnet_tx_file_fn_reply_def
      artnet_tx_ipprog_def artnet_tx_media_patch_def artnet_tx_media_control_def
      artnet_tx_file_tn_master_def artnet_tx_file_fn_master_def artnet_tx_firmware_reply_def
      Let_def split: option.split)

lemma listing_send_directory:
  "only_sends e \<Longrightarrow> listing (snd (send_directory e p l b n)) = listing n"
  by (induction l arbitrary: b n) (simp_all add: case_prod_beta Let_def)

lemma listing_passed_on:
  assumes "only_sends e"
  shows "listing (snd (artnet_send_tod_request e n)) = listing n"
    "listing (snd (artnet_send_tod_control e n w1 c1)) = listing n"
    "listing (snd (artnet_send_sync e n)) = listing n"
    "listing (snd (artnet_send_timecode e n c1 c2 c3 c4 t c5)) = listing n"
    "listing (snd (artnet_send_timesync e n c1 c2 c3 c4 c5 c6)) = listing n"
    "listing (snd (artnet_send_trigger e n c1 c2 c3 c4 d len)) = listing n"
    "listing (snd (artnet_send_data_request e n s w1)) = listing n"
    "listing (snd (artnet_send_data_reply e n s w1 d len)) = listing n"
    "listing (snd (artnet_send_command e n w1 d len s)) = listing n"
    "listing (snd (artnet_send_directory e n)) = listing n"
    "listing (snd (artnet_send_file_fn_reply e n c1 w1 d len)) = listing n"
    "listing (snd (artnet_send_rdm e n w1 d len)) = listing n"
    "listing (snd (artnet_send_rdmsub e n du c1 w1 w2 w3 d len)) = listing n"
  using assms
  by (simp_all add: passed_on artnet_tx_directory_def listing_send_directory)

lemma listing_to_entry:
  "(\<And>ip. listing (snd (tx ip)) = listing n) \<Longrightarrow> listing (snd (to_entry n ent tx)) = listing n"
  by (simp add: to_entry_def split: option.split)

lemma listing_to_node:
  assumes "only_sends e"
  shows "listing (snd (artnet_send_ipprog e n ent c1 a1 a2 a3)) = listing n"
    "listing (snd (artnet_send_media_patch e n ent c1 w1 d len)) = listing n"
    "listing (snd (artnet_send_media_control e n ent d len)) = listing n"
    "listing (snd (artnet_send_media_control_reply e n ent d len)) = listing n"
    "listing (snd (artnet_send_file_tn_master e n ent c1 c2 wl d len)) = listing n"
    "listing (snd (artnet_send_file_fn_master e n ent s)) = listing n"
    "listing (snd (artnet_send_poll_flags e n s c1 c2 w1 w2 w3 w4)) = listing n"
    "listing (snd (artnet_send_address e n ent sn ln ia oa c1 c2 c3 c4)) = listing n"
    "listing (snd (artnet_send_input e n ent settings)) = listing n"
    "listing (snd (artnet_send_firmware_reply e n ent c1)) = listing n"
    "listing (snd (artnet_send_directory_reply e n d k kk)) = listing n"
    "listing (snd (artnet_send_tod_data e n i)) = listing n"
  using assms
  by (simp_all add: artnet_send_ipprog_def artnet_send_media_patch_def
      artnet_send_media_control_def artnet_send_media_control_reply_def
      artnet_send_file_tn_master_def artnet_send_file_fn_master_def artnet_send_poll_flags_def
      artnet_send_address_def artnet_send_input_def artnet_send_firmware_reply_def
      artnet_send_directory_reply_def artnet_send_tod_data_def listing_to_entry Let_def
      split: option.split)

lemma node_ok_send_input_in:
  assumes "cb_ok e" "node_ok n" "ent = None \<or> find_private_entry n ent \<noteq> None"
  shows "node_ok (snd (artnet_send_input e n ent settings))"
  using assms node_ok_send_input [OF assms(1,2)]
  by (cases "find_private_entry n ent") (auto simp: artnet_send_input_def)

lemma listing_tod_to_each:
  "only_sends e \<Longrightarrow> listing (snd (tod_data_to_each e pid ks ret n)) = listing n"
  by (induction ks arbitrary: ret n) (simp_all add: case_prod_beta)

lemma listing_devices:
  assumes "only_sends e"
  shows "listing (snd (artnet_add_rdm_device e n i u)) = listing n"
    "listing (snd (artnet_remove_rdm_device e n i u)) = listing n"
    "listing (snd (artnet_add_rdm_devices e n i us cnt)) = listing n"
proof -
  have "listing (snd (artnet_tx_tod_data_to_requesters e m k)) = listing m" for m k
    using assms
    by (simp add: artnet_tx_tod_data_to_requesters_def Let_def case_prod_beta listing_tod_to_each)
  moreover have "listing (add_port_uid e k x m) = listing m" for k x m
    by (simp add: add_port_uid_def case_prod_beta)
  ultimately show "listing (snd (artnet_add_rdm_device e n i u)) = listing n"
    "listing (snd (artnet_remove_rdm_device e n i u)) = listing n"
    "listing (snd (artnet_add_rdm_devices e n i us cnt)) = listing n"
    by (simp_all add: artnet_add_rdm_device_def artnet_remove_rdm_device_def
        artnet_add_rdm_devices_def listing_for_upto)
qed

lemma fits_listing: "fits n \<Longrightarrow> node_ok m \<Longrightarrow> listing m = listing n \<Longrightarrow> fits m"
  by (simp add: fits_def list_fits_listing)

lemma fits_node_type: "fits n \<Longrightarrow> fits (snd (artnet_set_node_type n t))"
  by (simp add: fits_def list_fits_def artnet_set_node_type_def)

lemma fits_send_dmx:
  assumes "only_sends e" "fits n" "artnet_send_dmx e n i len d = Some (ret, n')"
  shows "fits n'"
proof -
  have "node_ok n'"
    using assms(2)
    by (intro node_ok_send_dmx [OF only_sends_safe(2) [OF assms(1)] _ _ assms(3)])
       (simp_all add: fits_def list_fits_scan)
  moreover have "list_fits n'"
    using send_dmx_observed [OF assms(1,3)] list_fits_cong [of n' n] assms(2) by (simp add: fits_def)
  ultimately show ?thesis by (simp add: fits_def)
qed

section \<open>Levels to a universe\<close>

lemma listing_send_to_each [simp]:
  "only_sends e \<Longrightarrow> listing (snd (send_to_each e p tos n)) = listing n"
  by (induction tos arbitrary: n) (simp_all add: case_prod_beta)

lemma fits_send_to_universe:
  assumes "only_sends e" "fits n" "send_to_universe e n uni p = Some (ret, n')"
  shows "fits n'"
proof -
  let ?n = "snd (c_malloc e n)"
  have n: "node_ok n" "list_fits n" "nl_seq n AND 1 = 0"
    using assms(2) by (simp_all add: fits_def node_ok_even)
  have "length (subscribers n uni) \<le> search_limit n"
    using list_fits_scan [OF n(1,2), of uni] n(2)
    by (simp add: dmx_scan_fits_def dmx_search_limit_def list_fits_def subscribers_def)
  then have "find_nodes_from_uni ?n uni (search_limit n) =
      Some (int (length (subscribers n uni)), subscribers n uni, True)"
    using n find_nodes_fits [of ?n uni "search_limit n"] by (simp add: list_fits_def)
  with assms(3) have "n' = ?n \<or> (\<exists>tos. send_to_each e p tos ?n = (ret, n'))"
    by (auto simp: send_to_universe_def Let_def case_prod_beta split: if_splits)
  then have "n' = ?n \<or> (\<exists>tos. n' = snd (send_to_each e p tos ?n))" by (metis snd_conv)
  then have "node_ok n' \<and> listing n' = listing n"
    using n(1) assms(1) by (auto simp: node_ok_send_to_each only_sends_safe(2))
  with fits_listing [OF assms(2)] show ?thesis by simp
qed

lemma fits_raw_send_dmx:
  assumes "only_sends e" "fits n" "artnet_raw_send_dmx e n uni len d = Some (ret, n')"
  shows "fits n'"
  using assms(2,3) fits_send_to_universe [OF assms(1,2)]
  by (auto simp: artnet_raw_send_dmx_def Let_def split: if_splits)

lemma fits_upd_in:
  assumes "fits n" "\<And>q. in_ok q \<Longrightarrow> in_ok (f q)" "\<And>q. port_addr (f q) = port_addr q"
  shows "fits (upd_in i f n)"
  using assms fits_listing [OF assms(1), of "upd_in i f n"]
  by (simp add: fits_def node_ok_step_in)

lemma fits_tx_nzs:
  assumes "only_sends e" "fits n" "artnet_tx_nzs e n i sc len d = Some (ret, n')"
  shows "fits n'"
proof (cases "n' = n")
  case False
  let ?n = "upd_in (nat i) (\<lambda>p. p\<lparr>port_status := port_status p OR PORT_STATUS_ACT_MASK\<rparr>) n"
  have "fits ?n" using assms(2) by (intro fits_upd_in) (simp_all add: in_ok_def)
  note step = fits_send_to_universe [OF assms(1) this]
  from False assms(3) obtain uni p r m where
    m: "send_to_universe e ?n uni p = Some (r, m)"
      "n' = m \<or> n' = upd_in (nat i) (\<lambda>p. p\<lparr>seq := next_seq (seq p)\<rparr>) m"
    by (auto simp: artnet_tx_nzs_def Let_def split: if_splits option.splits)
  from step [OF m(1)] m(2) show ?thesis
    by (auto intro!: fits_upd_in simp: in_ok_def)
qed (use assms in simp)

lemma fits_send_nzs:
  assumes "only_sends e" "fits n" "artnet_send_nzs e n uni sc len d = Some (ret, n')"
  shows "fits n'"
  using assms(2,3) fits_send_to_universe [OF assms(1,2)] fits_tx_nzs [OF assms(1,2)]
  by (auto simp: artnet_send_nzs_def Let_def split: if_splits option.splits)

lemma fits_send_vlc:
  assumes "only_sends e" "fits n" "artnet_send_vlc e n uni len d = Some (ret, n')"
  shows "fits n'"
  using assms(2,3) fits_send_nzs [OF assms(1,2)]
  by (auto simp: artnet_send_vlc_def Let_def split: if_splits option.splits)

end
