(* ===== verification/Reachable.thy ===== *)
theory Reachable
  imports Calls
begin

text \<open>
  The node as a state machine: its steps are the library calls of an application, the packets it
  receives and the passing of time.  What every step keeps holds in every state that a new node
  can come to.
\<close>

section \<open>Machines and invariants\<close>

locale machine =
  fixes init :: "'s \<Rightarrow> bool"
    and step :: "'s \<Rightarrow> 's \<Rightarrow> bool"
    and inv :: "'s \<Rightarrow> bool"
  assumes inv_init: "init s \<Longrightarrow> inv s"
    and inv_step: "inv s \<Longrightarrow> step s t \<Longrightarrow> inv t"
begin

lemma inv_steps: "step\<^sup>*\<^sup>* s t \<Longrightarrow> inv s \<Longrightarrow> inv t"
  by (induction rule: rtranclp_induct) (auto intro: inv_step)

lemma inv_reached: "init s \<Longrightarrow> step\<^sup>*\<^sup>* s t \<Longrightarrow> inv t"
  using inv_steps inv_init by blast

end

section \<open>The steps of a node\<close>

text \<open>
  One step: a packet of a polite sender is handled, time is looked at, levels are sent, or the
  application configures the node, names what it has, or fills its tables of devices.
\<close>

inductive live_step :: "env \<Rightarrow> node \<Rightarrow> node \<Rightarrow> bool" for e where
  receives: "p_from p \<noteq> 0 \<Longrightarrow> polite p \<Longrightarrow> live_step e n (snd (handle e n p))"
| ticks: "check_timeouts e n = Some n' \<Longrightarrow> live_step e n n'"
| sends_dmx: "artnet_send_dmx e n i len d = Some (ret, n') \<Longrightarrow> live_step e n n'"
| starts: "live_step e n (snd (artnet_start e so n))"
| stops: "live_step e n (snd (artnet_stop n))"
| sets_oem: "live_step e n (snd (artnet_setoem n hi lo))"
| sets_esta: "live_step e n (snd (artnet_setesta n hi lo))"
| sets_style: "live_step e n (snd (artnet_set_style_code n style))"
| sets_status2: "live_step e n (snd (artnet_set_status2 n st))"
| sets_status3: "live_step e n (snd (artnet_set_status3 n st))"
| sets_refresh: "live_step e n (snd (artnet_set_refresh_rate n rate))"
| sets_resp_uid: "live_step e n (snd (artnet_set_default_resp_uid n du))"
| looks_first: "live_step e n (n\<lparr>nodes := snd (artnet_nl_first (nodes n))\<rparr>)"
| looks_next: "live_step e n (n\<lparr>nodes := snd (artnet_nl_next (nodes n))\<rparr>)"
| sets_short: "live_step e n (snd (artnet_set_short_name n name))"
| sets_long: "live_step e n (snd (artnet_set_long_name n name))"
| sets_port: "live_step e n (snd (artnet_set_port_type n i settings data))"
| sets_addr: "live_step e n (snd (artnet_set_port_addr e n i dir addr))"
| sets_net: "live_step e n (snd (artnet_set_net_addr e n net))"
| sets_subnet: "live_step e n (snd (artnet_set_subnet_addr e n subnet))"
| sets_bind: "live_step e n (snd (artnet_set_bind_index e n b))"
| sets_gateway: "live_step e n (snd (artnet_set_gateway e n addr_string))"
| sets_handler: "live_step e n (snd (artnet_set_handler n handler f data))"
| sets_own_handler: "live_step e n (snd (set_own_handler c n f data))"
| sends_poll: "live_step e n (snd (artnet_send_poll e n addr_string ttm))"
| sends_reply: "live_step e n (snd (artnet_send_poll_reply e n))"
| sends_diag: "live_step e n (snd (artnet_send_diagnostic e n prio port txt))"
| sends_firmware:
    "0 \<le> len \<Longrightarrow> len < 2 ^ 30 \<Longrightarrow> live_step e n (snd (artnet_send_firmware e n ent u d len f user))"
| sends_poll_flags: "live_step e n (snd (artnet_send_poll_flags e n addr_string f prio t b m oem))"
| sends_raw_dmx: "artnet_raw_send_dmx e n uni len d = Some (ret, n') \<Longrightarrow> live_step e n n'"
| sends_nzs: "artnet_send_nzs e n uni sc len d = Some (ret, n') \<Longrightarrow> live_step e n n'"
| sends_vlc: "artnet_send_vlc e n uni len txt = Some (ret, n') \<Longrightarrow> live_step e n n'"
| sends_tod_request: "live_step e n (snd (artnet_send_tod_request e n))"
| sends_tod_control: "live_step e n (snd (artnet_send_tod_control e n a action))"
| sends_tod_data: "live_step e n (snd (artnet_send_tod_data e n i))"
| sends_sync: "live_step e n (snd (artnet_send_sync e n))"
| sends_timecode: "live_step e n (snd (artnet_send_timecode e n c1 c2 c3 c4 tt c5))"
| sends_timesync: "live_step e n (snd (artnet_send_timesync e n c1 c2 c3 c4 c5 c6))"
| sends_trigger: "live_step e n (snd (artnet_send_trigger e n c1 c2 c3 c4 d len))"
| sends_data_request: "live_step e n (snd (artnet_send_data_request e n addr_string a))"
| sends_data_reply: "live_step e n (snd (artnet_send_data_reply e n addr_string a d len))"
| sends_command: "live_step e n (snd (artnet_send_command e n a d len addr_string))"
| sends_address: "live_step e n (snd (artnet_send_address e n ent sn ln ia oa na sa cmd acn))"
| sends_input:
    "ent = None \<or> find_private_entry n ent \<noteq> None \<Longrightarrow> live_step e n (snd (artnet_send_input e n ent settings))"
| sends_firmware_reply: "live_step e n (snd (artnet_send_firmware_reply e n ent code))"
| sends_ipprog: "live_step e n (snd (artnet_send_ipprog e n ent code a1 a2 a3))"
| sends_media_patch: "live_step e n (snd (artnet_send_media_patch e n ent code a d len))"
| sends_media_control: "live_step e n (snd (artnet_send_media_control e n ent d len))"
| sends_media_control_reply: "live_step e n (snd (artnet_send_media_control_reply e n ent d len))"
| sends_file: "live_step e n (snd (artnet_send_file_tn_master e n ent code c1 wl d len))"
| sends_file_name: "live_step e n (snd (artnet_send_file_fn_master e n ent fname))"
| sends_file_reply: "live_step e n (snd (artnet_send_file_fn_reply e n c1 a d len))"
| sends_directory: "live_step e n (snd (artnet_send_directory e n))"
| sends_directory_reply: "live_step e n (snd (artnet_send_directory_reply e n d cnt tot))"
| sends_rdm: "live_step e n (snd (artnet_send_rdm e n a d len))"
| sends_rdmsub: "live_step e n (snd (artnet_send_rdmsub e n du c1 a1 a2 a3 d len))"
| adds_devices: "live_step e n (snd (artnet_add_rdm_devices e n i us cnt))"
| adds_device:
    "length u = ARTNET_RDM_UID_WIDTH \<Longrightarrow> live_step e n (snd (artnet_add_rdm_device e n i u))"
| removes_device: "live_step e n (snd (artnet_remove_rdm_device e n i u))"

text \<open>A step of a node: one of these, or it is given another type, which programs do once.\<close>

inductive node_step :: "env \<Rightarrow> node \<Rightarrow> node \<Rightarrow> bool" for e where
  lives: "live_step e n n' \<Longrightarrow> node_step e n n'"
| sets_type: "node_step e n (snd (artnet_set_node_type n t))"

lemmas any_step = live_step.intros [THEN lives] sets_type

text \<open>
  Surroundings in which memory is granted, and the application only observes or does no more than
  send.
\<close>

definition calm :: "env \<Rightarrow> bool" where
  "calm e \<longleftrightarrow> observer e \<and> (\<forall>k. env_malloc e k)"

definition modest :: "env \<Rightarrow> bool" where
  "modest e \<longleftrightarrow> only_sends e \<and> (\<forall>k. env_malloc e k)"

lemma calm_modest [simp]: "calm e \<Longrightarrow> modest e"
  by (simp add: calm_def modest_def)

lemma fits_step:
  assumes "modest e" "fits n" "node_step e n n'"
  shows "fits n'"
proof -
  have e: "only_sends e" "\<And>k. env_malloc e k" "cb_ok e" using assms(1)
    by (simp_all add: modest_def only_sends_safe)
  have ok: "node_ok n" using assms(2) by (simp add: fits_def)
  note same = fits_listing [OF assms(2)]
  have lives: "fits m" if "live_step e n m" for m
    using that
  proof (cases rule: live_step.cases)
    case (receives p)
    with e assms(2) show ?thesis by (auto intro: fits_handle)
  next
    case ticks
    with check_timeouts_returns [OF e(1) assms(2)] show ?thesis by auto
  next
    case (sends_dmx i len d ret)
    with e(1) assms(2) show ?thesis by (auto intro: fits_send_dmx)
  next
    case (sends_raw_dmx uni len d ret)
    with e(1) assms(2) show ?thesis by (auto intro: fits_raw_send_dmx)
  next
    case (sends_nzs uni sc len d ret)
    with e(1) assms(2) show ?thesis by (auto intro: fits_send_nzs)
  next
    case (sends_vlc uni len d ret)
    with e(1) assms(2) show ?thesis by (auto intro: fits_send_vlc)
  qed (simp_all add: same e ok node_ok_passed_on node_ok_send_to_entry node_ok_send_input_in
      listing_passed_on listing_to_node node_ok_look listing_look node_ok_start listing_start node_ok_identity listing_config
      node_ok_port_addr node_ok_net_addr node_ok_subnet_addr node_ok_bind_index listing_addresses
      node_ok_send_simple listing_sends node_ok_send_firmware node_ok_rdm_devices listing_devices)
  show ?thesis
    using assms(3)
    by (cases rule: node_step.cases) (simp_all add: lives fits_node_type assms(2))
qed

section \<open>Reachable states\<close>

definition new_node :: "env \<Rightarrow> node \<Rightarrow> bool" where
  "new_node e n \<longleftrightarrow> modest e \<and> (\<exists>ifaces ip. artnet_new e True ifaces ip = Some n)"

definition reachable :: "env \<Rightarrow> node \<Rightarrow> bool" where
  "reachable e n \<longleftrightarrow> (\<exists>m. new_node e m \<and> (node_step e)\<^sup>*\<^sup>* m n)"

lemma new_node_fits:
  assumes "artnet_new e allocated ifaces ip = Some n"
  shows "fits n"
proof -
  let ?z = "zero_node\<lparr>oem_hi := OEM_HI, oem_lo := OEM_LO, esta_hi := ESTA_HI,
    esta_lo := ESTA_LO, bcast_limit := 0, peer := None, master := True\<rparr>"
  obtain ret m where init: "artnet_net_init e ifaces ?z ip = (ret, m)" by fastforce
  have "bcast_limit m = 0 \<and> entries (nodes m) = []"
    using net_init_cases [OF init] by (auto simp: use_iface_def zero_node_def)
  with init assms have "list_fits n"
    by (auto simp: artnet_new_def Let_def for_upto_4 new_ports_def list_fits_def split: if_splits)
  with artnet_new_ok(1) [OF assms] show ?thesis by (simp add: fits_def)
qed

interpretation node_machine: machine "new_node e" "node_step e" "\<lambda>n. modest e \<and> fits n" for e
  by unfold_locales (auto simp: new_node_def new_node_fits intro: fits_step)

lemma reachable_fits: "reachable e n \<Longrightarrow> modest e \<and> fits n"
  using node_machine.inv_reached unfolding reachable_def by blast

lemma reachable_step: "reachable e n \<Longrightarrow> node_step e n n' \<Longrightarrow> reachable e n'"
  unfolding reachable_def by (meson rtranclp.rtrancl_into_rtrancl)

end
