(* ===== verification/Wire.thy ===== *)
theory Wire
  imports Packets
begin

text \<open>
  Reading a structure that was filled field by field: a field that was filled holds what it was
  filled with, and the others are as before, because the fields of a layout do not overlap.
\<close>

lemma offset_disjoint:
  assumes "distinct (map fst L)" "(f, j) \<in> set L" "(g, k) \<in> set L" "f \<noteq> g"
  shows "offset L f + j \<le> offset L g \<or> offset L g + k \<le> offset L f"
  using assms
proof (induction L)
  case (Cons x L)
  obtain h l where x: "x = (h, l)" by fastforce
  have in_L: "(f, j) \<in> set L \<Longrightarrow> h \<noteq> f" "(g, k) \<in> set L \<Longrightarrow> h \<noteq> g"
    using Cons.prems(1) x by (auto simp: rev_image_eqI)
  show ?case
  proof (cases "h = f \<or> h = g")
    case True
    with Cons.prems x in_L show ?thesis by auto
  next
    case False
    with Cons x show ?thesis by auto
  qed
qed simp

text \<open>The assignments of \<open>xs\<close> go to fields of \<open>L\<close> and stay inside them.\<close>

definition fits_layout :: "layout \<Rightarrow> (string \<times> u8 list) list \<Rightarrow> bool" where
  "fits_layout L xs \<longleftrightarrow>
     distinct (map fst L) \<and>
     list_all (\<lambda>(f, bs). case map_of L f of None \<Rightarrow> False | Some k \<Rightarrow> length bs \<le> k) xs"

lemma fits_layout_Cons:
  "fits_layout L ((f, bs) # xs) \<longleftrightarrow>
     (\<exists>k. map_of L f = Some k \<and> length bs \<le> k) \<and> fits_layout L xs"
  by (auto simp: fits_layout_def split: option.splits)

lemma put_other:
  assumes "fits_layout L [(g, bs)]" "map_of L f = Some k" "f \<noteq> g" "i < k"
  shows "put L g bs m (offset L f + i) = m (offset L f + i)"
proof -
  from assms(1) obtain j where j: "(g, j) \<in> set L" "length bs \<le> j"
    by (auto simp: fits_layout_Cons dest: map_of_SomeD)
  have "distinct (map fst L)" using assms(1) by (simp add: fits_layout_def)
  from offset_disjoint [OF this map_of_SomeD [OF assms(2)] j(1) assms(3)] j(2) assms(4)
  show ?thesis by (auto simp: put_def put_bytes_def)
qed

lemma fill_other:
  assumes "fits_layout L xs" "map_of L f = Some k" "f \<notin> set (map fst xs)" "i < k"
  shows "fill L xs m (offset L f + i) = m (offset L f + i)"
  using assms(1,3)
proof (induction xs arbitrary: m)
  case (Cons x xs)
  obtain g bs where x: "x = (g, bs)" by fastforce
  with Cons.prems have "fits_layout L [(g, bs)]" "fits_layout L xs" "f \<noteq> g"
    by (auto simp: fits_layout_Cons) (simp add: fits_layout_def)
  with Cons x put_other [OF _ assms(2) _ assms(4), of g bs] show ?case by simp
qed simp

lemma fill_field:
  assumes "fits_layout L xs" "distinct (map fst xs)" "map_of xs f = Some bs" "i < length bs"
  shows "fill L xs m (offset L f + i) = bs ! i"
  using assms
proof (induction xs arbitrary: m)
  case (Cons x xs)
  obtain g cs where x: "x = (g, cs)" by fastforce
  show ?case
  proof (cases "g = f")
    case True
    with Cons.prems x have "cs = bs" by simp
    moreover obtain k where "map_of L f = Some k" "length cs \<le> k"
      using Cons.prems(1) x True by (auto simp: fits_layout_Cons)
    moreover have "f \<notin> set (map fst xs)" using Cons.prems(2) x True by simp
    ultimately show ?thesis
      using fill_other [of L xs f k i] Cons.prems(1,4) x True
      by (simp add: fits_layout_Cons put_def put_bytes_def)
  next
    case False
    with Cons x show ?thesis by (simp add: fits_layout_Cons)
  qed
qed simp

lemma fill_bytes:
  assumes "fits_layout L xs" "distinct (map fst xs)" "map_of xs f = Some bs" "k = length bs"
  shows "get_bytes (fill L xs m) (offset L f) k = bs"
  using assms by (auto intro!: nth_equalityI simp: fill_field)

lemma fill_byte:
  assumes "fits_layout L xs" "distinct (map fst xs)" "map_of xs f = Some [b]"
  shows "fill L xs m (offset L f) = b"
  using fill_field [OF assms, of 0 m] by simp

lemma fill_bytes_other:
  assumes "fits_layout L xs" "f \<notin> set (map fst xs)" "map_of L f = Some k"
  shows "get_bytes (fill L xs m) (offset L f) k = get_bytes m (offset L f) k"
  using fill_other [OF assms(1,3,2)] by (auto intro!: nth_equalityI)

lemma fill_byte_other:
  assumes "fits_layout L xs" "f \<notin> set (map fst xs)" "map_of L f = Some k" "0 < k"
  shows "fill L xs m (offset L f) = m (offset L f)"
  using fill_other [OF assms(1,3,2,4), of m] by simp

end
