(* ===== verification/Reply_Wire.thy ===== *)
theory Reply_Wire
  imports Wire Observed
begin

text \<open>
  The ArtPollReply as bytes: what each field of a reply holds that was built from a node's state
  (\<open>artnet_tx_build_art_poll_reply\<close> and \<open>artnet_tx_poll_reply\<close>, \<open>artnet/transmit.c\<close>).
\<close>

section \<open>What a reply says\<close>

text \<open>The two groups of fields that make up a reply: the template, and what is renewed at each send.\<close>

definition template_fields :: "node \<Rightarrow> (string \<times> u8 list) list" where
  "template_fields n =
    [(''id'', ARTNET_STRING), (''opCode'', le16_bytes (opcode ARTNET_REPLY)),
     (''ip'', ip_bytes (ip_addr n)), (''port'', le16_bytes ARTNET_PORT), (''verH'', [0]),
     (''ver'', [ARTNET_VERSION]), (''netSwitch'', [netSwitch n]), (''subSwitch'', [subSwitch n]),
     (''oemH'', [oem_hi n]), (''oem'', [oem_lo n]), (''ubea'', [0]),
     (''estaMan'', [esta_lo n, esta_hi n]),
     (''shortName'', get_bytes (shortName n) 0 ARTNET_SHORT_NAME_LENGTH),
     (''longName'', get_bytes (longName n) 0 ARTNET_LONG_NAME_LENGTH), (''numbportsH'', [0]),
     (''numbports'', [of_nat (used_ports n)]), (''portTypes'', map (port_types n) [0..<4]),
     (''goodInput'', map (\<lambda>i. port_status (in_ports n i)) [0..<4]),
     (''goodOutputA'', map (\<lambda>i. port_status (out_ports n i) OR proto_sel (out_ports n i)) [0..<4]),
     (''swIn'', map (\<lambda>i. addr_port (port_addr (in_ports n i))) [0..<4]),
     (''swOut'', map (\<lambda>i. addr_port (port_addr (out_ports n i))) [0..<4]),
     (''acnPriority'', [acn_priority n]), (''style'', [style_code n]),
     (''mac'', get_bytes (hw_addr n) 0 ARTNET_MAC_SIZE), (''bindIndex'', [bind_index_of n]),
     (''bindIp'', ip_bytes (ip_addr n)),
     (''status'', [push_bit 6 (led_state n) OR (if network_programmed n then 0x20 else 0x10) OR 0x02]),
     (''status3'', [failsafe_mode n OR status3 n]), (''status2'', [status2 n]),
     (''goodOutputB'', map (\<lambda>i. good_output_b n (out_ports n i)) [0..<4]),
     (''defaultRespUid'', get_bytes (default_resp_uid n) 0 ARTNET_RDM_UID_WIDTH),
     (''refreshRateHi'', [short_get_high_byte (refresh_rate n)]),
     (''refreshRateLo'', [short_get_low_byte (refresh_rate n)]), (''bgQueuePolicy'', [bqp_policy n])]"

lemma template_eq: "poll_reply_template n = fill artnet_reply_s (template_fields n) zero_mem"
  unfolding poll_reply_template_def template_fields_def by (rule refl)

definition fresh_fields :: "node \<Rightarrow> int \<Rightarrow> (string \<times> u8 list) list" where
  "fresh_fields n k =
    [(''goodInput'', map (\<lambda>i. port_status (in_ports n i)) [0..<4]),
     (''goodOutputA'', map (\<lambda>i. port_status (out_ports n i) OR proto_sel (out_ports n i)) [0..<4]),
     (''nodeReport'', node_report (report_code n) k)]"

lemma length_le16_bytes [simp]: "length (le16_bytes a) = 2"
  by (simp add: le16_bytes_def)

lemma length_node_report: "length (node_report c k) \<le> 64"
  by (simp add: node_report_def)

lemma distinct_reply_fields: "distinct (map fst artnet_reply_s)"
  by (simp add: artnet_reply_s_def)

lemma template_fits: "fits_layout artnet_reply_s (template_fields n)"
  using distinct_reply_fields
  by (simp add: fits_layout_def template_fields_def) (simp add: artnet_reply_s_def ARTNET_STRING_def)

lemma fresh_fits: "fits_layout artnet_reply_s (fresh_fields n k)"
  using distinct_reply_fields length_node_report
  by (simp add: fits_layout_def fresh_fields_def) (simp add: artnet_reply_s_def)


lemma template_distinct: "distinct (map fst (template_fields n))"
  by (simp add: template_fields_def)

definition reply_data :: "node \<Rightarrow> int \<Rightarrow> mem" where
  "reply_data n k =
     fill artnet_reply_s (fresh_fields n k)
       (memcpy zero_mem 0 (poll_reply_template n) 0 (sizeof artnet_reply_s))"

lemma reply_bytes:
  assumes "map_of (template_fields n) f = Some bs" "map_of artnet_reply_s f = Some (length bs)"
    and "f \<notin> {''goodInput'', ''goodOutputA'', ''nodeReport''}"
  shows "get_bytes (reply_data n k) (offset artnet_reply_s f) (length bs) = bs"
proof -
  let ?t = "poll_reply_template n"
  have "offset artnet_reply_s f + length bs \<le> sizeof artnet_reply_s"
    using map_of_SomeD [OF assms(2)] distinct_reply_fields by (rule offset_field)
  then have "get_bytes (memcpy zero_mem 0 ?t 0 (sizeof artnet_reply_s)) (offset artnet_reply_s f) (length bs) =
      get_bytes ?t (offset artnet_reply_s f) (length bs)"
    by (intro get_bytes_eqI) (simp add: memcpy_def)
  moreover have "f \<notin> set (map fst (fresh_fields n k))"
    using assms(3) by (simp add: fresh_fields_def)
  ultimately show ?thesis
    using fill_bytes_other [OF fresh_fits _ assms(2)] fill_bytes [OF template_fits template_distinct assms(1)]
    by (simp add: reply_data_def template_eq)
qed

lemma reply_byte:
  assumes "map_of (template_fields n) f = Some [b]" "map_of artnet_reply_s f = Some 1"
    and "f \<notin> {''goodInput'', ''goodOutputA'', ''nodeReport''}"
  shows "reply_data n k (offset artnet_reply_s f) = b"
  using reply_bytes [of n f "[b]" k] assms by (simp add: get_bytes_def)

lemma reply_sent:
  assumes "observer e" "mode n = ARTNET_ON" "reply_addr n \<noteq> 0" "ar_temp n = poll_reply_template n"
  shows "sent (snd (artnet_tx_poll_reply e n)) = sent n @
    [\<lparr>p_length = 239, p_from = ip_addr n, p_to = reply_addr n, p_type = opcode ARTNET_REPLY,
      p_data = reply_data n ((ar_count n + 1) mod 10000)\<rparr>]"
  using assms
  by (simp add: artnet_tx_poll_reply_def Let_def send_new_def net_send_sent new_packet_def
      reply_data_def fresh_fields_def layout del: opcode.simps)

end
