(* ===== verification/Timeout_Properties.thy ===== *)
theory Timeout_Properties
  imports Reachable Safety_Properties
begin

text \<open>
  What the passing of time does (\<open>check_timeouts\<close>): the stages of one check, and for each timer
  what it changes when it is due and that nothing happens when it is not.
\<close>

section \<open>The stages of a check\<close>

definition after_outputs :: "env \<Rightarrow> node \<Rightarrow> node" where
  "after_outputs e n =
     (let now = env_time e (clk n)
      in check_sync_timeout e now
           (for_upto ARTNET_MAX_PORTS (failsafe_port now) (n\<lparr>clk := Suc (clk n)\<rparr>)))"

lemma after_outputs_fits:
  assumes "observer e" "fits n"
  shows "fits (after_outputs e n)" "nodes (after_outputs e n) = nodes n"
proof -
  let ?now = "env_time e (clk n)"
  let ?n1 = "n\<lparr>clk := Suc (clk n)\<rparr>"
  let ?n2 = "for_upto 4 (failsafe_port ?now) ?n1"
  have ok: "node_ok ?n1" using assms(2) by (simp add: fits_def)
  then have "node_ok ?n2" by (rule node_ok_for_upto) (rule node_ok_failsafe)
  then have "node_ok (after_outputs e n)"
    using observer_cb_ok [OF assms(1)] by (simp add: after_outputs_def node_ok_sync_timeout Let_def)
  moreover have frame: "nodes ?n2 = nodes ?n1" "bcast_limit ?n2 = bcast_limit ?n1"
    by (rule for_upto_frame; simp add: failsafe_port_def)+
  ultimately show "fits (after_outputs e n)" "nodes (after_outputs e n) = nodes n"
    using assms list_fits_cong [of "after_outputs e n" n]
    by (simp_all add: fits_def after_outputs_def Let_def)
qed

lemma check_timeouts_stages:
  assumes "observer e" "fits n"
  obtains m where
    "for_upto 4 (keepalive_port e (env_time e (clk n))) (Some (after_outputs e n)) = Some m"
    "fits m" "nodes m = nodes n"
    "check_timeouts e n = Some (check_pending_reply e (env_time e (clk n))
       (check_firmware_timeout (env_time e (clk n)) (nl_cleanup (env_time e (clk n)) m)))"
proof -
  from keepalive_loop_fits [OF observer_only_sends [OF assms(1)] after_outputs_fits(1) [OF assms]]
  obtain m where m: "for_upto 4 (keepalive_port e (env_time e (clk n))) (Some (after_outputs e n)) = Some m"
    "fits m" "nodes m = nodes (after_outputs e n)" by blast
  then show ?thesis
    using that [of m] after_outputs_fits(2) [OF assms]
    by (simp add: check_timeouts_def artnet_gettime_ms_def after_outputs_def Let_def)
qed

section \<open>What repeated input leaves alone\<close>

text \<open>The parts of a node that no sending of levels touches.\<close>

definition beyond_sending ::
    "node \<Rightarrow> (nat \<Rightarrow> output_port) \<times> bool \<times> u64 \<times> firmware_transfer \<times> bool \<times> u64 \<times> ip \<times> node_status" where
  "beyond_sending n = (out_ports n, sync_mode n, last_sync_time n, node_fw n, apr_pending n,
     apr_pending_time n, reply_addr n, mode n)"

lemma beyond_frame [simp]:
  "beyond_sending (upd_in i f n) = beyond_sending n"
  "beyond_sending (n\<lparr>clk := c\<rparr>) = beyond_sending n"
  "beyond_sending (inside b n) = beyond_sending n"
  "beyond_sending (snd (c_malloc e n)) = beyond_sending n"
  by (simp_all add: beyond_sending_def upd_in_def inside_def c_malloc_def)

lemma beyond_unicast:
  assumes "observer e"
  shows "beyond_sending (unicast_all e p tos n) = beyond_sending n"
    and "beyond_sending (unicast_limited e p k tos n) = beyond_sending n"
proof -
  have "beyond_sending (snd (artnet_net_send e n p)) = beyond_sending n" for n p
    using assms by (simp add: beyond_sending_def)
  then show "beyond_sending (unicast_all e p tos n) = beyond_sending n"
    "beyond_sending (unicast_limited e p k tos n) = beyond_sending n"
    by (induction tos arbitrary: n k) simp_all
qed

lemma beyond_unicast_dmx:
  "observer e \<Longrightarrow> unicast_dmx e m u p = Some (b, m') \<Longrightarrow> beyond_sending m' = beyond_sending m"
  by (auto simp: unicast_dmx_def Let_def case_prod_beta beyond_unicast
      split: if_splits option.splits)

lemma beyond_send_dmx:
  assumes "observer e" "artnet_send_dmx e n i len d = Some (ret, n')"
  shows "beyond_sending n' = beyond_sending n"
  using assms
  by (auto simp: artnet_send_dmx_def Let_def case_prod_beta artnet_gettime_ms_def
      split: if_splits option.splits bool.splits dest!: beyond_unicast_dmx)

lemma keepalive_None [simp]: "keepalive_port e now k None = None"
  by (simp add: keepalive_port_def)

lemma beyond_keepalive:
  assumes "observer e" "for_upto k (keepalive_port e now) (Some n) = Some m"
  shows "beyond_sending m = beyond_sending n"
  using assms(2)
proof (induction k arbitrary: m)
  case (Suc k)
  then obtain x where x: "for_upto k (keepalive_port e now) (Some n) = Some x"
    by (cases "for_upto k (keepalive_port e now) (Some n)") (auto simp: for_upto_Suc)
  with Suc have "keepalive_port e now k (Some x) = Some m" by (simp add: for_upto_Suc)
  then have "beyond_sending m = beyond_sending x"
    using beyond_send_dmx [OF assms(1)]
    by (auto simp: keepalive_port_def Let_def split: if_splits)
  with Suc.IH x show ?case by simp
qed simp

section \<open>Fail-safe and synchronous mode\<close>

lemma failsafe_stage:
  assumes "i < 4"
  shows "out_ports (for_upto 4 (failsafe_port now) n) i =
      (if failsafe_due now (out_ports n i)
       then (failsafe_output (failsafe_mode n) (out_ports n i))\<lparr>failsafe_triggered := True\<rparr>
       else out_ports n i)"
    and "sync_mode (for_upto 4 (failsafe_port now) n) = sync_mode n"
    and "last_sync_time (for_upto 4 (failsafe_port now) n) = last_sync_time n"
proof -
  let ?f = "\<lambda>n. (out_ports n i, failsafe_mode n)"
  have "\<exists>m. ?f m = ?f n \<and> ?f (for_upto 4 (failsafe_port now) n) = ?f (failsafe_port now i m)"
    using assms by (intro for_upto_at) (simp_all add: failsafe_port_def)
  then show "out_ports (for_upto 4 (failsafe_port now) n) i =
      (if failsafe_due now (out_ports n i)
       then (failsafe_output (failsafe_mode n) (out_ports n i))\<lparr>failsafe_triggered := True\<rparr>
       else out_ports n i)"
    by (auto simp: failsafe_port_def)
  show "sync_mode (for_upto 4 (failsafe_port now) n) = sync_mode n"
    "last_sync_time (for_upto 4 (failsafe_port now) n) = last_sync_time n"
    by (rule for_upto_frame; simp add: failsafe_port_def)+
qed

lemma sync_stage:
  assumes "observer e" "i < 4"
  shows "out_ports (check_sync_timeout e now n) i =
      (if sync_mode n \<and> artnet_is_timeout now (last_sync_time n) ARTSYNC_TIMEOUT_MS \<and>
          sync_pending (out_ports n i)
       then sync_release (out_ports n i) else out_ports n i)"
    and "sync_mode (check_sync_timeout e now n) \<longleftrightarrow>
      sync_mode n \<and> \<not> artnet_is_timeout now (last_sync_time n) ARTSYNC_TIMEOUT_MS"
proof -
  have "\<exists>m. out_ports m i = out_ports n i \<and>
      out_ports (for_upto 4 (sync_timeout_port e) n) i = out_ports (sync_timeout_port e i m) i"
    using assms by (intro for_upto_at) (simp_all add: sync_timeout_port_def)
  then show "out_ports (check_sync_timeout e now n) i =
      (if sync_mode n \<and> artnet_is_timeout now (last_sync_time n) ARTSYNC_TIMEOUT_MS \<and>
          sync_pending (out_ports n i)
       then sync_release (out_ports n i) else out_ports n i)"
    using assms(1) by (auto simp: check_sync_timeout_def sync_timeout_port_def)
  show "sync_mode (check_sync_timeout e now n) \<longleftrightarrow>
      sync_mode n \<and> \<not> artnet_is_timeout now (last_sync_time n) ARTSYNC_TIMEOUT_MS"
    by (auto simp: check_sync_timeout_def)
qed

text \<open>The outputs after a whole check are those after its first two stages.\<close>

lemma late_stages_outputs:
  assumes "observer e"
  shows "out_ports (check_pending_reply e now n) = out_ports n"
    "sync_mode (check_pending_reply e now n) = sync_mode n"
    "node_fw (check_pending_reply e now n) = node_fw n"
    "out_ports (check_firmware_timeout now n) = out_ports n"
    "sync_mode (check_firmware_timeout now n) = sync_mode n"
    "apr_pending (check_firmware_timeout now n) = apr_pending n"
    "apr_pending_time (check_firmware_timeout now n) = apr_pending_time n"
  using assms
  by (simp_all add: check_pending_reply_def check_firmware_timeout_def reset_firmware_upload_def)

lemma beyond_cleanup [simp]: "beyond_sending (nl_cleanup now n) = beyond_sending n"
  by (simp add: beyond_sending_def nl_cleanup_def NL_WRITE_BEGIN_def NL_WRITE_END_def Let_def
      case_prod_beta)

lemma beyond_outputs:
  assumes "observer e"
  shows "node_fw (after_outputs e n) = node_fw n" "apr_pending (after_outputs e n) = apr_pending n"
    "apr_pending_time (after_outputs e n) = apr_pending_time n"
    "reply_addr (after_outputs e n) = reply_addr n" "mode (after_outputs e n) = mode n"
proof -
  let ?f = "\<lambda>n. (node_fw n, apr_pending n, apr_pending_time n, reply_addr n, mode n)"
  let ?n1 = "n\<lparr>clk := Suc (clk n)\<rparr>"
  have "?f (for_upto 4 (failsafe_port now) ?n1) = ?f ?n1" for now
    by (rule for_upto_frame) (simp add: failsafe_port_def)
  moreover have "?f (check_sync_timeout e now m) = ?f m" for now m
  proof -
    have "?f (for_upto 4 (sync_timeout_port e) m) = ?f m"
      by (rule for_upto_frame) (simp add: sync_timeout_port_def assms)
    then show ?thesis by (simp add: check_sync_timeout_def)
  qed
  ultimately have "?f (after_outputs e n) = ?f n" by (simp add: after_outputs_def Let_def)
  then show "node_fw (after_outputs e n) = node_fw n" "apr_pending (after_outputs e n) = apr_pending n"
    "apr_pending_time (after_outputs e n) = apr_pending_time n"
    "reply_addr (after_outputs e n) = reply_addr n" "mode (after_outputs e n) = mode n"
    by simp_all
qed

text \<open>
  A whole check as its stages: the outputs are those after the first two, and the last two start
  from a node whose upload and pending reply are still the first one's.
\<close>

lemma check_timeouts_outputs:
  assumes "observer e" "fits n"
  obtains m where "check_timeouts e n = Some (check_pending_reply e (env_time e (clk n))
      (check_firmware_timeout (env_time e (clk n)) m))"
    "out_ports m = out_ports (after_outputs e n)" "sync_mode m = sync_mode (after_outputs e n)"
    "node_fw m = node_fw n" "apr_pending m = apr_pending n"
    "apr_pending_time m = apr_pending_time n" "reply_addr m = reply_addr n" "mode m = mode n"
proof -
  let ?now = "env_time e (clk n)"
  from check_timeouts_stages [OF assms] obtain m where
    m: "for_upto 4 (keepalive_port e ?now) (Some (after_outputs e n)) = Some m"
      "check_timeouts e n = Some (check_pending_reply e ?now
         (check_firmware_timeout ?now (nl_cleanup ?now m)))" .
  have "beyond_sending (nl_cleanup ?now m) = beyond_sending (after_outputs e n)"
    using beyond_keepalive [OF assms(1) m(1)] by simp
  with that [OF m(2)] beyond_outputs [OF assms(1)] show ?thesis by (simp add: beyond_sending_def)
qed

text \<open>A node with one of each: an output that last heard of its source at 100 ms, an upload.\<close>

definition late_env :: env where
  "late_env = quiet_env\<lparr>env_time := (\<lambda>_. 50000)\<rparr>"

definition late_node :: node where
  "late_node = demo_node\<lparr>peer := None, failsafe_mode := ARTNET_FAILSAFE_FULL,
     out_ports := (\<lambda>_. zero_out_port\<lparr>sync_pending := True\<rparr>)
       (0 := demo_out_port\<lparr>last_dmx_time := 100\<rparr>),
     node_fw := no_firmware\<lparr>bytes_total := 10, fw_peer := 0x0100000A, last_time := 700,
       fw_data := Some (10, zero_mem)\<rparr>\<rparr>"

lemma late_fits [simp]:
  "observer late_env" "fits late_node" "fits (late_node\<lparr>sync_mode := s\<rparr>)"
  "fits (late_node\<lparr>apr_pending := a, apr_pending_time := t\<rparr>)" "env_time late_env k = 50000"
proof -
  have "addr_ok 0 0 0" by (simp add: addr_ok_def make_addr_def addr_port_def)
  then have "node_ok late_node"
    by (simp add: late_node_def demo_node_def zero_node_def node_ok_parts demo_out_port_def wf_nl_def
        fw_ok_def no_firmware_def zero_in_port_def in_ok_def in_512_def tod_ok_def zero_tod_def
        wf_tod_def tod_uids_def) (simp add: zero_out_port_def)
  then show "fits late_node" "fits (late_node\<lparr>sync_mode := s\<rparr>)"
    "fits (late_node\<lparr>apr_pending := a, apr_pending_time := t\<rparr>)"
    by (simp_all add: fits_def list_fits_def) (simp_all add: late_node_def demo_node_def zero_node_def)
qed (use observer_quiet in \<open>simp_all add: late_env_def observer_def\<close>)

lemma late_fields [simp]:
  "out_ports late_node 0 = demo_out_port\<lparr>last_dmx_time := 100\<rparr>"
  "out_ports late_node (Suc 0) = zero_out_port\<lparr>sync_pending := True\<rparr>" "\<not> sync_mode late_node"
  "last_sync_time late_node = 0"
  "failsafe_mode late_node = ARTNET_FAILSAFE_FULL" "\<not> apr_pending late_node"
  "reply_addr late_node = 0x0100000A" "mode late_node = ARTNET_ON"
  "fw_peer (node_fw late_node) = 0x0100000A" "last_time (node_fw late_node) = 700"
  by (simp_all add: late_node_def demo_node_def zero_node_def)

text \<open>C19: An enabled output that has had no ArtDmx for 800 ms gets, once, what the fail-safe mode
  says: zeros, full levels, the recorded scene if there is one, or the last levels; any other
  output is left alone.\<close>

theorem failsafe_levels:
  assumes "observer e" "fits n" "i < 4" "\<not> sync_mode n"
  defines "port \<equiv> out_ports n i"
  shows "\<exists>n'. check_timeouts e n = Some n' \<and>
    (if port_enabled port \<and> last_dmx_time port \<noteq> 0 \<and> \<not> failsafe_triggered port \<and>
        DMX_FAILSAFE_TIMEOUT_MS \<le> sint (env_time e (clk n) - last_dmx_time port)
     then failsafe_triggered (out_ports n' i) \<and>
       (\<forall>j < 512. out_data (out_ports n' i) j =
         (if failsafe_mode n = ARTNET_FAILSAFE_ZERO then 0
          else if failsafe_mode n = ARTNET_FAILSAFE_FULL then 0xFF
          else if failsafe_mode n = ARTNET_FAILSAFE_SCENE \<and> 0 < failsafe_length port
            then failsafe_data port j
          else out_data port j))
     else out_ports n' i = port)"
proof -
  let ?now = "env_time e (clk n)"
  from check_timeouts_outputs [OF assms(1,2)] obtain n' where
    n': "check_timeouts e n = Some (check_pending_reply e ?now (check_firmware_timeout ?now n'))"
      "out_ports n' = out_ports (after_outputs e n)" .
  have "out_ports (after_outputs e n) i =
      (if failsafe_due ?now port then (failsafe_output (failsafe_mode n) port)\<lparr>failsafe_triggered := True\<rparr>
       else port)"
    using assms(1,3,4) failsafe_stage [OF assms(3), of ?now "n\<lparr>clk := Suc (clk n)\<rparr>"]
    by (simp add: after_outputs_def Let_def sync_stage port_def)
  with n' show ?thesis
    using assms(1)
    by (auto simp: late_stages_outputs failsafe_due_def artnet_is_timeout_def failsafe_output_def memset_def memcpy_def)
qed

theorem failsafe_levels_witness:
  "\<exists>n'. check_timeouts late_env late_node = Some n' \<and> (\<forall>j < 512. out_data (out_ports n' 0) j = 0xFF)"
  using failsafe_levels [OF late_fits(1,2), of 0] by (auto simp: demo_out_port_def zero_out_port_def)

text \<open>C20: In sync mode, once 4 s have passed without ArtSync, the node leaves the mode and puts
  every staged frame on its output; before that nothing changes.\<close>

theorem sync_mode_ends:
  assumes "observer e" "fits n" "i < 4" "sync_mode n" "\<not> failsafe_due (env_time e (clk n)) (out_ports n i)"
  shows "\<exists>n'. check_timeouts e n = Some n' \<and>
    (if ARTSYNC_TIMEOUT_MS \<le> sint (env_time e (clk n) - last_sync_time n)
     then \<not> sync_mode n' \<and> \<not> sync_pending (out_ports n' i) \<and>
       (if sync_pending (out_ports n i)
        then out_length (out_ports n' i) = sync_length (out_ports n i) \<and>
          (\<forall>j < nat (sync_length (out_ports n i)).
             out_data (out_ports n' i) j = sync_data (out_ports n i) j)
        else out_ports n' i = out_ports n i)
     else sync_mode n' \<and> out_ports n' i = out_ports n i)"
proof -
  let ?now = "env_time e (clk n)"
  let ?m = "for_upto 4 (failsafe_port ?now) (n\<lparr>clk := Suc (clk n)\<rparr>)"
  from check_timeouts_outputs [OF assms(1,2)] obtain n' where
    n': "check_timeouts e n = Some (check_pending_reply e ?now (check_firmware_timeout ?now n'))"
      "out_ports n' = out_ports (after_outputs e n)" "sync_mode n' = sync_mode (after_outputs e n)" .
  have "out_ports ?m i = out_ports n i" "sync_mode ?m" "last_sync_time ?m = last_sync_time n"
    using failsafe_stage [OF assms(3), of ?now "n\<lparr>clk := Suc (clk n)\<rparr>"] assms(4,5) by simp_all
  with n' show ?thesis
    using assms(1,3)
    by (auto simp: late_stages_outputs after_outputs_def Let_def sync_stage artnet_is_timeout_def sync_release_def
        memcpy_def)
qed

theorem sync_mode_ends_witness:
  "\<exists>n'. check_timeouts late_env (late_node\<lparr>sync_mode := True\<rparr>) = Some n' \<and> \<not> sync_mode n' \<and>
     \<not> sync_pending (out_ports n' 1)"
  using sync_mode_ends [OF late_fits(1) late_fits(3), of 1 True]
  by (auto simp: failsafe_due_def zero_out_port_def)

section \<open>Uploads and deferred replies\<close>

text \<open>An upload whose controller has been silent for 30 s is given up: its buffer, its
  counters and its controller are forgotten, and the node reports the failure; any other upload
  stays as it is.\<close>

theorem silent_upload_is_dropped:
  assumes "observer e" "fits n" "\<not> apr_pending n"
  shows "\<exists>n'. check_timeouts e n = Some n' \<and>
    (if fw_peer (node_fw n) \<noteq> 0 \<and>
        FIRMWARE_TIMEOUT_MS \<le> sint (env_time e (clk n) - last_time (node_fw n))
     then fw_peer (node_fw n') = 0 \<and> fw_data (node_fw n') = None \<and>
       bytes_current (node_fw n') = 0 \<and> bytes_total (node_fw n') = 0 \<and>
       report_code n' = ARTNET_RC_FIRMWARE_FAIL
     else node_fw n' = node_fw n)"
proof -
  from check_timeouts_outputs [OF assms(1,2)] obtain m where
    m: "check_timeouts e n = Some (check_pending_reply e (env_time e (clk n))
       (check_firmware_timeout (env_time e (clk n)) m))" "node_fw m = node_fw n"
      "apr_pending m = apr_pending n" by metis
  then show ?thesis
    using assms(3)
    by (simp add: check_pending_reply_def check_firmware_timeout_def reset_firmware_upload_def
        artnet_is_timeout_def)
qed

theorem silent_upload_is_dropped_witness:
  "\<exists>n'. check_timeouts late_env late_node = Some n' \<and> fw_data (node_fw n') = None \<and>
     report_code n' = ARTNET_RC_FIRMWARE_FAIL"
  using silent_upload_is_dropped [OF late_fits(1,2)] by auto

text \<open>A reply that was deferred is sent, once, to the poller as soon as its time has come; until
  then it stays pending.\<close>

lemma pending_reply_sent:
  assumes "observer e" "fits n" "mode n = ARTNET_ON" "reply_addr n \<noteq> 0" "apr_pending n"
  shows "\<exists>n'. check_timeouts e n = Some n' \<and>
    (if apr_pending_time n \<le> env_time e (clk n)
     then \<not> apr_pending n' \<and> sent n' \<noteq> [] \<and> p_to (last (sent n')) = reply_addr n \<and>
       p_type (last (sent n')) = opcode ARTNET_REPLY
     else apr_pending n' \<and> apr_pending_time n' = apr_pending_time n)"
proof -
  let ?now = "env_time e (clk n)"
  from check_timeouts_outputs [OF assms(1,2)] obtain m where
    m: "check_timeouts e n = Some (check_pending_reply e ?now (check_firmware_timeout ?now m))"
      "apr_pending m = apr_pending n" "apr_pending_time m = apr_pending_time n"
      "reply_addr m = reply_addr n" "mode m = mode n" by metis
  let ?m = "check_firmware_timeout ?now m"
  have same: "apr_pending ?m = apr_pending n" "apr_pending_time ?m = apr_pending_time n"
    "reply_addr ?m = reply_addr n" "mode ?m = mode n"
    using m by (auto simp: check_firmware_timeout_def reset_firmware_upload_def)
  then show ?thesis
    using m(1) assms
    by (auto simp: check_pending_reply_def artnet_tx_poll_reply_def Let_def send_new_def
        net_send_sent new_packet_def simp del: opcode.simps)
qed

end
