(* ===== verification/List_Properties.thy ===== *)
theory List_Properties
  imports Reply_Wire Timeout_Properties Dmx_Properties
begin

text \<open>
  The list of remote nodes as a controller uses it: what a reply puts into it, what time takes out
  of it, in which order it is visited, and that a node's reply makes the controller find it.
\<close>

section \<open>A node's reply as it is received\<close>

definition reply_of :: "node \<Rightarrow> int \<Rightarrow> packet" where
  "reply_of n k =
     \<lparr>p_length = int (sizeof artnet_reply_s), p_from = ip_addr n, p_to = reply_addr n,
      p_type = opcode ARTNET_REPLY, p_data = reply_data n k\<rparr>"

lemma reply_of_from [simp]: "p_from (reply_of n k) = ip_addr n" "p_to (reply_of n k) = reply_addr n"
  by (simp_all add: reply_of_def)

lemma reply_of_bytes:
  assumes "map_of (template_fields n) f = Some bs" "map_of artnet_reply_s f = Some (length bs)"
    and "f \<notin> {''goodInput'', ''goodOutputA'', ''nodeReport''}"
  shows "get_n artnet_reply_s f (length bs) (reply_of n k) = bs"
  using reply_bytes [OF assms] by (simp add: reply_of_def get_n_def)

lemma reply_of_byte:
  assumes "map_of (template_fields n) f = Some [b]" "map_of artnet_reply_s f = Some 1"
    and "f \<notin> {''goodInput'', ''goodOutputA'', ''nodeReport''}"
  shows "get8 artnet_reply_s f (reply_of n k) = b"
  using reply_byte [OF assms] by (simp add: reply_of_def get8_def)

lemma used_ports_le: "used_ports n \<le> 4"
  by (simp add: used_ports_def)


lemma used_ports_enabled:
  assumes "i < 4" "port_enabled (out_ports n i) \<or> port_enabled (in_ports n i)"
  shows "i < used_ports n"
proof -
  have "i = 0 \<or> i = 1 \<or> i = 2 \<or> i = 3" using assms(1) by auto
  with assms(2) show ?thesis by (auto simp: used_ports_def Let_def)
qed


text \<open>The fields of a reply, by membership in the two lists: no comparison of all names is needed.\<close>

lemma reply_of_field:
  assumes "(f, bs) \<in> set (template_fields n)" "(f, length bs) \<in> set artnet_reply_s"
    and "f \<notin> {''goodInput'', ''goodOutputA'', ''nodeReport''}"
  shows "get_n artnet_reply_s f (length bs) (reply_of n k) = bs"
  using assms reply_of_bytes map_of_is_SomeI [OF template_distinct]
    map_of_is_SomeI [OF distinct_reply_fields] by blast

lemma reply_of_field1:
  assumes "(f, [b]) \<in> set (template_fields n)" "(f, 1) \<in> set artnet_reply_s"
    and "f \<notin> {''goodInput'', ''goodOutputA'', ''nodeReport''}"
  shows "get8 artnet_reply_s f (reply_of n k) = b"
  using reply_of_field [of f "[b]" n k] assms by (simp add: get_n_def get8_def get_bytes_def)

lemma reply_fields:
  "(''ip'', ip_bytes (ip_addr n)) \<in> set (template_fields n)"
  "(''netSwitch'', [netSwitch n]) \<in> set (template_fields n)"
  "(''subSwitch'', [subSwitch n]) \<in> set (template_fields n)"
  "(''shortName'', get_bytes (shortName n) 0 ARTNET_SHORT_NAME_LENGTH) \<in> set (template_fields n)"
  "(''longName'', get_bytes (longName n) 0 ARTNET_LONG_NAME_LENGTH) \<in> set (template_fields n)"
  "(''numbportsH'', [0]) \<in> set (template_fields n)"
  "(''numbports'', [of_nat (used_ports n)]) \<in> set (template_fields n)"
  "(''portTypes'', map (port_types n) [0..<4]) \<in> set (template_fields n)"
  "(''swIn'', map (\<lambda>i. addr_port (port_addr (in_ports n i))) [0..<4]) \<in> set (template_fields n)"
  "(''swOut'', map (\<lambda>i. addr_port (port_addr (out_ports n i))) [0..<4]) \<in> set (template_fields n)"
  "(''bindIndex'', [bind_index_of n]) \<in> set (template_fields n)"
  unfolding template_fields_def by (intro list.set_intros)+

lemma reply_struct:
  "(''ip'', 4) \<in> set artnet_reply_s" "(''netSwitch'', 1) \<in> set artnet_reply_s"
  "(''subSwitch'', 1) \<in> set artnet_reply_s" "(''shortName'', ARTNET_SHORT_NAME_LENGTH) \<in> set artnet_reply_s"
  "(''longName'', ARTNET_LONG_NAME_LENGTH) \<in> set artnet_reply_s" "(''numbportsH'', 1) \<in> set artnet_reply_s"
  "(''numbports'', 1) \<in> set artnet_reply_s" "(''portTypes'', ARTNET_MAX_PORTS) \<in> set artnet_reply_s"
  "(''swIn'', ARTNET_MAX_PORTS) \<in> set artnet_reply_s" "(''swOut'', ARTNET_MAX_PORTS) \<in> set artnet_reply_s"
  "(''bindIndex'', 1) \<in> set artnet_reply_s"
  unfolding artnet_reply_s_def by (intro list.set_intros)+

lemma entry_of_reply:
  defines "t \<equiv> \<lambda>n k. copy_apr_to_node_entry (reply_of n k)"
  shows "e_ip (t n k) = ip_bytes (ip_addr n)"
    and "e_netSwitch (t n k) = netSwitch n" and "e_subSwitch (t n k) = subSwitch n"
    and "e_shortName (t n k) = get_bytes (shortName n) 0 ARTNET_SHORT_NAME_LENGTH"
    and "e_longName (t n k) = get_bytes (longName n) 0 ARTNET_LONG_NAME_LENGTH"
    and "e_portTypes (t n k) = map (port_types n) [0..<4]"
    and "e_swIn (t n k) = map (\<lambda>i. addr_port (port_addr (in_ports n i))) [0..<4]"
    and "e_swOut (t n k) = map (\<lambda>i. addr_port (port_addr (out_ports n i))) [0..<4]"
    and "e_bindIndex (t n k) = bind_index_of n"
    and "e_numbports (t n k) = int (used_ports n)"
proof -
  show "e_ip (t n k) = ip_bytes (ip_addr n)"
    using reply_of_field [OF reply_fields(1)] reply_struct(1)
    by (simp add: t_def copy_apr_to_node_entry_def)
  show "e_netSwitch (t n k) = netSwitch n" "e_subSwitch (t n k) = subSwitch n"
    "e_bindIndex (t n k) = bind_index_of n"
    using reply_of_field1 [OF reply_fields(2) reply_struct(2)]
      reply_of_field1 [OF reply_fields(3) reply_struct(3)]
      reply_of_field1 [OF reply_fields(11) reply_struct(11)]
    by (simp_all add: t_def copy_apr_to_node_entry_def)
  show "e_shortName (t n k) = get_bytes (shortName n) 0 ARTNET_SHORT_NAME_LENGTH"
    "e_longName (t n k) = get_bytes (longName n) 0 ARTNET_LONG_NAME_LENGTH"
    using reply_of_field [OF reply_fields(4)] reply_struct(4)
      reply_of_field [OF reply_fields(5)] reply_struct(5)
    by (simp_all add: t_def copy_apr_to_node_entry_def)
  show "e_portTypes (t n k) = map (port_types n) [0..<4]"
    "e_swIn (t n k) = map (\<lambda>i. addr_port (port_addr (in_ports n i))) [0..<4]"
    "e_swOut (t n k) = map (\<lambda>i. addr_port (port_addr (out_ports n i))) [0..<4]"
    using reply_of_field [OF reply_fields(8)] reply_struct(8)
      reply_of_field [OF reply_fields(9)] reply_struct(9)
      reply_of_field [OF reply_fields(10)] reply_struct(10)
    by (simp_all add: t_def copy_apr_to_node_entry_def)
  have ports: "get8 artnet_reply_s ''numbportsH'' (reply_of n k) = 0"
    "get8 artnet_reply_s ''numbports'' (reply_of n k) = of_nat (used_ports n)"
    using reply_of_field1 [OF reply_fields(6) reply_struct(6)]
      reply_of_field1 [OF reply_fields(7) reply_struct(7)] by simp_all
  have "used_ports n \<in> {0, 1, 2, 3, 4}" by (simp add: used_ports_def Let_def)
  with ports show "e_numbports (t n k) = int (used_ports n)"
    by (auto simp: t_def copy_apr_to_node_entry_def bytes_to_short_eq to_int16_def)
qed

section \<open>Recording replies\<close>

lemma handle_reply_nodes [simp]:
  "observer e \<Longrightarrow> nodes (handle_reply e c p) = nodes (snd (artnet_nl_update e c p))"
  by (simp add: handle_reply_def case_prod_beta)

text \<open>C16: A reply is recorded under its sender's address and first output switch, as the only
  entry with that key, with its contents and the time of receipt; every other entry stays, and the
  length of the list is the number of its entries.\<close>

theorem reply_recorded:
  assumes "calm e" "node_ok c"
  shows "nl_look (entries (nodes (handle_reply e c p))) =
      (nl_look (entries (nodes c)))
        ((p_from p, get_at artnet_reply_s ''swOut'' 0 p) \<mapsto>
           (p_from p, copy_apr_to_node_entry p, env_time e (clk c))) \<and>
    distinct (map entry_key (entries (nodes (handle_reply e c p)))) \<and>
    artnet_nl_get_length (nodes (handle_reply e c p)) =
      int (length (entries (nodes (handle_reply e c p))))"
proof -
  have up: "nl_update_ok e c p"
    using assms(1) by (intro nl_update_ok_malloc) (simp add: calm_def)
  have wf: "wf_nl (nodes c)" using assms(2) by (simp add: node_ok_parts)
  then have "nl_distinct (entries (nodes c))" by (simp add: wf_nl_def nl_distinct_def)
  from nl_registry.look_put [OF this] wf_nl_update [OF wf up] show ?thesis
    using assms(1)
    by (simp add: calm_def artnet_nl_update_entries [OF up] view_key_def wf_nl_def
        artnet_nl_get_length_def)
qed

theorem reply_recorded_witness:
  "nl_look (entries (nodes (handle_reply quiet_env demo_node demo_dmx)))
     (0x0500000A, get_at artnet_reply_s ''swOut'' 0 demo_dmx) =
   Some (0x0500000A, copy_apr_to_node_entry demo_dmx, 1000)"
  using reply_recorded [OF calm_quiet node_ok_demo, of demo_dmx]
  by (simp add: demo_dmx_fields)

text \<open>C17: The timeout check keeps exactly the entries heard of in the last 15 seconds, with what
  they say and in their order, and corrects the length of the list.\<close>

theorem cleanup_keeps_recent:
  assumes "observer e" "fits n"
  shows "\<exists>n'. check_timeouts e n = Some n' \<and>
    map entry_view (entries (nodes n')) =
      filter (\<lambda>(_, _, t). sint (env_time e (clk n) - t) \<le> NODELIST_TIMEOUT_MS)
        (map entry_view (entries (nodes n))) \<and>
    nl_length (nodes n') = int (length (entries (nodes n')))"
proof -
  let ?now = "env_time e (clk n)"
  from check_timeouts_stages [OF assms] obtain m where
    m: "fits m" "nodes m = nodes n"
      "check_timeouts e n = Some (check_pending_reply e ?now
         (check_firmware_timeout ?now (nl_cleanup ?now m)))" .
  let ?n' = "check_pending_reply e ?now (check_firmware_timeout ?now (nl_cleanup ?now m))"
  have nodes: "nodes ?n' = nodes (nl_cleanup ?now m)"
    using assms(1)
    by (simp add: check_pending_reply_def check_firmware_timeout_def reset_firmware_upload_def)
  have "wf_nl (nodes (nl_cleanup ?now m))"
    using m(1) by (intro wf_nl_cleanup) (simp add: fits_def node_ok_parts)
  with m nodes show ?thesis
    by (simp add: wf_nl_def nl_cleanup_entries filter_map o_def silent_def entry_view_def not_less)
qed

definition demo_entry :: "ip \<Rightarrow> u64 \<Rightarrow> node_entry_private" where
  "demo_entry a t =
     \<lparr>pub = copy_apr_to_node_entry
        \<lparr>p_length = 239, p_from = a, p_to = 0, p_type = opcode ARTNET_REPLY, p_data = zero_mem\<rparr>,
      firmware = no_firmware, ent_ip = a, last_seen = t\<rparr>"

definition listed_node :: node where
  "listed_node =
     demo_node\<lparr>nodes := \<lparr>entries = [demo_entry 0x0300000A (- 19000), demo_entry 0x0400000A 900],
                          current = None, nl_length = 2\<rparr>\<rparr>"

lemma demo_entry_fields [simp]:
  "ent_ip (demo_entry a t) = a" "last_seen (demo_entry a t) = t"
  "firmware (demo_entry a t) = no_firmware" "e_numbports (pub (demo_entry a t)) = 0"
  "entry_wf (demo_entry a t)" "e_swOut (pub (demo_entry a t)) ! 0 = 0"
  by (simp_all add: demo_entry_def copy_apr_to_node_entry_def get8_def to_int16_def get_at_def
      bytes_to_short_eq entry_wf_def get_n_def)

lemma fits_listed_node: "fits listed_node"
  using node_ok_demo
  by (simp add: fits_def list_fits_def listed_node_def node_ok_parts wf_nl_def entry_key_def
      tx_ok_no_firmware matching_ports_def)
     (simp add: demo_node_def zero_node_def)

theorem cleanup_keeps_recent_witness:
  "\<exists>n'. check_timeouts quiet_env listed_node = Some n' \<and>
     map entry_view (entries (nodes n')) = [entry_view (demo_entry 0x0400000A 900)] \<and>
     nl_length (nodes n') = 1"
proof -
  from cleanup_keeps_recent [OF observer_quiet fits_listed_node] obtain n' where
    n': "check_timeouts quiet_env listed_node = Some n'"
      "map entry_view (entries (nodes n')) = [entry_view (demo_entry 0x0400000A 900)]"
      "nl_length (nodes n') = int (length (entries (nodes n')))"
    by (auto simp: listed_node_def entry_view_def)
  from arg_cong [OF n'(2), of length] n' show ?thesis by auto
qed

lemma artnet_nl_foreach_returns_aux:
  "artnet_nl_foreach n cb d = Some r \<Longrightarrow> nl_seq n AND 1 = 0"
  by (erule artnet_nl_foreach.raw_induct [rotated])
    (auto simp: Let_def split: if_splits prod.splits)

lemma artnet_nl_foreach_odd: "nl_seq n AND 1 \<noteq> 0 \<Longrightarrow> artnet_nl_foreach n cb d = None"
  using artnet_nl_foreach_returns_aux by (metis not_None_eq)

text \<open>C18: When no memory is left for a new entry, the update reports it, but leaves the sequence
  number odd: from then on no search of the list and no visit of its entries ever returns.\<close>

theorem failed_update_blocks_readers:
  assumes "node_ok c" "\<not> env_malloc e (mallocs c)"
    and "\<forall>t \<in> set (entries (nodes c)).
           entry_key t \<noteq> (p_from p, get_at artnet_reply_s ''swOut'' 0 p)"
  shows "fst (artnet_nl_update e c p) = ARTNET_EMEM \<and>
    find_nodes_from_uni (snd (artnet_nl_update e c p)) uni cap = None \<and>
    artnet_nl_foreach (snd (artnet_nl_update e c p)) cb d = None"
proof -
  let ?k = "(p_from p, get_at artnet_reply_s ''swOut'' 0 p)"
  have miss: "find_pos (\<lambda>x. entry_key x = ?k) (entries (nodes c)) = None"
    using assms(3) by (auto simp: find_pos_None)
  have "nl_seq c AND 1 = 0" using assms(1) by (rule node_ok_even)
  then have "(nl_seq c + 1) AND 1 \<noteq> 0"
    by (auto simp: and_one_eq mod2_eq_if split: if_splits)
  moreover have "nl_seq (snd (artnet_nl_update e c p)) = nl_seq c + 1"
    "fst (artnet_nl_update e c p) = ARTNET_EMEM"
    using assms(2) miss by (simp_all add: nl_update_simps Let_def)
  ultimately show ?thesis
    by (simp add: find_nodes_from_uni_odd artnet_nl_foreach_odd)
qed

theorem failed_update_blocks_readers_witness:
  "find_nodes_from_uni
     (snd (artnet_nl_update (quiet_env\<lparr>env_malloc := (\<lambda>_. False)\<rparr>) demo_node demo_dmx)) 0 1 = None"
proof -
  have none: "entries (nodes demo_node) = []" by (simp add: demo_node_def zero_node_def)
  show ?thesis
    by (rule failed_update_blocks_readers [THEN conjunct2, THEN conjunct1])
       (simp_all add: none)
qed

fun nl_visit :: "node_list \<Rightarrow> nat \<Rightarrow> node_entry option \<times> node_list" where
  "nl_visit nl 0 = artnet_nl_first nl"
| "nl_visit nl (Suc k) = artnet_nl_next (snd (nl_visit nl k))"

lemma nl_visit_state:
  "snd (nl_visit nl k) = nl\<lparr>current := (if k < length (entries nl) then Some k else None)\<rparr>"
  by (induction k) (simp_all add: artnet_nl_first_def artnet_nl_next_def Let_def)

text \<open>The first visit and then \<open>k\<close> further ones give the entries in the order of the list,
  and nothing after the last one.\<close>

theorem visits_in_order:
  "fst (nl_visit nl k) = (if k < length (entries nl) then Some (pub (entries nl ! k)) else None)"
  by (cases k) (simp_all add: artnet_nl_first_def artnet_nl_next_def nl_visit_state nl_entry_def Let_def)

section \<open>Discovery\<close>


lemma template_ar_temp [simp]: "poll_reply_template (n\<lparr>ar_temp := x\<rparr>) = poll_reply_template n"
  by (simp add: poll_reply_template_def network_programmed_def used_ports_def bind_index_of_def
      good_output_b_def Let_def)

definition announced_node :: node where
  "announced_node =
     (let m = demo_node\<lparr>port_types := (\<lambda>_. 0)(0 := ARTNET_ENABLE_OUTPUT)\<rparr>
      in m\<lparr>ar_temp := poll_reply_template m\<rparr>)"

lemma announced_node_fields [simp]:
  "mode announced_node = ARTNET_ON" "reply_addr announced_node = 0x0100000A"
  "ar_temp announced_node = poll_reply_template announced_node"
  "ip_addr announced_node = 0x0200000A" "sent announced_node = []"
  "out_ports announced_node = (\<lambda>_. zero_out_port)(0 := demo_out_port)"
  "port_types announced_node = (\<lambda>_. 0)(0 := ARTNET_ENABLE_OUTPUT)"
  "node_ok announced_node"
  using node_ok_demo
  by (simp_all add: announced_node_def Let_def) (simp_all add: demo_node_def zero_node_def)


lemma reply_subscribes:
  assumes "calm e" "node_ok c" "node_ok n" "i < 4"
    and "port_enabled (out_ports n i)" "port_types n i AND ARTNET_ENABLE_OUTPUT \<noteq> 0"
  shows "ip_addr n \<in> set (subscribers (handle_reply e c (reply_of n k)) (port_addr (out_ports n i)))"
proof -
  let ?p = "reply_of n k" and ?u = "port_addr (out_ports n i)"
  let ?t = "copy_apr_to_node_entry ?p"
  have "i < min (nat (e_numbports ?t)) 4"
    using used_ports_enabled [of i n] assms(4,5) by (simp add: entry_of_reply)
  moreover have "port_matches ?t ?u i"
  proof -
    have "?u = make_addr (netSwitch n) (subSwitch n) (addr_port ?u)"
      using assms(3,4) by (simp add: node_ok_parts addr_ok_def)
    then have "make_addr (netSwitch n) (subSwitch n AND 0x0F) (addr_port ?u AND 0x0F) = ?u"
      by (simp add: make_addr_def and.assoc)
    then show ?thesis using assms(4,6) by (simp add: port_matches_def entry_of_reply Let_def)
  qed
  ultimately have "i \<in> set (filter (port_matches ?t ?u) [0..<min (nat (e_numbports ?t)) ARTNET_MAX_PORTS])"
    by simp
  then have match: "0 < matching_ports ?t ?u"
    unfolding matching_ports_def by (metis length_pos_if_in_set)
  have up: "nl_update_ok e c ?p"
    using assms(1) by (intro nl_update_ok_malloc) (simp add: calm_def)
  have "nl_distinct (entries (nodes c))"
    using assms(2) by (simp add: node_ok_parts wf_nl_def nl_distinct_def)
  then have "nl_look (nl_put (p_from ?p, ?t, env_time e (clk c)) (entries (nodes c)))
      (view_key (p_from ?p, ?t, env_time e (clk c))) = Some (p_from ?p, ?t, env_time e (clk c))"
    by (simp add: nl_registry.look_put)
  then obtain x where x: "x \<in> set (nl_put (p_from ?p, ?t, env_time e (clk c)) (entries (nodes c)))"
      "entry_view x = (p_from ?p, ?t, env_time e (clk c))"
    unfolding nl_look_def by (auto dest!: map_of_SomeD)
  then have "pub x = ?t" "ent_ip x = ip_addr n"
    by (simp_all add: entry_view_def reply_of_def)
  with x(1) match assms(1) show ?thesis
    by (auto simp: subscribers_def calm_def artnet_nl_update_entries [OF up] image_iff
        intro!: bexI [of _ x])
qed



text \<open>A controller that knows the announced node, for the witnesses of what rests on the list.\<close>

definition found_node :: node where
  "found_node = handle_reply quiet_env demo_node (reply_of announced_node 1)"

lemma found_node_entries:
  "entries (nodes found_node) =
     [\<lparr>pub = copy_apr_to_node_entry (reply_of announced_node 1), firmware = no_firmware,
       ent_ip = 0x0200000A, last_seen = 1000\<rparr>]"
proof -
  have up: "nl_update_ok quiet_env demo_node (reply_of announced_node 1)"
    by (intro nl_update_ok_malloc) (simp add: quiet_env_def)
  have "entries (nodes demo_node) = []" by (simp add: demo_node_def zero_node_def)
  then show ?thesis
    using observer_quiet
    by (simp add: found_node_def artnet_nl_update_entries [OF up] nl_put_def)
qed

lemma found_entry:
  defines "t \<equiv> copy_apr_to_node_entry (reply_of announced_node 1)"
  shows "matching_ports t uni = (if uni = 0 then 1 else 0)" "e_numbports t = 1"
    "e_ip t = [10, 0, 0, 2]"
proof -
  have in_port: "in_ports announced_node = (\<lambda>_. zero_in_port\<lparr>seq := 1\<rparr>)"
    by (simp add: announced_node_def Let_def) (simp add: demo_node_def)
  have nets: "netSwitch announced_node = 0" "subSwitch announced_node = 0"
    by (simp_all add: announced_node_def Let_def) (simp_all add: demo_node_def zero_node_def)
  have used: "used_ports announced_node = 1"
    by (simp add: used_ports_def in_port zero_in_port_def demo_out_port_def zero_out_port_def)
  then show "e_numbports t = 1" by (simp add: t_def entry_of_reply)
  have "port_matches t uni 0 \<longleftrightarrow> uni = 0"
    by (auto simp: port_matches_def t_def entry_of_reply nets Let_def upt_conv_Cons make_addr_def
        addr_port_def demo_out_port_def zero_out_port_def)
  then show "matching_ports t uni = (if uni = 0 then 1 else 0)"
    by (simp add: matching_ports_def t_def entry_of_reply used)
  show "e_ip t = [10, 0, 0, 2]" by (simp add: t_def entry_of_reply ip_bytes_def)
qed


lemma nl_update_more [simp]:
  "mode (snd (artnet_nl_update e n p)) = mode n" "sent (snd (artnet_nl_update e n p)) = sent n"
  "ip_addr (snd (artnet_nl_update e n p)) = ip_addr n"
  "bcast_limit (snd (artnet_nl_update e n p)) = bcast_limit n"
  by (simp_all add: nl_update_simps Let_def split: option.splits)

lemma found_node_update:
  "found_node = snd (artnet_nl_update quiet_env demo_node (reply_of announced_node 1))"
  by (simp add: found_node_def handle_reply_def check_callback_def no_callback_def)

lemma found_node_fields [simp]:
  "mode found_node = ARTNET_ON" "in_ports found_node = (\<lambda>_. zero_in_port\<lparr>seq := 1\<rparr>)"
  "sent found_node = []" "ip_addr found_node = 0x0200000A" "bcast_limit found_node = 0"
  "subscribers found_node uni = (if uni = 0 then [0x0200000A] else [])"
  by (simp_all add: found_node_entries found_entry subscribers_def)
     (simp_all add: found_node_update, simp_all add: demo_node_def zero_node_def)

lemma fits_found_node: "fits found_node"
proof -
  have "node_ok found_node"
    unfolding found_node_def
    by (intro node_ok_handle_reply cb_ok_quiet node_ok_demo) (simp add: quiet_env_def)
  then show ?thesis by (simp add: fits_def list_fits_def found_node_entries found_entry)
qed

end
