(* ===== verification/Delivery.thy ===== *)
theory Delivery
  imports Wire Group
begin

text \<open>
  A packet on its way: what a peer reads of a packet that was sent.  The bytes of its length go
  into a datagram (\<open>artnet_net_send\<close>), the receiver copies them into a cleared packet
  (\<open>artnet_net_recv\<close>) and takes the type from them (\<open>get_type\<close>).
\<close>

definition datagram_of :: "packet \<Rightarrow> arrival" where
  "datagram_of p = Datagram (p_from p) (get_bytes (p_data p) 0 (nat (p_length p)))"

definition delivered :: "packet \<Rightarrow> packet" where
  "delivered p =
     snd (get_type
       \<lparr>p_length = p_length p, p_from = p_from p, p_to = 0, p_type = 0,
        p_data = put_bytes zero_mem 0 (get_bytes (p_data p) 0 (nat (p_length p)))\<rparr>)"

lemma get_type_fields [simp]:
  "p_length (snd (get_type p)) = p_length p" "p_from (snd (get_type p)) = p_from p"
  "p_to (snd (get_type p)) = p_to p" "p_data (snd (get_type p)) = p_data p"
  by (simp_all add: get_type_def Let_def)

lemma delivered_fields [simp]:
  "p_length (delivered p) = p_length p" "p_from (delivered p) = p_from p"
  by (simp_all add: delivered_def)

lemma delivered_byte: "int i < p_length p \<Longrightarrow> p_data (delivered p) i = p_data p i"
  by (simp add: delivered_def put_bytes_def zless_nat_eq_int_zless)

lemma recv_delivered:
  assumes "p_from p \<noteq> ip_addr n" "ntohl (p_from p) \<noteq> LOOPBACK_IP"
    and "0 \<le> p_length p" "nat (p_length p) \<le> sizeof_union" "p_type (delivered p) \<noteq> 0"
  shows "\<exists>r. artnet_net_recv n (datagram_of p) q = (ARTNET_EOK, r) \<and>
    snd (get_type r) = (delivered p)\<lparr>p_to := p_to q\<rparr> \<and> fst (get_type r) = p_type (delivered p)"
  using assms
  by (auto simp: artnet_net_recv_def datagram_of_def delivered_def get_type_def Let_def
      split: if_splits)

section \<open>Packets that were filled\<close>

text \<open>The twelve bytes that most packets begin with: identifier, opcode and protocol version.\<close>

definition after_header :: "layout \<Rightarrow> (string \<times> u8 list) list \<Rightarrow> bool" where
  "after_header L xs \<longleftrightarrow> list_all (\<lambda>(f, _). 12 \<le> offset L f) xs"

lemma fill_below: "after_header L xs \<Longrightarrow> i < 12 \<Longrightarrow> fill L xs m i = m i"
  by (induction xs arbitrary: m) (auto simp: after_header_def put_def put_bytes_def)

lemma delivered_type:
  assumes "p_data p = fill L xs (header t)" "after_header L xs" "12 \<le> p_length p"
  shows "p_type (delivered p) = opcode t" "get8 artnet_poll_s ''verH'' (delivered p) = 0"
    "get8 artnet_poll_s ''ver'' (delivered p) = 14"
proof -
  have low: "p_data (delivered p) i = header t i" if "i < 12" for i
    using that assms fill_below [OF assms(2) that] by (simp add: delivered_byte)
  have "get_bytes (p_data (delivered p)) 0 8 = get_bytes (header t) 0 8"
    by (rule get_bytes_eqI) (simp add: low)
  moreover have "le16 (p_data (delivered p) 8) (p_data (delivered p) 9) = opcode t"
    using low header_bytes(2) [of t] by simp
  ultimately show "p_type (delivered p) = opcode t"
    using header_bytes(1) [of t] assms(3) get_type_header [of _ t]
    by (simp add: delivered_def)
  show "get8 artnet_poll_s ''verH'' (delivered p) = 0" "get8 artnet_poll_s ''ver'' (delivered p) = 14"
    using low header_bytes(3,4) [of t] by (simp_all add: get8_def layout)
qed

lemma delivered_field:
  assumes "p_data p = fill L xs m" "fits_layout L xs" "distinct (map fst xs)"
    and "map_of xs f = Some bs" "i < length bs" "int (offset L f + length bs) \<le> p_length p"
  shows "p_data (delivered p) (offset L f + i) = bs ! i"
  using assms fill_field [OF assms(2-5), of m] by (simp add: delivered_byte)

lemma delivered_get8:
  assumes "p_data p = fill L xs m" "fits_layout L xs" "distinct (map fst xs)"
    and "map_of xs f = Some [b]" "int (offset L f) < p_length p"
  shows "get8 L f (delivered p) = b"
  using delivered_field [OF assms(1-4), of 0] assms(5) by (simp add: get8_def)

lemma delivered_get16:
  assumes "p_data p = fill L xs m" "fits_layout L xs" "distinct (map fst xs)"
    and "map_of xs f = Some (le16_bytes x)" "int (offset L f + 2) \<le> p_length p"
  shows "get16 L f (delivered p) = x"
  using delivered_field [OF assms(1-4), of 0] delivered_field [OF assms(1-4), of 1] assms(5)
  by (simp add: get16_def le16_bytes_def le16_split)

lemma delivered_get_n:
  assumes "p_data p = fill L xs m" "fits_layout L xs" "distinct (map fst xs)"
    and "map_of xs f = Some bs" "k = length bs" "int (offset L f + k) \<le> p_length p"
  shows "get_n L f k (delivered p) = bs"
  using delivered_field [OF assms(1-4)] assms(5,6)
  by (auto simp: get_n_def intro!: nth_equalityI)

section \<open>The contract between transmit.c and receive.c\<close>

text \<open>
  A kind of packet: the structure it fills, its type, and the assignments of fields that a sender
  makes.  What a sender of this kind puts into a field is what the receiver's handler reads there,
  and the receiver accepts the packet when the handler's own check of the fields holds.
\<close>

locale wire_form =
  fixes L :: layout
    and code :: artnet_packet_type
    and form :: "(string \<times> u8 list) list \<Rightarrow> bool"
  assumes form_after: "form xs \<Longrightarrow> after_header L xs"
    and form_fits: "form xs \<Longrightarrow> fits_layout L xs"
    and form_distinct: "form xs \<Longrightarrow> distinct (map fst xs)"
    and code_known: "type_of_code (opcode code) = Some code"
    and code_versioned: "code \<noteq> ARTNET_REPLY \<and> code \<noteq> ARTNET_IPREPLY"
begin

lemma arrives:
  assumes "form xs" "p_data p = fill L xs (header code)" "12 \<le> p_length p"
  shows "p_type (delivered p) = opcode code" "get8 artnet_poll_s ''verH'' (delivered p) = 0"
    "get8 artnet_poll_s ''ver'' (delivered p) = 14"
  using delivered_type [OF assms(2) form_after [OF assms(1)] assms(3)] .

lemma byte:
  assumes "form xs" "p_data p = fill L xs (header code)"
    and "map_of xs f = Some [b]" "int (offset L f) < p_length p"
  shows "get8 L f (delivered p) = b"
  using delivered_get8 [OF assms(2) form_fits [OF assms(1)] form_distinct [OF assms(1)] assms(3,4)] .

lemma short:
  assumes "form xs" "p_data p = fill L xs (header code)"
    and "map_of xs f = Some (le16_bytes x)" "int (offset L f + 2) \<le> p_length p"
  shows "get16 L f (delivered p) = x"
  using delivered_get16 [OF assms(2) form_fits [OF assms(1)] form_distinct [OF assms(1)] assms(3,4)] .

lemma bytes:
  assumes "form xs" "p_data p = fill L xs (header code)"
    and "map_of xs f = Some bs" "k = length bs" "int (offset L f + k) \<le> p_length p"
  shows "get_n L f k (delivered p) = bs"
  using delivered_get_n [OF assms(2) form_fits [OF assms(1)] form_distinct [OF assms(1)] assms(3-5)] .

lemma item:
  assumes "form xs" "p_data p = fill L xs (header code)"
    and "map_of xs f = Some bs" "i < length bs" "int (offset L f + length bs) \<le> p_length p"
  shows "p_data (delivered p) (offset L f + i) = bs ! i"
  using delivered_field [OF assms(2) form_fits [OF assms(1)] form_distinct [OF assms(1)] assms(3-5)] .

lemma accepted:
  assumes "form xs" "p_data p = fill L xs (header code)" "12 \<le> p_length p"
    and "min_packet_length code = Some k" "k \<le> p_length p" "valid_fields code (delivered p)"
  shows "packet_is_valid (delivered p)"
proof -
  note a = arrives [OF assms(1-3)]
  have "protocol_version (delivered p) = 14"
    using a code_known code_versioned
    by (simp add: protocol_version_def get_short_def bytes_to_short_eq)
  then show ?thesis
    using a code_known code_versioned assms(4-6)
    by (simp add: packet_is_valid_def packet_length_is_valid_def packet_fields_are_valid_def)
qed

end

end
