(* ===== verification/Send_Properties.thy ===== *)
theory Send_Properties
  imports Delivery List_Properties
begin

text \<open>
  Sending levels: to whom the frames of \<open>artnet_send_dmx\<close> go, and that what arrives is what was
  sent: the peer's validator accepts it and its handlers read the universe and the levels back.
\<close>

section \<open>ArtDmx\<close>

lemma bad_dmx_length_iff:
  "\<not> bad_dmx_length len \<longleftrightarrow> 2 \<le> len \<and> len \<le> 512 \<and> even len"
  by (auto simp: bad_dmx_length_def even_iff_mod_2_eq_zero)

lemma hi_lo_bytes:
  assumes "0 \<le> len" "len < 65536"
  shows "bytes_to_short (hi_byte len) (lo_byte len) = len"
  using assms by (simp add: hi_byte_def lo_byte_def bytes_to_short_split uint_word_of_int_eq take_bit_int_eq_self)

definition dmx_fields :: "u8 \<Rightarrow> u8 \<Rightarrow> u16 \<Rightarrow> int \<Rightarrow> mem \<Rightarrow> (string \<times> u8 list) list" where
  "dmx_fields s phys uni len data =
     [(''sequence'', [s]), (''physical'', [phys]), (''universe'', le16_bytes uni),
      (''lengthHi'', [hi_byte len]), (''length'', [lo_byte len]),
      (''data'', get_bytes data 0 (nat len))]"

lemma dmx_fields_fit:
  "after_header artnet_dmx_s (dmx_fields s phys uni len data)"
  "len \<le> 512 \<Longrightarrow> fits_layout artnet_dmx_s (dmx_fields s phys uni len data)"
  "distinct (map fst (dmx_fields s phys uni len data))"
  by (simp_all add: dmx_fields_def layout after_header_def)
     (simp add: fits_layout_def artnet_dmx_s_def le16_bytes_def nat_le_iff)

lemma dmx_packet_data:
  "p_data (dmx_packet s phys uni len data) =
     fill artnet_dmx_s (dmx_fields s phys uni len data) (header ARTNET_DMX)"
  "p_length (dmx_packet s phys uni len data) = 18 + len"
  by (simp_all add: dmx_packet_def new_packet_def dmx_fields_def layout)

interpretation dmx_form: wire_form artnet_dmx_s ARTNET_DMX
  "\<lambda>xs. \<exists>s phys uni len data. len \<le> 512 \<and> xs = dmx_fields s phys uni len data"
  by unfold_locales (use dmx_fields_fit in \<open>auto simp del: opcode.simps\<close>)

text \<open>What arrives of such a frame.\<close>

definition dmx_arrival :: "ip \<Rightarrow> ip \<Rightarrow> u8 \<Rightarrow> u8 \<Rightarrow> u16 \<Rightarrow> int \<Rightarrow> mem \<Rightarrow> packet" where
  "dmx_arrival a b s phys uni len data =
     delivered ((dmx_packet s phys uni len data)\<lparr>p_from := a, p_to := b\<rparr>)"

lemma dmx_arrival_fields:
  fixes a b :: ip and s phys :: u8 and uni :: u16 and data :: mem and len :: int
  assumes "\<not> bad_dmx_length len"
  defines "q \<equiv> dmx_arrival a b s phys uni len data"
  shows "p_type q = opcode ARTNET_DMX" "p_from q = a" "p_length q = 18 + len"
    "get8 artnet_poll_s ''verH'' q = 0" "get8 artnet_poll_s ''ver'' q = 14"
    "get8 artnet_dmx_s ''sequence'' q = s" "get8 artnet_dmx_s ''physical'' q = phys"
    "get16 artnet_dmx_s ''universe'' q = uni"
    "get_short artnet_dmx_s ''lengthHi'' ''length'' q = len"
    "\<And>j. int j < len \<Longrightarrow> dmx_payload q j = data j"
proof -
  let ?p = "(dmx_packet s phys uni len data)\<lparr>p_from := a, p_to := b\<rparr>"
  let ?xs = "dmx_fields s phys uni len data"
  have len: "2 \<le> len" "len \<le> 512" using assms(1) by (simp_all add: bad_dmx_length_iff)
  have data: "p_data ?p = fill artnet_dmx_s ?xs (header ARTNET_DMX)" by (simp add: dmx_packet_data)
  have form: "\<exists>s phys uni l d. l \<le> 512 \<and> ?xs = dmx_fields s phys uni l d" using len by blast
  note arrives = dmx_form.arrives [OF form data]
  note byte = dmx_form.byte [OF form data]
  show "p_type q = opcode ARTNET_DMX" "get8 artnet_poll_s ''verH'' q = 0"
    "get8 artnet_poll_s ''ver'' q = 14"
    using arrives len by (simp_all add: q_def dmx_arrival_def dmx_packet_data)
  show "p_from q = a" "p_length q = 18 + len" by (simp_all add: q_def dmx_arrival_def dmx_packet_data)
  show "get8 artnet_dmx_s ''sequence'' q = s" "get8 artnet_dmx_s ''physical'' q = phys"
    using byte [of "''sequence''" s] byte [of "''physical''" phys] len
    by (simp_all add: q_def dmx_arrival_def dmx_packet_data layout) (simp_all add: dmx_fields_def)
  show "get16 artnet_dmx_s ''universe'' q = uni"
    using dmx_form.short [OF form data, of "''universe''" uni] len
    by (simp add: q_def dmx_arrival_def dmx_packet_data layout) (simp add: dmx_fields_def)
  have "get8 artnet_dmx_s ''lengthHi'' q = hi_byte len" "get8 artnet_dmx_s ''length'' q = lo_byte len"
    using byte [of "''lengthHi''" "hi_byte len"] byte [of "''length''" "lo_byte len"] len
    by (simp_all add: q_def dmx_arrival_def dmx_packet_data layout) (simp_all add: dmx_fields_def)
  then show "get_short artnet_dmx_s ''lengthHi'' ''length'' q = len"
    using len by (simp add: get_short_def hi_lo_bytes)
  show "dmx_payload q j = data j" if "int j < len" for j
  proof -
    have "map_of ?xs ''data'' = Some (get_bytes data 0 (nat len))" by (simp add: dmx_fields_def)
    from dmx_form.item [OF form data this, of j] that len show ?thesis
      by (simp add: q_def dmx_arrival_def dmx_packet_data dmx_payload_def get_at_def layout)
  qed
qed

lemma dmx_arrival_valid:
  fixes a b :: ip and s phys :: u8 and uni :: u16 and data :: mem and len :: int
  assumes "\<not> bad_dmx_length len"
  defines "q \<equiv> dmx_arrival a b s phys uni len data"
  shows "packet_is_valid q \<and> p_type q = opcode ARTNET_DMX \<and> p_from q = a \<and>
    get8 artnet_dmx_s ''sequence'' q = s \<and> get8 artnet_dmx_s ''physical'' q = phys \<and>
    get16 artnet_dmx_s ''universe'' q = uni \<and> dmx_length q = len \<and>
    (\<forall>j < nat len. dmx_payload q j = data j)"
proof -
  note f = dmx_arrival_fields [OF assms(1), where a = a and b = b and s = s and phys = phys
      and uni = uni and data = data, folded q_def]
  have len: "2 \<le> len" "len \<le> 512" "even len" using assms(1) by (simp_all add: bad_dmx_length_iff)
  have t: "type_of_code (p_type q) = Some ARTNET_DMX" using f(1) by (simp del: opcode.simps)
  have "packet_length_is_valid q"
    using len t f(3) by (simp add: packet_length_is_valid_def layout)
  moreover have "packet_fields_are_valid q"
    using t len f by (simp add: packet_fields_are_valid_def protocol_version_def get_short_def
        bytes_to_short_eq valid_dmx_def payload_fits_def layout Let_def)
  ultimately show ?thesis using f len by (simp add: packet_is_valid_def dmx_length_def zless_nat_eq_int_zless)
qed

text \<open>The frame that is built for levels, read by the node it is sent to: it passes the length
  and field checks and gives back the sequence number, the port, the universe, the length and every
  level.\<close>

theorem dmx_frame_roundtrip:
  fixes a b :: ip and s phys :: u8 and uni :: u16 and data :: mem and len :: int
  assumes "\<not> bad_dmx_length len"
  defines "q \<equiv> dmx_arrival a b s phys uni len data"
  shows "packet_is_valid q \<and> p_type q = opcode ARTNET_DMX \<and> p_from q = a \<and>
    get8 artnet_dmx_s ''sequence'' q = s \<and> get8 artnet_dmx_s ''physical'' q = phys \<and>
    get16 artnet_dmx_s ''universe'' q = uni \<and> dmx_length q = len \<and>
    (\<forall>j < nat len. dmx_payload q j = data j)"
  unfolding q_def using assms(1) by (rule dmx_arrival_valid)

theorem dmx_frame_roundtrip_witness:
  "dmx_payload (dmx_arrival 1 2 7 0 0x123 4 (\<lambda>j. of_nat (j + 9))) 3 = 12"
  using dmx_frame_roundtrip [of 4 1 2 7 0 "0x123" "\<lambda>j. of_nat (j + 9)"]
  by (simp add: bad_dmx_length_iff)

section \<open>Who receives it\<close>

lemma unicast_all_sent:
  assumes "observer e" "mode n = ARTNET_ON"
  shows "sent (unicast_all e p tos n) = sent n @ map (\<lambda>b. p\<lparr>p_from := ip_addr n, p_to := b\<rparr>) tos"
  using assms(2)
proof (induction tos arbitrary: n)
  case (Cons b tos)
  with Cons.IH [of "snd (artnet_net_send e n (p\<lparr>p_to := b\<rparr>))"] assms(1) show ?case
    by (simp add: net_send_sent)
qed simp

lemma unicast_all_fields [simp]:
  "observer e \<Longrightarrow> in_ports (unicast_all e p tos n) = in_ports n"
  "observer e \<Longrightarrow> out_ports (unicast_all e p tos n) = out_ports n"
  by (induction tos arbitrary: n) simp_all

lemma dmx_send_state:
  fixes data :: mem
  assumes "calm e" "fits n" "mode n = ARTNET_ON" "i < 4" "\<not> bad_dmx_length len"
    and "port_status (in_ports n i) AND PORT_STATUS_INPUT_DISABLED = 0"
  defines "uni \<equiv> port_addr (in_ports n i)"
    and "n1 \<equiv> upd_in i (\<lambda>p. p\<lparr>port_status := port_status p OR PORT_STATUS_ACT_MASK\<rparr>) n"
  defines "m \<equiv> unicast_all e (dmx_packet (seq (in_ports n i)) (of_nat i) uni len data)
      (subscribers n uni) (snd (c_malloc e n1))"
  shows "artnet_send_dmx e n (int i) len data =
    Some (ARTNET_EOK, upd_in i (mark_sent data len (env_time e (clk m))) (m\<lparr>clk := Suc (clk m)\<rparr>))"
proof -
  have port: "in_ports n1 i = (in_ports n i)\<lparr>port_status := port_status (in_ports n i) OR PORT_STATUS_ACT_MASK\<rparr>"
    by (simp add: n1_def upd_in_def)
  have "nl_seq n1 AND 1 = 0" "dmx_scan_fits n1 uni" "env_malloc e (mallocs n1)" "bcast_limit n1 = 0"
    "subscribers n1 uni = subscribers n uni"
    using assms(1,2) node_ok_even [of n]
    by (simp_all add: n1_def fits_def list_fits_scan calm_def list_fits_def subscribers_def)
  then have "unicast_dmx e n1 uni (dmx_packet (seq (in_ports n i)) (of_nat i) uni len data) = Some (True, m)"
    by (simp add: unicast_dmx_fits m_def)
  then show ?thesis
    using assms(3-6) port
    by (simp add: artnet_send_dmx_def Let_def artnet_gettime_ms_def uni_def n1_def)
qed

lemma dmx_send_result:
  assumes "calm e" "fits n" "mode n = ARTNET_ON" "i < 4" "\<not> bad_dmx_length len"
    and "port_status (in_ports n i) AND PORT_STATUS_INPUT_DISABLED = 0"
  defines "uni \<equiv> port_addr (in_ports n i)"
  shows "\<exists>n'. artnet_send_dmx e n (int i) len data = Some (ARTNET_EOK, n') \<and>
    sent n' = sent n @ map (\<lambda>b. (dmx_packet (seq (in_ports n i)) (of_nat i) uni len data)
        \<lparr>p_from := ip_addr n, p_to := b\<rparr>) (subscribers n uni) \<and>
    seq (in_ports n' i) = next_seq (seq (in_ports n i)) \<and> seq (in_ports n' i) \<noteq> 0 \<and>
    last_dmx_length (in_ports n' i) = len \<and>
    (\<forall>j < nat len. last_dmx_data (in_ports n' i) j = data j)"
proof -
  let ?n = "upd_in i (\<lambda>p. p\<lparr>port_status := port_status p OR PORT_STATUS_ACT_MASK\<rparr>) n"
  let ?p = "dmx_packet (seq (in_ports n i)) (of_nat i) uni len data"
  let ?m = "unicast_all e ?p (subscribers n uni) (snd (c_malloc e ?n))"
  let ?n' = "upd_in i (mark_sent data len (env_time e (clk ?m))) (?m\<lparr>clk := Suc (clk ?m)\<rparr>)"
  have obs: "observer e" using assms(1) by (simp add: calm_def)
  have frame: "mode (snd (c_malloc e ?n)) = ARTNET_ON" "ip_addr (snd (c_malloc e ?n)) = ip_addr n"
    "sent (snd (c_malloc e ?n)) = sent n" "in_ports (snd (c_malloc e ?n)) = in_ports ?n"
    using assms(3) by (simp_all add: c_malloc_def)
  have "sent ?m = sent n @ map (\<lambda>b. ?p\<lparr>p_from := ip_addr n, p_to := b\<rparr>) (subscribers n uni)"
    using unicast_all_sent [OF obs frame(1)] frame by simp
  moreover have "in_ports ?n' i = mark_sent data len (env_time e (clk ?m)) (in_ports ?n i)"
    using obs frame(4) by simp
  ultimately show ?thesis
    using dmx_send_state [OF assms(1-6), of data, folded uni_def]
    by (simp add: mark_sent_def memcpy_def upd_in_def)
qed



end
