(* ===== verification/End_To_End.thy ===== *)
theory End_To_End
  imports Send_Properties
begin

text \<open>
  A controller and a node together: the node answers a poll, the controller records the answer,
  sends levels for the universe of one of the node's outputs, and the levels appear there.
\<close>

section \<open>A node without callbacks\<close>

definition no_callbacks :: "node \<Rightarrow> bool" where
  "no_callbacks n \<longleftrightarrow> (\<forall>c. fh (callbacks n c) = None)"

lemma check_callback_none [simp]: "no_callbacks n \<Longrightarrow> check_callback e n p h = (0, n)"
  by (simp add: no_callbacks_def check_callback_def)

lemma handle_valid:
  assumes "no_callbacks n" "packet_is_valid p" "p_type p = opcode t"
  shows "snd (handle e n p) = dispatch t e n p"
  using assms by (simp add: handle_def packet_is_valid_def del: opcode.simps)

lemma reply_of_valid: "packet_is_valid (reply_of n k)" "p_type (reply_of n k) = opcode ARTNET_REPLY"
  by (simp_all add: packet_is_valid_def packet_length_is_valid_def packet_fields_are_valid_def
      reply_of_def layout del: opcode.simps)

lemma handle_reply_fields [simp]:
  assumes "no_callbacks n"
  shows "mode (handle_reply e n p) = mode n" "in_ports (handle_reply e n p) = in_ports n"
    "ip_addr (handle_reply e n p) = ip_addr n"
proof -
  have "no_callbacks (snd (artnet_nl_update e n p))"
    using assms by (simp add: no_callbacks_def nl_update_simps Let_def split: option.split)
  then show "mode (handle_reply e n p) = mode n" "in_ports (handle_reply e n p) = in_ports n"
    "ip_addr (handle_reply e n p) = ip_addr n"
    by (simp_all add: handle_reply_def)
qed

section \<open>From discovery to the output\<close>

text \<open>C12: A controller handles a node's reply and then sends levels from an input port on the
  universe of one of the node's enabled outputs.  One of the frames goes to the node, and when the
  node handles it the output holds exactly these levels.\<close>

theorem discovered_node_gets_levels:
  assumes ctl: "calm e" "fits c" "mode c = ARTNET_ON" "no_callbacks c" "ip_addr c \<noteq> 0"
    and node: "observer e'" "node_ok r" "no_callbacks r" "\<not> sync_mode r" "ip_addr r \<noteq> 0"
    and out: "k < 4" "port_enabled (out_ports r k)" "port_types r k AND ARTNET_ENABLE_OUTPUT \<noteq> 0"
      "ipA (out_ports r k) = 0" "ipB (out_ports r k) = 0" "\<not> cancel_merge_pending (out_ports r k)"
    and univ: "i < 4" "port_addr (in_ports c i) = port_addr (out_ports r k)"
      "port_status (in_ports c i) AND PORT_STATUS_INPUT_DISABLED = 0"
    and "polite (reply_of r x)" "\<not> bad_dmx_length len"
  defines "c' \<equiv> snd (handle e c (reply_of r x))"
  shows "\<exists>c'' p. artnet_send_dmx e c' (int i) len data = Some (ARTNET_EOK, c'') \<and>
    p \<in> set (drop (length (sent c')) (sent c'')) \<and> p_to p = ip_addr r \<and>
    out_length (out_ports (snd (handle e' r (delivered p))) k) = len \<and>
    (\<forall>j < nat len. out_data (out_ports (snd (handle e' r (delivered p))) k) j = data j)"
proof -
  let ?p = "reply_of r x"
  let ?u = "port_addr (out_ports r k)"
  have c': "c' = handle_reply e c ?p"
    using handle_valid [OF ctl(4) reply_of_valid] by (simp add: c'_def)
  have obs: "observer e" "\<And>k. env_malloc e k" using ctl(1) by (simp_all add: calm_def)
  have fits: "fits c'"
    unfolding c'_def using obs ctl(2) node(5) assms(20) by (intro fits_handle) simp_all
  have same: "mode c' = ARTNET_ON" "in_ports c' = in_ports c" "ip_addr c' = ip_addr c"
    using ctl(3,4) c' by simp_all
  from dmx_send_result [OF ctl(1) fits same(1) univ(1) assms(21), of data] univ(2,3) same
  obtain c'' where c'': "artnet_send_dmx e c' (int i) len data = Some (ARTNET_EOK, c'')"
    "sent c'' = sent c' @ map (\<lambda>b. (dmx_packet (seq (in_ports c i)) (of_nat i) ?u len data)
        \<lparr>p_from := ip_addr c, p_to := b\<rparr>) (subscribers c' ?u)" by auto
  have "ip_addr r \<in> set (subscribers c' ?u)"
    unfolding c' using reply_subscribes [OF ctl(1) _ node(2) out(1-3)] ctl(2) by (simp add: fits_def)
  then have mem: "(dmx_packet (seq (in_ports c i)) (of_nat i) ?u len data)
        \<lparr>p_from := ip_addr c, p_to := ip_addr r\<rparr> \<in> set (drop (length (sent c')) (sent c''))"
    using c''(2) by simp
  let ?q = "dmx_arrival (ip_addr c) (ip_addr r) (seq (in_ports c i)) (of_nat i) ?u len data"
  have q: "packet_is_valid ?q" "p_type ?q = opcode ARTNET_DMX" "p_from ?q = ip_addr c"
    "get16 artnet_dmx_s ''universe'' ?q = ?u" "dmx_length ?q = len"
    "\<forall>j < nat len. dmx_payload ?q j = data j"
    using dmx_arrival_valid [OF assms(21)] by blast+
  have step: "snd (handle e' r ?q) = handle_dmx e' r ?q"
    using handle_valid [OF node(3) q(1,2)] by simp
  have "dmx_ready e' r ?q k"
    using node out q(3,4) ctl(5) by (simp add: dmx_ready_def dmx_accepted_def sources_live_def)
  moreover have role: "port_role (out_ports r k) ?q = First"
    using out by (simp add: role_defs)
  ultimately have "out_length (out_ports (handle_dmx e' r ?q) k) = len \<and>
      (\<forall>j < nat len. out_data (out_ports (handle_dmx e' r ?q) k) j = data j)"
    using dmx_levels [OF node(1) _ node(4), of ?q k] q(5,6) by (simp add: dmx_output_def)
  with c''(1) mem step show ?thesis
    unfolding dmx_arrival_def by (intro exI conjI) (assumption | simp)+
qed

definition demo_controller :: node where
  "demo_controller = demo_node\<lparr>ip_addr := 0x0900000A\<rparr>"

lemma demo_controller_fields [simp]:
  "mode demo_controller = ARTNET_ON" "ip_addr demo_controller = 0x0900000A"
  "in_ports demo_controller = (\<lambda>_. zero_in_port\<lparr>seq := 1\<rparr>)"
  "no_callbacks demo_controller" "fits demo_controller"
  using fits_demo [of None] node_ok_demo
  by (simp_all add: demo_controller_def no_callbacks_def no_callback_def fits_def list_fits_def)
     (simp_all add: demo_node_def zero_node_def)

lemma announced_node_more [simp]: "no_callbacks announced_node" "\<not> sync_mode announced_node"
  by (simp_all add: announced_node_def Let_def no_callbacks_def no_callback_def)

lemma polite_announced: "polite (reply_of announced_node 1)"
  by (simp add: polite_def polite_entry_def found_entry)

theorem discovered_node_gets_levels_witness:
  "\<exists>c p. artnet_send_dmx quiet_env
       (snd (handle quiet_env demo_controller (reply_of announced_node 1))) (int 0) 2 (\<lambda>_. 7) =
       Some (ARTNET_EOK, c) \<and>
     out_data (out_ports (snd (handle quiet_env announced_node (delivered p))) 0) 1 = 7"
proof -
  let ?c = "snd (handle quiet_env demo_controller (reply_of announced_node 1))"
  have "\<exists>c p. artnet_send_dmx quiet_env ?c (int 0) 2 (\<lambda>_. 7) = Some (ARTNET_EOK, c) \<and>
      p \<in> set (drop (length (sent ?c)) (sent c)) \<and> p_to p = ip_addr announced_node \<and>
      out_length (out_ports (snd (handle quiet_env announced_node (delivered p))) 0) = 2 \<and>
      (\<forall>j < nat 2. out_data (out_ports (snd (handle quiet_env announced_node (delivered p))) 0) j = 7)"
    by (rule discovered_node_gets_levels)
       (simp_all add: calm_quiet polite_announced bad_dmx_length_iff demo_out_port_def
          zero_out_port_def zero_in_port_def)
  then obtain c p where *: "artnet_send_dmx quiet_env ?c (int 0) 2 (\<lambda>_. 7) = Some (ARTNET_EOK, c)"
    "\<forall>j < nat 2. out_data (out_ports (snd (handle quiet_env announced_node (delivered p))) 0) j = 7"
    by blast
  from *(2) have "out_data (out_ports (snd (handle quiet_env announced_node (delivered p))) 0) 1 = 7"
    by simp
  with *(1) show ?thesis by blast
qed

end
