(* ===== verification/New_Properties.thy ===== *)
theory New_Properties
  imports Node_New
begin

text \<open>
  What a new node is: which of the host's interfaces it takes, and when the listing of the
  interfaces with \<open>ioctl\<close> ends.
\<close>

section \<open>The interface of a new node\<close>

text \<open>
  The address of the host that \<open>artnet_new\<close> should take: the first usable one, or the usable one
  that is asked for.
\<close>

definition wanted_address :: "env \<Rightarrow> ifaddr list \<Rightarrow> string option \<Rightarrow> ifaddr option" where
  "wanted_address e l ip =
     (case ip of
        None \<Rightarrow> find usable l
      | Some s \<Rightarrow>
          (case env_aton e s of
             None \<Rightarrow> None
           | Some a \<Rightarrow> find (\<lambda>ifa. usable ifa \<and> addr_of ifa = a) l))"

lemma find_filter: "find P (filter Q l) = find (\<lambda>x. Q x \<and> P x) l"
  by (induction l) auto

lemma find_map: "find P (map f l) = map_option f (find (P \<circ> f) l)"
  by (induction l) auto

lemma find_head: "find Q l = (case filter Q l of [] \<Rightarrow> None | x # _ \<Rightarrow> Some x)"
  by (induction l) auto

lemma net_init_wanted:
  assumes "\<And>k. callocs k"
  shows "artnet_net_init e (0, fst (snd (get_ifaces callocs (Some l)))) n ip =
    (case wanted_address e l ip of
       None \<Rightarrow> (case Option.bind ip (env_aton e) of
                  None \<Rightarrow> (if ip = None then ARTNET_ENET else ARTNET_EARG)
                | Some _ \<Rightarrow> ARTNET_ENET, n)
     | Some ifa \<Rightarrow> (ARTNET_EOK, use_iface (set_hw l (iface_of ifa (addr_of ifa))) n))"
proof -
  have "if_ip (iface_of ifa a) = a" for ifa a by (simp add: iface_of_def)
  then show ?thesis
    by (auto simp: artnet_net_init_def get_ifaces_found [OF assms] wanted_address_def
        artnet_net_inet_aton_def find_map find_filter find_head [of usable] o_def
        split: option.splits list.splits)
qed

lemma new_ports_iface:
  "\<And>i n. ip_addr (new_ports i n) = ip_addr n" "\<And>i n. bcast_addr (new_ports i n) = bcast_addr n"
  "\<And>i n. subnet_mask (new_ports i n) = subnet_mask n" "\<And>i n. hw_addr (new_ports i n) = hw_addr n"
  by (simp_all add: new_ports_def)

text \<open>Of the host's addresses, a new node takes the first one that is up, is not a loopback and
  is IPv4, or, when an address is asked for, the one with this address; it takes that interface's
  broadcast address, its mask and the hardware address of the same physical interface.  When there is
  none, no node is created.\<close>

theorem new_node_interface:
  assumes "\<And>k. callocs k" "get_ifaces callocs (Some l) = (ret, ifs, ok)"
  shows "ok \<and>
    (case wanted_address e l ip of
       None \<Rightarrow> artnet_new e True (ret, ifs) ip = None
     | Some ifa \<Rightarrow>
         (\<exists>n. artnet_new e True (ret, ifs) ip = Some n \<and> node_ok n \<and> mode n = ARTNET_STANDBY \<and>
            ip_addr n = addr_of ifa \<and>
            bcast_addr n = (if iff_broadcast (ifa_flags ifa) then ifa_broadaddr ifa else 0) \<and>
            subnet_mask n = (case ifa_netmask ifa of None \<Rightarrow> 0 | Some m \<Rightarrow> m) \<and>
            (\<forall>m. first_link (physical_name (take 31 (ifa_name ifa))) l = Some m \<longrightarrow>
               (\<forall>j < 6. hw_addr n j = m j))))"
proof -
  let ?z = "zero_node\<lparr>oem_hi := OEM_HI, oem_lo := OEM_LO, esta_hi := ESTA_HI,
    esta_lo := ESTA_LO, bcast_limit := 0, peer := None, master := True\<rparr>"
  have found: "ok" "ret = 0" "ifs = fst (snd (get_ifaces callocs (Some l)))"
    using assms(2) by (simp_all add: get_ifaces_found [OF assms(1)])
  note init = net_init_wanted [where callocs = callocs and l = l and e = e, OF assms(1), folded found(3)]
  show ?thesis
  proof (cases "wanted_address e l ip")
    case None
    then have "fst (artnet_net_init e (ret, ifs) ?z ip) \<noteq> 0"
      using init [of ?z ip] found(2) by (simp split: option.split)
    with None found(1) show ?thesis
      by (simp add: artnet_new_def Let_def case_prod_beta)
  next
    case (Some ifa)
    let ?i = "set_hw l (iface_of ifa (addr_of ifa))"
    have "\<exists>n. artnet_new e True (ret, ifs) ip = Some n \<and> ip_addr n = if_ip ?i \<and>
        bcast_addr n = if_bcast ?i \<and> subnet_mask n = if_mask ?i \<and>
        hw_addr n = memcpy zero_mem 0 (if_hw ?i) 0 6"
      using Some init [of ?z ip] found(2)
      by (simp add: artnet_new_def Let_def for_upto_4 new_ports_iface use_iface_def)
        (simp add: zero_node_def)
    then obtain n where n: "artnet_new e True (ret, ifs) ip = Some n" "ip_addr n = if_ip ?i"
      "bcast_addr n = if_bcast ?i" "subnet_mask n = if_mask ?i"
      "hw_addr n = memcpy zero_mem 0 (if_hw ?i) 0 6" by blast
    have "if_ip ?i = addr_of ifa"
      "if_bcast ?i = (if iff_broadcast (ifa_flags ifa) then ifa_broadaddr ifa else 0)"
      "if_mask ?i = (case ifa_netmask ifa of None \<Rightarrow> 0 | Some m \<Rightarrow> m)"
      by (simp_all, simp_all add: iface_of_def)
    moreover have "if_hw ?i j = m j"
      if "first_link (physical_name (take 31 (ifa_name ifa))) l = Some m" "j < 6" for m j
      using that by (simp add: set_hw_def iface_of_def memcpy_def)
    ultimately show ?thesis
      using n Some found(1) artnet_new_ok [OF n(1)] by (simp add: memcpy_def)
  qed
qed

definition demo_ifaddrs :: "ifaddr list" where
  "demo_ifaddrs =
     (let up = \<lparr>iff_up = True, iff_loopback = False, iff_broadcast = True\<rparr>;
          eth = \<lparr>ifa_name = ''eth0'', ifa_flags = up, ifa_addr = Some (Packet_Addr (\<lambda>_. 7)),
                 ifa_netmask = None, ifa_broadaddr = 0\<rparr>
      in [eth\<lparr>ifa_name := ''lo'', ifa_flags := up\<lparr>iff_loopback := True\<rparr>,
              ifa_addr := Some (Inet 0x0100007F)\<rparr>,
          eth,
          eth\<lparr>ifa_name := ''eth0:1'', ifa_addr := Some (Inet 0x0200000A),
              ifa_netmask := Some 0x000000FF, ifa_broadaddr := 0xFFFFFF0A\<rparr>])"

theorem new_node_interface_witness:
  "\<exists>n. artnet_new quiet_env True (0, fst (snd (get_ifaces (\<lambda>_. True) (Some demo_ifaddrs)))) None = Some n \<and>
     ip_addr n = 0x0200000A \<and> hw_addr n 0 = 7"
proof -
  have "get_ifaces (\<lambda>_. True) (Some demo_ifaddrs) =
      (0, fst (snd (get_ifaces (\<lambda>_. True) (Some demo_ifaddrs))), True)"
    by (simp add: get_ifaces_found)
  from new_node_interface [OF _ this, of quiet_env None] show ?thesis
    by (auto simp: wanted_address_def demo_ifaddrs_def Let_def usable_def addr_of_def
        physical_name_def link_address_def)
qed

section \<open>Listing with ioctl\<close>

lemma get_conf_returns:
  assumes "answers m = Conf len l" "answers (Suc m) = Conf len l'" "k \<le> m"
  shows "get_conf granted answers k lastlen \<noteq> None"
  using assms(3)
proof (induction "m - k" arbitrary: k lastlen)
  case 0
  then have "k = m" by simp
  then show ?case
    using assms(1,2)
    by (subst get_conf.simps) (simp, subst get_conf.simps, simp)
next
  case (Suc d)
  then have "get_conf granted answers (Suc k) x \<noteq> None" for x by simp
  then show ?case by (subst get_conf.simps) (simp split: conf_answer.split)
qed

text \<open>The listing with \<open>ioctl\<close> enlarges its buffer until two answers in a row have the same
  length: once there are two such answers it returns.\<close>

lemma ioctl_listing_returns:
  assumes "answers m = Conf len l" "answers (Suc m) = Conf len l'"
  shows "\<exists>r. get_ifaces_ioctl has_socket granted answers callocs = Some r"
  using get_conf_returns [OF assms, of 0 granted 0]
  by (auto simp: get_ifaces_ioctl_def split: sum.split)

text \<open>A failed \<open>calloc\<close> is reported as success, with a list that has been freed.\<close>

lemma failed_calloc_reports_success:
  assumes "get_conf granted answers 0 0 = Some (Inr (r # rs))" "ifr_inet r"
    and "ifr_flags r = Some fl" "iff_up fl" "\<not> iff_loopback fl" "\<not> callocs 0"
  shows "get_ifaces_ioctl True granted answers callocs = Some (ARTNET_EOK, None)"
  using assms by (simp add: get_ifaces_ioctl_def add_ifreq_def new_iface_def)

end
