(* ===== verification/Firmware_Properties.thy ===== *)
theory Firmware_Properties
  imports Send_Properties
begin

text \<open>
  Firmware uploads as a protocol between a controller and a node: the blocks that
  \<open>artnet_tx_firmware_packet\<close> makes of an image, read by \<open>handle_firmware\<close>, rebuild the image;
  and the two kinds of image for which the protocol does not end as it should.
\<close>

section \<open>Blocks\<close>

text \<open>The sender's transfer of an image of \<open>tot\<close> bytes before its block number \<open>k\<close>.\<close>

definition transfer_at :: "int \<Rightarrow> int \<Rightarrow> mem \<Rightarrow> nat \<Rightarrow> firmware_transfer \<Rightarrow> bool" where
  "transfer_at ubea tot data k f \<longleftrightarrow>
     (\<exists>m. fw_data f = Some (tot, m) \<and> (\<forall>j < nat tot. m j = data j)) \<and>
     bytes_total f = tot \<and> bytes_current f = min (1024 * int k) tot \<and>
     fw_ubea f = ubea \<and> expected_block f = int k mod 256"

definition upload_block :: "int \<Rightarrow> int \<Rightarrow> mem \<Rightarrow> nat \<Rightarrow> mem" where
  "upload_block ubea tot data k =
     firmware_packet_data (no_firmware\<lparr>fw_data := Some (tot, data), bytes_total := tot,
       bytes_current := 1024 * int k, fw_ubea := ubea, expected_block := int k mod 256\<rparr>)"

definition upload_packet :: "ip \<Rightarrow> ip \<Rightarrow> int \<Rightarrow> int \<Rightarrow> mem \<Rightarrow> nat \<Rightarrow> packet" where
  "upload_packet a b ubea tot data k =
     \<lparr>p_length = size_of artnet_firmware_s, p_from = a, p_to = b,
      p_type = opcode ARTNET_FIRMWAREMASTER, p_data = upload_block ubea tot data k\<rparr>"

definition block_bytes :: "int \<Rightarrow> nat \<Rightarrow> int" where
  "block_bytes tot k = min (tot - 1024 * int k) 1024"

definition upload_fields :: "int \<Rightarrow> int \<Rightarrow> mem \<Rightarrow> nat \<Rightarrow> (string \<times> u8 list) list" where
  "upload_fields ubea tot data k =
     [(''type'', [firmware_block_type ubea (1024 * int k) (block_bytes tot k) 1024]),
      (''blockId'', [word_of_int (int k mod 256)]),
      (''length'', artnet_misc_int_to_bytes (word_of_int (tot div 2))),
      (''data'', get_bytes data (1024 * k) (nat (block_bytes tot k)))]"

lemma upload_block_fields:
  "upload_block ubea tot data k =
     fill artnet_firmware_s (upload_fields ubea tot data k) (header ARTNET_FIRMWAREMASTER)"
proof -
  have "2 * nat (1024 * int k div 2) = 1024 * k" by simp
  then show ?thesis
    by (simp add: upload_block_def firmware_packet_data_def upload_fields_def block_bytes_def
        fw_bytes_def Let_def)
qed

lemma upload_fields_fit:
  "after_header artnet_firmware_s (upload_fields ubea tot data k)"
  "distinct (map fst (upload_fields ubea tot data k))"
  "fits_layout artnet_firmware_s (upload_fields ubea tot data k)"
proof -
  have len: "length (artnet_misc_int_to_bytes d) = 4" for d
    by (simp add: artnet_misc_int_to_bytes_def)
  show "after_header artnet_firmware_s (upload_fields ubea tot data k)"
    "distinct (map fst (upload_fields ubea tot data k))"
    by (simp_all add: upload_fields_def layout after_header_def)
  have "nat (block_bytes tot k) \<le> 1024" by (simp add: block_bytes_def)
  then show "fits_layout artnet_firmware_s (upload_fields ubea tot data k)"
    by (simp add: upload_fields_def fits_layout_def artnet_firmware_s_def len)
qed

interpretation upload_form: wire_form artnet_firmware_s ARTNET_FIRMWAREMASTER
  "\<lambda>xs. \<exists>ubea tot data k. xs = upload_fields ubea tot data k"
  by unfold_locales (use upload_fields_fit in \<open>auto simp del: opcode.simps\<close>)

lemma length_read:
  assumes "0 < tot" "even tot" "tot < 2 ^ 31"
  shows "to_int32 (sint (word_of_int (tot div 2) :: u32) * 2) = tot"
proof -
  have "sint (word_of_int (tot div 2) :: u32) = tot div 2"
    using assms by (simp add: sint_sbintrunc' signed_take_bit_int_eq_self)
  with assms show ?thesis by (simp add: to_int32_id)
qed

lemma upload_arrival:
  fixes a b :: ip and ubea tot :: int and data :: mem and k :: nat
  assumes "0 < tot" "even tot" "tot < 2 ^ 31" "1024 * int k < tot"
  defines "q \<equiv> delivered (upload_packet a b ubea tot data k)"
  shows "p_type q = opcode ARTNET_FIRMWAREMASTER" "p_from q = a"
    "get8 artnet_poll_s ''verH'' q = 0" "get8 artnet_poll_s ''ver'' q = 14"
    "fw_type q = firmware_block_type ubea (1024 * int k) (block_bytes tot k) 1024"
    "uint (get8 fwp ''blockId'' q) = int k mod 256"
    "fw_length q = tot" "fw_payload q = 1024" "\<not> fw_malformed q"
    "\<And>j. int j < block_bytes tot k \<Longrightarrow> fw_block_bytes q j = data (1024 * k + j)"
proof -
  let ?p = "upload_packet a b ubea tot data k" and ?xs = "upload_fields ubea tot data k"
  have len: "p_length ?p = 1064" by (simp add: upload_packet_def layout)
  have data: "p_data ?p = fill artnet_firmware_s ?xs (header ARTNET_FIRMWAREMASTER)"
    by (simp add: upload_packet_def upload_block_fields)
  have form: "\<exists>ubea tot data k. ?xs = upload_fields ubea tot data k" by blast
  note arrives = upload_form.arrives [OF form data]
  note byte = upload_form.byte [OF form data]
  show "p_type q = opcode ARTNET_FIRMWAREMASTER" "get8 artnet_poll_s ''verH'' q = 0"
    "get8 artnet_poll_s ''ver'' q = 14"
    using arrives len by (simp_all add: q_def)
  show "p_from q = a" by (simp add: q_def upload_packet_def)
  show "fw_type q = firmware_block_type ubea (1024 * int k) (block_bytes tot k) 1024"
    using byte [of "''type''"] len
    by (simp add: q_def fw_type_def layout) (simp add: upload_fields_def)
  show "uint (get8 fwp ''blockId'' q) = int k mod 256"
    using byte [of "''blockId''" "word_of_int (int k mod 256)"] len
    by (simp add: q_def layout) (simp add: upload_fields_def uint_word_of_int)
  have "get_n fwp ''length'' 4 q = artnet_misc_int_to_bytes (word_of_int (tot div 2))"
    using upload_form.bytes [OF form data, of "''length''" _ 4] len
    by (simp add: q_def layout) (simp add: upload_fields_def artnet_misc_int_to_bytes_def)
  then show l: "fw_length q = tot"
    using length_read [OF assms(1-3)] by (simp add: fw_length_def nbytes_to_32_int_to_bytes)
  show pl: "fw_payload q = 1024" by (simp add: q_def len fw_payload_def layout)
  show "\<not> fw_malformed q" using l pl assms(1) by (simp add: fw_malformed_def)
  show "fw_block_bytes q j = data (1024 * k + j)" if "int j < block_bytes tot k" for j
  proof -
    have "map_of ?xs ''data'' = Some (get_bytes data (1024 * k) (nat (block_bytes tot k)))"
      by (simp add: upload_fields_def)
    from upload_form.item [OF form data this, of j] that len show ?thesis
      by (simp add: q_def fw_block_bytes_def get_at_def layout block_bytes_def zless_nat_eq_int_zless)
  qed
qed

section \<open>The receiver\<close>

text \<open>Callbacks that leave the node alone when they are shown a packet; the others may do anything.\<close>

definition packet_observer :: "env \<Rightarrow> bool" where
  "packet_observer e \<longleftrightarrow> (\<forall>f p d n. snd (env_call e f (Packet_Arg p) d n) = n)"

lemma packet_observer_notify [simp]: "packet_observer e \<Longrightarrow> notify e c (Packet_Arg p) n = n"
  by (simp add: notify_def run_callback_def packet_observer_def split: option.split)

lemma fw_reply_fields [simp]:
  assumes "packet_observer e"
  shows "node_fw (snd (fw_reply e p code n)) = node_fw n"
    "callbacks (snd (fw_reply e p code n)) = callbacks n"
    "mallocs (snd (fw_reply e p code n)) = mallocs n"
  using assms
  by (simp_all add: fw_reply_def artnet_tx_firmware_reply_def send_new_def artnet_net_send_def Let_def)

text \<open>A node that has the first \<open>k\<close> blocks of an image of \<open>tot\<close> bytes from the controller \<open>a\<close>.\<close>

definition uploading :: "ip \<Rightarrow> int \<Rightarrow> int \<Rightarrow> mem \<Rightarrow> nat \<Rightarrow> node \<Rightarrow> bool" where
  "uploading a ubea tot data k n \<longleftrightarrow>
     fh (callbacks n (Packet_Cb ARTNET_FIRMWARE_HANDLER)) = None \<and>
     fw_peer (node_fw n) = a \<and> bytes_total (node_fw n) = tot \<and> expected_block (node_fw n) = int k \<and>
     fw_ubea (node_fw n) = c_bool (ubea \<noteq> 0) \<and>
     (\<exists>m. fw_data (node_fw n) = Some (tot, m) \<and> (\<forall>j < 1024 * k. m j = data j))"

text \<open>What the node's link to the network needs is the same in both states.\<close>

definition same_link :: "node \<Rightarrow> node \<Rightarrow> bool" where
  "same_link n m \<longleftrightarrow>
     mode m = mode n \<and> ip_addr m = ip_addr n \<and> sent m = sent n \<and> callbacks m = callbacks n"

lemma check_none:
  "fh (callbacks n (Packet_Cb h)) = None \<Longrightarrow> check_callback e n p h = (0, n)"
  by (simp add: check_callback_def)

lemma upload_begins:
  fixes a b :: ip and ubea tot :: int and data :: mem
  assumes "packet_observer e" "fh (callbacks n (Packet_Cb ARTNET_FIRMWARE_HANDLER)) = None"
    and "fw_peer (node_fw n) = 0" "env_malloc e (mallocs n)"
    and "1024 < tot" "even tot" "tot < 2 ^ 31"
  defines "q \<equiv> delivered (upload_packet a b ubea tot data 0)"
  shows "\<exists>m. handle_firmware e n q = fw_reply e q ARTNET_FIRMWARE_BLOCKGOOD m \<and>
    uploading a ubea tot data 1 m \<and> same_link n m"
proof -
  have pos: "0 < tot" "1024 * int 0 < tot" using assms(5) by simp_all
  note q = upload_arrival [where a = a and b = b and ubea = ubea and data = data,
    OF pos(1) assms(6,7) pos(2), folded q_def]
  have type: "fw_type q = (if ubea = 0 then ARTNET_FIRMWARE_FIRMFIRST else ARTNET_FIRMWARE_UBEAFIRST)"
    by (simp add: q firmware_block_type_def)
  have bytes: "\<And>j. j < 1024 \<Longrightarrow> fw_block_bytes q j = data j"
    using q(10) assms(5) by (simp add: block_bytes_def)
  show ?thesis
    using assms(1-5) q bytes
    by (auto simp: handle_firmware_def check_none type handle_firmware_first_def Let_def c_malloc_def
        artnet_gettime_ms_def upd_node_fw_def fw_begin_def fw_first_block_def fw_copy_def inside_def
        uploading_def c_bool_def memcpy_def min_def same_link_def)
qed

lemma block_id:
  "uint (get8 fwp ''blockId'' p) = int k mod 256 \<Longrightarrow> expected_block f = int k \<Longrightarrow> fw_block_id f p = int k"
  by (auto simp: fw_block_id_def Let_def)

lemma upload_continues:
  fixes a b :: ip and ubea tot :: int and data :: mem and k :: nat
  assumes "packet_observer e" "uploading a ubea tot data k n"
    and "1 \<le> k" "1024 * (int k + 1) \<le> tot" "even tot" "tot < 2 ^ 31"
  defines "q \<equiv> delivered (upload_packet a b ubea tot data k)"
  shows "\<exists>m. handle_firmware e n q = fw_reply e q ARTNET_FIRMWARE_BLOCKGOOD m \<and>
    uploading a ubea tot data (Suc k) m \<and> same_link n m"
proof -
  have pos: "0 < tot" "1024 * int k < tot" using assms(3,4) by simp_all
  note q = upload_arrival [where a = a and b = b and ubea = ubea and data = data,
    OF pos(1) assms(5,6) pos(2), folded q_def]
  have full: "block_bytes tot k = 1024" using assms(4) by (simp add: block_bytes_def)
  have type: "fw_type q = (if ubea = 0 then ARTNET_FIRMWARE_FIRMCONT else ARTNET_FIRMWARE_UBEACONT)"
    using assms(3) by (simp add: q full firmware_block_type_def)
  have bytes: "\<And>j. j < 1024 \<Longrightarrow> fw_block_bytes q j = data (1024 * k + j)"
    using q(10) by (simp add: full)
  from assms(2) obtain im where im: "fw_data (node_fw n) = Some (tot, im)"
    "\<And>j. j < 1024 * k \<Longrightarrow> im j = data j" and n: "expected_block (node_fw n) = int k"
    by (auto simp: uploading_def)
  have id: "fw_block_id (node_fw n) q = int k" using q(6) n by (rule block_id)
  have off: "fw_offset (node_fw n) q = 1024 * int k" by (simp add: fw_offset_def id)
  have blocks: "int k < fw_total_blocks q - 1"
    using assms(4) by (simp add: fw_total_blocks_def q(7))
  let ?im = "memcpy im (1024 * k) (fw_block_bytes q) 0 1024"
  have "?im j = data j" if "j < 1024 * Suc k" for j
  proof (cases "j < 1024 * k")
    case False
    then have "j = 1024 * k + (j - 1024 * k)" "j - 1024 * k < 1024" using that by simp_all
    then show ?thesis using bytes [of "j - 1024 * k"] by (simp add: memcpy_def)
  qed (simp add: memcpy_def im(2))
  note image = this
  define m where "m = upd_node_fw (\<lambda>f. f\<lparr>bytes_current := bytes_current f + 1024,
    expected_block := expected_block f + 1\<rparr>) (fw_copy q (1024 * int k) 1024 n)"
  have "uploading a ubea tot data (Suc k) m"
    using assms(2) image by (simp add: m_def uploading_def upd_node_fw_def fw_copy_def im(1) nat_mult_distrib)
  moreover have "handle_firmware e n q = fw_reply e q ARTNET_FIRMWARE_BLOCKGOOD m"
    using assms(2,4) q(2,7,8,9) id off blocks
    by (simp add: handle_firmware_def check_none uploading_def type handle_firmware_cont_def Let_def m_def)
  moreover have "same_link n m"
    by (simp add: m_def same_link_def upd_node_fw_def fw_copy_def inside_def)
  ultimately show ?thesis by blast
qed

text \<open>The last block: the callback is given the image, the upload is over, the controller is told.\<close>

lemma upload_ends:
  fixes a b :: ip and ubea tot :: int and data :: mem and k :: nat
  assumes "packet_observer e" "uploading a ubea tot data k n" "1 \<le> k" "int k = tot div 1024"
    and "tot mod 1024 \<noteq> 0" "even tot" "tot < 2 ^ 31"
  defines "q \<equiv> delivered (upload_packet a b ubea tot data k)"
  shows "\<exists>m im. handle_firmware e n q =
      fw_reply e q ARTNET_FIRMWARE_ALLGOOD (reset_firmware_upload
        (notify e firmware_c (Firmware_Arg (c_bool (ubea \<noteq> 0)) (tot, im) (tot div 2)) m)) \<and>
    (\<forall>j < nat tot. im j = data j) \<and> same_link n m"
proof -
  have k: "tot = 1024 * int k + tot mod 1024" "0 < tot mod 1024" "tot mod 1024 < 1024"
    using assms(4,5) pos_mod_sign [of 1024 tot] pos_mod_bound [of 1024 tot]
      mult_div_mod_eq [of 1024 tot] by (auto simp: less_le)
  have pos: "0 < tot" "1024 * int k < tot" using k by linarith+
  note q = upload_arrival [where a = a and b = b and ubea = ubea and data = data,
    OF pos(1) assms(6,7) pos(2), folded q_def]
  have part: "block_bytes tot k = tot mod 1024" using k by (simp add: block_bytes_def)
  have type: "fw_type q = (if ubea = 0 then ARTNET_FIRMWARE_FIRMLAST else ARTNET_FIRMWARE_UBEALAST)"
    using assms(3) k(3) by (simp add: q part firmware_block_type_def)
  have bytes: "\<And>j. int j < tot mod 1024 \<Longrightarrow> fw_block_bytes q j = data (1024 * k + j)"
    using q(10) by (simp add: part)
  from assms(2) obtain im where im: "fw_data (node_fw n) = Some (tot, im)"
    "\<And>j. j < 1024 * k \<Longrightarrow> im j = data j" and n: "expected_block (node_fw n) = int k"
    "bytes_total (node_fw n) = tot" "fw_ubea (node_fw n) = c_bool (ubea \<noteq> 0)" "fw_peer (node_fw n) = a"
    by (auto simp: uploading_def)
  have id: "fw_block_id (node_fw n) q = int k" using q(6) n(1) by (rule block_id)
  have off: "fw_offset (node_fw n) q = 1024 * int k" by (simp add: fw_offset_def id)
  have last: "fw_last_length (node_fw n) = tot mod 1024"
    using k by (simp add: fw_last_length_def n Let_def)
  have blocks: "int k = fw_total_blocks q - 1"
    using assms(4) by (simp add: fw_total_blocks_def q(7))
  let ?im = "memcpy im (1024 * k) (fw_block_bytes q) 0 (nat (tot mod 1024))"
  have image: "?im j = data j" if "j < nat tot" for j
  proof (cases "j < 1024 * k")
    case False
    then obtain i where i: "j = 1024 * k + i" using le_Suc_ex not_less by blast
    moreover have "int i < tot mod 1024" using that k(1) i by linarith
    ultimately show ?thesis using bytes [of i] by (simp add: memcpy_def zless_nat_eq_int_zless)
  qed (simp add: memcpy_def im(2))
  define m where "m = upd_node_fw (\<lambda>f. f\<lparr>bytes_current := bytes_current f + tot mod 1024\<rparr>)
    (fw_copy q (1024 * int k) (tot mod 1024) n)"
  have "fw_data (node_fw m) = Some (tot, ?im)" "bytes_total (node_fw m) = tot"
    "fw_ubea (node_fw m) = c_bool (ubea \<noteq> 0)"
    by (simp_all add: m_def upd_node_fw_def fw_copy_def im(1) n nat_mult_distrib)
  moreover have le: "\<not> 1024 < tot mod 1024" using k(3) by linarith
  moreover have "handle_firmware e n q =
      fw_reply e q ARTNET_FIRMWARE_ALLGOOD (reset_firmware_upload (fw_done e m))"
    using assms(2,4) q(2,7,8,9) id off blocks last k(2) le n
    by (simp add: handle_firmware_def check_none uploading_def type handle_firmware_last_def Let_def m_def)
  moreover have "same_link n m"
    by (simp add: m_def same_link_def upd_node_fw_def fw_copy_def inside_def)
  ultimately show ?thesis
    using image by (auto simp: fw_done_def Let_def)
qed

section \<open>Whole uploads\<close>

text \<open>The controller's blocks from number \<open>i\<close> on, below \<open>k\<close>, handed to the node one after the other.\<close>

definition hand_over :: "env \<Rightarrow> packet list \<Rightarrow> node \<Rightarrow> node" where
  "hand_over e ps n = fold (\<lambda>p n. snd (handle_firmware e n p)) ps n"

definition upload_blocks :: "ip \<Rightarrow> ip \<Rightarrow> int \<Rightarrow> int \<Rightarrow> mem \<Rightarrow> nat \<Rightarrow> packet list" where
  "upload_blocks a b ubea tot data k =
     map (\<lambda>i. delivered (upload_packet a b ubea tot data i)) [0..<k]"

lemma uploading_reply:
  "packet_observer e \<Longrightarrow> uploading a ubea tot data k (snd (fw_reply e p c n)) = uploading a ubea tot data k n"
  by (simp add: uploading_def)

lemma blocks_arrive:
  assumes "packet_observer e" "fh (callbacks n (Packet_Cb ARTNET_FIRMWARE_HANDLER)) = None"
    and "fw_peer (node_fw n) = 0" "env_malloc e (mallocs n)"
    and "1024 < tot" "even tot" "tot < 2 ^ 31" "1 \<le> k" "1024 * int k \<le> tot"
  shows "uploading a ubea tot data k (hand_over e (upload_blocks a b ubea tot data k) n)"
  using assms(8,9)
proof (induction k rule: nat_induct_at_least)
  case base
  let ?q = "delivered (upload_packet a b ubea tot data 0)"
  from upload_begins [OF assms(1-7), of a b ubea data] obtain m where
    "handle_firmware e n ?q = fw_reply e ?q ARTNET_FIRMWARE_BLOCKGOOD m"
    "uploading a ubea tot data 1 m" by blast
  then show ?case
    using uploading_reply [OF assms(1)] by (simp add: hand_over_def upload_blocks_def)
next
  case (Suc k)
  let ?x = "hand_over e (upload_blocks a b ubea tot data k) n"
  from Suc have "uploading a ubea tot data k ?x" by simp
  from upload_continues [OF assms(1) this Suc(1) _ assms(6,7)] Suc.prems
  obtain m where "handle_firmware e ?x (delivered (upload_packet a b ubea tot data k)) =
      fw_reply e (delivered (upload_packet a b ubea tot data k)) ARTNET_FIRMWARE_BLOCKGOOD m"
    "uploading a ubea tot data (Suc k) m"
    by (auto simp: algebra_simps)
  then show ?case using uploading_reply [OF assms(1)] by (simp add: hand_over_def upload_blocks_def)
qed

text \<open>C26: A node that accepts an upload and is handed the blocks of an image of more than 1024 bytes,
  not a multiple of 1024, in order, ends by giving its firmware callback exactly the image and its
  length in words; then it is free for another upload and has answered that all is good.  What the
  callback does is left open.\<close>

theorem firmware_image_arrives:
  assumes "packet_observer e" "fh (callbacks n (Packet_Cb ARTNET_FIRMWARE_HANDLER)) = None"
    and "fw_peer (node_fw n) = 0" "env_malloc e (mallocs n)"
    and "1024 < tot" "even tot" "tot < 2 ^ 31" "tot mod 1024 \<noteq> 0" "k = nat (tot div 1024)"
  shows "\<exists>p m im.
    p = delivered (upload_packet a b ubea tot data k) \<and>
    handle_firmware e (hand_over e (upload_blocks a b ubea tot data k) n) p =
      fw_reply e p ARTNET_FIRMWARE_ALLGOOD (reset_firmware_upload
        (notify e firmware_c (Firmware_Arg (c_bool (ubea \<noteq> 0)) (tot, im) (tot div 2)) m)) \<and>
    (\<forall>j < nat tot. im j = data j)"
proof -
  have k: "int k = tot div 1024" "1 \<le> k" "1024 * int k \<le> tot"
    using assms(5,9) mult_div_mod_eq [of 1024 tot] pos_mod_sign [of 1024 tot] by (simp_all, linarith)
  from blocks_arrive [OF assms(1-7) k(2,3)]
  have "uploading a ubea tot data k (hand_over e (upload_blocks a b ubea tot data k) n)" .
  from upload_ends [OF assms(1) this k(2,1) assms(8,6,7)] show ?thesis by blast
qed

theorem firmware_image_arrives_witness:
  "\<exists>p m im.
    p = delivered (upload_packet 1 2 0 1500 (\<lambda>j. of_nat j) 1) \<and>
    handle_firmware quiet_env (hand_over quiet_env (upload_blocks 1 2 0 1500 (\<lambda>j. of_nat j) 1) demo_node) p =
      fw_reply quiet_env p ARTNET_FIRMWARE_ALLGOOD (reset_firmware_upload
        (notify quiet_env firmware_c (Firmware_Arg 0 (1500, im) 750) m)) \<and>
    (\<forall>j < 1500. im j = of_nat j)"
proof -
  have "packet_observer quiet_env" "fw_peer (node_fw demo_node) = 0" "env_malloc quiet_env (mallocs demo_node)"
    by (simp_all add: packet_observer_def quiet_env_def demo_node_def zero_node_def no_firmware_def)
  from firmware_image_arrives [OF this(1) _ this(2,3), of 1500 1 1 2 0 "\<lambda>j. of_nat j"]
  show ?thesis by (simp add: no_callback_def c_bool_def)
qed

text \<open>C28: An image whose length is a multiple of 1024 bytes never completes: after its last block the
  node still waits, its buffer complete and its callback not called; and the controller, which has
  sent all its bytes, does nothing more when it is told that the block was good.\<close>

theorem full_blocks_never_complete:
  assumes "packet_observer e" "fh (callbacks n (Packet_Cb ARTNET_FIRMWARE_HANDLER)) = None"
    and "fw_peer (node_fw n) = 0" "env_malloc e (mallocs n)"
    and "2 \<le> k" "1024 * int k < 2 ^ 31"
    and "fh (callbacks c (Packet_Cb ARTNET_FIRMWARE_REPLY_HANDLER)) = None"
    and "find_entry_from_ip (nodes c) (p_from r) = Some i"
    and "transfer_at ubea (1024 * int k) data k (entry_fw c i)"
    and "get8 artnet_firmware_reply_s ''type'' r = ARTNET_FIRMWARE_BLOCKGOOD"
  shows "uploading a ubea (1024 * int k) data k
      (hand_over e (upload_blocks a b ubea (1024 * int k) data k) n) \<and>
    handle_firmware_reply e' c r = (ARTNET_EOK, c)"
proof -
  have "uploading a ubea (1024 * int k) data k
      (hand_over e (upload_blocks a b ubea (1024 * int k) data k) n)"
    using assms(5,6) by (intro blocks_arrive [OF assms(1-4)]) simp_all
  moreover have "handle_firmware_reply e' c r = (ARTNET_EOK, c)"
    using assms(7-10) by (simp add: handle_firmware_reply_def check_none transfer_at_def Let_def)
  ultimately show ?thesis by blast
qed

section \<open>The sender\<close>

text \<open>A socket that takes every datagram whole.\<close>

definition sends_whole :: "env \<Rightarrow> bool" where
  "sends_whole e \<longleftrightarrow> observer e \<and> (\<forall>k p. env_sendto e k p = p_length p)"

text \<open>The same of a node whose callbacks may act on what they are told, but not on packets.\<close>

definition wired :: "env \<Rightarrow> bool" where
  "wired e \<longleftrightarrow> packet_observer e \<and> (\<forall>k p. env_sendto e k p = p_length p)"

lemma observer_packets [simp]: "observer e \<Longrightarrow> packet_observer e"
  by (simp add: observer_def packet_observer_def)

lemma sends_whole_wired: "sends_whole e \<Longrightarrow> wired e"
  by (simp add: sends_whole_def wired_def)

lemma net_send_wired:
  assumes "wired e" "mode n = ARTNET_ON" "0 \<le> p_length p"
  shows "artnet_net_send e n p =
    (0, n\<lparr>sends := Suc (sends n), sent := sent n @ [p\<lparr>p_from := ip_addr n\<rparr>]\<rparr>)"
  using assms by (simp add: artnet_net_send_def Let_def wired_def)

lemma net_send_whole:
  assumes "sends_whole e" "mode n = ARTNET_ON" "0 \<le> p_length p"
  shows "artnet_net_send e n p =
    (0, n\<lparr>sends := Suc (sends n), sent := sent n @ [p\<lparr>p_from := ip_addr n\<rparr>]\<rparr>)"
  using assms by (simp add: artnet_net_send_def Let_def sends_whole_def)

definition sending :: "ip \<Rightarrow> nat \<Rightarrow> int \<Rightarrow> int \<Rightarrow> mem \<Rightarrow> nat \<Rightarrow> node \<Rightarrow> bool" where
  "sending b i ubea tot data k n \<longleftrightarrow>
     mode n = ARTNET_ON \<and> fh (callbacks n (Packet_Cb ARTNET_FIRMWARE_REPLY_HANDLER)) = None \<and>
     find_pos (\<lambda>x. b = x) (map ent_ip (entries (nodes n))) = Some i \<and>
     fw_peer (entry_fw n i) = b \<and> transfer_at ubea tot data k (entry_fw n i)"

lemma find_pos_map: "find_pos P (map f xs) = find_pos (P \<circ> f) xs"
  by (induction xs) simp_all

lemma find_entry_map: "find_entry_from_ip nl b = find_pos (\<lambda>x. b = x) (map ent_ip (entries nl))"
  by (simp add: find_entry_from_ip_def find_pos_map o_def)

lemma transfer_packet:
  assumes "transfer_at ubea tot data k f" "1024 * int k < tot"
  shows "firmware_packet_data f = upload_block ubea tot data k"
proof -
  from assms(1) obtain m where m: "fw_data f = Some (tot, m)" "\<And>j. j < nat tot \<Longrightarrow> m j = data j"
    by (auto simp: transfer_at_def)
  have "min (1024 * int k) tot = 1024 * int k" using assms(2) by simp
  moreover have "2 * nat (512 * int k) = 1024 * k" by simp
  moreover have "get_bytes m (1024 * k) (nat (min (tot - 1024 * int k) 1024)) =
      get_bytes data (1024 * k) (nat (min (tot - 1024 * int k) 1024))"
    by (rule get_bytes_eqI) (use m(2) in \<open>auto simp: zless_nat_eq_int_zless\<close>)
  ultimately show ?thesis
    using assms(1) m(1)
    by (simp add: upload_block_def firmware_packet_data_def fw_bytes_def transfer_at_def Let_def)
qed

lemma upd_fw_fields [simp]:
  "mode (upd_fw i f n) = mode n" "callbacks (upd_fw i f n) = callbacks n"
  "ip_addr (upd_fw i f n) = ip_addr n" "sent (upd_fw i f n) = sent n" "clk (upd_fw i f n) = clk n"
  "sends (upd_fw i f n) = sends n"
  "map ent_ip (entries (nodes (upd_fw i f n))) = map ent_ip (entries (nodes n))"
  "i < length (entries (nodes n)) \<Longrightarrow> entry_fw (upd_fw i f n) i = f (entry_fw n i)"
proof -
  show "map ent_ip (entries (nodes (upd_fw i f n))) = map ent_ip (entries (nodes n))"
    by (cases "i < length (entries (nodes n))")
       (simp_all add: upd_fw_def upd_entry_def map_update list_update_same_conv list_update_beyond)
qed (simp_all add: upd_fw_def upd_entry_def entry_fw_def)

lemma tx_block:
  assumes "wired e" "sending b i ubea tot data k n" "1024 * int k < tot"
  defines "n' \<equiv> snd (artnet_tx_firmware_packet e n i)"
  shows "sent n' = sent n @ [upload_packet (ip_addr n) b ubea tot data k]"
    "sending b i ubea tot data (Suc k) n'" "ip_addr n' = ip_addr n"
    "callbacks n' = callbacks n" "fw_callback (entry_fw n' i) = fw_callback (entry_fw n i)"
    "fw_user_data (entry_fw n' i) = fw_user_data (entry_fw n i)"
proof -
  have s: "mode n = ARTNET_ON" "transfer_at ubea tot data k (entry_fw n i)" "fw_peer (entry_fw n i) = b"
    "fh (callbacks n (Packet_Cb ARTNET_FIRMWARE_REPLY_HANDLER)) = None"
    "find_pos (\<lambda>x. b = x) (map ent_ip (entries (nodes n))) = Some i"
    using assms(2) by (simp_all add: sending_def)
  have i: "i < length (entries (nodes n))" using find_pos_Some [OF s(5)] by simp
  have e: "packet_observer e" "\<And>k p. env_sendto e k p = p_length p" using assms(1) by (simp_all add: wired_def)
  define len where "len = min (bytes_total (entry_fw n i) - bytes_current (entry_fw n i)) 1024"
  define pk where "pk = upload_packet (ip_addr n) b ubea tot data k"
  define m where "m = (inside (0 \<le> len \<and> 0 \<le> bytes_current (entry_fw n i) \<and>
    2 * (bytes_current (entry_fw n i) div 2) + len \<le> fw_capacity (entry_fw n i)) n)
      \<lparr>sends := Suc (sends n), sent := sent n @ [pk]\<rparr>"
  have m: "send_new e (inside (0 \<le> len \<and> 0 \<le> bytes_current (entry_fw n i) \<and>
      2 * (bytes_current (entry_fw n i) div 2) + len \<le> fw_capacity (entry_fw n i)) n)
      (fw_peer (entry_fw n i)) ARTNET_FIRMWAREMASTER (size_of artnet_firmware_s)
      (firmware_packet_data (entry_fw n i)) = (0, m)"
    using s(1,3) e
    by (simp add: send_new_def artnet_net_send_def Let_def m_def pk_def upload_packet_def new_packet_def
        transfer_packet [OF s(2) assms(3)] layout)
  have n': "n' = upd_fw i (\<lambda>f. f\<lparr>last_time := env_time e (clk n), expected_block := (expected_block f + 1) mod 256\<rparr>)
      ((upd_fw i (\<lambda>f. f\<lparr>bytes_current := bytes_current f + len\<rparr>) m)\<lparr>clk := Suc (clk n)\<rparr>)"
    using m by (simp add: n'_def artnet_tx_firmware_packet_def Let_def len_def artnet_gettime_ms_def)
      (simp add: m_def)
  show "sent n' = sent n @ [upload_packet (ip_addr n) b ubea tot data k]" "ip_addr n' = ip_addr n"
    "callbacks n' = callbacks n"
    by (simp_all add: n') (simp_all add: m_def pk_def)
  have fw: "entry_fw n' i = (entry_fw n i)\<lparr>bytes_current := bytes_current (entry_fw n i) + len,
      last_time := env_time e (clk n), expected_block := (expected_block (entry_fw n i) + 1) mod 256\<rparr>"
    using i by (simp add: n' m_def upd_fw_def upd_entry_def entry_fw_def)
  show "fw_callback (entry_fw n' i) = fw_callback (entry_fw n i)"
    "fw_user_data (entry_fw n' i) = fw_user_data (entry_fw n i)"
    by (simp_all add: fw)
  have "int (Suc k) mod 256 = (int k mod 256 + 1) mod 256" by (simp add: mod_simps add.commute)
  then have "transfer_at ubea tot data (Suc k) (entry_fw n' i)"
    using s(2) assms(3) by (auto simp: transfer_at_def fw len_def min_def)
  then show "sending b i ubea tot data (Suc k) n'"
    using s by (simp add: sending_def fw) (simp add: n' m_def)
qed

lemma good_reply_sends:
  assumes "sending b i ubea tot data k n" "1024 * int k < tot"
    and "p_from r = b" "get8 artnet_firmware_reply_s ''type'' r = ARTNET_FIRMWARE_BLOCKGOOD"
  shows "handle_firmware_reply e n r = artnet_tx_firmware_packet e n i"
proof -
  have "bytes_total (entry_fw n i) = tot" "bytes_current (entry_fw n i) = 1024 * int k" "0 < tot"
    using assms(1,2) by (auto simp: sending_def transfer_at_def)
  with assms show ?thesis
    by (simp add: handle_firmware_reply_def check_none sending_def find_entry_map Let_def)
qed

lemma good_replies_send:
  assumes "sends_whole e" "1024 * int (length rs) < tot"
    and "\<forall>r \<in> set rs. p_from r = b \<and> get8 artnet_firmware_reply_s ''type'' r = ARTNET_FIRMWARE_BLOCKGOOD"
    and "sending b i ubea tot data 1 n"
  shows "sending b i ubea tot data (Suc (length rs)) (fold (\<lambda>r n. snd (handle_firmware_reply e n r)) rs n) \<and>
    ip_addr (fold (\<lambda>r n. snd (handle_firmware_reply e n r)) rs n) = ip_addr n \<and>
    sent (fold (\<lambda>r n. snd (handle_firmware_reply e n r)) rs n) =
      sent n @ map (upload_packet (ip_addr n) b ubea tot data) [1..<Suc (length rs)]"
  using assms(2,3)
proof (induction rs rule: rev_induct)
  case (snoc r rs)
  let ?x = "fold (\<lambda>r n. snd (handle_firmware_reply e n r)) rs n"
  have x: "sending b i ubea tot data (Suc (length rs)) ?x" "ip_addr ?x = ip_addr n"
    "sent ?x = sent n @ map (upload_packet (ip_addr n) b ubea tot data) [1..<Suc (length rs)]"
    using snoc by simp_all
  have k: "1024 * int (Suc (length rs)) < tot" using snoc.prems(1) by simp
  from good_reply_sends [OF x(1) k, of r] snoc.prems(2)
    tx_block [OF sends_whole_wired [OF assms(1)] x(1) k] x(2,3)
  show ?case by simp
qed (use assms(4) in simp)

text \<open>The call that starts an upload.\<close>

lemma upload_started:
  fixes f :: "fnptr option" and data :: mem and ubea :: int and user :: userdata
  assumes "wired e" "env_malloc e (mallocs c)" "mode c = ARTNET_ON" "is_controller c"
    and "fh (callbacks c (Packet_Cb ARTNET_FIRMWARE_REPLY_HANDLER)) = None"
    and "find_private_entry c ent = Some i" "b = ent_ip (entries (nodes c) ! i)"
    and "find_entry_from_ip (nodes c) b = Some i" "0 < len" "len < 2 ^ 30"
  defines "c' \<equiv> snd (artnet_send_firmware e c ent ubea data len f user)"
  shows "sending b i ubea (2 * len) data 1 c'"
    "sent c' = sent c @ [upload_packet (ip_addr c) b ubea (2 * len) data 0]"
    "ip_addr c' = ip_addr c" "callbacks c' = callbacks c"
    "fw_callback (entry_fw c' i) = f" "fw_user_data (entry_fw c' i) = user"
proof -
  let ?m = "upd_fw i (begin_upload (memcpy (env_garbage e (mallocs c)) 0 data 0 (nat (2 * len))) (2 * len)
      b ubea f user) (snd (c_malloc e c))"
  have i: "i < length (entries (nodes c))"
    using assms(8) by (auto simp: find_entry_from_ip_def dest: find_pos_Some)
  have "to_int32 (len * 2) = 2 * len" using assms(9,10) by (subst to_int32_id) simp_all
  then have start: "c' = snd (artnet_tx_firmware_packet e ?m i)"
    using assms(2-4,6,7) by (simp add: c'_def artnet_send_firmware_def Let_def case_prod_beta)
  have m: "ip_addr ?m = ip_addr c" "sent ?m = sent c" "mode ?m = ARTNET_ON" "callbacks ?m = callbacks c"
    "map ent_ip (entries (nodes ?m)) = map ent_ip (entries (nodes c))"
    "entry_fw ?m i = begin_upload (memcpy (env_garbage e (mallocs c)) 0 data 0 (nat (2 * len))) (2 * len)
      b ubea f user (entry_fw c i)"
    using assms(3) i by (simp_all add: c_malloc_def) (simp add: entry_fw_def)
  then have "sending b i ubea (2 * len) data 0 ?m"
    using assms(5,8,9) by (simp add: sending_def transfer_at_def begin_upload_def find_entry_map memcpy_def)
  from tx_block [OF assms(1) this, folded start] assms(9) m
  show "sending b i ubea (2 * len) data 1 c'"
    "sent c' = sent c @ [upload_packet (ip_addr c) b ubea (2 * len) data 0]"
    "ip_addr c' = ip_addr c" "callbacks c' = callbacks c"
    "fw_callback (entry_fw c' i) = f" "fw_user_data (entry_fw c' i) = user"
    by (simp_all add: begin_upload_def)
qed

text \<open>An upload that is started sends the first block of the image to the node, and each answer
  that a block was good makes it send the next one, in order and without a gap, as long as there are
  bytes left.\<close>

theorem upload_sends_blocks:
  assumes "sends_whole e" "env_malloc e (mallocs c)" "mode c = ARTNET_ON" "is_controller c"
    and "fh (callbacks c (Packet_Cb ARTNET_FIRMWARE_REPLY_HANDLER)) = None"
    and "find_private_entry c ent = Some i" "b = ent_ip (entries (nodes c) ! i)"
    and "find_entry_from_ip (nodes c) b = Some i" "0 < len" "len < 2 ^ 30"
    and "\<forall>r \<in> set rs. p_from r = b \<and> get8 artnet_firmware_reply_s ''type'' r = ARTNET_FIRMWARE_BLOCKGOOD"
    and "1024 * int (length rs) < 2 * len"
  shows "sent (fold (\<lambda>r c. snd (handle_firmware_reply e c r)) rs
      (snd (artnet_send_firmware e c ent ubea data len f user))) =
    sent c @ map (upload_packet (ip_addr c) b ubea (2 * len) data) [0..<Suc (length rs)]"
proof -
  note started = upload_started [OF sends_whole_wired [OF assms(1)] assms(2-10)]
  from good_replies_send [OF assms(1,12,11) started(1)] started(2,3) show ?thesis
    by (simp add: upt_conv_Cons del: upt_Suc)
qed

definition demo_sender :: node where
  "demo_sender = found_node\<lparr>node_type := ARTNET_SRV\<rparr>"

lemma demo_sender_fields [simp]:
  "mode demo_sender = ARTNET_ON" "callbacks demo_sender = (\<lambda>_. no_callback)" "is_controller demo_sender"
  "ip_addr demo_sender = 0x0200000A" "sent demo_sender = []"
  "map ent_ip (entries (nodes demo_sender)) = [0x0200000A]"
  "ent_ip (entries (nodes demo_sender) ! 0) = 0x0200000A"
  "find_private_entry demo_sender (Some (pub (entries (nodes demo_sender) ! 0))) = Some 0"
  "find_entry_from_ip (nodes demo_sender) 0x0200000A = Some 0"
  by (simp_all add: demo_sender_def is_controller_def found_node_entries find_private_entry_def
      find_entry_from_ip_def) (simp add: found_node_update nl_update_simps Let_def
      case_prod_beta artnet_gettime_ms_def NL_WRITE_END_def c_malloc_def split: option.split)

theorem upload_sends_blocks_witness:
  "map (\<lambda>p. uint (get8 fwp ''blockId'' (delivered p)))
     (sent (snd (handle_firmware_reply quiet_env
       (snd (artnet_send_firmware quiet_env demo_sender (Some (pub (entries (nodes demo_sender) ! 0)))
          0 (\<lambda>j. of_nat j) 700 None 0))
       \<lparr>p_length = 36, p_from = 0x0200000A, p_to = 0, p_type = 0, p_data = zero_mem\<rparr>))) = [0, 1]"
proof -
  have "sends_whole quiet_env" by (simp add: sends_whole_def) (simp add: quiet_env_def)
  moreover have "env_malloc quiet_env k" for k by (simp add: quiet_env_def)
  moreover have "uint (get8 fwp ''blockId'' (delivered (upload_packet x y 0 1400 d k))) = int k"
    if "k < 2" for x y d k
    using that upload_arrival(6) [where tot = 1400 and k = k] by simp
  ultimately show ?thesis
    using upload_sends_blocks [where e = quiet_env and c = demo_sender and i = 0 and len = 700 and user = 0
        and ent = "Some (pub (entries (nodes demo_sender) ! 0))" and b = "0x0200000A" and f = None
        and rs = "[\<lparr>p_length = 36, p_from = 0x0200000A, p_to = 0, p_type = 0, p_data = zero_mem\<rparr>]"
        and ubea = 0 and data = "\<lambda>j. of_nat j"]
    by (simp add: no_callback_def get8_def zero_mem_def)
qed

definition finished_sender :: node where
  "finished_sender = demo_sender\<lparr>nodes := (nodes demo_sender)\<lparr>entries :=
     [(entries (nodes demo_sender) ! 0)\<lparr>firmware := no_firmware\<lparr>fw_data := Some (2048, zero_mem),
        bytes_total := 2048, bytes_current := 2048, expected_block := 2\<rparr>\<rparr>]\<rparr>\<rparr>"

theorem full_blocks_never_complete_witness:
  "fw_peer (node_fw (hand_over quiet_env (upload_blocks 1 2 0 2048 zero_mem 2) demo_node)) = 1 \<and>
   handle_firmware_reply quiet_env finished_sender
     \<lparr>p_length = 36, p_from = 0x0200000A, p_to = 0, p_type = 0, p_data = zero_mem\<rparr> =
     (ARTNET_EOK, finished_sender)"
proof -
  have "packet_observer quiet_env" "fw_peer (node_fw demo_node) = 0" "env_malloc quiet_env (mallocs demo_node)"
    by (simp_all add: packet_observer_def quiet_env_def demo_node_def zero_node_def no_firmware_def)
  moreover have "transfer_at 0 2048 zero_mem 2 (entry_fw finished_sender 0)"
    "find_entry_from_ip (nodes finished_sender) 0x0200000A = Some 0"
    by (simp_all add: transfer_at_def finished_sender_def entry_fw_def no_firmware_def
        find_entry_from_ip_def)
  ultimately show ?thesis
    using full_blocks_never_complete [where e = quiet_env and e' = quiet_env and n = demo_node and k = 2
        and c = finished_sender and i = 0 and ubea = 0 and data = zero_mem and a = 1 and b = 2
        and r = "\<lparr>p_length = 36, p_from = 0x0200000A, p_to = 0, p_type = 0, p_data = zero_mem\<rparr>"]
    by (simp add: no_callback_def get8_def zero_mem_def uploading_def finished_sender_def)
qed

section \<open>Images of a single block\<close>

text \<open>C29: An upload of one block only is answered with success, but the node does not forget it: until
  the 30 s have passed it refuses the first block of every other upload, from whoever it comes.\<close>

theorem single_block_upload_stays_busy:
  assumes "observer e" "fh (callbacks n (Packet_Cb ARTNET_FIRMWARE_HANDLER)) = None"
    and "fw_peer (node_fw n) = 0" "env_malloc e (mallocs n)" "a \<noteq> 0"
    and "0 < tot" "tot \<le> 1024" "even tot"
    and "fw_type p = ARTNET_FIRMWARE_FIRMFIRST \<or> fw_type p = ARTNET_FIRMWARE_UBEAFIRST"
  shows "\<exists>m. handle_firmware e n (delivered (upload_packet a b ubea tot data 0)) =
      fw_reply e (delivered (upload_packet a b ubea tot data 0)) ARTNET_FIRMWARE_ALLGOOD m \<and>
    fw_peer (node_fw m) = a \<and> bytes_current (node_fw m) = tot \<and>
    handle_firmware e' m p = fw_reply e' p ARTNET_FIRMWARE_FAIL m"
proof -
  define q where "q = delivered (upload_packet a b ubea tot data 0)"
  have tot: "tot < 2 ^ 31" "1024 * int 0 < tot" using assms(6,7) by simp_all
  note arrival = upload_arrival [where a = a and b = b and ubea = ubea and data = data,
    OF assms(6,8) tot, folded q_def]
  have type: "fw_type q = (if ubea = 0 then ARTNET_FIRMWARE_FIRMFIRST else ARTNET_FIRMWARE_UBEAFIRST)"
    by (simp add: arrival firmware_block_type_def)
  have "handle_firmware e n q = handle_firmware_first e n q"
    by (auto simp: handle_firmware_def check_none assms(2) type)
  moreover have "\<exists>m. handle_firmware_first e n q = fw_reply e q ARTNET_FIRMWARE_ALLGOOD m \<and>
      fw_peer (node_fw m) = a \<and> bytes_current (node_fw m) = tot \<and> callbacks m = callbacks n"
    using assms(1,3,4,7) arrival(2,7,8,9)
    by (simp add: handle_firmware_first_def Let_def c_malloc_def artnet_gettime_ms_def upd_node_fw_def
        fw_begin_def fw_first_block_def fw_copy_def fw_capacity_def fw_done_def min_def)
      (intro conjI impI; rule exI, rule conjI, rule refl, simp)
  ultimately obtain m where m: "handle_firmware e n q = fw_reply e q ARTNET_FIRMWARE_ALLGOOD m"
    "fw_peer (node_fw m) = a" "bytes_current (node_fw m) = tot" "callbacks m = callbacks n"
    by auto
  have "handle_firmware e' m p = fw_reply e' p ARTNET_FIRMWARE_FAIL m"
    using assms(2,5,9) m(2,4) by (auto simp: handle_firmware_def check_none handle_firmware_first_def)
  with m show ?thesis by (auto simp: q_def)
qed

theorem single_block_upload_stays_busy_witness:
  "\<exists>m. handle_firmware quiet_env demo_node (delivered (upload_packet 1 2 0 100 zero_mem 0)) =
      fw_reply quiet_env (delivered (upload_packet 1 2 0 100 zero_mem 0)) ARTNET_FIRMWARE_ALLGOOD m \<and>
    handle_firmware quiet_env m (delivered (upload_packet 9 2 0 600 zero_mem 0)) =
      fw_reply quiet_env (delivered (upload_packet 9 2 0 600 zero_mem 0)) ARTNET_FIRMWARE_FAIL m"
proof -
  have "fw_peer (node_fw demo_node) = 0" "env_malloc quiet_env (mallocs demo_node)"
    by (simp_all add: quiet_env_def demo_node_def zero_node_def no_firmware_def)
  moreover have "fw_type (delivered (upload_packet 9 2 0 600 zero_mem 0)) = ARTNET_FIRMWARE_FIRMFIRST"
    using upload_arrival(5) [of 600 0] by (simp add: firmware_block_type_def)
  ultimately show ?thesis
    using single_block_upload_stays_busy [OF observer_quiet, where n = demo_node and a = 1 and b = 2
        and tot = 100 and ubea = 0 and data = zero_mem and e' = quiet_env
        and p = "delivered (upload_packet 9 2 0 600 zero_mem 0)"]
    by (auto simp: no_callback_def)
qed

end
