(* ===== verification/Upload_Link.thy ===== *)
theory Upload_Link
  imports Firmware_Properties
begin

text \<open>
  A controller and a node on one network: the datagrams that each has sent are read by the other,
  in order, one at a time, and either may be next.  An upload that the controller starts runs by
  itself to its end, whatever the order; the two state machines of \<open>artnet/receive.c\<close> are composed
  with the packets that \<open>artnet/transmit.c\<close> makes and the checks that these pass when they are read.
\<close>

section \<open>The answer to a block\<close>

definition answer_fields :: "u8 \<Rightarrow> (string \<times> u8 list) list" where
  "answer_fields code = [(''type'', [code])]"

definition answer_packet :: "ip \<Rightarrow> ip \<Rightarrow> u8 \<Rightarrow> packet" where
  "answer_packet b a code =
     \<lparr>p_length = size_of artnet_firmware_reply_s, p_from = b, p_to = a,
      p_type = opcode ARTNET_FIRMWAREREPLY,
      p_data = fill artnet_firmware_reply_s (answer_fields code) (header ARTNET_FIRMWAREREPLY)\<rparr>"

interpretation answer_form: wire_form artnet_firmware_reply_s ARTNET_FIRMWAREREPLY
  "\<lambda>xs. \<exists>code. xs = answer_fields code"
  by unfold_locales (auto simp: answer_fields_def after_header_def fits_layout_def layout
      artnet_firmware_reply_s_def simp del: opcode.simps)

lemma answer_arrival:
  fixes a b :: ip and code :: u8
  defines "q \<equiv> delivered (answer_packet b a code)"
  shows "packet_is_valid q" "p_type q = opcode ARTNET_FIRMWAREREPLY" "p_from q = b"
    "get8 artnet_firmware_reply_s ''type'' q = code"
proof -
  define p where "p = answer_packet b a code"
  have p: "p_data p = fill artnet_firmware_reply_s (answer_fields code) (header ARTNET_FIRMWAREREPLY)"
    "p_length p = 36" "p_from p = b"
    by (simp_all add: p_def answer_packet_def layout)
  have form: "\<exists>c. answer_fields code = answer_fields c" by blast
  have q: "q = delivered p" by (simp add: q_def p_def)
  show "p_type q = opcode ARTNET_FIRMWAREREPLY"
    unfolding q using answer_form.arrives(1) [OF form p(1)] p(2) by simp
  show "p_from q = b" by (simp add: q p)
  show "get8 artnet_firmware_reply_s ''type'' q = code"
    unfolding q using answer_form.byte [OF form p(1), of "''type''" code] p(2)
    by (simp add: answer_fields_def layout)
  show "packet_is_valid q"
    unfolding q using answer_form.accepted [OF form p(1), of 36] p(2) by (simp add: layout)
qed

lemma upload_block_accepted:
  assumes "0 < tot" "even tot" "tot < 2 ^ 31" "1024 * int k < tot"
  shows "packet_is_valid (delivered (upload_packet a b ubea tot data k))"
proof -
  define p where "p = upload_packet a b ubea tot data k"
  have p: "p_data p = fill artnet_firmware_s (upload_fields ubea tot data k) (header ARTNET_FIRMWAREMASTER)"
    "p_length p = 1064"
    by (simp_all add: p_def upload_packet_def upload_block_fields layout)
  have form: "\<exists>v t d j. upload_fields ubea tot data k = upload_fields v t d j" by blast
  have "packet_is_valid (delivered p)"
    using upload_form.accepted [OF form p(1), of 40] p(2) by (simp add: layout)
  then show ?thesis by (simp add: p_def)
qed

lemma fw_reply_sent:
  assumes "wired e" "mode n = ARTNET_ON"
  shows "snd (fw_reply e p code n) =
    n\<lparr>sends := Suc (sends n), sent := sent n @ [answer_packet (ip_addr n) (p_from p) code]\<rparr>"
  using net_send_wired [OF assms, of "new_packet (p_from p) (opcode ARTNET_FIRMWAREREPLY)
      (size_of artnet_firmware_reply_s) (fill artnet_firmware_reply_s [(''type'', [code])] (header ARTNET_FIRMWAREREPLY))"]
  by (simp add: fw_reply_def artnet_tx_firmware_reply_def send_new_def answer_packet_def answer_fields_def
      new_packet_def layout del: opcode.simps)

lemma fw_reply_report: "wired e \<Longrightarrow> report_code (snd (fw_reply e p code n)) = report_code n"
  by (cases "mode n = ARTNET_ON")
    (simp_all add: fw_reply_sent, simp add: fw_reply_def artnet_tx_firmware_reply_def send_new_def artnet_net_send_def)

section \<open>The link\<close>

text \<open>The two nodes, and how many of the datagrams that each has sent are off the wire.\<close>

record link =
  ctl :: node
  dev :: node
  from_ctl :: nat
  from_dev :: nat

text \<open>
  One datagram is read: what \<open>artnet_read\<close> does with it when it is for this node, with the
  packet it starts from.
\<close>

definition read_datagram :: "env \<Rightarrow> packet \<Rightarrow> node \<Rightarrow> node" where
  "read_datagram e p n =
     (if p_to p \<noteq> ip_addr n then n
      else
        (let q = snd (artnet_net_recv n (datagram_of p)
                   \<lparr>p_length = 0, p_from = 0, p_to = 0, p_type = 0, p_data = zero_mem\<rparr>);
             (t, q') = get_type q
         in if MIN_PACKET_SIZE \<le> p_length q \<and> t \<noteq> 0 then snd (handle e n q') else n))"

inductive link_step :: "env \<Rightarrow> env \<Rightarrow> link \<Rightarrow> link \<Rightarrow> bool" for e e' where
  to_dev: "from_ctl l < length (sent (ctl l)) \<Longrightarrow>
    link_step e e' l (l\<lparr>dev := read_datagram e' (sent (ctl l) ! from_ctl l) (dev l), from_ctl := Suc (from_ctl l)\<rparr>)"
| to_ctl: "from_dev l < length (sent (dev l)) \<Longrightarrow>
    link_step e e' l (l\<lparr>ctl := read_datagram e (sent (dev l) ! from_dev l) (ctl l), from_dev := Suc (from_dev l)\<rparr>)"

inductive_simps link_stepE: "link_step e e' l x"

text \<open>A link with one datagram on it can do one thing only.\<close>

lemma one_to_dev:
  assumes "from_dev l = length (sent (dev l))" "sent (ctl l) = ps @ [p]" "from_ctl l = length ps"
    and "d = read_datagram e' p (dev l)"
  shows "link_step e e' l x = (x = l\<lparr>dev := d, from_ctl := Suc (length ps)\<rparr>)"
  using assms by (simp add: link_stepE nth_append)

lemma one_to_ctl:
  assumes "from_ctl l = length (sent (ctl l))" "sent (dev l) = ps @ [p]" "from_dev l = length ps"
    and "c = read_datagram e p (ctl l)"
  shows "link_step e e' l x = (x = l\<lparr>ctl := c, from_dev := Suc (length ps)\<rparr>)"
  using assms by (simp add: link_stepE nth_append)

text \<open>A valid packet for the node goes to its handler.\<close>

definition unheard :: "node \<Rightarrow> bool" where
  "unheard n \<longleftrightarrow> fh (callbacks n (Packet_Cb ARTNET_RECV_HANDLER)) = None"

lemma unheard_dispatch:
  assumes "unheard n" "packet_is_valid p" "p_type p = opcode t"
  shows "snd (handle e n p) = dispatch t e n p"
  using assms by (simp add: handle_def packet_is_valid_def check_none unheard_def del: opcode.simps)

lemma read_dispatches:
  assumes "unheard n" "p_to p = ip_addr n" "p_from p \<noteq> ip_addr n" "ntohl (p_from p) \<noteq> LOOPBACK_IP"
    and "MIN_PACKET_SIZE \<le> p_length p" "p_length p \<le> int sizeof_union"
    and "packet_is_valid (delivered p)" "p_type (delivered p) = opcode t"
  shows "read_datagram e p n = dispatch t e n (delivered p)"
proof -
  have "p_type (delivered p) \<noteq> 0" using assms(8) by (cases t) simp_all
  moreover have "0 \<le> p_length p" "nat (p_length p) \<le> sizeof_union" using assms(5,6) by simp_all
  ultimately obtain r where r: "artnet_net_recv n (datagram_of p)
      \<lparr>p_length = 0, p_from = 0, p_to = 0, p_type = 0, p_data = zero_mem\<rparr> = (ARTNET_EOK, r)"
    "snd (get_type r) = (delivered p)\<lparr>p_to := 0\<rparr>" "fst (get_type r) = p_type (delivered p)"
    using recv_delivered [OF assms(3,4), of "\<lparr>p_length = 0, p_from = 0, p_to = 0, p_type = 0, p_data = zero_mem\<rparr>"]
    by auto
  have "p_to (delivered p) = 0" by (simp add: delivered_def)
  then have same: "snd (get_type r) = delivered p" using r(2) by simp
  then have "p_length r = p_length p" by (metis get_type_fields(1) delivered_fields(1))
  moreover note unheard_dispatch [OF assms(1,7,8), of e]
  ultimately show ?thesis
    using assms(2,5) r(1,3) same \<open>p_type (delivered p) \<noteq> 0\<close>
    by (simp add: read_datagram_def case_prod_beta Let_def)
qed

section \<open>An upload on the link\<close>

text \<open>The controller, the node, its place in the controller's list and its callbacks; the image; and
  what the controller wants called at the end.\<close>

record upload =
  up_ctl :: ip
  up_dev :: ip
  up_place :: nat
  up_cbs :: "callback_name \<Rightarrow> callback"
  up_ubea :: int
  up_bytes :: int
  up_image :: mem
  up_call :: "fnptr option"
  up_user :: userdata

abbreviation "block_of u k \<equiv> upload_packet (up_ctl u) (up_dev u) (up_ubea u) (up_bytes u) (up_image u) k"
abbreviation "answer_of u code \<equiv> answer_packet (up_dev u) (up_ctl u) code"

definition upload_ok :: "upload \<Rightarrow> bool" where
  "upload_ok u \<longleftrightarrow>
     up_ctl u \<noteq> up_dev u \<and> ntohl (up_ctl u) \<noteq> LOOPBACK_IP \<and> ntohl (up_dev u) \<noteq> LOOPBACK_IP \<and>
     1024 < up_bytes u \<and> up_bytes u mod 1024 \<noteq> 0 \<and> even (up_bytes u) \<and> up_bytes u < 2 ^ 31 \<and>
     fh (up_cbs u (Packet_Cb ARTNET_RECV_HANDLER)) = None \<and>
     fh (up_cbs u (Packet_Cb ARTNET_FIRMWARE_HANDLER)) = None"

text \<open>The controller has sent the first \<open>k\<close> blocks; the node has taken them.\<close>

definition ctl_at :: "upload \<Rightarrow> nat \<Rightarrow> node \<Rightarrow> bool" where
  "ctl_at u k n \<longleftrightarrow>
     sending (up_dev u) (up_place u) (up_ubea u) (up_bytes u) (up_image u) k n \<and>
     unheard n \<and> ip_addr n = up_ctl u \<and>
     fw_callback (entry_fw n (up_place u)) = up_call u \<and> fw_user_data (entry_fw n (up_place u)) = up_user u"

definition dev_at :: "env \<Rightarrow> upload \<Rightarrow> nat \<Rightarrow> node \<Rightarrow> bool" where
  "dev_at e u k n \<longleftrightarrow>
     mode n = ARTNET_ON \<and> ip_addr n = up_dev u \<and> callbacks n = up_cbs u \<and>
     (if k = 0 then fw_peer (node_fw n) = 0 \<and> env_malloc e (mallocs n)
      else uploading (up_ctl u) (up_ubea u) (up_bytes u) (up_image u) k n)"

text \<open>Block \<open>k\<close> is on its way; the answer to the last of \<open>k\<close> blocks is.\<close>

definition block_out :: "env \<Rightarrow> upload \<Rightarrow> nat \<Rightarrow> link \<Rightarrow> bool" where
  "block_out e u k l \<longleftrightarrow>
     (\<exists>ps. sent (ctl l) = ps @ [block_of u k] \<and> from_ctl l = length ps) \<and>
     from_dev l = length (sent (dev l)) \<and> ctl_at u (Suc k) (ctl l) \<and> dev_at e u k (dev l)"

definition answer_out :: "upload \<Rightarrow> u8 \<Rightarrow> nat \<Rightarrow> link \<Rightarrow> bool" where
  "answer_out u code k l \<longleftrightarrow>
     (\<exists>ps. sent (dev l) = ps @ [answer_of u code] \<and> from_dev l = length ps) \<and>
     from_ctl l = length (sent (ctl l)) \<and> ctl_at u k (ctl l)"

text \<open>The node reads a block.\<close>

lemma block_read:
  assumes "upload_ok u" "dev_at e u k n" "1024 * int k < up_bytes u"
  shows "read_datagram e (block_of u k) n = snd (handle_firmware e n (delivered (block_of u k)))"
proof -
  have u: "0 < up_bytes u" "even (up_bytes u)" "up_bytes u < 2 ^ 31"
    using assms(1) by (simp_all add: upload_ok_def)
  have "read_datagram e (block_of u k) n = dispatch ARTNET_FIRMWAREMASTER e n (delivered (block_of u k))"
    using assms(1,2) upload_block_accepted [OF u assms(3)] upload_arrival(1) [OF u assms(3)]
    by (intro read_dispatches)
      (simp_all add: upload_ok_def dev_at_def unheard_def upload_packet_def layout sizeof_union_eq del: opcode.simps)
  then show ?thesis by simp
qed

lemma answer_read:
  assumes "upload_ok u" "ctl_at u k n"
  shows "read_datagram e (answer_of u code) n = snd (handle_firmware_reply e n (delivered (answer_of u code)))"
proof -
  have "up_dev u \<noteq> up_ctl u" using assms(1) by (auto simp: upload_ok_def)
  then have "read_datagram e (answer_of u code) n = dispatch ARTNET_FIRMWAREREPLY e n (delivered (answer_of u code))"
    using assms answer_arrival(1,2)
    by (intro read_dispatches)
      (simp_all add: upload_ok_def ctl_at_def answer_packet_def layout sizeof_union_eq del: opcode.simps)
  then show ?thesis by simp
qed

lemma dev_answers:
  assumes "wired e" "uploading (up_ctl u) (up_ubea u) (up_bytes u) (up_image u) k m" "k \<noteq> 0"
    and "same_link n m" "dev_at e u j n" "p_from q = up_ctl u"
  shows "dev_at e u k (snd (fw_reply e q code m)) \<and>
    sent (snd (fw_reply e q code m)) = sent n @ [answer_of u code]"
proof -
  have m: "mode m = ARTNET_ON" "ip_addr m = up_dev u" "callbacks m = up_cbs u" "sent m = sent n"
    using assms(4,5) by (simp_all add: same_link_def dev_at_def)
  have obs: "packet_observer e" using assms(1) by (simp add: wired_def)
  show ?thesis
    using m assms(2,3,6) fw_reply_sent [OF assms(1) m(1), of q code]
    by (simp add: dev_at_def uploading_def)
qed

lemma block_taken:
  assumes "wired e" "upload_ok u" "dev_at e u k n" "1024 * (int k + 1) \<le> up_bytes u"
  defines "m \<equiv> read_datagram e (block_of u k) n"
  shows "dev_at e u (Suc k) m \<and> sent m = sent n @ [answer_of u ARTNET_FIRMWARE_BLOCKGOOD]"
proof -
  have u: "0 < up_bytes u" "1024 < up_bytes u" "even (up_bytes u)" "up_bytes u < 2 ^ 31"
    "fh (up_cbs u (Packet_Cb ARTNET_FIRMWARE_HANDLER)) = None"
    using assms(2) by (simp_all add: upload_ok_def)
  have k: "1024 * int k < up_bytes u" using assms(4) by (simp add: algebra_simps)
  have obs: "packet_observer e" using assms(1) by (simp add: wired_def)
  let ?q = "delivered (block_of u k)"
  have "\<exists>x. handle_firmware e n ?q = fw_reply e ?q ARTNET_FIRMWARE_BLOCKGOOD x \<and>
      uploading (up_ctl u) (up_ubea u) (up_bytes u) (up_image u) (Suc k) x \<and> same_link n x"
  proof (cases "k = 0")
    case True
    then have n: "fh (callbacks n (Packet_Cb ARTNET_FIRMWARE_HANDLER)) = None"
      "fw_peer (node_fw n) = 0" "env_malloc e (mallocs n)"
      using assms(3) u(5) by (simp_all add: dev_at_def)
    show ?thesis
      using upload_begins [OF obs n u(2-4), of "up_ctl u" "up_dev u" "up_ubea u" "up_image u"] True by simp
  next
    case False
    then have "uploading (up_ctl u) (up_ubea u) (up_bytes u) (up_image u) k n"
      using assms(3) by (simp add: dev_at_def)
    from upload_continues [OF obs this _ assms(4) u(3,4)] False show ?thesis by simp
  qed
  then obtain x where x: "handle_firmware e n ?q = fw_reply e ?q ARTNET_FIRMWARE_BLOCKGOOD x"
    "uploading (up_ctl u) (up_ubea u) (up_bytes u) (up_image u) (Suc k) x" "same_link n x" by blast
  have "p_from ?q = up_ctl u" by (simp add: upload_packet_def)
  from dev_answers [OF assms(1) x(2) _ x(3) assms(3) this] show ?thesis
    by (simp add: m_def block_read [OF assms(2,3) k] x(1))
qed

text \<open>The controller reads that a block was good and sends the next one.\<close>

lemma next_block:
  assumes "wired e" "upload_ok u" "ctl_at u k n" "1024 * int k < up_bytes u"
  defines "m \<equiv> read_datagram e (answer_of u ARTNET_FIRMWARE_BLOCKGOOD) n"
  shows "ctl_at u (Suc k) m \<and> sent m = sent n @ [block_of u k]"
proof -
  let ?r = "delivered (answer_of u ARTNET_FIRMWARE_BLOCKGOOD)"
  have n: "sending (up_dev u) (up_place u) (up_ubea u) (up_bytes u) (up_image u) k n"
    using assms(3) by (simp add: ctl_at_def)
  have "m = snd (artnet_tx_firmware_packet e n (up_place u))"
    using good_reply_sends [OF n assms(4) answer_arrival(3,4)]
    by (simp add: m_def answer_read [OF assms(2,3)])
  with tx_block [OF assms(1) n assms(4)] assms(3) show ?thesis
    by (simp add: ctl_at_def unheard_def)
qed

text \<open>One round: a block and its answer.\<close>

lemma upload_round:
  assumes "wired e" "wired e'" "upload_ok u" "block_out e' u k l" "1024 * (int k + 1) < up_bytes u"
  shows "\<exists>l'. runs_to (link_step e e') 2 l l' \<and> block_out e' u (Suc k) l'"
proof -
  from assms(4) obtain ps where l: "sent (ctl l) = ps @ [block_of u k]" "from_ctl l = length ps"
    "from_dev l = length (sent (dev l))" "ctl_at u (Suc k) (ctl l)" "dev_at e' u k (dev l)"
    by (auto simp: block_out_def)
  define d where "d = read_datagram e' (block_of u k) (dev l)"
  have d: "dev_at e' u (Suc k) d" "sent d = sent (dev l) @ [answer_of u ARTNET_FIRMWARE_BLOCKGOOD]"
    using block_taken [OF assms(2,3) l(5)] assms(5) by (simp_all add: d_def)
  define x where "x = l\<lparr>dev := d, from_ctl := Suc (length ps)\<rparr>"
  define c where "c = read_datagram e (answer_of u ARTNET_FIRMWARE_BLOCKGOOD) (ctl l)"
  have c: "ctl_at u (Suc (Suc k)) c" "sent c = sent (ctl l) @ [block_of u (Suc k)]"
    using next_block [OF assms(1,3) l(4)] assms(5) by (simp_all add: c_def algebra_simps)
  define y where "y = x\<lparr>ctl := c, from_dev := Suc (length (sent (dev l)))\<rparr>"
  have "link_step e e' l z = (z = x)" for z
    using one_to_dev [OF l(3,1,2) d_def] by (simp add: x_def)
  moreover have "link_step e e' x z = (z = y)" for z
    unfolding y_def by (rule one_to_ctl) (use l d c_def in \<open>simp_all add: x_def\<close>)
  ultimately have "runs_to (link_step e e') 2 l y" by (rule runs_to_two)
  moreover have "block_out e' u (Suc k) y"
    using l d c by (simp add: block_out_def x_def y_def)
  ultimately show ?thesis by blast
qed

lemma upload_rounds:
  assumes "wired e" "wired e'" "upload_ok u" "block_out e' u 0 l" "1024 * int k < up_bytes u"
  shows "\<exists>l'. runs_to (link_step e e') (2 * k) l l' \<and> block_out e' u k l'"
  using assms(5)
proof (induction k)
  case (Suc k)
  then obtain x where x: "runs_to (link_step e e') (2 * k) l x" "block_out e' u k x" by auto
  from upload_round [OF assms(1-3) x(2)] Suc.prems obtain y
    where "runs_to (link_step e e') 2 x y" "block_out e' u (Suc k) y" by (auto simp: algebra_simps)
  with runs_to_trans [OF x(1)] show ?case by (metis mult_Suc_right add.commute)
qed (use assms(4) in auto)

section \<open>The end of an upload\<close>

text \<open>The node's application may do with the image what it likes, as long as the answer can be sent
  after it.\<close>

definition answers_after_image :: "env \<Rightarrow> bool" where
  "answers_after_image e \<longleftrightarrow>
     (\<forall>f ub d w x n. mode (snd (env_call e f (Firmware_Arg ub d w) x n)) = mode n \<and>
        ip_addr (snd (env_call e f (Firmware_Arg ub d w) x n)) = ip_addr n \<and>
        sent (snd (env_call e f (Firmware_Arg ub d w) x n)) = sent n)"

lemma image_notified:
  assumes "answers_after_image e"
  shows "mode (notify e c (Firmware_Arg ub d w) n) = mode n"
    "ip_addr (notify e c (Firmware_Arg ub d w) n) = ip_addr n"
    "sent (notify e c (Firmware_Arg ub d w) n) = sent n"
  using assms
  by (cases d; simp add: notify_def run_callback_def answers_after_image_def split: option.split)+

definition image_given :: "env \<Rightarrow> upload \<Rightarrow> node \<Rightarrow> bool" where
  "image_given e u n \<longleftrightarrow>
     (\<exists>p m im. n = snd (fw_reply e p ARTNET_FIRMWARE_ALLGOOD (reset_firmware_upload
        (notify e firmware_c (Firmware_Arg (c_bool (up_ubea u \<noteq> 0)) (up_bytes u, im) (up_bytes u div 2)) m))) \<and>
      p_from p = up_ctl u \<and> callbacks m = up_cbs u \<and> (\<forall>j < nat (up_bytes u). im j = up_image u j))"

lemma last_taken:
  assumes "wired e" "answers_after_image e" "upload_ok u" "dev_at e u k n" "int k = up_bytes u div 1024"
  defines "m \<equiv> read_datagram e (block_of u k) n"
  shows "image_given e u m \<and> sent m = sent n @ [answer_of u ARTNET_FIRMWARE_ALLGOOD]"
proof -
  have u: "1024 < up_bytes u" "up_bytes u mod 1024 \<noteq> 0" "even (up_bytes u)" "up_bytes u < 2 ^ 31"
    using assms(3) by (simp_all add: upload_ok_def)
  have k: "1 \<le> k" "1024 * int k < up_bytes u"
    using assms(5) u(1,2) mult_div_mod_eq [of 1024 "up_bytes u"] pos_mod_sign [of 1024 "up_bytes u"]
    by linarith+
  have obs: "packet_observer e" using assms(1) by (simp add: wired_def)
  have "uploading (up_ctl u) (up_ubea u) (up_bytes u) (up_image u) k n"
    using assms(4) k(1) by (simp add: dev_at_def)
  from upload_ends [OF obs this k(1) assms(5) u(2-4)] obtain x im
    where x: "handle_firmware e n (delivered (block_of u k)) =
        fw_reply e (delivered (block_of u k)) ARTNET_FIRMWARE_ALLGOOD (reset_firmware_upload
          (notify e firmware_c (Firmware_Arg (c_bool (up_ubea u \<noteq> 0)) (up_bytes u, im) (up_bytes u div 2)) x))"
      "\<forall>j < nat (up_bytes u). im j = up_image u j" "same_link n x" by blast
  let ?y = "reset_firmware_upload
          (notify e firmware_c (Firmware_Arg (c_bool (up_ubea u \<noteq> 0)) (up_bytes u, im) (up_bytes u div 2)) x)"
  have y: "mode ?y = ARTNET_ON" "ip_addr ?y = up_dev u" "sent ?y = sent n" "callbacks x = up_cbs u"
    using assms(4) x(3) image_notified [OF assms(2)]
    by (simp_all add: reset_firmware_upload_def same_link_def dev_at_def)
  have src: "p_from (delivered (block_of u k)) = up_ctl u" by (simp add: upload_packet_def)
  have m: "m = snd (fw_reply e (delivered (block_of u k)) ARTNET_FIRMWARE_ALLGOOD ?y)"
    by (simp add: m_def block_read [OF assms(3,4) k(2)] x(1))
  have "sent m = sent n @ [answer_of u ARTNET_FIRMWARE_ALLGOOD]"
    using fw_reply_sent [OF assms(1) y(1)] y(2,3) src by (simp add: m)
  moreover have "image_given e u m" unfolding image_given_def using m src y(4) x(2) by blast
  ultimately show ?thesis by blast
qed

definition told_all_good :: "env \<Rightarrow> upload \<Rightarrow> node \<Rightarrow> bool" where
  "told_all_good e u n \<longleftrightarrow>
     (\<exists>c. n = upd_fw (up_place u) (\<lambda>_. no_firmware) (snd (run_callback e
        \<lparr>fh = up_call u, cb_data = up_user u\<rparr> (Status_Arg ARTNET_FIRMWARE_ALLGOOD) c)) \<and>
      up_place u < length (entries (nodes c)) \<and> bytes_current (entry_fw c (up_place u)) = up_bytes u)"

lemma end_read:
  assumes "upload_ok u" "ctl_at u k n" "up_bytes u \<le> 1024 * int k"
  shows "told_all_good e u (read_datagram e (answer_of u ARTNET_FIRMWARE_ALLGOOD) n)"
proof -
  have "bytes_total (entry_fw n (up_place u)) = up_bytes u" "bytes_current (entry_fw n (up_place u)) = up_bytes u"
    "up_bytes u \<noteq> 0" "find_entry_from_ip (nodes n) (up_dev u) = Some (up_place u)"
    "fh (callbacks n (Packet_Cb ARTNET_FIRMWARE_REPLY_HANDLER)) = None"
    using assms by (auto simp: ctl_at_def sending_def transfer_at_def upload_ok_def find_entry_map)
  moreover from this(4) have "up_place u < length (entries (nodes n))"
    by (auto simp: find_entry_from_ip_def dest: find_pos_Some)
  ultimately show ?thesis
    using answer_read [OF assms(1,2)] assms(2) answer_arrival(3,4)
    by (auto simp: handle_firmware_reply_def check_none Let_def fw_tx_end_def told_all_good_def ctl_at_def)
qed

lemma upload_finishes:
  assumes "wired e" "wired e'" "answers_after_image e'" "upload_ok u" "block_out e' u k l"
    and "int k = up_bytes u div 1024"
  shows "\<exists>l'. runs_to (link_step e e') 2 l l' \<and> image_given e' u (dev l') \<and> told_all_good e u (ctl l')"
proof -
  from assms(5) obtain ps where l: "sent (ctl l) = ps @ [block_of u k]" "from_ctl l = length ps"
    "from_dev l = length (sent (dev l))" "ctl_at u (Suc k) (ctl l)" "dev_at e' u k (dev l)"
    by (auto simp: block_out_def)
  define d where "d = read_datagram e' (block_of u k) (dev l)"
  have d: "image_given e' u d" "sent d = sent (dev l) @ [answer_of u ARTNET_FIRMWARE_ALLGOOD]"
    using last_taken [OF assms(2,3,4) l(5) assms(6)] by (simp_all add: d_def)
  define x where "x = l\<lparr>dev := d, from_ctl := Suc (length ps)\<rparr>"
  define c where "c = read_datagram e (answer_of u ARTNET_FIRMWARE_ALLGOOD) (ctl l)"
  have "up_bytes u \<le> 1024 * int (Suc k)"
    using assms(6) mult_div_mod_eq [of 1024 "up_bytes u"] pos_mod_bound [of 1024 "up_bytes u"] by simp
  then have c: "told_all_good e u c" using end_read [OF assms(4) l(4)] by (simp add: c_def)
  define y where "y = x\<lparr>ctl := c, from_dev := Suc (length (sent (dev l)))\<rparr>"
  have "link_step e e' l z = (z = x)" for z
    using one_to_dev [OF l(3,1,2) d_def] by (simp add: x_def)
  moreover have "link_step e e' x z = (z = y)" for z
    unfolding y_def by (rule one_to_ctl) (use l d c_def in \<open>simp_all add: x_def\<close>)
  ultimately have "runs_to (link_step e e') 2 l y" by (rule runs_to_two)
  then show ?thesis using c d by (auto simp: x_def y_def)
qed

text \<open>C27: A controller starts the upload of an image longer than 1024 bytes, not a multiple of 1024,
  to a node of its list that has none running.  Then the link of the two can only do one thing at a
  time, reading a block and reading its answer in turn; after two steps for each block the node's
  application has been given exactly the image, and the controller's has been told that all is good.\<close>

theorem firmware_upload_completes:
  fixes f :: "fnptr option" and data :: mem and ubea :: int and user :: userdata
  assumes ctl: "wired e" "env_malloc e (mallocs c)" "mode c = ARTNET_ON" "is_controller c" "unheard c"
    and "fh (callbacks c (Packet_Cb ARTNET_FIRMWARE_REPLY_HANDLER)) = None"
    and dev: "wired e'" "answers_after_image e'" "env_malloc e' (mallocs r)" "mode r = ARTNET_ON" "unheard r"
    and "fh (callbacks r (Packet_Cb ARTNET_FIRMWARE_HANDLER)) = None" "fw_peer (node_fw r) = 0"
    and net: "find_private_entry c ent = Some i" "find_entry_from_ip (nodes c) (ip_addr r) = Some i"
      "ip_addr c \<noteq> ip_addr r" "ntohl (ip_addr c) \<noteq> LOOPBACK_IP" "ntohl (ip_addr r) \<noteq> LOOPBACK_IP"
    and image: "512 < len" "len < 2 ^ 30" "len mod 512 \<noteq> 0"
  defines "u \<equiv> \<lparr>up_ctl = ip_addr c, up_dev = ip_addr r, up_place = i, up_cbs = callbacks r, up_ubea = ubea,
      up_bytes = 2 * len, up_image = data, up_call = f, up_user = user\<rparr>"
  shows "\<exists>l. runs_to (link_step e e') (2 * Suc (nat (len div 512)))
      \<lparr>ctl = snd (artnet_send_firmware e c ent ubea data len f user), dev = r,
       from_ctl = length (sent c), from_dev = length (sent r)\<rparr> l \<and>
    image_given e' u (dev l) \<and> told_all_good e u (ctl l)"
proof -
  let ?c = "snd (artnet_send_firmware e c ent ubea data len f user)"
  let ?l = "\<lparr>ctl = ?c, dev = r, from_ctl = length (sent c), from_dev = length (sent r)\<rparr>"
  have ent: "ip_addr r = ent_ip (entries (nodes c) ! i)"
    using net(2) by (auto simp: find_entry_from_ip_def dest: find_pos_Some)
  have pos: "0 < len" using image(1) by simp
  note started = upload_started [OF ctl(1-4) assms(6) net(1) ent net(2) pos image(2)]
  have k: "int (nat (len div 512)) = len div 512" "2 * len div 1024 = len div 512"
    "2 * len mod 1024 = 2 * (len mod 512)"
    using pos div_mult_mult1 [of 2 len 512] mult_mod_right [of 2 len 512] by simp_all
  have u: "upload_ok u"
    using net image k(3) dev(5) assms(12) by (simp add: u_def upload_ok_def unheard_def)
  have "block_out e' u 0 ?l"
    using started dev assms(5,13)
    by (simp add: block_out_def ctl_at_def dev_at_def u_def unheard_def)
  moreover have "1024 * int (nat (len div 512)) < up_bytes u"
  proof -
    have "len = 512 * (len div 512) + len mod 512" "0 < len mod 512"
      using image(3) pos_mod_sign [of 512 len] by (simp_all add: less_le)
    then have "512 * (len div 512) < len" by linarith
    then show ?thesis unfolding k(1) by (simp add: u_def)
  qed
  ultimately obtain x where x: "runs_to (link_step e e') (2 * nat (len div 512)) ?l x"
    "block_out e' u (nat (len div 512)) x"
    using upload_rounds [OF ctl(1) dev(1) u] by blast
  have "int (nat (len div 512)) = up_bytes u div 1024" using k by (simp add: u_def)
  from upload_finishes [OF ctl(1) dev(1,2) u x(2) this] obtain y
    where "runs_to (link_step e e') 2 x y" "image_given e' u (dev y)" "told_all_good e u (ctl y)" by blast
  with runs_to_trans [OF x(1)] show ?thesis by (metis mult_Suc_right add.commute)
qed

text \<open>A controller and a node whose application keeps one byte of the image, number 1300 of 1400.\<close>

definition uploading_controller :: node where
  "uploading_controller = demo_sender\<lparr>ip_addr := 0x0300000A\<rparr>"

definition keeping_env :: env where
  "keeping_env = quiet_env\<lparr>env_call := (\<lambda>_ a _ n.
     case a of Firmware_Arg ub d w \<Rightarrow> (0, n\<lparr>report_code := uint (snd d 1300)\<rparr>) | _ \<Rightarrow> (0, n))\<rparr>"

definition keeping_node :: node where
  "keeping_node = demo_node\<lparr>callbacks := (\<lambda>_. no_callback)(firmware_c := \<lparr>fh = Some 1, cb_data = 0\<rparr>)\<rparr>"

lemma uploading_controller_fields [simp]:
  "mode uploading_controller = ARTNET_ON" "callbacks uploading_controller = (\<lambda>_. no_callback)"
  "is_controller uploading_controller" "ip_addr uploading_controller = 0x0300000A"
  "sent uploading_controller = []" "mallocs uploading_controller = mallocs demo_sender"
  "find_private_entry uploading_controller (Some (pub (entries (nodes demo_sender) ! 0))) = Some 0"
  "find_entry_from_ip (nodes uploading_controller) 0x0200000A = Some 0"
proof -
  have "find_private_entry uploading_controller x = find_private_entry demo_sender x" for x
    by (cases x) (simp_all add: uploading_controller_def find_private_entry_def)
  then show "find_private_entry uploading_controller (Some (pub (entries (nodes demo_sender) ! 0))) = Some 0"
    by simp
  have "is_controller uploading_controller = is_controller demo_sender"
    by (simp add: uploading_controller_def is_controller_def)
  then show "is_controller uploading_controller" by simp
qed (simp_all add: uploading_controller_def)

theorem firmware_upload_completes_witness:
  "\<exists>l. runs_to (link_step quiet_env keeping_env) 4
      \<lparr>ctl = snd (artnet_send_firmware quiet_env uploading_controller
         (Some (pub (entries (nodes demo_sender) ! 0))) 0 (\<lambda>j. of_nat j) 700 None 0), dev = keeping_node,
       from_ctl = 0, from_dev = 0\<rparr> l \<and>
    report_code (dev l) = 20 \<and> fw_data (entry_fw (ctl l) 0) = None"
proof -
  have envs: "wired quiet_env" "wired keeping_env" "answers_after_image keeping_env"
    by (simp_all add: wired_def keeping_env_def packet_observer_def answers_after_image_def)
      (simp_all add: quiet_env_def)
  have node: "mode keeping_node = ARTNET_ON" "ip_addr keeping_node = 0x0200000A" "sent keeping_node = []"
    "fw_peer (node_fw keeping_node) = 0"
    "callbacks keeping_node = (\<lambda>_. no_callback)(firmware_c := \<lparr>fh = Some 1, cb_data = 0\<rparr>)"
    by (simp_all add: keeping_node_def demo_node_def zero_node_def no_firmware_def)
  have mem: "env_malloc quiet_env j" "env_malloc keeping_env j" for j
    by (simp_all add: keeping_env_def quiet_env_def)
  have addresses: "ntohl 0x0300000A \<noteq> LOOPBACK_IP" "ntohl 0x0200000A \<noteq> LOOPBACK_IP"
    by code_simp+
  let ?u = "\<lparr>up_ctl = 0x0300000A, up_dev = 0x0200000A, up_place = 0, up_cbs = callbacks keeping_node,
    up_ubea = 0, up_bytes = 1400, up_image = (\<lambda>j. of_nat j), up_call = None, up_user = 0\<rparr>"
  from firmware_upload_completes [OF envs(1) mem(1), where c = uploading_controller and i = 0
      and ent = "Some (pub (entries (nodes demo_sender) ! 0))" and e' = keeping_env and r = keeping_node
      and len = 700 and f = None and user = 0 and ubea = 0 and data = "\<lambda>j. of_nat j"]
  obtain l where l: "runs_to (link_step quiet_env keeping_env) 4
      \<lparr>ctl = snd (artnet_send_firmware quiet_env uploading_controller
         (Some (pub (entries (nodes demo_sender) ! 0))) 0 (\<lambda>j. of_nat j) 700 None 0), dev = keeping_node,
       from_ctl = 0, from_dev = 0\<rparr> l"
    "image_given keeping_env ?u (dev l)" "told_all_good quiet_env ?u (ctl l)"
    using envs mem node addresses by (auto simp: unheard_def no_callback_def)
  have "env_call keeping_env g (Firmware_Arg ub d w) x n = (0, n\<lparr>report_code := uint (snd d 1300)\<rparr>)"
    for g ub d w x n
    by (simp add: keeping_env_def)
  then have "report_code (dev l) = 20"
    using l(2) node(5)
    by (auto simp: image_given_def fw_reply_report [OF envs(2)] reset_firmware_upload_def notify_def
        run_callback_def)
  moreover have "fw_data (entry_fw (ctl l) 0) = None"
    using l(3) by (auto simp: told_all_good_def no_firmware_def)
  ultimately show ?thesis using l(1) by blast
qed

end
