(* ===== verification/Config_Properties.thy ===== *)
theory Config_Properties
  imports Send_Properties
begin

text \<open>
  Configuration, local and remote: port addresses and names set by the application, and
  ArtAddress and ArtInput from a controller.
\<close>

section \<open>Addresses set by the application\<close>

lemma announce_fields [simp]:
  assumes "observer e"
  shows "in_ports (snd (announce e n)) = in_ports n" "out_ports (snd (announce e n)) = out_ports n"
    "netSwitch (snd (announce e n)) = netSwitch n" "subSwitch (snd (announce e n)) = subSwitch n"
  using assms by (simp_all add: announce_def artnet_tx_build_art_poll_reply_def)

lemma addr_result_ports:
  assumes "observer e"
  shows "in_ports (snd (addr_result e c d n)) = in_ports n"
    "out_ports (snd (addr_result e c d n)) = out_ports n"
  using assms by (simp_all add: addr_result_def)

text \<open>The universe that a port has: fifteen bits of net, subnet and the port's own address.\<close>

definition port_universe :: "node \<Rightarrow> nat \<Rightarrow> artnet_port_dir \<Rightarrow> u16" where
  "port_universe n i dir =
     (case dir of ARTNET_INPUT_PORT \<Rightarrow> port_addr (in_ports n i)
      | ARTNET_OUTPUT_PORT \<Rightarrow> port_addr (out_ports n i))"

definition port_controlled :: "node \<Rightarrow> nat \<Rightarrow> artnet_port_dir \<Rightarrow> bool" where
  "port_controlled n i dir \<longleftrightarrow>
     (case dir of ARTNET_INPUT_PORT \<Rightarrow> port_net_ctl (in_ports n i) \<noteq> 0
      | ARTNET_OUTPUT_PORT \<Rightarrow> port_net_ctl (out_ports n i) \<noteq> 0)"

lemma node_ok_universe:
  assumes "node_ok n" "i < 4"
  shows "port_universe n i dir = make_addr (netSwitch n) (subSwitch n) (addr_port (port_universe n i dir))"
  using assms by (cases dir) (simp_all add: port_universe_def node_ok_parts addr_ok_def)

lemma uint_make_addr:
  "uint (make_addr net subnet addr) = 256 * (uint net mod 128) + 16 * (uint subnet mod 16) + uint addr mod 16"
proof -
  let ?a = "push_bit 8 (ucast (net AND 0x7F)) :: u16" and ?b = "push_bit 4 (ucast (subnet AND 0x0F)) :: u16"
    and ?c = "ucast (addr AND 0x0F) :: u16"
  have bc: "?b + ?c = ?b OR ?c" by (rule disjunctive_add) (auto simp: addr_masks bit_simps)
  have "?a + (?b OR ?c) = ?a OR (?b OR ?c)"
    by (rule disjunctive_add) (auto simp: addr_masks bit_simps)
  then have or: "make_addr net subnet addr = ?a + (?b + ?c)"
    by (simp add: make_addr_def or.assoc bc)
  have "uint (x AND mask k) = uint x mod 2 ^ k" for x :: u8 and k
    unfolding take_bit_eq_mask [symmetric] unsigned_take_bit_eq by (rule take_bit_eq_mod)
  then have m: "uint (net AND 0x7F) = uint net mod 128" "uint (subnet AND 0x0F) = uint subnet mod 16"
    "uint (addr AND 0x0F) = uint addr mod 16"
    by (simp_all add: addr_masks)
  have "uint net mod 128 < 128" "uint subnet mod 16 < 16" "uint addr mod 16 < 16"
    "0 \<le> uint net mod 128" "0 \<le> uint subnet mod 16" "0 \<le> uint addr mod 16" by simp_all
  then show ?thesis
    unfolding or using m
    by (simp add: push_bit_eq_mult uint_word_ariths unsigned_ucast_eq take_bit_eq_mod)
qed

text \<open>Setting a port's address enables the port, and from then on its universe is the node's net
  and subnet with the port's four bits: that is what \<open>artnet_get_universe_addr\<close> returns, unless the
  network controls the port, which then keeps the universe it has.  Arguments out of range are
  refused and change nothing.\<close>

theorem port_address_set:
  assumes "observer e" "node_ok n"
  shows "if 0 \<le> i \<and> i < 4 \<and> addr \<le> 15
    then port_universe (snd (artnet_set_port_addr e n i (Some dir) addr)) (nat i) dir =
        (if port_controlled n (nat i) dir then port_universe n (nat i) dir
         else make_addr (netSwitch n) (subSwitch n) addr) \<and>
      (\<not> port_controlled n (nat i) dir \<longrightarrow>
       artnet_get_universe_addr (snd (artnet_set_port_addr e n i (Some dir) addr)) i (Some dir) =
         256 * (uint (netSwitch n) mod 128) + 16 * (uint (subSwitch n) mod 16) + uint addr)
    else artnet_set_port_addr e n i (Some dir) addr = (ARTNET_EARG, n)"
proof (cases "0 \<le> i \<and> i < 4 \<and> addr \<le> 15")
  case True
  let ?n = "snd (artnet_set_port_addr e n i (Some dir) addr)"
  have "uint addr mod 16 = uint addr" using True by (simp add: word_le_def)
  moreover have nib: "addr AND 0x0F = addr"
  proof -
    have "addr AND 0x0F = take_bit 4 addr" by (simp add: addr_masks take_bit_eq_mask)
    also have "\<dots> = addr"
      using True unfolding word_uint_eq_iff unsigned_take_bit_eq
      by (simp add: word_le_def take_bit_int_eq_self)
    finally show ?thesis .
  qed
  have same: "port_universe n (nat i) dir = make_addr (netSwitch n) (subSwitch n) addr"
    if "addr = addr_port (port_universe n (nat i) dir)"
    unfolding that by (rule node_ok_universe [OF assms(2)]) (use True in auto)
  have "port_universe ?n (nat i) dir = (if port_controlled n (nat i) dir then port_universe n (nat i) dir
      else make_addr (netSwitch n) (subSwitch n) addr)"
    using True assms(1) nib same
    by (cases dir)
       (auto simp: artnet_set_port_addr_def Let_def addr_result_ports port_universe_def port_controlled_def
         set_in_addr_def set_out_addr_def addr_changes_def upd_in_def upd_out_def)
  moreover have "artnet_get_universe_addr ?n i (Some dir) = uint (port_universe ?n (nat i) dir)"
    using True by (cases dir) (simp_all add: artnet_get_universe_addr_def port_universe_def)
  ultimately show ?thesis using True by (simp add: uint_make_addr)
qed (auto simp: artnet_set_port_addr_def)

theorem port_address_set_witness:
  "artnet_get_universe_addr (snd (artnet_set_port_addr quiet_env (demo_node) 2 (Some ARTNET_INPUT_PORT) 9)) 2
     (Some ARTNET_INPUT_PORT) = 9"
  using port_address_set [OF observer_quiet node_ok_demo, of 2 9 ARTNET_INPUT_PORT]
  by (simp add: port_controlled_def) (simp add: demo_node_def zero_node_def zero_in_port_def)

section \<open>Net and subnet\<close>

lemma net_ports:
  assumes "i < 4"
  shows "port_universe (for_upto 4 (net_addr_port net) n) i dir =
      make_addr net (subSwitch n) (addr_port (port_universe n i dir))"
    and "port_universe (for_upto 4 (subnet_addr_port net) n) i dir =
      make_addr (netSwitch n) net (addr_port (port_universe n i dir))"
  using ports_4 [OF assms]
  by (cases dir; auto simp: for_upto_4 net_addr_port_def subnet_addr_port_def port_universe_def
      upd_in_def upd_out_def)+

text \<open>A new net moves every port of the node to the universe with the same subnet and port bits
  in that net, all at once; while the network controls the net, or when it is above 127, nothing
  moves.\<close>

theorem net_change_moves_ports:
  assumes "observer e" "node_ok n" "i < 4"
  shows "port_universe (snd (artnet_set_net_addr e n net)) i dir =
    (if net \<le> 0x7F \<and> netSwitch_net_ctl n = 0
     then make_addr net (subSwitch n) (addr_port (port_universe n i dir))
     else port_universe n i dir)"
proof -
  have u: "port_universe (snd (announce e m)) i dir = port_universe m i dir" for m
    using assms(1) by (cases dir) (simp_all add: port_universe_def)
  have f: "port_universe (n\<lparr>default_netSwitch := x, netSwitch := y\<rparr>) i dir = port_universe n i dir"
    "port_universe (n\<lparr>default_netSwitch := x\<rparr>) i dir = port_universe n i dir"
    "port_universe (n\<lparr>default_netSwitch := x, report_code := z\<rparr>) i dir = port_universe n i dir"
    "port_universe (n\<lparr>report_code := z\<rparr>) i dir = port_universe n i dir" for x y z
    by (cases dir; simp add: port_universe_def)+
  have "port_universe n i dir = make_addr (netSwitch n) (subSwitch n) (addr_port (port_universe n i dir))"
    using assms(2,3) by (rule node_ok_universe)
  then show ?thesis
    by (auto simp: artnet_set_net_addr_def Let_def u f net_ports [OF assms(3)] not_less)
qed

theorem net_change_moves_ports_witness:
  "port_universe (snd (artnet_set_net_addr quiet_env demo_node 3)) 0 ARTNET_OUTPUT_PORT = 0x300"
  using net_change_moves_ports [OF observer_quiet node_ok_demo, of 0 3 ARTNET_OUTPUT_PORT]
  by (simp add: port_universe_def demo_out_port_def zero_out_port_def addr_port_def)
     (simp add: demo_node_def zero_node_def make_addr_def push_bit_eq_mult)

section \<open>Names\<close>

text \<open>A name that is set replaces the bytes it has, at most 17, and the last byte of the field is
  zero; every byte behind the new name stays what it was, so the tail of a longer old name is still
  part of the string that is reported.\<close>

theorem short_name_set:
  "\<forall>j < 18. shortName (snd (artnet_set_short_name n (Some s))) j =
    (if j = 17 then 0 else if j < length s then of_char (s ! j) else shortName n j)"
  by (auto simp: artnet_set_short_name_def artnet_tx_build_art_poll_reply_def set_name_def
      put_bytes_def bytes_of_def)

theorem short_name_set_witness:
  "map (shortName (snd (artnet_set_short_name
       (demo_node\<lparr>shortName := put_bytes zero_mem 0 (bytes_of ''Dimmer'')\<rparr>) (Some ''Desk''))))
     [0, 1, 2, 3, 4, 5, 6, 17] = bytes_of ''Desker'' @ [0, 0]"
proof -
  let ?n = "demo_node\<lparr>shortName := put_bytes zero_mem 0 (bytes_of ''Dimmer'')\<rparr>"
  have "shortName (snd (artnet_set_short_name ?n (Some ''Desk''))) j =
      (if j = 17 then 0 else if j < 4 then of_char (''Desk'' ! j) else shortName ?n j)" if "j < 18" for j
    using short_name_set [of ?n "''Desk''"] that by simp
  then show ?thesis
    by (simp add: put_bytes_def bytes_of_def)
qed

section \<open>ArtAddress\<close>

text \<open>What ArtAddress programs of a port: the node's net and subnet, and of the port its input and output
  addresses with their defaults.\<close>

definition place :: "nat \<Rightarrow> node \<Rightarrow> u8 \<times> u8 \<times> u16 \<times> u8 \<times> u16 \<times> u8" where
  "place i n = (netSwitch n, subSwitch n, port_addr (in_ports n i), port_default_addr (in_ports n i),
     port_addr (out_ports n i), port_default_addr (out_ports n i))"

text \<open>The value a switch is programmed to, by its byte in the packet, and a port's new address.\<close>

definition programmed :: "u8 \<Rightarrow> u8 \<Rightarrow> u8 \<Rightarrow> u8 \<Rightarrow> u8" where
  "programmed sw dflt m cur =
     (if sw = PROGRAM_DEFAULTS then dflt
      else if sw AND PROGRAM_CHANGE_MASK \<noteq> 0 then sw AND m else cur)"

definition programmed_port :: "u8 \<Rightarrow> u8 \<Rightarrow> u8 \<Rightarrow> u8 \<Rightarrow> u16 \<Rightarrow> u16" where
  "programmed_port net sub sw dflt cur =
     make_addr net sub
       (if sw = PROGRAM_DEFAULTS then dflt
        else if sw \<noteq> PROGRAM_NO_CHANGE \<and> sw AND PROGRAM_CHANGE_MASK \<noteq> 0 then sw else addr_port cur)"

lemma place_frames [simp]:
  "place i (address_names p n) = place i n" "place i (address_priority p n) = place i n"
  "place i (address_seq a j n) = place i n" "place i (set_direction j on off n) = place i n"
  "place i (n\<lparr>reply_addr := r\<rparr>) = place i n"
  by (simp_all add: place_def address_names_def address_priority_def address_seq_def set_direction_def
      stop_merge_def upd_in_def upd_out_def Let_def)

lemma place_reply:
  "observer e \<Longrightarrow> place i (snd (artnet_tx_poll_reply e (n\<lparr>ar_temp := m\<rparr>))) = place i n"
  by (simp add: place_def)

lemma place_command [simp]: "place i (address_command p n) = place i n"
proof -
  have "place i (address_node_command c m) = place i m" for c m
    unfolding address_node_command_def
    by (auto intro!: for_upto_frame simp: place_def upd_out_def)
  moreover have "place i (address_port_command c m) = place i m" for c m
    by (simp add: address_port_command_def Let_def) (simp add: place_def upd_out_def)
  ultimately show ?thesis by (simp add: address_command_def Let_def)
qed

lemma place_rebuilt:
  assumes "node_ok n" "i < 4"
  shows "place i (address_rebuild (netSwitch n) (subSwitch n) (address_switches p n)) =
    (let t = programmed (get8 adr ''netSwitch'' p) (default_netSwitch n) 0x7F (netSwitch n);
         s = programmed (get8 adr ''subSwitch'' p) (default_subSwitch n) 0x0F (subSwitch n)
     in (t, s, make_addr t s (addr_port (port_addr (in_ports n i))), port_default_addr (in_ports n i),
         make_addr t s (addr_port (port_addr (out_ports n i))), port_default_addr (out_ports n i)))"
proof -
  let ?m = "address_switches p n"
  have mask: "(- 129 :: u8) = 127" by (simp add: word_uint_eq_iff)
  have sw: "netSwitch ?m = programmed (get8 adr ''netSwitch'' p) (default_netSwitch n) 0x7F (netSwitch n)"
    "subSwitch ?m = programmed (get8 adr ''subSwitch'' p) (default_subSwitch n) 0x0F (subSwitch n)"
    "in_ports ?m = in_ports n" "out_ports ?m = out_ports n"
    by (simp_all add: address_switches_def programmed_def program_switch_def case_prod_beta Let_def mask)
  have own: "port_addr (in_ports n i) = make_addr (netSwitch n) (subSwitch n) (addr_port (port_addr (in_ports n i)))"
    "port_addr (out_ports n i) = make_addr (netSwitch n) (subSwitch n) (addr_port (port_addr (out_ports n i)))"
    using assms by (simp_all add: node_ok_parts addr_ok_def)
  show ?thesis
  proof (cases "netSwitch n = netSwitch ?m \<and> subSwitch n = subSwitch ?m")
    case True
    then have "address_rebuild (netSwitch n) (subSwitch n) ?m = ?m" by (simp add: address_rebuild_def)
    with sw True own [symmetric] show ?thesis by (simp add: place_def Let_def)
  next
    case False
    then have "address_rebuild (netSwitch n) (subSwitch n) ?m = rebuild_ports ?m"
      by (auto simp: address_rebuild_def)
    with sw show ?thesis
      by (simp add: place_def rebuild_ports_at [OF assms(2)] rebuild_addr_def Let_def)
  qed
qed

lemma place_swin:
  assumes "i < 4" "place i n = (t, s, a, da, b, db)" "a = make_addr t s (addr_port a)"
  shows "place i (for_upto 4 (address_swin p) n) =
    (t, s, programmed_port t s (get_at adr ''swIn'' i p) da a, da, b, db)"
proof -
  have "\<exists>m. place i m = place i n \<and>
      place i (for_upto 4 (address_swin p) n) = place i (address_swin p i m)"
    using assms(1) by (intro for_upto_at) (simp_all add: address_swin_def place_def upd_in_def Let_def)
  then obtain m where m: "place i m = (t, s, a, da, b, db)"
    "place i (for_upto 4 (address_swin p) n) = place i (address_swin p i m)" using assms(2) by auto
  from m(1) assms(3) show ?thesis
    unfolding m(2)
    by (auto simp: place_def address_swin_def upd_in_def programmed_port_def Let_def)
qed

lemma place_swout:
  assumes "i < 4" "place i n = (t, s, a, da, b, db)" "b = make_addr t s (addr_port b)"
  shows "place i (for_upto 4 (address_swout p) n) =
    (t, s, a, da, programmed_port t s (get_at adr ''swOut'' i p) db b, db)"
proof -
  have "\<exists>m. place i m = place i n \<and>
      place i (for_upto 4 (address_swout p) n) = place i (address_swout p i m)"
    using assms(1) by (intro for_upto_at) (simp_all add: address_swout_def place_def upd_out_def Let_def)
  then obtain m where m: "place i m = (t, s, a, da, b, db)"
    "place i (for_upto 4 (address_swout p) n) = place i (address_swout p i m)" using assms(2) by auto
  from m(1) assms(3) show ?thesis
    unfolding m(2)
    by (auto simp: place_def address_swout_def upd_out_def programmed_port_def Let_def)
qed

text \<open>The whole program section: port \<open>i\<close> afterwards.\<close>

lemma place_program:
  fixes n :: node and i :: nat and p :: packet
  assumes "node_ok n" "i < 4"
  defines "t \<equiv> programmed (get8 adr ''netSwitch'' p) (default_netSwitch n) 0x7F (netSwitch n)"
    and "s \<equiv> programmed (get8 adr ''subSwitch'' p) (default_subSwitch n) 0x0F (subSwitch n)"
  shows "place i (address_program p n) =
    (t, s,
     programmed_port t s (get_at adr ''swIn'' i p) (port_default_addr (in_ports n i)) (port_addr (in_ports n i)),
     port_default_addr (in_ports n i),
     programmed_port t s (get_at adr ''swOut'' i p) (port_default_addr (out_ports n i)) (port_addr (out_ports n i)),
     port_default_addr (out_ports n i))"
proof -
  let ?n = "address_names p n"
  let ?m = "address_rebuild (netSwitch ?n) (subSwitch ?n) (address_switches p ?n)"
  have same: "default_netSwitch ?n = default_netSwitch n" "default_subSwitch ?n = default_subSwitch n"
    "netSwitch ?n = netSwitch n" "subSwitch ?n = subSwitch n" "in_ports ?n = in_ports n"
    "out_ports ?n = out_ports n"
    by (simp_all add: address_names_def Let_def)
  have "node_ok ?n" using assms(1) by (rule node_ok_names)
  from place_rebuilt [OF this assms(2), of p]
  have m: "place i ?m = (t, s, make_addr t s (addr_port (port_addr (in_ports n i))),
      port_default_addr (in_ports n i), make_addr t s (addr_port (port_addr (out_ports n i))),
      port_default_addr (out_ports n i))"
    unfolding same by (simp add: t_def s_def Let_def)
  have idem: "programmed_port t s sw d (make_addr t s (addr_port a)) = programmed_port t s sw d a" for sw d a
    by (simp add: programmed_port_def)
  have seq: "place i (for_upto 4 (address_seq f) x) = place i x" for f x
    by (rule for_upto_frame) simp
  from place_swout [OF assms(2) place_swin [OF assms(2) m, of p], of p]
  show ?thesis by (simp add: address_program_def Let_def seq idem)
qed

lemma ports_programmed:
  fixes e :: env and n :: node and i :: nat and p :: packet
  assumes "observer e" "node_ok n" "i < 4"
    and "fh (callbacks n (Packet_Cb ARTNET_ADDRESS_HANDLER)) = None"
    and "node_type n \<noteq> ARTNET_SRV" "node_type n \<noteq> ARTNET_RAW"
    and "bind_index_matches n (get8 adr ''bindIndex'' p)"
  defines "n' \<equiv> snd (handle_address e n p)"
    and "t \<equiv> programmed (get8 adr ''netSwitch'' p) (default_netSwitch n) 0x7F (netSwitch n)"
    and "s \<equiv> programmed (get8 adr ''subSwitch'' p) (default_subSwitch n) 0x0F (subSwitch n)"
  shows "netSwitch n' = t \<and> subSwitch n' = s \<and>
    port_addr (in_ports n' i) = programmed_port t s (get_at adr ''swIn'' i p)
      (port_default_addr (in_ports n i)) (port_addr (in_ports n i)) \<and>
    port_addr (out_ports n' i) = programmed_port t s (get_at adr ''swOut'' i p)
      (port_default_addr (out_ports n i)) (port_addr (out_ports n i))"
proof -
  let ?m = "address_priority p (address_command p (address_program p (n\<lparr>reply_addr := p_from p\<rparr>)))"
  have "place i n' = place i ?m"
    using assms(1,4-7)
    by (simp add: n'_def handle_address_def check_callback_def Let_def artnet_tx_build_art_poll_reply_def
        case_prod_beta place_reply)
  moreover have "node_ok (n\<lparr>reply_addr := p_from p\<rparr>)" using assms(2) by simp
  note place_program [OF this assms(3), of p]
  ultimately have "place i n' = (t, s,
     programmed_port t s (get_at adr ''swIn'' i p) (port_default_addr (in_ports n i)) (port_addr (in_ports n i)),
     port_default_addr (in_ports n i),
     programmed_port t s (get_at adr ''swOut'' i p) (port_default_addr (out_ports n i)) (port_addr (out_ports n i)),
     port_default_addr (out_ports n i))"
    by (simp add: t_def s_def)
  then show ?thesis by (simp add: place_def)
qed

text \<open>C34: ArtAddress sets the node's net and subnet to the value sent, back to the local default, or
  leaves them; then every port is on the universe of the new net and subnet with the port bits sent
  for it, its default bits, or the bits it had; nothing else decides it.\<close>

theorem address_programs_ports:
  fixes e :: env and n :: node and i :: nat and p :: packet
  assumes "observer e" "node_ok n" "i < 4"
    and "fh (callbacks n (Packet_Cb ARTNET_ADDRESS_HANDLER)) = None"
    and "node_type n \<noteq> ARTNET_SRV" "node_type n \<noteq> ARTNET_RAW"
    and "bind_index_matches n (get8 adr ''bindIndex'' p)"
  defines "n' \<equiv> snd (handle_address e n p)"
    and "t \<equiv> programmed (get8 adr ''netSwitch'' p) (default_netSwitch n) 0x7F (netSwitch n)"
    and "s \<equiv> programmed (get8 adr ''subSwitch'' p) (default_subSwitch n) 0x0F (subSwitch n)"
  shows "netSwitch n' = t \<and> subSwitch n' = s \<and>
    port_addr (in_ports n' i) = programmed_port t s (get_at adr ''swIn'' i p)
      (port_default_addr (in_ports n i)) (port_addr (in_ports n i)) \<and>
    port_addr (out_ports n' i) = programmed_port t s (get_at adr ''swOut'' i p)
      (port_default_addr (out_ports n i)) (port_addr (out_ports n i))"
  unfolding n'_def t_def s_def using assms(1-7) by (rule ports_programmed)

theorem address_programs_ports_witness:
  "port_addr (out_ports (snd (handle_address quiet_env demo_node
     \<lparr>p_length = 107, p_from = 5, p_to = 0, p_type = 0,
      p_data = fill artnet_address_s [(''netSwitch'', [0x83]), (''bindIndex'', [1]), (''subSwitch'', [0x7F]),
        (''swOut'', [0x89, 0x7F, 0x7F, 0x7F])] zero_mem\<rparr>)) 0) = 0x309"
proof -
  let ?p = "\<lparr>p_length = 107, p_from = 5, p_to = 0, p_type = 0,
      p_data = fill artnet_address_s [(''netSwitch'', [0x83]), (''bindIndex'', [1]), (''subSwitch'', [0x7F]),
        (''swOut'', [0x89, 0x7F, 0x7F, 0x7F])] zero_mem\<rparr> :: packet"
  have "get8 adr ''bindIndex'' ?p = 1" "get8 adr ''netSwitch'' ?p = 0x83" "get8 adr ''subSwitch'' ?p = 0x7F"
    "get_at adr ''swOut'' 0 ?p = 0x89"
    by (simp_all add: get8_def get_at_def layout put_def put_bytes_def)
  moreover have "bind_index_matches demo_node 1" "netSwitch demo_node = 0" "subSwitch demo_node = 0"
    by (simp_all add: bind_index_matches_def demo_node_def zero_node_def)
  ultimately show ?thesis
    using address_programs_ports [OF observer_quiet node_ok_demo, of 0 ?p]
    by (simp add: no_callback_def programmed_def programmed_port_def make_addr_def push_bit_eq_mult)
qed

end
