(* ===== verification/Programming_Properties.thy ===== *)
theory Programming_Properties
  imports End_To_End Config_Properties Firmware_Properties
begin

text \<open>
  Remote programming from end to end: a controller's call, the packet it sends, and what the node
  that handles it becomes.
\<close>

section \<open>The packet\<close>

definition program_fields ::
    "string option \<Rightarrow> string option \<Rightarrow> u8 list option \<Rightarrow> u8 list option \<Rightarrow> u8 \<Rightarrow> u8 \<Rightarrow> u8 \<Rightarrow> u8 \<Rightarrow>
     (string \<times> u8 list) list" where
  "program_fields sn ln ia oa net sub cmd acn =
     [(''netSwitch'', [if net \<noteq> PROGRAM_NO_CHANGE then net OR PROGRAM_CHANGE_MASK else net]),
      (''bindIndex'', [1]),
      (''shortName'', address_name ARTNET_SHORT_NAME_LENGTH sn),
      (''longName'', address_name ARTNET_LONG_NAME_LENGTH ln),
      (''swIn'', address_ports ia), (''swOut'', address_ports oa),
      (''subSwitch'', [if sub \<noteq> PROGRAM_NO_CHANGE then (sub AND 0x0F) OR PROGRAM_CHANGE_MASK else sub]),
      (''acnPriority'', [acn]), (''command'', [cmd])]"

definition program_packet ::
    "ip \<Rightarrow> ip \<Rightarrow> (string \<times> u8 list) list \<Rightarrow> packet" where
  "program_packet a b xs =
     \<lparr>p_length = size_of artnet_address_s, p_from = a, p_to = b, p_type = opcode ARTNET_ADDRESS,
      p_data = fill artnet_address_s xs (header ARTNET_ADDRESS)\<rparr>"

lemma length_address_name [simp]: "length (address_name k s) = k"
  by (auto simp: address_name_def bytes_of_def split: option.split)

lemma program_fields_fit:
  assumes "\<forall>a. ia = Some a \<longrightarrow> length a = 4" "\<forall>a. oa = Some a \<longrightarrow> length a = 4"
  shows "after_header artnet_address_s (program_fields sn ln ia oa net sub cmd acn)"
    "fits_layout artnet_address_s (program_fields sn ln ia oa net sub cmd acn)"
    "distinct (map fst (program_fields sn ln ia oa net sub cmd acn))"
proof -
  have "length (address_ports ia) = 4" "length (address_ports oa) = 4"
    using assms by (auto simp: address_ports_def split: option.split)
  then show "fits_layout artnet_address_s (program_fields sn ln ia oa net sub cmd acn)"
    by (simp add: program_fields_def fits_layout_def artnet_address_s_def)
qed (simp_all add: program_fields_def layout after_header_def)

interpretation program_form: wire_form artnet_address_s ARTNET_ADDRESS
  "\<lambda>xs. \<exists>sn ln ia oa net sub cmd acn. (\<forall>a. ia = Some a \<longrightarrow> length a = 4) \<and>
     (\<forall>a. oa = Some a \<longrightarrow> length a = 4) \<and> xs = program_fields sn ln ia oa net sub cmd acn"
  by unfold_locales (use program_fields_fit in \<open>auto simp del: opcode.simps\<close>)

lemma program_arrival:
  fixes a b :: ip and sn ln :: "string option" and ia oa :: "u8 list option" and net sub cmd acn :: u8
  assumes "\<forall>a. ia = Some a \<longrightarrow> length a = 4" "\<forall>a. oa = Some a \<longrightarrow> length a = 4"
    and "acn \<le> 200 \<or> acn = 0xFF"
  defines "xs \<equiv> program_fields sn ln ia oa net sub cmd acn"
  defines "q \<equiv> delivered (program_packet a b xs)"
  shows "p_type q = opcode ARTNET_ADDRESS" "p_from q = a" "packet_is_valid q"
    "get8 adr ''bindIndex'' q = 1"
    "get8 adr ''netSwitch'' q = (if net \<noteq> 0x7F then net OR 0x80 else net)"
    "get8 adr ''subSwitch'' q = (if sub \<noteq> 0x7F then (sub AND 0x0F) OR 0x80 else sub)"
    "get8 adr ''command'' q = cmd" "get8 adr ''acnPriority'' q = acn"
    "get_n adr ''shortName'' 18 q = address_name 18 sn" "get_n adr ''longName'' 64 q = address_name 64 ln"
    "\<And>i. i < 4 \<Longrightarrow> get_at adr ''swIn'' i q = address_ports ia ! i"
    "\<And>i. i < 4 \<Longrightarrow> get_at adr ''swOut'' i q = address_ports oa ! i"
proof -
  let ?p = "program_packet a b xs"
  have len: "p_length ?p = 107" by (simp add: program_packet_def layout)
  have data: "p_data ?p = fill artnet_address_s xs (header ARTNET_ADDRESS)" by (simp add: program_packet_def)
  have form: "\<exists>sn ln ia oa net sub cmd acn. (\<forall>a. ia = Some a \<longrightarrow> length a = 4) \<and>
     (\<forall>a. oa = Some a \<longrightarrow> length a = 4) \<and> xs = program_fields sn ln ia oa net sub cmd acn"
    using assms(1,2) xs_def by blast
  note arrives = program_form.arrives [OF form data]
  note byte = program_form.byte [OF form data]
  have ports: "length (address_ports ia) = 4" "length (address_ports oa) = 4"
    using assms(1,2) by (auto simp: address_ports_def split: option.split)
  have fld: "map_of xs ''bindIndex'' = Some [1]"
    "map_of xs ''netSwitch'' = Some [if net \<noteq> 0x7F then net OR 0x80 else net]"
    "map_of xs ''subSwitch'' = Some [if sub \<noteq> 0x7F then (sub AND 0x0F) OR 0x80 else sub]"
    "map_of xs ''command'' = Some [cmd]" "map_of xs ''acnPriority'' = Some [acn]"
    "map_of xs ''shortName'' = Some (address_name 18 sn)" "map_of xs ''longName'' = Some (address_name 64 ln)"
    "map_of xs ''swIn'' = Some (address_ports ia)" "map_of xs ''swOut'' = Some (address_ports oa)"
    by (simp_all add: xs_def program_fields_def)
  show t: "p_type q = opcode ARTNET_ADDRESS" using arrives len by (simp add: q_def)
  show "p_from q = a" by (simp add: q_def program_packet_def)
  show bind: "get8 adr ''bindIndex'' q = 1"
    using byte [OF fld(1)] len by (simp add: q_def layout)
  show "get8 adr ''netSwitch'' q = (if net \<noteq> 0x7F then net OR 0x80 else net)"
    using byte [OF fld(2)] len by (simp add: q_def layout)
  show "get8 adr ''subSwitch'' q = (if sub \<noteq> 0x7F then (sub AND 0x0F) OR 0x80 else sub)"
    using byte [OF fld(3)] len by (simp add: q_def layout)
  show "get8 adr ''command'' q = cmd"
    using byte [OF fld(4)] len by (simp add: q_def layout)
  show acn: "get8 adr ''acnPriority'' q = acn"
    using byte [OF fld(5)] len by (simp add: q_def layout)
  show "get_n adr ''shortName'' 18 q = address_name 18 sn"
    using program_form.bytes [OF form data fld(6)] len by (simp add: q_def layout)
  show "get_n adr ''longName'' 64 q = address_name 64 ln"
    using program_form.bytes [OF form data fld(7)] len by (simp add: q_def layout)
  show "get_at adr ''swIn'' i q = address_ports ia ! i" if "i < 4" for i
    using program_form.item [OF form data fld(8), of i] len that ports
    by (simp add: q_def get_at_def layout)
  show "get_at adr ''swOut'' i q = address_ports oa ! i" if "i < 4" for i
    using program_form.item [OF form data fld(9), of i] len that ports
    by (simp add: q_def get_at_def layout)
  have "valid_fields ARTNET_ADDRESS q"
    using acn bind assms(3) by (auto simp: valid_address_def Let_def)
  then show "packet_is_valid q"
    using program_form.accepted [OF form data] len by (simp add: q_def layout)
qed

section \<open>From the call to the node\<close>

lemma programmed_sent:
  "programmed (x OR 0x80) d 0x7F c = x AND 0x7F" "programmed ((x AND 0x0F) OR 0x80) d 0x0F c = x AND 0x0F"
proof -
  have "(x OR 0x80) AND 0x80 = 0x80" for x :: u8
    by (rule bit_word_eqI) (auto simp: bit_and_iff bit_or_iff)
  then have n: "(x OR 0x80) AND 0x80 \<noteq> 0" for x :: u8 by simp
  then have "x OR 0x80 \<noteq> 0" for x :: u8 using n [of x] by (metis zero_and_eq)
  note nz = this
  have top: "(0x80 :: u8) = push_bit 7 1" by (simp add: push_bit_eq_mult)
  have b: "bit (0x80 :: u8) k \<longleftrightarrow> k = 7" for k
    unfolding top bit_push_bit_iff bit_1_iff by auto
  have "(x OR 0x80) AND mask 7 = x AND mask 7" for x :: u8
    by (rule bit_word_eqI) (unfold bit_and_iff bit_or_iff bit_mask_iff b, auto)
  moreover have "((x AND mask 4) OR 0x80) AND mask 4 = x AND mask 4" for x :: u8
    by (rule bit_word_eqI) (unfold bit_and_iff bit_or_iff bit_mask_iff b, auto)
  ultimately have "(x OR 0x80) AND 0x7F = x AND 0x7F" "((x AND 0x0F) OR 0x80) AND 0x0F = x AND 0x0F" for x :: u8
    by (simp_all only: addr_masks)
  then show "programmed (x OR 0x80) d 0x7F c = x AND 0x7F"
    "programmed ((x AND 0x0F) OR 0x80) d 0x0F c = x AND 0x0F"
    using n nz by (simp_all add: programmed_def)
qed

lemma short_name_frames [simp]:
  "shortName (address_switches p n) = shortName n" "shortName (address_rebuild a b n) = shortName n"
  "shortName (address_swin p i n) = shortName n" "shortName (address_swout p i n) = shortName n"
  "shortName (address_seq f i n) = shortName n" "shortName (address_priority p n) = shortName n"
  "shortName (set_direction i on off n) = shortName n"
  by (simp_all add: address_switches_def address_rebuild_def rebuild_ports_def for_upto_frame
      address_swin_def address_swout_def address_seq_def address_priority_def set_direction_def
      case_prod_beta Let_def)

lemma short_name_command [simp]: "shortName (address_command p n) = shortName n"
  by (simp add: address_command_def address_node_command_def address_port_command_def Let_def
      for_upto_frame)

lemma short_name_programmed:
  assumes "observer e" "fh (callbacks n (Packet_Cb ARTNET_ADDRESS_HANDLER)) = None"
    and "node_type n \<noteq> ARTNET_SRV" "node_type n \<noteq> ARTNET_RAW"
    and "bind_index_matches n (get8 adr ''bindIndex'' p)"
    and "wants_name (get_at adr ''shortName'' 0 p)"
  shows "shortName (snd (handle_address e n p)) = put_bytes (shortName n) 0 (get_n adr ''shortName'' 18 p)"
proof -
  have "shortName (address_program p m) = put_bytes (shortName m) 0 (get_n adr ''shortName'' 18 p)" for m
    using assms(6) by (simp add: address_program_def Let_def for_upto_frame) (simp add: address_names_def Let_def)
  with assms(1-5) show ?thesis
    by (simp add: handle_address_def check_callback_def Let_def artnet_tx_build_art_poll_reply_def
        case_prod_beta)
qed

lemma address_call_sent:
  assumes "observer e" "mode c = ARTNET_ON" "is_controller c" "find_private_entry c ent = Some j"
  shows "sent (snd (artnet_send_address e c ent sn ln ia oa net sub cmd acn)) = sent c @
    [program_packet (ip_addr c) (ent_ip (entries (nodes c) ! j)) (program_fields sn ln ia oa net sub cmd acn)]"
  using assms by (simp add: artnet_send_address_def net_send_sent new_packet_def program_packet_def
      program_fields_def del: opcode.simps)

lemma bind_index_le_1:
  assumes "bind_index r \<le> 1"
  shows "bind_index_matches r 1"
proof -
  have "uint (bind_index r) \<le> 1" using assms by (simp add: word_le_def)
  moreover have "0 \<le> uint (bind_index r)" by simp
  ultimately have "uint (bind_index r) = 0 \<or> uint (bind_index r) = 1" by linarith
  then show ?thesis by (auto simp: bind_index_matches_def word_uint_eq_iff)
qed

text \<open>What a node that has no callbacks becomes, whatever the call leaves alone.\<close>

lemma address_call_programs:
  fixes a b :: ip and ia oa :: "u8 list" and sn ln :: "string option" and net sub cmd acn :: u8 and r :: node
  assumes args: "length ia = 4" "length oa = 4" "acn \<le> 200 \<or> acn = 0xFF"
    and node: "observer e'" "node_ok r" "no_callbacks r" "node_type r \<noteq> ARTNET_SRV" "node_type r \<noteq> ARTNET_RAW"
      "bind_index r \<le> 1" "i < 4"
  defines "q \<equiv> delivered (program_packet a b (program_fields sn ln (Some ia) (Some oa) net sub cmd acn))"
  defines "r' \<equiv> snd (handle e' r q)"
    and "t \<equiv> programmed (if net \<noteq> 0x7F then net OR 0x80 else net) (default_netSwitch r) 0x7F (netSwitch r)"
    and "s \<equiv> programmed (if sub \<noteq> 0x7F then (sub AND 0x0F) OR 0x80 else sub) (default_subSwitch r) 0x0F
           (subSwitch r)"
  shows "packet_is_valid q" "r' = snd (handle_address e' r q)" "netSwitch r' = t" "subSwitch r' = s"
    "port_addr (in_ports r' i) =
      programmed_port t s (ia ! i) (port_default_addr (in_ports r i)) (port_addr (in_ports r i))"
    "port_addr (out_ports r' i) =
      programmed_port t s (oa ! i) (port_default_addr (out_ports r i)) (port_addr (out_ports r i))"
proof -
  have "\<forall>a. Some ia = Some a \<longrightarrow> length a = 4" "\<forall>a. Some oa = Some a \<longrightarrow> length a = 4"
    using args by simp_all
  note arrival = program_arrival [OF this args(3), where a = a and b = b
      and sn = sn and ln = ln and net = net and sub = sub and cmd = cmd, folded q_def]
  show "packet_is_valid q" by (rule arrival)
  show step: "r' = snd (handle_address e' r q)"
    using handle_valid [OF node(3) arrival(3,1), of e'] by (simp add: r'_def)
  have bind: "bind_index_matches r (get8 adr ''bindIndex'' q)"
    using bind_index_le_1 [OF node(6)] by (simp add: arrival(4))
  have free: "fh (callbacks r (Packet_Cb ARTNET_ADDRESS_HANDLER)) = None"
    using node(3) by (simp add: no_callbacks_def)
  have ports: "address_ports (Some ia) ! i = ia ! i" "address_ports (Some oa) ! i = oa ! i"
    using args(1,2) by (simp_all add: address_ports_def)
  note all = ports_programmed [OF node(1,2,7) free node(4,5) bind, folded step, unfolded arrival(5,6)
      arrival(11,12) [OF node(7)] ports, folded t_def s_def]
  show "netSwitch r' = t" "subSwitch r' = s"
    "port_addr (in_ports r' i) =
      programmed_port t s (ia ! i) (port_default_addr (in_ports r i)) (port_addr (in_ports r i))"
    "port_addr (out_ports r' i) =
      programmed_port t s (oa ! i) (port_default_addr (out_ports r i)) (port_addr (out_ports r i))"
    using all by simp_all
qed

text \<open>C24: A controller that programs a node of its list sends one ArtAddress to it; the packet passes
  the node's checks, and when the node handles it, its net and subnet are those of the call, its
  short name is the one of the call, and each port whose byte has the programming bit is on the
  universe that net, subnet and byte make.\<close>

theorem node_is_programmed:
  assumes ctl: "observer e" "mode c = ARTNET_ON" "is_controller c" "find_private_entry c ent = Some j"
    and args: "length ia = 4" "length oa = 4" "net \<noteq> 0x7F" "sub \<noteq> 0x7F" "acn \<le> 200 \<or> acn = 0xFF"
      "0 < length s" "wants_name (of_char (s ! 0))"
    and node: "observer e'" "node_ok r" "no_callbacks r" "node_type r \<noteq> ARTNET_SRV" "node_type r \<noteq> ARTNET_RAW"
      "bind_index r \<le> 1" "i < 4"
  shows "\<exists>p. sent (snd (artnet_send_address e c ent (Some s) ln (Some ia) (Some oa) net sub cmd acn)) =
      sent c @ [p] \<and> p_to p = ent_ip (entries (nodes c) ! j) \<and> packet_is_valid (delivered p) \<and>
    (let r' = snd (handle e' r (delivered p))
     in netSwitch r' = net AND 0x7F \<and> subSwitch r' = sub AND 0x0F \<and>
        (\<forall>k < 18. shortName r' k = (if k < length s then of_char (s ! k) else 0)) \<and>
        (ia ! i \<noteq> 0x7F \<and> ia ! i AND 0x80 \<noteq> 0 \<longrightarrow> port_addr (in_ports r' i) = make_addr net sub (ia ! i)) \<and>
        (oa ! i \<noteq> 0x7F \<and> oa ! i AND 0x80 \<noteq> 0 \<longrightarrow> port_addr (out_ports r' i) = make_addr net sub (oa ! i)))"
proof -
  let ?p = "program_packet (ip_addr c) (ent_ip (entries (nodes c) ! j))
    (program_fields (Some s) ln (Some ia) (Some oa) net sub cmd acn)"
  define q where "q = delivered ?p"
  define r' where "r' = snd (handle e' r q)"
  note call = address_call_programs [OF args(1,2,5) node, where a = "ip_addr c"
      and b = "ent_ip (entries (nodes c) ! j)" and sn = "Some s" and ln = ln and net = net and sub = sub
      and cmd = cmd, folded q_def, folded r'_def]
  have "\<forall>a. Some ia = Some a \<longrightarrow> length a = 4" "\<forall>a. Some oa = Some a \<longrightarrow> length a = 4"
    using args by simp_all
  note arrival = program_arrival [OF this args(5), where a = "ip_addr c" and b = "ent_ip (entries (nodes c) ! j)"
      and sn = "Some s" and ln = ln and net = net and sub = sub and cmd = cmd, folded q_def]
  have name: "address_name 18 (Some s) ! k = (if k < length s then of_char (s ! k) else 0)" if "k < 18" for k
    using that by (simp add: address_name_def bytes_of_def nth_append)
  have bind: "bind_index_matches r (get8 adr ''bindIndex'' q)"
    using bind_index_le_1 [OF node(6)] by (simp add: arrival(4))
  have free: "fh (callbacks r (Packet_Cb ARTNET_ADDRESS_HANDLER)) = None"
    using node(3) by (simp add: no_callbacks_def)
  have "get_n adr ''shortName'' 18 q ! 0 = get_at adr ''shortName'' 0 q" by (simp add: get_n_def get_at_def)
  with arrival(9) name [of 0] args(6,7) have "wants_name (get_at adr ''shortName'' 0 q)" by simp
  from short_name_programmed [OF node(1) free node(4,5) bind this] arrival(9) name call(2)
  have "\<forall>k < 18. shortName r' k = (if k < length s then of_char (s ! k) else 0)"
    by (simp add: put_bytes_def)
  moreover have "ia ! i AND 0x80 \<noteq> 0 \<Longrightarrow> ia ! i \<noteq> 0" "oa ! i AND 0x80 \<noteq> 0 \<Longrightarrow> oa ! i \<noteq> 0" by auto
  ultimately show ?thesis
    using call(1,3-6) args(3,4) address_call_sent [OF ctl]
    by (intro exI [of _ ?p])
      (simp add: q_def [symmetric] r'_def [symmetric] Let_def programmed_port_def programmed_sent,
        simp add: program_packet_def)
qed

theorem node_is_programmed_witness:
  "\<exists>p. sent (snd (artnet_send_address quiet_env demo_sender (Some (pub (entries (nodes demo_sender) ! 0)))
       (Some ''foyer'') None (Some [0x7F, 0x7F, 0x7F, 0x7F]) (Some [0x89, 0x7F, 0x7F, 0x7F]) 3 0x21 0 0xFF)) = [p] \<and>
     netSwitch (snd (handle quiet_env demo_node (delivered p))) = 3 \<and>
     port_addr (out_ports (snd (handle quiet_env demo_node (delivered p))) 0) = make_addr 3 0x21 0x89"
proof -
  have "no_callbacks demo_node" "bind_index demo_node \<le> 1"
    by (simp_all add: no_callbacks_def no_callback_def) (simp add: demo_node_def zero_node_def)
  moreover have "wants_name (of_char CHR ''f'')" by (simp add: wants_name_def of_char_def)
  ultimately show ?thesis
    using node_is_programmed [OF observer_quiet demo_sender_fields(1,3,8), where ia = "[0x7F, 0x7F, 0x7F, 0x7F]"
        and oa = "[0x89, 0x7F, 0x7F, 0x7F]" and s = "''foyer''" and net = 3 and sub = "0x21" and acn = "0xFF"
        and e' = quiet_env and r = demo_node and i = 0 and ln = None and cmd = 0]
    by (auto simp: Let_def)
qed

section \<open>ArtInput\<close>

text \<open>An ArtInput that disables one of the ports it speaks of makes the node refuse to send levels
  from that port; one that does not disable it makes the port's input enabled again.\<close>

theorem disabled_input_refuses:
  assumes "observer e" "fh (callbacks n (Packet_Cb ARTNET_INPUT_HANDLER)) = None"
    and "node_type n = ARTNET_NODE \<or> node_type n = ARTNET_MSRV" "mode n = ARTNET_ON"
    and "bind_index_matches n (get8 artnet_input_s ''bindIndex'' p)"
    and "i < 4" "i < unat (get8 artnet_input_s ''numbports'' p)" "\<not> bad_dmx_length len"
  defines "n' \<equiv> snd (artnet_handle_input e n p)"
  shows "if get_at artnet_input_s ''input'' i p AND PORT_DISABLE_MASK \<noteq> 0
    then artnet_send_dmx e n' (int i) len data = Some (ARTNET_EARG, n')
    else port_status (in_ports n' i) AND PORT_STATUS_INPUT_DISABLED = 0"
proof -
  let ?k = "min (unat (get8 artnet_input_s ''numbports'' p)) 4"
  let ?m = "for_upto ?k (input_port_switch p) (n\<lparr>reply_addr := p_from p\<rparr>)"
  have "\<exists>m. in_ports m i = in_ports (n\<lparr>reply_addr := p_from p\<rparr>) i \<and>
      in_ports ?m i = in_ports (input_port_switch p i m) i"
    using assms(6,7) by (intro for_upto_at) (simp_all add: input_port_switch_def upd_in_def)
  then have st: "port_status (in_ports ?m i) =
      (if get_at artnet_input_s ''input'' i p AND PORT_DISABLE_MASK \<noteq> 0
       then port_status (in_ports n i) OR PORT_STATUS_INPUT_DISABLED
       else port_status (in_ports n i) AND NOT PORT_STATUS_INPUT_DISABLED)"
    by (auto simp: input_port_switch_def upd_in_def)
  have mode: "mode ?m = ARTNET_ON"
    using assms(4) for_upto_frame [where f = mode and k = ?k and body = "input_port_switch p"]
    by (simp add: input_port_switch_def)
  have n': "in_ports n' = in_ports ?m" "mode n' = ARTNET_ON"
    using assms(1-3,5) mode
    by (auto simp: n'_def artnet_handle_input_def check_callback_def Let_def case_prod_beta
        artnet_tx_build_art_poll_reply_def)
  have or: "(x OR PORT_STATUS_INPUT_DISABLED) AND PORT_STATUS_INPUT_DISABLED = PORT_STATUS_INPUT_DISABLED"
    "(x AND NOT PORT_STATUS_INPUT_DISABLED) AND PORT_STATUS_INPUT_DISABLED = 0" for x :: u8
    by (rule bit_word_eqI; auto simp only: bit_and_iff bit_or_iff bit_not_iff bit_0_eq bot_apply bot_bool_def)+
  show ?thesis
  proof (cases "get_at artnet_input_s ''input'' i p AND PORT_DISABLE_MASK \<noteq> 0")
    case True
    then have "port_status (in_ports n' i) AND PORT_STATUS_INPUT_DISABLED \<noteq> 0"
      unfolding n'(1) st using or(1) by simp
    with True n'(2) assms(6,8) show ?thesis by (simp add: artnet_send_dmx_def)
  next
    case False
    then show ?thesis unfolding n'(1) st using or(2) by simp
  qed
qed

theorem disabled_input_refuses_witness:
  "fst (the (artnet_send_dmx quiet_env (snd (artnet_handle_input quiet_env demo_node
     \<lparr>p_length = 20, p_from = 5, p_to = 0, p_type = 0,
      p_data = fill artnet_input_s [(''bindIndex'', [1]), (''numbports'', [4]), (''input'', [0, 1, 0, 0])] zero_mem\<rparr>))
     (int 1) 2 zero_mem)) = ARTNET_EARG"
proof -
  let ?p = "\<lparr>p_length = 20, p_from = 5, p_to = 0, p_type = 0,
      p_data = fill artnet_input_s [(''bindIndex'', [1]), (''numbports'', [4]), (''input'', [0, 1, 0, 0])] zero_mem\<rparr> :: packet"
  have "get8 artnet_input_s ''bindIndex'' ?p = 1" "get8 artnet_input_s ''numbports'' ?p = 4"
    "get_at artnet_input_s ''input'' 1 ?p = 1"
    by (simp_all add: get8_def get_at_def layout put_def put_bytes_def)
  moreover have "bind_index_matches demo_node 1"
    by (simp add: bind_index_matches_def demo_node_def zero_node_def)
  ultimately show ?thesis
    using disabled_input_refuses [OF observer_quiet, where n = demo_node and p = ?p and i = 1 and len = 2
        and data = zero_mem]
    by (simp add: no_callback_def bad_dmx_length_iff)
qed

end
