(* ===== verification/Descriptors.thy ===== *)
theory Descriptors
  imports Group
begin

text \<open>
  The socket descriptors of a group of nodes and the memory that a node holds: \<open>artnet_net_start\<close>
  with the propagation to the peers, \<open>artnet_net_close\<close> and \<open>artnet_net_set_fdset\<close>
  (\<open>artnet/network.c\<close>), and \<open>artnet_start\<close>, \<open>artnet_stop\<close>, \<open>artnet_get_sd\<close>, \<open>artnet_set_fdset\<close> and
  \<open>artnet_destroy\<close> (\<open>artnet/artnet.c\<close>) as they act on them.  \<open>Api_Config\<close> has what the first two
  do with the node itself.
\<close>

section \<open>The process\<close>

definition INVALID_SOCKET :: int where
  [simp]: "INVALID_SOCKET = - 1"

text \<open>An allocation that belongs to a node: an entry of its list, by position, the firmware image of
  an entry or of the node, the table of a port, and the node itself.\<close>

datatype block = Entry nat | Entry_Image nat | Node_Image | Tod_In nat | Tod_Out nat | Node_Block

record host =
  members :: group
  sds :: "nat \<Rightarrow> int"
  open_sds :: "int set"
  freed :: "(nat \<times> block) list"

definition upd_member :: "nat \<Rightarrow> node \<Rightarrow> host \<Rightarrow> host" where
  "upd_member i n h = h\<lparr>members := (members h)(i := n)\<rparr>"

section \<open>Sockets (network.c)\<close>

text \<open>\<open>close\<close> gives the descriptor back, whatever it answers.\<close>

definition artnet_net_close :: "bool \<Rightarrow> int \<Rightarrow> host \<Rightarrow> int \<times> host" where
  "artnet_net_close closes sock h =
     (if closes then ARTNET_EOK else ARTNET_ENET, h\<lparr>open_sds := open_sds h - {sock}\<rparr>)"

text \<open>The walk over the peers that gives them the new socket; it has no value if it does not end.\<close>

partial_function (option) share_socket ::
    "group \<Rightarrow> nat \<Rightarrow> int \<Rightarrow> nat option \<Rightarrow> (nat \<Rightarrow> int) \<Rightarrow> (nat \<Rightarrow> int) option" where
  "share_socket w self sock c sd =
     (case c of
        None \<Rightarrow> Some sd
      | Some i \<Rightarrow>
          if i = self then Some sd else share_socket w self sock (peer (w i)) (sd(i := sock)))"

text \<open>A socket that was made and could not be bound is closed again.\<close>

definition host_net_start :: "sockets \<Rightarrow> int \<Rightarrow> nat \<Rightarrow> host \<Rightarrow> (int \<times> host) option" where
  "host_net_start so sock i h =
     (let n = members h i
      in if artnet_net_start so n \<noteq> ARTNET_EOK then Some (artnet_net_start so n, h)
         else if \<not> master n then Some (ARTNET_EOK, h)
         else
           map_option
             (\<lambda>sd. (ARTNET_EOK, h\<lparr>sds := sd, open_sds := insert sock (open_sds h)\<rparr>))
             (share_socket (members h) i sock (peer n) ((sds h)(i := sock))))"

definition artnet_net_set_fdset :: "int \<Rightarrow> int set \<Rightarrow> int \<times> int set" where
  "artnet_net_set_fdset sock fdset = (ARTNET_EOK, insert sock fdset)"

section \<open>The library calls\<close>

definition host_start :: "env \<Rightarrow> sockets \<Rightarrow> int \<Rightarrow> nat \<Rightarrow> host \<Rightarrow> (int \<times> host) option" where
  "host_start e so sock i h =
     (if mode (members h i) \<noteq> ARTNET_STANDBY then Some (ARTNET_ESTATE, h)
      else
        map_option
          (\<lambda>(ret, h).
             if ret \<noteq> 0 then (ret, h)
             else (case artnet_start e so (members h i) of (ret, n) \<Rightarrow> (ret, upd_member i n h)))
          (host_net_start so sock i h))"

definition host_stop :: "bool \<Rightarrow> nat \<Rightarrow> host \<Rightarrow> int \<times> host" where
  "host_stop closes i h =
     (if mode (members h i) \<noteq> ARTNET_ON then (ARTNET_EACTION, h)
      else
        (let h = snd (artnet_net_close closes (sds h i) h)
         in case artnet_stop (members h i) of (ret, n) \<Rightarrow> (ret, upd_member i n h)))"

definition artnet_get_sd :: "nat \<Rightarrow> host \<Rightarrow> int" where
  "artnet_get_sd i h = (if mode (members h i) \<noteq> ARTNET_ON then ARTNET_EACTION else sds h i)"

definition artnet_set_fdset :: "nat \<Rightarrow> int set option \<Rightarrow> host \<Rightarrow> int \<times> int set option" where
  "artnet_set_fdset i fdset h =
     (case fdset of
        None \<Rightarrow> (ARTNET_EARG, None)
      | Some fds \<Rightarrow>
          if mode (members h i) \<noteq> ARTNET_ON then (ARTNET_EACTION, fdset)
          else map_prod id Some (artnet_net_set_fdset (sds h i) fds))"

text \<open>What \<open>artnet_destroy\<close> frees, in its order.\<close>

definition free_entry :: "node_entry_private \<Rightarrow> nat \<Rightarrow> block list" where
  "free_entry t k = (if fw_data (firmware t) \<noteq> None then [Entry_Image k] else []) @ [Entry k]"

definition free_tod :: "tod \<Rightarrow> block \<Rightarrow> block list" where
  "free_tod t b = (if tod_data t \<noteq> None then [b] else [])"

definition destroyed_blocks :: "node \<Rightarrow> block list" where
  "destroyed_blocks n =
     concat (map (\<lambda>k. free_entry (entries (nodes n) ! k) k) [0..<length (entries (nodes n))]) @
     (if fw_data (node_fw n) \<noteq> None then [Node_Image] else []) @
     concat (map (\<lambda>i. free_tod (port_tod (in_ports n i)) (Tod_In i) @
                      free_tod (port_tod (out_ports n i)) (Tod_Out i)) [0..<ARTNET_MAX_PORTS]) @
     [Node_Block]"

definition artnet_destroy :: "bool \<Rightarrow> nat \<Rightarrow> host \<Rightarrow> int \<times> host" where
  "artnet_destroy closes i h =
     (let n = members h i;
          h = (if mode n = ARTNET_ON then snd (artnet_net_close closes (sds h i) h) else h)
      in (ARTNET_EOK, h\<lparr>freed := freed h @ map (Pair i) (destroyed_blocks n)\<rparr>))"

section \<open>Memory\<close>

text \<open>The allocations that a node holds.\<close>

definition owned :: "node \<Rightarrow> block set" where
  "owned n =
     {Entry k | k. k < length (entries (nodes n))} \<union>
     {Entry_Image k | k. k < length (entries (nodes n)) \<and>
        fw_data (firmware (entries (nodes n) ! k)) \<noteq> None} \<union>
     {Node_Image | x. fw_data (node_fw n) = Some x} \<union>
     {Tod_In i | i. i < 4 \<and> tod_data (port_tod (in_ports n i)) \<noteq> None} \<union>
     {Tod_Out i | i. i < 4 \<and> tod_data (port_tod (out_ports n i)) \<noteq> None} \<union> {Node_Block}"

lemma set_destroyed: "set (destroyed_blocks n) = owned n"
  by (auto simp: destroyed_blocks_def owned_def free_entry_def free_tod_def split: if_splits)

lemma distinct_destroyed: "distinct (destroyed_blocks n)"
proof -
  have "distinct (concat (map (\<lambda>k. free_entry (f k) k) [0..<m]))" for f and m :: nat
    by (induction m) (auto simp: free_entry_def split: if_splits)
  moreover have "distinct (concat (map (\<lambda>i. free_tod (f i) (Tod_In i) @ free_tod (g i) (Tod_Out i)) [0..<m]))"
    for f g and m :: nat
    by (induction m) (auto simp: free_tod_def split: if_splits)
  ultimately show ?thesis
    by (auto simp: destroyed_blocks_def free_entry_def free_tod_def split: if_splits)
qed

section \<open>One socket for the ring\<close>

lemma share_socket_walk:
  assumes "walk w c is d" "d = None \<or> d = Some self" "self \<notin> set is" "distinct is"
  shows "share_socket w self sock c sd = Some (\<lambda>j. if j \<in> set is then sock else sd j)"
  using assms
proof (induction "is" arbitrary: c sd)
  case Nil
  then show ?case by (subst share_socket.simps) auto
next
  case (Cons i "is")
  then have "share_socket w self sock (peer (w i)) (sd(i := sock)) =
      Some (\<lambda>j. if j \<in> set is then sock else (sd(i := sock)) j)" by simp
  moreover have "(\<lambda>j. if j \<in> set is then sock else (sd(i := sock)) j) =
      (\<lambda>j. if j \<in> set (i # is) then sock else sd j)" by auto
  ultimately show ?case using Cons.prems by (subst share_socket.simps) simp
qed

lemma send_wired [simp]:
  assumes "observer e"
  shows "master (snd (artnet_net_send e n p)) = master n" "peer (snd (artnet_net_send e n p)) = peer n"
    "master (snd (or_send e ret p n)) = master n" "peer (snd (or_send e ret p n)) = peer n"
  using assms by (simp_all add: or_send_def artnet_net_send_def Let_def)

lemma start_mode:
  assumes "observer e" "mode n = ARTNET_STANDBY" "artnet_net_start so n = ARTNET_EOK"
  shows "mode (snd (artnet_start e so n)) = ARTNET_ON"
    and "master (snd (artnet_start e so n)) = master n"
    and "peer (snd (artnet_start e so n)) = peer n"
proof -
  have tod: "mode (snd (send_tod_requests e nets ret m)) = mode m"
    "master (snd (send_tod_requests e nets ret m)) = master m"
    "peer (snd (send_tod_requests e nets ret m)) = peer m" for nets ret m
    using assms(1) by (induction nets arbitrary: ret m) (simp_all add: Let_def case_prod_beta)
  show "mode (snd (artnet_start e so n)) = ARTNET_ON"
    "master (snd (artnet_start e so n)) = master n"
    "peer (snd (artnet_start e so n)) = peer n"
    using assms
    by (simp_all add: artnet_start_def case_prod_beta artnet_tx_tod_request_def tod
        artnet_tx_build_art_poll_reply_def artnet_tx_poll_def artnet_tx_poll_ex_def split: option.split)
qed

section \<open>Starting a group\<close>

primrec start_members ::
    "env \<Rightarrow> (nat \<Rightarrow> sockets) \<Rightarrow> (nat \<Rightarrow> int) \<Rightarrow> nat list \<Rightarrow> host \<Rightarrow> host option" where
  "start_members e so sock [] h = Some h"
| "start_members e so sock (i # is) h =
     Option.bind (host_start e (so i) (sock i) i h) (\<lambda>(ret, h). start_members e so sock is h)"

text \<open>A node that is not the master opens no socket.\<close>

lemma start_other:
  assumes "observer e" "mode (members h i) = ARTNET_STANDBY" "\<not> master (members h i)"
  shows "\<exists>ret n. host_start e so s i h = Some (ret, upd_member i n h) \<and> mode n = ARTNET_ON \<and>
    master n = master (members h i)"
proof -
  have net: "artnet_net_start so (members h i) = ARTNET_EOK"
    using assms(3) by (simp add: artnet_net_start_def)
  obtain ret n where n: "artnet_start e so (members h i) = (ret, n)" by fastforce
  have "mode n = ARTNET_ON" "master n = master (members h i)"
    using start_mode [OF assms(1,2) net] n by simp_all
  moreover have "host_start e so s i h = Some (ret, upd_member i n h)"
    using assms(2,3) net n by (simp add: host_start_def host_net_start_def Let_def)
  ultimately show ?thesis by blast
qed

lemma start_others:
  assumes "observer e" "distinct is"
    and "\<forall>i \<in> set is. mode (members h i) = ARTNET_STANDBY \<and> \<not> master (members h i)"
  shows "\<exists>w. start_members e so sock is h = Some (h\<lparr>members := w\<rparr>) \<and>
    (\<forall>i \<in> set is. mode (w i) = ARTNET_ON) \<and> (\<forall>i. i \<notin> set is \<longrightarrow> w i = members h i)"
  using assms(2,3)
proof (induction "is" arbitrary: h)
  case Nil
  show ?case by (rule exI [of _ "members h"]) simp
next
  case (Cons i "is")
  obtain ret n where n: "host_start e (so i) (sock i) i h = Some (ret, upd_member i n h)"
    "mode n = ARTNET_ON"
    using start_other [OF assms(1), of h i "so i" "sock i"] Cons.prems by auto
  have "\<forall>j \<in> set is. mode (members (upd_member i n h) j) = ARTNET_STANDBY \<and>
      \<not> master (members (upd_member i n h) j)"
    using Cons.prems by (auto simp: upd_member_def)
  then obtain w where w: "start_members e so sock is (upd_member i n h) = Some (upd_member i n h\<lparr>members := w\<rparr>)"
    "\<forall>j \<in> set is. mode (w j) = ARTNET_ON"
    "\<forall>j. j \<notin> set is \<longrightarrow> w j = members (upd_member i n h) j"
    using Cons.IH [of "upd_member i n h"] Cons.prems by auto
  show ?case
    by (rule exI [of _ w]) (use n w Cons.prems in \<open>auto simp: upd_member_def\<close>)
qed

lemma start_ring:
  assumes "observer e" "joined (members h) a is" "set js = set is" "distinct js"
    and "\<forall>i \<in> set (a # is). mode (members h i) = ARTNET_STANDBY \<and> master (members h i) = (i = a)"
    and "artnet_net_start (so a) (members h a) = ARTNET_EOK"
  shows "\<exists>h'. start_members e so sock (a # js) h = Some h' \<and>
    (\<forall>i \<in> set (a # is). mode (members h' i) = ARTNET_ON \<and> sds h' i = sock a) \<and>
    open_sds h' = insert (sock a) (open_sds h)"
proof -
  obtain d where d: "walk (members h) (peer (members h a)) is d" "d = None \<or> d = Some a"
    using assms(2) by (auto simp: joined_def)
  have dist: "a \<notin> set is" "distinct is" using assms(2) by (auto simp: joined_def)
  let ?sd = "\<lambda>j. if j \<in> set is then sock a else ((sds h)(a := sock a)) j"
  obtain ret n where n: "artnet_start e (so a) (members h a) = (ret, n)" by fastforce
  have on: "mode n = ARTNET_ON" using start_mode [OF assms(1) _ assms(6)] assms(5) n by simp
  define g where "g = upd_member a n (h\<lparr>sds := ?sd, open_sds := insert (sock a) (open_sds h)\<rparr>)"
  have first: "host_start e (so a) (sock a) a h = Some (ret, g)"
    using share_socket_walk [OF d dist, of "sock a" "(sds h)(a := sock a)"] assms(5,6) n
    by (simp add: host_start_def host_net_start_def Let_def g_def)
  have others: "\<forall>i \<in> set js. mode (members g i) = ARTNET_STANDBY \<and> \<not> master (members g i)"
    using assms(3,5) dist(1) by (auto simp: g_def upd_member_def)
  obtain w where w: "start_members e so sock js g = Some (g\<lparr>members := w\<rparr>)"
    "\<forall>i \<in> set js. mode (w i) = ARTNET_ON" "\<forall>i. i \<notin> set js \<longrightarrow> w i = members g i"
    using start_others [OF assms(1,4) others] by blast
  have "mode (w a) = ARTNET_ON" using w(3) assms(3) dist(1) on by (simp add: g_def upd_member_def)
  with w(2) assms(3) have on: "\<forall>i \<in> set (a # is). mode (w i) = ARTNET_ON" by simp
  show ?thesis
    by (rule exI [of _ "g\<lparr>members := w\<rparr>"]) (use first w(1) on in \<open>auto simp: g_def upd_member_def\<close>)
qed

text \<open>C35: When the master of a ring of stopped nodes is started and then the others, in any order, all
  run with the one socket that was opened; but stopping any of them closes it for all, and the
  others go on running with the descriptor that was closed.\<close>

theorem started_ring_shares_socket:
  assumes "observer e" "joined (members h) a is" "set js = set is" "distinct js"
    and "\<forall>i \<in> set (a # is). mode (members h i) = ARTNET_STANDBY \<and> master (members h i) = (i = a)"
    and "artnet_net_start (so a) (members h a) = ARTNET_EOK"
  shows "\<exists>h'. start_members e so sock (a # js) h = Some h' \<and>
    open_sds h' = insert (sock a) (open_sds h) \<and>
    (\<forall>i \<in> set (a # is). artnet_get_sd i h' = sock a) \<and>
    (\<forall>i \<in> set (a # is). \<forall>j \<in> set (a # is) - {i}.
       artnet_get_sd j (snd (host_stop closes i h')) = sock a \<and>
       sock a \<notin> open_sds (snd (host_stop closes i h')))"
proof -
  obtain h' where h': "start_members e so sock (a # js) h = Some h'"
    "\<forall>i \<in> set (a # is). mode (members h' i) = ARTNET_ON \<and> sds h' i = sock a"
    "open_sds h' = insert (sock a) (open_sds h)"
    using start_ring [where so = so and sock = sock, OF assms] by blast
  have "artnet_get_sd j (snd (host_stop closes i h')) = sock a"
    "sock a \<notin> open_sds (snd (host_stop closes i h'))"
    if "i \<in> set (a # is)" "j \<in> set (a # is) - {i}" for i j
    using h'(2) that
    by (auto simp: host_stop_def artnet_net_close_def artnet_stop_def artnet_get_sd_def upd_member_def)
  moreover have "\<forall>i \<in> set (a # is). artnet_get_sd i h' = sock a"
    using h'(2) by (simp add: artnet_get_sd_def)
  ultimately show ?thesis using h'(1,3) by blast
qed

definition demo_host :: host where
  "demo_host = \<lparr>members = (\<lambda>i. zero_node\<lparr>mode := ARTNET_STANDBY, node_type := ARTNET_NODE,
       peer := Some (1 - i), master := (i = 0)\<rparr>),
     sds = (\<lambda>_. INVALID_SOCKET), open_sds = {0, 1, 2}, freed = []\<rparr>"

theorem started_ring_shares_socket_witness:
  "\<exists>h'. start_members quiet_env (\<lambda>_. \<lparr>socket_ok = True, broadcast_ok = True, reuse_ok = True, bind_ok = True\<rparr>)
       (\<lambda>_. 3) [0, 1] demo_host = Some h' \<and> artnet_get_sd 1 h' = 3 \<and>
     3 \<notin> open_sds (snd (host_stop True 0 h'))"
proof -
  let ?so = "\<lambda>_ :: nat. \<lparr>socket_ok = True, broadcast_ok = True, reuse_ok = True, bind_ok = True\<rparr>"
  have "joined (members demo_host) 0 [1]" by (simp add: joined_def demo_host_def)
  moreover have "artnet_net_start (?so 0) (members demo_host 0) = ARTNET_EOK"
    by (simp add: artnet_net_start_def)
  ultimately show ?thesis
    using started_ring_shares_socket [OF observer_quiet, of demo_host 0 "[1]" "[1]" ?so "\<lambda>_. 3" True]
    by (fastforce simp: demo_host_def)
qed

text \<open>Destroying a node frees every allocation it holds, each once, and closes its socket when it
  runs; no other node is changed, so one that had it as its peer still has.\<close>

theorem destroy_frees_once:
  "\<exists>bs. artnet_destroy closes i h =
      (ARTNET_EOK, h\<lparr>freed := freed h @ map (Pair i) bs,
         open_sds := (if mode (members h i) = ARTNET_ON then open_sds h - {sds h i} else open_sds h)\<rparr>) \<and>
    distinct bs \<and> set bs = owned (members h i)"
  by (rule exI [of _ "destroyed_blocks (members h i)"])
    (simp add: artnet_destroy_def artnet_net_close_def Let_def set_destroyed distinct_destroyed)

end
