(* ===== verification/Poll_Properties.thy ===== *)
theory Poll_Properties
  imports End_To_End Timeout_Properties
begin

text \<open>
  Discovery from the poll to the reply: what a controller's ArtPoll, sent with flags and a range of
  universes, makes a node do, until its reply has left.
\<close>

section \<open>The poll on the wire\<close>

definition poll_fields :: "u8 \<Rightarrow> u8 \<Rightarrow> u16 \<Rightarrow> u16 \<Rightarrow> u16 \<Rightarrow> u16 \<Rightarrow>
    (string \<times> u8 list) list" where
  "poll_fields flags prio high low esta oem =
     [(''flags'', [flags]), (''diagPriority'', [prio]),
      (''targetPortAddressTopHi'', [short_get_high_byte high]),
      (''targetPortAddressTopLo'', [short_get_low_byte high]),
      (''targetPortAddressBottomHi'', [short_get_high_byte low]),
      (''targetPortAddressBottomLo'', [short_get_low_byte low]),
      (''estaMan'', [short_get_high_byte esta, short_get_low_byte esta]),
      (''oem'', [short_get_high_byte oem, short_get_low_byte oem])]"

definition poll_packet :: "ip \<Rightarrow> ip \<Rightarrow> u8 \<Rightarrow> u8 \<Rightarrow> u16 \<Rightarrow> u16 \<Rightarrow> u16 \<Rightarrow> u16 \<Rightarrow> packet" where
  "poll_packet a b flags prio high low esta oem =
     (new_packet b 0 22
        (fill artnet_poll_s (poll_fields flags prio high low esta oem) (header ARTNET_POLL)))\<lparr>p_from := a\<rparr>"

lemma poll_packet_from [simp]: "p_from (poll_packet a b flags prio high low esta oem) = a"
  by (simp add: poll_packet_def)

lemma poll_fields_fit:
  "after_header artnet_poll_s (poll_fields flags prio high low esta oem)"
  "fits_layout artnet_poll_s (poll_fields flags prio high low esta oem)"
  "distinct (map fst (poll_fields flags prio high low esta oem))"
  by (simp_all add: poll_fields_def layout after_header_def)
     (simp add: fits_layout_def artnet_poll_s_def)

interpretation poll_form: wire_form artnet_poll_s ARTNET_POLL
  "\<lambda>xs. \<exists>flags prio high low esta oem. xs = poll_fields flags prio high low esta oem"
  by unfold_locales (use poll_fields_fit in \<open>auto simp del: opcode.simps\<close>)

lemma poll_arrives:
  fixes a b :: ip and flags prio :: u8 and high low esta oem :: u16
  defines "q \<equiv> delivered (poll_packet a b flags prio high low esta oem)"
  shows "packet_is_valid q" "p_type q = opcode ARTNET_POLL" "p_from q = a"
    "poll_flag q f \<longleftrightarrow> flags AND f \<noteq> 0" "poll_top q = uint high" "poll_bottom q = uint low"
    "get8 artnet_poll_s ''diagPriority'' q = prio"
proof -
  let ?p = "poll_packet a b flags prio high low esta oem"
  have data: "p_data ?p = fill artnet_poll_s (poll_fields flags prio high low esta oem) (header ARTNET_POLL)"
    and len: "p_length ?p = 22"
    by (simp_all add: poll_packet_def new_packet_def)
  have form: "\<exists>f p h l m c. poll_fields flags prio high low esta oem = poll_fields f p h l m c" by blast
  note arrives = poll_form.arrives [OF form data, folded q_def]
  note byte = poll_form.byte [OF form data, folded q_def]
  show type: "p_type q = opcode ARTNET_POLL" using arrives len by simp
  show "p_from q = a" by (simp add: q_def)
  have bytes: "get8 artnet_poll_s ''flags'' q = flags" "get8 artnet_poll_s ''diagPriority'' q = prio"
    "get8 artnet_poll_s ''targetPortAddressTopHi'' q = short_get_high_byte high"
    "get8 artnet_poll_s ''targetPortAddressTopLo'' q = short_get_low_byte high"
    "get8 artnet_poll_s ''targetPortAddressBottomHi'' q = short_get_high_byte low"
    "get8 artnet_poll_s ''targetPortAddressBottomLo'' q = short_get_low_byte low"
    using byte [of "''flags''"] byte [of "''diagPriority''"] byte [of "''targetPortAddressTopHi''"]
      byte [of "''targetPortAddressTopLo''"] byte [of "''targetPortAddressBottomHi''"]
      byte [of "''targetPortAddressBottomLo''"] len
    by (simp_all add: layout) (simp_all add: poll_fields_def)
  then show "poll_flag q f \<longleftrightarrow> flags AND f \<noteq> 0" "poll_top q = uint high" "poll_bottom q = uint low"
    "get8 artnet_poll_s ''diagPriority'' q = prio"
    by (simp_all add: poll_flag_def poll_top_def poll_bottom_def get_short_def bytes_to_short_split)
  show "packet_is_valid q" using poll_form.accepted [OF form data] len by (simp add: q_def)
qed

section \<open>The node's answer\<close>

text \<open>The poll is for every node, or one of the node's ports is on a universe of the range.\<close>

definition targeted :: "node \<Rightarrow> u8 \<Rightarrow> u16 \<Rightarrow> u16 \<Rightarrow> bool" where
  "targeted n flags high low \<longleftrightarrow>
     flags AND 0x20 = 0 \<or> (low = 0 \<and> high = 0) \<or>
     (\<exists>i < 4. let a = (if port_enabled (out_ports n i) then port_addr (out_ports n i)
                      else port_addr (in_ports n i)) in low \<le> a \<and> a \<le> high)"

lemma targeted_iff:
  fixes a b :: ip and flags prio :: u8 and high low esta oem :: u16
  defines "q \<equiv> delivered (poll_packet a b flags prio high low esta oem)"
  shows "(poll_flag q ARTNET_POLL_FLAG_TARGET_MODE \<and> \<not> poll_targets n q) = (\<not> targeted n flags high low)"
proof -
  note q = poll_arrives [where a = a and b = b and flags = flags and prio = prio and high = high
      and low = low and esta = esta and oem = oem, folded q_def]
  have "(uint low = 0 \<and> uint high = 0) = (low = 0 \<and> high = 0)"
    by (simp add: word_uint_eq_iff)
  moreover have "list_ex (\<lambda>i. uint low \<le> polled_addr n i \<and> polled_addr n i \<le> uint high) [0..<4] =
      (\<exists>i < 4. let a = (if port_enabled (out_ports n i) then port_addr (out_ports n i)
                      else port_addr (in_ports n i)) in low \<le> a \<and> a \<le> high)"
    by (auto simp: list_ex_iff polled_addr_def word_le_def Let_def)
  ultimately show ?thesis by (simp add: q poll_targets_def targeted_def)
qed

lemma poll_diagnostics_fields [simp]:
  "mode (poll_diagnostics p n) = mode n" "reply_addr (poll_diagnostics p n) = reply_addr n"
  "sent (poll_diagnostics p n) = sent n" "clk (poll_diagnostics p n) = clk n"
  "rnd (poll_diagnostics p n) = rnd n" "apr_pending (poll_diagnostics p n) = apr_pending n"
  by (simp_all add: poll_diagnostics_def Let_def)

lemma polled_state:
  fixes a b :: ip and flags prio :: u8 and high low esta oem :: u16
  assumes "observer e" "fh (callbacks n (Packet_Cb ARTNET_POLL_HANDLER)) = None" "node_type n \<noteq> ARTNET_RAW"
  defines "n' \<equiv> snd (handle_poll e n (delivered (poll_packet a b flags prio high low esta oem)))"
  shows "mode n' = mode n" "reply_addr n' = a" "sent n' = sent n"
    "if targeted n flags high low
     then apr_pending n' \<and> apr_pending_time n' = env_time e (clk n) + of_nat (env_rand e (rnd n) mod 1000)
     else apr_pending n' = apr_pending n \<and> apr_pending_time n' = apr_pending_time n"
proof -
  let ?q = "delivered (poll_packet a b flags prio high low esta oem)"
  let ?m = "n\<lparr>reply_addr := a, send_apr_on_change := flags AND 2 \<noteq> 0, vlc_disabled := flags AND 16 \<noteq> 0\<rparr>"
  have t: "targeted ?m flags high low = targeted n flags high low" by (simp add: targeted_def)
  note tar = targeted_iff [of a b flags prio high low esta oem ?m, unfolded t]
  have eq: "n' = (if \<not> targeted n flags high low then ?m
      else (let n = (if flags AND 4 \<noteq> 0 then poll_diagnostics ?q ?m else ?m);
                (now, n) = artnet_gettime_ms e n; (r, n) = c_rand e n
            in n\<lparr>apr_pending := True, apr_pending_time := now + of_nat (r mod 1000)\<rparr>))"
    using assms(2,3) tar
    by (simp add: n'_def handle_poll_def check_callback_def Let_def poll_arrives case_prod_beta)
  show "mode n' = mode n" "reply_addr n' = a" "sent n' = sent n"
    "if targeted n flags high low
     then apr_pending n' \<and> apr_pending_time n' = env_time e (clk n) + of_nat (env_rand e (rnd n) mod 1000)
     else apr_pending n' = apr_pending n \<and> apr_pending_time n' = apr_pending_time n"
    unfolding eq by (simp_all add: artnet_gettime_ms_def c_rand_def Let_def)
qed



end
