(* ===== verification/Tod_Properties.thy ===== *)
theory Tod_Properties
  imports Programming_Properties
begin

text \<open>
  Tables of RDM devices on the wire: a node that is asked for the table of a port sends it in pages
  of at most 200 identifiers, and what the pages carry, put together, is the table.
\<close>

section \<open>Pages\<close>

definition tod_pages :: "int \<Rightarrow> nat" where
  "tod_pages len = max 1 ((nat len + 199) div 200)"

definition page_fields :: "node \<Rightarrow> nat \<Rightarrow> nat \<Rightarrow> (string \<times> u8 list) list" where
  "page_fields n i k =
     (let port = out_ports n i; t = port_tod port; len = tod_length t
      in [(''rdmVer'', [ARTNET_RDM_VERSION]), (''port'', [of_nat (i + 1)]),
          (''bindIndex'', [bind_index_of n]), (''cmdRes'', [ARTNET_TOD_FULL]),
          (''address'', [addr_low_byte (port_addr port)]), (''net'', [addr_net (port_addr port)]),
          (''uidTotalHi'', [hi_byte len]), (''uidTotal'', [lo_byte len]),
          (''blockCount'', [of_nat k]),
          (''uidCount'', [of_nat (length (take 200 (drop (200 * k) (tod_uids t))))]),
          (''tod'', concat (take 200 (drop (200 * k) (tod_uids t))))])"

definition tod_page :: "node \<Rightarrow> nat \<Rightarrow> nat \<Rightarrow> packet" where
  "tod_page n i k =
     (new_packet (tod_reply_addr n) (opcode ARTNET_TODDATA) (size_of artnet_toddata_s)
        (fill artnet_toddata_s (page_fields n i k) (header ARTNET_TODDATA)))\<lparr>p_from := ip_addr n\<rparr>"

text \<open>The identifiers that a receiver finds in a page.\<close>

definition uids_of_page :: "packet \<Rightarrow> uid list" where
  "uids_of_page p =
     map (\<lambda>j. get_bytes (p_data p) (offset artnet_toddata_s ''tod'' + 6 * j) 6)
       [0..<unat (get8 artnet_toddata_s ''uidCount'' p)]"

lemma fill_append: "fill L (xs @ ys) m = fill L ys (fill L xs m)"
  by (induction xs arbitrary: m) auto

lemma concat_pages: "concat (map (\<lambda>k. take c (drop (c * k) xs)) [0..<m]) = take (c * m) xs"
  by (induction m) (simp_all add: take_add [symmetric] add.commute)

lemma nth_bytes_uids:
  assumes "\<forall>u \<in> set us. length u = 6" "j < length us"
  shows "take 6 (drop (6 * j) (concat us)) = us ! j"
  using assms
proof (induction us arbitrary: j)
  case (Cons u us)
  then show ?case by (cases j) (simp_all add: algebra_simps)
qed simp

lemma length_concat_uids: "\<forall>u \<in> set us. length u = 6 \<Longrightarrow> length (concat us) = 6 * length us"
  by (induction us) auto

lemma page_uids:
  assumes "wf_tod t" "200 * k \<le> nat (tod_length t)"
  shows "nat (min 200 (tod_length t - 200 * int k)) = length (take 200 (drop (200 * k) (tod_uids t)))"
    and "tod_page_bytes t (200 * k) (nat (min 200 (tod_length t - 200 * int k))) =
      concat (take 200 (drop (200 * k) (tod_uids t)))"
proof -
  have len: "int (length (tod_uids t)) = tod_length t" using length_tod_uids [OF assms(1)] .
  then show n: "nat (min 200 (tod_length t - 200 * int k)) = length (take 200 (drop (200 * k) (tod_uids t)))"
    by simp
  show "tod_page_bytes t (200 * k) (nat (min 200 (tod_length t - 200 * int k))) =
      concat (take 200 (drop (200 * k) (tod_uids t)))"
  proof (cases "tod_data t")
    case None
    then show ?thesis by (simp add: tod_page_bytes_def tod_uids_def)
  next
    case (Some d)
    have "take 200 (drop (200 * k) (tod_uids t)) =
        map d [200 * k..<200 * k + nat (min 200 (tod_length t - 200 * int k))]"
    proof -
      have "0 \<le> tod_length t" using len by linarith
      then have "nat (min 200 (tod_length t - 200 * int k)) = min 200 (nat (tod_length t) - 200 * k)"
        by linarith
      then show ?thesis
        by (cases "200 * k + 200 \<le> nat (tod_length t)")
          (use assms(2) in \<open>simp_all add: Some tod_uids_def drop_map take_map min_def\<close>)
    qed
    with Some show ?thesis by (simp add: tod_page_bytes_def)
  qed
qed

section \<open>The loop over the pages\<close>

lemma tod_page_packet_is:
  fixes n :: node and i k :: nat
  defines "t \<equiv> port_tod (out_ports n i)"
  defines "d \<equiv> fill artnet_toddata_s (take 8 (page_fields n i 0)) (header ARTNET_TODDATA)"
  assumes "wf_tod t" "200 * k \<le> nat (tod_length t)"
  shows "(tod_page_packet t (tod_reply_addr n) d (tod_length t - 200 * int k) (int k))\<lparr>p_from := ip_addr n\<rparr> =
    tod_page n i k"
proof -
  let ?us = "take 200 (drop (200 * k) (tod_uids t))"
  have lim: "min 200 (tod_length t - 200 * int k) = int (length ?us)"
    using page_uids(1) [OF assms(3,4)] length_tod_uids [OF assms(3)] assms(4) by linarith
  have bytes: "tod_page_bytes t (200 * k) (length ?us) = concat ?us"
    using page_uids [OF assms(3,4)] by simp
  have start: "nat (200 * int k) = 200 * k" by simp
  have split: "page_fields n i k = take 8 (page_fields n i 0) @
      [(''blockCount'', [of_nat k]), (''uidCount'', [of_nat (length ?us)]), (''tod'', concat ?us)]"
    by (simp add: page_fields_def Let_def t_def)
  show ?thesis
    unfolding tod_page_def split fill_append
    by (simp add: tod_page_packet_def tod_page_limit_def lim Let_def d_def new_packet_def start
        bytes [simplified])
qed

text \<open>What sending leaves alone, and the pages of a port.\<close>

definition unsent :: "node \<Rightarrow> node" where
  "unsent n = n\<lparr>sends := 0, sent := [], oob := False\<rparr>"

lemma unsent_steps [simp]:
  "unsent (n\<lparr>sends := a, sent := b\<rparr>) = unsent n" "unsent (inside c n) = unsent n"
  by (simp_all add: unsent_def inside_def)

lemma unsent_fields:
  assumes "unsent m = unsent n"
  shows "mode m = mode n" "out_ports m = out_ports n" "ip_addr m = ip_addr n"
    "tod_reply_addr m = tod_reply_addr n" "node_type m = node_type n" "callbacks m = callbacks n"
    "bind_index m = bind_index n"
proof -
  obtain a b c where "m = n\<lparr>sends := a, sent := b, oob := c\<rparr>"
    using assms by (cases m, cases n) (simp add: unsent_def)
  then show "mode m = mode n" "out_ports m = out_ports n" "ip_addr m = ip_addr n"
    "tod_reply_addr m = tod_reply_addr n" "node_type m = node_type n" "callbacks m = callbacks n"
    "bind_index m = bind_index n"
    by simp_all
qed

lemma pages_left:
  assumes "0 \<le> len" "k < tod_pages len"
  shows "200 * k \<le> nat len" "0 < len - 200 * int k - min 200 (len - 200 * int k) \<longleftrightarrow> Suc k < tod_pages len"
    "0 < len - 200 * int k - min 200 (len - 200 * int k) \<Longrightarrow>
      len - 200 * int k - min 200 (len - 200 * int k) = len - 200 * int (Suc k)"
proof -
  have "k = 0 \<or> k < (nat len + 199) div 200" using assms(2) by (auto simp: tod_pages_def)
  then show "200 * k \<le> nat len" by auto
  have "Suc k < tod_pages len \<longleftrightarrow> 200 * Suc k < nat len"
    by (auto simp: tod_pages_def less_eq_div_iff_mult_less_eq Suc_le_eq)
  then show "0 < len - 200 * int k - min 200 (len - 200 * int k) \<longleftrightarrow> Suc k < tod_pages len"
    using assms(1) by (simp add: min_def) linarith
  show "0 < len - 200 * int k - min 200 (len - 200 * int k) \<Longrightarrow>
      len - 200 * int k - min 200 (len - 200 * int k) = len - 200 * int (Suc k)"
    by (simp add: min_def split: if_splits)
qed

lemma tod_loop_sent:
  fixes n :: node and i :: nat
  defines "t \<equiv> port_tod (out_ports n i)"
  defines "d \<equiv> fill artnet_toddata_s (take 8 (page_fields n i 0)) (header ARTNET_TODDATA)"
  assumes "sends_whole e" "wf_tod t" "mode n = ARTNET_ON"
  shows "k < tod_pages (tod_length t) \<Longrightarrow> unsent m = unsent n \<Longrightarrow>
    \<exists>m'. tod_data_loop e i (tod_reply_addr n) d (tod_length t - 200 * int k) (int k) 0 m = (0, m') \<and>
      unsent m' = unsent n \<and> sent m' = sent m @ map (tod_page n i) [k..<tod_pages (tod_length t)]"
proof (induction "tod_pages (tod_length t) - k" arbitrary: k m)
  case (Suc x)
  have len: "0 \<le> tod_length t" using length_tod_uids [OF assms(4)] by linarith
  note left = pages_left [OF len Suc.prems(1)]
  note same = unsent_fields [OF Suc.prems(2)]
  let ?rem = "tod_length t - 200 * int k"
  let ?p = "tod_page_packet t (tod_reply_addr n) d ?rem (int k)"
  have p: "?p\<lparr>p_from := ip_addr n\<rparr> = tod_page n i k" "0 \<le> p_length ?p"
    using tod_page_packet_is [of n i k, folded t_def, folded d_def, OF assms(4) left(1)]
    by (simp_all add: tod_page_packet_def Let_def new_packet_def layout)
  define m2 where "m2 = (inside (tod_page_inside t ?rem) m)\<lparr>sends := Suc (sends m), sent := sent m @ [tod_page n i k]\<rparr>"
  have send: "or_send e 0 ?p (inside (tod_page_inside t ?rem) m) = (0, m2)"
    using net_send_whole [OF assms(3) _ p(2), of "inside (tod_page_inside t ?rem) m"] assms(5) same p(1)
    by (simp add: or_send_def m2_def c_bool_def)
  have m2: "unsent m2 = unsent n" "sent m2 = sent m @ [tod_page n i k]"
    using Suc.prems(2) by (simp_all add: m2_def)
  have tm: "port_tod (out_ports m i) = t" using same by (simp add: t_def)
  have upt: "[k..<tod_pages (tod_length t)] = k # [Suc k..<tod_pages (tod_length t)]"
    using Suc.prems(1) by (simp add: upt_conv_Cons)
  show ?case
  proof (cases "Suc k < tod_pages (tod_length t)")
    case True
    with left(2,3) have r: "0 < ?rem - tod_page_limit ?rem"
      "?rem - tod_page_limit ?rem = tod_length t - 200 * int (Suc k)"
      by (simp_all add: tod_page_limit_def)
    have "x = tod_pages (tod_length t) - Suc k" using Suc.hyps(2) by simp
    from Suc.hyps(1) [OF this True m2(1)]
    obtain m' where m': "tod_data_loop e i (tod_reply_addr n) d (tod_length t - 200 * int (Suc k))
        (int (Suc k)) 0 m2 = (0, m')" "unsent m' = unsent n"
      "sent m' = sent m2 @ map (tod_page n i) [Suc k..<tod_pages (tod_length t)]" by blast
    have "tod_data_loop e i (tod_reply_addr n) d ?rem (int k) 0 m =
        tod_data_loop e i (tod_reply_addr n) d (?rem - tod_page_limit ?rem) (int k + 1) 0 m2"
      using r(1) by (subst tod_data_loop.simps) (simp add: Let_def tm send)
    then have "tod_data_loop e i (tod_reply_addr n) d ?rem (int k) 0 m = (0, m')"
      unfolding r(2) using m'(1) by (simp add: add.commute)
    with m'(2,3) m2(2) upt show ?thesis by simp
  next
    case False
    with left(2) have "\<not> 0 < ?rem - tod_page_limit ?rem" by (simp add: tod_page_limit_def)
    moreover have "tod_pages (tod_length t) = Suc k" using False Suc.prems(1) by simp
    ultimately show ?thesis using m2
      by (subst tod_data_loop.simps) (simp add: Let_def tm send)
  qed
qed simp

lemma tx_tod_data_sent:
  assumes "sends_whole e" "wf_tod (port_tod (out_ports n i))" "mode n = ARTNET_ON" "tod_reply_addr n \<noteq> 0"
  shows "\<exists>m. artnet_tx_tod_data e n i = (0, m) \<and> unsent m = unsent n \<and>
    sent m = sent n @ map (tod_page n i) [0..<tod_pages (tod_length (port_tod (out_ports n i)))]"
proof -
  have "0 < tod_pages (tod_length (port_tod (out_ports n i)))" by (simp add: tod_pages_def)
  from tod_loop_sent [OF assms(1-3) this refl] assms(4) show ?thesis
    by (simp add: artnet_tx_tod_data_def Let_def page_fields_def)
qed

section \<open>What a page says\<close>

lemma page_fields_fit:
  assumes "tod_ok (port_tod (out_ports n i))"
  shows "after_header artnet_toddata_s (page_fields n i k)"
    "fits_layout artnet_toddata_s (page_fields n i k)" "distinct (map fst (page_fields n i k))"
proof -
  have "\<forall>u \<in> set (take 200 (drop (200 * k) (tod_uids (port_tod (out_ports n i))))). length u = 6"
    using assms by (auto simp: tod_ok_def dest!: in_set_takeD in_set_dropD)
  from length_concat_uids [OF this]
  show "after_header artnet_toddata_s (page_fields n i k)"
    "fits_layout artnet_toddata_s (page_fields n i k)" "distinct (map fst (page_fields n i k))"
    by (simp_all add: page_fields_def Let_def layout after_header_def)
       (simp add: fits_layout_def artnet_toddata_s_def)
qed

interpretation page_form: wire_form artnet_toddata_s ARTNET_TODDATA
  "\<lambda>xs. \<exists>n i k. tod_ok (port_tod (out_ports n i)) \<and> xs = page_fields n i k"
  by unfold_locales (use page_fields_fit in \<open>auto simp del: opcode.simps\<close>)

lemma page_arrives:
  fixes n :: node and i k :: nat
  assumes "tod_ok (port_tod (out_ports n i))" "i < 4"
  defines "q \<equiv> delivered (tod_page n i k)" and "t \<equiv> port_tod (out_ports n i)"
    and "a \<equiv> port_addr (out_ports n i)"
  shows "packet_is_valid q" "p_type q = opcode ARTNET_TODDATA" "p_from q = ip_addr n"
    "get8 artnet_toddata_s ''net'' q = addr_net a"
    "get8 artnet_toddata_s ''address'' q = addr_low_byte a"
    "get8 artnet_toddata_s ''blockCount'' q = of_nat k"
    "0 \<le> tod_length t \<Longrightarrow> tod_length t < 65536 \<Longrightarrow>
       get_short artnet_toddata_s ''uidTotalHi'' ''uidTotal'' q = tod_length t"
    "uids_of_page q = take 200 (drop (200 * k) (tod_uids t))"
proof -
  let ?xs = "page_fields n i k"
  let ?us = "take 200 (drop (200 * k) (tod_uids t))"
  have data: "p_data (tod_page n i k) = fill artnet_toddata_s ?xs (header ARTNET_TODDATA)"
    and len: "p_length (tod_page n i k) = 1228"
    by (simp_all add: tod_page_def new_packet_def layout)
  have form: "\<exists>n i k. tod_ok (port_tod (out_ports n i)) \<and> ?xs = page_fields n i k"
    using assms(1) by blast
  note arrives = page_form.arrives [OF form data]
  note byte = page_form.byte [OF form data, folded q_def]
  have us: "\<forall>u \<in> set ?us. length u = 6"
    using assms(1) by (auto simp: t_def tod_ok_def dest!: in_set_takeD in_set_dropD)
  show type: "p_type q = opcode ARTNET_TODDATA" and sender: "p_from q = ip_addr n"
    using arrives len by (simp_all add: q_def) (simp add: tod_page_def)
  have count: "get8 artnet_toddata_s ''uidCount'' q = of_nat (length ?us)"
    using byte [of "''uidCount''" "of_nat (length ?us)"] len
    by (simp add: layout) (simp add: page_fields_def Let_def t_def)
  show net: "get8 artnet_toddata_s ''net'' q = addr_net a"
    and address: "get8 artnet_toddata_s ''address'' q = addr_low_byte a"
    and block: "get8 artnet_toddata_s ''blockCount'' q = of_nat k"
    using byte [of "''net''" "addr_net a"] byte [of "''address''" "addr_low_byte a"]
      byte [of "''blockCount''" "of_nat k"] len
    by (simp_all add: layout) (simp_all add: page_fields_def Let_def a_def)
  have others: "get8 artnet_toddata_s ''rdmVer'' q = ARTNET_RDM_VERSION"
    "get8 artnet_toddata_s ''port'' q = of_nat (i + 1)"
    "get8 artnet_toddata_s ''bindIndex'' q = bind_index_of n"
    "get8 artnet_toddata_s ''cmdRes'' q = ARTNET_TOD_FULL"
    "get8 artnet_toddata_s ''uidTotalHi'' q = hi_byte (tod_length t)"
    "get8 artnet_toddata_s ''uidTotal'' q = lo_byte (tod_length t)"
    using byte [of "''rdmVer''"] byte [of "''port''"] byte [of "''bindIndex''"] byte [of "''cmdRes''"]
      byte [of "''uidTotalHi''"] byte [of "''uidTotal''"] len
    by (simp_all add: layout) (simp_all add: page_fields_def Let_def t_def)
  show "get_short artnet_toddata_s ''uidTotalHi'' ''uidTotal'' q = tod_length t"
    if "0 \<le> tod_length t" "tod_length t < 65536"
    using others hi_lo_bytes [OF that] by (simp add: get_short_def)
  have small: "unat (of_nat (length ?us) :: u8) = length ?us" by (simp add: unsigned_of_nat take_bit_nat_eq_self)
  show "uids_of_page q = ?us"
  proof (rule nth_equalityI)
    show "length (uids_of_page q) = length ?us"
      using small by (simp add: uids_of_page_def count)
    fix j
    assume "j < length (uids_of_page q)"
    then have j: "j < length ?us" using small by (simp add: uids_of_page_def count)
    have "map_of ?xs ''tod'' = Some (concat ?us)" by (simp add: page_fields_def Let_def t_def)
    note tod = page_form.item [OF form data this, folded q_def]
    have "p_data q (28 + 6 * j + x) = concat ?us ! (6 * j + x)" if "x < 6" for x
    proof -
      have "length ?us \<le> 200" by simp
      then have "6 * j + x < length (concat ?us)" "28 + length (concat ?us) \<le> 1228"
        using that j unfolding length_concat_uids [OF us] by linarith+
      with tod [of "6 * j + x"] len show ?thesis by (simp add: layout add.assoc del: length_take)
    qed
    then have "get_bytes (p_data q) (28 + 6 * j) 6 = take 6 (drop (6 * j) (concat ?us))"
    proof (intro nth_equalityI)
      have "6 * j + 6 \<le> length (concat ?us)" using j unfolding length_concat_uids [OF us] by linarith
      then show "length (get_bytes (p_data q) (28 + 6 * j) 6) = length (take 6 (drop (6 * j) (concat ?us)))"
        by (simp del: length_concat)
      then show "get_bytes (p_data q) (28 + 6 * j) 6 ! x = take 6 (drop (6 * j) (concat ?us)) ! x"
        if "x < length (get_bytes (p_data q) (28 + 6 * j) 6)" for x
        using that \<open>\<And>x. x < 6 \<Longrightarrow> p_data q (28 + 6 * j + x) = concat ?us ! (6 * j + x)\<close>
          \<open>6 * j + 6 \<le> length (concat ?us)\<close> by (simp del: length_concat)
    qed
    then show "uids_of_page q ! j = ?us ! j"
      using j small nth_bytes_uids [OF us j] by (simp add: uids_of_page_def count layout)
  qed
  have port: "of_nat (i + 1) = (1 :: u8) \<or> of_nat (i + 1) = (2 :: u8) \<or> of_nat (i + 1) = (3 :: u8) \<or>
      of_nat (i + 1) = (4 :: u8)"
  proof -
    have "i \<in> {0, 1, 2, 3}" using assms(2) by auto
    then show ?thesis by auto
  qed
  have bind: "bind_index_of n \<noteq> 0" by (simp add: bind_index_of_def)
  have "uint (of_nat (length ?us) :: u8) \<le> 200" using small by (simp add: uint_nat)
  then have "valid_tod_data q"
    using others count port bind len
    by (auto simp: valid_tod_data_def Let_def payload_fits_def layout q_def)
  then show "packet_is_valid q"
    using page_form.accepted [OF form data] len by (simp add: q_def layout)
qed

section \<open>The answer to a request\<close>

lemma tod_page_cong:
  assumes "unsent m = unsent n"
  shows "tod_page m = tod_page n"
  using unsent_fields [OF assms]
  by (intro ext) (simp add: tod_page_def page_fields_def bind_index_of_def)

definition tod_answer :: "node \<Rightarrow> u16 \<Rightarrow> nat \<Rightarrow> packet list" where
  "tod_answer n a j =
     (if port_addr (out_ports n j) = a \<and> port_enabled (out_ports n j)
      then map (tod_page n j) [0..<tod_pages (tod_length (port_tod (out_ports n j)))] else [])"

lemma tod_reply_sent:
  assumes "sends_whole e" "mode n = ARTNET_ON" "tod_reply_addr n \<noteq> 0"
    and "wf_tod (port_tod (out_ports n j))" "unsent m = unsent n"
  shows "\<exists>m'. tod_reply_port e a j (0, m) = (0, m') \<and> unsent m' = unsent n \<and>
    sent m' = sent m @ tod_answer n a j"
proof -
  note same = unsent_fields [OF assms(5)]
  have "wf_tod (port_tod (out_ports m j))" "mode m = ARTNET_ON" "tod_reply_addr m \<noteq> 0"
    using assms(2-4) same by simp_all
  from tx_tod_data_sent [OF assms(1) this] show ?thesis
    using assms(5) same tod_page_cong [OF assms(5)]
    by (auto simp: tod_reply_port_def tod_answer_def)
qed

lemma tod_replies_sent:
  assumes "sends_whole e" "mode n = ARTNET_ON" "tod_reply_addr n \<noteq> 0"
    and "\<forall>j < k. wf_tod (port_tod (out_ports n j))" "unsent m = unsent n"
  shows "\<exists>m'. for_upto k (tod_reply_port e a) (0, m) = (0, m') \<and> unsent m' = unsent n \<and>
    sent m' = sent m @ concat (map (tod_answer n a) [0..<k])"
  using assms(4)
proof (induction k)
  case 0
  then show ?case using assms(5) by simp
next
  case (Suc k)
  then obtain m' where m': "for_upto k (tod_reply_port e a) (0, m) = (0, m')" "unsent m' = unsent n"
    "sent m' = sent m @ concat (map (tod_answer n a) [0..<k])" by auto
  obtain m2 where "tod_reply_port e a k (0, m') = (0, m2)" "unsent m2 = unsent n"
    "sent m2 = sent m' @ tod_answer n a k"
    using tod_reply_sent [OF assms(1-3) _ m'(2), of k a] Suc.prems by auto
  with m' show ?case by (simp add: for_upto_Suc)
qed

lemma concat_one:
  assumes "j < (4 :: nat)" "\<And>i. i < 4 \<Longrightarrow> i \<noteq> j \<Longrightarrow> f i = []"
  shows "concat (map f [0..<4]) = f j"
proof -
  have "[0..<4] = [0, 1, 2, 3 :: nat]" by (simp add: upt_rec)
  moreover have "j \<in> {0, 1, 2, 3}" using assms(1) by auto
  ultimately show ?thesis using assms(2) by auto
qed

lemma remember_unsent:
  fixes n :: node
  shows "mode (remember_tod_requester b n) = mode n" "out_ports (remember_tod_requester b n) = out_ports n"
    "tod_reply_addr (remember_tod_requester b n) = tod_reply_addr n"
    "callbacks (remember_tod_requester b n) = callbacks n" "ip_addr (remember_tod_requester b n) = ip_addr n"
    "node_type (remember_tod_requester b n) = node_type n" "sent (remember_tod_requester b n) = sent n"
    "bind_index (remember_tod_requester b n) = bind_index n"
  by (simp_all add: remember_tod_requester_def)

text \<open>The node at the moment it answers a request of \<open>p\<close>'s sender.\<close>

definition asked :: "node \<Rightarrow> packet \<Rightarrow> node" where
  "asked n p = remember_tod_requester (p_from p) (n\<lparr>tod_reply_addr := p_from p\<rparr>)"

lemma tod_request_sent:
  assumes "sends_whole e" "mode n = ARTNET_ON" "node_type n = ARTNET_NODE \<or> node_type n = ARTNET_MSRV"
    and "fh (callbacks n (Packet_Cb ARTNET_TOD_REQUEST_HANDLER)) = None" "p_from p \<noteq> 0"
    and "\<forall>j < 4. wf_tod (port_tod (out_ports n j))"
    and "get8 artnet_todrequest_s ''command'' p = 0" "get8 artnet_todrequest_s ''adCount'' p = 1"
  shows "sent (snd (handle_tod_request e n p)) =
    sent n @ concat (map (tod_answer (asked n p) (todreq_addr p 0)) [0..<4])"
proof -
  note f = remember_unsent [of "p_from p" "n\<lparr>tod_reply_addr := p_from p\<rparr>", folded asked_def]
  obtain m where "for_upto 4 (tod_reply_port e (todreq_addr p 0)) (0, asked n p) = (0, m)"
    "sent m = sent (asked n p) @ concat (map (tod_answer (asked n p) (todreq_addr p 0)) [0..<4])"
    using tod_replies_sent [OF assms(1) _ _ _ refl, of "asked n p" 4 "todreq_addr p 0"] assms(2,5,6) f
    by auto
  moreover have "\<not> (node_type n \<noteq> ARTNET_NODE \<and> node_type n \<noteq> ARTNET_MSRV)" using assms(3) by blast
  moreover have "check_callback e (asked n p) p ARTNET_TOD_REQUEST_HANDLER = (0, asked n p)"
    using assms(4) f by (simp add: check_callback_def)
  ultimately show ?thesis
    using assms(7,8) f
    by (auto simp add: handle_tod_request_def asked_def [symmetric] for_upto_Suc [of 0, simplified])
qed

text \<open>C22: A node that is asked for the table of one of its ports sends it to the asker in pages; each
  page passes the asker's checks, is for that port's universe, says how many devices there are in all
  and carries its number, and the identifiers in the pages, one page after the other, are the table.\<close>

theorem table_of_devices_arrives:
  assumes "sends_whole e" "node_ok n" "mode n = ARTNET_ON"
    and "node_type n = ARTNET_NODE \<or> node_type n = ARTNET_MSRV"
    and "fh (callbacks n (Packet_Cb ARTNET_TOD_REQUEST_HANDLER)) = None" "p_from p \<noteq> 0"
    and "get8 artnet_todrequest_s ''command'' p = 0" "get8 artnet_todrequest_s ''adCount'' p = 1"
    and "\<forall>i < 4. (port_addr (out_ports n i) = todreq_addr p 0 \<and> port_enabled (out_ports n i)) = (i = j)"
    and "j < 4" "tod_length (port_tod (out_ports n j)) < 51200"
  shows "\<exists>ps. sent (snd (handle_tod_request e n p)) = sent n @ ps \<and>
    (\<forall>k < length ps. p_to (ps ! k) = p_from p \<and> packet_is_valid (delivered (ps ! k)) \<and>
       p_type (delivered (ps ! k)) = opcode ARTNET_TODDATA \<and>
       addr_from_bytes (get8 artnet_toddata_s ''net'' (delivered (ps ! k)))
         (get8 artnet_toddata_s ''address'' (delivered (ps ! k))) = port_addr (out_ports n j) \<and>
       get_short artnet_toddata_s ''uidTotalHi'' ''uidTotal'' (delivered (ps ! k)) =
         tod_length (port_tod (out_ports n j)) \<and>
       unat (get8 artnet_toddata_s ''blockCount'' (delivered (ps ! k))) = k) \<and>
    concat (map (\<lambda>p. uids_of_page (delivered p)) ps) = tod_uids (port_tod (out_ports n j))"
proof -
  let ?m = "asked n p"
  let ?t = "port_tod (out_ports n j)"
  let ?P = "tod_pages (tod_length ?t)"
  note f = remember_unsent [of "p_from p" "n\<lparr>tod_reply_addr := p_from p\<rparr>", folded asked_def]
  have ok: "\<forall>i < 4. tod_ok (port_tod (out_ports n i)) \<and> addr_ok (netSwitch n) (subSwitch n) (port_addr (out_ports n i))"
    using assms(2) by (simp add: node_ok_parts out_ok_def)
  have wf: "wf_tod ?t" using ok assms(10) by (simp add: tod_ok_def)
  then have len: "0 \<le> tod_length ?t" "int (length (tod_uids ?t)) = tod_length ?t"
    using length_tod_uids [OF wf] by linarith+
  have "concat (map (tod_answer ?m (todreq_addr p 0)) [0..<4]) = tod_answer ?m (todreq_addr p 0) j"
    using assms(9,10) f(2) by (intro concat_one) (auto simp: tod_answer_def)
  moreover have "tod_answer ?m (todreq_addr p 0) j = map (tod_page ?m j) [0..<?P]"
    using assms(9,10) f(2) by (auto simp: tod_answer_def)
  ultimately have sent: "sent (snd (handle_tod_request e n p)) = sent n @ map (tod_page ?m j) [0..<?P]"
    using tod_request_sent [OF assms(1,3-6) _ assms(7,8)] ok by (simp add: tod_ok_def)
  have page: "tod_ok (port_tod (out_ports ?m j))" using ok assms(10) f(2) by simp
  note q = page_arrives [OF page assms(10)]
  have "?P \<le> 256" using assms(11) by (simp add: tod_pages_def)
  then have block: "unat (of_nat k :: u8) = k" if "k < ?P" for k
    using that by (simp add: unsigned_of_nat take_bit_nat_eq_self)
  have "addr_from_bytes (addr_net (port_addr (out_ports n j))) (addr_low_byte (port_addr (out_ports n j))) =
      port_addr (out_ports n j)"
  proof -
    have "port_addr (out_ports n j) = make_addr (netSwitch n) (subSwitch n) (addr_port (port_addr (out_ports n j)))"
      using ok assms(10) unfolding addr_ok_def by blast
    then have "addr15 (port_addr (out_ports n j))" by (metis addr15_make_addr)
    then show ?thesis by (rule addr_from_bytes_split)
  qed
  then have all: "\<forall>k < ?P. p_to (tod_page ?m j k) = p_from p \<and> packet_is_valid (delivered (tod_page ?m j k)) \<and>
       p_type (delivered (tod_page ?m j k)) = opcode ARTNET_TODDATA \<and>
       addr_from_bytes (get8 artnet_toddata_s ''net'' (delivered (tod_page ?m j k)))
         (get8 artnet_toddata_s ''address'' (delivered (tod_page ?m j k))) = port_addr (out_ports n j) \<and>
       get_short artnet_toddata_s ''uidTotalHi'' ''uidTotal'' (delivered (tod_page ?m j k)) = tod_length ?t \<and>
       unat (get8 artnet_toddata_s ''blockCount'' (delivered (tod_page ?m j k))) = k"
    using q f len(1) assms(11) block by (simp add: tod_page_def new_packet_def del: opcode.simps)
  have "length (tod_uids ?t) \<le> 200 * ?P" using len by (simp add: tod_pages_def)
  then have uids: "concat (map (\<lambda>p. uids_of_page (delivered p)) (map (tod_page ?m j) [0..<?P])) = tod_uids ?t"
    using q(8) f(2) concat_pages [of 200 "tod_uids ?t" ?P] by (simp add: o_def)
  show ?thesis
    by (rule exI [of _ "map (tod_page ?m j) [0..<?P]"]) (use sent all uids in simp)
qed

definition demo_tod :: tod where
  "demo_tod = \<lparr>tod_data = Some (\<lambda>k. [0x7F, 0xF0, 0, 0, 0, of_nat k + 1]), tod_length = 2,
     tod_max_length = 100\<rparr>"

definition demo_table :: node where
  "demo_table = upd_out 0 (\<lambda>p. p\<lparr>port_tod := demo_tod\<rparr>) demo_node"

definition demo_request :: packet where
  "demo_request = \<lparr>p_length = 56, p_from = 0x0100000A, p_to = 0, p_type = opcode ARTNET_TODREQUEST,
     p_data = fill artnet_todrequest_s [(''net'', [addr_net (port_addr demo_out_port)]), (''adCount'', [1]),
       (''address'', [addr_low_byte (port_addr demo_out_port)])] zero_mem\<rparr>"

theorem table_of_devices_arrives_witness:
  "\<exists>ps. sent (snd (handle_tod_request quiet_env demo_table demo_request)) = ps \<and>
     concat (map (\<lambda>p. uids_of_page (delivered p)) ps) =
       [[0x7F, 0xF0, 0, 0, 0, 1], [0x7F, 0xF0, 0, 0, 0, 2]]"
proof -
  have whole: "sends_whole quiet_env" by (simp add: sends_whole_def) (simp add: quiet_env_def)
  have "tod_ok demo_tod" by (auto simp: tod_ok_def wf_tod_def tod_uids_def demo_tod_def)
  then have ok: "node_ok demo_table"
    unfolding demo_table_def using node_ok_out [OF node_ok_demo, of 0] node_ok_out_addr [OF node_ok_demo, of 0]
    by (intro node_ok_upd_out) (simp_all add: out_ok_def)
  have addr: "todreq_addr demo_request 0 = port_addr demo_out_port"
    by (simp add: demo_out_port_def todreq_addr_def demo_request_def get8_def get_at_def layout put_def
        put_bytes_def addr_from_bytes_split addr15_def zero_out_port_def)
  have only: "\<forall>i < 4. (port_addr (out_ports demo_table i) = todreq_addr demo_request 0 \<and>
      port_enabled (out_ports demo_table i)) = (i = 0)"
    unfolding addr by (auto simp: demo_table_def upd_out_def demo_node_def zero_out_port_def demo_out_port_def)
  have fields: "mode demo_table = ARTNET_ON" "node_type demo_table = ARTNET_NODE" "sent demo_table = []"
    "fh (callbacks demo_table (Packet_Cb ARTNET_TOD_REQUEST_HANDLER)) = None"
    "port_tod (out_ports demo_table 0) = demo_tod"
    by (simp_all add: demo_table_def upd_out_def demo_node_def zero_node_def no_callback_def)
  have "p_from demo_request \<noteq> 0" "get8 artnet_todrequest_s ''command'' demo_request = 0"
    "get8 artnet_todrequest_s ''adCount'' demo_request = 1"
    by (simp_all add: demo_request_def get8_def layout put_def put_bytes_def)
  from table_of_devices_arrives [OF whole ok fields(1) _ fields(4) this only] fields(2,3,5)
  show ?thesis by (auto simp: tod_uids_def demo_tod_def upt_rec)
qed

end
