(* ===== verification/Rdm_Properties.thy ===== *)
theory Rdm_Properties
  imports Tod_Properties
begin

text \<open>
  RDM messages: a node answers the controller whose message it handled last, and what the answer
  carries is what the controller's callback is given.
\<close>

section \<open>The packet\<close>

definition rdm_fields :: "u16 \<Rightarrow> mem \<Rightarrow> int \<Rightarrow> (string \<times> u8 list) list" where
  "rdm_fields address data len =
     [(''rdmVer'', [ARTNET_RDM_VERSION]), (''cmd'', [0x00]), (''address'', [addr_low_byte address]),
      (''net'', [addr_net address]), (''data'', get_bytes data 0 (nat len))]"

definition rdm_packet :: "ip \<Rightarrow> ip \<Rightarrow> u16 \<Rightarrow> mem \<Rightarrow> int \<Rightarrow> packet" where
  "rdm_packet a b address data len =
     \<lparr>p_length = 24 + len, p_from = a, p_to = b, p_type = opcode ARTNET_RDM,
      p_data = fill artnet_rdm_s (rdm_fields address data len) (header ARTNET_RDM)\<rparr>"

lemma rdm_fields_fit:
  "after_header artnet_rdm_s (rdm_fields address data len)"
  "len \<le> 512 \<Longrightarrow> fits_layout artnet_rdm_s (rdm_fields address data len)"
  "distinct (map fst (rdm_fields address data len))"
  by (simp_all add: rdm_fields_def layout after_header_def)
     (simp add: fits_layout_def artnet_rdm_s_def nat_le_iff)

interpretation rdm_form: wire_form artnet_rdm_s ARTNET_RDM
  "\<lambda>xs. \<exists>address data len. len \<le> 512 \<and> xs = rdm_fields address data len"
  by unfold_locales (use rdm_fields_fit in \<open>auto simp del: opcode.simps\<close>)

lemma rdm_arrives:
  fixes a b :: ip and address :: u16 and data :: mem and len :: int
  assumes "0 \<le> len" "len \<le> 512" "addr15 address"
  defines "q \<equiv> delivered (rdm_packet a b address data len)"
  shows "packet_is_valid q" "p_type q = opcode ARTNET_RDM" "p_from q = a"
    "addr_from_bytes (get8 artnet_rdm_s ''net'' q) (get8 artnet_rdm_s ''address'' q) = address"
    "rdm_data_length q = len" "get_n artnet_rdm_s ''data'' (nat len) q = get_bytes data 0 (nat len)"
proof -
  let ?p = "rdm_packet a b address data len"
  have data: "p_data ?p = fill artnet_rdm_s (rdm_fields address data len) (header ARTNET_RDM)"
    and len: "p_length ?p = 24 + len"
    by (simp_all add: rdm_packet_def)
  have form: "\<exists>a d l. l \<le> 512 \<and> rdm_fields address data len = rdm_fields a d l" using assms(2) by blast
  note byte = rdm_form.byte [OF form data, folded q_def]
  show "p_type q = opcode ARTNET_RDM"
    using rdm_form.arrives [OF form data] len assms(1) by (simp add: q_def)
  show "p_from q = a" by (simp add: q_def) (simp add: rdm_packet_def)
  have bytes: "get8 artnet_rdm_s ''rdmVer'' q = ARTNET_RDM_VERSION" "get8 artnet_rdm_s ''cmd'' q = 0"
    "get8 artnet_rdm_s ''address'' q = addr_low_byte address" "get8 artnet_rdm_s ''net'' q = addr_net address"
    using byte [of "''rdmVer''"] byte [of "''cmd''"] byte [of "''address''"] byte [of "''net''"] len assms(1)
    by (simp_all add: layout) (simp_all add: rdm_fields_def)
  then show "addr_from_bytes (get8 artnet_rdm_s ''net'' q) (get8 artnet_rdm_s ''address'' q) = address"
    using addr_from_bytes_split [OF assms(3)] by simp
  show "rdm_data_length q = len" using len assms(1) by (simp add: rdm_data_length_def q_def layout)
  have "map_of (rdm_fields address data len) ''data'' = Some (get_bytes data 0 (nat len))"
    by (simp add: rdm_fields_def)
  from rdm_form.bytes [OF form data this] len assms(1)
  show "get_n artnet_rdm_s ''data'' (nat len) q = get_bytes data 0 (nat len)"
    by (simp add: q_def layout)
  have "valid_fields ARTNET_RDM q" using bytes by (simp add: valid_rdm_def)
  then show "packet_is_valid q"
    using rdm_form.accepted [OF form data] len assms(1) by (simp add: q_def layout)
qed

section \<open>The conversation\<close>

text \<open>A node that has not handled an RDM message refuses to send one.\<close>

lemma first_rdm_refused:
  "rdm_reply_addr n = 0 \<Longrightarrow> artnet_send_rdm e n address data len = (ARTNET_EACTION, n)"
  by (simp add: artnet_send_rdm_def artnet_tx_rdm_def)

lemma new_node_no_rdm:
  assumes "artnet_new e allocated ifaces ip = Some n"
  shows "rdm_reply_addr n = 0"
proof -
  let ?z = "zero_node\<lparr>oem_hi := OEM_HI, oem_lo := OEM_LO, esta_hi := ESTA_HI,
    esta_lo := ESTA_LO, bcast_limit := 0, peer := None, master := True\<rparr>"
  obtain ret m where init: "artnet_net_init e ifaces ?z ip = (ret, m)" by fastforce
  have "rdm_reply_addr m = 0"
    using net_init_cases [OF init] by (auto simp: use_iface_def zero_node_def)
  with init assms show ?thesis
    by (auto simp: artnet_new_def Let_def for_upto_4 new_ports_def upd_in_def upd_out_def split: if_splits)
qed

text \<open>C23: After a node has handled an RDM message, what the application sends for a universe goes to
  the sender of that message, and the sender's callback is given the same universe, the same bytes and
  their number, and from then on answers this node.\<close>

theorem rdm_answer_arrives:
  fixes n m :: node and q :: packet and address :: u16 and data :: mem and len :: int
  assumes "observer e" "mode n = ARTNET_ON" "p_from q \<noteq> 0"
    and "fh (callbacks n (Packet_Cb ARTNET_RDM_HANDLER)) = None"
    and "fh (callbacks m (Packet_Cb ARTNET_RDM_HANDLER)) = None"
    and "0 \<le> len" "len \<le> 512" "address < 0x8000"
  shows "\<exists>p. sent (snd (artnet_send_rdm e (handle_rdm e n q) address (Some data) len)) = sent n @ [p] \<and>
    p_to p = p_from q \<and> packet_is_valid (delivered p) \<and> p_type (delivered p) = opcode ARTNET_RDM \<and>
    handle_rdm e' m (delivered p) =
      notify e' rdm_c (Rdm_Arg (uint address) (get_bytes data 0 (nat len)) len)
        (m\<lparr>rdm_reply_addr := ip_addr n\<rparr>)"
proof -
  define p where "p = rdm_packet (ip_addr n) (p_from q) address data len"
  have "addr15 address" using assms(8) by (simp add: addr15_def)
  note arr = rdm_arrives [OF assms(6,7) this, where a = "ip_addr n" and b = "p_from q" and data = data,
      folded p_def]
  have "handle_rdm e n q = n\<lparr>rdm_reply_addr := p_from q\<rparr>"
    using assms(1,4) by (simp add: handle_rdm_def check_callback_def)
  then have "sent (snd (artnet_send_rdm e (handle_rdm e n q) address (Some data) len)) = sent n @ [p]"
    using assms(1-3,6,7)
    by (simp add: artnet_send_rdm_def artnet_tx_rdm_def send_new_def net_send_sent new_packet_def
        bytes_at_def p_def rdm_packet_def rdm_fields_def layout Let_def del: opcode.simps)
  moreover have "handle_rdm e' m (delivered p) =
      notify e' rdm_c (Rdm_Arg (uint address) (get_bytes data 0 (nat len)) len) (m\<lparr>rdm_reply_addr := ip_addr n\<rparr>)"
    using assms(5) arr by (simp add: handle_rdm_def check_callback_def)
  moreover have "p_to p = p_from q" by (simp add: p_def rdm_packet_def)
  ultimately show ?thesis using arr(1,2) by blast
qed

theorem rdm_answer_arrives_witness:
  "\<exists>p. sent (snd (artnet_send_rdm quiet_env (handle_rdm quiet_env demo_node demo_request) 3 (Some (\<lambda>j. of_nat j)) 2)) = [p] \<and>
     handle_rdm late_env late_node (delivered p) =
       notify late_env rdm_c (Rdm_Arg 3 [0, 1] 2) (late_node\<lparr>rdm_reply_addr := 0x0200000A\<rparr>)"
proof -
  have "mode demo_node = ARTNET_ON" "sent demo_node = []" "ip_addr demo_node = 0x0200000A"
    "fh (callbacks demo_node (Packet_Cb ARTNET_RDM_HANDLER)) = None"
    "fh (callbacks late_node (Packet_Cb ARTNET_RDM_HANDLER)) = None"
    by (simp_all add: late_node_def demo_node_def zero_node_def no_callback_def)
  moreover have "p_from demo_request \<noteq> 0" by (simp add: demo_request_def)
  moreover have "get_bytes (\<lambda>j. of_nat j) 0 2 = [0, 1 :: u8]" by (simp add: get_bytes_def upt_rec)
  ultimately show ?thesis
    using rdm_answer_arrives [OF observer_quiet, of demo_node demo_request late_node 2 3 "\<lambda>j. of_nat j" late_env]
    by auto
qed

end
