(* ===== verification/Console.thy ===== *)
theory Console
  imports Prelude
begin

text \<open>
  The C library as the programs of \<open>src/examples\<close> use it to read what the user types:
  \<open>fgets\<close> on the text that has not been read yet, \<open>atoi\<close>, \<open>sscanf\<close> with \<open>%x\<close>, and the
  programs' own loops over the hexadecimal numbers of a line.
\<close>

section \<open>Characters and lines\<close>

definition newline :: char where [simp]: "newline = CHR 0x0A"

definition c_isspace :: "char \<Rightarrow> bool" where
  "c_isspace c \<longleftrightarrow> c \<in> {CHR '' '', CHR 0x09, CHR 0x0A, CHR 0x0B, CHR 0x0C, CHR 0x0D}"

definition c_isdigit :: "char \<Rightarrow> bool" where
  "c_isdigit c \<longleftrightarrow> 48 \<le> (of_char c :: nat) \<and> (of_char c :: nat) \<le> 57"

definition hex_digit :: "char \<Rightarrow> nat option" where
  "hex_digit c =
     (let k = of_char c :: nat
      in if 48 \<le> k \<and> k \<le> 57 then Some (k - 48)
         else if 97 \<le> k \<and> k \<le> 102 then Some (k - 87)
         else if 65 \<le> k \<and> k \<le> 70 then Some (k - 55)
         else None)"

definition c_isxdigit :: "char \<Rightarrow> bool" where
  "c_isxdigit c \<longleftrightarrow> hex_digit c \<noteq> None"

text \<open>The first character of a C string, and the string a buffer holds.\<close>

definition first_char :: "string \<Rightarrow> char" where
  "first_char s = (case s of [] \<Rightarrow> CHR 0x00 | c # _ \<Rightarrow> c)"

definition c_string :: "string \<Rightarrow> string" where
  "c_string s = takeWhile (\<lambda>c. c \<noteq> CHR 0x00) s"

text \<open>A line, its end included, but at most \<open>k\<close> characters of it; and the rest of the input.\<close>

fun take_line :: "nat \<Rightarrow> string \<Rightarrow> string \<times> string" where
  "take_line 0 s = ([], s)"
| "take_line (Suc k) [] = ([], [])"
| "take_line (Suc k) (c # s) =
     (if c = newline then ([c], s) else (case take_line k s of (l, r) \<Rightarrow> (c # l, r)))"

definition fgets :: "nat \<Rightarrow> string \<Rightarrow> (string \<times> string) option" where
  "fgets cap s =
     (if s = [] then None
      else (case take_line (cap - 1) s of (l, r) \<Rightarrow> Some (c_string l, r)))"

definition strip_newline :: "string \<Rightarrow> string" where
  "strip_newline s = rev (dropWhile (\<lambda>c. c = newline \<or> c = CHR 0x0D) (rev s))"

text \<open>\<open>fname[strcspn(fname, "\n\r")] = 0\<close>.\<close>

definition cut_newline :: "string \<Rightarrow> string" where
  "cut_newline s = takeWhile (\<lambda>c. c \<noteq> newline \<and> c \<noteq> CHR 0x0D) s"

lemma take_line_length: "length (fst (take_line k s)) \<le> k"
  by (induction k s rule: take_line.induct) (auto split: prod.split)

lemma take_line_append: "fst (take_line k s) @ snd (take_line k s) = s"
  by (induction k s rule: take_line.induct) (auto split: prod.split)

lemma take_line_whole:
  assumes "newline \<notin> set s" "length s < k"
  shows "take_line k (s @ newline # r) = (s @ [newline], r)"
  using assms
proof (induction s arbitrary: k)
  case Nil
  then show ?case by (cases k) auto
next
  case (Cons c s)
  then show ?case by (cases k) auto
qed

lemma c_string_id: "CHR 0x00 \<notin> set s \<Longrightarrow> c_string s = s"
  by (auto simp: c_string_def takeWhile_eq_all_conv)

text \<open>A line that fits the buffer is read whole.\<close>

lemma fgets_line:
  assumes "newline \<notin> set s" "CHR 0x00 \<notin> set s" "Suc (length s) < k"
  shows "fgets k (s @ newline # r) = Some (s @ [newline], r)"
proof -
  have "take_line (k - 1) (s @ newline # r) = (s @ [newline], r)"
    using assms(1,3) by (intro take_line_whole) simp_all
  moreover have "c_string (s @ [newline]) = s @ [newline]"
    using assms(2) by (intro c_string_id) auto
  ultimately show ?thesis by (simp add: fgets_def)
qed

lemma fgets_fits: "fgets k s = Some (l, r) \<Longrightarrow> length l \<le> k - 1"
  using take_line_length [of "k - 1" s] length_takeWhile_le [of "\<lambda>c. c \<noteq> CHR 0x00"]
  by (auto simp: fgets_def c_string_def split: if_splits prod.splits intro: order_trans)

lemma fgets_consumes:
  assumes "fgets k s = Some (l, r)" "2 \<le> k"
  shows "length r < length s"
proof -
  obtain c t j where s: "s = c # t" "k - 1 = Suc j"
    using assms by (cases s; cases "k - 1") (auto simp: fgets_def)
  have "length (snd (take_line j t)) \<le> length t" for j t
    using arg_cong [OF take_line_append [of j t], of length] by simp
  with assms s show ?thesis by (auto simp: fgets_def split: if_splits prod.splits) (metis snd_conv le_imp_less_Suc)
qed

section \<open>Numbers\<close>

text \<open>
  \<open>atoi\<close>: white space, a sign, decimal digits.  A number that no \<open>int\<close> holds is undefined in C;
  the model has glibc's result, a \<open>long\<close> that is clamped and then cut to 32 bits.
\<close>

definition skip_sign :: "string \<Rightarrow> int \<times> string" where
  "skip_sign s =
     (case s of
        [] \<Rightarrow> (1, [])
      | c # r \<Rightarrow> if c = CHR ''-'' then (-1, r) else if c = CHR ''+'' then (1, r) else (1, s))"

definition dec_value :: "string \<Rightarrow> int" where
  "dec_value ds = foldl (\<lambda>v c. 10 * v + (of_char c - 48)) 0 ds"

definition atoi :: "string \<Rightarrow> int" where
  "atoi s =
     (case skip_sign (dropWhile c_isspace s) of
        (sign, r) \<Rightarrow> to_int32 (max (- (2 ^ 63)) (min (2 ^ 63 - 1) (sign * dec_value (takeWhile c_isdigit r)))))"

definition hex_value :: "string \<Rightarrow> nat" where
  "hex_value ds = foldl (\<lambda>v c. 16 * v + the (hex_digit c)) 0 ds"

text \<open>
  \<open>sscanf\<close> with \<open>%x\<close> or, with a field width, \<open>%2x\<close>: white space, a sign, an optional \<open>0x\<close> and
  at least one hexadecimal digit.  The value is that of \<open>strtoul\<close>, cut to 32 bits.
\<close>

definition limited :: "nat option \<Rightarrow> string \<Rightarrow> string" where
  "limited width s = (case width of None \<Rightarrow> s | Some k \<Rightarrow> take k s)"

definition skip_0x :: "string \<Rightarrow> string" where
  "skip_0x s =
     (if take 1 s = ''0'' \<and> 2 \<le> length s \<and> (s ! 1 = CHR ''x'' \<or> s ! 1 = CHR ''X'') then drop 2 s else s)"

definition scan_hex :: "nat option \<Rightarrow> string \<Rightarrow> u32 option" where
  "scan_hex width s =
     (case skip_sign (limited width (dropWhile c_isspace s)) of
        (sign, r) \<Rightarrow>
          (let ds = takeWhile c_isxdigit (skip_0x r)
           in if ds = [] then None
              else if hex_value ds < 2 ^ 64 then Some (word_of_int (sign * int (hex_value ds)))
              else Some (- 1)))"

lemma atoi_range: "- (2 ^ 31) \<le> atoi s \<and> atoi s < 2 ^ 31"
  unfolding atoi_def case_prod_beta by (rule to_int32_range)

section \<open>Lines of hexadecimal numbers\<close>

text \<open>
  The loops of \<open>cmd_rdm\<close> (bytes) and \<open>cmd_firmware\<close> (words), which \<open>rdm_controller\<close> and
  \<open>file_transfer\<close> repeat; \<open>k\<close> is the room that is left in the array.
\<close>

primrec hex_bytes :: "nat \<Rightarrow> string \<Rightarrow> u8 list" where
  "hex_bytes 0 s = []"
| "hex_bytes (Suc k) s =
     (let s = dropWhile (\<lambda>c. \<not> c_isxdigit c) s
      in if s = [] then []
         else
           (case scan_hex (Some 2) s of
              None \<Rightarrow> []
            | Some v \<Rightarrow> ucast v # hex_bytes k (dropWhile c_isxdigit s)))"

definition c_isblank :: "char \<Rightarrow> bool" where
  "c_isblank c \<longleftrightarrow> c = CHR '' '' \<or> c = CHR 0x09"

primrec hex_words :: "nat \<Rightarrow> string \<Rightarrow> u16 list" where
  "hex_words 0 s = []"
| "hex_words (Suc k) s =
     (let s = dropWhile (\<lambda>c. c_isblank c \<or> c = newline \<or> c = CHR 0x0D) s
      in if s = [] then []
         else
           (case scan_hex None s of
              None \<Rightarrow> []
            | Some v \<Rightarrow> ucast v # hex_words k (dropWhile (\<lambda>c. \<not> c_isblank c) s)))"

text \<open>Neither writes past its array.\<close>

lemma length_hex_bytes: "length (hex_bytes k s) \<le> k"
  by (induction k arbitrary: s) (auto simp: Let_def split: option.split)

lemma length_hex_words: "length (hex_words k s) \<le> k"
  by (induction k arbitrary: s) (auto simp: Let_def split: option.split)

end
