(* ===== verification/Application.thy ===== *)
theory Application
  imports Console Reachable
begin

text \<open>
  What the programs of \<open>src/examples\<close> share: the state of a program, its ways to ask the user, the
  choice of a node from the list of discovered nodes, the start of a program and its main loop.
  What a program prints is not part of the model.  The library's state is the node in the program's
  state, so that each command is a function from states to states; each one is then a sequence of
  steps of the node, which carries what holds of the reachable states over to the programs.
\<close>

section \<open>A program and its input\<close>

text \<open>
  \<open>stray\<close> records an access outside one of the program's own arrays; the library's are recorded
  in its node (\<open>oob\<close>).
\<close>

record app =
  stdin :: string
  lib :: node
  running :: bool
  stray :: bool

text \<open>
  What else a command can see: the local time, the value of a variable that was not set, and what
  the unused end of a buffer holds.
\<close>

record tm =
  tm_sec :: int
  tm_min :: int
  tm_hour :: int
  tm_mday :: int
  tm_mon :: int
  tm_year :: int

record runtime =
  localtime :: tm
  uninit :: u32
  stale :: string

text \<open>\<open>if (!fgets(buf, sizeof(buf), stdin)) return;\<close> and what follows it.\<close>

definition with_line :: "nat \<Rightarrow> (string \<Rightarrow> 'a app_scheme \<Rightarrow> 'a app_scheme) \<Rightarrow> 'a app_scheme \<Rightarrow> 'a app_scheme" where
  "with_line cap f a =
     (case fgets cap (stdin a) of
        None \<Rightarrow> a
      | Some (buf, rest) \<Rightarrow> f buf (a\<lparr>stdin := rest\<rparr>))"

text \<open>The prompts read into buffers of 32 and of 16 characters; \<open>f\<close> is what follows.\<close>

definition read_number ::
    "nat \<Rightarrow> int \<Rightarrow> (int \<Rightarrow> 'a app_scheme \<Rightarrow> 'b) \<Rightarrow> 'a app_scheme \<Rightarrow> 'b" where
  "read_number cap default_val f a =
     (case fgets cap (stdin a) of
        None \<Rightarrow> f default_val a
      | Some (buf, rest) \<Rightarrow>
          f (if first_char buf = newline then default_val else atoi buf) (a\<lparr>stdin := rest\<rparr>))"

abbreviation "read_int \<equiv> read_number 32"

text \<open>The variable keeps its undetermined value when the scan fails.\<close>

definition read_hex :: "runtime \<Rightarrow> (int \<Rightarrow> 'a app_scheme \<Rightarrow> 'b) \<Rightarrow> 'a app_scheme \<Rightarrow> 'b" where
  "read_hex h f a =
     (case fgets 32 (stdin a) of
        None \<Rightarrow> f 0 a
      | Some (buf, rest) \<Rightarrow>
          f (sint (case scan_hex None buf of None \<Rightarrow> uninit h | Some v \<Rightarrow> v)) (a\<lparr>stdin := rest\<rparr>))"

text \<open>A call of the library whose result the program only prints.\<close>

definition call :: "(node \<Rightarrow> int \<times> node) \<Rightarrow> 'a app_scheme \<Rightarrow> 'a app_scheme" where
  "call f a = a\<lparr>lib := snd (f (lib a))\<rparr>"

section \<open>Choosing a node\<close>

text \<open>
  \<open>print_discovered\<close> walks the list and shows, of each entry, as many port addresses as it says
  it has ports: from an array of four.  The walk visits an entry less than \<open>k\<close> times.
\<close>

primrec discovered_walk :: "nat \<Rightarrow> node_entry option \<Rightarrow> node_list \<Rightarrow> bool \<times> node_list" where
  "discovered_walk 0 entry nl = (True, nl)"
| "discovered_walk (Suc k) entry nl =
     (case entry of
        None \<Rightarrow> (True, nl)
      | Some t \<Rightarrow>
          (case artnet_nl_next nl of
             (next, nl) \<Rightarrow>
               (case discovered_walk k next nl of (ok, nl) \<Rightarrow> (e_numbports t \<le> 4 \<and> ok, nl))))"

definition print_discovered :: "'a app_scheme \<Rightarrow> 'a app_scheme" where
  "print_discovered a =
     (let nl = nodes (lib a)
      in if artnet_nl_get_length nl = 0 then a
         else
           (case artnet_nl_first nl of
              (entry, nl) \<Rightarrow>
                (case discovered_walk (Suc (length (entries nl))) entry nl of
                   (ok, nl) \<Rightarrow> a\<lparr>lib := (lib a)\<lparr>nodes := nl\<rparr>, stray := stray a \<or> \<not> ok\<rparr>)))"

text \<open>\<open>file_transfer\<close> shows no ports.\<close>

definition show_nodes :: "bool \<Rightarrow> 'a app_scheme \<Rightarrow> 'a app_scheme" where
  "show_nodes ports a =
     (if ports then print_discovered a else (print_discovered a)\<lparr>stray := stray a\<rparr>)"

primrec nth_entry :: "nat \<Rightarrow> node_entry option \<Rightarrow> node_list \<Rightarrow> node_entry option \<times> node_list" where
  "nth_entry 0 entry nl = (entry, nl)"
| "nth_entry (Suc i) entry nl =
     (if entry = None then (entry, nl)
      else (case artnet_nl_next nl of (entry, nl) \<Rightarrow> nth_entry i entry nl))"

definition select_node :: "bool \<Rightarrow> nat \<Rightarrow> 'a app_scheme \<Rightarrow> node_entry option \<times> 'a app_scheme" where
  "select_node ports cap a =
     (let count = artnet_nl_get_length (nodes (lib a))
      in if count = 0 then (None, a)
         else
           (let a = show_nodes ports a
            in case fgets cap (stdin a) of
                 None \<Rightarrow> (None, a)
               | Some (buf, rest) \<Rightarrow>
                   (let a = a\<lparr>stdin := rest\<rparr>; idx = atoi buf
                    in if idx < 0 \<or> count \<le> idx then (None, a)
                       else
                         (case artnet_nl_first (nodes (lib a)) of
                            (entry, nl) \<Rightarrow>
                              (case nth_entry (nat idx) entry nl of
                                 (entry, nl) \<Rightarrow> (entry, a\<lparr>lib := (lib a)\<lparr>nodes := nl\<rparr>\<rparr>))))))"

text \<open>\<open>artnet_node_entry e = select_node(n); if (!e) return;\<close> and what follows it.\<close>

definition with_node ::
    "bool \<Rightarrow> nat \<Rightarrow> (node_entry \<Rightarrow> 'a app_scheme \<Rightarrow> 'a app_scheme) \<Rightarrow> 'a app_scheme \<Rightarrow> 'a app_scheme" where
  "with_node ports cap f a =
     (case select_node ports cap a of (None, a) \<Rightarrow> a | (Some t, a) \<Rightarrow> f t a)"

section \<open>The command line and the start\<close>

text \<open>The programs whose only option is \<open>-i <bind_ip>\<close>.\<close>

fun bind_option :: "string list \<Rightarrow> string option \<Rightarrow> string option option" where
  "bind_option [] ip = Some ip"
| "bind_option [_] ip = None"
| "bind_option (opt # val # args) ip =
     (if opt = ''-i'' then bind_option args (Some val) else None)"

text \<open>Calls whose results the program does not look at, in their order.\<close>

definition configure :: "(node \<Rightarrow> int \<times> node) list \<Rightarrow> node \<Rightarrow> node" where
  "configure fs n = fold (\<lambda>f n. snd (f n)) fs n"

record platform =
  allocated :: bool
  interfaces :: "int \<times> iface list"
  socket_calls :: sockets

text \<open>Create the node, configure it and start it; \<open>None\<close> when the program ends with an error.\<close>

definition launch ::
    "env \<Rightarrow> platform \<Rightarrow> string option \<Rightarrow> (node \<Rightarrow> int \<times> node) list \<Rightarrow> node option" where
  "launch e pf ip config =
     (case artnet_new e (allocated pf) (interfaces pf) ip of
        None \<Rightarrow> None
      | Some n \<Rightarrow>
          (case artnet_start e (socket_calls pf) (configure config n) of
             (ret, n) \<Rightarrow> if ret \<noteq> ARTNET_EOK then None else Some n))"

definition ARTNET_ST_NODE :: u8 where [simp]: "ARTNET_ST_NODE = 0x00"
definition ARTNET_ST_CONTROLLER :: u8 where [simp]: "ARTNET_ST_CONTROLLER = 0x01"
definition ARTNET_PORT_DMX :: u8 where [simp]: "ARTNET_PORT_DMX = 0x00"

definition identify ::
    "artnet_node_type \<Rightarrow> u8 \<Rightarrow> string \<Rightarrow> string \<Rightarrow> (node \<Rightarrow> int \<times> node) list" where
  "identify type style short long =
     [\<lambda>n. artnet_set_node_type n type, \<lambda>n. artnet_set_style_code n style,
      \<lambda>n. artnet_set_short_name n (Some short), \<lambda>n. artnet_set_long_name n (Some long)]"

text \<open>A controller polls the network as soon as it has started.\<close>

definition controller_start ::
    "env \<Rightarrow> platform \<Rightarrow> string list \<Rightarrow> (node \<Rightarrow> int \<times> node) list \<Rightarrow> string \<Rightarrow> app option" where
  "controller_start e pf args config input =
     (case bind_option args None of
        None \<Rightarrow> None
      | Some ip \<Rightarrow>
          (case launch e pf ip config of
             None \<Rightarrow> None
           | Some n \<Rightarrow>
               Some \<lparr>stdin = input, lib = snd (artnet_send_poll e n None ARTNET_TTM_AUTO),
                     running = True, stray = False\<rparr>))"

section \<open>The main loop\<close>

text \<open>
  What the outside does to a program: the user presses Ctrl+C, or one round of the main loop runs,
  in which datagrams arrive and standard input is or is not ready.
\<close>

datatype event = Signal | Wakeup "arrival list" bool

definition app_read :: "env \<Rightarrow> arrival list \<Rightarrow> 'a app_scheme \<Rightarrow> 'a app_scheme option" where
  "app_read e as a = map_option (\<lambda>(ret, w). a\<lparr>lib := w 0\<rparr>) (artnet_read e (\<lambda>_. lib a) 0 as)"

text \<open>
  The packets that a read of a node on its own hands to \<open>handle\<close>, in their order: the same loop as
  \<open>read_loop\<close>, for programs whose callbacks keep what they are told.
\<close>

fun heard :: "env \<Rightarrow> arrival list \<Rightarrow> packet \<Rightarrow> node \<Rightarrow> packet list" where
  "heard e [] p n = []"
| "heard e (a # as) p n =
     (case check_timeouts e n of
        None \<Rightarrow> []
      | Some n \<Rightarrow>
          (case artnet_net_recv n a (p\<lparr>p_data := zero_mem\<rparr>) of
             (ret, p) \<Rightarrow>
               if ret < 0 \<or> ret = RECV_NO_DATA then []
               else if p_length p = 0 then heard e as p n
               else
                 (case get_type p of
                    (t, p') \<Rightarrow>
                      if MIN_PACKET_SIZE \<le> p_length p \<and> t \<noteq> 0
                      then p' # heard e as p' (snd (handle e n p'))
                      else heard e as p' n)))"

definition app_heard :: "env \<Rightarrow> arrival list \<Rightarrow> 'a app_scheme \<Rightarrow> packet list" where
  "app_heard e as a =
     (if mode (lib a) \<noteq> ARTNET_ON then []
      else heard e as \<lparr>p_length = 0, p_from = 0, p_to = 0, p_type = 0, p_data = zero_mem\<rparr> (lib a))"

text \<open>
  The loop of the interactive programs: read, then, if there is a line, run its command; the end of
  the input ends the loop.
\<close>

definition command_loop ::
    "env \<Rightarrow> nat \<Rightarrow> (char \<Rightarrow> 'a app_scheme \<Rightarrow> 'a app_scheme) \<Rightarrow> event \<Rightarrow> 'a app_scheme \<Rightarrow>
     'a app_scheme option" where
  "command_loop e cap command ev a =
     (case ev of
        Signal \<Rightarrow> Some (a\<lparr>running := False\<rparr>)
      | Wakeup as ready \<Rightarrow>
          if \<not> running a then Some a
          else
            Option.bind (app_read e as a)
              (\<lambda>a. if \<not> ready then Some a
                   else
                     (case fgets cap (stdin a) of
                        None \<Rightarrow> Some (a\<lparr>running := False\<rparr>)
                      | Some (cmd, rest) \<Rightarrow> Some (command (first_char cmd) (a\<lparr>stdin := rest\<rparr>)))))"

primrec session :: "('ev \<Rightarrow> 's \<Rightarrow> 's option) \<Rightarrow> 'ev list \<Rightarrow> 's \<Rightarrow> 's option" where
  "session round [] a = Some a"
| "session round (ev # evs) a = Option.bind (round ev a) (session round evs)"

text \<open>When the loop has ended: \<open>artnet_stop\<close>, and the node is destroyed.\<close>

definition program_end :: "'a app_scheme \<Rightarrow> 'a app_scheme" where
  "program_end = call artnet_stop"

section \<open>Programs and the reachable states\<close>

text \<open>A node that shares its socket with no other stays alone.\<close>

lemma wiring_send_to_universe:
  assumes "only_sends e" "send_to_universe e n uni p = Some (ret, n')"
  shows "wiring n' = wiring n"
proof (cases "env_malloc e (mallocs n)")
  case False
  then show ?thesis using assms(2) by (auto simp: send_to_universe_def c_malloc_def wiring_def)
next
  case True
  let ?n = "n\<lparr>mallocs := Suc (mallocs n)\<rparr>"
  from True assms(2) obtain tos c where "send_to_each e p tos (inside c ?n) = (ret, n')"
    by (auto simp: send_to_universe_def c_malloc_def Let_def split: option.splits)
  moreover have "wiring (inside c ?n) = wiring n" by (simp add: wiring_def inside_def)
  ultimately show ?thesis
    using listing_send_to_each [OF assms(1)] wiring_listing by (metis snd_conv)
qed

lemma wiring_upd_in [simp]: "wiring (upd_in i f n) = wiring n"
  by (simp add: wiring_def)

lemma wiring_universes:
  assumes "only_sends e"
  shows "artnet_raw_send_dmx e n uni len d = Some (ret, n') \<Longrightarrow> wiring n' = wiring n"
    "artnet_tx_nzs e n i sc len d = Some (ret, n') \<Longrightarrow> wiring n' = wiring n"
    "artnet_send_nzs e n uni sc len d = Some (ret, n') \<Longrightarrow> wiring n' = wiring n"
    "artnet_send_vlc e n uni len txt = Some (ret, n') \<Longrightarrow> wiring n' = wiring n"
proof -
  note step = wiring_send_to_universe [OF assms]
  show "artnet_raw_send_dmx e n uni len d = Some (ret, n') \<Longrightarrow> wiring n' = wiring n"
    using step by (auto simp: artnet_raw_send_dmx_def Let_def split: if_splits)
  have nzs: "wiring m' = wiring m" if tx: "artnet_tx_nzs e m i sc len d = Some (r, m')" for m m' i sc len d r
  proof (cases "m' = m")
    case False
    let ?m = "upd_in (nat i) (\<lambda>p. p\<lparr>port_status := port_status p OR PORT_STATUS_ACT_MASK\<rparr>) m"
    from False tx obtain uni p r k where
      "send_to_universe e ?m uni p = Some (r, k)"
      "m' = k \<or> m' = upd_in (nat i) (\<lambda>p. p\<lparr>seq := next_seq (seq p)\<rparr>) k"
      by (auto simp: artnet_tx_nzs_def Let_def split: if_splits option.splits)
    with step [of ?m uni p r k] show ?thesis by auto
  qed simp
  then show "artnet_tx_nzs e n i sc len d = Some (ret, n') \<Longrightarrow> wiring n' = wiring n" .
  have send: "wiring m' = wiring m" if "artnet_send_nzs e m uni sc len d = Some (r, m')" for m m' uni sc len d r
    using that step nzs by (auto simp: artnet_send_nzs_def Let_def split: if_splits option.splits)
  then show "artnet_send_nzs e n uni sc len d = Some (ret, n') \<Longrightarrow> wiring n' = wiring n" .
  show "artnet_send_vlc e n uni len txt = Some (ret, n') \<Longrightarrow> wiring n' = wiring n"
    using send by (auto simp: artnet_send_vlc_def Let_def split: if_splits option.splits)
qed

lemma wiring_step:
  assumes "modest e" "live_step e n n'"
  shows "wiring n' = wiring n"
proof -
  have e: "only_sends e" using assms(1) by (simp add: modest_def)
  show ?thesis
    using assms(2)
  proof (cases rule: live_step.cases)
    case (receives p)
    with e show ?thesis by (simp add: wiring_handle)
  next
    case ticks
    with e show ?thesis by (simp add: wiring_check_timeouts)
  next
    case (sends_dmx i len d ret)
    with e show ?thesis by (simp add: wiring_send_dmx)
  next
    case (sends_raw_dmx uni len d ret)
    with e show ?thesis by (rule wiring_universes)
  next
    case (sends_nzs uni sc len d ret)
    with e show ?thesis by (rule wiring_universes)
  next
    case (sends_vlc uni len d ret)
    with e show ?thesis by (rule wiring_universes)
  qed (auto intro!: wiring_listing simp: e listing_passed_on listing_to_node listing_look
      listing_start listing_config listing_addresses listing_sends listing_devices)
qed

text \<open>
  The library's node is one that the node of the program can come to, on its own, and of one of the
  types \<open>ts\<close>, which it does not change while it runs; a program in order has, besides, not left its
  arrays, if it may not.
\<close>

definition solo :: "artnet_node_type set \<Rightarrow> env \<Rightarrow> node \<Rightarrow> bool" where
  "solo ts e n \<longleftrightarrow> reachable e n \<and> peer n = None \<and> node_type n \<in> ts"

definition app_in :: "bool \<times> artnet_node_type set \<Rightarrow> env \<Rightarrow> 'a app_scheme \<Rightarrow> bool" where
  "app_in s e a \<longleftrightarrow> solo (snd s) e (lib a) \<and> (stray a \<longrightarrow> fst s)"

abbreviation app_ok :: "env \<Rightarrow> 'a app_scheme \<Rightarrow> bool" where
  "app_ok \<equiv> app_in (False, UNIV)"

lemma solo_modest: "solo ts e n \<Longrightarrow> modest e \<and> fits n"
  unfolding solo_def using reachable_fits by blast

lemma solo_step: "solo ts e n \<Longrightarrow> live_step e n n' \<Longrightarrow> solo ts e n'"
  using solo_modest [of ts e n] wiring_step [of e n n'] reachable_step [OF _ lives, of e n n']
  by (auto simp: solo_def wiring_def)

lemma solo_any_step: 
  assumes "solo UNIV e n" "node_step e n n'"
  shows "solo UNIV e n'"
  using assms(2)
proof (cases rule: node_step.cases)
  case lives
  with assms(1) show ?thesis by (rule solo_step)
next
  case (sets_type t)
  with assms reachable_step [of e n n'] show ?thesis by (simp add: solo_def artnet_set_node_type_def)
qed

lemma solo_timeouts:
  assumes "solo ts e n"
  shows "\<exists>n'. check_timeouts e n = Some n' \<and> solo ts e n'"
proof -
  from solo_modest [OF assms] obtain n' where "check_timeouts e n = Some n'"
    using check_timeouts_returns [of e n] by (auto simp: modest_def)
  with solo_step [OF assms ticks] show ?thesis by blast
qed

lemma solo_read_packet:
  assumes "solo ts e (w 0)" "p_from p \<noteq> 0" "polite (received bs)" "p_data p = p_data (received bs)"
  shows "\<exists>q v. read_packet e 0 p w = Some (q, v) \<and> solo ts e (v 0)"
proof -
  obtain t p' where g: "get_type p = (t, p')" by fastforce
  have alone: "peer (w 0) = None" "peer (snd (handle e (w 0) q)) = None" for q
    using assms(1) wiring_handle [of e "w 0" q] solo_modest [OF assms(1)]
    by (simp_all add: solo_def modest_def wiring_def)
  show ?thesis
  proof (cases "MIN_PACKET_SIZE \<le> p_length p \<and> t \<noteq> 0")
    case True
    then have q: "p_from p' = p_from p" "p_type p' = p_type (received bs)"
        "p_data p' = p_data (received bs)"
      using g assms(4) by (auto simp: get_type_def received_def Let_def split: if_splits)
    then have "solo ts e (snd (handle e (w 0) p'))"
      using assms(2,3) polite_cong [OF q(2,3)] by (intro solo_step [OF assms(1)] receives) simp_all
    with True g alone show ?thesis
      by (simp add: read_packet_def handle_all_def handle_at_def each_peer.simps)
  next
    case False
    with g assms(1) alone show ?thesis by (auto simp: read_packet_def each_peer.simps)
  qed
qed

lemma solo_read_loop:
  assumes "list_all polite_arrival as" "solo ts e (w 0)"
  shows "\<exists>ret v. read_loop e 0 as p w = Some (ret, v) \<and> solo ts e (v 0)"
  using assms
proof (induction "as" arbitrary: p w)
  case Nil
  with solo_timeouts [of ts e "w 0"] show ?case by (auto simp: timeouts_at_def)
next
  case (Cons a "as")
  obtain n where n: "check_timeouts e (w 0) = Some n" "solo ts e n"
    using solo_timeouts [OF Cons.prems(2)] by blast
  define u where "u = w(0 := n)"
  have u: "timeouts_at e 0 w = Some u" "solo ts e (u 0)" using n by (simp_all add: timeouts_at_def u_def)
  obtain ret q where r: "artnet_net_recv (u 0) a (p\<lparr>p_data := zero_mem\<rparr>) = (ret, q)" by fastforce
  show ?case
  proof (cases "ret < 0 \<or> ret = RECV_NO_DATA \<or> p_length q = 0")
    case True
    with u r Cons.IH [of u q] Cons.prems(1) show ?thesis by auto
  next
    case False
    then obtain src bs where d: "a = Datagram src bs" "p_from q = src" "p_data q = p_data (received bs)"
      using recv_cases [OF r] by metis
    then have "p_from q \<noteq> 0" "polite (received bs)"
      using Cons.prems(1) by (simp_all add: polite_arrival_def)
    then obtain q' v where "read_packet e 0 q u = Some (q', v)" "solo ts e (v 0)"
      using solo_read_packet [of ts e u, OF u(2) _ _ d(3)] by blast
    with False u r Cons.IH [of v q'] Cons.prems(1) show ?thesis by auto
  qed
qed

lemma solo_read:
  assumes "list_all polite_arrival as" "solo ts e (lib a)"
  shows "\<exists>n. app_read e as a = Some (a\<lparr>lib := n\<rparr>) \<and> solo ts e n"
proof (cases "mode (lib a) = ARTNET_ON")
  case True
  obtain ret v where "read_loop e 0 as
      \<lparr>p_length = 0, p_from = 0, p_to = 0, p_type = 0, p_data = zero_mem\<rparr> (\<lambda>_. lib a) = Some (ret, v)"
    "solo ts e (v 0)"
    using solo_read_loop [OF assms(1), of ts e "\<lambda>_. lib a"] assms(2) by blast
  with True show ?thesis by (intro exI [of _ "v 0"]) (simp add: app_read_def artnet_read_def)
next
  case False
  with assms(2) show ?thesis by (intro exI [of _ "lib a"]) (simp add: app_read_def artnet_read_def)
qed

section \<open>Choosing is safe\<close>

lemma solo_look:
  "solo ts e (n\<lparr>nodes := nl\<rparr>) \<Longrightarrow> solo ts e (n\<lparr>nodes := snd (artnet_nl_first nl)\<rparr>)"
  "solo ts e (n\<lparr>nodes := nl\<rparr>) \<Longrightarrow> solo ts e (n\<lparr>nodes := snd (artnet_nl_next nl)\<rparr>)"
  using solo_step [OF _ looks_first, of ts e "n\<lparr>nodes := nl\<rparr>"]
    solo_step [OF _ looks_next, of ts e "n\<lparr>nodes := nl\<rparr>"] by simp_all

definition listed :: "node_list \<Rightarrow> node_entry option \<Rightarrow> bool" where
  "listed nl entry \<longleftrightarrow> (\<forall>t. entry = Some t \<longrightarrow> t \<in> pub ` set (entries nl))"

lemma seen_entry [simp]:
  "listed nl (fst (artnet_nl_first nl))" "listed nl (fst (artnet_nl_next nl))" "listed nl None"
  by (auto simp: listed_def artnet_nl_first_def artnet_nl_next_def nl_entry_def Let_def
      split: option.splits if_splits)

lemma listed_entry:
  assumes "fits n" "t \<in> pub ` set (entries (nodes n))"
  shows "e_numbports t \<le> 4" "find_private_entry n (Some t) \<noteq> None"
  using assms by (auto simp: fits_def list_fits_def find_private_entry_def find_pos_None)

lemma entries_look [simp]:
  "entries (snd (artnet_nl_first nl)) = entries nl" "entries (snd (artnet_nl_next nl)) = entries nl"
  by (simp_all add: artnet_nl_first_def artnet_nl_next_def Let_def split: option.split)

lemma listed_look [simp]:
  "listed (snd (artnet_nl_first nl)) entry = listed nl entry"
  "listed (snd (artnet_nl_next nl)) entry = listed nl entry"
  by (simp_all add: listed_def)

text \<open>The walk shows the ports an entry has room for, and moves only the list's position.\<close>

lemma walk_ok:
  assumes "\<And>t. t \<in> pub ` set (entries nl) \<Longrightarrow> e_numbports t \<le> 4" "listed nl entry"
  shows "fst (discovered_walk k entry nl)"
  using assms
proof (induction k arbitrary: entry nl)
  case (Suc k)
  have "fst (discovered_walk k (fst (artnet_nl_next nl)) (snd (artnet_nl_next nl)))"
    using Suc.prems(1) by (intro Suc.IH) simp_all
  with Suc.prems show ?case by (cases entry) (simp_all add: case_prod_beta listed_def)
qed simp

lemma walk_solo: "solo ts e (n\<lparr>nodes := nl\<rparr>) \<Longrightarrow> solo ts e (n\<lparr>nodes := snd (discovered_walk k entry nl)\<rparr>)"
  by (induction k arbitrary: entry nl) (simp_all add: case_prod_beta solo_look split: option.split)

lemma app_in_simps [simp]:
  "app_in s e (a\<lparr>stdin := inp\<rparr>) = app_in s e a" "app_in s e (a\<lparr>running := b\<rparr>) = app_in s e a"
  by (simp_all add: app_in_def)

lemma shown_ok:
  assumes "fits (lib a)"
  shows "stray (print_discovered a) = stray a" "stray (show_nodes ports a) = stray a"
proof -
  let ?r = "artnet_nl_first (nodes (lib a))"
  have "fst (discovered_walk (Suc (length (entries (snd ?r)))) (fst ?r) (snd ?r))"
    using listed_entry(1) [OF assms] by (intro walk_ok) simp_all
  then show "stray (print_discovered a) = stray a" "stray (show_nodes ports a) = stray a"
    by (simp_all add: show_nodes_def print_discovered_def case_prod_beta Let_def del: discovered_walk.simps)
qed

lemma print_discovered_safe:
  assumes "app_in s e a"
  shows "app_in s e (print_discovered a)"
proof -
  have n: "solo (snd s) e ((lib a)\<lparr>nodes := nodes (lib a)\<rparr>)" using assms by (simp add: app_in_def)
  have fit: "fits (lib a)" using assms solo_modest by (auto simp: app_in_def)
  have "solo (snd s) e (lib (print_discovered a))"
    using walk_solo [OF solo_look(1) [OF n]] assms
    by (simp add: print_discovered_def case_prod_beta Let_def app_in_def del: discovered_walk.simps)
  then show ?thesis using assms shown_ok(1) [OF fit] by (simp add: app_in_def)
qed

lemma show_nodes_safe: "app_in s e a \<Longrightarrow> app_in s e (show_nodes ports a)"
  using print_discovered_safe [of s e a] by (simp add: show_nodes_def app_in_def)

lemma nth_entry_keeps:
  assumes "solo ts e (n\<lparr>nodes := nl\<rparr>)" "listed nl entry"
  shows "solo ts e (n\<lparr>nodes := snd (nth_entry i entry nl)\<rparr>) \<and>
    listed (snd (nth_entry i entry nl)) (fst (nth_entry i entry nl))"
  using assms
  by (induction i arbitrary: entry nl) (simp_all add: case_prod_beta solo_look)

text \<open>What is chosen is in the list.\<close>

lemma select_node_safe:
  assumes "app_in s e a" "select_node ports cap a = (entry, b)"
  shows "app_in s e b" "listed (nodes (lib b)) entry"
proof -
  let ?a = "show_nodes ports a"
  let ?n = "lib ?a"
  have shown: "app_in s e ?a" using show_nodes_safe [OF assms(1)] .
  then have n: "solo (snd s) e (?n\<lparr>nodes := nodes ?n\<rparr>)" by (simp add: app_in_def)
  note nth = nth_entry_keeps [OF solo_look(1) [OF n], of "fst (artnet_nl_first (nodes ?n))"]
  have "app_in s e b \<and> listed (nodes (lib b)) entry"
  proof (cases "nl_length (nodes (lib a)) = 0")
    case True
    with assms show ?thesis by (auto simp: select_node_def artnet_nl_get_length_def)
  next
    case False
    with assms shown nth show ?thesis
      by (auto simp: select_node_def artnet_nl_get_length_def Let_def case_prod_beta app_in_def
          split: if_splits option.splits)
  qed
  then show "app_in s e b" "listed (nodes (lib b)) entry" by simp_all
qed

section \<open>Commands that keep a program in order\<close>

text \<open>The rules by which the commands are checked, one for each way to read or to call.\<close>

named_theorems safe "the constructs of a command keep a program in order"

lemma safe_line [safe]:
  assumes "app_in s e a" "\<And>buf rest. app_in s e (f buf (a\<lparr>stdin := rest\<rparr>))"
  shows "app_in s e (with_line cap f a)"
  using assms by (auto simp: with_line_def split: option.split)

lemma safe_number [safe]:
  assumes "\<And>x rest. app_in s e (f x (a\<lparr>stdin := rest\<rparr>))" "\<And>x. app_in s e (f x a)"
  shows "app_in s e (read_number cap d f a)"
  using assms by (auto simp: read_number_def split: option.split)

lemma safe_hex [safe]:
  assumes "\<And>x rest. app_in s e (f x (a\<lparr>stdin := rest\<rparr>))" "app_in s e (f 0 a)"
  shows "app_in s e (read_hex h f a)"
  using assms by (auto simp: read_hex_def split: option.split)

lemma safe_node [safe]:
  assumes "app_in s e a"
    and "\<And>t b. app_in s e b \<Longrightarrow> e_numbports t \<le> 4 \<Longrightarrow> find_private_entry (lib b) (Some t) \<noteq> None \<Longrightarrow>
      app_in s e (f t b)"
  shows "app_in s e (with_node ports cap f a)"
proof -
  obtain entry b where sel_eq: "select_node ports cap a = (entry, b)" by fastforce
  note sel = select_node_safe [OF assms(1) sel_eq]
  have "fits (lib b)" using sel(1) solo_modest by (auto simp: app_in_def)
  with sel sel_eq assms(2) [OF sel(1)] listed_entry show ?thesis
    by (cases entry) (simp_all add: with_node_def listed_def)
qed

lemma safe_call [safe]:
  assumes "app_in s e a" "live_step e (lib a) (snd (f (lib a)))"
  shows "app_in s e (call f a)"
  using assms solo_step by (auto simp: app_in_def call_def)

lemma safe_if [safe]:
  "app_in s e (f a) \<Longrightarrow> app_in s e (g a) \<Longrightarrow> app_in s e ((if b then f else g) a)"
  "app_in s e a \<Longrightarrow> app_in s e a' \<Longrightarrow> app_in s e (if b then a else a')"
  by simp_all

section \<open>Programs that stay in order\<close>

text \<open>
  A program whose rounds always return and keep a property of its state, for the events of a
  network of polite nodes: then so does every session with it.
\<close>

definition polite_event :: "event \<Rightarrow> bool" where
  "polite_event ev \<longleftrightarrow> (case ev of Signal \<Rightarrow> True | Wakeup as _ \<Rightarrow> list_all polite_arrival as)"

locale rounds =
  fixes round :: "event \<Rightarrow> 's \<Rightarrow> 's option"
    and ok :: "'s \<Rightarrow> bool"
  assumes round_ok: "polite_event ev \<Longrightarrow> ok s \<Longrightarrow> \<exists>t. round ev s = Some t \<and> ok t"
begin

lemma session_ok: "list_all polite_event evs \<Longrightarrow> ok s \<Longrightarrow> \<exists>t. session round evs s = Some t \<and> ok t"
proof (induction evs arbitrary: s)
  case (Cons ev evs)
  then obtain u where "round ev s = Some u" "ok u" using round_ok [of ev s] by auto
  with Cons show ?case by auto
qed simp

end

text \<open>The interactive programs: it is enough that each command keeps the program in order.\<close>

locale interactive =
  fixes e :: env
    and cap :: nat
    and command :: "char \<Rightarrow> 'a app_scheme \<Rightarrow> 'a app_scheme"
  assumes command_ok: "app_ok e a \<Longrightarrow> app_ok e (command c a)"
begin

lemma command_loop_ok:
  assumes "polite_event ev" "app_ok e a"
  shows "\<exists>b. command_loop e cap command ev a = Some b \<and> app_ok e b"
proof (cases ev)
  case Signal
  with assms(2) show ?thesis by (simp add: command_loop_def)
next
  case (Wakeup as ready)
  show ?thesis
  proof (cases "running a")
    case True
    obtain n where n: "app_read e as a = Some (a\<lparr>lib := n\<rparr>)" "solo UNIV e n"
      using solo_read [of as UNIV e a] assms Wakeup by (auto simp: polite_event_def app_in_def)
    then have "app_ok e (a\<lparr>lib := n\<rparr>)" using assms(2) by (simp add: app_in_def)
    with True Wakeup n show ?thesis
      by (auto simp: command_loop_def intro!: command_ok split: option.split)
  qed (use assms(2) Wakeup in \<open>simp add: command_loop_def\<close>)
qed

end

sublocale interactive \<subseteq> rounds "command_loop e cap command" "app_ok e"
  by unfold_locales (rule command_loop_ok)

section \<open>Programs that start in order\<close>

lemma configure_reachable:
  assumes "reachable e n" "list_all (\<lambda>f. \<forall>m. node_step e m (snd (f m))) fs"
  shows "reachable e (configure fs n)"
  using assms by (induction fs arbitrary: n) (auto simp: configure_def intro: reachable_step)

lemma configure_solo:
  assumes "solo UNIV e n" "list_all (\<lambda>f. \<forall>m. node_step e m (snd (f m))) fs"
  shows "solo UNIV e (configure fs n)"
  using assms by (induction fs arbitrary: n) (auto simp: configure_def intro: solo_any_step)

lemma new_node_solo:
  assumes "modest e" "artnet_new e ok ifaces ip = Some n"
  shows "solo UNIV e n"
proof -
  have "ok = True" using assms(2) by (simp add: artnet_new_def split: if_splits)
  then have "new_node e n" using assms unfolding new_node_def by blast
  then have "reachable e n" unfolding reachable_def by blast
  moreover obtain ret m where init: "artnet_net_init e ifaces
      (zero_node\<lparr>oem_hi := OEM_HI, oem_lo := OEM_LO, esta_hi := ESTA_HI, esta_lo := ESTA_LO,
         bcast_limit := 0, peer := None, master := True\<rparr>) ip = (ret, m)" by fastforce
  then have "peer m = None"
    using net_init_cases [OF init] by (auto simp: use_iface_def)
  with init assms(2) have "peer n = None"
    by (auto simp: artnet_new_def Let_def for_upto_4 new_ports_def split: if_splits)
  ultimately show ?thesis by (simp add: solo_def)
qed

lemma launch_solo:
  assumes "modest e" "launch e pf ip config = Some n"
    and "list_all (\<lambda>f. \<forall>m. node_step e m (snd (f m))) config"
  shows "solo UNIV e n"
proof -
  from assms(2) obtain m ret where m: "artnet_new e (allocated pf) (interfaces pf) ip = Some m"
    "artnet_start e (socket_calls pf) (configure config m) = (ret, n)"
    by (auto simp: launch_def split: option.splits prod.splits if_splits)
  have "solo UNIV e (configure config m)"
    using new_node_solo [OF assms(1) m(1)] assms(3) by (rule configure_solo)
  from solo_any_step [OF this lives [OF starts], of "socket_calls pf"] m(2) show ?thesis by simp
qed

lemma controller_start_ok:
  assumes "modest e" "controller_start e pf args config input = Some a"
    and "list_all (\<lambda>f. \<forall>m. node_step e m (snd (f m))) config"
  shows "app_ok e a"
proof -
  from assms(2) obtain ip n where n: "launch e pf ip config = Some n"
    "a = \<lparr>stdin = input, lib = snd (artnet_send_poll e n None ARTNET_TTM_AUTO), running = True,
      stray = False\<rparr>"
    by (auto simp: controller_start_def split: option.splits)
  then show ?thesis
    using solo_any_step [OF launch_solo [OF assms(1) n(1) assms(3)] lives [OF sends_poll]]
    by (simp add: app_in_def)
qed

text \<open>The calls of a configuration are steps.\<close>

lemma identify_steps [simp]: "list_all (\<lambda>f. \<forall>m. node_step e m (snd (f m))) (identify t st s l)"
  by (simp add: identify_def any_step)

section \<open>What is chosen\<close>

text \<open>A line the user types: it fits the buffer and holds neither the end of a line nor of a string.\<close>

definition typed :: "nat \<Rightarrow> string \<Rightarrow> bool" where
  "typed cap l \<longleftrightarrow> newline \<notin> set l \<and> CHR 0x00 \<notin> set l \<and> Suc (length l) < cap"

lemma typed_line: "typed cap l \<Longrightarrow> fgets cap (l @ newline # r) = Some (l @ [newline], r)"
  using fgets_line by (simp add: typed_def)

lemma with_line_typed:
  "typed cap l \<Longrightarrow> stdin a = l @ newline # r \<Longrightarrow>
     with_line cap f a = f (l @ [newline]) (a\<lparr>stdin := r\<rparr>)"
  using typed_line by (simp add: with_line_def)

lemma next_moves: "\<exists>c. snd (artnet_nl_next nl) = nl\<lparr>current := c\<rparr>"
  by (cases "current nl") (auto simp: artnet_nl_next_def Let_def intro: exI [of _ None])

lemma walk_moves: "\<exists>c. snd (discovered_walk k entry nl) = nl\<lparr>current := c\<rparr>"
proof (induction k arbitrary: entry nl)
  case 0
  then show ?case by (auto intro: exI [of _ "current nl"])
next
  case (Suc k)
  show ?case
  proof (cases entry)
    case None
    then show ?thesis by (auto intro: exI [of _ "current nl"])
  next
    case (Some t)
    obtain c where "snd (artnet_nl_next nl) = nl\<lparr>current := c\<rparr>" using next_moves by blast
    with Suc.IH [of "fst (artnet_nl_next nl)" "snd (artnet_nl_next nl)"] Some
    show ?thesis by (auto simp: case_prod_beta)
  qed
qed

lemma shown_moves:
  "\<exists>c. lib (show_nodes ports a) = (lib a)\<lparr>nodes := (nodes (lib a))\<lparr>current := c\<rparr>\<rparr>"
proof -
  let ?n = "lib a"
  let ?r = "artnet_nl_first (nodes ?n)"
  obtain c where "snd (discovered_walk (Suc (length (entries (snd ?r)))) (fst ?r) (snd ?r)) =
      (snd ?r)\<lparr>current := c\<rparr>"
    using walk_moves by blast
  then have "lib (print_discovered a) = ?n \<or> lib (print_discovered a) = ?n\<lparr>nodes := (nodes ?n)\<lparr>current := c\<rparr>\<rparr>"
    by (simp add: print_discovered_def Let_def case_prod_beta artnet_nl_first_def del: discovered_walk.simps)
  then show ?thesis
    by (auto simp: show_nodes_def intro: exI [of _ c] exI [of _ "current (nodes ?n)"])
qed

lemma shown_rest [simp]:
  "stdin (show_nodes ports a) = stdin a" "running (show_nodes ports a) = running a"
  "app.more (show_nodes ports a) = app.more a"
  by (simp_all add: show_nodes_def print_discovered_def Let_def case_prod_beta)

lemma nth_entry_moves:
  assumes "current nl = Some k" "k + i < length (entries nl)"
  shows "nth_entry i (nl_entry nl) nl =
    (Some (pub (entries nl ! (k + i))), nl\<lparr>current := Some (k + i)\<rparr>)"
  using assms
proof (induction i arbitrary: k nl)
  case (Suc i)
  then have "artnet_nl_next nl = (nl_entry (nl\<lparr>current := Some (Suc k)\<rparr>), nl\<lparr>current := Some (Suc k)\<rparr>)"
    by (simp add: artnet_nl_next_def Let_def)
  with Suc.prems Suc.IH [of "nl\<lparr>current := Some (Suc k)\<rparr>" "Suc k"] show ?case
    by (simp add: nl_entry_def)
qed (simp add: nl_entry_def)

lemma select_node_typed:
  assumes "fits (lib a)" "typed cap l" "stdin a = l @ newline # r" "atoi (l @ [newline]) = int i"
    and "i < length (entries (nodes (lib a)))"
  shows "select_node ports cap a =
    (Some (pub (entries (nodes (lib a)) ! i)),
     a\<lparr>stdin := r, lib := (lib a)\<lparr>nodes := (nodes (lib a))\<lparr>current := Some i\<rparr>\<rparr>\<rparr>)"
proof -
  let ?nl = "nodes (lib a)"
  let ?s = "show_nodes ports a"
  have len: "nl_length ?nl = int (length (entries ?nl))"
    using assms(1) by (simp add: fits_def node_ok_parts wf_nl_def)
  obtain c where c: "lib ?s = (lib a)\<lparr>nodes := ?nl\<lparr>current := c\<rparr>\<rparr>" using shown_moves by blast
  have stray: "stray ?s = stray a" using shown_ok [OF assms(1)] by simp
  have "nth_entry i (nl_entry (?nl\<lparr>current := Some 0\<rparr>)) (?nl\<lparr>current := Some 0\<rparr>) =
      (Some (pub (entries ?nl ! i)), ?nl\<lparr>current := Some i\<rparr>)"
    using nth_entry_moves [of "?nl\<lparr>current := Some 0\<rparr>" 0 i] assms(5) by simp
  moreover have "entries ?nl \<noteq> []" using assms(5) by auto
  ultimately have "select_node ports cap a =
      (Some (pub (entries ?nl ! i)), ?s\<lparr>stdin := r, lib := (lib a)\<lparr>nodes := ?nl\<lparr>current := Some i\<rparr>\<rparr>\<rparr>)"
    using assms(2-5) len typed_line [OF assms(2)] c
    by (simp add: select_node_def artnet_nl_get_length_def Let_def artnet_nl_first_def)
  moreover have "?s\<lparr>stdin := r, lib := m\<rparr> = a\<lparr>stdin := r, lib := m\<rparr>" for m
    using stray by (intro app.equality) simp_all
  ultimately show ?thesis by simp
qed

lemma with_node_typed:
  assumes "fits (lib a)" "typed cap l" "stdin a = l @ newline # r" "atoi (l @ [newline]) = int i"
    and "i < length (entries (nodes (lib a)))"
  shows "with_node ports cap f a = f (pub (entries (nodes (lib a)) ! i))
    (a\<lparr>stdin := r, lib := (lib a)\<lparr>nodes := (nodes (lib a))\<lparr>current := Some i\<rparr>\<rparr>\<rparr>)"
  using select_node_typed [OF assms] by (simp add: with_node_def)

end
