(* ===== verification/Starting.thy ===== *)
theory Starting
  imports Application Programming_Properties
begin

text \<open>
  How a program's node starts: what the calls that configure a node leave alone, its type, its
  mode and the node that it may send RDM to, and that a node whose socket opens and whose packets go out starts.
\<close>

section \<open>Configuration keeps the role\<close>

definition role :: "node \<Rightarrow> artnet_node_type \<times> node_status \<times> ip" where
  "role n = (node_type n, mode n, rdm_reply_addr n)"

lemma role_sends [simp]:
  assumes "only_sends e"
  shows "role (snd (artnet_tx_poll_ex e n ip fl dp w1 w2 w3 w4)) = role n"
    "role (snd (artnet_tx_poll_reply e n)) = role n"
    "role (snd (or_send e ret p n)) = role n"
  using assms
  by (simp_all add: role_def artnet_tx_poll_ex_def artnet_tx_poll_reply_def or_send_def Let_def
      case_prod_beta split: option.split)

lemma role_tod_requests [simp]:
  "only_sends e \<Longrightarrow> role (snd (send_tod_requests e nets ret n)) = role n"
  by (induction nets arbitrary: ret n) (simp_all add: Let_def case_prod_beta)

lemma role_upd [simp]:
  "role (upd_out i f n) = role n" "role (upd_in i g n) = role n" "role (inside c n) = role n"
  "role (n\<lparr>tod_reply_addr := x\<rparr>) = role n"
  by (simp_all add: role_def inside_def)

lemma role_announce [simp]: "only_sends e \<Longrightarrow> role (snd (announce e n)) = role n"
  by (simp add: announce_def case_prod_beta artnet_tx_build_art_poll_reply_def)
     (simp add: role_def)

lemma role_identity [simp]:
  "role (snd (artnet_set_style_code n st)) = role n"
  "role (snd (artnet_set_short_name n name)) = role n"
  "role (snd (artnet_set_long_name n name)) = role n"
  "role (snd (artnet_set_status2 n st)) = role n"
  "role (snd (artnet_setoem n hi lo)) = role n"
  "role (snd (artnet_setesta n hi lo)) = role n"
  "role (snd (artnet_set_default_resp_uid n du)) = role n"
  "role (snd (artnet_set_port_type n i st sd)) = role n"
  "role (snd (artnet_set_handler n h f ud)) = role n"
  "role (snd (set_own_handler c n f ud)) = role n"
  by (simp_all add: role_def artnet_set_style_code_def artnet_set_short_name_def
      artnet_set_long_name_def artnet_set_status2_def artnet_setoem_def artnet_setesta_def
      artnet_set_default_resp_uid_def artnet_set_port_type_def artnet_set_handler_def
      set_own_handler_def artnet_tx_build_art_poll_reply_def Let_def split: option.split)

lemma role_addresses [simp]:
  assumes "only_sends e"
  shows "role (snd (artnet_set_port_addr e n i dir addr)) = role n"
    "role (snd (artnet_set_net_addr e n net)) = role n"
    "role (snd (artnet_set_subnet_addr e n subnet)) = role n"
proof -
  have ports: "role (net_addr_port x i m) = role m" "role (subnet_addr_port x i m) = role m" for x i m
    by (simp_all add: net_addr_port_def subnet_addr_port_def)
  have each: "role (for_upto k (net_addr_port x) m) = role m"
    "role (for_upto k (subnet_addr_port x) m) = role m" for k x m
    by (rule for_upto_frame, rule ports)+
  have same: "role (n\<lparr>default_netSwitch := x, netSwitch := y\<rparr>) = role n"
    "role (n\<lparr>default_netSwitch := x\<rparr>) = role n" "role (n\<lparr>default_subSwitch := x\<rparr>) = role n"
    "role (n\<lparr>default_subSwitch := x, subSwitch := y\<rparr>) = role n"
    "role (n\<lparr>report_code := r\<rparr>) = role n"
    "role (n\<lparr>default_netSwitch := x, report_code := r\<rparr>) = role n"
    "role (n\<lparr>default_subSwitch := x, report_code := r\<rparr>) = role n" for x y r
    by (simp_all add: role_def)
  show "role (snd (artnet_set_port_addr e n i dir addr)) = role n"
    "role (snd (artnet_set_net_addr e n net)) = role n"
    "role (snd (artnet_set_subnet_addr e n subnet)) = role n"
    using assms
    by (simp_all add: artnet_set_port_addr_def addr_result_def artnet_set_net_addr_def
        artnet_set_subnet_addr_def Let_def each same split: option.split artnet_port_dir.split)
       (auto simp: role_def)
qed

lemma role_tod_loop:
  "only_sends e \<Longrightarrow> role (snd (tod_data_loop e pid to d remaining bloc ret n)) = role n"
proof (induction e pid to d remaining bloc ret n rule: tod_data_loop.induct)
  case (1 e pid to d remaining bloc ret n)
  then show ?case by (subst tod_data_loop.simps) (simp add: Let_def case_prod_beta)
qed

lemma role_tod_data [simp]:
  "only_sends e \<Longrightarrow> role (snd (artnet_tx_tod_data e n pid)) = role n"
  by (simp add: artnet_tx_tod_data_def role_tod_loop Let_def)

lemma role_tod_to_each:
  "only_sends e \<Longrightarrow> role (snd (tod_data_to_each e i ks ret n)) = role n"
  by (induction ks arbitrary: ret n) (simp_all add: case_prod_beta)

lemma role_device [simp]:
  assumes "only_sends e"
  shows "role (snd (artnet_add_rdm_device e n i u)) = role n"
proof -
  have "role (snd (artnet_tx_tod_data_to_requesters e m k)) = role m" for m k
    using assms
    by (simp add: artnet_tx_tod_data_to_requesters_def Let_def case_prod_beta role_tod_to_each)
  moreover have "role (add_port_uid e k x m) = role m" for k x m
    by (simp add: add_port_uid_def case_prod_beta c_malloc_def) (simp add: role_def)
  ultimately show ?thesis by (simp add: artnet_add_rdm_device_def)
qed

definition keeps_role :: "(node \<Rightarrow> int \<times> node) list \<Rightarrow> bool" where
  "keeps_role fs \<longleftrightarrow> list_all (\<lambda>f. \<forall>n. role (snd (f n)) = role n) fs"

lemma configure_role: "keeps_role fs \<Longrightarrow> role (configure fs n) = role n"
  by (induction fs arbitrary: n) (simp_all add: configure_def keeps_role_def)

lemma configure_identified:
  assumes "keeps_role fs"
  shows "role (configure (identify t style short long @ fs) n) = (t, mode n, rdm_reply_addr n)"
proof -
  have "configure (identify t style short long @ fs) n =
      configure fs (configure (identify t style short long) n)"
    by (simp add: configure_def)
  moreover have "role (configure (identify t style short long) n) = (t, mode n, rdm_reply_addr n)"
    by (simp add: identify_def configure_def artnet_set_node_type_def)
       (simp add: role_def)
  ultimately show ?thesis using configure_role [OF assms] by simp
qed

section \<open>Starting\<close>

lemma poll_sent_whole:
  assumes "sends_whole e" "mode n = ARTNET_ON" "node_type n = ARTNET_SRV"
  shows "fst (artnet_tx_poll e n None ttm) = 0" "mode (snd (artnet_tx_poll e n None ttm)) = ARTNET_ON"
  using assms by (simp_all add: artnet_tx_poll_def artnet_tx_poll_ex_def net_send_whole new_packet_def)

lemma tod_requests_sent_whole:
  assumes "sends_whole e" "mode n = ARTNET_ON"
  shows "fst (send_tod_requests e nets 0 n) = 0"
  using assms(2)
proof (induction nets arbitrary: n)
  case (Cons net nets)
  then show ?case
    by (simp add: or_send_def net_send_whole [OF assms(1)] new_packet_def Let_def c_bool_def)
qed simp

lemma start_keeps:
  assumes "only_sends e"
  shows "node_type (snd (artnet_start e so n)) = node_type n"
    "rdm_reply_addr (snd (artnet_start e so n)) = rdm_reply_addr n"
  using assms role_tod_requests [of e] role_sends(1) [of e]
  by (simp_all add: role_def artnet_start_def artnet_tx_poll_def artnet_tx_tod_request_def
      artnet_tx_build_art_poll_reply_def case_prod_beta)

lemma start_whole:
  assumes "mode n = ARTNET_STANDBY" "artnet_net_start so n = 0"
    and "node_type n = ARTNET_SRV \<longrightarrow> sends_whole e"
  shows "fst (artnet_start e so n) = 0"
  using assms poll_sent_whole [of e] tod_requests_sent_whole [of e]
  by (simp add: artnet_start_def artnet_tx_build_art_poll_reply_def case_prod_beta
      artnet_tx_tod_request_def)

definition demo_platform :: platform where
  "demo_platform = \<lparr>allocated = True, interfaces = (0, [demo_iface]),
     socket_calls = \<lparr>socket_ok = True, broadcast_ok = True, reuse_ok = True, bind_ok = True\<rparr>\<rparr>"

lemma launch_started:
  assumes "launch e pf ip config = Some n"
  obtains m where "artnet_new e (allocated pf) (interfaces pf) ip = Some m"
    "n = snd (artnet_start e (socket_calls pf) (configure config m))"
proof (cases "artnet_new e (allocated pf) (interfaces pf) ip")
  case (Some m)
  with assms have "n = snd (artnet_start e (socket_calls pf) (configure config m))"
    by (simp add: launch_def case_prod_beta split: if_splits)
  with Some that show ?thesis by blast
qed (use assms in \<open>simp add: launch_def\<close>)

lemma demo_launch:
  assumes "role (configure config demo_new) = (t, ARTNET_STANDBY, a)" "t = ARTNET_SRV \<longrightarrow> sends_whole e"
  shows "\<exists>n. launch e demo_platform None config = Some n"
proof -
  have new: "artnet_new e True (0, [demo_iface]) None = Some demo_new"
    by (simp add: demo_new_def artnet_new_def artnet_net_init_def Let_def)
  have "fst (artnet_start e (socket_calls demo_platform) (configure config demo_new)) = 0"
    using assms
    by (intro start_whole) (simp_all add: role_def demo_platform_def artnet_net_start_def)
  then show ?thesis
    by (simp add: launch_def demo_platform_def new case_prod_beta)
qed

lemma mode_demo_new: "mode demo_new = ARTNET_STANDBY"
  using artnet_new_ok(2) demo_new_eq by blast

lemma sends_whole_quiet: "sends_whole quiet_env"
  by (simp add: sends_whole_def) (simp add: quiet_env_def)

definition demo_runtime :: runtime where
  "demo_runtime = \<lparr>localtime = \<lparr>tm_sec = 0, tm_min = 0, tm_hour = 12, tm_mday = 1, tm_mon = 0, tm_year = 126\<rparr>,
     uninit = 0, stale = []\<rparr>"

end
