(* ===== verification/Node_Manager.thy ===== *)
theory Node_Manager
  imports Application
begin

text \<open>
  The interactive node manager (\<open>examples/node_manager/node_manager.c\<close>): each command of its menu,
  the menu and the main loop.  A command chooses a node of the list, asks for what it needs, checks
  the ranges it checks, and sends one packet to the node.
\<close>

section \<open>Port commands\<close>

text \<open>The command field of ArtAddress.\<close>

datatype (plugins only: ) artnet_port_command =
    ARTNET_PC_NONE | ARTNET_PC_CANCEL | ARTNET_PC_LED_NORMAL | ARTNET_PC_LED_MUTE
  | ARTNET_PC_LED_LOCATE | ARTNET_PC_RESET | ARTNET_PC_ANALYSIS_ON | ARTNET_PC_ANALYSIS_OFF
  | ARTNET_PC_FAIL_HOLD | ARTNET_PC_FAIL_ZERO | ARTNET_PC_FAIL_FULL | ARTNET_PC_FAIL_SCENE
  | ARTNET_PC_FAIL_RECORD | ARTNET_PC_MERGE_LTP_0 | ARTNET_PC_MERGE_LTP_1 | ARTNET_PC_MERGE_LTP_2
  | ARTNET_PC_MERGE_LTP_3 | ARTNET_PC_DIRECTION_TX_0 | ARTNET_PC_DIRECTION_TX_1
  | ARTNET_PC_DIRECTION_TX_2 | ARTNET_PC_DIRECTION_TX_3 | ARTNET_PC_DIRECTION_RX_0
  | ARTNET_PC_DIRECTION_RX_1 | ARTNET_PC_DIRECTION_RX_2 | ARTNET_PC_DIRECTION_RX_3
  | ARTNET_PC_MERGE_HTP_0 | ARTNET_PC_MERGE_HTP_1 | ARTNET_PC_MERGE_HTP_2 | ARTNET_PC_MERGE_HTP_3
  | ARTNET_PC_ARTNET_SEL_0 | ARTNET_PC_ARTNET_SEL_1 | ARTNET_PC_ARTNET_SEL_2
  | ARTNET_PC_ARTNET_SEL_3 | ARTNET_PC_ACN_SEL_0 | ARTNET_PC_ACN_SEL_1 | ARTNET_PC_ACN_SEL_2
  | ARTNET_PC_ACN_SEL_3 | ARTNET_PC_CLR_0 | ARTNET_PC_CLR_1 | ARTNET_PC_CLR_2 | ARTNET_PC_CLR_3
  | ARTNET_PC_STYLE_DELTA_0 | ARTNET_PC_STYLE_DELTA_1 | ARTNET_PC_STYLE_DELTA_2
  | ARTNET_PC_STYLE_DELTA_3 | ARTNET_PC_STYLE_CONST_0 | ARTNET_PC_STYLE_CONST_1
  | ARTNET_PC_STYLE_CONST_2 | ARTNET_PC_STYLE_CONST_3 | ARTNET_PC_RDM_ENABLED_0
  | ARTNET_PC_RDM_ENABLED_1 | ARTNET_PC_RDM_ENABLED_2 | ARTNET_PC_RDM_ENABLED_3
  | ARTNET_PC_RDM_DISABLED_0 | ARTNET_PC_RDM_DISABLED_1 | ARTNET_PC_RDM_DISABLED_2
  | ARTNET_PC_RDM_DISABLED_3 | ARTNET_PC_BQP_NONE | ARTNET_PC_BQP_ADVISORY | ARTNET_PC_BQP_WARNING
  | ARTNET_PC_BQP_ERROR | ARTNET_PC_BQP_DISABLED | ARTNET_PC_BQP_USER5 | ARTNET_PC_BQP_USER6
  | ARTNET_PC_BQP_USER7 | ARTNET_PC_BQP_USER8 | ARTNET_PC_BQP_USER9 | ARTNET_PC_BQP_USER10
  | ARTNET_PC_BQP_USER11 | ARTNET_PC_BQP_USER12 | ARTNET_PC_BQP_USER13 | ARTNET_PC_BQP_USER14
  | ARTNET_PC_BQP_USER15

fun port_command_code :: "artnet_port_command \<Rightarrow> u8" where
  "port_command_code ARTNET_PC_NONE = 0x00"
| "port_command_code ARTNET_PC_CANCEL = 0x01"
| "port_command_code ARTNET_PC_LED_NORMAL = 0x02"
| "port_command_code ARTNET_PC_LED_MUTE = 0x03"
| "port_command_code ARTNET_PC_LED_LOCATE = 0x04"
| "port_command_code ARTNET_PC_RESET = 0x05"
| "port_command_code ARTNET_PC_ANALYSIS_ON = 0x06"
| "port_command_code ARTNET_PC_ANALYSIS_OFF = 0x07"
| "port_command_code ARTNET_PC_FAIL_HOLD = 0x08"
| "port_command_code ARTNET_PC_FAIL_ZERO = 0x09"
| "port_command_code ARTNET_PC_FAIL_FULL = 0x0a"
| "port_command_code ARTNET_PC_FAIL_SCENE = 0x0b"
| "port_command_code ARTNET_PC_FAIL_RECORD = 0x0c"
| "port_command_code ARTNET_PC_MERGE_LTP_0 = 0x10"
| "port_command_code ARTNET_PC_MERGE_LTP_1 = 0x11"
| "port_command_code ARTNET_PC_MERGE_LTP_2 = 0x12"
| "port_command_code ARTNET_PC_MERGE_LTP_3 = 0x13"
| "port_command_code ARTNET_PC_DIRECTION_TX_0 = 0x20"
| "port_command_code ARTNET_PC_DIRECTION_TX_1 = 0x21"
| "port_command_code ARTNET_PC_DIRECTION_TX_2 = 0x22"
| "port_command_code ARTNET_PC_DIRECTION_TX_3 = 0x23"
| "port_command_code ARTNET_PC_DIRECTION_RX_0 = 0x30"
| "port_command_code ARTNET_PC_DIRECTION_RX_1 = 0x31"
| "port_command_code ARTNET_PC_DIRECTION_RX_2 = 0x32"
| "port_command_code ARTNET_PC_DIRECTION_RX_3 = 0x33"
| "port_command_code ARTNET_PC_MERGE_HTP_0 = 0x50"
| "port_command_code ARTNET_PC_MERGE_HTP_1 = 0x51"
| "port_command_code ARTNET_PC_MERGE_HTP_2 = 0x52"
| "port_command_code ARTNET_PC_MERGE_HTP_3 = 0x53"
| "port_command_code ARTNET_PC_ARTNET_SEL_0 = 0x60"
| "port_command_code ARTNET_PC_ARTNET_SEL_1 = 0x61"
| "port_command_code ARTNET_PC_ARTNET_SEL_2 = 0x62"
| "port_command_code ARTNET_PC_ARTNET_SEL_3 = 0x63"
| "port_command_code ARTNET_PC_ACN_SEL_0 = 0x70"
| "port_command_code ARTNET_PC_ACN_SEL_1 = 0x71"
| "port_command_code ARTNET_PC_ACN_SEL_2 = 0x72"
| "port_command_code ARTNET_PC_ACN_SEL_3 = 0x73"
| "port_command_code ARTNET_PC_CLR_0 = 0x90"
| "port_command_code ARTNET_PC_CLR_1 = 0x91"
| "port_command_code ARTNET_PC_CLR_2 = 0x92"
| "port_command_code ARTNET_PC_CLR_3 = 0x93"
| "port_command_code ARTNET_PC_STYLE_DELTA_0 = 0xa0"
| "port_command_code ARTNET_PC_STYLE_DELTA_1 = 0xa1"
| "port_command_code ARTNET_PC_STYLE_DELTA_2 = 0xa2"
| "port_command_code ARTNET_PC_STYLE_DELTA_3 = 0xa3"
| "port_command_code ARTNET_PC_STYLE_CONST_0 = 0xb0"
| "port_command_code ARTNET_PC_STYLE_CONST_1 = 0xb1"
| "port_command_code ARTNET_PC_STYLE_CONST_2 = 0xb2"
| "port_command_code ARTNET_PC_STYLE_CONST_3 = 0xb3"
| "port_command_code ARTNET_PC_RDM_ENABLED_0 = 0xc0"
| "port_command_code ARTNET_PC_RDM_ENABLED_1 = 0xc1"
| "port_command_code ARTNET_PC_RDM_ENABLED_2 = 0xc2"
| "port_command_code ARTNET_PC_RDM_ENABLED_3 = 0xc3"
| "port_command_code ARTNET_PC_RDM_DISABLED_0 = 0xd0"
| "port_command_code ARTNET_PC_RDM_DISABLED_1 = 0xd1"
| "port_command_code ARTNET_PC_RDM_DISABLED_2 = 0xd2"
| "port_command_code ARTNET_PC_RDM_DISABLED_3 = 0xd3"
| "port_command_code ARTNET_PC_BQP_NONE = 0xe0"
| "port_command_code ARTNET_PC_BQP_ADVISORY = 0xe1"
| "port_command_code ARTNET_PC_BQP_WARNING = 0xe2"
| "port_command_code ARTNET_PC_BQP_ERROR = 0xe3"
| "port_command_code ARTNET_PC_BQP_DISABLED = 0xe4"
| "port_command_code ARTNET_PC_BQP_USER5 = 0xe5"
| "port_command_code ARTNET_PC_BQP_USER6 = 0xe6"
| "port_command_code ARTNET_PC_BQP_USER7 = 0xe7"
| "port_command_code ARTNET_PC_BQP_USER8 = 0xe8"
| "port_command_code ARTNET_PC_BQP_USER9 = 0xe9"
| "port_command_code ARTNET_PC_BQP_USER10 = 0xea"
| "port_command_code ARTNET_PC_BQP_USER11 = 0xeb"
| "port_command_code ARTNET_PC_BQP_USER12 = 0xec"
| "port_command_code ARTNET_PC_BQP_USER13 = 0xed"
| "port_command_code ARTNET_PC_BQP_USER14 = 0xee"
| "port_command_code ARTNET_PC_BQP_USER15 = 0xef"

text \<open>\<open>memset(nochange, 0x7F, ARTNET_MAX_PORTS)\<close>: leave the port addresses alone.\<close>

definition nochange :: "u8 list" where
  "nochange = replicate ARTNET_MAX_PORTS 0x7F"

text \<open>An ArtAddress that leaves the ports and the priority alone.\<close>

definition send_address ::
    "env \<Rightarrow> node_entry \<Rightarrow> string option \<Rightarrow> string option \<Rightarrow> u8 \<Rightarrow> u8 \<Rightarrow> u8 \<Rightarrow>
     'a app_scheme \<Rightarrow> 'a app_scheme" where
  "send_address e t short long net sub cmd =
     call (\<lambda>n. artnet_send_address e n (Some t) short long (Some nochange) (Some nochange) net sub cmd 0xFF)"

section \<open>The commands\<close>

definition nm_cmd_poll :: "env \<Rightarrow> app \<Rightarrow> app" where
  "nm_cmd_poll e = call (\<lambda>n. artnet_send_poll e n None ARTNET_TTM_AUTO)"

definition nm_cmd_short_name :: "env \<Rightarrow> app \<Rightarrow> app" where
  "nm_cmd_short_name e =
     with_node True 32 (\<lambda>t. with_line (ARTNET_SHORT_NAME_LENGTH + 2) (\<lambda>buf.
       let name = strip_newline buf
       in if name = [] then id
          else send_address e t (Some name) None 0x7F 0x7F (port_command_code ARTNET_PC_NONE)))"

definition nm_cmd_long_name :: "env \<Rightarrow> app \<Rightarrow> app" where
  "nm_cmd_long_name e =
     with_node True 32 (\<lambda>t. with_line (ARTNET_LONG_NAME_LENGTH + 2) (\<lambda>buf.
       let name = strip_newline buf
       in if name = [] then id
          else send_address e t None (Some name) 0x7F 0x7F (port_command_code ARTNET_PC_NONE)))"

definition nm_cmd_net :: "env \<Rightarrow> app \<Rightarrow> app" where
  "nm_cmd_net e =
     with_node True 32 (\<lambda>t. with_line 16 (\<lambda>buf.
       let val = atoi buf
       in if val < 0 \<or> 127 < val then id
          else send_address e t None None (word_of_int val) 0x7F (port_command_code ARTNET_PC_NONE)))"

definition nm_cmd_subnet :: "env \<Rightarrow> app \<Rightarrow> app" where
  "nm_cmd_subnet e =
     with_node True 32 (\<lambda>t. with_line 16 (\<lambda>buf.
       let val = atoi buf
       in if val < 0 \<or> 15 < val then id
          else send_address e t None None 0x7F (word_of_int val) (port_command_code ARTNET_PC_NONE)))"

text \<open>The current ports are shown before the port is asked for: an access per port of the entry.\<close>

definition show_ports :: "node_entry \<Rightarrow> 'a app_scheme \<Rightarrow> 'a app_scheme" where
  "show_ports t a = a\<lparr>stray := stray a \<or> \<not> e_numbports t \<le> 4\<rparr>"

definition nm_cmd_universe :: "env \<Rightarrow> app \<Rightarrow> app" where
  "nm_cmd_universe e =
     with_node True 32 (\<lambda>t a. with_line 16 (\<lambda>buf_port.
       let port = atoi buf_port
       in if port < 0 \<or> ARTNET_MAX_PORTS \<le> port then id
          else with_line 16 (\<lambda>buf_uni.
            let uni = atoi buf_uni
            in if uni < 0 \<or> 15 < uni then id
               else
                 (let addrs = nochange[nat port := word_of_int uni OR 0x80]
                  in call (\<lambda>n. artnet_send_address e n (Some t) None None (Some addrs) (Some addrs)
                                 0x7F 0x7F (port_command_code ARTNET_PC_NONE) 0xFF)))) (show_ports t a))"

definition nm_cmd_port_enable :: "env \<Rightarrow> bool \<Rightarrow> app \<Rightarrow> app" where
  "nm_cmd_port_enable e enable =
     with_node True 32 (\<lambda>t. with_line 16 (\<lambda>buf.
       let port = atoi buf
       in if port < 0 \<or> ARTNET_MAX_PORTS \<le> port then id
          else
            (let zeros = replicate ARTNET_MAX_PORTS 0;
                 settings = (if enable then zeros else zeros[nat port := 0x01])
             in call (\<lambda>n. artnet_send_input e n (Some t) settings))))"

definition nm_cmd_led :: "env \<Rightarrow> artnet_port_command \<Rightarrow> app \<Rightarrow> app" where
  "nm_cmd_led e cmd =
     with_node True 32 (\<lambda>t. send_address e t None None 0x7F 0x7F (port_command_code cmd))"

definition nm_cmd_failsafe :: "env \<Rightarrow> artnet_port_command \<Rightarrow> app \<Rightarrow> app" where
  "nm_cmd_failsafe e cmd =
     with_node True 32 (\<lambda>t. send_address e t None None 0x7F 0x7F (port_command_code cmd))"

definition nm_cmd_trigger :: "env \<Rightarrow> app \<Rightarrow> app" where
  "nm_cmd_trigger e =
     with_node True 32 (\<lambda>t. with_line 16 (\<lambda>buf.
       let key = (if first_char buf = newline then 1 else atoi buf)
       in with_line 16 (\<lambda>buf.
            let sub_key = (if first_char buf = newline then 0 else atoi buf)
            in call (\<lambda>n. artnet_send_trigger e n 0xFF 0xFF (word_of_int key) (word_of_int sub_key) None 0))))"

definition opt_string :: "string \<Rightarrow> string option" where
  "opt_string s = (if s = [] then None else Some s)"

text \<open>What an ArtIpProg asks for: nothing, or to program the addresses that were typed.\<close>

definition ipprog_command :: "string \<Rightarrow> string \<Rightarrow> string \<Rightarrow> u8" where
  "ipprog_command ip msk gw =
     (if ip = [] \<and> msk = [] \<and> gw = [] then 0x00
      else 0x80 OR (if ip \<noteq> [] then 0x04 else 0) OR (if msk \<noteq> [] then 0x02 else 0) OR
           (if gw \<noteq> [] then 0x10 else 0))"

definition nm_cmd_ipprog :: "env \<Rightarrow> app \<Rightarrow> app" where
  "nm_cmd_ipprog e =
     with_node True 32 (\<lambda>t. with_line 64 (\<lambda>ip_buf. with_line 64 (\<lambda>mask_buf. with_line 64 (\<lambda>gw_buf.
       let ip = strip_newline ip_buf; msk = strip_newline mask_buf; gw = strip_newline gw_buf
       in call (\<lambda>n. artnet_send_ipprog e n (Some t) (ipprog_command ip msk gw) (opt_string ip)
                      (opt_string msk) (opt_string gw))))))"

section \<open>The menu\<close>

definition nm_command :: "env \<Rightarrow> char \<Rightarrow> app \<Rightarrow> app" where
  "nm_command e c =
     (if c = CHR ''p'' then nm_cmd_poll e
      else if c = CHR ''l'' then print_discovered
      else if c = CHR ''1'' then nm_cmd_short_name e
      else if c = CHR ''2'' then nm_cmd_long_name e
      else if c = CHR ''3'' then nm_cmd_net e
      else if c = CHR ''4'' then nm_cmd_subnet e
      else if c = CHR ''5'' then nm_cmd_universe e
      else if c = CHR ''6'' then nm_cmd_port_enable e True
      else if c = CHR ''7'' then nm_cmd_port_enable e False
      else if c = CHR ''8'' then nm_cmd_led e ARTNET_PC_LED_LOCATE
      else if c = CHR ''9'' then nm_cmd_led e ARTNET_PC_LED_MUTE
      else if c = CHR ''0'' then nm_cmd_led e ARTNET_PC_LED_NORMAL
      else if c = CHR ''f'' then nm_cmd_failsafe e ARTNET_PC_FAIL_HOLD
      else if c = CHR ''g'' then nm_cmd_failsafe e ARTNET_PC_FAIL_ZERO
      else if c = CHR ''h'' then nm_cmd_failsafe e ARTNET_PC_FAIL_FULL
      else if c = CHR ''j'' then nm_cmd_failsafe e ARTNET_PC_FAIL_SCENE
      else if c = CHR ''t'' then nm_cmd_trigger e
      else if c = CHR ''i'' then nm_cmd_ipprog e
      else if c = CHR ''q'' then (\<lambda>a. a\<lparr>running := False\<rparr>)
      else id)"

text \<open>\<open>main\<close> up to the loop, and the loop.\<close>

definition nm_config :: "(node \<Rightarrow> int \<times> node) list" where
  "nm_config =
     identify ARTNET_SRV ARTNET_ST_CONTROLLER ''NodeManager'' ''libartnet Art-Net 4 Node Manager''"

definition nm_start :: "env \<Rightarrow> platform \<Rightarrow> string list \<Rightarrow> string \<Rightarrow> app option" where
  "nm_start e pf args input = controller_start e pf args nm_config input"

definition nm_round :: "env \<Rightarrow> event \<Rightarrow> app \<Rightarrow> app option" where
  "nm_round e = command_loop e 256 (nm_command e)"

section \<open>Every session is in order\<close>

lemma safe_address [safe]: "app_in s e a \<Longrightarrow> app_in s e (send_address e t sn ln net sub cmd a)"
  unfolding send_address_def by (rule safe_call, assumption, rule sends_address)

lemma safe_show_ports [safe]: "app_in s e a \<Longrightarrow> e_numbports t \<le> 4 \<Longrightarrow> app_in s e (show_ports t a)"
  by (simp add: show_ports_def)

lemma app_in_id [simp]: "app_in s e (id a) = app_in s e a"
  by simp

lemma nm_commands_ok:
  assumes "app_ok e a"
  shows "app_ok e (nm_cmd_poll e a)" "app_ok e (nm_cmd_short_name e a)"
    "app_ok e (nm_cmd_long_name e a)" "app_ok e (nm_cmd_net e a)" "app_ok e (nm_cmd_subnet e a)"
    "app_ok e (nm_cmd_universe e a)" "app_ok e (nm_cmd_port_enable e b a)"
    "app_ok e (nm_cmd_led e cmd a)" "app_ok e (nm_cmd_failsafe e cmd a)"
    "app_ok e (nm_cmd_trigger e a)" "app_ok e (nm_cmd_ipprog e a)"
  unfolding nm_cmd_poll_def nm_cmd_short_name_def nm_cmd_long_name_def nm_cmd_net_def
    nm_cmd_subnet_def nm_cmd_universe_def nm_cmd_port_enable_def nm_cmd_led_def
    nm_cmd_failsafe_def nm_cmd_trigger_def nm_cmd_ipprog_def Let_def
  by (rule safe assms live_step.intros | assumption | simp add: assms)+

end
