(* ===== verification/Full_Node.thy ===== *)
theory Full_Node
  imports Application
begin

text \<open>
  The node with every feature (\<open>examples/full_node/full_node.c\<close>): its files in memory, its three
  handlers that answer, its command line, its configuration and its main loop.  Its other handlers
  print and return 0.
\<close>

section \<open>Files in memory\<close>

record mem_file =
  file_name :: string
  file_data :: "u8 list"

definition k_full_node_log :: "u8 list" where
  "k_full_node_log =
     bytes_of (''boot=ok'' @ newline # ''dmx=enabled'' @ newline # ''rdm=enabled'' @ [newline])"

definition k_scene_a_dmx :: "u8 list" where
  "k_scene_a_dmx = [0x7F, 0x40, 0x20, 0x10, 0x00, 0xFF, 0xAA, 0x55]"

definition k_product_note :: "u8 list" where
  "k_product_note = bytes_of (''libartnet full_node in-memory file'' @ [newline])"

definition k_mem_files :: "mem_file list" where
  "k_mem_files =
     [\<lparr>file_name = ''full_node.log'', file_data = k_full_node_log\<rparr>,
      \<lparr>file_name = ''scene_A.dmx'', file_data = k_scene_a_dmx\<rparr>,
      \<lparr>file_name = ''readme.txt'', file_data = k_product_note\<rparr>]"

text \<open>The names, each with its final 0, as long as the buffer has room.\<close>

primrec build_directory_blob :: "nat \<Rightarrow> mem_file list \<Rightarrow> u8 list \<Rightarrow> u8 list" where
  "build_directory_blob cap [] buf = buf"
| "build_directory_blob cap (f # fs) buf =
     (let name_len = length (file_name f) + 1
      in if cap < length buf + name_len then buf
         else build_directory_blob cap fs (buf @ bytes_of (file_name f) @ [0]))"

definition find_mem_file :: "u8 list \<Rightarrow> mem_file option" where
  "find_mem_file name = find (\<lambda>f. bytes_of (file_name f) = name) k_mem_files"

text \<open>A C string that begins at a field of the packet; \<open>strcmp\<close> does not read past its end.\<close>

definition string_at :: "layout \<Rightarrow> string \<Rightarrow> nat \<Rightarrow> packet \<Rightarrow> u8 list" where
  "string_at L f k p = takeWhile (\<lambda>c. c \<noteq> 0) (get_bytes (p_data p) (offset L f) k)"

definition buffer_of :: "u8 list \<Rightarrow> mem" where
  "buffer_of bs = put_bytes zero_mem 0 bs"

section \<open>The handlers that answer\<close>

text \<open>\<open>inet_ntoa\<close>: an address is stored in network order, its first byte lowest.\<close>

definition ip_byte :: "nat \<Rightarrow> ip \<Rightarrow> nat" where
  "ip_byte k a = unat (drop_bit (8 * k) a AND 0xFF)"

definition decimal :: "nat \<Rightarrow> string" where
  "decimal x = map (\<lambda>d. char_of (48 + d)) (digits 10 x)"

definition inet_ntoa :: "ip \<Rightarrow> string" where
  "inet_ntoa a =
     decimal (ip_byte 0 a) @ ''.'' @ decimal (ip_byte 1 a) @ ''.'' @ decimal (ip_byte 2 a) @ ''.'' @
     decimal (ip_byte 3 a)"

definition k_product_url :: string where
  "k_product_url = ''https://example.invalid/libartnet/full_node''"

definition k_user_guide_url :: string where
  "k_user_guide_url = ''https://example.invalid/libartnet/docs''"

definition k_support_url :: string where
  "k_support_url = ''https://example.invalid/libartnet/support''"

definition ARTNET_DR_POLL :: u16 where [simp]: "ARTNET_DR_POLL = 0x0000"
definition ARTNET_DR_URL_PRODUCT :: u16 where [simp]: "ARTNET_DR_URL_PRODUCT = 0x0001"
definition ARTNET_DR_URL_USER_GUIDE :: u16 where [simp]: "ARTNET_DR_URL_USER_GUIDE = 0x0002"
definition ARTNET_DR_URL_SUPPORT :: u16 where [simp]: "ARTNET_DR_URL_SUPPORT = 0x0003"

definition data_answer :: "u16 \<Rightarrow> string" where
  "data_answer code =
     (if code = ARTNET_DR_POLL then ''''
      else if code = ARTNET_DR_URL_PRODUCT then k_product_url
      else if code = ARTNET_DR_URL_USER_GUIDE then k_user_guide_url
      else if code = ARTNET_DR_URL_SUPPORT then k_support_url
      else '''')"

definition data_request_handler :: "env \<Rightarrow> node \<Rightarrow> packet \<Rightarrow> int \<times> node" where
  "data_request_handler e n p =
     (let request_code =
            push_bit 8 (ucast (get8 artnet_data_request_s ''requestHi'' p)) OR
            ucast (get8 artnet_data_request_s ''requestLo'' p);
          txt = data_answer request_code
      in (0, snd (artnet_send_data_reply e n (Some (inet_ntoa (p_from p))) request_code
                    (Some (buffer_of (bytes_of txt @ [0]))) (int (length txt) + 1))))"

definition directory_handler :: "env \<Rightarrow> node \<Rightarrow> packet \<Rightarrow> int \<times> node" where
  "directory_handler e n p =
     (let dir_blob = build_directory_blob 256 k_mem_files []
      in (1, snd (artnet_send_directory_reply e n (Some (buffer_of dir_blob)) (int (length dir_blob))
                    (int (length k_mem_files)))))"

text \<open>A file goes out in blocks of 1024 bytes.\<close>

definition file_block :: nat where
  [simp]: "file_block = ARTNET_FIRMWARE_SIZE * 2"

function send_file_blocks :: "env \<Rightarrow> u8 list \<Rightarrow> nat \<Rightarrow> node \<Rightarrow> node" where
  "send_file_blocks e data block_id n =
     (if length data \<le> block_id * file_block then n
      else
        (let start = block_id * file_block;
             remaining = length data - start;
             send_len = (if file_block < remaining then file_block else remaining)
         in send_file_blocks e data (Suc block_id)
              (snd (artnet_send_file_fn_reply e n (of_nat block_id) (of_nat (length data))
                 (Some (buffer_of (drop start data))) (int send_len)))))"
  by pat_completeness auto
termination
  by (relation "measure (\<lambda>(e, data, block_id, n). length data - block_id * file_block)") auto

declare send_file_blocks.simps [simp del]

definition not_found :: "u8 list" where
  "not_found = bytes_of ''NOT_FOUND''"

definition file_fn_master_handler :: "env \<Rightarrow> node \<Rightarrow> packet \<Rightarrow> int \<times> node" where
  "file_fn_master_handler e n p =
     (case find_mem_file (string_at artnet_file_fn_master_s ''filename'' 256 p) of
        None \<Rightarrow>
          (1, snd (artnet_send_file_fn_reply e n 0 (of_nat (length not_found))
                     (Some (buffer_of not_found)) (int (length not_found))))
      | Some file \<Rightarrow> (1, send_file_blocks e (file_data file) 0 n))"

section \<open>The callbacks of the program\<close>

text \<open>
  The three handlers have the numbers 1 to 3, those that print the number 0.  No handler is told of
  packets that are sent, so the library calls none while a handler sends.
\<close>

definition print_fn :: fnptr where [simp]: "print_fn = 0"
definition data_request_fn :: fnptr where [simp]: "data_request_fn = 1"
definition directory_fn :: fnptr where [simp]: "directory_fn = 2"
definition file_fn_master_fn :: fnptr where [simp]: "file_fn_master_fn = 3"

definition printing :: "env \<Rightarrow> env" where
  "printing e = e\<lparr>env_call := \<lambda>_ _ _ n. (0, n)\<rparr>"

definition full_node_call :: "env \<Rightarrow> fnptr \<Rightarrow> call_arg \<Rightarrow> userdata \<Rightarrow> node \<Rightarrow> int \<times> node" where
  "full_node_call e f arg data n =
     (case arg of
        Packet_Arg p \<Rightarrow>
          if f = data_request_fn then data_request_handler (printing e) n p
          else if f = directory_fn then directory_handler (printing e) n p
          else if f = file_fn_master_fn then file_fn_master_handler (printing e) n p
          else (0, n)
      | _ \<Rightarrow> (0, n))"

definition full_node_env :: "env \<Rightarrow> env" where
  "full_node_env e = e\<lparr>env_call := full_node_call e\<rparr>"

definition full_node_handlers :: "(artnet_handler_name \<times> fnptr) list" where
  "full_node_handlers =
     map (\<lambda>h. (h, print_fn))
       [ARTNET_SYNC_HANDLER, ARTNET_POLL_HANDLER, ARTNET_REPLY_HANDLER, ARTNET_TOD_REQUEST_HANDLER,
        ARTNET_TOD_DATA_HANDLER, ARTNET_TOD_CONTROL_HANDLER, ARTNET_RDM_HANDLER,
        ARTNET_RDMSUB_HANDLER, ARTNET_NZS_HANDLER, ARTNET_TIMECODE_HANDLER,
        ARTNET_TIMESYNC_HANDLER, ARTNET_TRIGGER_HANDLER, ARTNET_DIAGDATA_HANDLER,
        ARTNET_ADDRESS_HANDLER, ARTNET_INPUT_HANDLER, ARTNET_IPPROG_HANDLER,
        ARTNET_COMMAND_HANDLER, ARTNET_MEDIA_HANDLER, ARTNET_MEDIAPATCH_HANDLER,
        ARTNET_MEDIACONTROL_HANDLER, ARTNET_MEDIACONTROL_REPLY_HANDLER] @
     [(ARTNET_DATAREQUEST_HANDLER, data_request_fn), (ARTNET_DIRECTORY_HANDLER, directory_fn),
      (ARTNET_FILE_FN_MASTER_HANDLER, file_fn_master_fn)]"

text \<open>What \<open>dmx_handler\<close> prints: the length, three levels and the last; -1 for a level it lacks.\<close>

definition dmx_shown :: "node \<Rightarrow> int \<Rightarrow> int list" where
  "dmx_shown n port =
     (case artnet_read_dmx n port of
        None \<Rightarrow> []
      | Some (dmx, len) \<Rightarrow>
          if 0 < len
          then [len, uint (dmx 0), if 1 < len then uint (dmx 1) else -1,
                if 2 < len then uint (dmx 2) else -1, uint (dmx (nat (len - 1)))]
          else [])"

section \<open>The command line\<close>

record node_options =
  opt_ip :: "string option"
  opt_net :: int
  opt_subnet :: int
  opt_universe :: int

fun node_args :: "string list \<Rightarrow> node_options \<Rightarrow> node_options option" where
  "node_args [] os = Some os"
| "node_args [_] os = None"
| "node_args (opt # val # args) os =
     (if opt = ''-i'' then node_args args (os\<lparr>opt_ip := Some val\<rparr>)
      else if opt = ''-n'' then node_args args (os\<lparr>opt_net := atoi val\<rparr>)
      else if opt = ''-s'' then node_args args (os\<lparr>opt_subnet := atoi val\<rparr>)
      else if opt = ''-u'' then node_args args (os\<lparr>opt_universe := atoi val\<rparr>)
      else None)"

definition node_options_ok :: "node_options \<Rightarrow> bool" where
  "node_options_ok os \<longleftrightarrow>
     \<not> (opt_net os < 0 \<or> 127 < opt_net os) \<and> \<not> (opt_subnet os < 0 \<or> 15 < opt_subnet os) \<and>
     \<not> (opt_universe os < 0 \<or> 15 < opt_universe os)"

definition parse_node_options :: "string list \<Rightarrow> node_options option" where
  "parse_node_options args =
     (case node_args args \<lparr>opt_ip = None, opt_net = 0, opt_subnet = 0, opt_universe = 0\<rparr> of
        None \<Rightarrow> None
      | Some os \<Rightarrow> if node_options_ok os then Some os else None)"

section \<open>Configuration and main loop\<close>

definition ARTNET_STATUS2_15BIT_ADDR :: u8 where [simp]: "ARTNET_STATUS2_15BIT_ADDR = 0x08"
definition ARTNET_STATUS2_RDM_CONTROL :: u8 where [simp]: "ARTNET_STATUS2_RDM_CONTROL = 0x80"

definition default_uid :: "u8 list" where
  "default_uid = [0x00, 0xFF, 0x00, 0x00, 0x00, 0x01]"

text \<open>A port that is input and output at the universe's port bits plus the port's number.\<close>

definition port_config :: "env \<Rightarrow> int \<Rightarrow> nat \<Rightarrow> (node \<Rightarrow> int \<times> node) list" where
  "port_config e universe i =
     (let port_addr = word_of_int (universe + int i)
      in [\<lambda>n. artnet_set_port_type n (int i) (ARTNET_ENABLE_INPUT OR ARTNET_ENABLE_OUTPUT)
                ARTNET_PORT_DMX,
          \<lambda>n. artnet_set_port_addr e n (int i) (Some ARTNET_INPUT_PORT) port_addr,
          \<lambda>n. artnet_set_port_addr e n (int i) (Some ARTNET_OUTPUT_PORT) port_addr])"

definition full_node_config :: "env \<Rightarrow> node_options \<Rightarrow> (node \<Rightarrow> int \<times> node) list" where
  "full_node_config e os =
     identify ARTNET_NODE ARTNET_ST_NODE ''FullNode'' ''libartnet Art-Net 4 Full Feature Node'' @
     [\<lambda>n. artnet_setoem n 0xFF 0x00, \<lambda>n. artnet_setesta n 0x00 0xFF,
      \<lambda>n. artnet_set_net_addr e n (word_of_int (opt_net os)),
      \<lambda>n. artnet_set_subnet_addr e n (word_of_int (opt_subnet os)),
      \<lambda>n. artnet_set_status2 n (ARTNET_STATUS2_15BIT_ADDR OR ARTNET_STATUS2_RDM_CONTROL),
      \<lambda>n. artnet_set_default_resp_uid n (buffer_of default_uid)] @
     concat (map (port_config e (opt_universe os)) [0..<4]) @
     [\<lambda>n. artnet_add_rdm_device e n 0 default_uid,
      \<lambda>n. artnet_set_dmx_handler n (Some print_fn) 0] @
     map (\<lambda>(h, f) n. artnet_set_handler n (Some h) (Some f) 0) full_node_handlers @
     [\<lambda>n. artnet_set_program_handler n (Some print_fn) 0,
      \<lambda>n. artnet_set_firmware_handler n (Some print_fn) 0]"

record ticker = app +
  tick :: int

definition full_node_start :: "env \<Rightarrow> platform \<Rightarrow> string list \<Rightarrow> ticker option" where
  "full_node_start e pf args =
     (case parse_node_options args of
        None \<Rightarrow> None
      | Some os \<Rightarrow>
          map_option (\<lambda>n. \<lparr>stdin = [], lib = n, running = True, stray = False, tick = 0\<rparr>)
            (launch (full_node_env e) pf (opt_ip os) (full_node_config (full_node_env e) os)))"

text \<open>The levels of the test frame of port \<open>i\<close>.\<close>

definition test_frame :: "int \<Rightarrow> nat \<Rightarrow> u8 list" where
  "test_frame t i =
     [word_of_int (t div 50 + int i * 30), word_of_int (t div 50 + int i * 60),
      word_of_int (t div 50 + int i * 90), 0]"

primrec send_frames :: "env \<Rightarrow> int \<Rightarrow> nat list \<Rightarrow> node \<Rightarrow> node option" where
  "send_frames e t [] n = Some n"
| "send_frames e t (i # is) n =
     (case artnet_send_dmx e n (int i) 4 (buffer_of (test_frame t i)) of
        None \<Rightarrow> None
      | Some (ret, n) \<Rightarrow> send_frames e t is n)"

text \<open>A round of the loop: the counter is an \<open>int\<close> of the program, which nothing resets.\<close>

definition full_node_round :: "env \<Rightarrow> event \<Rightarrow> ticker \<Rightarrow> ticker option" where
  "full_node_round e ev a =
     (case ev of
        Signal \<Rightarrow> Some (a\<lparr>running := False\<rparr>)
      | Wakeup as ready \<Rightarrow>
          if \<not> running a then Some a
          else
            Option.bind (app_read (full_node_env e) as a)
              (\<lambda>a. let a = a\<lparr>tick := tick a + 1\<rparr>
                   in if tick a mod 50 = 0
                      then map_option (\<lambda>n. a\<lparr>lib := n\<rparr>)
                             (send_frames (full_node_env e) (tick a) [0..<4] (lib a))
                      else Some a))"

section \<open>Characters and bytes\<close>

lemma byte_of_char_0:
  assumes "(of_char c :: u8) = 0"
  shows "c = CHR 0x00"
proof -
  have "unat (of_nat (of_char c) :: u8) = of_char c"
    by (simp add: unat_of_nat take_bit_nat_eq_self_iff)
  moreover have "(of_nat (of_char c) :: u8) = 0" using assms by (simp only: of_nat_of_char)
  ultimately have "(of_char c :: nat) = of_char (CHR 0x00)" by (simp only: unsigned_0) simp
  then show ?thesis by (simp only: of_char_eq_iff)
qed

section \<open>The handlers only send\<close>

definition moved :: "node \<Rightarrow> node \<Rightarrow> bool" where
  "moved n m \<longleftrightarrow> (\<exists>k s r. m = n\<lparr>sends := k, sent := s, report_code := r\<rparr>)"

lemma moved_refl [simp, intro]: "moved n n"
  unfolding moved_def by (rule sends_nothing)

lemma moved_trans:
  assumes "moved n m" "moved m l"
  shows "moved n l"
proof -
  obtain k s r where "l = n\<lparr>sends := k, sent := s, report_code := r\<rparr>"
    using assms unfolding moved_def by fastforce
  then show ?thesis unfolding moved_def by blast
qed

lemma moved_net_send [simp]: "observer e \<Longrightarrow> moved n (snd (artnet_net_send e n p))"
proof -
  have "moved n (n\<lparr>sends := k, sent := s, report_code := r\<rparr>)" for k s r
    unfolding moved_def by blast
  from this [where r = "report_code n"] this
  have "moved n (n\<lparr>sends := k, sent := s\<rparr>)" "moved n (n\<lparr>sends := k, sent := s, report_code := r\<rparr>)"
    for k s r by simp_all
  then show "observer e \<Longrightarrow> ?thesis" by (simp add: artnet_net_send_def Let_def)
qed

lemma moved_send_new [simp]: "observer e \<Longrightarrow> moved n (snd (send_new e n to t len d))"
  by (simp add: send_new_def)

lemma observer_printing [simp]: "observer (printing e)"
  by (simp add: observer_def printing_def)

lemma moved_answers:
  assumes "observer e"
  shows "moved n (snd (artnet_send_data_reply e n ip code d len))"
    "moved n (snd (artnet_send_directory_reply e n d cnt tot))"
    "moved n (snd (artnet_send_file_fn_reply e n b word d len))"
  using assms
  by (simp_all add: artnet_send_data_reply_def artnet_tx_data_reply_def artnet_send_directory_reply_def
      artnet_send_file_fn_reply_def artnet_tx_file_fn_reply_def Let_def split: option.split)

lemma moved_file_blocks: "observer e \<Longrightarrow> moved n (send_file_blocks e data b n)"
proof (induction e data b n rule: send_file_blocks.induct)
  case (1 e data b n)
  show ?case
  proof (cases "length data \<le> b * file_block")
    case False
    then show ?thesis
      by (subst send_file_blocks.simps) (unfold Let_def if_not_P [OF False],
        rule moved_trans [OF moved_answers(3) "1.IH"], use 1 in auto)
  qed (simp add: send_file_blocks.simps)
qed

lemma full_node_only_sends: "only_sends (full_node_env e)"
proof -
  have "moved n (snd (full_node_call e f arg d n))" for f arg d n
    using moved_answers [OF observer_printing] moved_file_blocks [OF observer_printing]
    by (auto simp: full_node_call_def data_request_handler_def directory_handler_def
        file_fn_master_handler_def Let_def split: call_arg.split option.split)
  then show ?thesis by (simp add: only_sends_def full_node_env_def moved_def)
qed

lemma full_node_modest: "\<forall>k. env_malloc e k \<Longrightarrow> modest (full_node_env e)"
  by (simp add: modest_def full_node_only_sends) (simp add: full_node_env_def)

section \<open>Every session is in order\<close>

lemma default_uid_length: "length default_uid = 6"
  by (simp add: default_uid_def)

lemma full_node_config_steps:
  "list_all (\<lambda>f. \<forall>m. node_step e m (snd (f m))) (full_node_config e os)"
proof -
  have "list_all (\<lambda>f. \<forall>m. node_step e m (snd (f m))) (port_config e u i)" for u i
    by (simp add: port_config_def Let_def lives [OF sets_port] lives [OF sets_addr])
  then show ?thesis
    by (auto simp: full_node_config_def list_all_iff full_node_handlers_def identify_def default_uid_length
        artnet_set_dmx_handler_def artnet_set_program_handler_def artnet_set_firmware_handler_def
        intro: any_step)
qed

lemma send_frames_solo:
  "solo ts e n \<Longrightarrow> \<exists>m. send_frames e t is n = Some m \<and> solo ts e m"
proof (induction "is" arbitrary: n)
  case (Cons i "is")
  have "fits n" "modest e" using solo_modest [OF Cons.prems] by simp_all
  obtain ret m where m: "artnet_send_dmx e n (int i) 4 (buffer_of (test_frame t i)) = Some (ret, m)"
    using send_dmx_returns \<open>fits n\<close> unfolding fits_def by blast
  with solo_step [OF Cons.prems sends_dmx] Cons.IH [of m] show ?case by simp
qed simp

lemma full_node_round_ok:
  assumes "polite_event ev" "app_ok (full_node_env e) a"
  shows "\<exists>b. full_node_round e ev a = Some b \<and> app_ok (full_node_env e) b"
proof (cases "\<exists>as r. ev = Wakeup as r \<and> running a")
  case True
  then obtain "as" r where ev: "ev = Wakeup as r" "running a" by blast
  obtain n where n: "app_read (full_node_env e) as a = Some (a\<lparr>lib := n\<rparr>)" "solo UNIV (full_node_env e) n"
    using solo_read [of as UNIV "full_node_env e" a] assms ev by (auto simp: polite_event_def app_in_def)
  moreover obtain m where "send_frames (full_node_env e) (tick a + 1) [0..<4] n = Some m"
    "solo UNIV (full_node_env e) m"
    using send_frames_solo [OF n(2)] by blast
  ultimately show ?thesis
    using ev assms(2) by (simp add: full_node_round_def app_in_def Let_def)
qed (use assms in \<open>auto simp: full_node_round_def split: event.split\<close>)

interpretation fn: rounds "full_node_round e" "app_ok (full_node_env e)" for e
  by unfold_locales (rule full_node_round_ok)

lemma full_node_start_ok:
  assumes "\<forall>k. env_malloc e k" "full_node_start e pf args = Some a"
  shows "app_ok (full_node_env e) a"
  using assms(2) launch_solo [OF full_node_modest [OF assms(1)] _ full_node_config_steps]
  by (auto simp: full_node_start_def app_in_def split: option.splits)

end
