(* ===== verification/Full_Controller.thy ===== *)
theory Full_Controller
  imports Node_Manager Full_Node
begin

text \<open>
  The controller with every feature (\<open>examples/full_controller/full_controller.c\<close>): its commands,
  its menu, the flood of frames that one of them starts, and the files it downloads.  The commands
  that call what may wait for a writer of the list have an optional result.
\<close>

unbundle bit_operations_syntax

section \<open>State\<close>

text \<open>A flood under way: the answers of the user, and the number of its round.\<close>

record flood =
  fl_net :: int
  fl_subnet :: int
  fl_universe :: int
  fl_num :: int
  fl_sync :: bool
  fl_tick :: int

record ctl = app +
  flooding :: "flood option"
  dl_buf :: mem
  dl_total :: int
  dl_received :: int

definition dl_size :: int where
  [simp]: "dl_size = ARTNET_FIRMWARE_SIZE * 2 * 16"

section \<open>What arrives\<close>

definition file_fn_reply_handler :: "packet \<Rightarrow> ctl \<Rightarrow> ctl" where
  "file_fn_reply_handler p a =
     (let totalLen = get_short artnet_file_fn_reply_s ''fileLengthHi'' ''fileLengthLo'' p;
          payloadLen = p_length p - (size_of artnet_file_fn_reply_s - ARTNET_FIRMWARE_SIZE * 2);
          off = uint (get8 artnet_file_fn_reply_s ''blockId'' p) * ARTNET_FIRMWARE_SIZE * 2;
          a = (if dl_total a \<noteq> totalLen
               then a\<lparr>dl_total := totalLen, dl_received := 0, dl_buf := zero_mem\<rparr> else a)
      in if 0 < payloadLen \<and> 0 \<le> off \<and> off + payloadLen \<le> dl_size
         then a\<lparr>dl_buf := memcpy (dl_buf a) (nat off) (p_data p)
                            (offset artnet_file_fn_reply_s ''data'') (nat payloadLen),
                dl_received := max (dl_received a) (off + payloadLen)\<rparr>
         else a)"

definition calls_handler :: "node \<Rightarrow> artnet_packet_type \<Rightarrow> artnet_handler_name \<Rightarrow> packet \<Rightarrow> bool" where
  "calls_handler n t h p \<longleftrightarrow>
     packet_is_valid p \<and> type_of_code (p_type p) = Some t \<and> fh (callbacks n (Packet_Cb h)) \<noteq> None"

definition file_replies :: "node \<Rightarrow> packet list \<Rightarrow> ctl \<Rightarrow> ctl" where
  "file_replies n ps a =
     fold file_fn_reply_handler
       (filter (calls_handler n ARTNET_FILEFNREPLY ARTNET_FILE_FN_REPLY_HANDLER) ps) a"

text \<open>The program reads only when its socket has something for it.\<close>

definition fc_read :: "env \<Rightarrow> arrival list \<Rightarrow> ctl \<Rightarrow> ctl option" where
  "fc_read e as a =
     (if as = [] then Some a
      else map_option (file_replies (lib a) (app_heard e as a)) (app_read e as a))"

section \<open>Commands\<close>

definition port_address :: "int \<Rightarrow> int \<Rightarrow> int \<Rightarrow> u16" where
  "port_address net subnet universe =
     word_of_int (push_bit 8 net OR push_bit 4 subnet OR universe)"

definition call_opt ::
    "(node \<Rightarrow> (int \<times> node) option) \<Rightarrow> 'a app_scheme \<Rightarrow> 'a app_scheme option" where
  "call_opt f a = map_option (\<lambda>(ret, n). a\<lparr>lib := n\<rparr>) (f (lib a))"

definition fc_cmd_poll :: "env \<Rightarrow> ctl \<Rightarrow> ctl" where
  "fc_cmd_poll e =
     read_number 16 0 (\<lambda>mode.
       let ttm = (if mode = 1 then ARTNET_TTM_PRIVATE
                  else if mode = 2 then ARTNET_TTM_AUTO else ARTNET_TTM_DEFAULT)
       in call (\<lambda>n. artnet_send_poll e n None ttm))"

definition flag_if :: "int \<Rightarrow> u8 \<Rightarrow> u8" where
  "flag_if x flag = (if x \<noteq> 0 then flag else 0)"

definition fc_cmd_poll_flags :: "env \<Rightarrow> runtime \<Rightarrow> ctl \<Rightarrow> ctl" where
  "fc_cmd_poll_flags e h =
     read_int 1 (\<lambda>reply_on_change. read_int 0 (\<lambda>diag_enable. read_int 0 (\<lambda>diag_unicast.
     read_int 0 (\<lambda>target_mode. read_int 0x40 (\<lambda>diag_priority.
       let flags = flag_if reply_on_change ARTNET_POLL_FLAG_REPLY_ON_CHANGE OR
                   flag_if diag_enable ARTNET_POLL_FLAG_DIAG_ENABLE OR
                   flag_if diag_unicast ARTNET_POLL_FLAG_DIAG_UNICAST OR
                   flag_if target_mode ARTNET_POLL_FLAG_TARGET_MODE;
           poll = (\<lambda>target_top target_bottom. call (\<lambda>n.
                     artnet_send_poll_flags e n None flags (word_of_int diag_priority)
                       (word_of_int target_top) (word_of_int target_bottom) 0x00FF 0xFF00))
       in if target_mode \<noteq> 0
          then read_hex h (\<lambda>target_bottom. read_hex h (\<lambda>target_top. poll target_top target_bottom))
          else poll 0 0)))))"

text \<open>A ramp over an even number of channels.\<close>

definition ramp :: "int \<Rightarrow> mem" where
  "ramp channels =
     (\<lambda>i. if int i < channels then word_of_int (int i * 255 div channels) else 0)"

definition fc_cmd_dmx_send :: "env \<Rightarrow> ctl \<Rightarrow> ctl option" where
  "fc_cmd_dmx_send e =
     read_int 0 (\<lambda>net. read_int 0 (\<lambda>subnet. read_int 0 (\<lambda>universe. read_int 10 (\<lambda>channels.
       let channels = (if channels < 2 then 2 else channels);
           channels = (if ARTNET_DMX_LENGTH < channels then ARTNET_DMX_LENGTH else channels);
           channels = (if odd channels then channels + 1 else channels)
       in call_opt (\<lambda>n. artnet_raw_send_dmx e n (port_address net subnet universe) channels
                          (ramp channels))))))"

definition fc_cmd_dmx_flood :: "ctl \<Rightarrow> ctl" where
  "fc_cmd_dmx_flood a =
     (if flooding a \<noteq> None then a\<lparr>flooding := None\<rparr>
      else
        read_int 0 (\<lambda>net. read_int 0 (\<lambda>subnet. read_int 0 (\<lambda>universe. read_int 1 (\<lambda>num_uni.
        read_int 1 (\<lambda>use_sync a.
          let num_uni = (if num_uni < 1 then 1 else num_uni);
              num_uni = (if ARTNET_MAX_PORTS < num_uni then ARTNET_MAX_PORTS else num_uni)
          in a\<lparr>flooding := Some \<lparr>fl_net = net, fl_subnet = subnet, fl_universe = universe,
                 fl_num = num_uni, fl_sync = (use_sync \<noteq> 0), fl_tick = 0\<rparr>\<rparr>))))) a)"

definition fc_cmd_nzs :: "env \<Rightarrow> ctl \<Rightarrow> ctl option" where
  "fc_cmd_nzs e =
     read_int 0 (\<lambda>uni. read_int 0x91 (\<lambda>sc. read_int 10 (\<lambda>len.
       let len = (if len < 1 then 1 else len);
           len = (if ARTNET_DMX_LENGTH < len then ARTNET_DMX_LENGTH else len)
       in call_opt (\<lambda>n. artnet_send_nzs e n (word_of_int uni) (word_of_int sc) len (\<lambda>_. 0xAA)))))"

definition fc_cmd_sync :: "env \<Rightarrow> ctl \<Rightarrow> ctl" where
  "fc_cmd_sync e = call (artnet_send_sync e)"

definition fc_cmd_address :: "env \<Rightarrow> ctl \<Rightarrow> ctl" where
  "fc_cmd_address e =
     with_node True 16 (\<lambda>t. with_line (ARTNET_SHORT_NAME_LENGTH + 2) (\<lambda>short_buf.
     with_line (ARTNET_LONG_NAME_LENGTH + 2) (\<lambda>long_buf.
       let short_name = strip_newline short_buf; long_name = strip_newline long_buf
       in read_int (-1) (\<lambda>net. read_int (-1) (\<lambda>sub. read_int 0 (\<lambda>cmd_val.
            send_address e t (opt_string short_name) (opt_string long_name)
              (if 0 \<le> net then word_of_int net else 0x7F) (if 0 \<le> sub then word_of_int sub else 0x7F)
              (word_of_int cmd_val)))))))"

text \<open>The port is not checked before it is used as an index of an array of four.\<close>

definition fc_cmd_input :: "env \<Rightarrow> ctl \<Rightarrow> ctl" where
  "fc_cmd_input e =
     with_node True 16 (\<lambda>t. read_int 0 (\<lambda>port. read_int 1 (\<lambda>enable a.
       let zeros = replicate ARTNET_MAX_PORTS 0;
           inside_settings = (0 \<le> port \<and> port < ARTNET_MAX_PORTS);
           settings = (if enable = 0 \<and> inside_settings then zeros[nat port := 0x01] else zeros);
           a = (if enable = 0 \<and> \<not> inside_settings then a\<lparr>stray := True\<rparr> else a)
       in call (\<lambda>n. artnet_send_input e n (Some t) settings) a)))"

definition fc_cmd_tod_request :: "env \<Rightarrow> ctl \<Rightarrow> ctl" where
  "fc_cmd_tod_request e = call (artnet_send_tod_request e)"

definition fc_cmd_tod_control :: "env \<Rightarrow> runtime \<Rightarrow> ctl \<Rightarrow> ctl" where
  "fc_cmd_tod_control e h =
     read_int 0 (\<lambda>action. read_hex h (\<lambda>uni.
       call (\<lambda>n. artnet_send_tod_control e n (word_of_int uni) (word_of_int action))))"

definition fc_cmd_rdm :: "env \<Rightarrow> runtime \<Rightarrow> ctl \<Rightarrow> ctl" where
  "fc_cmd_rdm e h =
     read_hex h (\<lambda>uni. with_line 256 (\<lambda>buf.
       let rdm_data = hex_bytes 256 buf
       in call (\<lambda>n. artnet_send_rdm e n (word_of_int uni) (Some (buffer_of rdm_data))
                      (int (length rdm_data)))))"

text \<open>
  The identifier: two digits for each byte, as long as the buffer holds a character at an even
  place; what is behind its string has not been written.
\<close>

primrec uid_bytes :: "runtime \<Rightarrow> nat \<Rightarrow> string \<Rightarrow> u8 list" where
  "uid_bytes h 0 buf = []"
| "uid_bytes h (Suc k) buf =
     (if first_char buf = CHR 0x00 then replicate (Suc k) 0
      else ucast (case scan_hex (Some 2) (c_string buf) of None \<Rightarrow> uninit h | Some v \<Rightarrow> v) #
             uid_bytes h k (drop 2 buf))"

definition fc_cmd_rdmsub :: "env \<Rightarrow> runtime \<Rightarrow> ctl \<Rightarrow> ctl" where
  "fc_cmd_rdmsub e h =
     with_line 64 (\<lambda>buf.
       let uid = uid_bytes h ARTNET_RDM_UID_WIDTH (buf @ [CHR 0x00] @ stale h)
       in read_hex h (\<lambda>cc. read_hex h (\<lambda>pid. read_int 0 (\<lambda>sub_dev. read_int 1 (\<lambda>sub_count.
            call (\<lambda>n. artnet_send_rdmsub e n (Some uid) (word_of_int cc) (word_of_int pid)
                        (word_of_int sub_dev) (word_of_int sub_count) None 0))))))"

text \<open>Words as the memory of a little-endian host holds them.\<close>

definition words_mem :: "u16 list \<Rightarrow> mem" where
  "words_mem ws = buffer_of (concat (map le16_bytes ws))"

definition fc_cmd_firmware :: "env \<Rightarrow> ctl \<Rightarrow> ctl" where
  "fc_cmd_firmware e =
     with_node True 16 (\<lambda>t. with_line 1024 (\<lambda>buf.
       let data = hex_words 512 buf
       in call (\<lambda>n. artnet_send_firmware e n (Some t) 0 (words_mem data) (int (length data)) None 0)))"

definition fc_cmd_timecode :: "env \<Rightarrow> ctl \<Rightarrow> ctl" where
  "fc_cmd_timecode e =
     read_int 0 (\<lambda>hours. read_int 0 (\<lambda>minutes. read_int 0 (\<lambda>seconds. read_int 0 (\<lambda>frames.
     read_int 0 (\<lambda>type.
       call (\<lambda>n. artnet_send_timecode e n (word_of_int frames) (word_of_int seconds)
                   (word_of_int minutes) (word_of_int hours) (word_of_int type) 0))))))"

definition fc_cmd_timesync :: "env \<Rightarrow> runtime \<Rightarrow> ctl \<Rightarrow> ctl" where
  "fc_cmd_timesync e h =
     (let t = localtime h
      in call (\<lambda>n. artnet_send_timesync e n (word_of_int (tm_sec t)) (word_of_int (tm_min t))
                     (word_of_int (tm_hour t)) (word_of_int (tm_mday t)) (word_of_int (tm_mon t))
                     (word_of_int (tm_year t))))"

definition fc_cmd_trigger :: "env \<Rightarrow> ctl \<Rightarrow> ctl" where
  "fc_cmd_trigger e =
     read_int 1 (\<lambda>key. read_int 0 (\<lambda>sub_key.
       call (\<lambda>n. artnet_send_trigger e n 0xFF 0xFF (word_of_int key) (word_of_int sub_key) None 0)))"

definition fc_cmd_diag_send :: "env \<Rightarrow> ctl \<Rightarrow> ctl" where
  "fc_cmd_diag_send e =
     read_int 0x40 (\<lambda>pri. with_line 256 (\<lambda>txt.
       call (\<lambda>n. artnet_send_diagnostic e n (word_of_int pri) 0 (Some (strip_newline txt)))))"

definition fc_cmd_file_upload :: "env \<Rightarrow> ctl \<Rightarrow> ctl" where
  "fc_cmd_file_upload e =
     with_node True 16 (\<lambda>t. with_line 1024 (\<lambda>buf.
       let data = hex_words 512 buf
       in call (\<lambda>n. artnet_send_file_tn_master e n (Some t) 0x00 0 (of_nat (length data * 2))
                      (Some (words_mem data)) (int (length data)))))"

definition fc_cmd_file_download :: "env \<Rightarrow> ctl \<Rightarrow> ctl" where
  "fc_cmd_file_download e =
     with_node True 16 (\<lambda>t. with_line 256 (\<lambda>buf.
       let fname = cut_newline buf
       in if fname = [] then id
          else call (\<lambda>n. artnet_send_file_fn_master e n (Some t) (Some fname))))"

definition fc_cmd_directory :: "env \<Rightarrow> ctl \<Rightarrow> ctl" where
  "fc_cmd_directory e = call (artnet_send_directory e)"

definition fc_cmd_data_request :: "env \<Rightarrow> ctl \<Rightarrow> ctl" where
  "fc_cmd_data_request e =
     with_line 64 (\<lambda>buf.
       let ip = strip_newline buf
       in if ip = [] then id
          else read_int 0 (\<lambda>code. call (\<lambda>n. artnet_send_data_request e n (Some ip) (word_of_int code))))"

definition fc_cmd_ipprog :: "env \<Rightarrow> ctl \<Rightarrow> ctl" where
  "fc_cmd_ipprog e =
     with_node True 16 (\<lambda>t. with_line 64 (\<lambda>ip_buf. with_line 64 (\<lambda>mask_buf. with_line 64 (\<lambda>gw_buf.
       let ip = strip_newline ip_buf; msk = strip_newline mask_buf; gw = strip_newline gw_buf
       in call (\<lambda>n. artnet_send_ipprog e n (Some t) (ipprog_command ip msk gw) (opt_string ip)
                      (opt_string msk) (opt_string gw))))))"

definition fc_cmd_command_send :: "env \<Rightarrow> runtime \<Rightarrow> ctl \<Rightarrow> ctl" where
  "fc_cmd_command_send e h =
     with_line 64 (\<lambda>ip_buf.
       let ip = strip_newline ip_buf
       in read_hex h (\<lambda>esta. with_line ARTNET_DMX_LENGTH (\<lambda>buf.
            let esta = (if esta = 0 then 0xFFFF else esta); txt = strip_newline buf
            in call (\<lambda>n. artnet_send_command e n (word_of_int esta)
                           (Some (buffer_of (bytes_of txt @ [0]))) (int (length txt) + 1)
                           (opt_string ip)))))"

text \<open>The payloads 1, 2, ... and A0, A1, ... of at most 16 bytes.\<close>

definition fc_cmd_media_patch :: "env \<Rightarrow> runtime \<Rightarrow> ctl \<Rightarrow> ctl" where
  "fc_cmd_media_patch e h =
     with_node True 16 (\<lambda>t. read_int 0 (\<lambda>physical. read_hex h (\<lambda>universe. read_int 4 (\<lambda>len.
       let len = (if len < 1 then 1 else len);
           len = (if 16 < len then 16 else len)
       in call (\<lambda>n. artnet_send_media_patch e n (Some t) (word_of_int physical) (word_of_int universe)
                      (Some (buffer_of (map (\<lambda>i. of_nat (i + 1)) [0..<nat len]))) len)))))"

definition fc_cmd_media_control :: "env \<Rightarrow> bool \<Rightarrow> ctl \<Rightarrow> ctl" where
  "fc_cmd_media_control e reply =
     with_node True 16 (\<lambda>t. read_int 4 (\<lambda>len.
       let len = (if len < 0 then 0 else len);
           len = (if 16 < len then 16 else len);
           data = buffer_of (map (\<lambda>i. of_nat (0xA0 + i)) [0..<nat len])
       in if reply then call (\<lambda>n. artnet_send_media_control_reply e n (Some t) (Some data) len)
          else call (\<lambda>n. artnet_send_media_control e n (Some t) (Some data) len)))"

definition fc_cmd_short_name :: "env \<Rightarrow> ctl \<Rightarrow> ctl" where
  "fc_cmd_short_name e =
     with_node True 16 (\<lambda>t. with_line (ARTNET_SHORT_NAME_LENGTH + 2) (\<lambda>buf.
       let name = strip_newline buf
       in if name = [] then id
          else send_address e t (Some name) None 0x7F 0x7F (port_command_code ARTNET_PC_NONE)))"

definition fc_cmd_long_name :: "env \<Rightarrow> ctl \<Rightarrow> ctl" where
  "fc_cmd_long_name e =
     with_node True 16 (\<lambda>t. with_line (ARTNET_LONG_NAME_LENGTH + 2) (\<lambda>buf.
       let name = strip_newline buf
       in if name = [] then id
          else send_address e t None (Some name) 0x7F 0x7F (port_command_code ARTNET_PC_NONE)))"

definition fc_cmd_led :: "env \<Rightarrow> artnet_port_command \<Rightarrow> ctl \<Rightarrow> ctl" where
  "fc_cmd_led e cmd =
     with_node True 16 (\<lambda>t. send_address e t None None 0x7F 0x7F (port_command_code cmd))"

definition fc_cmd_failsafe :: "env \<Rightarrow> artnet_port_command \<Rightarrow> ctl \<Rightarrow> ctl" where
  "fc_cmd_failsafe e cmd =
     with_node True 16 (\<lambda>t. send_address e t None None 0x7F 0x7F (port_command_code cmd))"

definition fc_cmd_merge_mode :: "env \<Rightarrow> runtime \<Rightarrow> ctl \<Rightarrow> ctl" where
  "fc_cmd_merge_mode e h =
     with_node True 16 (\<lambda>t. read_hex h (\<lambda>val.
       send_address e t None None 0x7F 0x7F (word_of_int val)))"

definition fc_cmd_net_addr :: "env \<Rightarrow> ctl \<Rightarrow> ctl" where
  "fc_cmd_net_addr e =
     with_node True 16 (\<lambda>t. read_int 0 (\<lambda>val.
       if val < 0 \<or> 127 < val then id
       else send_address e t None None (word_of_int val) 0x7F (port_command_code ARTNET_PC_NONE)))"

definition fc_cmd_subnet_addr :: "env \<Rightarrow> ctl \<Rightarrow> ctl" where
  "fc_cmd_subnet_addr e =
     with_node True 16 (\<lambda>t. read_int 0 (\<lambda>val.
       if val < 0 \<or> 15 < val then id
       else send_address e t None None 0x7F (word_of_int val) (port_command_code ARTNET_PC_NONE)))"

section \<open>The menu\<close>

definition fc_command :: "env \<Rightarrow> runtime \<Rightarrow> char \<Rightarrow> ctl \<Rightarrow> ctl option" where
  "fc_command e h c =
     (if c = CHR ''d'' then fc_cmd_dmx_send e
      else if c = CHR ''z'' then fc_cmd_nzs e
      else
        (\<lambda>a. Some
          ((if c = CHR ''p'' then fc_cmd_poll e
            else if c = CHR ''P'' then fc_cmd_poll_flags e h
            else if c = CHR ''l'' then print_discovered
            else if c = CHR ''D'' then fc_cmd_dmx_flood
            else if c = CHR ''s'' then fc_cmd_sync e
            else if c = CHR ''1'' then fc_cmd_short_name e
            else if c = CHR ''2'' then fc_cmd_long_name e
            else if c = CHR ''3'' then fc_cmd_net_addr e
            else if c = CHR ''4'' then fc_cmd_subnet_addr e
            else if c = CHR ''5'' then fc_cmd_merge_mode e h
            else if c = CHR ''6'' then fc_cmd_input e
            else if c = CHR ''7'' then fc_cmd_address e
            else if c = CHR ''8'' then fc_cmd_led e ARTNET_PC_LED_LOCATE
            else if c = CHR ''9'' then fc_cmd_led e ARTNET_PC_LED_MUTE
            else if c = CHR ''0'' then fc_cmd_led e ARTNET_PC_LED_NORMAL
            else if c = CHR ''f'' then fc_cmd_failsafe e ARTNET_PC_FAIL_HOLD
            else if c = CHR ''g'' then fc_cmd_failsafe e ARTNET_PC_FAIL_ZERO
            else if c = CHR ''h'' then fc_cmd_failsafe e ARTNET_PC_FAIL_FULL
            else if c = CHR ''j'' then fc_cmd_failsafe e ARTNET_PC_FAIL_SCENE
            else if c = CHR ''t'' then fc_cmd_tod_request e
            else if c = CHR ''T'' then fc_cmd_tod_control e h
            else if c = CHR ''r'' then fc_cmd_rdm e h
            else if c = CHR ''R'' then fc_cmd_rdmsub e h
            else if c = CHR ''c'' then fc_cmd_timecode e
            else if c = CHR ''y'' then fc_cmd_timesync e h
            else if c = CHR ''k'' then fc_cmd_trigger e
            else if c = CHR ''w'' then fc_cmd_firmware e
            else if c = CHR ''u'' then fc_cmd_file_upload e
            else if c = CHR ''v'' then fc_cmd_file_download e
            else if c = CHR ''x'' then fc_cmd_directory e
            else if c = CHR ''a'' then fc_cmd_diag_send e
            else if c = CHR ''b'' then fc_cmd_data_request e
            else if c = CHR ''i'' then fc_cmd_ipprog e
            else if c = CHR ''m'' then fc_cmd_command_send e h
            else if c = CHR ''M'' then fc_cmd_media_patch e h
            else if c = CHR ''C'' then fc_cmd_media_control e False
            else if c = CHR ''V'' then fc_cmd_media_control e True
            else if c = CHR ''q'' then (\<lambda>a. a\<lparr>running := False\<rparr>)
            else id) a)))"

section \<open>The flood\<close>

text \<open>
  The levels are those of a sine, which the model leaves open (\<open>wave\<close>): those of the \<open>i\<close>-th
  universe in the round \<open>t\<close>.
\<close>

primrec flood_universes :: "env \<Rightarrow> (int \<Rightarrow> nat \<Rightarrow> mem) \<Rightarrow> flood \<Rightarrow> nat list \<Rightarrow> ctl \<Rightarrow> ctl option" where
  "flood_universes e wave f [] a = Some a"
| "flood_universes e wave f (i # is) a =
     Option.bind
       (call_opt (\<lambda>n. artnet_raw_send_dmx e n
          (port_address (fl_net f) (fl_subnet f) (fl_universe f + int i)) ARTNET_DMX_LENGTH
          (wave (fl_tick f) i)) a)
       (flood_universes e wave f is)"

definition flood_round ::
    "env \<Rightarrow> (int \<Rightarrow> nat \<Rightarrow> mem) \<Rightarrow> flood \<Rightarrow> arrival list \<Rightarrow> bool \<Rightarrow> ctl \<Rightarrow> ctl option" where
  "flood_round e wave f as ready a =
     Option.bind (fc_read e as a) (\<lambda>a.
       let (stop, a) =
             (if ready
              then (case fgets 16 (stdin a) of
                      None \<Rightarrow> (False, a)
                    | Some (cmd, rest) \<Rightarrow>
                        (first_char cmd = CHR ''d'' \<or> first_char cmd = CHR ''q'', a\<lparr>stdin := rest\<rparr>))
              else (False, a))
       in if stop then Some (a\<lparr>flooding := None\<rparr>)
          else
            (let f = f\<lparr>fl_tick := fl_tick f + 1\<rparr>
             in map_option (\<lambda>a. (if fl_sync f then call (artnet_send_sync e) else id) (a\<lparr>flooding := Some f\<rparr>))
                  (flood_universes e wave f [0..<nat (fl_num f)] a)))"

section \<open>The start and the main loop\<close>

definition ctl_handlers :: "artnet_handler_name list" where
  "ctl_handlers =
     [ARTNET_REPLY_HANDLER, ARTNET_TOD_DATA_HANDLER, ARTNET_RDM_HANDLER, ARTNET_RDMSUB_HANDLER,
      ARTNET_DIAGDATA_HANDLER, ARTNET_FIRMWARE_REPLY_HANDLER, ARTNET_FILE_FN_REPLY_HANDLER,
      ARTNET_DIRECTORY_REPLY_HANDLER, ARTNET_DATAREPLY_HANDLER, ARTNET_SYNC_HANDLER,
      ARTNET_TIMECODE_HANDLER, ARTNET_TIMESYNC_HANDLER, ARTNET_IPPROG_HANDLER,
      ARTNET_COMMAND_HANDLER, ARTNET_MEDIA_HANDLER, ARTNET_MEDIAPATCH_HANDLER,
      ARTNET_MEDIACONTROL_HANDLER, ARTNET_MEDIACONTROL_REPLY_HANDLER]"

definition fc_config :: "env \<Rightarrow> (node \<Rightarrow> int \<times> node) list" where
  "fc_config e =
     identify ARTNET_SRV ARTNET_ST_CONTROLLER ''FullCtrl'' ''libartnet Art-Net 4 Full Controller'' @
     [\<lambda>n. artnet_setoem n 0xFF 0x00, \<lambda>n. artnet_setesta n 0x00 0xFF] @
     concat (map (port_config e 0) [0..<4]) @
     map (\<lambda>h n. artnet_set_handler n (Some h) (Some print_fn) 0) ctl_handlers"

definition fc_start :: "env \<Rightarrow> platform \<Rightarrow> string list \<Rightarrow> string \<Rightarrow> ctl option" where
  "fc_start e pf args input =
     map_option (\<lambda>a. app.extend a (ctl.fields None zero_mem (- 1) 0))
       (controller_start e pf args (fc_config e) input)"

definition fc_round :: "env \<Rightarrow> runtime \<Rightarrow> (int \<Rightarrow> nat \<Rightarrow> mem) \<Rightarrow> event \<Rightarrow> ctl \<Rightarrow> ctl option" where
  "fc_round e h wave ev a =
     (case ev of
        Signal \<Rightarrow> Some (a\<lparr>running := False\<rparr>)
      | Wakeup as ready \<Rightarrow>
          if \<not> running a then Some a
          else
            (case flooding a of
               Some f \<Rightarrow> flood_round e wave f as ready a
             | None \<Rightarrow>
                 Option.bind (fc_read e as a) (\<lambda>a.
                   if \<not> ready then Some a
                   else
                     (case fgets 256 (stdin a) of
                        None \<Rightarrow> Some (a\<lparr>running := False\<rparr>)
                      | Some (cmd, rest) \<Rightarrow> fc_command e h (first_char cmd) (a\<lparr>stdin := rest\<rparr>)))))"

section \<open>Sends that return\<close>

lemma send_to_universe_returns:
  "node_ok n \<Longrightarrow> \<exists>r m. send_to_universe e n uni p = Some (r, m)"
  by (cases "env_malloc e (mallocs n)")
     (auto simp: send_to_universe_def Let_def case_prod_beta find_nodes_from_uni_even node_ok_even
       split: prod.split)

lemma raw_send_dmx_returns: "node_ok n \<Longrightarrow> \<exists>r m. artnet_raw_send_dmx e n uni len d = Some (r, m)"
  using send_to_universe_returns by (auto simp: artnet_raw_send_dmx_def Let_def)

lemma tx_nzs_returns:
  assumes "node_ok n"
  shows "\<exists>r m. artnet_tx_nzs e n i sc len d = Some (r, m)"
proof -
  have "node_ok (upd_in (nat i) (\<lambda>p. p\<lparr>port_status := port_status p OR PORT_STATUS_ACT_MASK\<rparr>) n)"
    using assms by (intro node_ok_step_in) (simp_all add: in_ok_def)
  then have "\<forall>u p. \<exists>x. send_to_universe e
      (upd_in (nat i) (\<lambda>p. p\<lparr>port_status := port_status p OR PORT_STATUS_ACT_MASK\<rparr>) n) u p = Some x"
    using send_to_universe_returns by blast
  then obtain R where "send_to_universe e
      (upd_in (nat i) (\<lambda>p. p\<lparr>port_status := port_status p OR PORT_STATUS_ACT_MASK\<rparr>) n) u p = Some (R u p)"
    for u p by metis
  then show ?thesis by (simp add: artnet_tx_nzs_def Let_def case_prod_beta)
qed

lemma send_nzs_returns: "node_ok n \<Longrightarrow> \<exists>r m. artnet_send_nzs e n uni sc len d = Some (r, m)"
  using send_to_universe_returns tx_nzs_returns
  by (auto simp: artnet_send_nzs_def Let_def split: option.split)

text \<open>The rule for a call with an optional result.\<close>

definition returns_in :: "bool \<times> artnet_node_type set \<Rightarrow> env \<Rightarrow> 'a app_scheme option \<Rightarrow> bool" where
  "returns_in s e r \<longleftrightarrow> (\<exists>b. r = Some b \<and> app_in s e b)"

lemma returns_Some [simp]: "returns_in s e (Some b) = app_in s e b"
  by (simp add: returns_in_def)

lemma safe_call_opt:
  assumes "app_in s e a" "\<exists>r m. f (lib a) = Some (r, m)"
    and "\<And>r m. f (lib a) = Some (r, m) \<Longrightarrow> live_step e (lib a) m"
  shows "returns_in s e (call_opt f a)"
  using assms solo_step by (fastforce simp: app_in_def call_opt_def returns_in_def)

lemma app_in_node_ok: "app_in s e a \<Longrightarrow> node_ok (lib a)"
  using solo_modest by (auto simp: app_in_def fits_def)

lemma safe_raw_dmx:
  "app_in s e a \<Longrightarrow> returns_in s e (call_opt (\<lambda>n. artnet_raw_send_dmx e n uni len d) a)"
  by (rule safe_call_opt) (auto intro: raw_send_dmx_returns app_in_node_ok sends_raw_dmx)

lemma safe_nzs:
  "app_in s e a \<Longrightarrow> returns_in s e (call_opt (\<lambda>n. artnet_send_nzs e n uni sc len d) a)"
  by (rule safe_call_opt) (auto intro: send_nzs_returns app_in_node_ok sends_nzs)

lemma safe_number_opt:
  assumes "\<And>x rest. returns_in s e (f x (a\<lparr>stdin := rest\<rparr>))" "\<And>x. returns_in s e (f x a)"
  shows "returns_in s e (read_number cap d f a)"
  using assms by (auto simp: read_number_def split: option.split)

section \<open>The commands\<close>

lemma app_in_ctl [simp]:
  "app_in s e (a\<lparr>flooding := f\<rparr>) = app_in s e a" "app_in s e (a\<lparr>dl_buf := m\<rparr>) = app_in s e a"
  "app_in s e (a\<lparr>dl_total := t\<rparr>) = app_in s e a" "app_in s e (a\<lparr>dl_received := t\<rparr>) = app_in s e a"
  by (simp_all add: app_in_def)

lemma fc_commands_ok:
  assumes "app_in s e a"
  shows "app_in s e (fc_cmd_poll e a)" "app_in s e (fc_cmd_poll_flags e h a)"
    "app_in s e (fc_cmd_dmx_flood a)" "app_in s e (fc_cmd_sync e a)" "app_in s e (fc_cmd_address e a)"
    "app_in s e (fc_cmd_tod_request e a)" "app_in s e (fc_cmd_tod_control e h a)"
    "app_in s e (fc_cmd_rdm e h a)" "app_in s e (fc_cmd_rdmsub e h a)"
    "app_in s e (fc_cmd_timecode e a)" "app_in s e (fc_cmd_timesync e h a)"
    "app_in s e (fc_cmd_trigger e a)" "app_in s e (fc_cmd_diag_send e a)"
    "app_in s e (fc_cmd_file_upload e a)" "app_in s e (fc_cmd_file_download e a)"
    "app_in s e (fc_cmd_directory e a)" "app_in s e (fc_cmd_data_request e a)"
    "app_in s e (fc_cmd_ipprog e a)" "app_in s e (fc_cmd_command_send e h a)"
    "app_in s e (fc_cmd_media_patch e h a)" "app_in s e (fc_cmd_media_control e r a)"
    "app_in s e (fc_cmd_short_name e a)" "app_in s e (fc_cmd_long_name e a)"
    "app_in s e (fc_cmd_led e cmd a)" "app_in s e (fc_cmd_failsafe e cmd a)"
    "app_in s e (fc_cmd_merge_mode e h a)" "app_in s e (fc_cmd_net_addr e a)"
    "app_in s e (fc_cmd_subnet_addr e a)"
  unfolding fc_cmd_poll_def fc_cmd_poll_flags_def fc_cmd_dmx_flood_def fc_cmd_sync_def
    fc_cmd_address_def fc_cmd_tod_request_def fc_cmd_tod_control_def fc_cmd_rdm_def
    fc_cmd_rdmsub_def fc_cmd_timecode_def fc_cmd_timesync_def fc_cmd_trigger_def
    fc_cmd_diag_send_def fc_cmd_file_upload_def fc_cmd_file_download_def fc_cmd_directory_def
    fc_cmd_data_request_def fc_cmd_ipprog_def fc_cmd_command_send_def fc_cmd_media_patch_def
    fc_cmd_media_control_def fc_cmd_short_name_def fc_cmd_long_name_def fc_cmd_led_def
    fc_cmd_failsafe_def fc_cmd_merge_mode_def fc_cmd_net_addr_def fc_cmd_subnet_addr_def Let_def
  by (rule safe assms live_step.intros | assumption | simp add: assms)+

lemma fc_firmware_ok:
  assumes "app_in s e a"
  shows "app_in s e (fc_cmd_firmware e a)"
proof -
  have len: "int (length (hex_words 512 buf)) < 2 ^ 30" for buf
    using length_hex_words [of 512 buf] by simp
  show ?thesis
    unfolding fc_cmd_firmware_def Let_def
    by (rule safe assms sends_firmware len | assumption | simp add: assms)+
qed

lemma fc_input_ok:
  assumes "app_in s e a" "fst s"
  shows "app_in s e (fc_cmd_input e a)"
proof -
  have may: "app_in s e b \<Longrightarrow> app_in s e (b\<lparr>stray := True\<rparr>)" for b :: ctl
    using assms(2) by (simp add: app_in_def)
  show ?thesis
    unfolding fc_cmd_input_def Let_def
    by (rule safe assms live_step.intros | assumption | simp add: assms may)+
qed

section \<open>The rounds\<close>

lemma fc_command_ok:
  assumes "app_in s e a" "c = CHR ''6'' \<longrightarrow> fst s"
  shows "returns_in s e (fc_command e h c a)"
proof -
  have six: "app_in s e (fc_cmd_input e a)" if "c = CHR ''6''"
    using that assms fc_input_ok [of s e a] by simp
  have dmx: "returns_in s e (fc_cmd_dmx_send e a)"
    unfolding fc_cmd_dmx_send_def Let_def using assms(1)
    by (intro safe_number_opt safe_raw_dmx) simp_all
  have nzs: "returns_in s e (fc_cmd_nzs e a)"
    unfolding fc_cmd_nzs_def Let_def using assms(1) by (intro safe_number_opt safe_nzs) simp_all
  show ?thesis
    using six dmx nzs assms(1)
    by (simp add: fc_command_def fc_commands_ok fc_firmware_ok print_discovered_safe)
qed

lemma file_reply_keeps [simp]:
  "lib (file_fn_reply_handler p a) = lib a" "stdin (file_fn_reply_handler p a) = stdin a"
  "stray (file_fn_reply_handler p a) = stray a" "running (file_fn_reply_handler p a) = running a"
  "flooding (file_fn_reply_handler p a) = flooding a"
  by (simp_all add: file_fn_reply_handler_def Let_def)

lemma file_replies_keep [simp]:
  "lib (file_replies n ps a) = lib a" "stdin (file_replies n ps a) = stdin a"
  "stray (file_replies n ps a) = stray a" "running (file_replies n ps a) = running a"
  "flooding (file_replies n ps a) = flooding a"
proof -
  have "lib (fold file_fn_reply_handler qs a) = lib a \<and> stdin (fold file_fn_reply_handler qs a) = stdin a \<and>
      stray (fold file_fn_reply_handler qs a) = stray a \<and>
      running (fold file_fn_reply_handler qs a) = running a \<and>
      flooding (fold file_fn_reply_handler qs a) = flooding a" for qs
    by (induction qs arbitrary: a) simp_all
  then show "lib (file_replies n ps a) = lib a" "stdin (file_replies n ps a) = stdin a"
    "stray (file_replies n ps a) = stray a" "running (file_replies n ps a) = running a"
    "flooding (file_replies n ps a) = flooding a"
    by (simp_all add: file_replies_def)
qed

lemma fc_read_ok:
  assumes "list_all polite_arrival as" "app_in s e a"
  shows "\<exists>b. fc_read e as a = Some b \<and> app_in s e b \<and> stdin b = stdin a \<and> stray b = stray a \<and>
    flooding b = flooding a"
proof (cases "as = []")
  case False
  have "solo (snd s) e (lib a)" using assms(2) by (simp add: app_in_def)
  then obtain n where "app_read e as a = Some (a\<lparr>lib := n\<rparr>)" "solo (snd s) e n"
    using solo_read [of as "snd s" e a] assms(1) by blast
  with False assms(2) show ?thesis by (simp add: fc_read_def app_in_def)
qed (simp add: fc_read_def assms)

lemma flood_universes_ok:
  assumes "app_in s e a"
  shows "returns_in s e (flood_universes e wave f is a)"
  using assms
proof (induction "is" arbitrary: a)
  case (Cons i "is")
  obtain b where "call_opt (\<lambda>n. artnet_raw_send_dmx e n
      (port_address (fl_net f) (fl_subnet f) (fl_universe f + int i)) ARTNET_DMX_LENGTH
      (wave (fl_tick f) i)) a = Some b" "app_in s e b"
    using safe_raw_dmx [OF Cons.prems] unfolding returns_in_def by blast
  with Cons.IH [of b] show ?case by simp
qed simp

lemma flood_round_ok:
  assumes "list_all polite_arrival as" "app_in s e a"
  shows "returns_in s e (flood_round e wave f as ready a)"
proof -
  obtain b where b: "fc_read e as a = Some b" "app_in s e b" using fc_read_ok [OF assms] by blast
  have on: "returns_in s e (map_option
      (\<lambda>a. (if sync then call (artnet_send_sync e) else id) (a\<lparr>flooding := Some g\<rparr>))
      (flood_universes e wave g is c))" if c: "app_in s e c" for g "is" c sync
  proof -
    obtain d where "flood_universes e wave g is c = Some d" "app_in s e d"
      using flood_universes_ok [OF c] unfolding returns_in_def by blast
    moreover have "app_in s e (call (artnet_send_sync e) (d\<lparr>flooding := Some g\<rparr>))"
      using \<open>app_in s e d\<close> by (intro safe_call) (simp_all add: sends_sync)
    ultimately show ?thesis by simp
  qed
  show ?thesis
  proof (cases "ready \<and> fgets 16 (stdin b) \<noteq> None")
    case True
    then obtain cmd rest where "fgets 16 (stdin b) = Some (cmd, rest)" by auto
    with True b on [of "b\<lparr>stdin := rest\<rparr>"] show ?thesis by (simp add: flood_round_def Let_def)
  next
    case False
    with b on [OF b(2)] show ?thesis by (auto simp: flood_round_def Let_def split: option.split)
  qed
qed

text \<open>Whether the round runs command 6.\<close>

definition runs_6 :: "event \<Rightarrow> ctl \<Rightarrow> bool" where
  "runs_6 ev a \<longleftrightarrow>
     (\<exists>as buf rest. ev = Wakeup as True \<and> flooding a = None \<and>
        fgets 256 (stdin a) = Some (buf, rest) \<and> first_char buf = CHR ''6'')"

lemma fc_round_ok:
  assumes "polite_event ev" "app_in s e a" "runs_6 ev a \<longrightarrow> fst s"
  shows "returns_in s e (fc_round e h wave ev a)"
proof (cases "\<exists>as r. ev = Wakeup as r \<and> running a")
  case True
  then obtain "as" ready where ev: "ev = Wakeup as ready" "running a" by blast
  with assms(1) have as: "list_all polite_arrival as" by (simp add: polite_event_def)
  obtain b where b: "fc_read e as a = Some b" "app_in s e b" "stdin b = stdin a" "flooding b = flooding a"
    using fc_read_ok [OF as assms(2)] by blast
  show ?thesis
  proof (cases "flooding a")
    case None
    show ?thesis
    proof (cases "ready \<and> fgets 256 (stdin a) \<noteq> None")
      case True
      then obtain cmd rest where "fgets 256 (stdin a) = Some (cmd, rest)" by auto
      moreover from this True ev None assms(3) have "first_char cmd = CHR ''6'' \<longrightarrow> fst s"
        unfolding runs_6_def by blast
      ultimately show ?thesis
        using True ev b None fc_command_ok [of s e "b\<lparr>stdin := rest\<rparr>" "first_char cmd" h]
        by (simp add: fc_round_def)
    next
      case False
      with ev b None show ?thesis by (auto simp: fc_round_def split: option.split)
    qed
  next
    case (Some f)
    with flood_round_ok [OF as assms(2), of wave f ready] ev show ?thesis by (simp add: fc_round_def)
  qed
qed (use assms in \<open>auto simp: fc_round_def split: event.split\<close>)

interpretation fc: rounds "fc_round e h wave" "app_in (True, ts) e" for e h wave ts
  by unfold_locales (use fc_round_ok in \<open>fastforce simp: returns_in_def\<close>)

lemma fc_config_steps: "list_all (\<lambda>f. \<forall>m. node_step e m (snd (f m))) (fc_config e)"
  by (auto simp: fc_config_def list_all_iff identify_def port_config_def Let_def
      intro: any_step)

lemma fc_start_ok: "modest e \<Longrightarrow> fc_start e pf args input = Some a \<Longrightarrow> app_ok e a"
  using controller_start_ok [OF _ _ fc_config_steps]
  by (fastforce simp: fc_start_def app_in_def app.defs)

section \<open>Downloads stay inside their buffer\<close>

definition dl_ok :: "ctl \<Rightarrow> bool" where
  "dl_ok a \<longleftrightarrow> 0 \<le> dl_received a \<and> dl_received a \<le> dl_size"

lemma file_reply_dl_ok: "dl_ok a \<Longrightarrow> dl_ok (file_fn_reply_handler p a)"
  by (auto simp: file_fn_reply_handler_def dl_ok_def Let_def)

end
