(* ===== verification/Tools.thy ===== *)
theory Tools
  imports Full_Controller
begin

text \<open>
  Three small interactive controllers: the file transfer tool (\<open>examples/file_transfer\<close>), the RDM
  controller (\<open>examples/rdm_controller\<close>) and the directory query (\<open>examples/directory_query\<close>).
  Each has its commands, its set-up, its start and its loop; the callbacks only print, and what they
  read of a packet to print it is a function of the packet.
\<close>

section \<open>Programs whose callbacks print\<close>

text \<open>The text of an array of characters, printed with a precision: up to its first zero.\<close>

definition text_at :: "layout \<Rightarrow> string \<Rightarrow> int \<Rightarrow> packet \<Rightarrow> u8 list" where
  "text_at L f len p = takeWhile (\<lambda>c. c \<noteq> 0) (get_n L f (nat len) p)"

lemma printing_modest: "\<forall>k. env_malloc e k \<Longrightarrow> modest (printing e)"
  by (simp add: modest_def only_sends_safe observer_only_sends) (simp add: printing_def)

section \<open>The file transfer tool\<close>

definition fn_reply_shown :: "packet \<Rightarrow> int \<times> int \<times> u8 list" where
  "fn_reply_shown p =
     (let totalLen = get_short artnet_file_fn_reply_s ''fileLengthHi'' ''fileLengthLo'' p;
          blockId = uint (get8 artnet_file_fn_reply_s ''blockId'' p)
      in (blockId, totalLen, get_n artnet_file_fn_reply_s ''data'' 32 p))"

definition ft_cmd_upload :: "env \<Rightarrow> app \<Rightarrow> app" where
  "ft_cmd_upload e =
     with_node False 16 (\<lambda>t. with_line 1024 (\<lambda>buf.
       let data = hex_words 512 buf
       in call (\<lambda>n. artnet_send_file_tn_master e n (Some t) 0x00 0 (of_nat (length data * 2))
                      (Some (words_mem data)) (int (length data)))))"

definition ft_cmd_download :: "env \<Rightarrow> app \<Rightarrow> app" where
  "ft_cmd_download e =
     with_node False 16 (\<lambda>t. with_line 256 (\<lambda>buf.
       let fname = cut_newline buf
       in if fname = [] then id
          else call (\<lambda>n. artnet_send_file_fn_master e n (Some t) (Some fname))))"

definition ft_command :: "env \<Rightarrow> char \<Rightarrow> app \<Rightarrow> app" where
  "ft_command e c =
     (if c = CHR ''p'' then call (\<lambda>n. artnet_send_poll e n None ARTNET_TTM_AUTO)
      else if c = CHR ''l'' then show_nodes False
      else if c = CHR ''u'' then ft_cmd_upload e
      else if c = CHR ''d'' then ft_cmd_download e
      else if c = CHR ''q'' then (\<lambda>a. a\<lparr>running := False\<rparr>)
      else id)"

definition ft_config :: "(node \<Rightarrow> int \<times> node) list" where
  "ft_config =
     identify ARTNET_SRV ARTNET_ST_CONTROLLER ''FileTransfer'' ''libartnet Art-Net 4 File Transfer'' @
     [\<lambda>n. artnet_set_handler n (Some ARTNET_FILE_FN_REPLY_HANDLER) (Some print_fn) 0]"

definition ft_start :: "env \<Rightarrow> platform \<Rightarrow> string list \<Rightarrow> string \<Rightarrow> app option" where
  "ft_start e pf args input = controller_start (printing e) pf args ft_config input"

definition ft_round :: "env \<Rightarrow> event \<Rightarrow> app \<Rightarrow> app option" where
  "ft_round e = command_loop (printing e) 256 (ft_command (printing e))"

section \<open>The RDM controller\<close>

text \<open>At most 32 identifiers of the page are shown.\<close>

definition tod_data_shown :: "packet \<Rightarrow> u8 \<times> u8 \<times> u8 \<times> u8 list list" where
  "tod_data_shown p =
     (let uidCount = get8 artnet_toddata_s ''uidCount'' p;
          count = (if 32 < uidCount then 32 else unat uidCount)
      in (get8 artnet_toddata_s ''net'' p, get8 artnet_toddata_s ''address'' p, uidCount,
          map (\<lambda>i. get_bytes (p_data p) (offset artnet_toddata_s ''tod'' + i * ARTNET_RDM_UID_WIDTH)
                     ARTNET_RDM_UID_WIDTH) [0..<count]))"

definition rdm_shown :: "packet \<Rightarrow> u8 \<times> u8 \<times> u8 list" where
  "rdm_shown p =
     (get8 artnet_rdm_s ''net'' p, get8 artnet_rdm_s ''address'' p, get_n artnet_rdm_s ''data'' 32 p)"

definition rdmsub_shown :: "packet \<Rightarrow> u8 list \<times> u8 \<times> int \<times> int \<times> u8 list" where
  "rdmsub_shown p =
     (let param_id = get_short artnet_rdm_sub_s ''paramIdHi'' ''paramId'' p;
          sub_count = get_short artnet_rdm_sub_s ''subCountHi'' ''subCount'' p
      in (get_n artnet_rdm_sub_s ''uid'' 6 p, get8 artnet_rdm_sub_s ''commandClass'' p, param_id,
          sub_count, get_n artnet_rdm_sub_s ''data'' 32 p))"

definition rc_cmd_rdm :: "env \<Rightarrow> runtime \<Rightarrow> app \<Rightarrow> app" where
  "rc_cmd_rdm e h =
     with_line 16 (\<lambda>buf_uni.
       let uni = (case scan_hex None buf_uni of None \<Rightarrow> uninit h | Some v \<Rightarrow> v)
       in with_line 256 (\<lambda>buf_data.
            let rdm_data = hex_bytes 256 buf_data
            in call (\<lambda>n. artnet_send_rdm e n (ucast uni) (Some (buffer_of rdm_data))
                           (int (length rdm_data)))))"

definition rc_command :: "env \<Rightarrow> runtime \<Rightarrow> char \<Rightarrow> app \<Rightarrow> app" where
  "rc_command e h c =
     (if c = CHR ''p'' then call (\<lambda>n. artnet_send_poll e n None ARTNET_TTM_AUTO)
      else if c = CHR ''t'' then call (artnet_send_tod_request e)
      else if c = CHR ''f'' then call (\<lambda>n. artnet_send_tod_control e n 0xFFFF ARTNET_TOD_FLUSH)
      else if c = CHR ''r'' then rc_cmd_rdm e h
      else if c = CHR ''q'' then (\<lambda>a. a\<lparr>running := False\<rparr>)
      else id)"

definition rc_config :: "env \<Rightarrow> (node \<Rightarrow> int \<times> node) list" where
  "rc_config e =
     identify ARTNET_SRV ARTNET_ST_CONTROLLER ''RDM Ctrl'' ''libartnet Art-Net 4 RDM Controller'' @
     concat (map (port_config e 0) [0..<4]) @
     map (\<lambda>h n. artnet_set_handler n (Some h) (Some print_fn) 0)
       [ARTNET_TOD_DATA_HANDLER, ARTNET_RDM_HANDLER, ARTNET_RDMSUB_HANDLER]"

definition rc_start :: "env \<Rightarrow> platform \<Rightarrow> string list \<Rightarrow> string \<Rightarrow> app option" where
  "rc_start e pf args input = controller_start (printing e) pf args (rc_config (printing e)) input"

definition rc_round :: "env \<Rightarrow> runtime \<Rightarrow> event \<Rightarrow> app \<Rightarrow> app option" where
  "rc_round e h = command_loop (printing e) 512 (rc_command (printing e) h)"

section \<open>The directory query\<close>

text \<open>The number of entries is taken for a number of bytes, of which at most 128 are shown.\<close>

definition dir_reply_shown :: "packet \<Rightarrow> int \<times> int \<times> u8 list" where
  "dir_reply_shown p =
     (let count = get_short artnet_directory_reply_s ''dirCountHi'' ''dirCountLo'' p;
          total = get_short artnet_directory_reply_s ''dirTotalHi'' ''dirTotalLo'' p;
          show = (if 128 < count then 128 else count)
      in (count, total, get_n artnet_directory_reply_s ''dirEntry'' (nat show) p))"

definition dq_command :: "env \<Rightarrow> char \<Rightarrow> app \<Rightarrow> app" where
  "dq_command e c =
     (if c = CHR ''p'' then call (\<lambda>n. artnet_send_poll e n None ARTNET_TTM_AUTO)
      else if c = CHR ''d'' then call (artnet_send_directory e)
      else if c = CHR ''q'' then (\<lambda>a. a\<lparr>running := False\<rparr>)
      else id)"

definition dq_config :: "(node \<Rightarrow> int \<times> node) list" where
  "dq_config =
     identify ARTNET_SRV ARTNET_ST_CONTROLLER ''DirQuery'' ''libartnet Art-Net 4 Directory Query'' @
     [\<lambda>n. artnet_set_handler n (Some ARTNET_DIRECTORY_REPLY_HANDLER) (Some print_fn) 0]"

definition dq_start :: "env \<Rightarrow> platform \<Rightarrow> string list \<Rightarrow> string \<Rightarrow> app option" where
  "dq_start e pf args input = controller_start (printing e) pf args dq_config input"

definition dq_round :: "env \<Rightarrow> event \<Rightarrow> app \<Rightarrow> app option" where
  "dq_round e = command_loop (printing e) 64 (dq_command (printing e))"

section \<open>Their sessions are in order\<close>

declare show_nodes_safe [safe]

lemma ft_command_ok: "app_ok e a \<Longrightarrow> app_ok e (ft_command e c a)"
  unfolding ft_command_def ft_cmd_upload_def ft_cmd_download_def Let_def
  by (rule safe live_step.intros | assumption | simp)+

lemma rc_command_ok: "app_ok e a \<Longrightarrow> app_ok e (rc_command e h c a)"
  unfolding rc_command_def rc_cmd_rdm_def Let_def
  by (rule safe live_step.intros | assumption | simp)+

lemma dq_command_ok: "app_ok e a \<Longrightarrow> app_ok e (dq_command e c a)"
  unfolding dq_command_def
  by (rule safe live_step.intros | assumption | simp)+

interpretation ft: interactive "printing e" 256 "ft_command (printing e)" for e
  by unfold_locales (rule ft_command_ok)

interpretation rc: interactive "printing e" 512 "rc_command (printing e) h" for e h
  by unfold_locales (rule rc_command_ok)

interpretation dq: interactive "printing e" 64 "dq_command (printing e)" for e
  by unfold_locales (rule dq_command_ok)

lemma tools_start_ok:
  assumes "\<forall>k. env_malloc e k"
  shows "ft_start e pf args input = Some a \<Longrightarrow> app_ok (printing e) a"
    "rc_start e pf args input = Some a \<Longrightarrow> app_ok (printing e) a"
    "dq_start e pf args input = Some a \<Longrightarrow> app_ok (printing e) a"
proof -
  have handler: "node_step d m (snd (artnet_set_handler m (Some h) f x))" for d m h f x
    by (intro lives live_step.intros)
  have ports: "list_all (\<lambda>f. \<forall>m. node_step d m (snd (f m))) (port_config d 0 i)" for d i
    by (simp add: port_config_def Let_def lives [OF sets_port] lives [OF sets_addr])
  show "ft_start e pf args input = Some a \<Longrightarrow> app_ok (printing e) a"
    unfolding ft_start_def
    by (rule controller_start_ok [OF printing_modest [OF assms]], assumption) (simp add: ft_config_def handler)
  show "dq_start e pf args input = Some a \<Longrightarrow> app_ok (printing e) a"
    unfolding dq_start_def
    by (rule controller_start_ok [OF printing_modest [OF assms]], assumption) (simp add: dq_config_def handler)
  show "rc_start e pf args input = Some a \<Longrightarrow> app_ok (printing e) a"
    unfolding rc_start_def
    by (rule controller_start_ok [OF printing_modest [OF assms]], assumption)
       (use ports identify_steps in \<open>auto simp: rc_config_def handler list_all_iff\<close>)
qed

end
