(* ===== verification/Clocks.thy ===== *)
theory Clocks
  imports Tools
begin

text \<open>
  The programs about time: the time code transmitter and receiver
  (\<open>examples/timecode_tx\<close>, \<open>examples/timecode_rx\<close>), the time synchroniser
  (\<open>examples/timesync_tx\<close>) and the diagnostic monitor (\<open>examples/diag_monitor\<close>), which shows what
  the last sends.
\<close>

section \<open>Programs that only read\<close>

text \<open>A node that runs, without input from the user.\<close>

definition running_node :: "node \<Rightarrow> app" where
  "running_node n = \<lparr>stdin = [], lib = n, running = True, stray = False\<rparr>"

definition node_start ::
    "env \<Rightarrow> platform \<Rightarrow> string list \<Rightarrow> (node \<Rightarrow> int \<times> node) list \<Rightarrow> app option" where
  "node_start e pf args config =
     (case bind_option args None of
        None \<Rightarrow> None
      | Some ip \<Rightarrow> map_option running_node (launch e pf ip config))"

text \<open>\<open>while (running) artnet_read(node, 1000);\<close>\<close>

definition read_round :: "env \<Rightarrow> event \<Rightarrow> 'a app_scheme \<Rightarrow> 'a app_scheme option" where
  "read_round e ev a =
     (case ev of
        Signal \<Rightarrow> Some (a\<lparr>running := False\<rparr>)
      | Wakeup as ready \<Rightarrow> if \<not> running a then Some a else app_read e as a)"

section \<open>Time codes\<close>

text \<open>The last type is \<open>ARTNET_TIMECODE_SMPTE\<close>, a name that its code has in \<open>Transmit_Data\<close>.\<close>

datatype artnet_timecode_type =
  ARTNET_TIMECODE_FILM | ARTNET_TIMECODE_EBU | ARTNET_TIMECODE_DF | ARTNET_TIMECODE_SMPTE_30

fun timecode_code :: "artnet_timecode_type \<Rightarrow> u32" where
  "timecode_code ARTNET_TIMECODE_FILM = 0"
| "timecode_code ARTNET_TIMECODE_EBU = 1"
| "timecode_code ARTNET_TIMECODE_DF = 2"
| "timecode_code ARTNET_TIMECODE_SMPTE_30 = 3"

fun timecode_name :: "artnet_timecode_type \<Rightarrow> string" where
  "timecode_name ARTNET_TIMECODE_FILM = ''Film (24fps)''"
| "timecode_name ARTNET_TIMECODE_EBU = ''EBU (25fps)''"
| "timecode_name ARTNET_TIMECODE_DF = ''DF (29.97fps)''"
| "timecode_name ARTNET_TIMECODE_SMPTE_30 = ''SMPTE (30fps)''"

definition timecode_type_of :: "int \<Rightarrow> artnet_timecode_type option" where
  "timecode_type_of v =
     (if v < 0 \<or> 3 < v then None
      else Some (if v = 0 then ARTNET_TIMECODE_FILM else if v = 1 then ARTNET_TIMECODE_EBU
                 else if v = 2 then ARTNET_TIMECODE_DF else ARTNET_TIMECODE_SMPTE_30))"

definition type_name :: "u8 \<Rightarrow> string" where
  "type_name type =
     (case timecode_type_of (uint type) of None \<Rightarrow> ''Unknown'' | Some t \<Rightarrow> timecode_name t)"

section \<open>The time code transmitter\<close>

fun frame_interval_ms :: "artnet_timecode_type \<Rightarrow> int" where
  "frame_interval_ms ARTNET_TIMECODE_FILM = 42"
| "frame_interval_ms ARTNET_TIMECODE_EBU = 40"
| "frame_interval_ms ARTNET_TIMECODE_DF = 33"
| "frame_interval_ms ARTNET_TIMECODE_SMPTE_30 = 33"

fun max_frame :: "artnet_timecode_type \<Rightarrow> u8" where
  "max_frame ARTNET_TIMECODE_FILM = 24"
| "max_frame ARTNET_TIMECODE_EBU = 25"
| "max_frame ARTNET_TIMECODE_DF = 30"
| "max_frame ARTNET_TIMECODE_SMPTE_30 = 30"

record tc_options =
  tc_ip :: "string option"
  tc_type_val :: int
  tc_stream :: int

fun tc_args :: "string list \<Rightarrow> tc_options \<Rightarrow> tc_options option" where
  "tc_args [] os = Some os"
| "tc_args [_] os = None"
| "tc_args (opt # val # args) os =
     (if opt = ''-i'' then tc_args args (os\<lparr>tc_ip := Some val\<rparr>)
      else if opt = ''-t'' then tc_args args (os\<lparr>tc_type_val := atoi val\<rparr>)
      else if opt = ''-s'' then tc_args args (os\<lparr>tc_stream := atoi val\<rparr>)
      else None)"

text \<open>The time that is sent next.\<close>

record frame_time =
  hours :: u8
  minutes :: u8
  seconds :: u8
  frames :: u8

definition midnight :: frame_time where
  "midnight = \<lparr>hours = 0, minutes = 0, seconds = 0, frames = 0\<rparr>"

definition advance :: "u8 \<Rightarrow> frame_time \<Rightarrow> frame_time" where
  "advance limit t =
     (let t = t\<lparr>frames := frames t + 1\<rparr>
      in if \<not> limit \<le> frames t then t
         else
           (let t = t\<lparr>frames := 0, seconds := seconds t + 1\<rparr>
            in if \<not> 60 \<le> seconds t then t
               else
                 (let t = t\<lparr>seconds := 0, minutes := minutes t + 1\<rparr>
                  in if \<not> 60 \<le> minutes t then t
                     else
                       (let t = t\<lparr>minutes := 0, hours := hours t + 1\<rparr>
                        in if 24 \<le> hours t then t\<lparr>hours := 0\<rparr> else t))))"

record tc_app = app +
  tc_type :: artnet_timecode_type
  tc_stream_id :: u8
  tc_time :: frame_time

definition tc_config :: "(node \<Rightarrow> int \<times> node) list" where
  "tc_config =
     identify ARTNET_NODE ARTNET_ST_NODE ''LibArtNet TC-TX'' ''libartnet Art-Net 4 TimeCode Transmitter''"

definition tc_start :: "env \<Rightarrow> platform \<Rightarrow> string list \<Rightarrow> tc_app option" where
  "tc_start e pf args =
     (case tc_args args \<lparr>tc_ip = None, tc_type_val = 1, tc_stream = 0\<rparr> of
        None \<Rightarrow> None
      | Some os \<Rightarrow>
          (case timecode_type_of (tc_type_val os) of
             None \<Rightarrow> None
           | Some t \<Rightarrow>
               map_option
                 (\<lambda>n. \<lparr>stdin = [], lib = n, running = True, stray = False, tc_type = t,
                        tc_stream_id = word_of_int (tc_stream os), tc_time = midnight\<rparr>)
                 (launch (printing e) pf (tc_ip os) tc_config)))"

definition tc_send :: "env \<Rightarrow> tc_app \<Rightarrow> tc_app" where
  "tc_send e a =
     (let t = tc_time a
      in call (\<lambda>n. artnet_send_timecode (printing e) n (frames t) (seconds t) (minutes t) (hours t)
                     (timecode_code (tc_type a)) (tc_stream_id a)) a)"

definition tc_round :: "env \<Rightarrow> event \<Rightarrow> tc_app \<Rightarrow> tc_app option" where
  "tc_round e ev a =
     (case ev of
        Signal \<Rightarrow> Some (a\<lparr>running := False\<rparr>)
      | Wakeup as ready \<Rightarrow>
          if \<not> running a then Some a
          else
            map_option
              (\<lambda>a. let a = tc_send e a in a\<lparr>tc_time := advance (max_frame (tc_type a)) (tc_time a)\<rparr>)
              (app_read (printing e) as a))"

section \<open>The time code receiver\<close>

definition timecode_shown :: "packet \<Rightarrow> frame_time \<times> string \<times> u8" where
  "timecode_shown p =
     (\<lparr>hours = get8 artnet_timecode_s ''hours'' p, minutes = get8 artnet_timecode_s ''minutes'' p,
       seconds = get8 artnet_timecode_s ''seconds'' p, frames = get8 artnet_timecode_s ''frames'' p\<rparr>,
      type_name (get8 artnet_timecode_s ''type'' p), get8 artnet_timecode_s ''streamId'' p)"

definition rx_tc_config :: "(node \<Rightarrow> int \<times> node) list" where
  "rx_tc_config =
     identify ARTNET_NODE ARTNET_ST_NODE ''LibArtNet TC-RX'' ''libartnet Art-Net 4 TimeCode Receiver'' @
     [\<lambda>n. artnet_set_handler n (Some ARTNET_TIMECODE_HANDLER) (Some print_fn) 0]"

definition rx_tc_start :: "env \<Rightarrow> platform \<Rightarrow> string list \<Rightarrow> app option" where
  "rx_tc_start e pf args = node_start (printing e) pf args rx_tc_config"

definition rx_tc_round :: "env \<Rightarrow> event \<Rightarrow> app \<Rightarrow> app option" where
  "rx_tc_round e = read_round (printing e)"

section \<open>The time synchroniser\<close>

record ts_options =
  ts_ip :: "string option"
  ts_rate :: int

fun ts_args :: "string list \<Rightarrow> ts_options \<Rightarrow> ts_options option" where
  "ts_args [] os = Some os"
| "ts_args [_] os = None"
| "ts_args (opt # val # args) os =
     (if opt = ''-i'' then ts_args args (os\<lparr>ts_ip := Some val\<rparr>)
      else if opt = ''-r'' then ts_args args (os\<lparr>ts_rate := atoi val\<rparr>)
      else None)"

definition ts_interval :: "int \<Rightarrow> int" where
  "ts_interval interval =
     (let interval = (if interval < 100 then 100 else interval)
      in if 60000 < interval then 60000 else interval)"

text \<open>The program asks for the local time once a round; \<open>wall k\<close> is the \<open>k\<close>th answer.\<close>

record ts_app = app +
  ts_every :: int
  ts_asked :: nat

definition ts_config :: "(node \<Rightarrow> int \<times> node) list" where
  "ts_config =
     identify ARTNET_NODE ARTNET_ST_NODE ''TimeSync TX'' ''libartnet Art-Net 4 TimeSync Transmitter''"

definition ts_start :: "env \<Rightarrow> platform \<Rightarrow> string list \<Rightarrow> ts_app option" where
  "ts_start e pf args =
     (case ts_args args \<lparr>ts_ip = None, ts_rate = 1000\<rparr> of
        None \<Rightarrow> None
      | Some os \<Rightarrow>
          map_option
            (\<lambda>n. \<lparr>stdin = [], lib = n, running = True, stray = False,
                   ts_every = ts_interval (ts_rate os), ts_asked = 0\<rparr>)
            (launch (printing e) pf (ts_ip os) ts_config))"

definition ts_send :: "env \<Rightarrow> tm \<Rightarrow> 'a app_scheme \<Rightarrow> 'a app_scheme" where
  "ts_send e t =
     call (\<lambda>n. artnet_send_timesync (printing e) n (word_of_int (tm_sec t)) (word_of_int (tm_min t))
                 (word_of_int (tm_hour t)) (word_of_int (tm_mday t)) (word_of_int (tm_mon t))
                 (word_of_int (tm_year t)))"

definition ts_round :: "env \<Rightarrow> (nat \<Rightarrow> tm) \<Rightarrow> event \<Rightarrow> ts_app \<Rightarrow> ts_app option" where
  "ts_round e wall ev a =
     (case ev of
        Signal \<Rightarrow> Some (a\<lparr>running := False\<rparr>)
      | Wakeup as ready \<Rightarrow>
          if \<not> running a then Some a
          else
            map_option (\<lambda>a. (ts_send e (wall (ts_asked a)) a)\<lparr>ts_asked := Suc (ts_asked a)\<rparr>)
              (app_read (printing e) as a))"

section \<open>The diagnostic monitor\<close>

definition diag_priority_name :: "u8 \<Rightarrow> string" where
  "diag_priority_name pri =
     (if pri = 0x10 then ''LOW'' else if pri = 0x40 then ''MED'' else if pri = 0x80 then ''HIGH''
      else if pri = 0xe0 then ''CRIT'' else if pri = 0xf0 then ''VOL'' else ''???'')"

text \<open>The text without its final zero; a length above the array's is cut to it.\<close>

definition diag_shown :: "packet \<Rightarrow> string \<times> u8 \<times> u8 list" where
  "diag_shown p =
     (let len = get_short artnet_diagdata_s ''lengthHi'' ''length'' p;
          len = (if ARTNET_DMX_LENGTH < len then ARTNET_DMX_LENGTH else len)
      in (diag_priority_name (get8 artnet_diagdata_s ''diagPriority'' p),
          get8 artnet_diagdata_s ''logicalPort'' p,
          text_at artnet_diagdata_s ''data'' (if 0 < len then len - 1 else 0) p))"

definition timesync_shown :: "packet \<Rightarrow> int \<times> int \<times> int \<times> int \<times> int \<times> int" where
  "timesync_shown p =
     (let f = \<lambda>x. uint (get8 artnet_timesync_s x p)
      in (1900 + f ''tm_year'', f ''tm_mon'' + 1, f ''tm_mday'', f ''tm_hour'', f ''tm_min'',
          f ''tm_sec''))"

definition trigger_key_name :: "u8 \<Rightarrow> string" where
  "trigger_key_name key =
     (if key = 0 then ''ASCII'' else if key = 1 then ''Macro'' else if key = 2 then ''Soft''
      else if key = 3 then ''Show'' else ''Unknown'')"

definition trigger_shown :: "packet \<Rightarrow> u8 \<times> u8 \<times> string \<times> u8" where
  "trigger_shown p =
     (get8 artnet_trigger_s ''oemCodeHi'' p, get8 artnet_trigger_s ''oemCodeLo'' p,
      trigger_key_name (get8 artnet_trigger_s ''key'' p), get8 artnet_trigger_s ''subKey'' p)"

definition command_shown :: "packet \<Rightarrow> u8 \<times> u8 \<times> int \<times> u8 list" where
  "command_shown p =
     (let len = get_short artnet_command_s ''lengthHi'' ''lengthLo'' p;
          len = (if ARTNET_DMX_LENGTH < len then ARTNET_DMX_LENGTH else len)
      in (get8 artnet_command_s ''estaManHi'' p, get8 artnet_command_s ''estaManLo'' p, len,
          text_at artnet_command_s ''data'' len p))"

definition dm_config :: "(node \<Rightarrow> int \<times> node) list" where
  "dm_config =
     identify ARTNET_NODE ARTNET_ST_NODE ''DiagMonitor'' ''libartnet Art-Net 4 Diagnostic Monitor'' @
     map (\<lambda>h n. artnet_set_handler n (Some h) (Some print_fn) 0)
       [ARTNET_DIAGDATA_HANDLER, ARTNET_TIMESYNC_HANDLER, ARTNET_TRIGGER_HANDLER, ARTNET_COMMAND_HANDLER]"

definition dm_start :: "env \<Rightarrow> platform \<Rightarrow> string list \<Rightarrow> app option" where
  "dm_start e pf args = node_start (printing e) pf args dm_config"

definition dm_round :: "env \<Rightarrow> event \<Rightarrow> app \<Rightarrow> app option" where
  "dm_round e = read_round (printing e)"

section \<open>Their sessions are in order\<close>

lemma read_round_ok:
  assumes "polite_event ev" "app_in s e a"
  shows "\<exists>b. read_round e ev a = Some b \<and> app_in s e b"
proof (cases "\<exists>as r. ev = Wakeup as r \<and> running a")
  case True
  then obtain "as" r where ev: "ev = Wakeup as r" "running a" by blast
  obtain n where "app_read e as a = Some (a\<lparr>lib := n\<rparr>)" "solo (snd s) e n"
    using solo_read [of as "snd s" e a] assms ev by (auto simp: polite_event_def app_in_def)
  with ev assms(2) show ?thesis by (simp add: read_round_def app_in_def)
qed (use assms in \<open>auto simp: read_round_def split: event.split\<close>)

text \<open>A round that reads and then goes on from a program in order.\<close>

lemma read_ok:
  assumes "polite_event (Wakeup as r)" "app_in s e a"
  obtains b where "app_read e as a = Some b" "app_in s e b"
proof -
  obtain n where n: "app_read e as a = Some (a\<lparr>lib := n\<rparr>)" "solo (snd s) e n"
    using solo_read [of as "snd s" e a] assms by (auto simp: polite_event_def app_in_def)
  then have "app_in s e (a\<lparr>lib := n\<rparr>)" using assms(2) by (simp add: app_in_def)
  with n(1) that show ?thesis by blast
qed

lemma tc_send_ok: "app_in s (printing e) a \<Longrightarrow> app_in s (printing e) (tc_send e a)"
  unfolding tc_send_def Let_def by (rule safe_call, assumption) (rule sends_timecode)

lemma ts_send_ok: "app_in s (printing e) a \<Longrightarrow> app_in s (printing e) (ts_send e t a)"
  unfolding ts_send_def by (rule safe_call, assumption) (rule sends_timesync)

lemma tc_round_ok:
  assumes "polite_event ev" "app_ok (printing e) a"
  shows "\<exists>b. tc_round e ev a = Some b \<and> app_ok (printing e) b"
proof (cases "\<exists>as r. ev = Wakeup as r \<and> running a")
  case True
  then obtain "as" r where ev: "ev = Wakeup as r" "running a" by blast
  have field: "app_ok (printing e) (b\<lparr>tc_time := t\<rparr>) = app_ok (printing e) b" for b :: tc_app and t
    by (simp add: app_in_def)
  obtain b where b: "app_read (printing e) as a = Some b" "app_ok (printing e) b"
    using read_ok assms ev(1) by metis
  with ev show ?thesis by (simp add: tc_round_def Let_def field tc_send_ok)
qed (use assms in \<open>auto simp: tc_round_def split: event.split\<close>)

lemma ts_round_ok:
  assumes "polite_event ev" "app_ok (printing e) a"
  shows "\<exists>b. ts_round e wall ev a = Some b \<and> app_ok (printing e) b"
proof (cases "\<exists>as r. ev = Wakeup as r \<and> running a")
  case True
  then obtain "as" r where ev: "ev = Wakeup as r" "running a" by blast
  have field: "app_ok (printing e) (b\<lparr>ts_asked := t\<rparr>) = app_ok (printing e) b" for b :: ts_app and t
    by (simp add: app_in_def)
  obtain b where b: "app_read (printing e) as a = Some b" "app_ok (printing e) b"
    using read_ok assms ev(1) by metis
  with ev show ?thesis by (simp add: ts_round_def Let_def field ts_send_ok)
qed (use assms in \<open>auto simp: ts_round_def split: event.split\<close>)

interpretation reader: rounds "read_round e" "app_ok e :: 'a app_scheme \<Rightarrow> bool" for e
  by unfold_locales (rule read_round_ok)

interpretation tc: rounds "tc_round e" "app_ok (printing e)" for e
  by unfold_locales (rule tc_round_ok)

interpretation ts: rounds "ts_round e wall" "app_ok (printing e)" for e wall
  by unfold_locales (rule ts_round_ok)

lemma running_ok [simp]: "app_ok e (running_node n) = solo UNIV e n"
  by (simp add: running_node_def app_in_def)

lemma node_start_ok:
  assumes "modest e" "node_start e pf args config = Some a"
    and "list_all (\<lambda>f. \<forall>m. node_step e m (snd (f m))) config"
  shows "app_ok e a"
  using assms launch_solo [OF assms(1) _ assms(3)]
  by (auto simp: node_start_def split: option.splits)

lemma clocks_start_ok:
  assumes "\<forall>k. env_malloc e k"
  shows "tc_start e pf args = Some tc \<Longrightarrow> app_ok (printing e) tc"
    "rx_tc_start e pf args = Some rx \<Longrightarrow> app_ok (printing e) rx"
    "ts_start e pf args = Some ts \<Longrightarrow> app_ok (printing e) ts"
    "dm_start e pf args = Some dm \<Longrightarrow> app_ok (printing e) dm"
proof -
  note m = printing_modest [OF assms]
  have handler: "node_step d m (snd (artnet_set_handler m (Some h) f x))" for d m h f x
    by (intro lives live_step.intros)
  show "tc_start e pf args = Some tc \<Longrightarrow> app_ok (printing e) tc"
    using launch_solo [OF m] by (auto simp: tc_start_def tc_config_def app_in_def split: option.splits)
  show "ts_start e pf args = Some ts \<Longrightarrow> app_ok (printing e) ts"
    using launch_solo [OF m] by (auto simp: ts_start_def ts_config_def app_in_def split: option.splits)
  show "rx_tc_start e pf args = Some rx \<Longrightarrow> app_ok (printing e) rx"
    unfolding rx_tc_start_def
    by (rule node_start_ok [OF m], assumption) (simp add: rx_tc_config_def handler)
  show "dm_start e pf args = Some dm \<Longrightarrow> app_ok (printing e) dm"
    unfolding dm_start_def
    by (rule node_start_ok [OF m], assumption) (simp add: dm_config_def handler)
qed

end
