(* ===== verification/Streams.thy ===== *)
theory Streams
  imports Clocks
begin

text \<open>
  The programs about levels: the DMX transmitter (\<open>examples/dmx_tx\<close>), the DMX receiver
  (\<open>examples/dmx_rx\<close>) and the node that is managed from afar (\<open>examples/target_node\<close>).  The level
  of the transmitter's sine, a computation with floating point numbers, is a parameter.
\<close>

section \<open>The transmitter's command line\<close>

record tx_options =
  tx_ip :: "string option"
  tx_net :: int
  tx_subnet :: int
  tx_universe :: int
  tx_channels :: int
  tx_start_code :: int
  tx_raw_mode :: bool

fun tx_args :: "string list \<Rightarrow> tx_options \<Rightarrow> tx_options option" where
  "tx_args [] os = Some os"
| "tx_args [opt] os = (if opt = ''-r'' then Some (os\<lparr>tx_raw_mode := True\<rparr>) else None)"
| "tx_args (opt # val # args) os =
     (if opt = ''-i'' then tx_args args (os\<lparr>tx_ip := Some val\<rparr>)
      else if opt = ''-n'' then tx_args args (os\<lparr>tx_net := atoi val\<rparr>)
      else if opt = ''-s'' then tx_args args (os\<lparr>tx_subnet := atoi val\<rparr>)
      else if opt = ''-u'' then tx_args args (os\<lparr>tx_universe := atoi val\<rparr>)
      else if opt = ''-c'' then tx_args args (os\<lparr>tx_channels := atoi val\<rparr>)
      else if opt = ''-z'' then tx_args args (os\<lparr>tx_start_code := atoi val\<rparr>)
      else if opt = ''-r'' then tx_args (val # args) (os\<lparr>tx_raw_mode := True\<rparr>)
      else None)"

definition tx_defaults :: tx_options where
  "tx_defaults = \<lparr>tx_ip = None, tx_net = 0, tx_subnet = 0, tx_universe = 0,
     tx_channels = ARTNET_DMX_LENGTH, tx_start_code = 0, tx_raw_mode = False\<rparr>"

text \<open>Addresses out of range end the program; a start code and a number of channels are brought into
  range.\<close>

definition tx_normal :: "tx_options \<Rightarrow> tx_options" where
  "tx_normal os =
     (let code = (if tx_start_code os < 0 \<or> 255 < tx_start_code os then 0 else tx_start_code os);
          channels = (if tx_channels os < 2 then 2 else tx_channels os);
          channels = (if ARTNET_DMX_LENGTH < channels then ARTNET_DMX_LENGTH else channels);
          channels = (if code = 0 \<and> odd channels then channels + 1 else channels)
      in os\<lparr>tx_start_code := code, tx_channels := channels\<rparr>)"

definition parse_tx_options :: "string list \<Rightarrow> tx_options option" where
  "parse_tx_options args =
     (case tx_args args tx_defaults of
        None \<Rightarrow> None
      | Some os \<Rightarrow>
          if (tx_net os < 0 \<or> 127 < tx_net os) \<or> (tx_subnet os < 0 \<or> 15 < tx_subnet os) \<or>
             (tx_universe os < 0 \<or> 15 < tx_universe os)
          then None else Some (tx_normal os))"

section \<open>The transmitter\<close>

definition tx_config :: "env \<Rightarrow> tx_options \<Rightarrow> (node \<Rightarrow> int \<times> node) list" where
  "tx_config e os =
     identify ARTNET_NODE ARTNET_ST_NODE ''LibArtNet DMX-TX'' ''libartnet Art-Net 4 DMX Transmitter'' @
     [\<lambda>n. artnet_setoem n 0xFF 0x00, \<lambda>n. artnet_setesta n 0x00 0xFF] @
     concat (map (\<lambda>i.
       [\<lambda>n. artnet_set_port_type n (int i) ARTNET_ENABLE_INPUT ARTNET_PORT_DMX,
        \<lambda>n. artnet_set_port_addr e n (int i) (Some ARTNET_INPUT_PORT)
              (word_of_int (tx_universe os + int i))]) [0..<ARTNET_MAX_PORTS])"

record tx_app = app +
  tx_os :: tx_options
  tx_tick :: int

definition tx_start :: "env \<Rightarrow> platform \<Rightarrow> string list \<Rightarrow> tx_app option" where
  "tx_start e pf args =
     (case parse_tx_options args of
        None \<Rightarrow> None
      | Some os \<Rightarrow>
          map_option (\<lambda>n. \<lparr>stdin = [], lib = n, running = True, stray = False, tx_os = os, tx_tick = 0\<rparr>)
            (launch (printing e) pf (tx_ip os) (tx_config (printing e) os)))"

text \<open>One level, that of the sine, among zeros; \<open>sine t i\<close> is its value for port \<open>i\<close>.\<close>

definition tx_frame :: "(int \<Rightarrow> nat \<Rightarrow> u8) \<Rightarrow> int \<Rightarrow> int \<Rightarrow> nat \<Rightarrow> mem" where
  "tx_frame sine channels t i = zero_mem(nat (int i mod channels) := sine t i)"

definition tx_port ::
    "env \<Rightarrow> (int \<Rightarrow> nat \<Rightarrow> u8) \<Rightarrow> tx_options \<Rightarrow> int \<Rightarrow> nat \<Rightarrow> node \<Rightarrow> (int \<times> node) option" where
  "tx_port e sine os t i n =
     (let dmx_data = tx_frame sine (tx_channels os) t i;
          addr = port_address (tx_net os) (tx_subnet os) (tx_universe os + int i)
      in if tx_start_code os \<noteq> 0
         then artnet_send_nzs e n addr (word_of_int (tx_start_code os)) (tx_channels os) dmx_data
         else if tx_raw_mode os then artnet_raw_send_dmx e n addr (tx_channels os) dmx_data
         else artnet_send_dmx e n (int i) (tx_channels os) dmx_data)"

primrec tx_ports ::
    "env \<Rightarrow> (int \<Rightarrow> nat \<Rightarrow> u8) \<Rightarrow> tx_options \<Rightarrow> int \<Rightarrow> nat list \<Rightarrow> node \<Rightarrow> node option" where
  "tx_ports e sine os t [] n = Some n"
| "tx_ports e sine os t (i # is) n =
     (case tx_port e sine os t i n of
        None \<Rightarrow> None
      | Some (ret, n) \<Rightarrow> tx_ports e sine os t is n)"

definition tx_send :: "env \<Rightarrow> (int \<Rightarrow> nat \<Rightarrow> u8) \<Rightarrow> tx_app \<Rightarrow> tx_app option" where
  "tx_send e sine a =
     (let a = a\<lparr>tx_tick := tx_tick a + 1\<rparr>
      in map_option (\<lambda>n. call (artnet_send_sync (printing e)) (a\<lparr>lib := n\<rparr>))
           (tx_ports (printing e) sine (tx_os a) (tx_tick a) [0..<ARTNET_MAX_PORTS] (lib a)))"

definition tx_round :: "env \<Rightarrow> (int \<Rightarrow> nat \<Rightarrow> u8) \<Rightarrow> event \<Rightarrow> tx_app \<Rightarrow> tx_app option" where
  "tx_round e sine ev a =
     (case ev of
        Signal \<Rightarrow> Some (a\<lparr>running := False\<rparr>)
      | Wakeup as ready \<Rightarrow>
          if \<not> running a then Some a else Option.bind (app_read (printing e) as a) (tx_send e sine))"

section \<open>The receivers\<close>

text \<open>Both receivers have the full node's options, and both only give their ports the options' last
  part.\<close>

definition rx_ports :: "env \<Rightarrow> node_options \<Rightarrow> (node \<Rightarrow> int \<times> node) list" where
  "rx_ports e os =
     concat (map (\<lambda>i.
       [\<lambda>n. artnet_set_port_type n (int i) ARTNET_ENABLE_OUTPUT ARTNET_PORT_DMX,
        \<lambda>n. artnet_set_port_addr e n (int i) (Some ARTNET_OUTPUT_PORT)
              (word_of_int (opt_universe os + int i))]) [0..<ARTNET_MAX_PORTS])"

text \<open>What \<open>dmx_handler\<close> prints: the length, the first four levels and the last.\<close>

definition rx_shown :: "node \<Rightarrow> int \<Rightarrow> (int \<times> u8 list) option" where
  "rx_shown n port =
     (case artnet_read_dmx n port of
        None \<Rightarrow> None
      | Some (dmx, len) \<Rightarrow>
          if 0 < len then Some (len, [dmx 0, dmx 1, dmx 2, dmx 3, dmx (nat (len - 1))]) else None)"

definition rx_config :: "env \<Rightarrow> node_options \<Rightarrow> (node \<Rightarrow> int \<times> node) list" where
  "rx_config e os =
     identify ARTNET_NODE ARTNET_ST_NODE ''LibArtNet DMX-RX'' ''libartnet Art-Net 4 DMX Receiver'' @
     [\<lambda>n. artnet_setoem n 0xFF 0x00, \<lambda>n. artnet_setesta n 0x00 0xFF] @ rx_ports e os @
     [\<lambda>n. artnet_set_dmx_handler n (Some print_fn) 0,
      \<lambda>n. artnet_set_handler n (Some ARTNET_SYNC_HANDLER) (Some print_fn) 0]"

definition target_config :: "env \<Rightarrow> node_options \<Rightarrow> (node \<Rightarrow> int \<times> node) list" where
  "target_config e os =
     identify ARTNET_NODE ARTNET_ST_NODE ''TargetNode'' ''libartnet Art-Net 4 Target Node'' @
     [\<lambda>n. artnet_setoem n 0xFF 0x00, \<lambda>n. artnet_setesta n 0x00 0xFF] @ rx_ports e os @
     [\<lambda>n. artnet_set_dmx_handler n (Some print_fn) 0,
      \<lambda>n. artnet_set_program_handler n (Some print_fn) 0]"

definition optioned_start ::
    "env \<Rightarrow> platform \<Rightarrow> string list \<Rightarrow> (node_options \<Rightarrow> (node \<Rightarrow> int \<times> node) list) \<Rightarrow> app option" where
  "optioned_start e pf args config =
     (case parse_node_options args of
        None \<Rightarrow> None
      | Some os \<Rightarrow> map_option running_node (launch e pf (opt_ip os) (config os)))"

definition rx_start :: "env \<Rightarrow> platform \<Rightarrow> string list \<Rightarrow> app option" where
  "rx_start e pf args = optioned_start (printing e) pf args (rx_config (printing e))"

definition target_start :: "env \<Rightarrow> platform \<Rightarrow> string list \<Rightarrow> app option" where
  "target_start e pf args = optioned_start (printing e) pf args (target_config (printing e))"

definition rx_round :: "env \<Rightarrow> event \<Rightarrow> app \<Rightarrow> app option" where
  "rx_round e = read_round (printing e)"

definition target_round :: "env \<Rightarrow> event \<Rightarrow> app \<Rightarrow> app option" where
  "target_round e = read_round (printing e)"

section \<open>Their sessions are in order\<close>

lemma tx_port_returns: "node_ok n \<Longrightarrow> \<exists>r m. tx_port e sine os t i n = Some (r, m)"
  unfolding tx_port_def Let_def
  by (auto intro: send_dmx_returns raw_send_dmx_returns send_nzs_returns)

lemma tx_port_step: "tx_port e sine os t i n = Some (r, m) \<Longrightarrow> live_step e n m"
  by (auto simp: tx_port_def Let_def split: if_splits
      intro: sends_dmx sends_raw_dmx sends_nzs)

lemma tx_ports_solo:
  "solo ts e n \<Longrightarrow> \<exists>m. tx_ports e sine os t is n = Some m \<and> solo ts e m"
proof (induction "is" arbitrary: n)
  case (Cons i "is")
  then have "node_ok n" using solo_modest [of ts e n] by (simp add: fits_def)
  then obtain r m where m: "tx_port e sine os t i n = Some (r, m)" using tx_port_returns by blast
  with solo_step [OF Cons.prems tx_port_step] Cons.IH [of m] show ?case by simp
qed simp

lemma tx_send_ok:
  assumes "app_ok (printing e) a"
  shows "\<exists>b. tx_send e sine a = Some b \<and> app_ok (printing e) b"
proof -
  obtain m where m: "tx_ports (printing e) sine (tx_os a) (tx_tick a + 1) [0..<ARTNET_MAX_PORTS] (lib a) = Some m"
    "solo UNIV (printing e) m"
    using tx_ports_solo [of UNIV "printing e" "lib a" sine "tx_os a"] assms by (auto simp: app_in_def)
  then have "app_ok (printing e) (a\<lparr>tx_tick := tx_tick a + 1, lib := m\<rparr>)"
    using assms by (simp add: app_in_def)
  then have "app_ok (printing e) (call (artnet_send_sync (printing e)) (a\<lparr>tx_tick := tx_tick a + 1, lib := m\<rparr>))"
    by (rule safe_call) (rule sends_sync)
  with m(1) show ?thesis by (simp add: tx_send_def Let_def)
qed

lemma tx_round_ok:
  assumes "polite_event ev" "app_ok (printing e) a"
  shows "\<exists>b. tx_round e sine ev a = Some b \<and> app_ok (printing e) b"
proof (cases "\<exists>as r. ev = Wakeup as r \<and> running a")
  case True
  then obtain "as" r where ev: "ev = Wakeup as r" "running a" by blast
  obtain b where "app_read (printing e) as a = Some b" "app_ok (printing e) b"
    using read_ok assms ev(1) by metis
  with ev tx_send_ok [of e b sine] show ?thesis by (simp add: tx_round_def)
qed (use assms in \<open>auto simp: tx_round_def split: event.split\<close>)

interpretation tx: rounds "tx_round e sine" "app_ok (printing e)" for e sine
  by unfold_locales (rule tx_round_ok)

lemma streams_start_ok:
  assumes "\<forall>k. env_malloc e k"
  shows "tx_start e pf args = Some tx \<Longrightarrow> app_ok (printing e) tx"
    "rx_start e pf args = Some rx \<Longrightarrow> app_ok (printing e) rx"
    "target_start e pf args = Some tn \<Longrightarrow> app_ok (printing e) tn"
proof -
  note solo = launch_solo [OF printing_modest [OF assms]]
  have "list_all (\<lambda>f. \<forall>m. node_step (printing e) m (snd (f m))) (tx_config (printing e) os)" for os
    using identify_steps by (auto simp: tx_config_def list_all_iff intro: any_step)
  then show "tx_start e pf args = Some tx \<Longrightarrow> app_ok (printing e) tx"
    using solo by (auto simp: tx_start_def app_in_def split: option.splits)
  have "list_all (\<lambda>f. \<forall>m. node_step (printing e) m (snd (f m))) (rx_config (printing e) os)"
    "list_all (\<lambda>f. \<forall>m. node_step (printing e) m (snd (f m))) (target_config (printing e) os)" for os
    using identify_steps
    by (auto simp: rx_config_def target_config_def rx_ports_def list_all_iff artnet_set_dmx_handler_def
        artnet_set_program_handler_def intro: any_step)
  then show "rx_start e pf args = Some rx \<Longrightarrow> app_ok (printing e) rx"
    "target_start e pf args = Some tn \<Longrightarrow> app_ok (printing e) tn"
    using solo by (auto simp: rx_start_def target_start_def optioned_start_def split: option.splits)
qed

end
