(* ===== verification/Manager_Properties.thy ===== *)
theory Manager_Properties
  imports Node_Manager Starting
begin

text \<open>
  The node manager as a whole: no session with it, whatever the user types and polite nodes send,
  leaves its memory or stops; and what the user's line about a universe does to the node at the
  other end.
\<close>

section \<open>Sessions\<close>

lemma nm_command_ok: "app_ok e a \<Longrightarrow> app_ok e (nm_command e c a)"
  by (simp add: nm_command_def nm_commands_ok print_discovered_safe)

interpretation nm: interactive e 256 "nm_command e" for e
  by unfold_locales (rule nm_command_ok)

lemma nm_start_ok: "modest e \<Longrightarrow> nm_start e pf args input = Some a \<Longrightarrow> app_ok e a"
  unfolding nm_start_def nm_config_def by (rule controller_start_ok [OF _ _ identify_steps])

lemma demo_start: "\<exists>a. nm_start quiet_env demo_platform [] input = Some a"
proof -
  have "keeps_role []" by (simp add: keeps_role_def)
  then have "role (configure nm_config demo_new) = (ARTNET_SRV, ARTNET_STANDBY, rdm_reply_addr demo_new)"
    using configure_identified [of "[]"] by (simp add: nm_config_def mode_demo_new)
  then have "\<exists>n. launch quiet_env demo_platform None nm_config = Some n"
    using demo_launch sends_whole_quiet by blast
  then show ?thesis by (auto simp: nm_start_def controller_start_def)
qed

text \<open>Whatever the user types into the node manager and whatever polite nodes send to it, every
  round of its main loop returns, its node is one that library calls can lead to and is well formed,
  and neither the library nor the program leaves its arrays.\<close>

theorem manager_session_safe:
  assumes "modest e" "nm_start e pf args input = Some a" "list_all polite_event evs"
  shows "\<exists>b. session (nm_round e) evs a = Some b \<and> reachable e (lib b) \<and> node_ok (lib b) \<and>
    \<not> stray b"
proof -
  obtain b where "session (nm_round e) evs a = Some b" "app_ok e b"
    using nm.session_ok [OF assms(3) nm_start_ok [OF assms(1,2)]] by (auto simp: nm_round_def)
  moreover from this have "fits (lib b)" using solo_modest by (auto simp: app_in_def)
  ultimately show ?thesis by (auto simp: app_in_def solo_def fits_def)
qed

theorem manager_session_safe_witness:
  "\<exists>a b. nm_start quiet_env demo_platform [] ''p'' = Some a \<and>
     session (nm_round quiet_env) [Wakeup [Datagram 0x0300000A demo_frame] True, Signal] a = Some b \<and>
     \<not> stray b"
proof -
  obtain a where a: "nm_start quiet_env demo_platform [] ''p'' = Some a"
    using demo_start by blast
  have "list_all polite_event [Wakeup [Datagram 0x0300000A demo_frame] True, Signal]"
    using polite_demo_frame by (simp add: polite_event_def)
  from manager_session_safe [OF calm_modest [OF calm_quiet] a this] a show ?thesis by blast
qed

section \<open>A universe for a port\<close>

lemma nochange_set: "i < 4 \<Longrightarrow> j < 4 \<Longrightarrow> nochange[j := x] ! i = (if i = j then x else 0x7F)"
  by (simp add: nochange_def nth_list_update)

lemma high_bit_port:
  fixes x :: u8
  shows "(x OR 0x80) AND 0x80 \<noteq> 0" "x OR 0x80 \<noteq> 0" "x OR 0x80 \<noteq> 0x7F"
    "make_addr net sub (x OR 0x80) = make_addr net sub x"
proof -
  have top: "(0x80 :: u8) = push_bit 7 1" by (simp add: push_bit_eq_mult)
  have high: "bit (0x80 :: u8) k \<longleftrightarrow> k = 7" for k
    unfolding top bit_push_bit_iff bit_1_iff by auto
  have "(x OR 0x80) AND 0x80 = 0x80"
    by (rule bit_word_eqI) (auto simp: bit_and_iff bit_or_iff)
  then show c: "(x OR 0x80) AND 0x80 \<noteq> 0" by simp
  show "x OR 0x80 \<noteq> 0" using c by (metis zero_and_eq)
  have "(0x7F :: u8) AND 0x80 = 0" by simp
  with c show "x OR 0x80 \<noteq> 0x7F" by metis
  have "(x OR 0x80) AND 0x0F = x AND 0x0F"
    by (rule bit_word_eqI) (unfold bit_and_iff bit_or_iff addr_masks bit_mask_iff high, auto)
  then show "make_addr net sub (x OR 0x80) = make_addr net sub x" by (simp only: make_addr_def)
qed

text \<open>The command's line of thought: which node, which port, which universe.\<close>

lemma nm_cmd_universe_typed:
  assumes "fits (lib a)" "idx < length (entries (nodes (lib a)))"
    and "stdin a = l1 @ newline # l2 @ newline # l3 @ newline # rest"
    and "typed 32 l1" "typed 16 l2" "typed 16 l3"
    and "atoi (l1 @ [newline]) = int idx" "atoi (l2 @ [newline]) = int port" "atoi (l3 @ [newline]) = uni"
    and "port < 4" "0 \<le> uni" "uni \<le> 15"
  defines "t \<equiv> pub (entries (nodes (lib a)) ! idx)"
    and "addrs \<equiv> nochange[port := word_of_int uni OR 0x80]"
  shows "nm_cmd_universe e a =
    (let n = (lib a)\<lparr>nodes := (nodes (lib a))\<lparr>current := Some idx\<rparr>\<rparr>
     in a\<lparr>stdin := rest, lib := snd (artnet_send_address e n (Some t) None None (Some addrs) (Some addrs)
            0x7F 0x7F 0 0xFF)\<rparr>)"
proof -
  have "e_numbports t \<le> 4"
    using assms(1,2) listed_entry(1) [of "lib a" t] by (simp add: t_def)
  then have "show_ports t b = b" if "stray b = stray a" for b :: app
    by (simp add: show_ports_def)
  with with_node_typed [OF assms(1,4,3,7,2)] assms(5,6,8-12)
  show ?thesis
    by (simp add: nm_cmd_universe_def with_line_typed [of 16 l2 _ "l3 @ newline # rest"]
        with_line_typed [of 16 l3 _ rest] call_def Let_def t_def [symmetric] addrs_def)
qed

text \<open>C25: Typing the number of a discovered node, a port and a universe sends one packet to that
  node; when the node handles it, the port, and no other, is on the universe, in the node's own net
  and subnet.\<close>

theorem manager_moves_port:
  assumes user: "observer e" "fits (lib a)" "mode (lib a) = ARTNET_ON" "is_controller (lib a)"
      "idx < length (entries (nodes (lib a)))"
      "stdin a = l1 @ newline # l2 @ newline # l3 @ newline # rest"
      "typed 32 l1" "typed 16 l2" "typed 16 l3"
      "atoi (l1 @ [newline]) = int idx" "atoi (l2 @ [newline]) = int port" "atoi (l3 @ [newline]) = uni"
      "port < 4" "0 \<le> uni" "uni \<le> 15"
    and node: "observer e'" "node_ok r" "no_callbacks r" "node_type r \<noteq> ARTNET_SRV"
      "node_type r \<noteq> ARTNET_RAW" "bind_index r \<le> 1" "i < 4"
  shows "\<exists>p j. sent (lib (nm_cmd_universe e a)) = sent (lib a) @ [p] \<and>
    e_ip (pub (entries (nodes (lib a)) ! j)) = e_ip (pub (entries (nodes (lib a)) ! idx)) \<and>
    p_to p = ent_ip (entries (nodes (lib a)) ! j) \<and> packet_is_valid (delivered p) \<and>
    (let r' = snd (handle e' r (delivered p))
     in port_addr (in_ports r' i) =
          (if i = port then make_addr (netSwitch r) (subSwitch r) (word_of_int uni)
           else port_addr (in_ports r i)) \<and>
        port_addr (out_ports r' i) =
          (if i = port then make_addr (netSwitch r) (subSwitch r) (word_of_int uni)
           else port_addr (out_ports r i)))"
proof -
  let ?t = "pub (entries (nodes (lib a)) ! idx)"
  let ?n = "(lib a)\<lparr>nodes := (nodes (lib a))\<lparr>current := Some idx\<rparr>\<rparr>"
  let ?addrs = "nochange[port := word_of_int uni OR 0x80]"
  have "find_private_entry (lib a) (Some ?t) \<noteq> None"
    using user(2,5) listed_entry(2) [of "lib a" ?t] by simp
  then obtain j where j: "find_private_entry ?n (Some ?t) = Some j"
    by (auto simp: find_private_entry_def)
  then have ip: "e_ip (pub (entries (nodes (lib a)) ! j)) = e_ip ?t"
    by (auto simp: find_private_entry_def dest: find_pos_Some)
  let ?p = "program_packet (ip_addr (lib a)) (ent_ip (entries (nodes (lib a)) ! j))
    (program_fields None None (Some ?addrs) (Some ?addrs) 0x7F 0x7F 0 0xFF)"
  have sent: "sent (lib (nm_cmd_universe e a)) = sent (lib a) @ [?p]"
    using nm_cmd_universe_typed [OF user(2,5-15)] address_call_sent [OF user(1) _ _ j] user(3,4)
    by (simp add: Let_def is_controller_def)
  have len: "length ?addrs = 4" by (simp add: nochange_def)
  have acn: "(0xFF :: u8) \<le> 200 \<or> (0xFF :: u8) = 0xFF" by simp
  note call = address_call_programs [OF len len acn node, where a = "ip_addr (lib a)"
      and b = "ent_ip (entries (nodes (lib a)) ! j)" and sn = None and ln = None and net = "0x7F" and sub = "0x7F"
      and cmd = 0]
  have stay: "programmed 0x7F d m x = x" for d m x by (simp add: programmed_def)
  have moved: "programmed_port x y (?addrs ! i) d cur =
      (if i = port then make_addr x y (word_of_int uni) else cur)"
    if "cur = make_addr x y (addr_port cur)" for x y d cur
    using that node(7) user(13) high_bit_port(1-3) [of "word_of_int uni"] high_bit_port(4)
    by (simp add: nochange_set programmed_port_def)
  have ports: "port_addr (in_ports (snd (handle e' r (delivered ?p))) i) =
      (if i = port then make_addr (netSwitch r) (subSwitch r) (word_of_int uni) else port_addr (in_ports r i))"
    "port_addr (out_ports (snd (handle e' r (delivered ?p))) i) =
      (if i = port then make_addr (netSwitch r) (subSwitch r) (word_of_int uni) else port_addr (out_ports r i))"
    unfolding call(5,6)
    by (simp_all only: stay refl not_True_eq_False simp_thms if_False)
      (rule moved, use node_ok_universe [OF node(2,7), where dir = ARTNET_INPUT_PORT]
         node_ok_universe [OF node(2,7), where dir = ARTNET_OUTPUT_PORT] in \<open>simp add: port_universe_def\<close>)+
  show ?thesis
    using call(1) ports ip sent
    by (intro exI [of _ ?p] exI [of _ j]) (simp add: Let_def program_packet_def del: opcode.simps)
qed

theorem manager_moves_port_witness:
  "\<exists>p. sent (lib (nm_cmd_universe quiet_env
       \<lparr>stdin = ''0'' @ newline # ''2'' @ newline # ''11'' @ newline # [], lib = demo_sender,
        running = True, stray = False\<rparr>)) = [p] \<and>
     port_addr (out_ports (snd (handle quiet_env demo_node (delivered p))) 2) = make_addr 0 0 11"
proof -
  let ?a = "\<lparr>stdin = ''0'' @ newline # ''2'' @ newline # ''11'' @ newline # [], lib = demo_sender,
    running = True, stray = False\<rparr> :: app"
  have "fits (lib ?a)" using fits_found_node by (simp add: demo_sender_def fits_def list_fits_def)
  moreover have "no_callbacks demo_node" "bind_index demo_node \<le> 1" "netSwitch demo_node = 0"
    "subSwitch demo_node = 0"
    by (simp_all add: no_callbacks_def no_callback_def) (simp_all add: demo_node_def zero_node_def)
  moreover have "entries (nodes demo_sender) \<noteq> []" by (simp add: demo_sender_def found_node_entries)
  moreover have "atoi (''0'' @ [newline]) = int 0" "atoi (''2'' @ [newline]) = int 2"
    "atoi (''11'' @ [newline]) = 11"
    by code_simp+
  ultimately show ?thesis
    using manager_moves_port [OF observer_quiet, where a = ?a and idx = 0 and ?l1.0 = "''0''"
        and ?l2.0 = "''2''" and ?l3.0 = "''11''" and port = 2 and uni = 11 and rest = "[]"
        and e' = quiet_env and r = demo_node and i = 2]
    by (auto simp: Let_def typed_def demo_sender_fields)
qed

end
