(* ===== verification/File_Properties.thy ===== *)
theory File_Properties
  imports Full_Controller Manager_Properties
begin

text \<open>
  Files on the wire: the controller asks the full node for a file by its name, the node sends it in
  blocks of 1024 bytes, and the controller puts them together.  A file of even length arrives whole;
  of one of odd length the library rejects the last block.
\<close>

section \<open>One block\<close>

definition reply_fields :: "u8 \<Rightarrow> u16 \<Rightarrow> u8 list \<Rightarrow> (string \<times> u8 list) list" where
  "reply_fields bl w bs =
     [(''blockId'', [bl]), (''fileLengthHi'', [short_get_high_byte w]),
      (''fileLengthLo'', [short_get_low_byte w]), (''data'', bs)]"

definition reply_packet :: "ip \<Rightarrow> ip \<Rightarrow> u8 \<Rightarrow> u16 \<Rightarrow> u8 list \<Rightarrow> packet" where
  "reply_packet a b bl w bs =
     \<lparr>p_length = 28 + int (length bs), p_from = a, p_to = b, p_type = opcode ARTNET_FILEFNREPLY,
      p_data = fill artnet_file_fn_reply_s (reply_fields bl w bs) (header ARTNET_FILEFNREPLY)\<rparr>"

lemma reply_fields_fit:
  "after_header artnet_file_fn_reply_s (reply_fields bl w bs)"
  "length bs \<le> 1024 \<Longrightarrow> fits_layout artnet_file_fn_reply_s (reply_fields bl w bs)"
  "distinct (map fst (reply_fields bl w bs))"
  by (simp_all add: reply_fields_def layout after_header_def)
     (simp add: fits_layout_def artnet_file_fn_reply_s_def)

interpretation file_form: wire_form artnet_file_fn_reply_s ARTNET_FILEFNREPLY
  "\<lambda>xs. \<exists>bl w bs. length bs \<le> 1024 \<and> xs = reply_fields bl w bs"
  by unfold_locales (use reply_fields_fit in \<open>auto simp del: opcode.simps\<close>)

lemma block_arrives:
  fixes a b :: ip and bl :: u8 and w :: u16 and bs :: "u8 list"
  assumes "length bs \<le> 1024"
  defines "q \<equiv> delivered (reply_packet a b bl w bs)"
  shows "p_type q = opcode ARTNET_FILEFNREPLY" "p_length q = 28 + int (length bs)"
    "get_short artnet_file_fn_reply_s ''fileLengthHi'' ''fileLengthLo'' q = uint w"
    "get8 artnet_file_fn_reply_s ''blockId'' q = bl"
    "\<And>i. i < length bs \<Longrightarrow> p_data q (28 + i) = bs ! i"
    "packet_is_valid q = (even (length bs) \<and> length bs \<le> unat w)"
proof -
  let ?p = "reply_packet a b bl w bs"
  have data: "p_data ?p = fill artnet_file_fn_reply_s (reply_fields bl w bs) (header ARTNET_FILEFNREPLY)"
    and len: "p_length ?p = 28 + int (length bs)"
    by (simp_all add: reply_packet_def)
  have form: "\<exists>b v cs. length cs \<le> 1024 \<and> reply_fields bl w bs = reply_fields b v cs"
    using assms(1) by blast
  note byte = file_form.byte [OF form data, folded q_def]
  note arr = file_form.arrives [OF form data, folded q_def]
  show type: "p_type q = opcode ARTNET_FILEFNREPLY" using arr len by simp
  show l: "p_length q = 28 + int (length bs)" by (simp add: q_def len)
  have bytes: "get8 artnet_file_fn_reply_s ''blockId'' q = bl"
    "get8 artnet_file_fn_reply_s ''fileLengthHi'' q = short_get_high_byte w"
    "get8 artnet_file_fn_reply_s ''fileLengthLo'' q = short_get_low_byte w"
    using byte [of "''blockId''"] byte [of "''fileLengthHi''"] byte [of "''fileLengthLo''"] len
    by (simp_all add: layout) (simp_all add: reply_fields_def)
  show "get8 artnet_file_fn_reply_s ''blockId'' q = bl" by fact
  show total: "get_short artnet_file_fn_reply_s ''fileLengthHi'' ''fileLengthLo'' q = uint w"
    using bytes by (simp add: get_short_def bytes_to_short_split)
  show "\<And>i. i < length bs \<Longrightarrow> p_data q (28 + i) = bs ! i"
    using file_form.item [OF form data, of "''data''" bs] len
    by (simp add: q_def layout) (simp add: reply_fields_def)
  have parity: "(int (length bs) mod 2 = 0) = even (length bs)" by presburger
  have within: "(int (length bs) \<le> uint w) = (length bs \<le> unat w)"
    using le_nat_iff [of "uint w" "length bs"] by (simp only: unat_eq_nat_uint unsigned_greater_eq)
  have pay: "p_length q - (size_of artnet_file_fn_reply_s - ARTNET_FIRMWARE_SIZE * 2) = int (length bs)"
    by (simp add: l layout)
  have fields: "valid_fields ARTNET_FILEFNREPLY q = (even (length bs) \<and> length bs \<le> unat w)"
    using assms(1) unfolding valid_fields.simps valid_file_fn_reply_def Let_def pay total within [symmetric]
      parity [symmetric] by simp
  have "protocol_version q = 14"
    using arr type len file_form.code_known file_form.code_versioned
    by (simp add: protocol_version_def get_short_def bytes_to_short_eq)
  then show "packet_is_valid q = (even (length bs) \<and> length bs \<le> unat w)"
    using type l fields file_form.code_known file_form.code_versioned
    by (simp add: packet_is_valid_def packet_length_is_valid_def packet_fields_are_valid_def layout)
qed

section \<open>The node sends the blocks\<close>

lemma get_bytes_buffer: "k \<le> length bs \<Longrightarrow> get_bytes (buffer_of bs) 0 k = take k bs"
  by (rule nth_equalityI) (simp_all add: buffer_of_def put_bytes_def)

lemma fn_reply_sent:
  assumes "observer e" "mode n = ARTNET_ON" "reply_addr n \<noteq> 0" "k \<le> length bs" "k \<le> 1024"
  shows "sent (snd (artnet_send_file_fn_reply e n bl w (Some (buffer_of bs)) (int k))) =
      sent n @ [reply_packet (ip_addr n) (reply_addr n) bl w (take k bs)]"
    "mode (snd (artnet_send_file_fn_reply e n bl w d len)) = mode n"
    "ip_addr (snd (artnet_send_file_fn_reply e n bl w d len)) = ip_addr n"
    "reply_addr (snd (artnet_send_file_fn_reply e n bl w d len)) = reply_addr n"
  using assms
  by (simp_all add: artnet_send_file_fn_reply_def artnet_tx_file_fn_reply_def send_new_def net_send_sent
      new_packet_def bytes_at_def get_bytes_buffer reply_packet_def reply_fields_def layout Let_def min_def
      del: opcode.simps)

definition file_part :: "u8 list \<Rightarrow> nat \<Rightarrow> u8 list" where
  "file_part data k = take 1024 (drop (1024 * k) data)"

definition file_parts :: "u8 list \<Rightarrow> nat" where
  "file_parts data = (length data + 1023) div 1024"

lemma file_parts_bound: "k < file_parts data \<longleftrightarrow> 1024 * k < length data"
  unfolding file_parts_def by linarith

lemma send_file_blocks_sent:
  assumes "observer e" "mode n = ARTNET_ON" "reply_addr n \<noteq> 0"
  shows "sent (send_file_blocks e data b n) = sent n @
    map (\<lambda>k. reply_packet (ip_addr n) (reply_addr n) (of_nat k) (of_nat (length data)) (file_part data k))
      [b..<file_parts data]"
  using assms
proof (induction e data b n rule: send_file_blocks.induct)
  case (1 e data b n)
  show ?case
  proof (cases "length data \<le> b * file_block")
    case True
    then have "file_parts data \<le> b" using file_parts_bound [of b data] by simp
    with True show ?thesis by (simp add: send_file_blocks.simps)
  next
    case False
    then have more: "b < file_parts data" using file_parts_bound [of b data] by simp
    define k where "k = (if file_block < length data - b * file_block
      then file_block else length data - b * file_block)"
    have k: "k \<le> length (drop (b * file_block) data)" "k \<le> 1024" by (simp_all add: k_def)
    let ?m = "snd (artnet_send_file_fn_reply e n (of_nat b) (of_nat (length data))
      (Some (buffer_of (drop (b * file_block) data))) (int k))"
    note s = fn_reply_sent [OF "1.prems" k]
    have part: "take k (drop (b * file_block) data) = file_part data b"
      by (simp add: file_part_def k_def mult.commute)
    have "sent (send_file_blocks e data (Suc b) ?m) = sent ?m @
      map (\<lambda>k. reply_packet (ip_addr ?m) (reply_addr ?m) (of_nat k) (of_nat (length data)) (file_part data k))
        [Suc b..<file_parts data]"
      using "1.prems" s(2-4) by (intro "1.IH" [OF False refl refl refl, folded k_def]) simp_all
    moreover have "send_file_blocks e data b n = send_file_blocks e data (Suc b) ?m"
      using False by (subst send_file_blocks.simps) (simp only: Let_def k_def if_False)
    ultimately show ?thesis
      using s(3,4) s(1) [of "of_nat b" "of_nat (length data)"] more
      by (simp only: part) (simp add: upt_conv_Cons)
  qed
qed

section \<open>The controller puts them together\<close>

definition dl_holds :: "u8 list \<Rightarrow> nat \<Rightarrow> ctl \<Rightarrow> bool" where
  "dl_holds data k a \<longleftrightarrow>
     dl_total a = int (length data) \<and>
     (\<forall>i < length data. i < 1024 * k \<longrightarrow> dl_buf a i = data ! i) \<and>
     int (min (1024 * k) (length data)) \<le> dl_received a"

lemma file_block_stored:
  assumes "length data \<le> 16384" "k < file_parts data"
    and "k = 0 \<or> dl_holds data k a"
  shows "dl_holds data (Suc k)
    (file_fn_reply_handler (delivered (reply_packet x y (of_nat k) (of_nat (length data)) (file_part data k))) a)"
proof -
  let ?q = "delivered (reply_packet x y (of_nat k) (of_nat (length data)) (file_part data k))"
  have more: "1024 * k < length data" using assms(2) by (simp add: file_parts_bound)
  have len: "length (file_part data k) = min 1024 (length data - 1024 * k)"
    by (simp add: file_part_def min.commute)
  then have "length (file_part data k) \<le> 1024" by simp
  note q = block_arrives [OF this, where a = x and b = y and bl = "of_nat k" and w = "of_nat (length data)"]
  have k: "k < 16" using assms(1) more by linarith
  have nums: "uint (of_nat k :: u8) = int k" "uint (of_nat (length data) :: u16) = int (length data)"
    using k assms(1) by (simp_all add: uint_word_of_int unsigned_of_nat take_bit_nat_eq_self_iff)
  have room: "1024 * k + length (file_part data k) \<le> 16384" using len more assms(1) by simp
  have part: "file_part data k ! (i - 1024 * k) = data ! i"
    if "1024 * k \<le> i" "i < 1024 * k + length (file_part data k)" for i
    using that by (simp add: file_part_def)
  define a0 where "a0 = (if dl_total a \<noteq> int (length data)
    then a\<lparr>dl_total := int (length data), dl_received := 0, dl_buf := zero_mem\<rparr> else a)"
  have stored: "file_fn_reply_handler ?q a =
      a0\<lparr>dl_buf := memcpy (dl_buf a0) (1024 * k) (p_data ?q) 28 (length (file_part data k)),
         dl_received := max (dl_received a0) (int (1024 * k + length (file_part data k)))\<rparr>"
    using q(2-4) nums room more len
    by (simp add: file_fn_reply_handler_def Let_def layout a0_def nat_mult_distrib mult.commute)
  have total: "dl_total a0 = int (length data)" by (simp add: a0_def)
  have old: "dl_buf a0 i = data ! i" if "i < 1024 * k" "i < length data" for i
    using assms(3) that by (auto simp: a0_def dl_holds_def)
  have "memcpy (dl_buf a0) (1024 * k) (p_data ?q) 28 (length (file_part data k)) i = data ! i"
    if "i < length data" "i < 1024 * Suc k" for i
  proof (cases "i < 1024 * k")
    case True
    then show ?thesis using old that(1) by (simp add: memcpy_def)
  next
    case False
    then have "i < 1024 * k + length (file_part data k)" using that len by auto
    moreover from this False have "i - 1024 * k < length (file_part data k)" by linarith
    ultimately show ?thesis using False q(5) [of "i - 1024 * k"] part [of i] by (simp add: memcpy_def)
  qed
  then show ?thesis
    using total len more unfolding stored dl_holds_def by auto
qed

lemma file_part_length: "length (file_part data k) = min 1024 (length data - 1024 * k)"
  by (simp add: file_part_def min.commute)

lemma block_accepted:
  assumes "length data \<le> 16384"
  shows "packet_is_valid (delivered (reply_packet x y bl (of_nat (length data)) (file_part data k))) =
    even (length (file_part data k))"
proof -
  have "unat (of_nat (length data) :: u16) = length data"
    using assms by (simp add: unat_of_nat take_bit_nat_eq_self_iff)
  moreover have "min 1024 (length data - 1024 * k) \<le> length data" by simp
  ultimately show ?thesis
    using block_arrives(6) [of "file_part data k" x y bl "of_nat (length data)"]
    by (simp only: file_part_length min.cobounded1 simp_thms)
qed

definition hears_files :: "node \<Rightarrow> bool" where
  "hears_files c \<longleftrightarrow> fh (callbacks c (Packet_Cb ARTNET_FILE_FN_REPLY_HANDLER)) \<noteq> None"

lemma block_handled:
  assumes "hears_files c" "length data \<le> 16384"
  shows "calls_handler c ARTNET_FILEFNREPLY ARTNET_FILE_FN_REPLY_HANDLER
      (delivered (reply_packet x y bl (of_nat (length data)) (file_part data k))) =
    even (length (file_part data k))"
  using assms(1) block_accepted [OF assms(2)] file_form.code_known
    block_arrives(1) [of "file_part data k" x y bl "of_nat (length data)"]
  by (simp add: calls_handler_def hears_files_def file_part_length del: opcode.simps)

lemma file_replies_snoc:
  "file_replies c (ps @ [p]) a =
     (if calls_handler c ARTNET_FILEFNREPLY ARTNET_FILE_FN_REPLY_HANDLER p
      then file_fn_reply_handler p (file_replies c ps a) else file_replies c ps a)"
  by (simp add: file_replies_def)

abbreviation file_packets :: "ip \<Rightarrow> ip \<Rightarrow> u8 list \<Rightarrow> nat \<Rightarrow> packet list" where
  "file_packets x y data k \<equiv>
     map (\<lambda>k. reply_packet x y (of_nat k) (of_nat (length data)) (file_part data k)) [0..<k]"

lemma parts_received:
  assumes "hears_files c" "length data \<le> 16384" "even (length data)" "0 < k" "k \<le> file_parts data"
  shows "dl_holds data k (file_replies c (map delivered (file_packets x y data k)) a)"
  using assms(4,5)
proof (induction k)
  case (Suc k)
  let ?a = "file_replies c (map delivered (file_packets x y data k)) a"
  have more: "1024 * k < length data" using Suc.prems file_parts_bound [of k data] by simp
  then have "even (length (file_part data k))" using assms(3) by (simp add: file_part_length min_def)
  moreover have "k = 0 \<or> dl_holds data k ?a" using Suc by (cases "k = 0") simp_all
  ultimately show ?case
    using file_block_stored [OF assms(2) _ \<open>k = 0 \<or> _\<close>, of x y] block_handled [OF assms(1,2)] Suc.prems
    by (simp add: file_replies_snoc)
qed simp

text \<open>The parts that arrive of a file of odd length: all but the last.\<close>

lemma single_part_lost:
  assumes "hears_files c" "length data \<le> 1024" "odd (length data)"
  shows "file_replies c (map delivered (file_packets x y data (file_parts data))) a = a"
proof -
  have "file_parts data = 1" using assms(2,3) by (cases "length data") (auto simp: file_parts_def)
  with assms block_handled [OF assms(1), of data x y 0 0] show ?thesis
    by (simp add: file_replies_def file_part_length)
qed

section \<open>The request\<close>

definition request_fields :: "string \<Rightarrow> (string \<times> u8 list) list" where
  "request_fields s =
     [(''lengthHi'', [hi_byte (int (length s))]), (''lengthLo'', [lo_byte (int (length s))]),
      (''filename'', bytes_of s @ [0x00])]"

definition request_packet :: "ip \<Rightarrow> ip \<Rightarrow> string \<Rightarrow> packet" where
  "request_packet a b s =
     \<lparr>p_length = 283, p_from = a, p_to = b, p_type = opcode ARTNET_FILEFNMASTER,
      p_data = fill artnet_file_fn_master_s (request_fields s) (header ARTNET_FILEFNMASTER)\<rparr>"

lemma request_fields_fit:
  "after_header artnet_file_fn_master_s (request_fields s)"
  "length s \<le> 255 \<Longrightarrow> fits_layout artnet_file_fn_master_s (request_fields s)"
  "distinct (map fst (request_fields s))"
  by (simp_all add: request_fields_def layout after_header_def)
     (simp add: fits_layout_def artnet_file_fn_master_s_def bytes_of_def)

interpretation request_form: wire_form artnet_file_fn_master_s ARTNET_FILEFNMASTER
  "\<lambda>xs. \<exists>s. length s \<le> 255 \<and> xs = request_fields s"
  by unfold_locales (use request_fields_fit in \<open>auto simp del: opcode.simps\<close>)

lemma request_arrives:
  fixes a b :: ip and s :: string
  assumes "s \<noteq> []" "length s \<le> 255" "CHR 0x00 \<notin> set s"
  defines "q \<equiv> delivered (request_packet a b s)"
  shows "packet_is_valid q" "p_type q = opcode ARTNET_FILEFNMASTER" "p_from q = a"
    "string_at artnet_file_fn_master_s ''filename'' 256 q = bytes_of s"
proof -
  let ?p = "request_packet a b s"
  have data: "p_data ?p = fill artnet_file_fn_master_s (request_fields s) (header ARTNET_FILEFNMASTER)"
    and len: "p_length ?p = 283"
    by (simp_all add: request_packet_def)
  have form: "\<exists>t. length t \<le> 255 \<and> request_fields s = request_fields t" using assms(2) by blast
  note byte = request_form.byte [OF form data, folded q_def]
  show "p_type q = opcode ARTNET_FILEFNMASTER"
    using request_form.arrives [OF form data] len by (simp add: q_def)
  show "p_from q = a" by (simp add: q_def) (simp add: request_packet_def)
  have bytes: "get8 artnet_file_fn_master_s ''lengthHi'' q = hi_byte (int (length s))"
    "get8 artnet_file_fn_master_s ''lengthLo'' q = lo_byte (int (length s))"
    using byte [of "''lengthHi''"] byte [of "''lengthLo''"] len
    by (simp_all add: layout) (simp_all add: request_fields_def)
  have item: "p_data q (27 + i) = (bytes_of s @ [0]) ! i" if "i \<le> length s" for i
    using request_form.item [OF form data, of "''filename''" "bytes_of s @ [0]" i] that assms(2) len
    by (simp add: q_def layout bytes_of_def) (simp add: request_fields_def bytes_of_def)
  have name: "get_bytes (p_data q) 27 256 ! i = (bytes_of s @ [0]) ! i" if "i \<le> length s" for i
    using item [OF that] that assms(2) by simp
  have nonzero: "(of_char c :: u8) \<noteq> 0" if "c \<in> set s" for c
    using that assms(3) byte_of_char_0 by metis
  have "takeWhile (\<lambda>c. c \<noteq> 0) (get_bytes (p_data q) 27 256) = take (length s) (get_bytes (p_data q) 27 256)"
    using name nonzero assms(2)
    by (intro takeWhile_eq_take_P_nth) (auto simp: nth_append bytes_of_def)
  also have "\<dots> = bytes_of s"
    using name assms(2) by (intro nth_equalityI) (auto simp: bytes_of_def nth_append)
  finally show "string_at artnet_file_fn_master_s ''filename'' 256 q = bytes_of s"
    by (simp add: string_at_def layout)
  have "get_short artnet_file_fn_master_s ''lengthHi'' ''lengthLo'' q = int (length s)"
    using bytes assms(2) by (simp add: get_short_def hi_lo_bytes)
  moreover have "get_at artnet_file_fn_master_s ''filename'' (length s) q = 0"
    using item [of "length s"] by (simp add: get_at_def layout nth_append bytes_of_def)
  ultimately have "valid_fields ARTNET_FILEFNMASTER q"
    using assms(1,2) len
    by (simp add: valid_file_fn_master_def payload_fits_def layout q_def Suc_le_eq)
  then show "packet_is_valid q"
    using request_form.accepted [OF form data] len by (simp add: q_def layout)
qed

section \<open>The answer\<close>

definition serves_files :: "node \<Rightarrow> bool" where
  "serves_files r \<longleftrightarrow>
     fh (callbacks r (Packet_Cb ARTNET_FILE_FN_MASTER_HANDLER)) = Some file_fn_master_fn \<and>
     fh (callbacks r (Packet_Cb ARTNET_RECV_HANDLER)) = None"

definition file_answer :: "u8 list \<Rightarrow> u8 list" where
  "file_answer name = (case find_mem_file name of None \<Rightarrow> not_found | Some f \<Rightarrow> file_data f)"

lemma file_answer_length: "0 < length (file_answer name)" "length (file_answer name) \<le> 1024"
  by (simp_all add: file_answer_def find_mem_file_def k_mem_files_def not_found_def bytes_of_def
      k_full_node_log_def k_scene_a_dmx_def k_product_note_def split: option.split)

lemma node_answers:
  assumes "mode r = ARTNET_ON" "serves_files r" "packet_is_valid q"
    and "p_type q = opcode ARTNET_FILEFNMASTER" "p_from q \<noteq> 0"
  defines "data \<equiv> file_answer (string_at artnet_file_fn_master_s ''filename'' 256 q)"
  shows "sent (snd (handle (full_node_env e) r q)) =
    sent r @ file_packets (ip_addr r) (p_from q) data (file_parts data)"
proof -
  let ?r = "r\<lparr>reply_addr := p_from q\<rparr>"
  let ?name = "string_at artnet_file_fn_master_s ''filename'' 256 q"
  have "snd (handle (full_node_env e) r q) = snd (file_fn_master_handler (printing e) ?r q)"
    using assms(2-4) request_form.code_known
    by (simp add: handle_def check_callback_def run_callback_def serves_files_def packet_is_valid_def
        handle_file_fn_master_def full_node_env_def full_node_call_def del: opcode.simps)
  moreover have "sent (snd (file_fn_master_handler (printing e) ?r q)) =
      sent r @ file_packets (ip_addr r) (p_from q) data (file_parts data)"
  proof (cases "find_mem_file ?name")
    case None
    have d: "data = not_found" using None by (simp add: data_def file_answer_def)
    have l: "length not_found = 9" by (simp add: not_found_def bytes_of_def)
    have "file_parts not_found = 1" "file_part not_found 0 = not_found" by (simp_all add: file_parts_def file_part_def l)
    with fn_reply_sent(1) [OF observer_printing, of ?r 9 not_found e 0 9] None assms(1,5) d l
    show ?thesis by (simp add: file_fn_master_handler_def)
  next
    case (Some f)
    have "data = file_data f" using Some by (simp add: data_def file_answer_def)
    with send_file_blocks_sent [OF observer_printing, of ?r e "file_data f" 0] Some assms(1,5)
    show ?thesis by (simp add: file_fn_master_handler_def)
  qed
  ultimately show ?thesis by simp
qed

section \<open>The command\<close>

lemma cut_typed: "newline \<notin> set l \<Longrightarrow> CHR 0x0D \<notin> set l \<Longrightarrow> cut_newline (l @ [newline]) = l"
  by (auto simp: cut_newline_def takeWhile_append)

lemma download_call:
  assumes "observer e" "fits (lib a)" "mode (lib a) = ARTNET_ON" "idx < length (entries (nodes (lib a)))"
    and "stdin a = l1 @ newline # l2 @ newline # rest" "typed 16 l1" "typed 256 l2"
    and "atoi (l1 @ [newline]) = int idx" "l2 \<noteq> []" "CHR 0x0D \<notin> set l2"
  shows "\<exists>j. e_ip (pub (entries (nodes (lib a)) ! j)) = e_ip (pub (entries (nodes (lib a)) ! idx)) \<and>
    j < length (entries (nodes (lib a))) \<and>
    sent (lib (fc_cmd_file_download e a)) =
      sent (lib a) @ [request_packet (ip_addr (lib a)) (ent_ip (entries (nodes (lib a)) ! j)) l2]"
proof -
  let ?t = "pub (entries (nodes (lib a)) ! idx)"
  let ?n = "(lib a)\<lparr>nodes := (nodes (lib a))\<lparr>current := Some idx\<rparr>\<rparr>"
  have "find_private_entry (lib a) (Some ?t) \<noteq> None"
    using assms(2,4) listed_entry(2) [of "lib a" ?t] by simp
  then obtain j where j: "find_private_entry ?n (Some ?t) = Some j"
    by (auto simp: find_private_entry_def)
  then have ip: "e_ip (pub (entries (nodes (lib a)) ! j)) = e_ip ?t"
    by (auto simp: find_private_entry_def dest: find_pos_Some)
  have bound: "j < length (entries (nodes (lib a)))" using find_private_entry_bound [OF j] by simp
  have l2: "newline \<notin> set l2" "length l2 \<le> 254" using assms(7) by (auto simp: typed_def)
  have "lib (fc_cmd_file_download e a) = snd (artnet_send_file_fn_master e ?n (Some ?t) (Some l2))"
    using with_node_typed [OF assms(2,6,5,8,4)] assms(9)
    by (simp add: fc_cmd_file_download_def with_line_typed [OF assms(7)] cut_typed [OF l2(1) assms(10), simplified]
        call_def Let_def)
  moreover have "sent (snd (artnet_send_file_fn_master e ?n (Some ?t) (Some l2))) =
      sent (lib a) @ [request_packet (ip_addr (lib a)) (ent_ip (entries (nodes (lib a)) ! j)) l2]"
    using assms(1,3,9) j l2(2)
    by (simp add: artnet_send_file_fn_master_def to_entry_def artnet_tx_file_fn_master_def send_new_def
        net_send_sent new_packet_def request_packet_def request_fields_def layout Let_def min_def bytes_of_def
        del: opcode.simps)
  ultimately show ?thesis using ip bound by auto
qed

section \<open>Downloads\<close>

text \<open>C30: A user who types the number of a node and the name of a file makes the controller send one
  request, to that node; the full node answers it with packets to the controller; and when the
  controller has handled them, its buffer holds the file, complete and byte by byte, if the file has an
  even length.\<close>

theorem file_is_downloaded:
  assumes user: "observer e" "fits (lib a)" "mode (lib a) = ARTNET_ON"
      "idx < length (entries (nodes (lib a)))" "stdin a = l1 @ newline # l2 @ newline # rest"
      "typed 16 l1" "typed 256 l2" "atoi (l1 @ [newline]) = int idx" "l2 \<noteq> []" "CHR 0x0D \<notin> set l2"
      "ip_addr (lib a) \<noteq> 0"
    and node: "mode r = ARTNET_ON" "serves_files r"
    and answer: "hears_files c" "even (length (file_answer (bytes_of l2)))"
  shows "\<exists>p qs. sent (lib (fc_cmd_file_download e a)) = sent (lib a) @ [p] \<and>
    (\<exists>t \<in> set (entries (nodes (lib a))). p_to p = ent_ip t) \<and>
    sent (snd (handle (full_node_env e') r (delivered p))) = sent r @ qs \<and>
    (\<forall>q \<in> set qs. p_to q = ip_addr (lib a)) \<and>
    (let data = file_answer (bytes_of l2); b = file_replies c (map delivered qs) a'
     in dl_total b = int (length data) \<and> int (length data) \<le> dl_received b \<and>
        get_bytes (dl_buf b) 0 (length data) = data)"
proof -
  let ?data = "file_answer (bytes_of l2)"
  obtain j where j: "e_ip (pub (entries (nodes (lib a)) ! j)) = e_ip (pub (entries (nodes (lib a)) ! idx))"
    "j < length (entries (nodes (lib a)))"
    "sent (lib (fc_cmd_file_download e a)) =
      sent (lib a) @ [request_packet (ip_addr (lib a)) (ent_ip (entries (nodes (lib a)) ! j)) l2]"
    using download_call [OF user(1-10)] by blast
  let ?p = "request_packet (ip_addr (lib a)) (ent_ip (entries (nodes (lib a)) ! j)) l2"
  let ?qs = "file_packets (ip_addr r) (ip_addr (lib a)) ?data (file_parts ?data)"
  have l2: "length l2 \<le> 255" "CHR 0x00 \<notin> set l2" using user(7) by (auto simp: typed_def)
  note arr = request_arrives [OF user(9) l2, where a = "ip_addr (lib a)"
      and b = "ent_ip (entries (nodes (lib a)) ! j)"]
  have qs: "sent (snd (handle (full_node_env e') r (delivered ?p))) = sent r @ ?qs"
    using node_answers [OF node arr(1,2), of e'] arr(3,4) user(11) by simp
  have "length ?data \<le> 16384" using file_answer_length(2) [of "bytes_of l2"] by linarith
  moreover have parts: "0 < file_parts ?data"
    using file_answer_length(1) [of "bytes_of l2"] file_parts_bound [of 0 ?data] by simp
  ultimately have got: "dl_holds ?data (file_parts ?data) (file_replies c (map delivered ?qs) a')"
    using parts_received [OF answer(1) _ answer(2), of "file_parts ?data"] by blast
  have all: "length ?data \<le> 1024 * file_parts ?data" using file_parts_bound [of "file_parts ?data" ?data] by simp
  let ?b = "file_replies c (map delivered ?qs) a'"
  have "get_bytes (dl_buf ?b) 0 (length ?data) = ?data"
    using got all by (intro nth_equalityI) (simp_all add: dl_holds_def)
  moreover have "dl_total ?b = int (length ?data)" "int (length ?data) \<le> dl_received ?b"
    using got all by (simp_all add: dl_holds_def min_def split: if_splits)
  moreover have "\<forall>q \<in> set ?qs. p_to q = ip_addr (lib a)" by (simp add: reply_packet_def)
  moreover have "\<exists>t \<in> set (entries (nodes (lib a))). p_to ?p = ent_ip t"
    using j(2) by (auto simp: request_packet_def)
  ultimately show ?thesis
    using j(3) qs unfolding Let_def by (intro exI [of _ ?p] exI [of _ ?qs] conjI)
qed

definition file_server :: node where
  "file_server = demo_node\<lparr>callbacks := (\<lambda>_. no_callback)(Packet_Cb ARTNET_FILE_FN_MASTER_HANDLER :=
     \<lparr>fh = Some file_fn_master_fn, cb_data = 0\<rparr>)\<rparr>"

definition file_reader :: node where
  "file_reader = demo_sender\<lparr>callbacks := (\<lambda>_. \<lparr>fh = Some print_fn, cb_data = 0\<rparr>)\<rparr>"

lemma file_roles [simp]:
  "serves_files file_server" "hears_files file_reader" "mode file_server = ARTNET_ON"
  "sent file_server = []"
  by (simp_all add: serves_files_def hears_files_def file_server_def file_reader_def no_callback_def)
     (simp_all add: demo_node_def zero_node_def)

definition demo_ctl :: "string \<Rightarrow> ctl" where
  "demo_ctl s = \<lparr>stdin = s, lib = demo_sender, running = True, stray = False, flooding = None,
     dl_buf = zero_mem, dl_total = - 1, dl_received = 0\<rparr>"

lemma demo_ctl_fields [simp]:
  "stdin (demo_ctl s) = s" "lib (demo_ctl s) = demo_sender" "stray (demo_ctl s) = False"
  "flooding (demo_ctl s) = None" "running (demo_ctl s)"
  by (simp_all add: demo_ctl_def)

lemma demo_sender_fits: "fits demo_sender" "entries (nodes demo_sender) \<noteq> []"
  using fits_found_node by (simp_all add: demo_sender_def fits_def list_fits_def found_node_entries)

lemma demo_lines: "typed 16 ''0''" "atoi (''0'' @ [newline]) = int 0"
  by (simp add: typed_def) code_simp

theorem file_is_downloaded_witness:
  "\<exists>p qs. sent (lib (fc_cmd_file_download quiet_env
       (demo_ctl (''0'' @ newline # ''scene_A.dmx'' @ newline # [])))) = [p] \<and>
     sent (snd (handle (full_node_env quiet_env) file_server (delivered p))) = qs \<and>
     get_bytes (dl_buf (file_replies file_reader (map delivered qs) (demo_ctl []))) 0 8 = k_scene_a_dmx"
proof -
  have answer: "file_answer (bytes_of ''scene_A.dmx'') = k_scene_a_dmx"
    by (simp add: file_answer_def find_mem_file_def k_mem_files_def bytes_of_def of_char_def)
  have len: "length k_scene_a_dmx = 8" by (simp add: k_scene_a_dmx_def)
  have "typed 256 ''scene_A.dmx''" by (simp add: typed_def)
  then show ?thesis
    using file_is_downloaded [OF observer_quiet, where
        a = "demo_ctl (''0'' @ newline # ''scene_A.dmx'' @ newline # [])" and idx = 0 and ?l1.0 = "''0''"
        and ?l2.0 = "''scene_A.dmx''" and rest = "[]" and r = file_server and c = file_reader
        and e' = quiet_env and a' = "demo_ctl []"]
      demo_sender_fits demo_lines
    by (auto simp: Let_def answer len demo_sender_fields)
qed

text \<open>A request for the node's text file, or for a file it does not have, is answered too; but
  the controller's library rejects the answer, which has an odd length, and nothing of the download
  changes.\<close>

theorem odd_file_is_lost:
  assumes "mode r = ARTNET_ON" "serves_files r" "packet_is_valid q"
    and "p_type q = opcode ARTNET_FILEFNMASTER" "p_from q \<noteq> 0" "hears_files c"
    and "string_at artnet_file_fn_master_s ''filename'' 256 q = bytes_of ''readme.txt'' \<or>
      find_mem_file (string_at artnet_file_fn_master_s ''filename'' 256 q) = None"
  shows "\<exists>qs. sent (snd (handle (full_node_env e) r q)) = sent r @ qs \<and> qs \<noteq> [] \<and>
    file_replies c (map delivered qs) a = a"
proof -
  let ?data = "file_answer (string_at artnet_file_fn_master_s ''filename'' 256 q)"
  have readme: "file_answer (bytes_of ''readme.txt'') = k_product_note"
    by (simp add: file_answer_def find_mem_file_def k_mem_files_def bytes_of_def of_char_def)
  have odd: "odd (length k_product_note)" "odd (length not_found)"
    by (simp_all add: k_product_note_def not_found_def bytes_of_def)
  from assms(7) have "odd (length ?data)"
  proof
    assume "string_at artnet_file_fn_master_s ''filename'' 256 q = bytes_of ''readme.txt''"
    then show ?thesis by (simp only: readme odd not_False_eq_True)
  next
    assume "find_mem_file (string_at artnet_file_fn_master_s ''filename'' 256 q) = None"
    then show ?thesis by (simp only: file_answer_def option.case odd not_False_eq_True)
  qed
  moreover have "0 < file_parts ?data"
    using file_answer_length(1) file_parts_bound [of 0 ?data] by simp
  ultimately show ?thesis
    using node_answers [OF assms(1-5), of e] single_part_lost [OF assms(6) file_answer_length(2)]
    by (intro exI [of _ "file_packets (ip_addr r) (p_from q) ?data (file_parts ?data)"]) simp
qed

theorem odd_file_is_lost_witness:
  "\<exists>qs. sent (snd (handle (full_node_env quiet_env) file_server
       (delivered (request_packet 1 2 ''readme.txt'')))) = qs \<and> qs \<noteq> [] \<and>
     dl_total (file_replies file_reader (map delivered qs) (demo_ctl [])) = - 1"
proof -
  have "''readme.txt'' \<noteq> []" "length ''readme.txt'' \<le> 255" "CHR 0x00 \<notin> set ''readme.txt''" by simp_all
  note q = request_arrives [OF this, of 1 2]
  have "dl_total (demo_ctl []) = - 1" by (simp add: demo_ctl_def)
  with odd_file_is_lost [OF file_roles(3,1) q(1,2) _ file_roles(2), of quiet_env "demo_ctl []"] q(3,4)
  show ?thesis by auto
qed

end
