(* ===== verification/Controller_Properties.thy ===== *)
theory Controller_Properties
  imports File_Properties Starting
begin

text \<open>
  The example programs as a whole: the full controller's sessions, the one command with which it
  leaves its memory and the two that never send what they announce; and the full node, which no
  sequence of packets stops.
\<close>

section \<open>The controller starts\<close>

lemma controller_config:
  "fc_config e = identify ARTNET_SRV ARTNET_ST_CONTROLLER ''FullCtrl''
     ''libartnet Art-Net 4 Full Controller'' @ drop 4 (fc_config e)"
  by (simp add: fc_config_def identify_def)

lemma controller_keeps_role: "only_sends e \<Longrightarrow> keeps_role (drop 4 (fc_config e))"
  by (auto simp: fc_config_def identify_def keeps_role_def list_all_iff port_config_def Let_def)

lemma controller_role:
  "only_sends e \<Longrightarrow> role (configure (fc_config e) n) = (ARTNET_SRV, mode n, rdm_reply_addr n)"
  using configure_identified [OF controller_keeps_role [of e]] controller_config [of e] by metis

lemma controller_is_server:
  assumes "modest e" "fc_start e pf args input = Some a"
  shows "node_type (lib a) = ARTNET_SRV"
proof -
  have e: "only_sends e" using assms(1) by (simp add: modest_def)
  have "node_type n = ARTNET_SRV" if l: "launch e pf ip (fc_config e) = Some n" for ip n
  proof -
    obtain m where m: "n = snd (artnet_start e (socket_calls pf) (configure (fc_config e) m))"
      using l by (rule launch_started)
    show ?thesis
      using controller_role [OF e, of m] start_keeps(1) [OF e, of "socket_calls pf" "configure (fc_config e) m"] m
      by (simp add: role_def)
  qed
  moreover have "node_type (snd (artnet_send_poll e n None ttm)) = node_type n" for n ttm
    using role_sends(1) [OF e] by (simp add: role_def artnet_send_poll_def artnet_tx_poll_def)
  ultimately show ?thesis
    using assms(2) by (auto simp: fc_start_def controller_start_def app.defs split: option.splits)
qed

lemma demo_fc_start: "\<exists>a. fc_start quiet_env demo_platform [] input = Some a"
proof -
  have "only_sends quiet_env" using calm_modest [OF calm_quiet] by (simp add: modest_def)
  from demo_launch [OF controller_role [OF this, of demo_new, unfolded mode_demo_new], of quiet_env]
  show ?thesis using sends_whole_quiet by (auto simp: fc_start_def controller_start_def)
qed

section \<open>Sessions of the full controller\<close>



text \<open>Only command 6 takes the controller outside its arrays: a round of a controller that has not
  left them leaves them only when it runs that command.\<close>

theorem only_command_6_strays:
  assumes "polite_event ev" "solo UNIV e (lib a)" "\<not> stray a" "\<not> runs_6 ev a"
  shows "\<exists>b. fc_round e h wave ev a = Some b \<and> \<not> stray b \<and> solo UNIV e (lib b)"
  using fc_round_ok [of ev "(False, UNIV)" e a h wave] assms by (auto simp: returns_in_def app_in_def)

lemma solo_new: "solo UNIV quiet_env demo_new"
  using new_node_solo [OF calm_modest [OF calm_quiet] demo_new_eq] .

theorem only_command_6_strays_witness:
  "\<exists>b. fc_round quiet_env demo_runtime (\<lambda>t k. zero_mem) (Wakeup [Datagram 0x0300000A demo_frame] True)
       ((demo_ctl ''d'')\<lparr>lib := demo_new\<rparr>) = Some b \<and> \<not> stray b"
proof -
  have "polite_event (Wakeup [Datagram 0x0300000A demo_frame] True)"
    using polite_demo_frame by (simp add: polite_event_def)
  moreover have "\<not> runs_6 (Wakeup [Datagram 0x0300000A demo_frame] True) ((demo_ctl ''d'')\<lparr>lib := demo_new\<rparr>)"
  proof -
    have "fgets 256 ''d'' = Some (''d'', [])" by code_simp
    then show ?thesis by (simp add: runs_6_def first_char_def)
  qed
  ultimately show ?thesis
    using only_command_6_strays [of "Wakeup [Datagram 0x0300000A demo_frame] True" quiet_env
        "(demo_ctl ''d'')\<lparr>lib := demo_new\<rparr>" demo_runtime "\<lambda>t k. zero_mem"] solo_new by auto
qed

text \<open>C40: Command 6, given a node, a port and the wish to disable it, writes outside its array of four
  settings exactly when the port is not one of 0 to 3; with the wish to enable it, never.\<close>

theorem command_6_unchecked_port:
  assumes "fits (lib a)" "idx < length (entries (nodes (lib a)))" "\<not> stray a"
    and "stdin a = l1 @ newline # l2 @ newline # l3 @ newline # rest"
    and "typed 16 l1" "typed 32 l2" "typed 32 l3" "l2 \<noteq> []" "l3 \<noteq> []"
    and "atoi (l1 @ [newline]) = int idx"
  shows "stray (fc_cmd_input e a) \<longleftrightarrow>
    atoi (l3 @ [newline]) = 0 \<and> (atoi (l2 @ [newline]) < 0 \<or> 3 < atoi (l2 @ [newline]))"
proof -
  have first: "first_char (l @ [newline]) \<noteq> newline" if "typed cap l" "l \<noteq> []" for l cap
    using that by (cases l) (auto simp: first_char_def typed_def)
  have line: "read_number 32 d f (b::ctl) = f (atoi (l @ [newline])) (b\<lparr>stdin := r\<rparr>)"
    if "typed 32 l" "l \<noteq> []" "stdin b = l @ newline # r" for l r d f b
    using typed_line [OF that(1), of r] first [OF that(1,2)] that(3) by (simp add: read_number_def)
  show ?thesis
    using with_node_typed [OF assms(1,5,4,10,2)] assms(3)
    by (simp add: fc_cmd_input_def line [of l2 _ "l3 @ newline # rest", OF assms(6,8)]
        line [of l3 _ rest, OF assms(7,9)] call_def Let_def) auto
qed

theorem command_6_unchecked_port_witness:
  "stray (fc_cmd_input quiet_env (demo_ctl (''0'' @ newline # ''7'' @ newline # ''0'' @ newline # [])))"
proof -
  let ?s = "''0'' @ newline # ''7'' @ newline # ''0'' @ newline # []"
  have "typed 32 ''7''" "typed 32 ''0''" by (simp_all add: typed_def)
  moreover have "atoi (''7'' @ [newline]) = 7" "atoi (''0'' @ [newline]) = 0" by code_simp+
  ultimately show ?thesis
    using command_6_unchecked_port [of "demo_ctl ?s" 0 "''0''" "''7''" "''0''" "[]" quiet_env]
      demo_sender_fits demo_lines by simp
qed

section \<open>Levels that are never sent\<close>

lemma raw_dmx_refused: "node_type n = ARTNET_SRV \<Longrightarrow> \<exists>r. artnet_raw_send_dmx e n uni len d = Some (r, n)"
  by (simp add: artnet_raw_send_dmx_def)

lemma refused_call:
  assumes "\<exists>r. f (lib a) = Some (r, lib a)"
  shows "call_opt f a = Some a"
  using assms by (auto simp: call_opt_def)

lemma dmx_send_refused:
  assumes "node_type (lib a) = ARTNET_SRV"
  shows "\<exists>b. fc_cmd_dmx_send e a = Some b \<and> lib b = lib a"
proof -
  have step: "\<exists>b. read_number cap d f (x::ctl) = Some b \<and> lib b = lib x"
    if "node_type (lib x) = ARTNET_SRV"
      "\<And>v y. lib y = lib x \<Longrightarrow> \<exists>b. f v (y::ctl) = Some b \<and> lib b = lib y" for cap d f x
    using that(2) by (fastforce simp: read_number_def split: option.split)
  have "call_opt (\<lambda>n. artnet_raw_send_dmx e n uni len d) y = Some y"
    if "lib y = lib a" for uni len d and y :: ctl
    by (rule refused_call) (use raw_dmx_refused that assms in simp)
  then have send: "\<exists>b. call_opt (\<lambda>n. artnet_raw_send_dmx e n uni len d) y = Some b \<and> lib b = lib y"
    if "lib y = lib a" for uni len d and y :: ctl
    using that by blast
  show ?thesis
    unfolding fc_cmd_dmx_send_def Let_def
    by (rule step, use assms in simp)+ (use assms send in simp)
qed

lemma flood_refused:
  "node_type (lib a) = ARTNET_SRV \<Longrightarrow> flood_universes e wave f is a = Some a"
  by (induction "is") (simp_all add: refused_call raw_dmx_refused)



section \<open>Sessions of the full node\<close>

text \<open>The full node, with the handlers that answer data, directory and file requests and that
  send replies from inside a callback, survives whatever polite nodes send to it, its test frames
  included: every round returns, the node stays well formed, and the program stays inside its memory.\<close>

theorem full_node_session_safe:
  assumes "\<forall>k. env_malloc e k" "full_node_start e pf args = Some a" "list_all polite_event evs"
  shows "\<exists>b. session (full_node_round e) evs a = Some b \<and> reachable (full_node_env e) (lib b) \<and>
    node_ok (lib b) \<and> \<not> stray b"
proof -
  obtain b where "session (full_node_round e) evs a = Some b" "app_ok (full_node_env e) b"
    using fn.session_ok [OF assms(3) full_node_start_ok [OF assms(1,2)]] by blast
  moreover from this have "fits (lib b)" using solo_modest by (auto simp: app_in_def)
  ultimately show ?thesis by (auto simp: app_in_def solo_def fits_def)
qed

lemma demo_full_node_start: "\<exists>a. full_node_start quiet_env demo_platform [] = Some a"
proof -
  let ?e = "full_node_env quiet_env"
  let ?os = "\<lparr>opt_ip = None, opt_net = 0, opt_subnet = 0, opt_universe = 0\<rparr>"
  have e: "only_sends ?e" by (rule full_node_only_sends)
  have "full_node_config ?e ?os = identify ARTNET_NODE ARTNET_ST_NODE ''FullNode''
      ''libartnet Art-Net 4 Full Feature Node'' @ drop 4 (full_node_config ?e ?os)"
    by (simp add: full_node_config_def identify_def)
  moreover have "keeps_role (drop 4 (full_node_config ?e ?os))"
    using e
    by (auto simp: full_node_config_def identify_def keeps_role_def list_all_iff port_config_def Let_def
        artnet_set_dmx_handler_def artnet_set_program_handler_def artnet_set_firmware_handler_def)
  ultimately have "role (configure (full_node_config ?e ?os) demo_new) = (ARTNET_NODE, ARTNET_STANDBY, rdm_reply_addr demo_new)"
    using configure_identified mode_demo_new by metis
  from demo_launch [OF this, of ?e] show ?thesis
    by (auto simp: full_node_start_def parse_node_options_def node_options_ok_def)
qed

theorem full_node_session_safe_witness:
  "\<exists>a b. full_node_start quiet_env demo_platform [] = Some a \<and>
     session (full_node_round quiet_env) [Wakeup [Datagram 0x0300000A demo_frame] True, Signal] a = Some b \<and>
     node_ok (lib b)"
proof -
  obtain a where a: "full_node_start quiet_env demo_platform [] = Some a"
    using demo_full_node_start by blast
  have "list_all polite_event [Wakeup [Datagram 0x0300000A demo_frame] True, Signal]"
    using polite_demo_frame by (simp add: polite_event_def)
  moreover have "\<forall>k. env_malloc quiet_env k" by (simp add: quiet_env_def)
  ultimately show ?thesis using full_node_session_safe [OF _ a] a by blast
qed

end
