(* ===== verification/Printing.thy ===== *)
theory Printing
  imports Full_Controller
begin

text \<open>
  What the handlers of \<open>full_controller\<close> and \<open>full_node\<close> print, as text, with \<open>artnet_dump_config\<close>
  and the list of discovered nodes.  A handler prints nothing (\<open>None\<close>) when \<open>printf\<close> would read
  past the end of the packet's buffer or of the array it was given.
\<close>

section \<open>printf\<close>

type_synonym printout = "u8 list option"

definition lit :: "string \<Rightarrow> printout" where
  "lit s = Some (bytes_of s)"

definition line_end :: printout where
  "line_end = lit [newline]"

definition say :: "printout list \<Rightarrow> printout" where
  "say xs = map_option concat (those xs)"

definition upper_hex :: "nat \<Rightarrow> u8" where
  "upper_hex d = (if d < 10 then of_nat (48 + d) else of_nat (55 + d))"

text \<open>The conversions \<open>%d\<close>, \<open>%0wd\<close>, \<open>%0wX\<close> and \<open>%#02x\<close>.\<close>

definition fmt_int :: "int \<Rightarrow> printout" where
  "fmt_int x = Some (if x < 0 then 45 # map digit_char (digits 10 (nat (- x)))
                   else map digit_char (digits 10 (nat x)))"

definition fmt_int0 :: "nat \<Rightarrow> int \<Rightarrow> printout" where
  "fmt_int0 w x = Some (if x < 0 then 45 # pad_zeros (w - 1) (map digit_char (digits 10 (nat (- x))))
                      else pad_zeros w (map digit_char (digits 10 (nat x))))"

definition fmt_hex :: "nat \<Rightarrow> int \<Rightarrow> printout" where
  "fmt_hex w x = Some (pad_zeros w (map upper_hex (digits 16 (nat (x mod 2 ^ 32)))))"

definition fmt_alt_02x :: "u8 \<Rightarrow> printout" where
  "fmt_alt_02x x =
     (if x = 0 then lit ''00''
      else Some (bytes_of ''0x'' @ map digit_char (digits 16 (unat x))))"

definition separated :: "string \<Rightarrow> printout list \<Rightarrow> printout list" where
  "separated sep xs = (case xs of [] \<Rightarrow> [] | x # xs \<Rightarrow> x # concat (map (\<lambda>y. [lit sep, y]) xs))"

text \<open>
  The text at byte \<open>j\<close> of a field: \<open>%s\<close> reads up to a 0, \<open>%.ks\<close> at most \<open>k\<close> bytes.  The packet's
  union is the last member of \<open>artnet_packet_t\<close>, so what is behind it is not the packet's.
\<close>

definition fmt_s :: "nat option \<Rightarrow> layout \<Rightarrow> string \<Rightarrow> nat \<Rightarrow> packet \<Rightarrow> printout" where
  "fmt_s prec L f j p =
     (let i = offset L f + j;
          room = sizeof_union - i;
          k = (case prec of None \<Rightarrow> room | Some k \<Rightarrow> min k room);
          s = takeWhile (\<lambda>c. c \<noteq> 0) (get_bytes (p_data p) i k)
      in if length s < k \<or> prec = Some k then Some s else None)"

text \<open>\<open>%s\<close> of an array of its own.\<close>

definition fmt_array :: "u8 list \<Rightarrow> printout" where
  "fmt_array bs = (if 0 \<in> set bs then Some (takeWhile (\<lambda>c. c \<noteq> 0) bs) else None)"

definition num :: "layout \<Rightarrow> string \<Rightarrow> packet \<Rightarrow> printout" where
  "num L f p = fmt_int (uint (get8 L f p))"

definition num2 :: "layout \<Rightarrow> string \<Rightarrow> packet \<Rightarrow> printout" where
  "num2 L f p = fmt_int0 2 (uint (get8 L f p))"

definition hex2 :: "layout \<Rightarrow> string \<Rightarrow> packet \<Rightarrow> printout" where
  "hex2 L f p = fmt_hex 2 (uint (get8 L f p))"

definition hex_list :: "u8 list \<Rightarrow> printout list" where
  "hex_list bs = map (\<lambda>b. fmt_hex 2 (uint b)) bs"

definition dotted_fields :: "layout \<Rightarrow> string list \<Rightarrow> packet \<Rightarrow> printout list" where
  "dotted_fields L fs p = separated ''.'' (map (\<lambda>f. num L f p) fs)"

text \<open>\<open>%02X\<close> of each byte, after a blank.\<close>

definition dump_bytes :: "u8 list \<Rightarrow> printout list" where
  "dump_bytes bs = concat (map (\<lambda>b. [lit '' '', fmt_hex 2 (uint b)]) bs)"

definition prompt :: printout where
  "prompt = lit ''> ''"

section \<open>The handlers of the controller (full_controller.c)\<close>

definition port_list :: "string \<Rightarrow> packet \<Rightarrow> printout list" where
  "port_list f p =
     concat (map (\<lambda>i. [lit '' '', fmt_int (uint (get_at artnet_reply_s f i p AND 0x0F))])
       [0..<min (unat (get8 artnet_reply_s ''numbports'' p)) ARTNET_MAX_PORTS])"

definition fc_reply_handler :: "packet \<Rightarrow> printout" where
  "fc_reply_handler p =
     say ([lit (newline # ''[Reply] ''), fmt_s (Some 18) artnet_reply_s ''shortName'' 0 p, lit '' at ''] @
          separated ''.'' (map (\<lambda>b. fmt_int (uint b)) (get_n artnet_reply_s ''ip'' 4 p)) @
          [lit ''  Net '', num artnet_reply_s ''netSwitch'' p,
           lit '' Sub '', fmt_int (uint (get8 artnet_reply_s ''subSwitch'' p AND 0x0F)),
           lit ''  Ports '', fmt_int (get_short artnet_reply_s ''numbportsH'' ''numbports'' p),
           lit ''  style=0x'', hex2 artnet_reply_s ''style'' p,
           lit ''  status2=0x'', hex2 artnet_reply_s ''status2'' p, line_end] @
          (if 0 < get8 artnet_reply_s ''numbports'' p
           then [lit ''        in:''] @ port_list ''swIn'' p @
                [lit ''  out:''] @ port_list ''swOut'' p @ [line_end]
           else []) @ [prompt])"

definition uid_at :: "nat \<Rightarrow> packet \<Rightarrow> u8 list" where
  "uid_at i p =
     get_bytes (p_data p) (offset artnet_toddata_s ''tod'' + i * ARTNET_RDM_UID_WIDTH) ARTNET_RDM_UID_WIDTH"

definition fc_tod_data_handler :: "packet \<Rightarrow> printout" where
  "fc_tod_data_handler p =
     (let uidCount = unat (get8 artnet_toddata_s ''uidCount'' p);
          count = (if 32 < uidCount then 32 else uidCount)
      in say ([lit (newline # ''[TodData] net=''), num artnet_toddata_s ''net'' p,
               lit '' addr=0x'', hex2 artnet_toddata_s ''address'' p,
               lit '' uidCount='', num artnet_toddata_s ''uidCount'' p] @
              (if uidCount = 0 then [lit ('' (no devices)'' @ [newline])]
               else line_end # concat (map (\<lambda>i.
                 [lit ''  ['', fmt_int (int i), lit ''] ''] @ separated '':'' (hex_list (uid_at i p)) @ [line_end])
                 [0..<count])) @ [prompt]))"

definition fc_rdm_handler :: "packet \<Rightarrow> printout" where
  "fc_rdm_handler p =
     say ([lit (newline # ''[Rdm] net=''), num artnet_rdm_s ''net'' p,
           lit '' addr=0x'', hex2 artnet_rdm_s ''address'' p, lit '' cmd=0x'', hex2 artnet_rdm_s ''cmd'' p,
           line_end, lit ''  data:''] @ dump_bytes (get_n artnet_rdm_s ''data'' 32 p) @ [line_end, prompt])"

definition rdmsub_line :: "string \<Rightarrow> packet \<Rightarrow> printout list" where
  "rdmsub_line tag p =
     [lit tag, lit '' uid=''] @ separated '':'' (hex_list (get_n artnet_rdm_sub_s ''uid'' 6 p)) @
     [lit '' cc=0x'', hex2 artnet_rdm_sub_s ''commandClass'' p,
      lit '' pid=0x'', fmt_hex 4 (get_short artnet_rdm_sub_s ''paramIdHi'' ''paramId'' p),
      lit '' subCount='', fmt_int (get_short artnet_rdm_sub_s ''subCountHi'' ''subCount'' p), line_end]"

definition fc_rdmsub_handler :: "packet \<Rightarrow> printout" where
  "fc_rdmsub_handler p =
     say ([line_end] @ rdmsub_line ''[RdmSub]'' p @ [lit ''  data:''] @
          dump_bytes (get_n artnet_rdm_sub_s ''data'' 32 p) @ [line_end, prompt])"

definition fc_diag_handler :: "packet \<Rightarrow> printout" where
  "fc_diag_handler p =
     say [lit (newline # ''[Diag] priority=0x''), hex2 artnet_diagdata_s ''diagPriority'' p,
          lit '' port='', num artnet_diagdata_s ''logicalPort'' p,
          lit '': '', fmt_s (Some 512) artnet_diagdata_s ''data'' 0 p, line_end, prompt]"

definition fc_firmware_reply_handler :: "packet \<Rightarrow> printout" where
  "fc_firmware_reply_handler p =
     (let t = get8 artnet_firmware_reply_s ''type'' p;
          status = (if t = 0x00 then ''BlockGood'' else if t = 0x01 then ''AllGood'' else ''FAIL'')
      in say [lit (newline # ''[FirmwareReply] ''), lit status, lit '' (type=0x'',
              hex2 artnet_firmware_reply_s ''type'' p, lit ('')'' @ [newline]), prompt])"

text \<open>After the block was stored (\<open>file_fn_reply_handler\<close>): its first bytes, and the file once it is
  complete, its bytes as characters where they can be printed.\<close>

definition shown_byte :: "u8 \<Rightarrow> printout list" where
  "shown_byte c =
     (if 0x20 \<le> c \<and> c < 0x7F then [Some [c]] else [lit [CHR 0x5C, CHR ''x''], fmt_hex 2 (uint c)])"

definition fc_file_fn_reply_print :: "packet \<Rightarrow> ctl \<Rightarrow> printout" where
  "fc_file_fn_reply_print p a =
     (let payloadLen = p_length p - (size_of artnet_file_fn_reply_s - ARTNET_FIRMWARE_SIZE * 2)
      in say ([lit (newline # ''[FileFnReply] block=''), num artnet_file_fn_reply_s ''blockId'' p,
               lit '' totalLen='',
               fmt_int (get_short artnet_file_fn_reply_s ''fileLengthHi'' ''fileLengthLo'' p),
               lit '' received='', fmt_int (dl_received a), line_end, lit ''  Data (first 16 bytes):''] @
              dump_bytes (get_n artnet_file_fn_reply_s ''data'' (min 16 (nat payloadLen)) p) @
              (if 0 < dl_total a \<and> dl_total a \<le> dl_received a
               then [line_end, lit ''  Complete file: ''] @
                    concat (map shown_byte (get_bytes (dl_buf a) 0 (nat (dl_total a))))
               else []) @ [line_end, prompt]))"

text \<open>
  The entries of a directory: strings one after the other, as long as they begin below
  \<open>dirCount\<close>, which the loop takes for the number of their bytes.
\<close>

function entry_lines :: "packet \<Rightarrow> nat \<Rightarrow> nat \<Rightarrow> printout list" where
  "entry_lines p cnt start =
     (if start < cnt then
        (case fmt_s None artnet_directory_reply_s ''dirEntry'' start p of
           None \<Rightarrow> [None]
         | Some s \<Rightarrow> [lit ''  - '', Some s, line_end] @ entry_lines p cnt (start + length s + 1))
      else [])"
  by pat_completeness auto
termination
  by (relation "measure (\<lambda>(p, cnt, start). cnt - start)") auto

declare entry_lines.simps [simp del]

definition fc_directory_reply_handler :: "packet \<Rightarrow> printout" where
  "fc_directory_reply_handler p =
     (let count = get_short artnet_directory_reply_s ''dirCountHi'' ''dirCountLo'' p;
          total = get_short artnet_directory_reply_s ''dirTotalHi'' ''dirTotalLo'' p
      in say ([lit (newline # ''[DirectoryReply] entries=''), fmt_int count, lit '' total='', fmt_int total,
               line_end] @ entry_lines p (nat count) 0 @ [prompt]))"

definition fc_data_reply_handler :: "packet \<Rightarrow> printout" where
  "fc_data_reply_handler p =
     (let request = get_short artnet_data_reply_s ''requestHi'' ''requestLo'' p;
          payload_len = get_short artnet_data_reply_s ''payLenHi'' ''payLenLo'' p
      in say ([lit (newline # ''[DataReply] request=0x''), fmt_hex 4 request,
               lit '' payloadLen='', fmt_int payload_len, line_end] @
              (if 0 < payload_len
               then [lit ''  Payload: '', fmt_s (Some (nat payload_len)) artnet_data_reply_s ''payLoad'' 0 p,
                     line_end]
               else []) @ [prompt]))"

definition fc_sync_handler :: printout where
  "fc_sync_handler = lit (''[Sync]'' @ [newline])"

definition clock_time :: "packet \<Rightarrow> printout list" where
  "clock_time p =
     [num2 artnet_timecode_s ''hours'' p, lit '':'', num2 artnet_timecode_s ''minutes'' p, lit '':'',
      num2 artnet_timecode_s ''seconds'' p, lit ''.'', num2 artnet_timecode_s ''frames'' p]"

definition fc_timecode_handler :: "packet \<Rightarrow> printout" where
  "fc_timecode_handler p =
     say ([lit (newline # ''[TimeCode] '')] @ clock_time p @
          [lit '' type='', num artnet_timecode_s ''type'' p,
           lit '' stream='', num artnet_timecode_s ''streamId'' p, line_end, prompt])"

definition date_line :: "packet \<Rightarrow> printout list" where
  "date_line p =
     [lit ''[TimeSync] '', fmt_int0 4 (uint (get8 artnet_timesync_s ''tm_year'' p) + 1900), lit ''-'',
      fmt_int0 2 (uint (get8 artnet_timesync_s ''tm_mon'' p) + 1), lit ''-'',
      num2 artnet_timesync_s ''tm_mday'' p, lit '' '', num2 artnet_timesync_s ''tm_hour'' p, lit '':'',
      num2 artnet_timesync_s ''tm_min'' p, lit '':'', num2 artnet_timesync_s ''tm_sec'' p, line_end]"

definition fc_timesync_handler :: "packet \<Rightarrow> printout" where
  "fc_timesync_handler p = say ([line_end] @ date_line p @ [prompt])"

abbreviation "prog_ip \<equiv> [''ProgIpHi'', ''ProgIp2'', ''ProgIp1'', ''ProgIpLo'']"
abbreviation "prog_sm \<equiv> [''ProgSmHi'', ''ProgSm2'', ''ProgSm1'', ''ProgSmLo'']"
abbreviation "prog_dg \<equiv> [''ProgDgHi'', ''ProgDg2'', ''ProgDg1'', ''ProgDgLo'']"

text \<open>The handler of ArtIpProg, which reads the packet as an ArtIpProgReply.\<close>

definition fc_ipprog_handler :: "packet \<Rightarrow> printout" where
  "fc_ipprog_handler p =
     say ([lit (newline # ''[IpProgReply] ip='')] @ dotted_fields artnet_ipprog_reply_s prog_ip p @
          [lit '' mask=''] @ dotted_fields artnet_ipprog_reply_s prog_sm p @
          [lit '' gw=''] @ dotted_fields artnet_ipprog_reply_s prog_dg p @
          [lit '' status=0x'', hex2 artnet_ipprog_reply_s ''Status'' p, line_end, prompt])"

definition command_text :: "packet \<Rightarrow> printout" where
  "command_text p =
     (let len = get_short artnet_command_s ''lengthHi'' ''lengthLo'' p
      in fmt_s (Some (nat (if 0 < len then len - 1 else 0))) artnet_command_s ''data'' 0 p)"

definition fc_command_handler :: "packet \<Rightarrow> printout" where
  "fc_command_handler p =
     say [lit (newline # ''[Command] esta=''), hex2 artnet_command_s ''estaManHi'' p,
          hex2 artnet_command_s ''estaManLo'' p, lit '' len='',
          fmt_int (get_short artnet_command_s ''lengthHi'' ''lengthLo'' p), lit '' text='', command_text p,
          line_end, prompt]"

definition patch_line :: "packet \<Rightarrow> printout list" where
  "patch_line p =
     [lit ''[MediaPatch] physical='', num artnet_media_patch_s ''physical'' p,
      lit '' universe=0x'', fmt_hex 4 (uint (get16 artnet_media_patch_s ''universe'' p)),
      lit '' len='', fmt_int (get_short artnet_media_patch_s ''lengthHi'' ''length'' p), line_end]"

definition fc_media_patch_handler :: "packet \<Rightarrow> printout" where
  "fc_media_patch_handler p = say ([line_end] @ patch_line p @ [prompt])"

definition fc_notice :: "string \<Rightarrow> printout" where
  "fc_notice s = say [line_end, lit s, line_end, prompt]"

definition fc_media_handler :: printout where
  "fc_media_handler = fc_notice ''[Media] ArtMedia received''"

definition fc_media_control_handler :: printout where
  "fc_media_control_handler = fc_notice ''[MediaControl] ArtMediaControl received''"

definition fc_media_control_reply_handler :: printout where
  "fc_media_control_reply_handler = fc_notice ''[MediaControlReply] ArtMediaControlReply received''"

text \<open>The handlers as they are registered (but the one of file blocks, which has a state).\<close>

fun fc_prints :: "artnet_packet_type \<Rightarrow> packet \<Rightarrow> printout" where
  "fc_prints ARTNET_REPLY p = fc_reply_handler p"
| "fc_prints ARTNET_TODDATA p = fc_tod_data_handler p"
| "fc_prints ARTNET_RDM p = fc_rdm_handler p"
| "fc_prints ARTNET_RDMSUB p = fc_rdmsub_handler p"
| "fc_prints ARTNET_DIAGDATA p = fc_diag_handler p"
| "fc_prints ARTNET_FIRMWAREREPLY p = fc_firmware_reply_handler p"
| "fc_prints ARTNET_DIRECTORYREPLY p = fc_directory_reply_handler p"
| "fc_prints ARTNET_DATAREPLY p = fc_data_reply_handler p"
| "fc_prints ARTNET_SYNC p = fc_sync_handler"
| "fc_prints ARTNET_TIMECODE p = fc_timecode_handler p"
| "fc_prints ARTNET_TIMESYNC p = fc_timesync_handler p"
| "fc_prints ARTNET_IPPROG p = fc_ipprog_handler p"
| "fc_prints ARTNET_COMMAND p = fc_command_handler p"
| "fc_prints ARTNET_MEDIA p = fc_media_handler"
| "fc_prints ARTNET_MEDIAPATCH p = fc_media_patch_handler p"
| "fc_prints ARTNET_MEDIACONTROL p = fc_media_control_handler"
| "fc_prints ARTNET_MEDIACONTROLREPLY p = fc_media_control_reply_handler"
| "fc_prints _ p = Some []"

section \<open>The handlers of the node (full_node.c)\<close>

text \<open>
  The configuration of a node (\<open>artnet_dump_config\<close>, \<open>artnet.c\<close>).  The names are arrays of 18 and
  64 bytes, each read up to a 0.
\<close>

fun node_type_code :: "artnet_node_type \<Rightarrow> int" where
  "node_type_code ARTNET_SRV = 0"
| "node_type_code ARTNET_NODE = 1"
| "node_type_code ARTNET_MSRV = 2"
| "node_type_code ARTNET_ROUTE = 3"
| "node_type_code ARTNET_BACKUP = 4"
| "node_type_code ARTNET_RAW = 5"

definition artnet_dump_config :: "node \<Rightarrow> printout" where
  "artnet_dump_config n =
     say [lit (''#### NODE CONFIG ####'' @ [newline]),
          lit ''Node Type: '', fmt_int (node_type_code (node_type n)), line_end,
          lit ''Short Name: '', fmt_array (get_bytes (shortName n) 0 ARTNET_SHORT_NAME_LENGTH), line_end,
          lit ''Long Name: '', fmt_array (get_bytes (longName n) 0 ARTNET_LONG_NAME_LENGTH), line_end,
          lit ''Net: '', fmt_alt_02x (netSwitch n), line_end,
          lit ''Subnet: '', fmt_alt_02x (subSwitch n), line_end,
          lit ''Default Subnet: '', fmt_alt_02x (default_subSwitch n), line_end,
          lit ''Net Ctl: '', fmt_int (uint (subSwitch_net_ctl n)), line_end,
          lit (''#####################'' @ [newline])]"

definition fn_program_handler :: "node \<Rightarrow> printout" where
  "fn_program_handler n =
     say [lit (newline # ''=== Remote Programming Applied ==='' @ [newline]), artnet_dump_config n,
          lit (''==================================='' @ [newline, newline])]"

definition fn_reply_handler :: "packet \<Rightarrow> printout" where
  "fn_reply_handler p =
     say ([lit ''[Reply] '', fmt_s (Some 18) artnet_reply_s ''shortName'' 0 p, lit '' at ''] @
          separated ''.'' (map (\<lambda>b. fmt_int (uint b)) (get_n artnet_reply_s ''ip'' 4 p)) @
          [lit ''  Net '', num artnet_reply_s ''netSwitch'' p,
           lit '' Sub '', fmt_int (uint (get8 artnet_reply_s ''subSwitch'' p AND 0x0F)),
           lit ''  style=0x'', hex2 artnet_reply_s ''style'' p, line_end])"

definition fn_tod_data_handler :: "packet \<Rightarrow> printout" where
  "fn_tod_data_handler p =
     say [lit ''[TOD] TodData net='', num artnet_toddata_s ''net'' p,
          lit '' addr=0x'', hex2 artnet_toddata_s ''address'' p,
          lit '' uidCount='', num artnet_toddata_s ''uidCount'' p, line_end]"

definition fn_tod_control_handler :: "packet \<Rightarrow> printout" where
  "fn_tod_control_handler p =
     say [lit ''[TOD] TodControl net='', num artnet_todcontrol_s ''net'' p,
          lit '' addr=0x'', hex2 artnet_todcontrol_s ''address'' p,
          lit '' action=0x'', hex2 artnet_todcontrol_s ''cmd'' p, line_end]"

definition fn_rdm_handler :: "packet \<Rightarrow> printout" where
  "fn_rdm_handler p =
     say [lit ''[RDM] net='', num artnet_rdm_s ''net'' p,
          lit '' addr=0x'', hex2 artnet_rdm_s ''address'' p,
          lit '' cmd=0x'', hex2 artnet_rdm_s ''cmd'' p, line_end]"

definition fn_rdmsub_handler :: "packet \<Rightarrow> printout" where
  "fn_rdmsub_handler p = say (rdmsub_line ''[RDMSUB]'' p)"

definition fn_nzs_handler :: "packet \<Rightarrow> printout" where
  "fn_nzs_handler p =
     say [lit ''[Nzs] universe=0x'', fmt_hex 4 (uint (get16 artnet_nzs_s ''universe'' p)),
          lit '' startCode=0x'', hex2 artnet_nzs_s ''startCode'' p,
          lit '', '', fmt_int (get_short artnet_nzs_s ''lengthHi'' ''length'' p), lit '' bytes'', line_end]"

definition fn_timecode_handler :: "packet \<Rightarrow> printout" where
  "fn_timecode_handler p =
     (let t = get8 artnet_timecode_s ''type'' p;
          type_str = (if t = 0 then ''Film24'' else if t = 1 then ''EBU25''
                      else if t = 2 then ''DF29'' else ''SMPTE30'')
      in say ([lit ''[TimeCode] ''] @ clock_time p @
              [lit '' type='', lit type_str, lit '' stream='', num artnet_timecode_s ''streamId'' p, line_end]))"

definition fn_timesync_handler :: "packet \<Rightarrow> printout" where
  "fn_timesync_handler p = say (date_line p)"

definition fn_trigger_handler :: "packet \<Rightarrow> printout" where
  "fn_trigger_handler p =
     (let k = get8 artnet_trigger_s ''key'' p;
          key_str = (if k = 0 then ''ASCII'' else if k = 1 then ''Macro''
                     else if k = 2 then ''Soft'' else ''Show'')
      in say [lit ''[Trigger] OEM=0x'', hex2 artnet_trigger_s ''oemCodeHi'' p,
              hex2 artnet_trigger_s ''oemCodeLo'' p, lit '' key='', lit key_str,
              lit '' subKey='', num artnet_trigger_s ''subKey'' p, line_end])"

definition fn_diag_handler :: "packet \<Rightarrow> printout" where
  "fn_diag_handler p =
     say [lit ''[Diag] priority=0x'', hex2 artnet_diagdata_s ''diagPriority'' p,
          lit '' port='', num artnet_diagdata_s ''logicalPort'' p,
          lit '': '', fmt_s (Some 512) artnet_diagdata_s ''data'' 0 p, line_end]"

definition fn_firmware_handler :: "int \<Rightarrow> int \<Rightarrow> printout" where
  "fn_firmware_handler ubea len =
     say [lit ''[Firmware] Transfer complete: '', lit (if ubea \<noteq> 0 then ''UBEA'' else ''Firmware''),
          lit '', '', fmt_int len, lit '' words'', line_end]"

definition fn_ipprog_handler :: "packet \<Rightarrow> printout" where
  "fn_ipprog_handler p =
     say ([lit ''[IpProg] cmd=0x'', hex2 artnet_ipprog_s ''Command'' p, lit '' ip=''] @
          dotted_fields artnet_ipprog_s prog_ip p @ [lit '' mask=''] @ dotted_fields artnet_ipprog_s prog_sm p @
          [lit '' gw=''] @ dotted_fields artnet_ipprog_s prog_dg p @ [line_end])"

definition fn_command_handler :: "packet \<Rightarrow> printout" where
  "fn_command_handler p =
     say [lit ''[Command] esta='', hex2 artnet_command_s ''estaManHi'' p,
          hex2 artnet_command_s ''estaManLo'' p, lit '' text='', command_text p, line_end]"

definition fn_media_patch_handler :: "packet \<Rightarrow> printout" where
  "fn_media_patch_handler p = say (patch_line p)"

definition fn_notice :: "string \<Rightarrow> printout" where
  "fn_notice s = say [lit s, line_end]"

definition fn_sync_handler :: printout where
  "fn_sync_handler = fn_notice ''[Sync] ArtSync received - frame complete''"

definition fn_poll_handler :: printout where
  "fn_poll_handler = fn_notice ''[Poll] ArtPoll received from controller''"

definition fn_tod_request_handler :: printout where
  "fn_tod_request_handler = fn_notice ''[TOD] ArtTodRequest received''"

definition fn_address_handler :: printout where
  "fn_address_handler = fn_notice ''[Address] ArtAddress received''"

definition fn_input_handler :: printout where
  "fn_input_handler = fn_notice ''[Input] ArtInput received (port enable/disable)''"

definition fn_media_handler :: printout where
  "fn_media_handler = fn_notice ''[Media] ArtMedia received''"

definition fn_media_control_handler :: printout where
  "fn_media_control_handler = fn_notice ''[MediaControl] ArtMediaControl received''"

definition fn_media_control_reply_handler :: printout where
  "fn_media_control_reply_handler = fn_notice ''[MediaControlReply] ArtMediaControlReply received''"

text \<open>What the handlers that answer print first.\<close>

definition fn_data_request_print :: "packet \<Rightarrow> printout" where
  "fn_data_request_print p =
     say [lit ''[DataRequest] code=0x'',
          fmt_hex 4 (get_short artnet_data_request_s ''requestHi'' ''requestLo'' p),
          lit '' from '', lit (inet_ntoa (p_from p)), line_end]"

definition fn_file_fn_master_print :: "packet \<Rightarrow> printout" where
  "fn_file_fn_master_print p =
     say [lit ''[FileFnMaster] request received for '',
          fmt_s (Some 256) artnet_file_fn_master_s ''filename'' 0 p, line_end]"

fun fn_prints :: "artnet_packet_type \<Rightarrow> packet \<Rightarrow> printout" where
  "fn_prints ARTNET_SYNC p = fn_sync_handler"
| "fn_prints ARTNET_POLL p = fn_poll_handler"
| "fn_prints ARTNET_REPLY p = fn_reply_handler p"
| "fn_prints ARTNET_TODREQUEST p = fn_tod_request_handler"
| "fn_prints ARTNET_TODDATA p = fn_tod_data_handler p"
| "fn_prints ARTNET_TODCONTROL p = fn_tod_control_handler p"
| "fn_prints ARTNET_RDM p = fn_rdm_handler p"
| "fn_prints ARTNET_RDMSUB p = fn_rdmsub_handler p"
| "fn_prints ARTNET_NZS p = fn_nzs_handler p"
| "fn_prints ARTNET_TIMECODE p = fn_timecode_handler p"
| "fn_prints ARTNET_TIMESYNC p = fn_timesync_handler p"
| "fn_prints ARTNET_TRIGGER p = fn_trigger_handler p"
| "fn_prints ARTNET_DIAGDATA p = fn_diag_handler p"
| "fn_prints ARTNET_ADDRESS p = fn_address_handler"
| "fn_prints ARTNET_INPUT p = fn_input_handler"
| "fn_prints ARTNET_IPPROG p = fn_ipprog_handler p"
| "fn_prints ARTNET_COMMAND p = fn_command_handler p"
| "fn_prints ARTNET_MEDIA p = fn_media_handler"
| "fn_prints ARTNET_MEDIAPATCH p = fn_media_patch_handler p"
| "fn_prints ARTNET_MEDIACONTROL p = fn_media_control_handler"
| "fn_prints ARTNET_MEDIACONTROLREPLY p = fn_media_control_reply_handler"
| "fn_prints ARTNET_DATAREQUEST p = fn_data_request_print p"
| "fn_prints ARTNET_DIRECTORY p = fn_notice ''[Directory] ArtDirectory received''"
| "fn_prints ARTNET_FILEFNMASTER p = fn_file_fn_master_print p"
| "fn_prints _ p = Some []"

section \<open>What is printed lies inside\<close>

lemma say_defined: "say xs = None \<longleftrightarrow> None \<in> set xs"
proof (induction xs)
  case (Cons x xs)
  then show ?case by (cases x) (auto simp: say_def)
qed (simp add: say_def)

lemma say_simps [simp]:
  "say [] = Some []" "say (Some a # xs) = map_option ((@) a) (say xs)" "say (None # xs) = None"
  by (simp_all add: say_def option.map_comp o_def)

lemma say_append:
  "say (xs @ ys) = (case say xs of None \<Rightarrow> None | Some a \<Rightarrow> map_option ((@) a) (say ys))"
proof (induction xs)
  case (Cons x xs)
  then show ?case by (cases x; cases "say ys") (auto split: option.split)
qed (cases "say ys"; simp)

named_theorems printed "what always prints"

lemma always_printed [printed]:
  "lit s \<noteq> None" "line_end \<noteq> None" "fmt_int x \<noteq> None" "fmt_int0 w x \<noteq> None" "fmt_hex w x \<noteq> None"
  "fmt_alt_02x y \<noteq> None" "num L f p \<noteq> None" "num2 L f p \<noteq> None" "hex2 L f p \<noteq> None"
  "prompt \<noteq> None"
  by (simp_all add: lit_def line_end_def fmt_int_def fmt_int0_def fmt_hex_def fmt_alt_02x_def num_def
      num2_def hex2_def prompt_def)

lemma none_separated [printed]: "None \<notin> set xs \<Longrightarrow> None \<notin> set (separated sep xs)"
  using always_printed(1) [of sep] by (cases xs) (auto simp: separated_def)

lemma lists_printed [printed]:
  "None \<notin> set (map (\<lambda>b. fmt_int (uint b)) bs)"
  "None \<notin> set (hex_list bs)" "None \<notin> set (dotted_fields L fs p)" "None \<notin> set (dump_bytes bs)"
  "None \<notin> set (port_list f p)" "None \<notin> set (rdmsub_line tag p)" "None \<notin> set (clock_time p)"
  "None \<notin> set (date_line p)" "None \<notin> set (patch_line p)"
proof -
  show hex: "None \<notin> set (hex_list bs)" for bs by (auto simp: hex_list_def fmt_hex_def)
  show "None \<notin> set (map (\<lambda>b. fmt_int (uint b)) bs)" by (auto simp: fmt_int_def)
  show "None \<notin> set (dotted_fields L fs p)"
    unfolding dotted_fields_def by (rule none_separated) (auto simp: num_def fmt_int_def)
  show "None \<notin> set (rdmsub_line tag p)"
    using none_separated [OF hex] by (auto simp: rdmsub_line_def lit_def line_end_def hex2_def fmt_hex_def fmt_int_def)
qed (auto simp: dump_bytes_def port_list_def clock_time_def date_line_def patch_line_def lit_def fmt_hex_def
    fmt_int_def fmt_int0_def num_def num2_def line_end_def)

text \<open>A precision that stays in the buffer is enough.\<close>

lemma fmt_s_inside: "offset L f + j + k \<le> sizeof_union \<Longrightarrow> fmt_s (Some k) L f j p \<noteq> None"
  by (simp add: fmt_s_def Let_def)

end
