(* ===== verification/Printing_Properties.thy ===== *)
theory Printing_Properties
  imports Printing File_Properties Programming_Properties Upload_Link
begin

text \<open>
  What the handlers print stays inside the packet, but for one: the list of a directory; the names
  of a programmed node, which \<open>artnet_dump_config\<close> reads past their arrays; and the directory of the
  full node as the full controller shows it.
\<close>

section \<open>Bounds\<close>

definition dir_byte :: "packet \<Rightarrow> nat \<Rightarrow> u8" where
  "dir_byte p i = p_data p (20 + i)"

text \<open>The entry at \<open>s\<close> has no end in the packet.\<close>

definition unended :: "packet \<Rightarrow> nat \<Rightarrow> bool" where
  "unended p s \<longleftrightarrow> (\<forall>i. s \<le> i \<and> i < 2048 \<longrightarrow> dir_byte p i \<noteq> 0)"

lemma takeWhile_shorter: "length (takeWhile P xs) < length xs \<longleftrightarrow> \<not> (\<forall>x \<in> set xs. P x)"
  by (induction xs) auto

lemma takeWhile_before: "i < length (takeWhile P xs) \<Longrightarrow> P (xs ! i)"
  by (metis nth_mem set_takeWhileD takeWhile_nth)

abbreviation "dir_rest p s \<equiv> get_bytes (p_data p) (20 + s) (2048 - s)"

lemma dir_rest_nth: "i < 2048 - s \<Longrightarrow> dir_rest p s ! i = dir_byte p (s + i)"
  by (simp add: dir_byte_def add.assoc)

lemma unended_rest:
  assumes "s < 2048"
  shows "unended p s \<longleftrightarrow> (\<forall>b \<in> set (dir_rest p s). b \<noteq> 0)"
proof -
  have "dir_byte p i \<noteq> 0" if "\<forall>i < 2048 - s. dir_byte p (s + i) \<noteq> 0" "s \<le> i" "i < 2048" for i
    using that(1) [rule_format, of "i - s"] that(2,3) assms by simp
  then have "unended p s \<longleftrightarrow> (\<forall>i < 2048 - s. dir_byte p (s + i) \<noteq> 0)" by (auto simp: unended_def)
  also have "\<dots> \<longleftrightarrow> (\<forall>b \<in> set (dir_rest p s). b \<noteq> 0)"
    using dir_rest_nth by (auto simp: in_set_conv_nth)
  finally show ?thesis .
qed

lemma entry_text:
  assumes "s < 2048"
  shows "fmt_s None artnet_directory_reply_s ''dirEntry'' s p =
    (if unended p s then None else Some (takeWhile (\<lambda>c. c \<noteq> 0) (dir_rest p s)))"
  using takeWhile_shorter [of "\<lambda>c. c \<noteq> 0" "dir_rest p s"] unended_rest [OF assms, of p]
  by (auto simp: fmt_s_def layout sizeof_union_eq Let_def)

text \<open>An entry that ends: its end is the first 0.\<close>

lemma entry_end:
  assumes "s < 2048" "\<not> unended p s"
  defines "k \<equiv> length (takeWhile (\<lambda>c. c \<noteq> 0) (dir_rest p s))"
  shows "s + k < 2048" "dir_byte p (s + k) = 0" "\<And>i. s \<le> i \<Longrightarrow> i < s + k \<Longrightarrow> dir_byte p i \<noteq> 0"
proof -
  have k: "k < 2048 - s"
    using takeWhile_shorter [of "\<lambda>c. c \<noteq> 0" "dir_rest p s"] unended_rest [OF assms(1), of p] assms(2)
    by (simp add: k_def)
  then show "s + k < 2048" by simp
  have "k < length (dir_rest p s)" using k by simp
  from nth_length_takeWhile [OF this [unfolded k_def]] show "dir_byte p (s + k) = 0"
    using dir_rest_nth [OF k, of p] by (simp add: k_def)
  show "dir_byte p i \<noteq> 0" if "s \<le> i" "i < s + k" for i
  proof -
    have "i - s < k" "i - s < 2048 - s" using that k by simp_all
    then show ?thesis
      using takeWhile_before [of "i - s" "\<lambda>c. c \<noteq> 0" "dir_rest p s"] dir_rest_nth [of "i - s" s p] that(1)
      by (simp add: k_def)
  qed
qed

lemma entry_lines_bound:
  assumes "cnt \<le> 2048"
  shows "None \<in> set (entry_lines p cnt start) \<longleftrightarrow>
    (\<exists>s. start \<le> s \<and> s < cnt \<and> (s = start \<or> dir_byte p (s - 1) = 0) \<and> unended p s)"
  using assms
proof (induction p cnt start rule: entry_lines.induct)
  case (1 p cnt start)
  show ?case
  proof (cases "start < cnt")
    case False
    then show ?thesis by (subst entry_lines.simps) auto
  next
    case True
    then have s: "start < 2048" using 1(2) by simp
    show ?thesis
    proof (cases "unended p start")
      case True
      then show ?thesis using \<open>start < cnt\<close> entry_text [OF s, of p] by (subst entry_lines.simps) auto
    next
      case False
      let ?t = "takeWhile (\<lambda>c. c \<noteq> 0) (dir_rest p start)"
      note e = entry_end [OF s False]
      have shown: "fmt_s None artnet_directory_reply_s ''dirEntry'' start p = Some ?t"
        using entry_text [OF s, of p] False by simp
      have "entry_lines p cnt start = [lit ''  - '', Some ?t, line_end] @ entry_lines p cnt (start + length ?t + 1)"
        using True shown by (subst entry_lines.simps) simp
      then have "None \<in> set (entry_lines p cnt start) \<longleftrightarrow> None \<in> set (entry_lines p cnt (start + length ?t + 1))"
        by (simp add: lit_def line_end_def)
      also have "\<dots> \<longleftrightarrow> (\<exists>s. start + length ?t + 1 \<le> s \<and> s < cnt \<and>
          (s = start + length ?t + 1 \<or> dir_byte p (s - 1) = 0) \<and> unended p s)"
        using 1(1) [OF True shown 1(2)] .
      also have "\<dots> \<longleftrightarrow> (\<exists>s. start \<le> s \<and> s < cnt \<and> (s = start \<or> dir_byte p (s - 1) = 0) \<and> unended p s)"
      proof
        assume "\<exists>s. start \<le> s \<and> s < cnt \<and> (s = start \<or> dir_byte p (s - 1) = 0) \<and> unended p s"
        then obtain u where u: "start \<le> u" "u < cnt" "u = start \<or> dir_byte p (u - 1) = 0" "unended p u" by blast
        have "u \<noteq> start" using u(4) False by auto
        then have "dir_byte p (u - 1) = 0" "start \<le> u - 1" using u by auto
        then have "start + length ?t \<le> u - 1" using e(3) [of "u - 1"] not_less by blast
        then show "\<exists>s. start + length ?t + 1 \<le> s \<and> s < cnt \<and>
            (s = start + length ?t + 1 \<or> dir_byte p (s - 1) = 0) \<and> unended p s"
          using u \<open>u \<noteq> start\<close> by (intro exI [of _ u]) auto
      next
        assume "\<exists>s. start + length ?t + 1 \<le> s \<and> s < cnt \<and>
            (s = start + length ?t + 1 \<or> dir_byte p (s - 1) = 0) \<and> unended p s"
        then obtain u where u: "start + length ?t + 1 \<le> u" "u < cnt"
          "u = start + length ?t + 1 \<or> dir_byte p (u - 1) = 0" "unended p u" by blast
        have "dir_byte p (u - 1) = 0" using u(3) e(2) by auto
        then show "\<exists>s. start \<le> s \<and> s < cnt \<and> (s = start \<or> dir_byte p (s - 1) = 0) \<and> unended p s"
          using u by (intro exI [of _ u]) auto
      qed
      finally show ?thesis .
    qed
  qed
qed

text \<open>The other handlers read text of a bounded length.\<close>

lemma valid_packet_fields:
  assumes "packet_is_valid p" "p_type p = opcode t"
  shows "valid_fields t p"
  using assms by (simp add: packet_is_valid_def packet_fields_are_valid_def del: opcode.simps split: if_splits)

lemma command_text_inside:
  assumes "packet_is_valid p" "p_type p = opcode ARTNET_COMMAND"
  shows "command_text p \<noteq> None"
proof -
  have "get_short artnet_command_s ''lengthHi'' ''lengthLo'' p \<le> 512"
    using valid_packet_fields [OF assms] by (auto simp: valid_command_def Let_def)
  then show ?thesis
    unfolding command_text_def Let_def by (intro fmt_s_inside, simp add: layout sizeof_union_eq) linarith
qed

lemma data_reply_inside:
  assumes "packet_is_valid p" "p_type p = opcode ARTNET_DATAREPLY"
  shows "fmt_s (Some (nat (get_short artnet_data_reply_s ''payLenHi'' ''payLenLo'' p)))
    artnet_data_reply_s ''payLoad'' 0 p \<noteq> None"
proof -
  have "get_short artnet_data_reply_s ''payLenHi'' ''payLenLo'' p \<le> 512"
    using valid_packet_fields [OF assms] by (auto simp: valid_data_reply_def Let_def)
  then show ?thesis by (intro fmt_s_inside) (simp add: layout sizeof_union_eq)
qed

lemma fixed_inside:
  "fmt_s (Some 18) artnet_reply_s ''shortName'' 0 p \<noteq> None"
  "fmt_s (Some 512) artnet_diagdata_s ''data'' 0 p \<noteq> None"
  "fmt_s (Some 256) artnet_file_fn_master_s ''filename'' 0 p \<noteq> None"
  by (rule fmt_s_inside, simp add: layout sizeof_union_eq)+

lemmas fc_handlers =
  fc_reply_handler_def fc_tod_data_handler_def fc_rdm_handler_def fc_rdmsub_handler_def
  fc_diag_handler_def fc_firmware_reply_handler_def fc_data_reply_handler_def fc_sync_handler_def
  fc_timecode_handler_def fc_timesync_handler_def fc_ipprog_handler_def fc_command_handler_def
  fc_media_patch_handler_def fc_media_handler_def fc_media_control_handler_def
  fc_media_control_reply_handler_def fc_notice_def

lemmas fn_handlers =
  fn_reply_handler_def fn_tod_data_handler_def fn_tod_control_handler_def fn_rdm_handler_def
  fn_rdmsub_handler_def fn_nzs_handler_def fn_timecode_handler_def fn_timesync_handler_def
  fn_trigger_handler_def fn_diag_handler_def fn_ipprog_handler_def fn_command_handler_def
  fn_media_patch_handler_def fn_notice_def fn_sync_handler_def fn_poll_handler_def fn_tod_request_handler_def
  fn_address_handler_def fn_input_handler_def fn_media_handler_def
  fn_media_control_handler_def fn_media_control_reply_handler_def
  fn_data_request_print_def fn_file_fn_master_print_def

lemma not_none_sym: "x \<noteq> None \<Longrightarrow> None \<noteq> x"
  by auto

lemmas no_none = printed fixed_inside always_printed [THEN not_none_sym] fixed_inside [THEN not_none_sym]

lemma separated_numbers: "None \<notin> set (separated sep (map (\<lambda>b. fmt_int (f b)) bs))"
  by (rule none_separated) (auto simp: fmt_int_def)

lemma fn_inside:
  assumes "packet_is_valid p" "p_type p = opcode t"
  shows "fn_prints t p \<noteq> None"
proof (cases "t = ARTNET_COMMAND")
  case True
  then show ?thesis
    using command_text_inside [OF assms(1)] assms(2)
    by (auto simp: fn_handlers say_defined no_none)
next
  case False
  then show ?thesis
    by (cases t) (auto simp: fn_handlers say_defined no_none separated_numbers Let_def)
qed

lemma fc_inside:
  assumes "packet_is_valid p" "p_type p = opcode t" "t \<noteq> ARTNET_DIRECTORYREPLY"
  shows "fc_prints t p \<noteq> None"
proof -
  consider "t = ARTNET_COMMAND" | "t = ARTNET_DATAREPLY" | "t \<noteq> ARTNET_COMMAND" "t \<noteq> ARTNET_DATAREPLY" by blast
  then show ?thesis
  proof cases
    case 1
    then show ?thesis
      using command_text_inside [OF assms(1)] assms(2)
      by (auto simp: fc_handlers say_defined no_none)
  next
    case 2
    then show ?thesis
      using data_reply_inside [OF assms(1)] assms(2)
      by (auto simp: fc_handlers say_defined no_none Let_def)
  next
    case 3
    have "None \<notin> set (separated sep (hex_list bs))" for sep bs
      by (rule none_separated) (simp add: printed)
    with 3 assms(3) show ?thesis
      by (cases t) (auto simp: fc_handlers say_defined no_none separated_numbers Let_def)
  qed
qed

text \<open>C32: Printing a valid packet never reads outside its buffer, in the full node for any packet and in
  the full controller for any but the answer to a directory request.  That one is read past the end of
  the buffer exactly when a name in it that begins below the announced number of bytes has no 0 after
  it, up to the last of the 2048 bytes.\<close>

theorem printing_bounds:
  assumes "packet_is_valid p" "p_type p = opcode t"
  shows "fn_prints t p \<noteq> None \<and>
    (fc_prints t p = None \<longleftrightarrow> t = ARTNET_DIRECTORYREPLY \<and>
      (\<exists>s. int s < get_short artnet_directory_reply_s ''dirCountHi'' ''dirCountLo'' p \<and>
         (s = 0 \<or> dir_byte p (s - 1) = 0) \<and> unended p s))"
proof (cases "t = ARTNET_DIRECTORYREPLY")
  case True
  let ?n = "get_short artnet_directory_reply_s ''dirCountHi'' ''dirCountLo'' p"
  have "nat ?n \<le> 2048"
    using valid_packet_fields [OF assms] True unfolding True valid_fields.simps valid_directory_reply_def Let_def
    by linarith
  from entry_lines_bound [OF this, of p 0]
  have "fc_prints t p = None \<longleftrightarrow> (\<exists>s < nat ?n. (s = 0 \<or> dir_byte p (s - 1) = 0) \<and> unended p s)"
    using True by (auto simp: fc_directory_reply_handler_def say_defined Let_def no_none)
  moreover have "s < nat ?n \<longleftrightarrow> int s < ?n" for s by (simp add: zless_nat_eq_int_zless)
  ultimately show ?thesis using True fn_inside [OF assms] by simp
next
  case False
  then show ?thesis using fn_inside [OF assms] fc_inside [OF assms] by simp
qed

text \<open>A directory whose text fills the packet.\<close>

definition endless_directory :: packet where
  "endless_directory =
     \<lparr>p_length = 2068, p_from = 1, p_to = 0, p_type = opcode ARTNET_DIRECTORYREPLY,
      p_data = (\<lambda>i. if i = 17 then 1 else if i < 20 then header ARTNET_DIRECTORYREPLY i else 65)\<rparr>"

theorem printing_bounds_witness:
  "packet_is_valid endless_directory \<and> fc_prints ARTNET_DIRECTORYREPLY endless_directory = None"
proof -
  have h: "header ARTNET_DIRECTORYREPLY 10 = 0" "header ARTNET_DIRECTORYREPLY 11 = 14"
    "header ARTNET_DIRECTORYREPLY 16 = 0"
    by (simp_all add: header_def put_bytes_def zero_mem_def ARTNET_STRING_def le16_bytes_def)
  have count: "get_short artnet_directory_reply_s ''dirCountHi'' ''dirCountLo'' endless_directory = 1"
    using h by (simp add: get_short_def get8_def layout endless_directory_def bytes_to_short_eq)
  have type: "p_type endless_directory = opcode ARTNET_DIRECTORYREPLY" "p_length endless_directory = 2068"
    by (simp_all add: endless_directory_def)
  have "protocol_version endless_directory = 14"
    using h by (simp add: protocol_version_def get_short_def endless_directory_def layout get8_def
        bytes_to_short_eq type_of_code_opcode del: opcode.simps)
  then have valid: "packet_is_valid endless_directory"
    using count type
    by (simp add: packet_is_valid_def packet_length_is_valid_def packet_fields_are_valid_def
        valid_directory_reply_def payload_fits_def layout del: opcode.simps)
  have "unended endless_directory 0" by (simp add: unended_def dir_byte_def endless_directory_def)
  with printing_bounds [OF valid type(1)] count valid show ?thesis by auto
qed

section \<open>The names of a programmed node\<close>

lemma address_name_nth:
  "k < 18 \<Longrightarrow> address_name 18 (Some s) ! k = (if k < length s then of_char (s ! k) else 0)"
  by (simp add: address_name_def bytes_of_def nth_append)

lemma address_name_end:
  assumes "CHR 0x00 \<notin> set s"
  shows "0 \<in> set (address_name 18 (Some s)) \<longleftrightarrow> length s < 18"
proof
  have nonzero: "(of_char x :: u8) \<noteq> 0" if "x \<in> set s" for x
    using that assms byte_of_char_0 by metis
  assume "0 \<in> set (address_name 18 (Some s))"
  then obtain k where "k < 18" "address_name 18 (Some s) ! k = 0" by (auto simp: in_set_conv_nth)
  with address_name_nth [of k s] nonzero [of "s ! k"] show "length s < 18" by (auto split: if_splits)
next
  assume "length s < 18"
  then have "address_name 18 (Some s) ! 17 = 0" using address_name_nth [of 17 s] by simp
  then show "0 \<in> set (address_name 18 (Some s))"
    using nth_mem [of 17 "address_name 18 (Some s)"] by simp
qed

text \<open>C33: A controller that gives a node of its list a short name of 18 characters or more leaves the
  node with a name that has no end: printing the node's configuration, which the full node does
  whenever it was programmed, reads past the array.  With a shorter name it does not, if the long
  name has an end.\<close>

theorem long_name_breaks_dump:
  assumes ctl: "observer e" "mode c = ARTNET_ON" "is_controller c" "find_private_entry c ent = Some j"
    and args: "length ia = 4" "length oa = 4" "acn \<le> 200 \<or> acn = 0xFF" "0 < length s" "CHR 0x00 \<notin> set s"
      "wants_name (of_char (s ! 0))"
    and node: "observer e'" "unheard r" "fh (callbacks r (Packet_Cb ARTNET_ADDRESS_HANDLER)) = None"
      "node_type r \<noteq> ARTNET_SRV" "node_type r \<noteq> ARTNET_RAW" "bind_index r \<le> 1"
  shows "\<exists>p. sent (snd (artnet_send_address e c ent (Some s) ln (Some ia) (Some oa) net sub cmd acn)) =
      sent c @ [p] \<and> p_to p = ent_ip (entries (nodes c) ! j) \<and>
    (let r' = snd (handle e' r (delivered p))
     in artnet_dump_config r' = None \<longleftrightarrow> 18 \<le> length s \<or> 0 \<notin> set (get_bytes (longName r') 0 64))"
proof -
  define p where "p = program_packet (ip_addr c) (ent_ip (entries (nodes c) ! j))
    (program_fields (Some s) ln (Some ia) (Some oa) net sub cmd acn)"
  define r' where "r' = snd (handle e' r (delivered p))"
  have "\<forall>a. Some ia = Some a \<longrightarrow> length a = 4" "\<forall>a. Some oa = Some a \<longrightarrow> length a = 4"
    using args by simp_all
  note arrival = program_arrival [OF this args(3), where a = "ip_addr c" and b = "ent_ip (entries (nodes c) ! j)"
      and sn = "Some s" and ln = ln and net = net and sub = sub and cmd = cmd, folded p_def]
  have step: "r' = snd (handle_address e' r (delivered p))"
    using unheard_dispatch [OF node(2) arrival(3,1)] by (simp add: r'_def)
  have bind: "bind_index_matches r (get8 adr ''bindIndex'' (delivered p))"
    using bind_index_le_1 [OF node(6)] by (simp add: arrival(4))
  have "get_n adr ''shortName'' 18 (delivered p) ! 0 = get_at adr ''shortName'' 0 (delivered p)"
    by (simp add: get_n_def get_at_def)
  with arrival(9) address_name_nth [of 0 s] args(4,6) have "wants_name (get_at adr ''shortName'' 0 (delivered p))" by simp
  from short_name_programmed [OF node(1,3,4,5) bind this] arrival(9)
  have bytes: "get_bytes (shortName r') 0 18 = address_name 18 (Some s)"
    by (intro nth_equalityI) (simp_all add: step put_bytes_def)
  with address_name_end [OF args(5)]
  have "artnet_dump_config r' = None \<longleftrightarrow> 18 \<le> length s \<or> 0 \<notin> set (get_bytes (longName r') 0 64)"
    by (auto simp: artnet_dump_config_def say_defined no_none fmt_array_def bytes)
  moreover have "p_to p = ent_ip (entries (nodes c) ! j)" by (simp add: p_def program_packet_def)
  ultimately show ?thesis
    using address_call_sent [OF ctl, of "Some s" ln "Some ia" "Some oa" net sub cmd acn, folded p_def]
    by (intro exI [of _ p]) (simp add: r'_def)
qed

theorem long_name_breaks_dump_witness:
  "\<exists>p. sent (snd (artnet_send_address quiet_env demo_sender (Some (pub (entries (nodes demo_sender) ! 0)))
       (Some ''balcony left front'') None (Some [0x7F, 0x7F, 0x7F, 0x7F]) (Some [0x7F, 0x7F, 0x7F, 0x7F])
       0x7F 0x7F 0 0xFF)) = [p] \<and>
     artnet_dump_config (snd (handle quiet_env demo_node (delivered p))) = None"
proof -
  have "unheard demo_node" "fh (callbacks demo_node (Packet_Cb ARTNET_ADDRESS_HANDLER)) = None" "bind_index demo_node \<le> 1"
    by (simp_all add: unheard_def no_callback_def) (simp add: demo_node_def zero_node_def)
  moreover have "wants_name (of_char CHR ''b'')" by (simp add: wants_name_def of_char_def)
  ultimately show ?thesis
    using long_name_breaks_dump [OF observer_quiet demo_sender_fields(1,3,8), where ia = "[0x7F, 0x7F, 0x7F, 0x7F]"
        and oa = "[0x7F, 0x7F, 0x7F, 0x7F]" and s = "''balcony left front''" and net = "0x7F" and sub = "0x7F"
        and acn = "0xFF" and e' = quiet_env and r = demo_node and ln = None and cmd = 0]
    by (auto simp: Let_def)
qed

section \<open>A directory and its list\<close>

definition directory_fields :: "int \<Rightarrow> u8 list \<Rightarrow> (string \<times> u8 list) list" where
  "directory_fields tot bs =
     [(''dirCountHi'', [hi_byte (int (length bs))]), (''dirCountLo'', [lo_byte (int (length bs))]),
      (''dirTotalHi'', [hi_byte tot]), (''dirTotalLo'', [lo_byte tot]), (''dirEntry'', bs)]"

definition directory_packet :: "ip \<Rightarrow> ip \<Rightarrow> int \<Rightarrow> u8 list \<Rightarrow> packet" where
  "directory_packet a b tot bs =
     \<lparr>p_length = 20 + int (length bs), p_from = a, p_to = b, p_type = opcode ARTNET_DIRECTORYREPLY,
      p_data = fill artnet_directory_reply_s (directory_fields tot bs) (header ARTNET_DIRECTORYREPLY)\<rparr>"

interpretation directory_form: wire_form artnet_directory_reply_s ARTNET_DIRECTORYREPLY
  "\<lambda>xs. \<exists>tot bs. length bs \<le> 2048 \<and> xs = directory_fields tot bs"
  by unfold_locales (auto simp: directory_fields_def after_header_def fits_layout_def layout
      artnet_directory_reply_s_def simp del: opcode.simps)

lemma directory_arrives:
  fixes a b :: ip and tot :: int and bs :: "u8 list"
  assumes "length bs \<le> 2048" "0 \<le> tot" "tot < 2 ^ 16"
  defines "q \<equiv> delivered (directory_packet a b tot bs)"
  shows "packet_is_valid q" "p_type q = opcode ARTNET_DIRECTORYREPLY"
    "get_short artnet_directory_reply_s ''dirCountHi'' ''dirCountLo'' q = int (length bs)"
    "get_short artnet_directory_reply_s ''dirTotalHi'' ''dirTotalLo'' q = tot"
    "get_bytes (p_data q) 20 (length bs) = bs"
proof -
  define p where "p = directory_packet a b tot bs"
  have p: "p_data p = fill artnet_directory_reply_s (directory_fields tot bs) (header ARTNET_DIRECTORYREPLY)"
    "p_length p = 20 + int (length bs)"
    by (simp_all add: p_def directory_packet_def)
  have q: "q = delivered p" by (simp add: q_def p_def)
  have form: "\<exists>t cs. length cs \<le> 2048 \<and> directory_fields tot bs = directory_fields t cs" using assms(1) by blast
  note byte = directory_form.byte [OF form p(1), folded q]
  show type: "p_type q = opcode ARTNET_DIRECTORYREPLY"
    unfolding q using directory_form.arrives(1) [OF form p(1)] p(2) by simp
  have bytes: "get8 artnet_directory_reply_s ''dirCountHi'' q = hi_byte (int (length bs))"
    "get8 artnet_directory_reply_s ''dirCountLo'' q = lo_byte (int (length bs))"
    "get8 artnet_directory_reply_s ''dirTotalHi'' q = hi_byte tot"
    "get8 artnet_directory_reply_s ''dirTotalLo'' q = lo_byte tot"
    using byte [of "''dirCountHi''"] byte [of "''dirCountLo''"] byte [of "''dirTotalHi''"]
      byte [of "''dirTotalLo''"] p(2)
    by (simp_all add: layout) (simp_all add: directory_fields_def)
  show cnt: "get_short artnet_directory_reply_s ''dirCountHi'' ''dirCountLo'' q = int (length bs)"
    using bytes assms(1) by (simp add: get_short_def hi_lo_bytes)
  show "get_short artnet_directory_reply_s ''dirTotalHi'' ''dirTotalLo'' q = tot"
    using bytes assms(2,3) by (simp add: get_short_def hi_lo_bytes)
  have "p_data q (20 + i) = bs ! i" if "i < length bs" for i
    using directory_form.item [OF form p(1), of "''dirEntry''" bs i] that p(2)
    by (simp add: q layout) (simp add: directory_fields_def)
  then show "get_bytes (p_data q) 20 (length bs) = bs" by (intro nth_equalityI) simp_all
  have "valid_fields ARTNET_DIRECTORYREPLY q"
    using assms(1) p(2) cnt by (simp add: valid_directory_reply_def payload_fits_def layout Let_def q)
  then show "packet_is_valid q"
    using directory_form.accepted [OF form p(1), of 20] p(2) by (simp add: q layout)
qed

text \<open>Names one after the other, each with its 0, are listed one by one.\<close>

lemma name_shown:
  assumes "get_bytes (p_data p) (20 + s) (length w + 1) = w @ [0]" "0 \<notin> set w" "s + length w < 2048"
  shows "fmt_s None artnet_directory_reply_s ''dirEntry'' s p = Some w"
proof -
  let ?rest = "get_bytes (p_data p) (20 + s + (length w + 1)) (2048 - s - (length w + 1))"
  have "2048 - s = (length w + 1) + (2048 - s - (length w + 1))" using assms(3) by simp
  then have "dir_rest p s = get_bytes (p_data p) (20 + s) ((length w + 1) + (2048 - s - (length w + 1)))"
    by (rule arg_cong)
  also have "\<dots> = (w @ [0]) @ ?rest" by (simp only: get_bytes_append [of _ _ "length w + 1"] assms(1))
  finally have rest: "dir_rest p s = w @ 0 # ?rest" by simp
  have s: "s < 2048" using assms(3) by simp
  have "\<not> unended p s" using unended_rest [OF s, of p] by (simp add: rest)
  moreover have "takeWhile (\<lambda>c. c \<noteq> 0) (w @ 0 # ?rest) = w"
    using assms(2) by (auto simp: takeWhile_append takeWhile_eq_all_conv)
  ultimately show ?thesis using entry_text [OF s, of p] by (simp add: rest)
qed

definition blob :: "u8 list list \<Rightarrow> u8 list" where
  "blob ws = concat (map (\<lambda>w. w @ [0]) ws)"

lemma names_listed:
  assumes "get_bytes (p_data p) (20 + start) (length (blob ws)) = blob ws" "\<forall>w \<in> set ws. 0 \<notin> set w"
    and "start + length (blob ws) = k" "k \<le> 2048"
  shows "entry_lines p k start = concat (map (\<lambda>w. [lit ''  - '', Some w, line_end]) ws)"
  using assms
proof (induction ws arbitrary: start)
  case Nil
  then show ?case by (subst entry_lines.simps) (simp add: blob_def)
next
  case (Cons w ws)
  have split: "blob (w # ws) = (w @ [0]) @ blob ws" by (simp add: blob_def)
  have "get_bytes (p_data p) (20 + start) ((length w + 1) + length (blob ws)) = (w @ [0]) @ blob ws"
    using Cons.prems(1) by (simp add: split)
  then have "get_bytes (p_data p) (20 + start) (length w + 1) = w @ [0] \<and>
      get_bytes (p_data p) (20 + start + (length w + 1)) (length (blob ws)) = blob ws"
    unfolding get_bytes_append by (rule append_eq_append_conv [THEN iffD1, rotated]) simp
  then have parts: "get_bytes (p_data p) (20 + start) (length w + 1) = w @ [0]"
    "get_bytes (p_data p) (20 + (start + (length w + 1))) (length (blob ws)) = blob ws"
    by (simp_all only: add.assoc)
  have "fmt_s None artnet_directory_reply_s ''dirEntry'' start p = Some w"
    using Cons.prems by (intro name_shown [OF parts(1)]) (simp_all add: split)
  moreover have "entry_lines p k (start + length w + 1) = concat (map (\<lambda>w. [lit ''  - '', Some w, line_end]) ws)"
    using Cons.IH [OF parts(2)] Cons.prems by (simp add: split add.assoc)
  moreover have "start < k" using Cons.prems(3) by (simp add: split)
  ultimately show ?case by (subst entry_lines.simps) simp
qed

definition serves_directory :: "node \<Rightarrow> bool" where
  "serves_directory r \<longleftrightarrow>
     fh (callbacks r (Packet_Cb ARTNET_DIRECTORY_HANDLER)) = Some directory_fn \<and> unheard r"

definition file_names :: "u8 list list" where
  "file_names = map (\<lambda>f. bytes_of (file_name f)) k_mem_files"

lemma file_names_facts:
  "build_directory_blob 256 k_mem_files [] = blob file_names" "length (blob file_names) = 37"
  "\<forall>w \<in> set file_names. 0 \<notin> set w" "int (length k_mem_files) = 3"
  by (simp_all add: k_mem_files_def file_names_def blob_def bytes_of_def)

lemma directory_answer:
  assumes "mode r = ARTNET_ON" "serves_directory r" "packet_is_valid q" "p_type q = opcode ARTNET_DIRECTORY"
    and "p_from q \<noteq> 0"
  shows "sent (snd (handle (full_node_env e) r q)) =
    sent r @ [directory_packet (ip_addr r) (p_from q) 3 (blob file_names)]"
proof -
  have un: "unheard r" "fh (callbacks r (Packet_Cb ARTNET_DIRECTORY_HANDLER)) = Some 2"
    using assms(2) by (simp_all add: serves_directory_def)
  have "snd (handle (full_node_env e) r q) = snd (directory_handler (printing e) (r\<lparr>reply_addr := p_from q\<rparr>) q)"
    using unheard_dispatch [OF un(1) assms(3,4)] un(2)
    by (simp add: handle_directory_def check_callback_def run_callback_def full_node_env_def full_node_call_def
        directory_handler_def Let_def)
  also have "sent \<dots> = sent r @ [directory_packet (ip_addr r) (p_from q) 3 (blob file_names)]"
  proof -
    have "get_bytes (buffer_of (blob file_names)) 0 37 = blob file_names"
      by (intro nth_equalityI) (simp_all add: buffer_of_def put_bytes_def file_names_facts(2))
    then show ?thesis
      using assms(1,5) file_names_facts(1,2,4)
      by (simp add: directory_handler_def artnet_send_directory_reply_def net_send_sent new_packet_def
          directory_packet_def directory_fields_def layout Let_def del: opcode.simps)
  qed
  finally show ?thesis .
qed

text \<open>C31: A node of the full_node program that is asked for its directory sends one packet to the
  asker; the packet passes the library's checks, and the full controller shows the names of the
  node's files, each on a line of its own, under a line that gives the number of their bytes as that
  of the entries.\<close>

theorem directory_is_listed:
  assumes "mode r = ARTNET_ON" "serves_directory r" "packet_is_valid q" "p_type q = opcode ARTNET_DIRECTORY"
    and "p_from q \<noteq> 0"
  shows "\<exists>p. sent (snd (handle (full_node_env e) r q)) = sent r @ [p] \<and> p_to p = p_from q \<and>
    packet_is_valid (delivered p) \<and> p_type (delivered p) = opcode ARTNET_DIRECTORYREPLY \<and>
    fc_prints ARTNET_DIRECTORYREPLY (delivered p) =
      Some (bytes_of (newline # ''[DirectoryReply] entries=37 total=3'' @ newline #
        ''  - full_node.log'' @ newline # ''  - scene_A.dmx'' @ newline # ''  - readme.txt'' @ newline # ''> ''))"
proof -
  define p where "p = directory_packet (ip_addr r) (p_from q) 3 (blob file_names)"
  have "length (blob file_names) \<le> 2048" "(0 :: int) \<le> 3" "(3 :: int) < 2 ^ 16"
    by (simp_all add: file_names_facts(2))
  note arr = directory_arrives [OF this, where a = "ip_addr r" and b = "p_from q", folded p_def,
      unfolded file_names_facts(2)]
  have "get_bytes (p_data (delivered p)) (20 + 0) (length (blob file_names)) = blob file_names"
    "0 + length (blob file_names) = 37"
    using arr(5) by (simp_all add: file_names_facts(2))
  from names_listed [OF this(1) file_names_facts(3) this(2)]
  have entries: "entry_lines (delivered p) 37 0 = concat (map (\<lambda>w. [lit ''  - '', Some w, line_end]) file_names)"
    by simp
  have nums: "fmt_int 37 = Some (bytes_of ''37'')" "fmt_int 3 = Some (bytes_of ''3'')" by code_simp+
  have "fc_prints ARTNET_DIRECTORYREPLY (delivered p) =
      Some (bytes_of (newline # ''[DirectoryReply] entries=37 total=3'' @ newline #
        ''  - full_node.log'' @ newline # ''  - scene_A.dmx'' @ newline # ''  - readme.txt'' @ newline # ''> ''))"
    by (simp add: fc_directory_reply_handler_def arr(3,4) entries nums)
      (simp add: lit_def line_end_def prompt_def file_names_def k_mem_files_def bytes_of_def)
  moreover have "p_to p = p_from q" by (simp add: p_def directory_packet_def)
  ultimately show ?thesis using directory_answer [OF assms, of e] arr(1,2) by (auto simp: p_def)
qed

definition directory_server :: node where
  "directory_server = demo_node\<lparr>callbacks := (\<lambda>_. no_callback)(Packet_Cb ARTNET_DIRECTORY_HANDLER :=
     \<lparr>fh = Some directory_fn, cb_data = 0\<rparr>)\<rparr>"

definition directory_request :: packet where
  "directory_request =
     \<lparr>p_length = 25, p_from = 0x0300000A, p_to = 0, p_type = opcode ARTNET_DIRECTORY,
      p_data = header ARTNET_DIRECTORY\<rparr>"

theorem directory_is_listed_witness:
  "\<exists>p. sent (snd (handle (full_node_env quiet_env) directory_server directory_request)) = [p] \<and>
    p_to p = 0x0300000A \<and> fc_prints ARTNET_DIRECTORYREPLY (delivered p) \<noteq> None"
proof -
  have "protocol_version directory_request = 14"
    using header_bytes [where t = ARTNET_DIRECTORY]
    by (simp add: protocol_version_def get_short_def directory_request_def layout get8_def
        bytes_to_short_eq type_of_code_opcode del: opcode.simps)
  then have "packet_is_valid directory_request"
    by (simp add: packet_is_valid_def packet_length_is_valid_def packet_fields_are_valid_def
        directory_request_def layout del: opcode.simps)
  moreover have "mode directory_server = ARTNET_ON" "serves_directory directory_server"
    "sent directory_server = []"
    by (simp_all add: serves_directory_def directory_server_def unheard_def no_callback_def)
      (simp_all add: demo_node_def zero_node_def)
  moreover have "p_type directory_request = opcode ARTNET_DIRECTORY" "p_from directory_request = 0x0300000A"
    by (simp_all add: directory_request_def)
  ultimately show ?thesis
    using directory_is_listed [of directory_server directory_request quiet_env] by auto
qed

end
