(* ===== verification/Clock_Properties.thy ===== *)
theory Clock_Properties
  imports Clocks Starting
begin

text \<open>
  The programs about time, from end to end: the transmitter counts the frames of a day, what the
  receiver shows is what the transmitter sent, and so are the dates and the messages that the
  monitor shows.
\<close>

section \<open>The transmitter counts\<close>

definition frame_no :: "u8 \<Rightarrow> frame_time \<Rightarrow> nat" where
  "frame_no limit t =
     ((unat (hours t) * 60 + unat (minutes t)) * 60 + unat (seconds t)) * unat limit + unat (frames t)"

definition time_ok :: "u8 \<Rightarrow> frame_time \<Rightarrow> bool" where
  "time_ok limit t \<longleftrightarrow> hours t < 24 \<and> minutes t < 60 \<and> seconds t < 60 \<and> frames t < limit"

lemma midnight_ok: "0 < limit \<Longrightarrow> time_ok limit midnight" "frame_no limit midnight = 0"
  by (simp_all add: time_ok_def midnight_def frame_no_def)

text \<open>A counter below its limit that is advanced reaches the limit or stays below it.\<close>

lemma next_below:
  fixes x limit :: u8
  assumes "x < limit"
  shows "unat (x + 1) = Suc (unat x)" "x + 1 < limit \<or> x + 1 = limit"
proof -
  have "unat x < unat limit" "unat limit < 256"
    using assms unsigned_less [of limit] by (simp_all add: word_less_nat_alt)
  then show one: "unat (x + 1) = Suc (unat x)"
    by (simp add: unat_word_ariths(1) mod_less)
  then show "x + 1 < limit \<or> x + 1 = limit"
    using assms by (auto simp: word_less_nat_alt word_unat_eq_iff)
qed

lemma frame_no_below:
  assumes "time_ok limit t"
  shows "frame_no limit t < 86400 * unat limit"
proof -
  have u: "unat (hours t) \<le> 23" "unat (minutes t) \<le> 59" "unat (seconds t) \<le> 59"
      "unat (frames t) < unat limit"
    using assms by (simp_all add: time_ok_def word_less_nat_alt)
  have day: "(x * 60 + y) * 60 + z \<le> 86399" if "x \<le> 23" "y \<le> 59" "z \<le> 59" for x y z :: nat
    using that by presburger
  have "(unat (hours t) * 60 + unat (minutes t)) * 60 + unat (seconds t) \<le> 86399"
    using u(1-3) by (rule day)
  from mult_le_mono1 [OF this, of "unat limit"] u(4) show ?thesis unfolding frame_no_def by linarith
qed

lemma advance_counts:
  assumes "time_ok limit t"
  shows "time_ok limit (advance limit t)"
    "frame_no limit (advance limit t) = (frame_no limit t + 1) mod (86400 * unat limit)"
proof -
  have below: "hours t < 24" "minutes t < 60" "seconds t < 60" "frames t < limit"
    using assms by (simp_all add: time_ok_def)
  note n = next_below [OF below(1)] next_below [OF below(2)] next_below [OF below(3)] next_below [OF below(4)]
  have pos: "0 < limit" using below(4) word_coorder.not_eq_extremum by fastforce
  have lims: "unat (24 :: u8) = 24" "unat (60 :: u8) = 60" by simp_all
  let ?h = "unat (hours t)" and ?m = "unat (minutes t)" and ?s = "unat (seconds t)"
    and ?f = "unat (frames t)" and ?L = "unat limit"
  have small: "frame_no limit u mod (86400 * ?L) = frame_no limit u" if "time_ok limit u" for u
    using frame_no_below [OF that] by simp
  consider (new_day) "frames t + 1 = limit" "seconds t + 1 = 60" "minutes t + 1 = 60" "hours t + 1 = 24"
    | (new_hour) "frames t + 1 = limit" "seconds t + 1 = 60" "minutes t + 1 = 60" "hours t + 1 < 24"
    | (new_minute) "frames t + 1 = limit" "seconds t + 1 = 60" "minutes t + 1 < 60"
    | (new_second) "frames t + 1 = limit" "seconds t + 1 < 60"
    | (new_frame) "frames t + 1 < limit"
    using n by blast
  then have "time_ok limit (advance limit t) \<and>
    frame_no limit (advance limit t) = (frame_no limit t + 1) mod (86400 * ?L)"
  proof cases
    case new_day
    then have eq: "?h = 23" "?m = 59" "?s = 59" "?L = Suc ?f" using n lims by auto
    have "advance limit t = midnight"
      using new_day by (simp add: advance_def midnight_def Let_def)
    moreover have "frame_no limit t + 1 = 86400 * ?L" by (simp add: frame_no_def eq)
    ultimately show ?thesis using midnight_ok pos by simp
  next
    case new_hour
    then have eq: "?m = 59" "?s = 59" "?L = Suc ?f" using n lims by auto
    have adv: "advance limit t = t\<lparr>frames := 0, seconds := 0, minutes := 0, hours := hours t + 1\<rparr>"
      using new_hour by (simp add: advance_def not_le Let_def)
    then have ok: "time_ok limit (advance limit t)" using new_hour pos by (simp add: time_ok_def)
    have "frame_no limit (advance limit t) = frame_no limit t + 1"
      using n(1) by (simp add: adv frame_no_def eq algebra_simps)
    with ok small [OF ok] show ?thesis by simp
  next
    case new_minute
    then have eq: "?s = 59" "?L = Suc ?f" using n lims by auto
    have adv: "advance limit t = t\<lparr>frames := 0, seconds := 0, minutes := minutes t + 1\<rparr>"
      using new_minute by (simp add: advance_def not_le Let_def)
    then have ok: "time_ok limit (advance limit t)" using new_minute pos below by (simp add: time_ok_def)
    have "frame_no limit (advance limit t) = frame_no limit t + 1"
      using n(3) by (simp add: adv frame_no_def eq algebra_simps)
    with ok small [OF ok] show ?thesis by simp
  next
    case new_second
    then have eq: "?L = Suc ?f" using n by auto
    have adv: "advance limit t = t\<lparr>frames := 0, seconds := seconds t + 1\<rparr>"
      using new_second by (simp add: advance_def not_le Let_def)
    then have ok: "time_ok limit (advance limit t)" using new_second pos below by (simp add: time_ok_def)
    have "frame_no limit (advance limit t) = frame_no limit t + 1"
      using n(5) by (simp add: adv frame_no_def eq algebra_simps)
    with ok small [OF ok] show ?thesis by simp
  next
    case new_frame
    have adv: "advance limit t = t\<lparr>frames := frames t + 1\<rparr>"
      using new_frame by (simp add: advance_def not_le Let_def)
    then have ok: "time_ok limit (advance limit t)" using new_frame below by (simp add: time_ok_def)
    have "frame_no limit (advance limit t) = frame_no limit t + 1"
      using n(7) by (simp add: adv frame_no_def)
    with ok small [OF ok] show ?thesis by simp
  qed
  then show "time_ok limit (advance limit t)"
    "frame_no limit (advance limit t) = (frame_no limit t + 1) mod (86400 * ?L)" by simp_all
qed

text \<open>The rounds of the loop before the user stops it.\<close>

definition rounds_run :: "event list \<Rightarrow> nat" where
  "rounds_run evs = length (takeWhile (\<lambda>ev. ev \<noteq> Signal) evs)"

lemma tc_fields [simp]:
  "tc_type (tc_send e a) = tc_type a" "tc_time (tc_send e a) = tc_time a"
  "running (tc_send e a) = running a" "tc_stream_id (tc_send e a) = tc_stream_id a"
  by (simp_all add: tc_send_def call_def Let_def)

lemma tc_round_time:
  assumes "polite_event (Wakeup as r)" "app_ok (printing e) a" "running a"
  shows "\<exists>b. tc_round e (Wakeup as r) a = Some b \<and> app_ok (printing e) b \<and> running b \<and>
    tc_type b = tc_type a \<and> tc_time b = advance (max_frame (tc_type a)) (tc_time a)"
proof -
  obtain n where n: "app_read (printing e) as a = Some (a\<lparr>lib := n\<rparr>)"
    using solo_read [of as UNIV "printing e" a] assms(1,2) by (auto simp: polite_event_def app_in_def)
  with tc_round_ok [OF assms(1,2)] assms(3) show ?thesis by (auto simp: tc_round_def Let_def)
qed

lemma tc_stopped:
  "\<not> running a \<Longrightarrow> session (tc_round e) evs a = Some b \<Longrightarrow> tc_time b = tc_time a"
proof (induction evs arbitrary: a)
  case (Cons ev evs)
  then have "\<exists>c. tc_round e ev a = Some c \<and> \<not> running c \<and> tc_time c = tc_time a"
    by (cases ev) (simp_all add: tc_round_def)
  with Cons show ?case by auto
qed simp

lemma tc_session_time:
  assumes "list_all polite_event evs" "app_ok (printing e) a" "running a" "time_ok (max_frame (tc_type a)) (tc_time a)"
  shows "\<exists>b. session (tc_round e) evs a = Some b \<and> time_ok (max_frame (tc_type a)) (tc_time b) \<and>
    frame_no (max_frame (tc_type a)) (tc_time b) =
      (frame_no (max_frame (tc_type a)) (tc_time a) + rounds_run evs) mod (86400 * unat (max_frame (tc_type a)))"
    (is "\<exists>b. _ \<and> ?ok b \<and> ?no b = _")
  using assms
proof (induction evs arbitrary: a)
  case Nil
  with frame_no_below [OF Nil.prems(4)] show ?case by (simp add: rounds_run_def)
next
  case (Cons ev evs)
  let ?L = "max_frame (tc_type a)"
  show ?case
  proof (cases ev)
    case Signal
    let ?c = "a\<lparr>running := False\<rparr>"
    have "list_all polite_event evs" "app_ok (printing e) ?c" using Cons.prems(1,2) by simp_all
    then obtain b where b: "session (tc_round e) evs ?c = Some b" using tc.session_ok by blast
    from tc_stopped [OF _ b] have "tc_time b = tc_time a" by simp
    moreover have "tc_round e Signal a = Some ?c" by (simp add: tc_round_def)
    ultimately show ?thesis
      using b Signal Cons.prems(4) frame_no_below [OF Cons.prems(4)] by (simp add: rounds_run_def)
  next
    case (Wakeup as r)
    obtain c where c: "tc_round e (Wakeup as r) a = Some c" "app_ok (printing e) c" "running c"
      "tc_type c = tc_type a" "tc_time c = advance ?L (tc_time a)"
      using tc_round_time [of as r e a] Cons.prems Wakeup by auto
    note adv = advance_counts [OF Cons.prems(4)]
    from Cons.IH [of c] Cons.prems(1) c adv obtain b where
      "session (tc_round e) evs c = Some b" "time_ok ?L (tc_time b)"
      "frame_no ?L (tc_time b) = (frame_no ?L (tc_time c) + rounds_run evs) mod (86400 * unat ?L)"
      by auto
    with c(1,5) adv(2) Wakeup show ?thesis by (simp add: rounds_run_def mod_simps)
  qed
qed

lemma max_frame_range: "0 < max_frame ty" "max_frame ty \<le> 30"
  by (cases ty; simp)+

text \<open>C36: The time code transmitter, started in surroundings that grant it memory, has after any
  session counted the rounds of its loop in hours, minutes, seconds and frames: the number of the
  frame it sends next is the number of rounds, modulo those of a day at its type's rate.\<close>

theorem transmitter_counts_frames:
  assumes "\<forall>k. env_malloc e k" "tc_start e pf args = Some a" "list_all polite_event evs"
  shows "\<exists>b. session (tc_round e) evs a = Some b \<and>
    (let limit = max_frame (tc_type a)
     in time_ok limit (tc_time b) \<and> frame_no limit (tc_time b) = rounds_run evs mod (86400 * unat limit))"
proof -
  have a: "app_ok (printing e) a" using clocks_start_ok(1) [OF assms(1,2)] .
  have "running a" "tc_time a = midnight"
    using assms(2) by (auto simp: tc_start_def split: option.splits)
  with tc_session_time [OF assms(3) a] midnight_ok max_frame_range(1) show ?thesis
    by (simp add: Let_def)
qed

lemma demo_tc_start: "\<exists>a. tc_start quiet_env demo_platform [] = Some a \<and> tc_type a = ARTNET_TIMECODE_EBU"
proof -
  have "role (configure tc_config demo_new) = (ARTNET_NODE, ARTNET_STANDBY, rdm_reply_addr demo_new)"
    using configure_identified [of "[]"] by (simp add: tc_config_def mode_demo_new keeps_role_def)
  from demo_launch [OF this, of "printing quiet_env"] show ?thesis
    by (auto simp: tc_start_def timecode_type_of_def)
qed

theorem transmitter_counts_frames_witness:
  "\<exists>a b. tc_start quiet_env demo_platform [] = Some a \<and>
     session (tc_round quiet_env) [Wakeup [Datagram 0x0300000A demo_frame] False, Signal] a = Some b \<and>
     frame_no 25 (tc_time b) = 1"
proof -
  obtain a where a: "tc_start quiet_env demo_platform [] = Some a" "tc_type a = ARTNET_TIMECODE_EBU"
    using demo_tc_start by blast
  have "list_all polite_event [Wakeup [Datagram 0x0300000A demo_frame] False, Signal]"
    using polite_demo_frame by (simp add: polite_event_def)
  moreover have "\<forall>k. env_malloc quiet_env k" by (simp add: quiet_env_def)
  moreover have "rounds_run [Wakeup [Datagram 0x0300000A demo_frame] False, Signal] mod (86400 * unat (25 :: u8)) = 1"
    by (simp add: rounds_run_def)
  ultimately show ?thesis
    using transmitter_counts_frames [OF _ a(1)] a unfolding Let_def by (metis max_frame.simps(2))
qed

section \<open>What the receiver shows\<close>

definition timecode_fields :: "u8 \<Rightarrow> frame_time \<Rightarrow> u8 \<Rightarrow> (string \<times> u8 list) list" where
  "timecode_fields stream t ty =
     [(''streamId'', [stream]), (''frames'', [frames t]), (''seconds'', [seconds t]),
      (''minutes'', [minutes t]), (''hours'', [hours t]), (''type'', [ty])]"

lemma timecode_fields_fit:
  "after_header artnet_timecode_s (timecode_fields s t ty)"
  "fits_layout artnet_timecode_s (timecode_fields s t ty)"
  "distinct (map fst (timecode_fields s t ty))"
  by (simp_all add: timecode_fields_def layout after_header_def)
     (simp add: fits_layout_def artnet_timecode_s_def)

interpretation timecode_form: wire_form artnet_timecode_s ARTNET_TIMECODE
  "\<lambda>xs. \<exists>s t ty. xs = timecode_fields s t ty"
  by unfold_locales (use timecode_fields_fit in \<open>auto simp del: opcode.simps\<close>)

lemma type_name_code: "type_name (ucast (timecode_code ty)) = timecode_name ty"
  "ucast (timecode_code ty) \<le> (3 :: u8)" "timecode_code ty \<le> 3"
  by (cases ty; simp add: type_name_def timecode_type_of_def)+

text \<open>C37: Every time code that the transmitter sends at a proper time is a broadcast that receivers
  accept, and they show the time, the type and the stream that were sent.\<close>

theorem time_code_received:
  assumes "mode (lib a) = ARTNET_ON" "time_ok (max_frame (tc_type a)) (tc_time a)"
  shows "\<exists>p. sent (lib (tc_send e a)) = sent (lib a) @ [p] \<and> p_to p = bcast_addr (lib a) \<and>
    packet_is_valid (delivered p) \<and>
    timecode_shown (delivered p) = (tc_time a, timecode_name (tc_type a), tc_stream_id a)"
proof -
  let ?t = "tc_time a" and ?n = "lib a"
  let ?ty = "ucast (timecode_code (tc_type a)) :: u8"
  define p where "p = (new_packet (bcast_addr ?n) (opcode ARTNET_TIMECODE) (size_of artnet_timecode_s)
    (fill artnet_timecode_s (timecode_fields (tc_stream_id a) ?t ?ty) (header ARTNET_TIMECODE)))
    \<lparr>p_from := ip_addr ?n\<rparr>"
  have "frames ?t < 30"
    using assms(2) max_frame_range(2) order_less_le_trans by (auto simp: time_ok_def)
  then have range: "frames ?t \<le> 29" "seconds ?t \<le> 59" "minutes ?t \<le> 59" "hours ?t \<le> 23"
    using assms(2) by (simp_all add: time_ok_def word_less_nat_alt word_le_nat_alt)
  then have ok: "\<not> (29 < frames ?t \<or> 59 < seconds ?t \<or> 59 < minutes ?t \<or> 23 < hours ?t \<or>
      ARTNET_TIMECODE_SMPTE < timecode_code (tc_type a))"
    using type_name_code(3) [of "tc_type a"] by (simp add: not_less)
  have sent: "sent (lib (tc_send e a)) = sent ?n @ [p]"
    using assms(1) ok
    by (simp add: tc_send_def call_def Let_def artnet_send_timecode_def artnet_tx_timecode_def send_new_def
        net_send_sent timecode_fields_def p_def)
  have data: "p_data p = fill artnet_timecode_s (timecode_fields (tc_stream_id a) ?t ?ty)
      (header ARTNET_TIMECODE)"
    and len: "p_length p = 19"
    by (simp_all add: p_def new_packet_def layout)
  have form: "\<exists>s t ty. timecode_fields (tc_stream_id a) ?t ?ty = timecode_fields s t ty" by blast
  note byte = timecode_form.byte [OF form data]
  have fields: "get8 artnet_timecode_s ''streamId'' (delivered p) = tc_stream_id a"
    "get8 artnet_timecode_s ''frames'' (delivered p) = frames ?t"
    "get8 artnet_timecode_s ''seconds'' (delivered p) = seconds ?t"
    "get8 artnet_timecode_s ''minutes'' (delivered p) = minutes ?t"
    "get8 artnet_timecode_s ''hours'' (delivered p) = hours ?t"
    "get8 artnet_timecode_s ''type'' (delivered p) = ?ty"
    by (rule byte, simp add: timecode_fields_def, simp add: len layout)+
  have "valid_fields ARTNET_TIMECODE (delivered p)"
    using range type_name_code(2) [of "tc_type a"]
    by (simp add: valid_timecode_def fields Let_def not_less)
  then have "packet_is_valid (delivered p)"
    using timecode_form.accepted [OF form data] len by (simp add: layout)
  moreover have "timecode_shown (delivered p) = (?t, timecode_name (tc_type a), tc_stream_id a)"
    by (simp add: timecode_shown_def fields type_name_code(1))
  moreover have "p_to p = bcast_addr ?n" by (simp add: p_def new_packet_def)
  ultimately show ?thesis using sent by blast
qed

theorem time_code_received_witness:
  "\<exists>p. sent (lib (tc_send quiet_env \<lparr>stdin = [], lib = demo_node, running = True, stray = False,
       tc_type = ARTNET_TIMECODE_DF, tc_stream_id = 3,
       tc_time = \<lparr>hours = 23, minutes = 59, seconds = 59, frames = 29\<rparr>\<rparr>)) = sent demo_node @ [p] \<and>
     timecode_shown (delivered p) = (\<lparr>hours = 23, minutes = 59, seconds = 59, frames = 29\<rparr>,
       ''DF (29.97fps)'', 3)"
proof -
  have "mode demo_node = ARTNET_ON" by simp
  then show ?thesis
    using time_code_received [where e = quiet_env and a = "\<lparr>stdin = [], lib = demo_node, running = True,
        stray = False, tc_type = ARTNET_TIMECODE_DF, tc_stream_id = 3,
        tc_time = \<lparr>hours = 23, minutes = 59, seconds = 59, frames = 29\<rparr>\<rparr>"]
    by (auto simp: time_ok_def)
qed

section \<open>What the monitor shows\<close>

text \<open>A local time as C gives it, leap second included, in the years that a byte can count from 1900.\<close>

definition tm_ok :: "tm \<Rightarrow> bool" where
  "tm_ok t \<longleftrightarrow>
     0 \<le> tm_sec t \<and> tm_sec t \<le> 60 \<and> 0 \<le> tm_min t \<and> tm_min t \<le> 59 \<and> 0 \<le> tm_hour t \<and> tm_hour t \<le> 23 \<and>
     1 \<le> tm_mday t \<and> tm_mday t \<le> 31 \<and> 0 \<le> tm_mon t \<and> tm_mon t \<le> 11 \<and> 0 \<le> tm_year t \<and> tm_year t \<le> 255"

definition timesync_fields :: "tm \<Rightarrow> (string \<times> u8 list) list" where
  "timesync_fields t =
     [(''tm_sec'', [word_of_int (tm_sec t)]), (''tm_min'', [word_of_int (tm_min t)]),
      (''tm_hour'', [word_of_int (tm_hour t)]), (''tm_mday'', [word_of_int (tm_mday t)]),
      (''tm_mon'', [word_of_int (tm_mon t)]), (''tm_year'', [word_of_int (tm_year t)])]"

lemma timesync_fields_fit:
  "after_header artnet_timesync_s (timesync_fields t)"
  "fits_layout artnet_timesync_s (timesync_fields t)" "distinct (map fst (timesync_fields t))"
  by (simp_all add: timesync_fields_def layout after_header_def)
     (simp add: fits_layout_def artnet_timesync_s_def)

interpretation timesync_form: wire_form artnet_timesync_s ARTNET_TIMESYNC "\<lambda>xs. \<exists>t. xs = timesync_fields t"
  by unfold_locales (use timesync_fields_fit in \<open>auto simp del: opcode.simps\<close>)

lemma byte_range:
  assumes "0 \<le> x" "x \<le> 255"
  shows "uint (word_of_int x :: u8) = x"
  using assms by (simp add: uint_word_of_int_eq take_bit_int_eq_self)

lemma byte_above:
  assumes "0 \<le> x" "x \<le> 255" "0 \<le> k" "k \<le> 255"
  shows "(word_of_int k :: u8) < word_of_int x \<longleftrightarrow> k < x" "(word_of_int x :: u8) < word_of_int k \<longleftrightarrow> x < k"
  using assms byte_range [of x] byte_range [of k] by (simp_all add: word_less_def)

lemma tm_bytes:
  assumes "tm_ok t"
  shows "(59 :: u8) < word_of_int (tm_sec t) \<longleftrightarrow> tm_sec t = 60" "\<not> (59 :: u8) < word_of_int (tm_min t)"
    "\<not> (23 :: u8) < word_of_int (tm_hour t)" "\<not> word_of_int (tm_mday t) < (1 :: u8)"
    "\<not> (31 :: u8) < word_of_int (tm_mday t)" "\<not> (11 :: u8) < word_of_int (tm_mon t)"
  using assms byte_above [of "tm_sec t" 59] byte_above [of "tm_min t" 59] byte_above [of "tm_hour t" 23]
    byte_above [of "tm_mday t" 1] byte_above [of "tm_mday t" 31] byte_above [of "tm_mon t" 11]
  by (auto simp: tm_ok_def)

text \<open>The synchroniser broadcasts the local time, and a monitor that hears it shows the same date
  and time; in a leap second, which ArtTimeSync has no room for, it sends nothing.\<close>

theorem date_received:
  assumes "mode (lib a) = ARTNET_ON" "tm_ok t"
  shows "if tm_sec t = 60 then lib (ts_send e t a) = lib a
    else \<exists>p. sent (lib (ts_send e t a)) = sent (lib a) @ [p] \<and> p_to p = bcast_addr (lib a) \<and>
      packet_is_valid (delivered p) \<and>
      timesync_shown (delivered p) =
        (1900 + tm_year t, tm_mon t + 1, tm_mday t, tm_hour t, tm_min t, tm_sec t)"
proof (cases "tm_sec t = 60")
  case True
  then show ?thesis
    using assms tm_bytes [OF assms(2)]
    by (simp add: ts_send_def call_def artnet_send_timesync_def artnet_tx_timesync_def)
next
  case False
  let ?n = "lib a"
  note range = tm_bytes [OF assms(2)]
  define p where "p = (new_packet (bcast_addr ?n) (opcode ARTNET_TIMESYNC) (size_of artnet_timesync_s)
    (fill artnet_timesync_s (timesync_fields t) (header ARTNET_TIMESYNC)))\<lparr>p_from := ip_addr ?n\<rparr>"
  have sent: "sent (lib (ts_send e t a)) = sent ?n @ [p]"
    using assms(1) range False
    by (simp add: ts_send_def call_def artnet_send_timesync_def artnet_tx_timesync_def send_new_def
        net_send_sent timesync_fields_def p_def)
  have data: "p_data p = fill artnet_timesync_s (timesync_fields t) (header ARTNET_TIMESYNC)"
    and len: "p_length p = 24"
    by (simp_all add: p_def new_packet_def layout)
  have form: "\<exists>u. timesync_fields t = timesync_fields u" by blast
  note byte = timesync_form.byte [OF form data]
  have fields: "get8 artnet_timesync_s ''tm_sec'' (delivered p) = word_of_int (tm_sec t)"
    "get8 artnet_timesync_s ''tm_min'' (delivered p) = word_of_int (tm_min t)"
    "get8 artnet_timesync_s ''tm_hour'' (delivered p) = word_of_int (tm_hour t)"
    "get8 artnet_timesync_s ''tm_mday'' (delivered p) = word_of_int (tm_mday t)"
    "get8 artnet_timesync_s ''tm_mon'' (delivered p) = word_of_int (tm_mon t)"
    "get8 artnet_timesync_s ''tm_year'' (delivered p) = word_of_int (tm_year t)"
    by (rule byte, simp add: timesync_fields_def, simp add: len layout)+
  have "valid_fields ARTNET_TIMESYNC (delivered p)"
    using range False by (simp add: valid_timesync_def fields Let_def)
  then have "packet_is_valid (delivered p)"
    using timesync_form.accepted [OF form data] len by (simp add: layout)
  moreover have "timesync_shown (delivered p) =
      (1900 + tm_year t, tm_mon t + 1, tm_mday t, tm_hour t, tm_min t, tm_sec t)"
    using assms(2) by (simp add: timesync_shown_def fields byte_range tm_ok_def)
  moreover have "p_to p = bcast_addr ?n" by (simp add: p_def new_packet_def)
  ultimately show ?thesis using sent False by auto
qed

definition new_year :: tm where
  "new_year = \<lparr>tm_sec = 0, tm_min = 0, tm_hour = 0, tm_mday = 1, tm_mon = 0, tm_year = 126\<rparr>"

theorem date_received_witness:
  "(\<exists>p. sent (lib (ts_send quiet_env new_year (running_node demo_node))) = sent demo_node @ [p] \<and>
     timesync_shown (delivered p) = (2026, 1, 1, 0, 0, 0)) \<and>
   lib (ts_send quiet_env (new_year\<lparr>tm_sec := 60\<rparr>) (running_node demo_node)) = demo_node"
proof -
  have "mode (lib (running_node demo_node)) = ARTNET_ON" by (simp add: running_node_def)
  note received = date_received [OF this, where e = quiet_env]
  show ?thesis
    using received [of new_year] received [of "new_year\<lparr>tm_sec := 60\<rparr>"]
    by (auto simp: tm_ok_def new_year_def running_node_def)
qed

section \<open>Messages\<close>

definition diag_fields :: "u8 \<Rightarrow> u8 \<Rightarrow> int \<Rightarrow> u8 list \<Rightarrow> (string \<times> u8 list) list" where
  "diag_fields prio port len bs =
     [(''diagPriority'', [prio]), (''logicalPort'', [port]), (''lengthHi'', [hi_byte (len + 1)]),
      (''length'', [lo_byte (len + 1)]), (''data'', bs)]"

lemma diag_fields_fit:
  "after_header artnet_diagdata_s (diag_fields prio port len bs)"
  "length bs \<le> 512 \<Longrightarrow> fits_layout artnet_diagdata_s (diag_fields prio port len bs)"
  "distinct (map fst (diag_fields prio port len bs))"
  by (simp_all add: diag_fields_def layout after_header_def)
     (simp add: fits_layout_def artnet_diagdata_s_def)

interpretation diag_form: wire_form artnet_diagdata_s ARTNET_DIAGDATA
  "\<lambda>xs. \<exists>prio port len bs. length bs \<le> 512 \<and> xs = diag_fields prio port len bs"
  by unfold_locales (use diag_fields_fit in \<open>auto simp del: opcode.simps\<close>)

text \<open>A message that a node sends, at a priority its controllers asked for, reaches the monitor:
  it shows the name of the priority, the port and the text, as far as the packet has room for it.\<close>

theorem message_received:
  assumes "observer e" "mode n = ARTNET_ON" "diag_enabled n" "diag_priority n \<le> prio"
    and "prio \<in> {0x10, 0x40, 0x80, 0xe0, 0xf0}" "diag_unicast n \<longrightarrow> reply_addr n \<noteq> 0"
    and "CHR 0x00 \<notin> set msg"
  shows "\<exists>p. sent (snd (artnet_send_diagnostic e n prio port (Some msg))) = sent n @ [p] \<and>
    p_to p = (if diag_unicast n then reply_addr n else bcast_addr n) \<and> packet_is_valid (delivered p) \<and>
    diag_shown (delivered p) = (diag_priority_name prio, port, take 511 (bytes_of msg))"
proof -
  let ?len = "min (int (length msg)) 511"
  let ?bs = "take 511 (bytes_of msg)"
  define to where "to = (if diag_unicast n then reply_addr n else bcast_addr n)"
  define p where "p = (new_packet to (opcode ARTNET_DIAGDATA) (18 + ?len + 1)
    (fill artnet_diagdata_s (diag_fields prio port ?len ?bs) (header ARTNET_DIAGDATA)))\<lparr>p_from := ip_addr n\<rparr>"
  have bs: "take (nat ?len) (bytes_of msg) = ?bs" "int (length ?bs) = ?len"
    by (simp_all add: bytes_of_def min_def)
  have sent: "sent (snd (artnet_send_diagnostic e n prio port (Some msg))) = sent n @ [p]"
    using assms(1-4,6) bs
    by (simp add: artnet_send_diagnostic_def artnet_tx_diagdata_def Let_def send_new_def net_send_sent
        not_less diag_fields_def p_def to_def layout)
  have data: "p_data p = fill artnet_diagdata_s (diag_fields prio port ?len ?bs) (header ARTNET_DIAGDATA)"
    and len: "p_length p = 19 + ?len" and to: "p_to p = to"
    by (simp_all add: p_def new_packet_def)
  have form: "\<exists>pr po l cs. length cs \<le> 512 \<and> diag_fields prio port ?len ?bs = diag_fields pr po l cs"
    by (intro exI [of _ prio] exI [of _ port] exI [of _ ?len] exI [of _ ?bs]) simp
  note byte = diag_form.byte [OF form data]
  have fields: "get8 artnet_diagdata_s ''diagPriority'' (delivered p) = prio"
    "get8 artnet_diagdata_s ''logicalPort'' (delivered p) = port"
    "get8 artnet_diagdata_s ''lengthHi'' (delivered p) = hi_byte (?len + 1)"
    "get8 artnet_diagdata_s ''length'' (delivered p) = lo_byte (?len + 1)"
    by (rule byte, simp add: diag_fields_def, simp add: len layout)+
  have short: "get_short artnet_diagdata_s ''lengthHi'' ''length'' (delivered p) = ?len + 1"
    by (simp add: get_short_def fields hi_lo_bytes)
  have "p_data (delivered p) (18 + nat ?len) = p_data p (18 + nat ?len)"
    by (rule delivered_byte) (simp add: len)
  also have "\<dots> = 0"
    by (simp add: data diag_fields_def put_def put_bytes_def layout header_bytes(5) bytes_of_def) linarith
  finally have zero: "get_at artnet_diagdata_s ''data'' (nat ?len) (delivered p) = 0"
    by (simp add: get_at_def layout)
  have "valid_fields ARTNET_DIAGDATA (delivered p)"
    using assms(5) zero by (auto simp: valid_diagdata_def short fields payload_fits_def len layout Let_def)
  then have "packet_is_valid (delivered p)"
    using diag_form.accepted [OF form data] len by (simp add: layout)
  moreover have "text_at artnet_diagdata_s ''data'' ?len (delivered p) = ?bs"
  proof -
    have "get_n artnet_diagdata_s ''data'' (nat ?len) (delivered p) = ?bs"
      using bs(2) by (intro diag_form.bytes [OF form data]) (simp_all add: diag_fields_def len layout)
    moreover have "\<forall>b \<in> set ?bs. b \<noteq> 0"
      using assms(7) byte_of_char_0 by (auto simp: bytes_of_def dest!: in_set_takeD)
    ultimately show ?thesis by (simp add: text_at_def takeWhile_eq_all_conv)
  qed
  then have "diag_shown (delivered p) = (diag_priority_name prio, port, ?bs)"
    by (simp add: diag_shown_def short fields Let_def)
  ultimately show ?thesis using sent to by (auto simp: to_def)
qed

text \<open>The node of the demonstrations, with its diagnostics switched on.\<close>

definition talkative_node :: node where
  "talkative_node = demo_node\<lparr>diag_enabled := True, diag_priority := 0x10\<rparr>"

theorem message_received_witness:
  "\<exists>p. sent (snd (artnet_send_diagnostic quiet_env talkative_node 0x80 1 (Some ''lamp''))) =
       sent talkative_node @ [p] \<and>
     diag_shown (delivered p) = (''HIGH'', 1, bytes_of ''lamp'')"
proof -
  have "mode talkative_node = ARTNET_ON" "diag_enabled talkative_node" "diag_priority talkative_node = 0x10"
    "\<not> diag_unicast talkative_node"
    by (simp_all add: talkative_node_def) (simp add: demo_node_def zero_node_def)
  moreover have "take 511 (bytes_of ''lamp'') = bytes_of ''lamp''" by (simp add: bytes_of_def)
  moreover have "diag_priority_name 0x80 = ''HIGH''" by (simp add: diag_priority_name_def)
  ultimately show ?thesis
    using message_received [OF observer_quiet, where n = talkative_node and prio = "0x80" and port = 1
        and msg = "''lamp''"] by auto
qed

end
