(* ===== verification/Stream_Properties.thy ===== *)
theory Stream_Properties
  imports Streams Manager_Properties Send_Properties
begin

text \<open>
  The small programs as a whole: every session with one of them is in order; on which universes the
  receivers and the transmitter are; what a round of the transmitter sends, in its three modes; and
  when the RDM controller sends anything.
\<close>

section \<open>Sessions\<close>

definition survives ::
    "(event \<Rightarrow> 'a app_scheme \<Rightarrow> 'a app_scheme option) \<Rightarrow> event list \<Rightarrow> 'a app_scheme option \<Rightarrow> bool" where
  "survives round evs start \<longleftrightarrow>
     (case start of
        None \<Rightarrow> True
      | Some a \<Rightarrow>
          (case session round evs a of None \<Rightarrow> False | Some b \<Rightarrow> node_ok (lib b) \<and> \<not> stray b))"

lemma app_ok_survives:
  assumes "\<And>a. start = Some a \<Longrightarrow> app_ok e a"
    and "\<And>a. app_ok e a \<Longrightarrow> \<exists>b. session round evs a = Some b \<and> app_ok e b"
  shows "survives round evs start"
proof (cases start)
  case (Some a)
  then obtain b where b: "session round evs a = Some b" "app_ok e b" using assms by blast
  then have "fits (lib b)" using solo_modest by (auto simp: app_in_def)
  with Some b show ?thesis by (simp add: survives_def app_in_def fits_def)
qed (simp add: survives_def)


lemma demo_rx_tc_start: "\<exists>a. rx_tc_start quiet_env demo_platform [] = Some a"
proof -
  have "keeps_role [\<lambda>n. artnet_set_handler n (Some ARTNET_TIMECODE_HANDLER) (Some print_fn) 0]"
    by (simp add: keeps_role_def)
  then have "role (configure rx_tc_config demo_new) = (ARTNET_NODE, ARTNET_STANDBY, rdm_reply_addr demo_new)"
    using configure_identified mode_demo_new unfolding rx_tc_config_def by metis
  from demo_launch [OF this, of "printing quiet_env"] show ?thesis
    by (auto simp: rx_tc_start_def node_start_def)
qed


section \<open>On which universes the programs are\<close>

text \<open>What a configuration does to the output ports of a new node, which has net and subnet 0.\<close>

definition unset_port :: "output_port \<Rightarrow> bool" where
  "unset_port p \<longleftrightarrow> port_addr p = 0 \<and> port_net_ctl p = 0 \<and> \<not> port_enabled p"

definition numbered_to :: "int \<Rightarrow> nat \<Rightarrow> node \<Rightarrow> bool" where
  "numbered_to u k n \<longleftrightarrow>
     netSwitch n = 0 \<and> subSwitch n = 0 \<and>
     (\<forall>i < 4. if i < k \<and> u + int i \<le> 15
               then port_addr (out_ports n i) = make_addr 0 0 (word_of_int (u + int i))
               else unset_port (out_ports n i))"

lemma numbered_cong:
  "netSwitch m = netSwitch n \<Longrightarrow> subSwitch m = subSwitch n \<Longrightarrow> out_ports m = out_ports n \<Longrightarrow>
     numbered_to u k m = numbered_to u k n"
  by (simp add: numbered_to_def)

lemma number_port:
  assumes "observer e" "numbered_to u k n" "k < 4" "0 \<le> u" "u \<le> 15"
  shows "numbered_to u (Suc k)
    (snd (artnet_set_port_addr e (snd (artnet_set_port_type n (int k) st ty)) (int k)
            (Some ARTNET_OUTPUT_PORT) (word_of_int (u + int k))))"
proof -
  let ?n = "snd (artnet_set_port_type n (int k) st ty)"
  let ?addr = "word_of_int (u + int k) :: u8"
  have n: "numbered_to u k ?n"
    using assms(2) by (subst numbered_cong [of _ n]) (simp_all add: artnet_set_port_type_def)
  have val: "uint ?addr = u + int k"
    unfolding uint_word_of_int_eq using assms(3-5) by (simp add: take_bit_int_eq_self)
  have small: "15 < ?addr \<longleftrightarrow> \<not> u + int k \<le> 15" unfolding word_less_def val by auto
  have unset: "unset_port (out_ports ?n k)" and sw: "netSwitch ?n = 0" "subSwitch ?n = 0"
    using n assms(3) by (auto simp: numbered_to_def)
  show ?thesis
  proof (cases "u + int k \<le> 15")
    case True
    let ?m = "snd (artnet_set_port_addr e ?n (int k) (Some ARTNET_OUTPUT_PORT) ?addr)"
    have "out_ports ?m = (out_ports ?n)(k := set_out_addr ?n ?addr (out_ports ?n k))"
      "netSwitch ?m = netSwitch ?n" "subSwitch ?m = subSwitch ?n"
      using True small assms(1,3)
      by (simp_all add: artnet_set_port_addr_def Let_def addr_result_def upd_out_def)
    moreover have "port_addr (set_out_addr ?n ?addr (out_ports ?n k)) = make_addr 0 0 ?addr"
      using unset sw by (simp add: set_out_addr_def addr_changes_def unset_port_def)
    ultimately show ?thesis using n True by (auto simp: numbered_to_def less_Suc_eq)
  next
    case False
    then have "artnet_set_port_addr e ?n (int k) (Some ARTNET_OUTPUT_PORT) ?addr = (ARTNET_EARG, ?n)"
      using small by (simp add: artnet_set_port_addr_def)
    with n False show ?thesis by (auto simp: numbered_to_def less_Suc_eq)
  qed
qed

lemma number_ports:
  assumes "observer e" "numbered_to u 0 n" "k \<le> 4" "0 \<le> u" "u \<le> 15"
  shows "numbered_to u k (configure (concat (map (\<lambda>i.
    [\<lambda>n. artnet_set_port_type n (int i) st ty,
     \<lambda>n. artnet_set_port_addr e n (int i) (Some ARTNET_OUTPUT_PORT) (word_of_int (u + int i))]) [0..<k])) n)"
  using assms(3)
proof (induction k)
  case 0
  with assms(2) show ?case by (simp add: configure_def)
next
  case (Suc k)
  then have "k \<le> 4" "k < 4" by simp_all
  from number_port [OF assms(1) Suc.IH [OF this(1)] this(2) assms(4,5)]
  show ?case by (simp add: configure_def)
qed

lemma configure_append: "configure (fs @ gs) n = configure gs (configure fs n)"
  by (simp add: configure_def)

lemma configure_numbered:
  "list_all (\<lambda>f. \<forall>m. numbered_to u k (snd (f m)) = numbered_to u k m) fs \<Longrightarrow>
     numbered_to u k (configure fs n) = numbered_to u k n"
  by (induction fs arbitrary: n) (simp_all add: configure_def)

lemma number_identity [simp]:
  "numbered_to u k (snd (artnet_set_node_type n t)) = numbered_to u k n"
  "numbered_to u k (snd (artnet_set_style_code n st)) = numbered_to u k n"
  "numbered_to u k (snd (artnet_set_short_name n name)) = numbered_to u k n"
  "numbered_to u k (snd (artnet_set_long_name n name)) = numbered_to u k n"
  "numbered_to u k (snd (artnet_setoem n hi lo)) = numbered_to u k n"
  "numbered_to u k (snd (artnet_setesta n hi lo)) = numbered_to u k n"
  "numbered_to u k (snd (artnet_set_handler n h f ud)) = numbered_to u k n"
  "numbered_to u k (snd (set_own_handler c n f ud)) = numbered_to u k n"
  by (rule numbered_cong;
      simp add: artnet_set_node_type_def artnet_set_style_code_def artnet_set_short_name_def
        artnet_set_long_name_def artnet_setoem_def artnet_setesta_def artnet_set_handler_def
        set_own_handler_def artnet_tx_build_art_poll_reply_def split: option.split)+

lemma new_numbered:
  assumes "artnet_new e ok ifaces ip = Some n"
  shows "numbered_to u 0 n"
proof -
  let ?z = "zero_node\<lparr>oem_hi := OEM_HI, oem_lo := OEM_LO, esta_hi := ESTA_HI,
    esta_lo := ESTA_LO, bcast_limit := 0, peer := None, master := True\<rparr>"
  obtain ret m where init: "artnet_net_init e ifaces ?z ip = (ret, m)" by fastforce
  have m: "out_ports m = (\<lambda>_. zero_out_port)" "netSwitch m = 0" "subSwitch m = 0"
    using net_init_cases [OF init] by (auto simp: zero_node_def)
  have ports: "i < 4 \<Longrightarrow> i = 0 \<or> i = 1 \<or> i = 2 \<or> i = 3" for i :: nat by auto
  show ?thesis
    using assms init m
    by (auto simp: artnet_new_def Let_def for_upto_4 new_ports_def numbered_to_def unset_port_def
        zero_out_port_def split: if_splits dest!: ports)
qed

lemma start_keeps_ports:
  assumes "node_type n \<noteq> ARTNET_SRV"
  shows "numbered_to u k (snd (artnet_start e so n)) = numbered_to u k n"
  using assms
  by (intro numbered_cong) (simp_all add: artnet_start_def artnet_tx_build_art_poll_reply_def)

lemma receiver_numbered:
  assumes "observer e" "launch e pf ip (identify ARTNET_NODE st s l @
      [\<lambda>n. artnet_setoem n 0xFF 0x00, \<lambda>n. artnet_setesta n 0x00 0xFF] @ rx_ports e os @ hs) = Some n"
    and "0 \<le> opt_universe os" "opt_universe os \<le> 15" "keeps_role hs"
    and "list_all (\<lambda>f. \<forall>m. numbered_to (opt_universe os) 4 (snd (f m)) = numbered_to (opt_universe os) 4 m) hs"
  shows "numbered_to (opt_universe os) 4 n"
proof -
  let ?u = "opt_universe os"
  let ?pre = "identify ARTNET_NODE st s l @ [\<lambda>n. artnet_setoem n 0xFF 0x00, \<lambda>n. artnet_setesta n 0x00 0xFF]"
  let ?config = "?pre @ rx_ports e os @ hs"
  obtain m where new: "artnet_new e (allocated pf) (interfaces pf) ip = Some m"
    "n = snd (artnet_start e (socket_calls pf) (configure ?config m))"
    using launch_started [OF assms(2)] by (metis append_assoc)
  have "numbered_to ?u 0 (configure ?pre m)"
    using new_numbered [OF new(1)] by (subst configure_numbered) (simp_all add: identify_def)
  then have "numbered_to ?u 4 (configure (rx_ports e os) (configure ?pre m))"
    unfolding rx_ports_def using number_ports [OF assms(1)] assms(3,4) by simp
  then have "numbered_to ?u 4 (configure ?config m)"
    using configure_numbered [OF assms(6)] by (simp only: configure_append)
  moreover have "keeps_role ([\<lambda>n. artnet_setoem n 0xFF 0x00, \<lambda>n. artnet_setesta n 0x00 0xFF] @ rx_ports e os @ hs)"
    using assms(1,5) by (auto simp: keeps_role_def rx_ports_def list_all_iff)
  then have "node_type (configure ?config m) = ARTNET_NODE"
    using configure_identified [of _ ARTNET_NODE st s l m] by (simp add: role_def)
  ultimately show ?thesis using start_keeps_ports [of "configure ?config m"] new(2) by auto
qed

text \<open>The address that the programs print.\<close>

lemma or_digits:
  fixes x y :: int
  assumes "0 \<le> y" "y < 2 ^ k"
  shows "push_bit k x OR y = 2 ^ k * x + y"
proof -
  have "take_bit k y = y" using assms by (simp add: take_bit_int_eq_self)
  then have "push_bit k x OR y = concat_bit k y x"
    by (simp add: concat_bit_def or.commute)
  also have "\<dots> = y + push_bit k x"
    using \<open>take_bit k y = y\<close> by (simp add: concat_bit_eq)
  finally show ?thesis by (simp add: push_bit_eq_mult mult.commute)
qed

lemma port_address_value:
  assumes "0 \<le> net" "net \<le> 127" "0 \<le> sub" "sub \<le> 15" "0 \<le> u" "u \<le> 15"
  shows "uint (port_address net sub u) = 256 * net + 16 * sub + u"
proof -
  have "push_bit 4 sub OR u = 16 * sub + u" using or_digits [of u 4 sub] assms by simp
  moreover have "push_bit 8 net OR (16 * sub + u) = 256 * net + (16 * sub + u)"
    using or_digits [of "16 * sub + u" 8 net] assms by simp
  ultimately have "push_bit 8 net OR push_bit 4 sub OR u = 256 * net + 16 * sub + u"
    by (simp add: or.assoc)
  then have "port_address net sub u = word_of_int (256 * net + 16 * sub + u)"
    unfolding port_address_def by (rule arg_cong)
  moreover have "uint (word_of_int (256 * net + 16 * sub + u) :: u16) = 256 * net + 16 * sub + u"
    unfolding uint_word_of_int_eq using assms by (simp add: take_bit_int_eq_self)
  ultimately show ?thesis by simp
qed

text \<open>The receiver and the target node take a net and a subnet, and print for each port the
  address that these make with the port's number; but they never tell the library: the port is on
  that number in net 0 and subnet 0, and a port whose number would be above 15 is on 0.\<close>

theorem receivers_ignore_net:
  assumes "rx_start e pf args = Some a \<or> target_start e pf args = Some a"
    and "parse_node_options args = Some os" "i < 4"
  defines "u \<equiv> opt_universe os + int i"
  shows "uint (port_addr (out_ports (lib a) i)) = (if u \<le> 15 then u else 0) \<and>
    (u \<le> 15 \<longrightarrow> uint (port_address (opt_net os) (opt_subnet os) u) =
       256 * opt_net os + 16 * opt_subnet os + u)"
proof -
  have os: "0 \<le> opt_net os" "opt_net os \<le> 127" "0 \<le> opt_subnet os" "opt_subnet os \<le> 15"
      "0 \<le> opt_universe os" "opt_universe os \<le> 15"
    using assms(2) by (auto simp: parse_node_options_def node_options_ok_def split: option.splits if_splits)
  note numbered = receiver_numbered [OF observer_printing _ os(5,6)]
  have "numbered_to (opt_universe os) 4 (lib a)"
    using assms(1)
  proof
    assume "rx_start e pf args = Some a"
    then have "launch (printing e) pf (opt_ip os) (rx_config (printing e) os) = Some (lib a)"
      using assms(2) by (auto simp: rx_start_def optioned_start_def running_node_def)
    then show ?thesis
      unfolding rx_config_def
      by (rule numbered) (simp_all add: keeps_role_def artnet_set_dmx_handler_def)
  next
    assume "target_start e pf args = Some a"
    then have "launch (printing e) pf (opt_ip os) (target_config (printing e) os) = Some (lib a)"
      using assms(2) by (auto simp: target_start_def optioned_start_def running_node_def)
    then show ?thesis
      unfolding target_config_def
      by (rule numbered) (simp_all add: keeps_role_def artnet_set_dmx_handler_def artnet_set_program_handler_def)
  qed
  then have port: "port_addr (out_ports (lib a) i) = (if u \<le> 15 then make_addr 0 0 (word_of_int u) else 0)"
    using assms(3) by (auto simp: numbered_to_def u_def unset_port_def)
  have "0 \<le> u" using os(5) by (simp add: u_def)
  then have "uint (word_of_int u :: u8) = u" if "u \<le> 15"
    unfolding uint_word_of_int_eq using that by (simp add: take_bit_int_eq_self)
  then have "uint (port_addr (out_ports (lib a) i)) = (if u \<le> 15 then u else 0)"
    using \<open>0 \<le> u\<close> by (simp add: port uint_make_addr)
  with port_address_value [OF os(1-4) \<open>0 \<le> u\<close>] show ?thesis by blast
qed

lemma rx_keeps_role:
  assumes "observer e"
  shows "role (configure (rx_config e os) n) = (ARTNET_NODE, mode n, rdm_reply_addr n)"
  unfolding rx_config_def
  by (rule configure_identified)
     (use assms in \<open>auto simp: keeps_role_def rx_ports_def list_all_iff artnet_set_dmx_handler_def\<close>)

theorem receivers_ignore_net_witness:
  "\<exists>a. rx_start quiet_env demo_platform [''-n'', ''1'', ''-u'', ''14''] = Some a \<and>
     port_addr (out_ports (lib a) 1) = 15 \<and> port_addr (out_ports (lib a) 2) = 0 \<and>
     port_address 1 0 15 = 271"
proof -
  let ?args = "[''-n'', ''1'', ''-u'', ''14'']"
  let ?os = "\<lparr>opt_ip = None, opt_net = 1, opt_subnet = 0, opt_universe = 14\<rparr>"
  have "atoi ''1'' = 1" "atoi ''14'' = 14" by code_simp+
  then have os: "parse_node_options ?args = Some ?os"
    by (simp add: parse_node_options_def node_options_ok_def)
  obtain n where "launch (printing quiet_env) demo_platform None (rx_config (printing quiet_env) ?os) = Some n"
    using demo_launch [OF rx_keeps_role [OF observer_printing, of quiet_env ?os demo_new, unfolded mode_demo_new],
        of "printing quiet_env"] by auto
  then obtain a where a: "rx_start quiet_env demo_platform ?args = Some a"
    using os by (simp add: rx_start_def optioned_start_def)
  note ports = receivers_ignore_net [OF disjI1 [OF a] os]
  have "uint (port_addr (out_ports (lib a) 1)) = 15" "uint (port_addr (out_ports (lib a) 2)) = 0"
    "uint (port_address 1 0 15) = 271"
    using ports [of 1] ports [of 2] by simp_all
  moreover have "x = word_of_int k" if "uint x = k" for x :: u16 and k
    using that by (metis word_of_int_uint)
  ultimately have "port_addr (out_ports (lib a) 1) = 15" "port_addr (out_ports (lib a) 2) = 0"
    "port_address 1 0 15 = 271"
    by (metis word_of_int_numeral word_of_int_0)+
  with a show ?thesis by blast
qed

section \<open>The transmitter's modes\<close>

lemma transmitter_role:
  assumes "observer e"
  shows "role (configure (tx_config e os) n) = (ARTNET_NODE, mode n, rdm_reply_addr n)"
  unfolding tx_config_def
  by (rule configure_identified) (use assms in \<open>auto simp: keeps_role_def list_all_iff\<close>)

lemma transmitter_is_node:
  assumes "tx_start e pf args = Some a"
  shows "node_type (lib a) = ARTNET_NODE"
proof -
  obtain os where "launch (printing e) pf (tx_ip os) (tx_config (printing e) os) = Some (lib a)"
    using assms by (auto simp: tx_start_def split: option.splits)
  then obtain m where
    m: "lib a = snd (artnet_start (printing e) (socket_calls pf) (configure (tx_config (printing e) os) m))"
    by (rule launch_started)
  have "node_type (configure (tx_config (printing e) os) m) = ARTNET_NODE"
    using transmitter_role [OF observer_printing, of e os m] by (simp add: role_def)
  with start_keeps(1) [OF observer_only_sends [OF observer_printing]] m show ?thesis by simp
qed

lemma node_mode_silent:
  assumes "node_type n = ARTNET_NODE" "tx_start_code os \<noteq> 0 \<or> tx_raw_mode os"
  shows "\<exists>r. tx_port e sine os t i n = Some (r, n)"
  using assms by (auto simp: tx_port_def Let_def artnet_send_nzs_def artnet_raw_send_dmx_def)

lemma node_modes_silent:
  assumes "node_type n = ARTNET_NODE" "tx_start_code os \<noteq> 0 \<or> tx_raw_mode os"
  shows "tx_ports e sine os t is n = Some n"
proof (induction "is")
  case (Cons i "is")
  then show ?case using node_mode_silent [OF assms, of e sine t i] by auto
qed simp

text \<open>With a start code (\<open>-z\<close>) or with 15 bit universes (\<open>-r\<close>) the transmitter sends no
  level at all: its node is of the type \<open>ARTNET_NODE\<close>, which the library lets send neither, and a
  round sends the ArtSync alone.\<close>

theorem other_modes_send_no_levels:
  assumes "tx_start e pf args = Some a" "tx_start_code (tx_os a) \<noteq> 0 \<or> tx_raw_mode (tx_os a)"
    and "node_type (lib b) = node_type (lib a)" "tx_os b = tx_os a"
  shows "\<exists>c. tx_send e sine b = Some c \<and> lib c = snd (artnet_send_sync (printing e) (lib b))"
proof -
  have "node_type (lib b) = ARTNET_NODE" using transmitter_is_node [OF assms(1)] assms(3) by simp
  from node_modes_silent [OF this, of "tx_os b"] assms(2,4) show ?thesis
    by (simp add: tx_send_def Let_def call_def)
qed

theorem other_modes_send_no_levels_witness:
  "\<exists>a c. tx_start quiet_env demo_platform [''-r''] = Some a \<and> tx_raw_mode (tx_os a) \<and>
     tx_send quiet_env (\<lambda>t i. 255) a = Some c \<and>
     lib c = snd (artnet_send_sync (printing quiet_env) (lib a))"
proof -
  let ?os = "tx_normal (tx_defaults\<lparr>tx_raw_mode := True\<rparr>)"
  have os: "parse_tx_options [''-r''] = Some ?os"
    by (simp add: parse_tx_options_def tx_defaults_def)
  have ip: "tx_ip ?os = None" "tx_raw_mode ?os" by (simp_all add: tx_normal_def tx_defaults_def Let_def)
  obtain n where "launch (printing quiet_env) demo_platform None (tx_config (printing quiet_env) ?os) = Some n"
    using demo_launch [OF transmitter_role [OF observer_printing, of quiet_env ?os demo_new,
          unfolded mode_demo_new], of "printing quiet_env"] by auto
  then obtain a where a: "tx_start quiet_env demo_platform [''-r''] = Some a" "tx_os a = ?os"
    using os ip by (simp add: tx_start_def)
  with other_modes_send_no_levels [OF a(1) _ refl refl, of "\<lambda>t i. 255"] ip(2) show ?thesis by auto
qed

section \<open>A round of the transmitter\<close>

lemma moved_unicast: "observer e \<Longrightarrow> moved n (unicast_all e p tos n)"
  by (induction tos arbitrary: n) (auto intro: moved_trans [OF moved_net_send])

lemma dmx_send_others:
  assumes "calm e" "fits n" "mode n = ARTNET_ON" "i < 4" "\<not> bad_dmx_length len"
    and "port_status (in_ports n i) AND PORT_STATUS_INPUT_DISABLED = 0"
    and "artnet_send_dmx e n (int i) len data = Some (ret, n')"
  shows "j \<noteq> i \<Longrightarrow> in_ports n' j = in_ports n j" "nodes n' = nodes n" "ip_addr n' = ip_addr n"
    "mode n' = mode n" "bcast_addr n' = bcast_addr n" "fits n'"
proof -
  let ?n = "upd_in i (\<lambda>p. p\<lparr>port_status := port_status p OR PORT_STATUS_ACT_MASK\<rparr>) n"
  let ?k = "snd (c_malloc e ?n)"
  have obs: "observer e" using assms(1) by (simp add: calm_def)
  obtain p tos c now m where n': "n' = upd_in i (mark_sent data len now) (m\<lparr>clk := c\<rparr>)"
    and m: "m = unicast_all e p tos ?k"
    using dmx_send_state [OF assms(1-6), of data] assms(7) by auto
  obtain s1 s2 s3 where "m = ?k\<lparr>sends := s1, sent := s2, report_code := s3\<rparr>"
    using moved_unicast [OF obs, of ?k p tos] m unfolding moved_def by blast
  then show "j \<noteq> i \<Longrightarrow> in_ports n' j = in_ports n j" "nodes n' = nodes n" "ip_addr n' = ip_addr n"
    "mode n' = mode n" "bcast_addr n' = bcast_addr n"
    by (simp_all add: n' c_malloc_def upd_in_def)
  show "fits n'" using fits_send_dmx [OF _ assms(2,7)] obs by simp
qed

definition frames_of :: "(int \<Rightarrow> nat \<Rightarrow> u8) \<Rightarrow> tx_options \<Rightarrow> int \<Rightarrow> node \<Rightarrow> nat \<Rightarrow> packet list" where
  "frames_of sine os t n i =
     map (\<lambda>to. (dmx_packet (seq (in_ports n i)) (of_nat i) (port_addr (in_ports n i)) (tx_channels os)
                   (tx_frame sine (tx_channels os) t i))\<lparr>p_from := ip_addr n, p_to := to\<rparr>)
       (subscribers n (port_addr (in_ports n i)))"

definition sends_levels :: "node \<Rightarrow> nat \<Rightarrow> bool" where
  "sends_levels n i \<longleftrightarrow> i < 4 \<and> port_status (in_ports n i) AND PORT_STATUS_INPUT_DISABLED = 0"

lemma tx_ports_sent:
  assumes "calm e" "\<not> bad_dmx_length (tx_channels os)" "tx_start_code os = 0" "\<not> tx_raw_mode os"
    and "fits n" "mode n = ARTNET_ON" "distinct is" "list_all (sends_levels n) is"
  shows "\<exists>m. tx_ports e sine os t is n = Some m \<and>
    sent m = sent n @ concat (map (frames_of sine os t n) is) \<and> mode m = ARTNET_ON \<and>
    bcast_addr m = bcast_addr n"
  using assms(5-8)
proof (induction "is" arbitrary: n)
  case (Cons i "is")
  have i: "i < 4" "port_status (in_ports n i) AND PORT_STATUS_INPUT_DISABLED = 0"
    using Cons.prems(4) by (simp_all add: sends_levels_def)
  obtain k where k: "artnet_send_dmx e n (int i) (tx_channels os) (tx_frame sine (tx_channels os) t i) =
      Some (ARTNET_EOK, k)" "sent k = sent n @ frames_of sine os t n i"
    using dmx_send_result [OF assms(1) Cons.prems(1,2) i(1) assms(2) i(2)] unfolding frames_of_def by blast
  note others = dmx_send_others [OF assms(1) Cons.prems(1,2) i(1) assms(2) i(2) k(1)]
  have "frames_of sine os t k j = frames_of sine os t n j" "sends_levels k j = sends_levels n j" if "j \<noteq> i" for j
    using others(1) [OF that] others(2,3) by (simp_all add: frames_of_def subscribers_def sends_levels_def)
  moreover have "j \<noteq> i" if "j \<in> set is" for j using that Cons.prems(3) by auto
  ultimately have same: "map (frames_of sine os t k) is = map (frames_of sine os t n) is"
    "list_all (sends_levels k) is"
    using Cons.prems(4) by (simp_all add: list_all_iff)
  have "fits k" "mode k = ARTNET_ON" "distinct is" using others(4,6) Cons.prems(2,3) by simp_all
  from Cons.IH [OF this same(2)] same(1) k others(5) assms(3,4) show ?case
    by (auto simp: tx_port_def)
qed simp

lemma tx_channels_legal:
  assumes "parse_tx_options args = Some os" "tx_start_code os = 0"
  shows "\<not> bad_dmx_length (tx_channels os)"
  using assms
  by (auto simp: parse_tx_options_def tx_normal_def bad_dmx_length_iff Let_def split: option.splits if_splits)
     presburger+

text \<open>C38: A round of the transmitter with its usual settings and none of its inputs disabled sends, for
  each of the four ports, one frame to each node of the list that has an output port on the port's
  universe: a frame of a legal length with the sine at the port's own channel and zeros elsewhere; and
  after the frames one ArtSync to everyone.\<close>

theorem transmitter_round:
  assumes "\<forall>k. env_malloc e k" "parse_tx_options args = Some (tx_os a)"
    and "tx_start_code (tx_os a) = 0" "\<not> tx_raw_mode (tx_os a)" "fits (lib a)"
    and "mode (lib a) = ARTNET_ON" "\<forall>i < 4. sends_levels (lib a) i"
  shows "\<exists>b p. tx_send e sine a = Some b \<and>
    sent (lib b) =
      sent (lib a) @ concat (map (frames_of sine (tx_os a) (tx_tick a + 1) (lib a)) [0..<4]) @ [p] \<and>
    p_type p = opcode ARTNET_SYNC \<and> p_to p = bcast_addr (lib a) \<and> tx_tick b = tx_tick a + 1"
proof -
  have calm: "calm (printing e)" using assms(1) by (simp add: calm_def) (simp add: printing_def)
  have all: "distinct [0..<4]" "list_all (sends_levels (lib a)) [0..<4]"
    using assms(7) by (simp_all add: list_all_iff del: upt_rec_numeral)
  from tx_ports_sent [OF calm tx_channels_legal [OF assms(2,3)] assms(3-6) all] obtain m where
    m: "tx_ports (printing e) sine (tx_os a) (tx_tick a + 1) [0..<4] (lib a) = Some m"
    "sent m = sent (lib a) @ concat (map (frames_of sine (tx_os a) (tx_tick a + 1) (lib a)) [0..<4])"
    "mode m = ARTNET_ON" "bcast_addr m = bcast_addr (lib a)"
    by blast
  then show ?thesis
    by (simp add: tx_send_def Let_def call_def artnet_send_sync_def artnet_tx_sync_def send_new_def
        net_send_sent new_packet_def del: upt_rec_numeral opcode.simps)
qed

theorem transmitter_round_witness:
  "\<exists>b. tx_send quiet_env (\<lambda>t i. 255) \<lparr>stdin = [], lib = found_node, running = True, stray = False,
       tx_os = tx_normal tx_defaults, tx_tick = 0\<rparr> = Some b \<and>
     map p_to (sent (lib b)) = replicate 4 0x0200000A @ [bcast_addr found_node] \<and> tx_tick b = 1"
proof -
  let ?a = "\<lparr>stdin = [], lib = found_node, running = True, stray = False,
    tx_os = tx_normal tx_defaults, tx_tick = 0\<rparr> :: tx_app"
  have "parse_tx_options [] = Some (tx_normal tx_defaults)"
    by (simp add: parse_tx_options_def tx_defaults_def)
  moreover have "tx_start_code (tx_normal tx_defaults) = 0" "\<not> tx_raw_mode (tx_normal tx_defaults)"
    by (simp_all add: tx_normal_def tx_defaults_def Let_def)
  moreover have "\<forall>k. env_malloc quiet_env k" by (simp add: quiet_env_def)
  moreover have "\<forall>i < 4. sends_levels found_node i" by (simp add: sends_levels_def zero_in_port_def)
  ultimately show ?thesis
    using transmitter_round [of quiet_env "[]" ?a "\<lambda>t i. 255"] fits_found_node
    by (auto simp: frames_of_def numeral_eq_Suc zero_in_port_def)
qed

section \<open>The RDM controller\<close>

lemma new_without_rdm:
  assumes "artnet_new e ok ifaces ip = Some n"
  shows "rdm_reply_addr n = 0"
proof -
  let ?z = "zero_node\<lparr>oem_hi := OEM_HI, oem_lo := OEM_LO, esta_hi := ESTA_HI,
    esta_lo := ESTA_LO, bcast_limit := 0, peer := None, master := True\<rparr>"
  obtain ret m where init: "artnet_net_init e ifaces ?z ip = (ret, m)" by fastforce
  then have "rdm_reply_addr m = 0"
    using net_init_cases [OF init] by (auto simp: zero_node_def use_iface_def)
  with assms init show ?thesis
    by (auto simp: artnet_new_def Let_def for_upto_4 new_ports_def split: if_splits)
qed

lemma rdm_controller_role:
  assumes "observer e"
  shows "role (configure (rc_config e) n) = (ARTNET_SRV, mode n, rdm_reply_addr n)"
  unfolding rc_config_def
  by (rule configure_identified)
     (use assms in \<open>auto simp: keeps_role_def port_config_def Let_def list_all_iff\<close>)

lemma rdm_controller_started:
  assumes "rc_start e pf args input = Some a"
  shows "rdm_reply_addr (lib a) = 0"
proof -
  have obs: "observer (printing e)" and only: "only_sends (printing e)" by simp_all
  obtain ip n where n: "launch (printing e) pf ip (rc_config (printing e)) = Some n"
    "lib a = snd (artnet_send_poll (printing e) n None ARTNET_TTM_AUTO)"
    using assms by (auto simp: rc_start_def controller_start_def split: option.splits)
  obtain m where m: "artnet_new (printing e) (allocated pf) (interfaces pf) ip = Some m"
    "n = snd (artnet_start (printing e) (socket_calls pf) (configure (rc_config (printing e)) m))"
    using n(1) by (rule launch_started)
  have "rdm_reply_addr n = 0"
    using start_keeps(2) [OF only] rdm_controller_role [OF obs, of m] new_without_rdm [OF m(1)] m(2)
    by (simp add: role_def)
  moreover have "rdm_reply_addr (lib a) = rdm_reply_addr n"
    using role_sends(1) [OF only] n(2) by (simp add: role_def artnet_send_poll_def artnet_tx_poll_def)
  ultimately show ?thesis by simp
qed

text \<open>The RDM controller cannot begin: as long as no RDM has come from a node, the address it would
  send to is the one it started with, none, and its command r, whatever universe and bytes are typed,
  sends nothing.\<close>

theorem rdm_controller_waits:
  assumes "rc_start e pf args input = Some a" "rdm_reply_addr (lib b) = rdm_reply_addr (lib a)"
  shows "lib (rc_cmd_rdm (printing e) h b) = lib b"
  using rdm_controller_started [OF assms(1)] assms(2)
  by (simp add: rc_cmd_rdm_def with_line_def call_def artnet_send_rdm_def artnet_tx_rdm_def Let_def
      split: option.split)

theorem rdm_controller_waits_witness:
  "\<exists>a. rc_start quiet_env demo_platform [] (''0000'' @ newline # ''CC 01 00'' @ newline # []) = Some a \<and>
     lib (rc_cmd_rdm (printing quiet_env) demo_runtime a) = lib a"
proof -
  have "sends_whole (printing quiet_env)"
    by (simp add: sends_whole_def) (simp add: printing_def quiet_env_def)
  then obtain n where "launch (printing quiet_env) demo_platform None (rc_config (printing quiet_env)) = Some n"
    using demo_launch [OF rdm_controller_role [OF observer_printing, of quiet_env demo_new, unfolded mode_demo_new],
        of "printing quiet_env"] by auto
  then obtain a where
    a: "rc_start quiet_env demo_platform [] (''0000'' @ newline # ''CC 01 00'' @ newline # []) = Some a"
    by (auto simp: rc_start_def controller_start_def)
  from rdm_controller_waits [OF a refl, of demo_runtime] a show ?thesis by simp
qed

end
